(* ===== verification/Py_Prelude.thy ===== *)
theory Py_Prelude
  imports Complex_Main
begin

text \<open>
  The fragment of Python the sources under \<^verbatim>\<open>src/agents\<close> and \<^verbatim>\<open>src/shared\<close> are written in:
  exceptions as values of a sum type, JSON-shaped dynamic values with their truth value,
  dictionaries as association lists in insertion order, and the string methods the code calls.

  A Python \<^verbatim>\<open>str\<close> is represented by its UTF-8 bytes. The string methods below act on the ASCII
  part of a string, which is what identifiers, hosts, ports and event names are made of.
  A Python \<^verbatim>\<open>float\<close> is represented by the rational number it denotes.
\<close>

named_theorems py_simps \<open>unfolding rules of the Python primitives\<close>

subsection \<open>Exceptions\<close>

datatype exn =
    ValueError string
  | UnknownGoal string
  | InvalidSchedule string
  | TypeError
  | KeyError string
  | AttributeError
  | NoWorkToDo string
  | ContractError string
  | UnknownTenant string
  | UniqueViolation
  | ForeignKeyViolation
  | TargetNotAllowed string
  | ReportUnavailable string
  | UnknownRecord string
  | AMQPError
  | OverflowError
  | CheckViolation
  | NoComparison string

type_synonym 'a py = "exn + 'a"

text \<open>Sequencing of fallible steps: the first exception wins.\<close>

definition bindE :: "'e + 'a \<Rightarrow> ('a \<Rightarrow> 'e + 'b) \<Rightarrow> 'e + 'b" where
  "bindE m f = (case m of Inl e \<Rightarrow> Inl e | Inr x \<Rightarrow> f x)"

fun mapE :: "('a \<Rightarrow> 'e + 'b) \<Rightarrow> 'a list \<Rightarrow> 'e + 'b list" where
  "mapE f [] = Inr []"
| "mapE f (x # xs) = bindE (f x) (\<lambda>y. bindE (mapE f xs) (\<lambda>ys. Inr (y # ys)))"

lemma bindE_simps [simp]:
  "bindE (Inl e) f = Inl e"
  "bindE (Inr x) f = f x"
  by (simp_all add: bindE_def)

lemma bindE_Inr_iff [simp]: "bindE m f = Inr y \<longleftrightarrow> (\<exists>x. m = Inr x \<and> f x = Inr y)"
  by (cases m) simp_all

lemma bindE_Inl_iff: "bindE m f = Inl e \<longleftrightarrow> m = Inl e \<or> (\<exists>x. m = Inr x \<and> f x = Inl e)"
  by (cases m) simp_all

lemma mapE_length: "mapE f xs = Inr ys \<Longrightarrow> length ys = length xs"
  by (induction xs arbitrary: ys) auto

lemma mapE_total: "(\<And>x. x \<in> set xs \<Longrightarrow> \<exists>y. f x = Inr y) \<Longrightarrow> \<exists>ys. mapE f xs = Inr ys"
  by (induction xs) force+

lemma mapE_nth: "mapE f xs = Inr ys \<Longrightarrow> i < length xs \<Longrightarrow> f (xs ! i) = Inr (ys ! i)"
  by (induction xs arbitrary: ys i) (auto simp: nth_Cons split: nat.splits)

subsection \<open>JSON values and dictionaries\<close>

datatype json =
    JNull
  | JBool bool
  | JInt int
  | JFloat rat
  | JStr string
  | JList "json list"
  | JObj "(string \<times> json) list"

type_synonym dict = "(string \<times> json) list"

text \<open>Python's truth value of an object, as \<^verbatim>\<open>if x\<close>, \<^verbatim>\<open>not x\<close> and \<^verbatim>\<open>x or y\<close> read it.\<close>

fun truthy :: "json \<Rightarrow> bool" where
  "truthy JNull = False"
| "truthy (JBool b) = b"
| "truthy (JInt i) = (i \<noteq> 0)"
| "truthy (JFloat r) = (r \<noteq> 0)"
| "truthy (JStr s) = (s \<noteq> [])"
| "truthy (JList xs) = (xs \<noteq> [])"
| "truthy (JObj d) = (d \<noteq> [])"

definition py_or :: "json \<Rightarrow> json \<Rightarrow> json" where
  "py_or a b = (if truthy a then a else b)"

text \<open>\<^verbatim>\<open>d.get(k)\<close> and \<^verbatim>\<open>d.get(k, default)\<close> on a dictionary; \<^verbatim>\<open>None\<close> is \<open>JNull\<close>.\<close>

definition dget :: "dict \<Rightarrow> string \<Rightarrow> json" where
  "dget d k = (case map_of d k of None \<Rightarrow> JNull | Some v \<Rightarrow> v)"

definition dget_default :: "dict \<Rightarrow> string \<Rightarrow> json \<Rightarrow> json" where
  "dget_default d k v = (case map_of d k of None \<Rightarrow> v | Some w \<Rightarrow> w)"

text \<open>\<^verbatim>\<open>d[k]\<close>, which raises on a missing key.\<close>

definition ditem :: "dict \<Rightarrow> string \<Rightarrow> json py" where
  "ditem d k = (case map_of d k of None \<Rightarrow> Inl (KeyError k) | Some v \<Rightarrow> Inr v)"

text \<open>\<^verbatim>\<open>d[k] = v\<close>: an existing key keeps its place, a new one goes last.\<close>

fun dset :: "dict \<Rightarrow> string \<Rightarrow> json \<Rightarrow> dict" where
  "dset [] k v = [(k, v)]"
| "dset ((k', v') # d) k v = (if k' = k then (k, v) # d else (k', v') # dset d k v)"

text \<open>\<^verbatim>\<open>{**a, **b}\<close>.\<close>

definition dmerge :: "dict \<Rightarrow> dict \<Rightarrow> dict" where
  "dmerge a b = foldl (\<lambda>d (k, v). dset d k v) a b"

text \<open>\<^verbatim>\<open>x.get(k)\<close> on a value that is a dictionary only if the data says so.\<close>

fun jget :: "json \<Rightarrow> string \<Rightarrow> json py" where
  "jget (JObj d) k = Inr (dget d k)"
| "jget _ k = Inl AttributeError"

fun as_dict :: "json \<Rightarrow> dict py" where
  "as_dict (JObj d) = Inr d"
| "as_dict _ = Inl AttributeError"

text \<open>Iteration over a value: lists give their items; everything that is not iterable raises.\<close>

fun as_list :: "json \<Rightarrow> json list py" where
  "as_list (JList xs) = Inr xs"
| "as_list (JObj d) = Inr (map (JStr \<circ> fst) d)"
| "as_list (JStr s) = Inr (map (\<lambda>c. JStr [c]) s)"
| "as_list _ = Inl TypeError"

text \<open>\<^verbatim>\<open>len(x)\<close>.\<close>

fun jlen :: "json \<Rightarrow> int py" where
  "jlen (JList xs) = Inr (int (length xs))"
| "jlen (JObj d) = Inr (int (length d))"
| "jlen (JStr s) = Inr (int (length s))"
| "jlen _ = Inl TypeError"

text \<open>\<^verbatim>\<open>x[:n]\<close> for a constant \<^verbatim>\<open>n\<close>.\<close>

fun jtake :: "nat \<Rightarrow> json \<Rightarrow> json py" where
  "jtake n (JList xs) = Inr (JList (take n xs))"
| "jtake n (JStr s) = Inr (JStr (take n s))"
| "jtake n (JObj d) = Inl (KeyError ''slice'')"
| "jtake n _ = Inl TypeError"

text \<open>\<^verbatim>\<open>xs[:n]\<close> for any integer.\<close>

definition slice_to :: "int \<Rightarrow> 'a list \<Rightarrow> 'a list" where
  "slice_to n xs = (if 0 \<le> n then take (nat n) xs else take (length xs - nat (- n)) xs)"

lemma map_of_dset [simp]: "map_of (dset d k v) = (map_of d)(k \<mapsto> v)"
  by (induction d k v rule: dset.induct) auto

lemma dget_dset [simp]: "dget (dset d k v) k' = (if k' = k then v else dget d k')"
  by (simp add: dget_def)

lemma keys_dset: "fst ` set (dset d k v) = insert k (fst ` set d)"
  by (induction d k v rule: dset.induct) auto

lemma distinct_keys_dset: "distinct (map fst d) \<Longrightarrow> distinct (map fst (dset d k v))"
proof (induction d k v rule: dset.induct)
  case (2 k' v' d k v)
  then show ?case
    using keys_dset [of d k v] by (auto simp flip: set_map)
qed simp

lemma dmerge_simps [simp]:
  "dmerge a [] = a"
  "dmerge a ((k, v) # b) = dmerge (dset a k v) b"
  by (simp_all add: dmerge_def)

lemma map_of_dmerge: "distinct (map fst b) \<Longrightarrow> map_of (dmerge a b) = map_of a ++ map_of b"
proof (induction b arbitrary: a)
  case (Cons p b)
  obtain k v where p: "p = (k, v)" by (cases p)
  have "map_of (dmerge a (p # b)) = (map_of a)(k \<mapsto> v) ++ map_of b"
    using Cons by (simp add: p)
  also have "\<dots> = map_of a ++ (map_of b)(k \<mapsto> v)"
    using Cons.prems by (auto simp: p map_add_def fun_eq_iff split: option.splits
        dest: map_of_SomeD intro: rev_image_eqI)
  finally show ?case by (simp only: p map_of.simps fst_conv snd_conv)
qed simp

lemma dget_cons [simp]: "dget ((k, v) # d) k' = (if k = k' then v else dget d k')"
  by (simp add: dget_def)

lemma dget_nil [simp]: "dget [] k = JNull"
  by (simp add: dget_def)

lemma truthy_dgetD: "truthy (dget d k) \<Longrightarrow> map_of d k = Some (dget d k)"
  by (cases "map_of d k") (auto simp: dget_def)

text \<open>An optional string as the JSON value a \<^verbatim>\<open>str | None\<close> attribute becomes.\<close>

fun opt_json :: "string option \<Rightarrow> json" where
  "opt_json None = JNull"
| "opt_json (Some s) = JStr s"

text \<open>\<^verbatim>\<open>f"{type(exc).__name__}: {exc}"\<close>; the wording of the interpreter's own messages is left out.\<close>

fun exn_text :: "exn \<Rightarrow> string" where
  "exn_text (ValueError m) = ''ValueError: '' @ m"
| "exn_text (UnknownGoal m) = ''UnknownGoal: '' @ m"
| "exn_text (InvalidSchedule m) = ''InvalidSchedule: '' @ m"
| "exn_text TypeError = ''TypeError: ''"
| "exn_text (KeyError m) = ''KeyError: '' @ m"
| "exn_text AttributeError = ''AttributeError: ''"
| "exn_text (NoWorkToDo m) = ''NoWorkToDo: '' @ m"
| "exn_text (ContractError m) = ''ContractError: '' @ m"
| "exn_text (UnknownTenant m) = ''UnknownTenant: '' @ m"
| "exn_text UniqueViolation = ''UniqueViolation: ''"
| "exn_text ForeignKeyViolation = ''ForeignKeyViolation: ''"
| "exn_text (TargetNotAllowed m) = ''TargetNotAllowed: '' @ m"
| "exn_text (ReportUnavailable m) = ''ReportUnavailable: '' @ m"
| "exn_text (UnknownRecord m) = ''UnknownRecord: '' @ m"
| "exn_text AMQPError = ''AMQPError: ''"
| "exn_text OverflowError = ''OverflowError: ''"
| "exn_text CheckViolation = ''CheckViolation: ''"
| "exn_text (NoComparison m) = ''NoComparison: '' @ m"

subsection \<open>Strings\<close>

definition is_digit :: "char \<Rightarrow> bool" where
  "is_digit c \<longleftrightarrow> 48 \<le> (of_char c :: nat) \<and> (of_char c :: nat) \<le> 57"

definition is_alpha :: "char \<Rightarrow> bool" where
  "is_alpha c \<longleftrightarrow> (let n = (of_char c :: nat) in 65 \<le> n \<and> n \<le> 90 \<or> 97 \<le> n \<and> n \<le> 122)"

text \<open>\<^verbatim>\<open>str.isspace\<close> on ASCII: tab to carriage return, the four separators, space.\<close>

definition is_space :: "char \<Rightarrow> bool" where
  "is_space c \<longleftrightarrow> (let n = (of_char c :: nat) in 9 \<le> n \<and> n \<le> 13 \<or> 28 \<le> n \<and> n \<le> 32)"

definition lower_char :: "char \<Rightarrow> char" where
  "lower_char c = (let n = (of_char c :: nat) in
     if 65 \<le> n \<and> n \<le> 90 then char_of (n + 32) else c)"

text \<open>For evaluation: the code of a character as an integer, which the simplifier keeps in binary.\<close>

lemma of_char_nat_int: "(of_char c :: int) = int (of_char c)"
  by (simp add: of_nat_of_char)

lemma is_digit_code [code]: "is_digit c \<longleftrightarrow> (let n = (of_char c :: int) in 48 \<le> n \<and> n \<le> 57)"
  by (simp add: is_digit_def of_char_nat_int Let_def)

lemma is_alpha_code [code]: "is_alpha c \<longleftrightarrow> (let n = (of_char c :: int) in 65 \<le> n \<and> n \<le> 90 \<or> 97 \<le> n \<and> n \<le> 122)"
  by (simp add: is_alpha_def of_char_nat_int Let_def)

lemma is_space_code [code]: "is_space c \<longleftrightarrow> (let n = (of_char c :: int) in 9 \<le> n \<and> n \<le> 13 \<or> 28 \<le> n \<and> n \<le> 32)"
  by (simp add: is_space_def of_char_nat_int Let_def)

lemma lower_char_code [code]:
  "lower_char c = (let n = (of_char c :: int) in if 65 \<le> n \<and> n \<le> 90 then char_of (n + 32) else c)"
proof -
  have "char_of (int (of_char c) + 32) = (char_of (of_char c + 32 :: nat) :: char)"
    by (metis char_of_nat of_nat_add of_nat_numeral)
  then show ?thesis by (simp add: lower_char_def of_char_nat_int Let_def)
qed

definition lower :: "string \<Rightarrow> string" where
  "lower s = map lower_char s"

definition strip :: "string \<Rightarrow> string" where
  "strip s = rev (dropWhile is_space (rev (dropWhile is_space s)))"

text \<open>\<^verbatim>\<open>s.partition(c)\<close>: what is before, whether \<^verbatim>\<open>c\<close> occurs, what is after.\<close>

definition partition_at :: "char \<Rightarrow> string \<Rightarrow> string \<times> bool \<times> string" where
  "partition_at c s = (takeWhile (\<lambda>x. x \<noteq> c) s, c \<in> set s, drop 1 (dropWhile (\<lambda>x. x \<noteq> c) s))"

text \<open>The last component of \<^verbatim>\<open>s.rpartition(c)\<close>: everything after the last \<^verbatim>\<open>c\<close>.\<close>

definition after_last :: "char \<Rightarrow> string \<Rightarrow> string" where
  "after_last c s = rev (takeWhile (\<lambda>x. x \<noteq> c) (rev s))"

fun starts_with :: "string \<Rightarrow> string \<Rightarrow> bool" where
  "starts_with [] s = True"
| "starts_with (p # ps) [] = False"
| "starts_with (p # ps) (c # cs) = (p = c \<and> starts_with ps cs)"

fun contains :: "string \<Rightarrow> string \<Rightarrow> bool" where
  "contains p [] = (p = [])"
| "contains p (c # cs) = (starts_with p (c # cs) \<or> contains p cs)"

fun digits_value :: "nat \<Rightarrow> string \<Rightarrow> nat" where
  "digits_value acc [] = acc"
| "digits_value acc (c # cs) = digits_value (10 * acc + (of_char c - 48)) cs"

text \<open>\<^verbatim>\<open>str(n)\<close> for an integer.\<close>

fun show_nat :: "nat \<Rightarrow> string" where
  "show_nat n = (if n < 10 then [char_of (n + 48)] else show_nat (n div 10) @ [char_of (n mod 10 + 48)])"

declare show_nat.simps [simp del]

definition show_int :: "int \<Rightarrow> string" where
  "show_int i = (if i < 0 then ''-'' @ show_nat (nat (- i)) else show_nat (nat i))"

text \<open>
  \<^verbatim>\<open>int(x)\<close>: an integer stays, a float is truncated towards zero, a boolean counts, a string is
  read as a decimal literal with optional sign and single underscores between digits, anything
  else raises.
\<close>

fun read_digits :: "nat \<Rightarrow> bool \<Rightarrow> string \<Rightarrow> nat option" where
  "read_digits acc lastd [] = (if lastd then Some acc else None)"
| "read_digits acc lastd (c # cs) =
     (if is_digit c then read_digits (10 * acc + (of_char c - 48)) True cs
      else if c = CHR ''_'' \<and> lastd then read_digits acc False cs
      else None)"

definition read_int :: "string \<Rightarrow> int option" where
  "read_int s = (case strip s of
       [] \<Rightarrow> None
     | c # cs \<Rightarrow>
         if c = CHR ''-'' then map_option (\<lambda>n. - int n) (read_digits 0 False cs)
         else if c = CHR ''+'' then map_option int (read_digits 0 False cs)
         else map_option int (read_digits 0 False (c # cs)))"

fun py_int :: "json \<Rightarrow> int py" where
  "py_int (JInt i) = Inr i"
| "py_int (JBool b) = Inr (if b then 1 else 0)"
| "py_int (JFloat r) = Inr (if r < 0 then - \<lfloor>- r\<rfloor> else \<lfloor>r\<rfloor>)"
| "py_int (JStr s) = (case read_int s of
       None \<Rightarrow> Inl (ValueError ''invalid literal for int()'') | Some i \<Rightarrow> Inr i)"
| "py_int _ = Inl TypeError"

text \<open>\<^verbatim>\<open>x.strip()\<close> on a value that is a string only if the data says so.\<close>

fun jstrip :: "json \<Rightarrow> string py" where
  "jstrip (JStr s) = Inr (strip s)"
| "jstrip _ = Inl AttributeError"

lemma strip_last: "strip s \<noteq> [] \<Longrightarrow> \<not> is_space (last (strip s))"
proof -
  assume "strip s \<noteq> []"
  then have "dropWhile is_space (rev (dropWhile is_space s)) \<noteq> []"
    by (simp add: strip_def)
  then show ?thesis
    unfolding strip_def by (metis hd_dropWhile last_rev)
qed

lemma strip_idem_nil [simp]: "strip [] = []"
  by (simp add: strip_def)

lemma set_strip: "set (strip s) \<subseteq> set s"
  unfolding strip_def by (metis set_dropWhileD set_rev subsetI)

lemma lower_char_idem: "lower_char (lower_char c) = lower_char c"
proof -
  have "(of_char (char_of (of_char c + 32 :: nat)) :: nat) = of_char c + 32"
    if "of_char c \<le> (90 :: nat)"
    using that by (simp add: of_char_of)
  then show ?thesis
    by (auto simp: lower_char_def Let_def)
qed

lemma lower_idem [simp]: "lower (lower s) = lower s"
  by (simp add: lower_def lower_char_idem)

lemma lower_append [simp]: "lower (a @ b) = lower a @ lower b"
  by (simp add: lower_def)

lemma lower_eq_Nil [simp]: "lower s = [] \<longleftrightarrow> s = []"
  by (simp add: lower_def)

lemma contains_starts: "starts_with p s \<Longrightarrow> contains p s"
  by (cases s; cases p) auto

lemma starts_with_append [simp]: "starts_with p (p @ s)"
  by (induction p) auto

lemma starts_with_iff: "starts_with p s \<longleftrightarrow> (\<exists>t. s = p @ t)"
  by (induction p s rule: starts_with.induct) auto

lemma show_nat_nonempty [simp]: "show_nat n \<noteq> []"
  by (subst show_nat.simps) simp

subsection \<open>Lists, options and search\<close>

text \<open>\<^verbatim>\<open>next((x for x in xs if p(x)), None)\<close>.\<close>

abbreviation first_where :: "('a \<Rightarrow> bool) \<Rightarrow> 'a list \<Rightarrow> 'a option" where
  "first_where \<equiv> List.find"

lemma find_SomeD: "List.find P xs = Some x \<Longrightarrow> x \<in> set xs \<and> P x"
  by (induction xs) (auto split: if_splits)

lemma find_None_iff_all: "List.find P xs = None \<longleftrightarrow> (\<forall>x\<in>set xs. \<not> P x)"
  by (induction xs) auto

lemma find_Some_exists: "x \<in> set xs \<Longrightarrow> P x \<Longrightarrow> \<exists>y. List.find P xs = Some y"
  by (induction xs) auto

lemma find_sort_key_least:
  assumes "List.find P (sort_key k xs) = Some x"
  shows "x \<in> set xs \<and> P x \<and> (\<forall>y\<in>set xs. P y \<longrightarrow> k x \<le> k y)"
proof -
  have *: "sorted (map k ys) \<Longrightarrow> List.find P ys = Some x \<Longrightarrow> (\<forall>y\<in>set ys. P y \<longrightarrow> k x \<le> k y)" for ys
    by (induction ys) (auto split: if_splits)
  have "\<forall>y\<in>set (sort_key k xs). P y \<longrightarrow> k x \<le> k y"
    using assms by (intro *) simp_all
  with find_SomeD [OF assms] show ?thesis by simp
qed

lemma distinct_map_inj_on:
  "distinct (map f xs) \<Longrightarrow> x \<in> set xs \<Longrightarrow> y \<in> set xs \<Longrightarrow> f x = f y \<Longrightarrow> x = y"
  by (metis distinct_map inj_onD)

text \<open>\<^verbatim>\<open>UPDATE ... SET ... WHERE p\<close> on a table held as a list of rows.\<close>

definition update_where :: "('r \<Rightarrow> bool) \<Rightarrow> ('r \<Rightarrow> 'r) \<Rightarrow> 'r list \<Rightarrow> 'r list" where
  "update_where p f = map (\<lambda>r. if p r then f r else r)"

lemma update_where_simps [simp]:
  "update_where p f [] = []"
  "update_where p f (r # rs) = (if p r then f r else r) # update_where p f rs"
  by (simp_all add: update_where_def)

lemma length_update_where [simp]: "length (update_where p f rs) = length rs"
  by (simp add: update_where_def)

lemma set_update_where: "set (update_where p f rs) = (\<lambda>r. if p r then f r else r) ` set rs"
  by (simp add: update_where_def)

lemma map_update_where_frame:
  "(\<And>r. r \<in> set rs \<Longrightarrow> p r \<Longrightarrow> g (f r) = g r) \<Longrightarrow> map g (update_where p f rs) = map g rs"
  by (simp add: update_where_def)

lemma update_where_id: "(\<And>r. r \<in> set rs \<Longrightarrow> \<not> p r) \<Longrightarrow> update_where p f rs = rs"
  by (induction rs) auto

lemma filter_update_where_frame:
  "(\<And>r. r \<in> set rs \<Longrightarrow> p r \<Longrightarrow> q (f r) = q r) \<Longrightarrow>
     filter q (update_where p f rs) = update_where p f (filter q rs)"
  by (induction rs) auto

lemma in_map_filter: "x \<in> set (List.map_filter f xs) \<longleftrightarrow> (\<exists>y\<in>set xs. f y = Some x)"
  by (induction xs) (auto simp: List.map_filter_simps split: option.splits)

end
