(* ===== verification/Bus.thy ===== *)
theory Bus
  imports Py_Prelude
begin

text \<open>
  \<^verbatim>\<open>src/shared/events/bus.py\<close>: the envelope, publishing with one retry, and the consumer's decision
  for one delivery. The broker is represented by what it does with each publish attempt; the
  JSON text codec by the value \<^verbatim>\<open>json.loads(body.decode())\<close> returns or the error it raises.
\<close>

subsection \<open>Envelopes\<close>

text \<open>A dataclass checks no types at run time, so the fields hold whatever the message held.\<close>

record envelope =
  en_type :: json
  en_payload :: json
  en_producer :: json
  en_version :: json
  en_id :: json
  en_occurred_at :: json
  en_correlation_id :: json
  en_causation_id :: json
  en_tenant_id :: json
  en_project_id :: json

definition CONTRACT_VERSION :: int where "CONTRACT_VERSION = 1"

definition env_to_dict :: "envelope \<Rightarrow> dict" where
  "env_to_dict e =
     [(''id'', en_id e), (''type'', en_type e), (''version'', en_version e),
      (''occurred_at'', en_occurred_at e), (''producer'', en_producer e),
      (''correlation_id'', en_correlation_id e), (''causation_id'', en_causation_id e),
      (''tenant_id'', en_tenant_id e), (''project_id'', en_project_id e),
      (''payload'', en_payload e)]"

definition env_required :: "string list" where
  "env_required = [''id'', ''type'', ''version'', ''occurred_at'', ''producer'', ''payload'']"

text \<open>\<^verbatim>\<open>raw[k]\<close> on the decoded body: only an object can be indexed by a string.\<close>

fun raw_item :: "json \<Rightarrow> string \<Rightarrow> json py" where
  "raw_item (JObj d) k = ditem d k"
| "raw_item _ k = Inl TypeError"

text \<open>\<^verbatim>\<open>set(raw)\<close>: iterating a null, a number or a boolean raises, and so does a list or object inside.\<close>

fun hashable :: "json \<Rightarrow> bool" where
  "hashable (JList _) = False"
| "hashable (JObj _) = False"
| "hashable _ = True"

definition names_of :: "json \<Rightarrow> json list py" where
  "names_of raw = bindE (as_list raw) (\<lambda>xs. if list_all hashable xs then Inr xs else Inl TypeError)"

text \<open>The names, then the required names it lacks, then the fields.\<close>

definition from_raw :: "json \<Rightarrow> envelope py" where
  "from_raw raw =
     bindE (names_of raw) (\<lambda>names.
       if \<exists>k\<in>set env_required. JStr k \<notin> set names
       then Inl (ValueError ''envelope missing required fields'')
       else
         bindE (raw_item raw ''id'') (\<lambda>i.
         bindE (raw_item raw ''type'') (\<lambda>t.
         bindE (raw_item raw ''version'') (\<lambda>v.
         bindE (raw_item raw ''occurred_at'') (\<lambda>oc.
         bindE (raw_item raw ''producer'') (\<lambda>p.
         bindE (raw_item raw ''payload'') (\<lambda>pl.
         bindE (as_dict raw) (\<lambda>d.
           Inr \<lparr>en_type = t, en_payload = pl, en_producer = p, en_version = v, en_id = i,
                en_occurred_at = oc,
                en_correlation_id = dget d ''correlation_id'',
                en_causation_id = dget d ''causation_id'',
                en_tenant_id = dget d ''tenant_id'',
                en_project_id = dget d ''project_id''\<rparr>))))))))"

definition from_bytes :: "(string \<Rightarrow> json py) \<Rightarrow> string \<Rightarrow> envelope py" where
  "from_bytes loads body = bindE (loads body) from_raw"

text \<open>A follow-up event keeps the trace; the new id and time come from the caller.\<close>

definition caused :: "envelope \<Rightarrow> json \<Rightarrow> json \<Rightarrow> json \<Rightarrow> json \<Rightarrow> json \<Rightarrow> envelope" where
  "caused self type payload producer new_id occurred_at =
     \<lparr>en_type = type, en_payload = payload, en_producer = producer,
      en_version = JInt CONTRACT_VERSION, en_id = new_id, en_occurred_at = occurred_at,
      en_correlation_id = py_or (en_correlation_id self) (en_id self),
      en_causation_id = en_id self,
      en_tenant_id = en_tenant_id self, en_project_id = en_project_id self\<rparr>"

subsection \<open>Publishing\<close>

text \<open>
  What one attempt to publish meets: the broker confirms; the attempt fails and nothing was
  taken; the attempt fails although the broker had already taken the message.
\<close>

datatype attempt = Confirmed | Refused | Unconfirmed

fun copies :: "attempt \<Rightarrow> envelope \<Rightarrow> envelope list" where
  "copies Confirmed e = [e]"
| "copies Refused e = []"
| "copies Unconfirmed e = [e]"

text \<open>One retry on a fresh connection: the messages the broker holds, and whether it raised.\<close>

definition publish :: "attempt \<times> attempt \<Rightarrow> envelope \<Rightarrow> envelope list \<times> unit py" where
  "publish att e =
     (if fst att = Confirmed then (copies Confirmed e, Inr ())
      else (copies (fst att) e @ copies (snd att) e,
            if snd att = Confirmed then Inr () else Inl AMQPError))"

subsection \<open>Consuming\<close>

text \<open>
  The fate of one delivery: acknowledged, rejected without requeue (the dead-letter queue), or an
  exception that leaves the callback, so the message is neither.
\<close>

datatype fate = Ack | Dead_Letter | Callback_Raised exn

fun is_value_error :: "exn \<Rightarrow> bool" where
  "is_value_error (ValueError _) = True"
| "is_value_error (UnknownGoal _) = True"
| "is_value_error (InvalidSchedule _) = True"
| "is_value_error (UnknownTenant _) = True"
| "is_value_error (UnknownRecord _) = True"
| "is_value_error (NoComparison _) = True"
| "is_value_error _ = False"

text \<open>
  \<^verbatim>\<open>_on_message\<close>: decoding errors of class \<^verbatim>\<open>ValueError\<close> (which \<^verbatim>\<open>JSONDecodeError\<close> and
  \<^verbatim>\<open>UnicodeDecodeError\<close> are) and every exception of the handler dead-letter the message.
\<close>

definition on_message ::
  "(string \<Rightarrow> json py) \<Rightarrow> (envelope \<Rightarrow> 's \<Rightarrow> unit py \<times> 's) \<Rightarrow> string \<Rightarrow> 's \<Rightarrow> fate \<times> 's" where
  "on_message loads handler body s =
     (case from_bytes loads body of
        Inl e \<Rightarrow> (if is_value_error e then Dead_Letter else Callback_Raised e, s)
      | Inr envelope \<Rightarrow>
          (case handler envelope s of
             (Inl e, s') \<Rightarrow> (Dead_Letter, s')
           | (Inr _, s') \<Rightarrow> (Ack, s')))"

text \<open>A blank envelope and a reader of three bodies, for the witnesses.\<close>

definition env_void :: envelope where
  "env_void = \<lparr>en_type = JNull, en_payload = JNull, en_producer = JNull, en_version = JNull,
     en_id = JNull, en_occurred_at = JNull, en_correlation_id = JNull, en_causation_id = JNull,
     en_tenant_id = JNull, en_project_id = JNull\<rparr>"

definition demo_loads :: "string \<Rightarrow> json py" where
  "demo_loads body = (if body = ''{}'' then Inr (JObj []) else if body = ''null'' then Inr JNull
     else Inl (ValueError ''Expecting value''))"

subsection \<open>Lemmas\<close>

lemma from_raw_to_dict: "from_raw (JObj (env_to_dict e)) = Inr e"
  by (simp add: from_raw_def names_of_def env_to_dict_def env_required_def ditem_def)

lemma publish_ok_delivers: "publish att e = (out, Inr ()) \<Longrightarrow> e \<in> set out"
  by (cases att; cases "fst att"; cases "snd att") (auto simp: publish_def)

lemma publish_only: "set (fst (publish att e)) \<subseteq> {e}"
  by (cases att; cases "fst att"; cases "snd att") (auto simp: publish_def)

lemma publish_at_most_twice: "length (fst (publish att e)) \<le> 2"
  by (cases att; cases "fst att"; cases "snd att") (auto simp: publish_def)

lemma names_of_object: "names_of (JObj d) = Inr (map (JStr \<circ> fst) d)"
  by (simp add: names_of_def list_all_iff comp_def)

lemma from_raw_object_errors: "from_raw (JObj d) = Inl e \<Longrightarrow> is_value_error e"
  by (auto simp: from_raw_def names_of_object bindE_Inl_iff ditem_def env_required_def
      map_of_eq_None_iff image_iff split: option.splits if_splits)

subsection \<open>Properties\<close>

text \<open>An envelope survives the wire: the dictionary that \<^verbatim>\<open>to_dict\<close> puts on the bus is read back by
  \<^verbatim>\<open>from_bytes\<close> as the same envelope, and a follow-up event made with \<^verbatim>\<open>caused\<close> names its cause, stays
  in the trace and keeps the tenant and the project.\<close>

lemma envelope_round_trip:
  "from_raw (JObj (env_to_dict e)) = Inr e \<and>
   en_causation_id (caused e ty pl pr i oc) = en_id e \<and>
   en_correlation_id (caused e ty pl pr i oc) =
     (if truthy (en_correlation_id e) then en_correlation_id e else en_id e) \<and>
   en_tenant_id (caused e ty pl pr i oc) = en_tenant_id e \<and>
   en_project_id (caused e ty pl pr i oc) = en_project_id e"
  by (simp add: from_raw_to_dict caused_def py_or_def)

text \<open>A publish that returns has handed the message to the broker at least once; whether it
  returns or raises, at most two copies went out and nothing else.\<close>

lemma publish_at_least_once:
  "(snd (publish att e) = Inr () \<longrightarrow> e \<in> set (fst (publish att e))) \<and>
   length (fst (publish att e)) \<le> 2 \<and> set (fst (publish att e)) \<subseteq> {e}"
  using publish_ok_delivers [of att e "fst (publish att e)"] publish_at_most_twice [of att e]
    publish_only [of att e] by (simp add: prod_eq_iff)

text \<open>What becomes of a delivery. A body that is a JSON object is never left hanging: it is
  acknowledged exactly when the handler returned, and dead-lettered when it lacks a field or the
  handler raised. A body that is not JSON is dead-lettered and the handler never sees it. A body
  that is a JSON null, boolean or number makes the callback itself raise, so that the message is
  neither acknowledged nor dead-lettered.\<close>

lemma delivery_fate:
  assumes "loads good = Inr (JObj d)" and "loads bad = Inl (ValueError m)"
    and "loads poison = Inr j" and "j = JNull \<or> (\<exists>b. j = JBool b) \<or> (\<exists>i. j = JInt i) \<or> (\<exists>r. j = JFloat r)"
  shows "(fst (on_message loads handler good s) = Ack \<longleftrightarrow>
            (\<exists>e. from_raw (JObj d) = Inr e \<and> fst (handler e s) = Inr ())) \<and>
         (fst (on_message loads handler good s) = Dead_Letter \<longleftrightarrow>
            fst (on_message loads handler good s) \<noteq> Ack) \<and>
         on_message loads handler bad s = (Dead_Letter, s) \<and>
         on_message loads handler poison s = (Callback_Raised TypeError, s)"
proof (intro conjI)
  show "on_message loads handler bad s = (Dead_Letter, s)"
    using assms(2) by (simp add: on_message_def from_bytes_def)
  show "on_message loads handler poison s = (Callback_Raised TypeError, s)"
    using assms(3,4) by (auto simp: on_message_def from_bytes_def from_raw_def names_of_def)
  have g: "on_message loads handler good s = (case from_raw (JObj d) of
        Inl e \<Rightarrow> (Dead_Letter, s)
      | Inr envelope \<Rightarrow> (case handler envelope s of (Inl e, s') \<Rightarrow> (Dead_Letter, s') | (Inr _, s') \<Rightarrow> (Ack, s')))"
    using assms(1) from_raw_object_errors [of d]
    by (auto simp: on_message_def from_bytes_def split: sum.splits)
  show "fst (on_message loads handler good s) = Ack \<longleftrightarrow>
      (\<exists>e. from_raw (JObj d) = Inr e \<and> fst (handler e s) = Inr ())"
    unfolding g by (auto split: sum.splits prod.splits)
  show "fst (on_message loads handler good s) = Dead_Letter \<longleftrightarrow>
      fst (on_message loads handler good s) \<noteq> Ack"
    unfolding g by (auto split: sum.splits prod.splits)
qed

end
