(* ===== verification/Outbox.thy ===== *)
theory Outbox
  imports Bus
begin

text \<open>
  The transactional outbox: \<^verbatim>\<open>_stage\<close> of \<^verbatim>\<open>src/shared/db.py\<close>, which every producer calls inside its own
  transaction, and \<^verbatim>\<open>drain\<close> and \<^verbatim>\<open>prune\<close> of \<^verbatim>\<open>src/shared/relay.py\<close>, which move staged events onto the
  bus. The table's columns are those of \<^verbatim>\<open>src/infra/db/migrations\<close>: \<open>ob_id\<close> is the BIGSERIAL key,
  drawn from \<open>ob_next\<close> also when the insert then does nothing, and \<open>ob_event_id\<close> is UNIQUE.
\<close>

subsection \<open>State\<close>

record pending_event =
  pe_type :: string
  pe_payload :: dict
  pe_producer :: string
  pe_event_id :: string
  pe_correlation_id :: "string option"
  pe_causation_id :: "string option"

text \<open>The three attributes \<^verbatim>\<open>_stage\<close> reads of the record an event is staged for.\<close>

record subject =
  sj_job_id :: string
  sj_tenant_id :: "string option"
  sj_project_id :: "string option"

record outbox_row =
  ob_id :: nat
  ob_event_id :: string
  ob_event_type :: string
  ob_producer :: string
  ob_tenant_id :: "string option"
  ob_project_id :: "string option"
  ob_correlation_id :: "string option"
  ob_causation_id :: "string option"
  ob_payload :: dict
  ob_published_at :: "int option"

record outbox =
  ob_rows :: "outbox_row list"
  ob_next :: nat

definition empty_outbox :: outbox where
  "empty_outbox = \<lparr>ob_rows = [], ob_next = 1\<rparr>"

text \<open>\<^verbatim>\<open>a or b\<close> for an optional string.\<close>

definition or_else :: "string option \<Rightarrow> string \<Rightarrow> string" where
  "or_else a b = (case a of Some s \<Rightarrow> if s = [] then b else s | None \<Rightarrow> b)"

subsection \<open>Staging\<close>

definition row_of :: "nat \<Rightarrow> pending_event \<Rightarrow> subject \<Rightarrow> outbox_row" where
  "row_of i event record =
     \<lparr>ob_id = i, ob_event_id = pe_event_id event, ob_event_type = pe_type event,
      ob_producer = pe_producer event, ob_tenant_id = sj_tenant_id record,
      ob_project_id = sj_project_id record,
      ob_correlation_id = Some (or_else (pe_correlation_id event) (sj_job_id record)),
      ob_causation_id = pe_causation_id event, ob_payload = pe_payload event,
      ob_published_at = None\<rparr>"

definition stage :: "pending_event \<Rightarrow> subject \<Rightarrow> outbox \<Rightarrow> outbox" where
  "stage event record ob =
     \<lparr>ob_rows = (if pe_event_id event \<in> ob_event_id ` set (ob_rows ob) then ob_rows ob
                else ob_rows ob @ [row_of (ob_next ob) event record]),
      ob_next = Suc (ob_next ob)\<rparr>"

fun stage_all :: "pending_event list \<Rightarrow> subject \<Rightarrow> outbox \<Rightarrow> outbox" where
  "stage_all [] record ob = ob"
| "stage_all (event # events) record ob = stage_all events record (stage event record ob)"

subsection \<open>The relay\<close>

definition unpublished :: "outbox_row \<Rightarrow> bool" where
  "unpublished r \<longleftrightarrow> ob_published_at r = None"

text \<open>\<^verbatim>\<open>WHERE published_at IS NULL ORDER BY id LIMIT batch\<close>.\<close>

definition claim_batch :: "nat \<Rightarrow> outbox \<Rightarrow> outbox_row list" where
  "claim_batch batch ob = take batch (sort_key ob_id (filter unpublished (ob_rows ob)))"

text \<open>\<^verbatim>\<open>str(tenant) if tenant else None\<close>.\<close>

fun nonempty_json :: "string option \<Rightarrow> json" where
  "nonempty_json None = JNull"
| "nonempty_json (Some s) = (if s = [] then JNull else JStr s)"

definition row_envelope :: "json \<Rightarrow> outbox_row \<Rightarrow> envelope" where
  "row_envelope now r =
     \<lparr>en_type = JStr (ob_event_type r), en_payload = JObj (ob_payload r),
      en_producer = JStr (ob_producer r), en_version = JInt CONTRACT_VERSION,
      en_id = JStr (ob_event_id r), en_occurred_at = now,
      en_correlation_id = opt_json (ob_correlation_id r),
      en_causation_id = opt_json (ob_causation_id r),
      en_tenant_id = nonempty_json (ob_tenant_id r),
      en_project_id = nonempty_json (ob_project_id r)\<rparr>"

definition mark_published :: "int \<Rightarrow> nat \<Rightarrow> outbox \<Rightarrow> outbox" where
  "mark_published t i ob =
     ob\<lparr>ob_rows := update_where (\<lambda>r. ob_id r = i) (\<lambda>r. r\<lparr>ob_published_at := Some t\<rparr>) (ob_rows ob)\<rparr>"

text \<open>
  Publish, then mark, row by row. \<open>atts n\<close> is what the \<open>n\<close>-th publish of the pass meets. The result
  is what the broker received and, for the transaction, the new table or the exception.
\<close>

fun drain_rows ::
  "(nat \<Rightarrow> attempt \<times> attempt) \<Rightarrow> int \<Rightarrow> outbox_row list \<Rightarrow> nat \<Rightarrow> outbox \<Rightarrow>
     envelope list \<times> (nat \<times> outbox) py" where
  "drain_rows atts t [] sent ob = ([], Inr (sent, ob))"
| "drain_rows atts t (r # rs) sent ob =
     (case publish (atts sent) (row_envelope (JInt t) r) of
        (out, Inl e) \<Rightarrow> (out, Inl e)
      | (out, Inr _) \<Rightarrow>
          (let (out', res) = drain_rows atts t rs (Suc sent) (mark_published t (ob_id r) ob)
           in (out @ out', res)))"

text \<open>One pass: a raised exception rolls the marks back, not the messages already taken.\<close>

definition drain ::
  "(nat \<Rightarrow> attempt \<times> attempt) \<Rightarrow> int \<Rightarrow> nat \<Rightarrow> outbox \<Rightarrow> envelope list \<times> nat py \<times> outbox" where
  "drain atts t batch ob =
     (case drain_rows atts t (claim_batch batch ob) 0 ob of
        (out, Inl e) \<Rightarrow> (out, Inl e, ob)
      | (out, Inr (sent, ob')) \<Rightarrow> (out, Inr sent, ob'))"

text \<open>\<^verbatim>\<open>DELETE ... WHERE published_at < now() - keep_hours\<close>; times are seconds.\<close>

definition prune :: "int \<Rightarrow> int \<Rightarrow> outbox \<Rightarrow> nat \<times> outbox" where
  "prune t keep_hours ob =
     (let old = (\<lambda>r. case ob_published_at r of None \<Rightarrow> False | Some p \<Rightarrow> p < t - 3600 * keep_hours)
      in (length (filter old (ob_rows ob)), ob\<lparr>ob_rows := filter (\<lambda>r. \<not> old r) (ob_rows ob)\<rparr>))"

subsection \<open>Invariant\<close>

text \<open>Both unique keys hold and the sequence is ahead of every key handed out.\<close>

definition outbox_inv :: "outbox \<Rightarrow> bool" where
  "outbox_inv ob \<longleftrightarrow>
     distinct (map ob_event_id (ob_rows ob)) \<and>
     sorted_wrt (<) (map ob_id (ob_rows ob)) \<and>
     (\<forall>r\<in>set (ob_rows ob). ob_id r < ob_next ob)"

lemma outbox_inv_empty: "outbox_inv empty_outbox"
  by (simp add: outbox_inv_def empty_outbox_def)

lemma outbox_inv_stage: "outbox_inv ob \<Longrightarrow> outbox_inv (stage e s ob)"
  by (auto simp: outbox_inv_def stage_def row_of_def sorted_wrt_append less_Suc_eq)

lemma outbox_inv_stage_all: "outbox_inv ob \<Longrightarrow> outbox_inv (stage_all es s ob)"
  by (induction es s ob rule: stage_all.induct) (simp_all add: outbox_inv_stage)

lemma mark_published_maps [simp]:
  "map ob_event_id (ob_rows (mark_published t i ob)) = map ob_event_id (ob_rows ob)"
  "map ob_id (ob_rows (mark_published t i ob)) = map ob_id (ob_rows ob)"
  "ob_next (mark_published t i ob) = ob_next ob"
  by (simp_all add: mark_published_def update_where_def)

lemma outbox_inv_alt:
  "outbox_inv ob \<longleftrightarrow>
     distinct (map ob_event_id (ob_rows ob)) \<and>
     sorted_wrt (<) (map ob_id (ob_rows ob)) \<and>
     (\<forall>i\<in>set (map ob_id (ob_rows ob)). i < ob_next ob)"
  by (simp add: outbox_inv_def)

lemma outbox_inv_mark_published: "outbox_inv ob \<Longrightarrow> outbox_inv (mark_published t i ob)"
  by (simp only: outbox_inv_alt mark_published_maps) simp

lemma outbox_inv_prune: "outbox_inv ob \<Longrightarrow> outbox_inv (snd (prune t k ob))"
  by (auto simp: outbox_inv_def prune_def Let_def distinct_map_filter sorted_wrt_filter
      sorted_wrt_map)

lemma stage_fresh:
  "pe_event_id e \<notin> ob_event_id ` set (ob_rows ob) \<Longrightarrow>
     ob_rows (stage e s ob) = ob_rows ob @ [row_of (ob_next ob) e s]"
  by (simp add: stage_def)

lemma stage_again: "ob_rows (stage e s (stage e s' ob)) = ob_rows (stage e s' ob)"
  by (simp add: stage_def row_of_def)

subsection \<open>One pass of the relay\<close>

lemma outbox_inv_ids: "outbox_inv ob \<Longrightarrow> distinct (map ob_id (ob_rows ob))"
  by (simp add: outbox_inv_def strict_sorted_iff)

lemma outbox_inv_sorted: "outbox_inv ob \<Longrightarrow> sort_key ob_id (filter p (ob_rows ob)) = filter p (ob_rows ob)"
proof -
  assume "outbox_inv ob"
  then have "sorted (map ob_id (ob_rows ob))"
    by (simp add: outbox_inv_def strict_sorted_iff)
  then have "sorted (map ob_id (filter p (ob_rows ob)))"
    by (rule sorted_filter)
  then show ?thesis
    by (rule sort_key_id_if_sorted)
qed

lemma claim_batch_eq: "outbox_inv ob \<Longrightarrow> claim_batch batch ob = take batch (filter unpublished (ob_rows ob))"
  by (simp add: claim_batch_def outbox_inv_sorted)

lemma claim_batch_subset: "r \<in> set (claim_batch batch ob) \<Longrightarrow> r \<in> set (ob_rows ob) \<and> unpublished r"
  by (auto simp: claim_batch_def dest!: in_set_takeD)

text \<open>The marks of a whole batch at once.\<close>

definition mark_batch :: "int \<Rightarrow> outbox_row list \<Rightarrow> outbox \<Rightarrow> outbox" where
  "mark_batch t rs ob =
     ob\<lparr>ob_rows := update_where (\<lambda>r. ob_id r \<in> ob_id ` set rs)
          (\<lambda>r. r\<lparr>ob_published_at := Some t\<rparr>) (ob_rows ob)\<rparr>"

lemma mark_batch_Nil: "mark_batch t [] ob = ob"
  by (simp add: mark_batch_def update_where_id)

lemma mark_batch_Cons:
  "mark_batch t rs (mark_published t (ob_id r) ob) = mark_batch t (r # rs) ob"
  by (simp add: mark_batch_def mark_published_def update_where_def)

lemma drain_rows_sound:
  "drain_rows atts t rs sent ob = (out, res) \<Longrightarrow> set out \<subseteq> row_envelope (JInt t) ` set rs"
proof (induction atts t rs sent ob arbitrary: out res rule: drain_rows.induct)
  case (2 atts t r rs sent ob)
  obtain o1 r1 where p: "publish (atts sent) (row_envelope (JInt t) r) = (o1, r1)"
    by fastforce
  then have "set o1 \<subseteq> {row_envelope (JInt t) r}"
    using publish_only [of "atts sent" "row_envelope (JInt t) r"] by simp
  with 2 p show ?case
    by (fastforce split: sum.splits prod.splits simp: Let_def)
qed simp

lemma drain_rows_Inr:
  "drain_rows atts t rs sent ob = (out, Inr (n, ob')) \<Longrightarrow>
     n = sent + length rs \<and> ob' = mark_batch t rs ob \<and> row_envelope (JInt t) ` set rs \<subseteq> set out"
proof (induction atts t rs sent ob arbitrary: out n ob' rule: drain_rows.induct)
  case (2 atts t r rs sent ob)
  from "2.prems" obtain o1 o2 where
    p: "publish (atts sent) (row_envelope (JInt t) r) = (o1, Inr ())" and
    d: "drain_rows atts t rs (Suc sent) (mark_published t (ob_id r) ob) = (o2, Inr (n, ob'))" and
    o: "out = o1 @ o2"
    by (auto simp: Let_def split: sum.splits prod.splits)
  from publish_ok_delivers [OF p] "2.IH" [OF p [symmetric] _ d] o show ?case
    by (auto simp: mark_batch_Cons)
qed (simp add: mark_batch_Nil)

lemma drain_rows_confirmed:
  assumes "\<And>n. fst (atts n) = Confirmed"
  shows "drain_rows atts t rs sent ob =
           (map (row_envelope (JInt t)) rs, Inr (sent + length rs, mark_batch t rs ob))"
proof (induction rs arbitrary: sent ob)
  case (Cons r rs)
  have "publish (atts sent) e = ([e], Inr ())" for e
    using assms by (simp add: publish_def)
  with Cons show ?case by (simp add: mark_batch_Cons)
qed (simp add: mark_batch_Nil)

lemma drain_cases:
  assumes "drain atts t batch ob = (out, res, ob')"
  obtains (failed) e where "res = Inl e" "ob' = ob"
      "set out \<subseteq> row_envelope (JInt t) ` set (claim_batch batch ob)"
    | (sent) "res = Inr (length (claim_batch batch ob))"
      "ob' = mark_batch t (claim_batch batch ob) ob"
      "set out = row_envelope (JInt t) ` set (claim_batch batch ob)"
proof -
  obtain o1 r1 where d: "drain_rows atts t (claim_batch batch ob) 0 ob = (o1, r1)"
    by fastforce
  from drain_rows_sound [OF d] have sub: "set o1 \<subseteq> row_envelope (JInt t) ` set (claim_batch batch ob)" .
  show thesis
  proof (cases r1)
    case (Inl e)
    with assms d sub show thesis by (intro failed [of e]) (auto simp: drain_def)
  next
    case (Inr p)
    with d obtain n o2 where d': "drain_rows atts t (claim_batch batch ob) 0 ob = (o1, Inr (n, o2))"
      and p: "p = (n, o2)" by (cases p) auto
    from drain_rows_Inr [OF d'] assms d' sub show thesis
      by (intro sent) (auto simp: drain_def)
  qed
qed

lemma mark_batch_maps [simp]:
  "map ob_event_id (ob_rows (mark_batch t rs ob)) = map ob_event_id (ob_rows ob)"
  "map ob_id (ob_rows (mark_batch t rs ob)) = map ob_id (ob_rows ob)"
  "ob_next (mark_batch t rs ob) = ob_next ob"
  by (simp_all add: mark_batch_def update_where_def)

lemma outbox_inv_mark_batch: "outbox_inv ob \<Longrightarrow> outbox_inv (mark_batch t rs ob)"
  by (simp only: outbox_inv_alt mark_batch_maps) simp

lemma outbox_inv_drain: "drain atts t batch ob = (out, res, ob') \<Longrightarrow> outbox_inv ob \<Longrightarrow> outbox_inv ob'"
  by (elim drain_cases) (simp_all add: outbox_inv_mark_batch)

lemma filter_drop_prefix:
  "distinct (map f xs) \<Longrightarrow> filter (\<lambda>x. f x \<notin> f ` set (take n xs)) xs = drop n xs"
proof -
  assume d: "distinct (map f xs)"
  have xs: "xs = take n xs @ drop n xs" by simp
  have "f x \<notin> f ` set (take n xs)" if "x \<in> set (drop n xs)" for x
    using d that by (metis append_take_drop_id disjoint_iff distinct_append image_set map_append image_eqI)
  moreover have "filter (\<lambda>x. f x \<notin> f ` set (take n xs)) (take n xs) = []"
    by (simp add: filter_empty_conv)
  ultimately show ?thesis
    by (subst xs, subst filter_append) (simp add: filter_True)
qed

text \<open>A pass that goes through leaves exactly the unpublished rows beyond the batch.\<close>

lemma unpublished_mark_batch:
  assumes "outbox_inv ob"
  shows "filter unpublished (ob_rows (mark_batch t (claim_batch batch ob) ob)) =
           drop batch (filter unpublished (ob_rows ob))"
proof -
  let ?U = "filter unpublished (ob_rows ob)"
  have d: "distinct (map ob_id ?U)"
    using outbox_inv_ids [OF assms] by (rule distinct_map_filter)
  have "filter unpublished (update_where p (\<lambda>r. r\<lparr>ob_published_at := Some t\<rparr>) rs) =
        filter (\<lambda>r. \<not> p r) (filter unpublished rs)" for p rs
    by (induction rs) (auto simp: unpublished_def)
  then have "filter unpublished (ob_rows (mark_batch t (claim_batch batch ob) ob)) =
             filter (\<lambda>r. ob_id r \<notin> ob_id ` set (take batch ?U)) ?U"
    by (simp add: mark_batch_def claim_batch_eq [OF assms])
  with filter_drop_prefix [OF d] show ?thesis by simp
qed

end
