(* ===== verification/Systems.thy ===== *)
theory Systems
  imports Main
begin

text \<open>
  State machines with an invariant, and machines whose progress a measure bounds: the two
  contracts the state machines of the development (the relay, the orchestrator) are shown to
  meet by interpretation.
\<close>

locale invariant_system =
  fixes init :: "'s \<Rightarrow> bool"
    and step :: "'s \<Rightarrow> 's \<Rightarrow> bool"
    and inv :: "'s \<Rightarrow> bool"
  assumes inv_init: "init s \<Longrightarrow> inv s"
    and inv_step: "step s t \<Longrightarrow> inv s \<Longrightarrow> inv t"
begin

lemma inv_steps: "step\<^sup>*\<^sup>* s t \<Longrightarrow> inv s \<Longrightarrow> inv t"
  by (induction rule: rtranclp_induct) (blast intro: inv_step)+

lemma inv_reachable: "init s \<Longrightarrow> step\<^sup>*\<^sup>* s t \<Longrightarrow> inv t"
  by (blast intro: inv_init inv_steps)

text \<open>A fact that an invariant state's step keeps is kept along a run.\<close>

lemma stable_steps:
  assumes "\<And>s t. inv s \<Longrightarrow> step s t \<Longrightarrow> P s \<Longrightarrow> P t"
    and "step\<^sup>*\<^sup>* s t" and "inv s" and "P s"
  shows "P t"
  using assms(2-4)
proof (induction rule: rtranclp_induct)
  case (step t u)
  then have "inv t" by (blast intro: inv_steps)
  with step assms(1) show ?case by blast
qed

end

text \<open>
  A contract for a loop that takes work off a queue: while work is left, one round removes at
  least one item.
\<close>

locale draining_loop =
  fixes round :: "'s \<Rightarrow> 's"
    and work :: "'s \<Rightarrow> nat"
    and ok :: "'s \<Rightarrow> bool"
  assumes ok_round: "ok s \<Longrightarrow> ok (round s)"
    and progress: "ok s \<Longrightarrow> work s > 0 \<Longrightarrow> work (round s) < work s"
    and idle: "ok s \<Longrightarrow> work s = 0 \<Longrightarrow> work (round s) = 0"
begin

lemma ok_rounds: "ok s \<Longrightarrow> ok ((round ^^ n) s)"
  by (induction n) (auto intro: ok_round)

lemma work_rounds: "ok s \<Longrightarrow> work ((round ^^ n) s) \<le> work s - n"
proof (induction n)
  case (Suc n)
  then have ok: "ok ((round ^^ n) s)" by (blast intro: ok_rounds)
  show ?case
  proof (cases "work ((round ^^ n) s) = 0")
    case True
    with idle [OF ok] show ?thesis by simp
  next
    case False
    with progress [OF ok] Suc show ?thesis by simp
  qed
qed simp

lemma drained: "ok s \<Longrightarrow> work s \<le> n \<Longrightarrow> work ((round ^^ n) s) = 0"
  using work_rounds [of s n] by simp

end

end
