(* ===== verification/Relay.thy ===== *)
theory Relay
  imports Outbox Systems
begin

text \<open>
  The outbox, its producers and the relay together (\<^verbatim>\<open>src/shared/relay.py\<close>): no staged event is lost,
  whatever the broker does, and with a working broker every event goes out once, in order.
\<close>

record relay_state =
  rl_outbox :: outbox
  rl_bus :: "envelope list"
  rl_accepted :: "string list" \<comment> \<open>every event id ever staged, for the statement only\<close>

definition relay_init :: "relay_state \<Rightarrow> bool" where
  "relay_init s \<longleftrightarrow> s = \<lparr>rl_outbox = empty_outbox, rl_bus = [], rl_accepted = []\<rparr>"

text \<open>
  A producer stages an event in its transaction, a relay makes a pass while the broker does
  anything it likes, the published tail is pruned.
\<close>

inductive relay_step :: "relay_state \<Rightarrow> relay_state \<Rightarrow> bool" where
  produce: "relay_step s (s\<lparr>rl_outbox := stage e sj (rl_outbox s),
       rl_accepted := pe_event_id e # rl_accepted s\<rparr>)"
| pass: "drain atts t batch (rl_outbox s) = (out, res, ob') \<Longrightarrow>
     relay_step s (s\<lparr>rl_outbox := ob', rl_bus := rl_bus s @ out\<rparr>)"
| tidy: "relay_step s (s\<lparr>rl_outbox := snd (prune t k (rl_outbox s))\<rparr>)"

definition on_bus :: "relay_state \<Rightarrow> string \<Rightarrow> bool" where
  "on_bus s i \<longleftrightarrow> JStr i \<in> en_id ` set (rl_bus s)"

definition waiting :: "outbox \<Rightarrow> string set" where
  "waiting ob = ob_event_id ` {r \<in> set (ob_rows ob). unpublished r}"

definition relay_inv :: "relay_state \<Rightarrow> bool" where
  "relay_inv s \<longleftrightarrow>
     outbox_inv (rl_outbox s) \<and>
     (\<forall>r\<in>set (ob_rows (rl_outbox s)). ob_event_id r \<in> set (rl_accepted s)) \<and>
     (\<forall>r\<in>set (ob_rows (rl_outbox s)). \<not> unpublished r \<longrightarrow> on_bus s (ob_event_id r)) \<and>
     (\<forall>i\<in>set (rl_accepted s). i \<in> waiting (rl_outbox s) \<or> on_bus s i) \<and>
     en_id ` set (rl_bus s) \<subseteq> JStr ` set (rl_accepted s)"

lemma en_id_row_envelope [simp]: "en_id (row_envelope now r) = JStr (ob_event_id r)"
  by (simp add: row_envelope_def)

lemma waiting_stage: "waiting (stage e sj ob) \<supseteq> waiting ob"
  by (auto simp: waiting_def stage_def)

lemma relay_inv_produce:
  assumes "relay_inv s"
  shows "relay_inv (s\<lparr>rl_outbox := stage e sj (rl_outbox s),
           rl_accepted := pe_event_id e # rl_accepted s\<rparr>)"
proof -
  have new: "pe_event_id e \<in> waiting (stage e sj (rl_outbox s)) \<or> on_bus s (pe_event_id e)"
  proof (cases "pe_event_id e \<in> ob_event_id ` set (ob_rows (rl_outbox s))")
    case True
    then obtain r where r: "r \<in> set (ob_rows (rl_outbox s))" "pe_event_id e = ob_event_id r"
      by blast
    with assms show ?thesis
      by (cases "unpublished r") (auto simp: relay_inv_def waiting_def stage_def)
  next
    case False
    then show ?thesis unfolding waiting_def
      by (intro disjI1 image_eqI [of _ _ "row_of (ob_next (rl_outbox s)) e sj"])
        (simp_all add: stage_def row_of_def unpublished_def)
  qed
  let ?t = "s\<lparr>rl_outbox := stage e sj (rl_outbox s), rl_accepted := pe_event_id e # rl_accepted s\<rparr>"
  have rows: "r \<in> set (ob_rows (rl_outbox s)) \<or> ob_event_id r = pe_event_id e \<and> unpublished r"
    if "r \<in> set (ob_rows (stage e sj (rl_outbox s)))" for r
    using that by (auto simp: stage_def row_of_def unpublished_def split: if_splits)
  have bus: "on_bus ?t = on_bus s"
    by (simp add: on_bus_def fun_eq_iff)
  show ?thesis
    unfolding relay_inv_def bus
  proof (intro conjI, goal_cases)
    case 1
    then show ?case using assms by (simp add: relay_inv_def outbox_inv_stage)
  next
    case 2
    then show ?case using assms rows by (auto simp: relay_inv_def)
  next
    case 3
    then show ?case using assms rows by (auto simp: relay_inv_def)
  next
    case 4
    then show ?case using assms new waiting_stage [of "rl_outbox s" e sj] by (auto simp: relay_inv_def)
  next
    case 5
    then show ?case using assms by (auto simp: relay_inv_def)
  qed
qed

lemma relay_inv_pass:
  assumes "relay_inv s" and "drain atts t batch (rl_outbox s) = (out, res, ob')"
  shows "relay_inv (s\<lparr>rl_outbox := ob', rl_bus := rl_bus s @ out\<rparr>)"
proof -
  let ?ob = "rl_outbox s" and ?B = "set (claim_batch batch (rl_outbox s))"
  have inv': "outbox_inv ob'"
    using assms outbox_inv_drain by (auto simp: relay_inv_def)
  have accepted: "ob_event_id r \<in> set (rl_accepted s)" if "r \<in> ?B" for r
    using claim_batch_subset that assms(1) by (auto simp: relay_inv_def)
  from assms(2) show ?thesis
  proof (cases rule: drain_cases)
    case (failed e)
    then have "en_id ` set out \<subseteq> JStr ` set (rl_accepted s)"
      using accepted by auto
    with failed assms(1) inv' show ?thesis
      by (auto simp: relay_inv_def on_bus_def)
  next
    case sent
    have rows: "r' \<in> set (ob_rows ob') \<longleftrightarrow>
        (\<exists>r\<in>set (ob_rows ?ob). r' = (if ob_id r \<in> ob_id ` ?B
            then r\<lparr>ob_published_at := Some t\<rparr> else r))" for r'
      by (auto simp: sent mark_batch_def set_update_where)
    have same: "r \<in> ?B" if "r \<in> set (ob_rows ?ob)" "ob_id r \<in> ob_id ` ?B" for r
    proof -
      from that(2) obtain b where b: "b \<in> ?B" "ob_id r = ob_id b" by blast
      with claim_batch_subset that(1) have "b \<in> set (ob_rows ?ob)" by blast
      with b that(1) show ?thesis
        using distinct_map_inj_on [OF outbox_inv_ids [of ?ob]] assms(1)
        by (auto simp: relay_inv_def)
    qed
    have bus: "en_id ` set out = JStr ` ob_event_id ` ?B"
      by (auto simp: sent image_image)
    have wait: "i \<in> waiting ob' \<or> i \<in> ob_event_id ` ?B" if "i \<in> waiting ?ob" for i
    proof -
      from that obtain r where r: "r \<in> set (ob_rows ?ob)" "unpublished r" "i = ob_event_id r"
        by (auto simp: waiting_def)
      show ?thesis
      proof (cases "ob_id r \<in> ob_id ` ?B")
        case True
        with same r show ?thesis by blast
      next
        case False
        with r rows have "r \<in> set (ob_rows ob')" by auto
        with r show ?thesis by (auto simp: waiting_def)
      qed
    qed
    show ?thesis
      unfolding relay_inv_def
    proof (intro conjI, goal_cases)
      case 2
      then show ?case using rows assms(1) by (auto simp: relay_inv_def)
    next
      case 3
      have "on_bus (s\<lparr>rl_outbox := ob', rl_bus := rl_bus s @ out\<rparr>) (ob_event_id r')"
        if r': "r' \<in> set (ob_rows ob')" "\<not> unpublished r'" for r'
      proof -
        from r'(1) rows obtain r where r: "r \<in> set (ob_rows ?ob)"
          "r' = (if ob_id r \<in> ob_id ` ?B then r\<lparr>ob_published_at := Some t\<rparr> else r)" by blast
        show ?thesis
        proof (cases "ob_id r \<in> ob_id ` ?B")
          case True
          with same r have "JStr (ob_event_id r') \<in> en_id ` set out" by (simp add: bus)
          then show ?thesis by (auto simp: on_bus_def image_Un)
        next
          case False
          with r r' assms(1) show ?thesis
            by (auto simp: relay_inv_def on_bus_def image_Un)
        qed
      qed
      then show ?case by simp
    next
      case 4
      then show ?case
        using assms(1) wait bus by (fastforce simp: relay_inv_def on_bus_def image_Un)
    next
      case 5
      then show ?case using assms(1) bus accepted by (auto simp: relay_inv_def image_Un)
    qed (simp add: inv')
  qed
qed

lemma relay_inv_tidy: "relay_inv s \<Longrightarrow> relay_inv (s\<lparr>rl_outbox := snd (prune t k (rl_outbox s))\<rparr>)"
proof -
  assume inv: "relay_inv s"
  have sub: "set (ob_rows (snd (prune t k ob))) \<subseteq> set (ob_rows ob)" for ob
    by (auto simp: prune_def Let_def)
  have "waiting (snd (prune t k ob)) = waiting ob" for ob
    by (auto simp: waiting_def prune_def Let_def unpublished_def)
  with inv sub [of "rl_outbox s"] show ?thesis
    by (auto simp: relay_inv_def on_bus_def outbox_inv_prune)
qed

interpretation relay: invariant_system relay_init relay_step relay_inv
proof unfold_locales
  show "relay_inv s" if "relay_init s" for s
    using that outbox_inv_empty by (simp add: relay_init_def relay_inv_def) (simp add: empty_outbox_def)
next
  show "relay_inv t" if "relay_step s t" "relay_inv s" for s t
    using that
    by cases (auto intro: relay_inv_produce relay_inv_pass relay_inv_tidy)
qed

subsection \<open>A working broker\<close>

text \<open>One pass in which the broker confirms every message, keeping what was published.\<close>

definition good_pass :: "int \<Rightarrow> nat \<Rightarrow> outbox \<times> envelope list \<Rightarrow> outbox \<times> envelope list" where
  "good_pass t batch s =
     (case drain (\<lambda>_. (Confirmed, Confirmed)) t batch (fst s) of (out, _, ob') \<Rightarrow> (ob', snd s @ out))"

definition backlog :: "outbox \<times> envelope list \<Rightarrow> outbox_row list" where
  "backlog s = filter unpublished (ob_rows (fst s))"

lemma good_pass_eq:
  "outbox_inv (fst s) \<Longrightarrow>
     good_pass t batch s =
       (mark_batch t (claim_batch batch (fst s)) (fst s),
        snd s @ map (row_envelope (JInt t)) (take batch (backlog s)))"
  by (simp add: good_pass_def drain_def drain_rows_confirmed claim_batch_eq backlog_def)

lemma backlog_good_pass: "outbox_inv (fst s) \<Longrightarrow> backlog (good_pass t batch s) = drop batch (backlog s)"
  by (simp add: good_pass_eq backlog_def unpublished_mark_batch)

interpretation relay_loop: draining_loop "good_pass t (Suc b)" "\<lambda>s. length (backlog s)"
  "\<lambda>s. outbox_inv (fst s)" for t b
  by unfold_locales (simp_all add: backlog_good_pass, simp add: good_pass_eq outbox_inv_mark_batch)

lemma good_passes:
  assumes "outbox_inv (fst s)"
  shows "outbox_inv (fst ((good_pass t batch ^^ n) s)) \<and>
         backlog ((good_pass t batch ^^ n) s) = drop (n * batch) (backlog s) \<and>
         snd ((good_pass t batch ^^ n) s) =
           snd s @ map (row_envelope (JInt t)) (take (n * batch) (backlog s))"
proof (induction n)
  case 0
  then show ?case by (simp add: assms)
next
  case (Suc n)
  let ?s = "(good_pass t batch ^^ n) s"
  from Suc have inv: "outbox_inv (fst ?s)" by simp
  have "snd (good_pass t batch ?s) = snd s @ map (row_envelope (JInt t)) (take (n * batch) (backlog s))
          @ map (row_envelope (JInt t)) (take batch (drop (n * batch) (backlog s)))"
    using Suc by (simp add: good_pass_eq)
  also have "\<dots> = snd s @ map (row_envelope (JInt t)) (take (batch + n * batch) (backlog s))"
    by (simp only: add.commute [of batch] take_add map_append)
  finally have out: "snd ((good_pass t batch ^^ Suc n) s) =
      snd s @ map (row_envelope (JInt t)) (take (Suc n * batch) (backlog s))"
    by simp
  have "backlog ((good_pass t batch ^^ Suc n) s) = drop (Suc n * batch) (backlog s)"
    using Suc backlog_good_pass [OF inv] by simp
  moreover have "outbox_inv (fst ((good_pass t batch ^^ Suc n) s))"
    using inv by (simp add: good_pass_eq outbox_inv_mark_batch)
  ultimately show ?case using out by blast
qed

subsection \<open>Properties\<close>

text \<open>C5: no staged event is ever lost, whatever the broker refuses, drops or confirms late and
  whenever the relay is pruned or restarted: an event id that a producer staged is waiting in the
  outbox or a message with that id has been handed to the broker, and the ids in the outbox are
  unique.\<close>

theorem no_staged_event_lost:
  assumes "relay_init s0" and "relay_step\<^sup>*\<^sup>* s0 s" and "i \<in> set (rl_accepted s)"
  shows "(i \<in> waiting (rl_outbox s) \<or> on_bus s i) \<and> distinct (map ob_event_id (ob_rows (rl_outbox s)))"
  using relay.inv_reachable [OF assms(1,2)] assms(3) by (auto simp: relay_inv_def outbox_inv_def)

theorem no_staged_event_lost_witness:
  "''e'' \<in> waiting (stage \<lparr>pe_type = ''t'', pe_payload = [], pe_producer = ''p'', pe_event_id = ''e'',
      pe_correlation_id = None, pe_causation_id = None\<rparr>
      \<lparr>sj_job_id = ''j'', sj_tenant_id = None, sj_project_id = None\<rparr> empty_outbox)"
proof -
  let ?e = "\<lparr>pe_type = ''t'', pe_payload = [], pe_producer = ''p'', pe_event_id = ''e'',
      pe_correlation_id = None, pe_causation_id = None\<rparr>"
  let ?sj = "\<lparr>sj_job_id = ''j'', sj_tenant_id = None, sj_project_id = None\<rparr>"
  let ?s0 = "\<lparr>rl_outbox = empty_outbox, rl_bus = [], rl_accepted = []\<rparr>"
  have "relay_step\<^sup>*\<^sup>* ?s0 (?s0\<lparr>rl_outbox := stage ?e ?sj (rl_outbox ?s0),
       rl_accepted := pe_event_id ?e # rl_accepted ?s0\<rparr>)"
    by (rule r_into_rtranclp) (rule relay_step.produce)
  from no_staged_event_lost [OF _ this, of "''e''"] show ?thesis
    by (simp add: relay_init_def on_bus_def)
qed



text \<open>One relay pass either publishes the whole batch and marks exactly those rows, or it raises
  and the outbox is as it was, so that the batch is sent again.\<close>

lemma drain_all_or_nothing:
  assumes "drain atts t batch ob = (out, res, ob')"
  shows "(\<exists>e. res = Inl e \<and> ob' = ob) \<or>
         res = Inr (length (claim_batch batch ob)) \<and> ob' = mark_batch t (claim_batch batch ob) ob \<and>
         row_envelope (JInt t) ` set (claim_batch batch ob) = set out"
  using assms by (cases rule: drain_cases) (auto simp: image_iff)

end
