(* ===== verification/Url.thy ===== *)
theory Url
  imports Py_Prelude
begin

text \<open>
  The part of \<^verbatim>\<open>urllib.parse\<close> the sources use: the parts of a URL, its host name and port, as
  CPython 3.10 computes them (\<^verbatim>\<open>urlsplit\<close>, \<^verbatim>\<open>_hostinfo\<close>, \<^verbatim>\<open>hostname\<close>, \<^verbatim>\<open>port\<close>), and putting them together again.
  The check of non-ASCII network locations under NFKC is left out.
\<close>

record url_parts =
  scheme :: string
  netloc :: string

text \<open>The C0 controls and space that \<^verbatim>\<open>urlsplit\<close> strips on the left, and the bytes it removes.\<close>

definition is_c0_or_space :: "char \<Rightarrow> bool" where
  "is_c0_or_space c \<longleftrightarrow> (of_char c :: nat) \<le> 32"

definition is_unsafe_byte :: "char \<Rightarrow> bool" where
  "is_unsafe_byte c \<longleftrightarrow> (of_char c :: nat) \<in> {9, 10, 13}"

lemma is_c0_or_space_code [code]: "is_c0_or_space c \<longleftrightarrow> (of_char c :: int) \<le> 32"
  by (simp add: is_c0_or_space_def of_char_nat_int)

lemma is_unsafe_byte_code [code]: "is_unsafe_byte c \<longleftrightarrow> (let n = (of_char c :: int) in n = 9 \<or> n = 10 \<or> n = 13)"
  by (auto simp: is_unsafe_byte_def of_char_nat_int Let_def)

definition is_scheme_char :: "char \<Rightarrow> bool" where
  "is_scheme_char c \<longleftrightarrow> is_alpha c \<or> is_digit c \<or> c \<in> set ''+-.''"

definition split_scheme :: "string \<Rightarrow> string \<times> string" where
  "split_scheme url =
     (let (pre, found, rest) = partition_at (CHR '':'') url in
      if found \<and> pre \<noteq> [] \<and> is_alpha (hd pre) \<and> list_all is_scheme_char pre
      then (lower pre, rest) else ([], url))"

definition urlsplit :: "string \<Rightarrow> url_parts py" where
  "urlsplit url0 =
     (let url1 = filter (\<lambda>c. \<not> is_unsafe_byte c) (dropWhile is_c0_or_space url0);
          (sch, url) = split_scheme url1
      in if starts_with ''//'' url then
           (let nl = takeWhile (\<lambda>c. c \<notin> set ''/?#'') (drop 2 url) in
            if (CHR ''['' \<in> set nl) \<noteq> (CHR '']'' \<in> set nl)
            then Inl (ValueError ''Invalid IPv6 URL'')
            else Inr \<lparr>scheme = sch, netloc = nl\<rparr>)
         else Inr \<lparr>scheme = sch, netloc = []\<rparr>)"

text \<open>Host and port text of a network location, \<^verbatim>\<open>_hostinfo\<close>.\<close>

definition hostinfo :: "url_parts \<Rightarrow> string \<times> string" where
  "hostinfo u =
     (let info = after_last (CHR ''@'') (netloc u);
          (_, have_open_br, bracketed) = partition_at (CHR ''['') info
      in if have_open_br then
           (let (host, _, rest) = partition_at (CHR '']'') bracketed;
                (_, _, port) = partition_at (CHR '':'') rest
            in (host, port))
         else (let (host, _, port) = partition_at (CHR '':'') info in (host, port)))"

text \<open>\<^verbatim>\<open>hostname or ""\<close>: lower case up to a zone separator.\<close>

definition hostname :: "url_parts \<Rightarrow> string" where
  "hostname u = (let (h, found, zone) = partition_at (CHR ''%'') (fst (hostinfo u))
                 in lower h @ (if found then CHR ''%'' # zone else []))"

definition url_port :: "url_parts \<Rightarrow> nat option py" where
  "url_port u =
     (let p = snd (hostinfo u) in
      if p = [] then Inr None
      else if list_all is_digit p then
        (let n = digits_value 0 p in
         if n \<le> 65535 then Inr (Some n) else Inl (ValueError ''Port out of range 0-65535''))
      else Inl (ValueError ''Port could not be cast to integer value''))"

subsection \<open>All parts of an address\<close>

record split_url =
  su_scheme :: string
  su_netloc :: string
  su_path :: string
  su_query :: string
  su_fragment :: string

definition cut :: "char \<Rightarrow> string \<Rightarrow> string \<times> string" where
  "cut c s = (let (before, _, after) = partition_at c s in (before, after))"

text \<open>All five parts of \<^verbatim>\<open>urlsplit\<close>; scheme and network location are those of \<^verbatim>\<open>Url\<close>.\<close>

definition urlsplit5 :: "string \<Rightarrow> split_url py" where
  "urlsplit5 url0 =
     bindE (urlsplit url0) (\<lambda>u.
       (let url1 = filter (\<lambda>c. \<not> is_unsafe_byte c) (dropWhile is_c0_or_space url0);
            rest0 = snd (split_scheme url1);
            rest = (if starts_with ''//'' rest0 then drop (2 + length (netloc u)) rest0 else rest0);
            (rest1, fragment) = cut (CHR ''#'') rest;
            (path, query) = cut (CHR ''?'') rest1
        in Inr \<lparr>su_scheme = scheme u, su_netloc = netloc u, su_path = path, su_query = query, su_fragment = fragment\<rparr>))"

definition uses_netloc :: "string list" where
  "uses_netloc = [[], ''ftp'', ''http'', ''gopher'', ''nntp'', ''telnet'', ''imap'', ''wais'', ''file'',
    ''mms'', ''https'', ''shttp'', ''snews'', ''prospero'', ''rtsp'', ''rtspu'', ''rsync'',
    ''svn'', ''svn+ssh'', ''sftp'', ''nfs'', ''git'', ''git+ssh'', ''ws'', ''wss'']"

definition uses_params :: "string list" where
  "uses_params = [[], ''ftp'', ''hdl'', ''prospero'', ''http'', ''https'', ''shttp'', ''rtsp'', ''rtspu'',
    ''sip'', ''sips'', ''mms'', ''sftp'', ''tel'']"

definition urlunsplit :: "split_url \<Rightarrow> string" where
  "urlunsplit u =
     (let url = su_path u;
          url1 = (if su_netloc u \<noteq> [] \<or> su_scheme u \<noteq> [] \<and> su_scheme u \<in> set uses_netloc \<and> \<not> starts_with ''//'' url
                  then ''//'' @ su_netloc u @ (if url \<noteq> [] \<and> hd url \<noteq> CHR ''/'' then CHR ''/'' # url else url)
                  else url);
          url2 = (if su_scheme u \<noteq> [] then su_scheme u @ CHR '':'' # url1 else url1);
          url3 = (if su_query u \<noteq> [] then url2 @ CHR ''?'' # su_query u else url2)
      in if su_fragment u \<noteq> [] then url3 @ CHR ''#'' # su_fragment u else url3)"

text \<open>
  \<^verbatim>\<open>urlparse\<close> splits parameters off the last segment of the path and \<^verbatim>\<open>urlunparse\<close> puts them back,
  except that empty ones are gone.
\<close>

definition drop_empty_params :: "string \<Rightarrow> string \<Rightarrow> string" where
  "drop_empty_params sch path =
     (let segment = after_last (CHR ''/'') path in
      if sch \<in> set uses_params \<and> CHR '';'' \<in> set segment \<and> snd (cut (CHR '';'') segment) = []
      then butlast path else path)"

definition urldefrag :: "string \<Rightarrow> string py" where
  "urldefrag url =
     (if CHR ''#'' \<in> set url
      then bindE (urlsplit5 url) (\<lambda>u.
        Inr (urlunsplit (u\<lparr>su_path := drop_empty_params (su_scheme u) (su_path u), su_fragment := []\<rparr>)))
      else Inr url)"

lemma partition_at_colon_free:
  "c \<notin> set (fst (partition_at c s))"
  by (auto simp: partition_at_def dest: set_takeWhileD)

lemma urlsplit_netloc_free:
  "urlsplit url = Inr u \<Longrightarrow> set (netloc u) \<inter> set ''/?#'' = {}"
  by (auto simp: urlsplit_def Let_def split: prod.splits if_splits dest: set_takeWhileD)

lemma url_port_bound: "url_port u = Inr (Some n) \<Longrightarrow> n \<le> 65535"
  by (auto simp: url_port_def Let_def split: if_splits)

section \<open>Relative addresses\<close>

text \<open>
  The rest of \<^verbatim>\<open>urllib.parse\<close> the crawler and the optimizer use: addresses in six parts (\<^verbatim>\<open>urlparse\<close>), relative
  addresses (\<^verbatim>\<open>urljoin\<close>), percent escapes (\<^verbatim>\<open>quote\<close>, \<^verbatim>\<open>unquote\<close>).
\<close>

subsection \<open>Percent escapes\<close>

definition hex_value :: "char \<Rightarrow> nat option" where
  "hex_value c = (let n = (of_char c :: nat) in
     if 48 \<le> n \<and> n \<le> 57 then Some (n - 48)
     else if 97 \<le> n \<and> n \<le> 102 then Some (n - 87)
     else if 65 \<le> n \<and> n \<le> 70 then Some (n - 55) else None)"

text \<open>\<^verbatim>\<open>unquote\<close>: percent escapes back to bytes.\<close>

fun unquote :: "string \<Rightarrow> string" where
  "unquote (c # a # b # cs) =
     (if c = CHR ''%'' then
        (case (hex_value a, hex_value b) of
           (Some x, Some y) \<Rightarrow> char_of (16 * x + y) # unquote cs
         | _ \<Rightarrow> c # unquote (a # b # cs))
      else c # unquote (a # b # cs))"
| "unquote cs = cs"

text \<open>\<^verbatim>\<open>quote\<close> with its default \<^verbatim>\<open>safe="/"\<close>.\<close>

definition hex_upper :: "nat \<Rightarrow> char" where
  "hex_upper n = (if n < 10 then char_of (n + 48) else char_of (n + 55))"

definition is_quote_safe :: "char \<Rightarrow> bool" where
  "is_quote_safe c \<longleftrightarrow> is_alpha c \<or> is_digit c \<or> c \<in> set ''_.-~/''"

definition quote :: "string \<Rightarrow> string" where
  "quote s = concat (map (\<lambda>c. if is_quote_safe c then [c]
     else [CHR ''%'', hex_upper (of_char c div 16), hex_upper (of_char c mod 16)]) s)"

subsection \<open>Six parts\<close>

text \<open>\<^verbatim>\<open>urlparse\<close> splits parameters off the last segment of the path, \<^verbatim>\<open>urlunparse\<close> puts them back.\<close>

definition split_params :: "string \<Rightarrow> string \<Rightarrow> string \<times> string" where
  "split_params sch path =
     (if sch \<in> set uses_params \<and> CHR '';'' \<in> set path then
        (let segment = after_last (CHR ''/'') path; (a, _, b) = partition_at (CHR '';'') segment
         in (take (length path - length segment) path @ a, b))
      else (path, []))"

record full_url =
  fu_scheme :: string
  fu_netloc :: string
  fu_path :: string
  fu_params :: string
  fu_query :: string
  fu_fragment :: string

definition urlparse :: "string \<Rightarrow> string \<Rightarrow> full_url py" where
  "urlparse sch url =
     bindE (urlsplit5 url) (\<lambda>u.
       (let s = (if su_scheme u = [] then sch else su_scheme u); (path, params) = split_params s (su_path u)
        in Inr \<lparr>fu_scheme = s, fu_netloc = su_netloc u, fu_path = path, fu_params = params,
                fu_query = su_query u, fu_fragment = su_fragment u\<rparr>))"

definition urlunparse :: "full_url \<Rightarrow> string" where
  "urlunparse u =
     urlunsplit \<lparr>su_scheme = fu_scheme u, su_netloc = fu_netloc u,
       su_path = (if fu_params u = [] then fu_path u else fu_path u @ CHR '';'' # fu_params u),
       su_query = fu_query u, su_fragment = fu_fragment u\<rparr>"

subsection \<open>Relative addresses\<close>

definition uses_relative :: "string list" where
  "uses_relative = [[], ''ftp'', ''http'', ''gopher'', ''nntp'', ''imap'', ''wais'', ''file'', ''https'', ''shttp'',
     ''mms'', ''prospero'', ''rtsp'', ''rtspu'', ''sftp'', ''svn'', ''svn+ssh'', ''ws'', ''wss'']"

fun segments_from :: "string \<Rightarrow> string \<Rightarrow> string list" where
  "segments_from cur [] = [rev cur]"
| "segments_from cur (c # cs) = (if c = CHR ''/'' then rev cur # segments_from [] cs else segments_from (c # cur) cs)"

definition path_segments :: "string \<Rightarrow> string list" where
  "path_segments path = segments_from [] path"

fun join_segments :: "string list \<Rightarrow> string" where
  "join_segments [] = []"
| "join_segments [s] = s"
| "join_segments (s # t # ss) = s @ CHR ''/'' # join_segments (t # ss)"

text \<open>\<^verbatim>\<open>segments[1:-1] = filter(None, segments[1:-1])\<close>\<close>

definition drop_inner_empty :: "string list \<Rightarrow> string list" where
  "drop_inner_empty ss =
     (case ss of [] \<Rightarrow> [] | [s] \<Rightarrow> [s]
      | s # rest \<Rightarrow> s # filter (\<lambda>t. t \<noteq> []) (butlast rest) @ [last rest])"

fun resolve_dots :: "string list \<Rightarrow> string list \<Rightarrow> string list" where
  "resolve_dots done_parts [] = done_parts"
| "resolve_dots done_parts (s # ss) =
     (if s = ''..'' then resolve_dots (butlast done_parts) ss
      else if s = ''.'' then resolve_dots done_parts ss
      else resolve_dots (done_parts @ [s]) ss)"

definition resolved_path :: "string \<Rightarrow> string \<Rightarrow> string" where
  "resolved_path base_path path =
     (let base_parts0 = path_segments base_path;
          base_parts = (if last base_parts0 \<noteq> [] then butlast base_parts0 else base_parts0);
          segments = (if take 1 path = ''/'' then path_segments path
                      else drop_inner_empty (base_parts @ path_segments path));
          parts = resolve_dots [] segments;
          parts' = (if last segments \<in> {''.'', ''..''} then parts @ [[]] else parts);
          joined_parts = join_segments parts'
      in if joined_parts = [] then ''/'' else joined_parts)"

definition urljoin :: "string \<Rightarrow> string \<Rightarrow> string py" where
  "urljoin base url =
     (if base = [] then Inr url
      else if url = [] then Inr base
      else
        bindE (urlparse [] base) (\<lambda>b. bindE (urlparse (fu_scheme b) url) (\<lambda>u.
          if fu_scheme u \<noteq> fu_scheme b \<or> fu_scheme u \<notin> set uses_relative then Inr url
          else if fu_scheme u \<in> set uses_netloc \<and> fu_netloc u \<noteq> [] then Inr (urlunparse u)
          else
            (let v = (if fu_scheme u \<in> set uses_netloc then u\<lparr>fu_netloc := fu_netloc b\<rparr> else u) in
             if fu_path v = [] \<and> fu_params v = [] then
               Inr (urlunparse (v\<lparr>fu_path := fu_path b, fu_params := fu_params b,
                 fu_query := (if fu_query v = [] then fu_query b else fu_query v)\<rparr>))
             else Inr (urlunparse (v\<lparr>fu_path := resolved_path (fu_path b) (fu_path v)\<rparr>))))))"

text \<open>An address that cannot be split cannot be joined to anything either.\<close>

lemma urljoin_raises:
  assumes "urlsplit url = Inl e" and "base \<noteq> []" and "url \<noteq> []" and "urlsplit base = Inr b"
  shows "urljoin base url = Inl e"
  using assms by (auto simp: urljoin_def urlparse_def urlsplit5_def Let_def split: prod.splits)

end
