(* ===== verification/Planner.thy ===== *)
theory Planner
  imports Url
begin

text \<open>
  \<^verbatim>\<open>src/agents/orchestrator/planner.py\<close>: from a goal and its inputs to the ordered list of steps,
  and the choices the planner makes along the way (which competitors, which keywords, which
  seed, which domain).
\<close>

subsection \<open>Steps\<close>

text \<open>The step kinds the schema's CHECK constraint allows.\<close>

datatype step_kind =
    Crawl
  | Keyword_Research
  | Serp_Check
  | Link_Analysis
  | Content_Analysis
  | Optimizer_Plan
  | Competitor_Crawl
  | Competitor_Check

fun kind_name :: "step_kind \<Rightarrow> string" where
  "kind_name Crawl = ''crawl''"
| "kind_name Keyword_Research = ''keyword_research''"
| "kind_name Serp_Check = ''serp_check''"
| "kind_name Link_Analysis = ''link_analysis''"
| "kind_name Content_Analysis = ''content_analysis''"
| "kind_name Optimizer_Plan = ''optimizer_plan''"
| "kind_name Competitor_Crawl = ''competitor_crawl''"
| "kind_name Competitor_Check = ''competitor_check''"

record plan_step =
  ps_position :: int
  ps_kind :: step_kind
  ps_job_id :: string
  ps_params :: dict

text \<open>
  What the code takes from the Python runtime and the machine: Unicode case folding, \<^verbatim>\<open>str\<close> of a
  value that is neither a string, an integer, a boolean nor \<^verbatim>\<open>None\<close>, and the ISO text of a point in
  time. The supply of \<^verbatim>\<open>uuid.uuid4()\<close> values is a function, the \<open>i\<close>-th call giving \<open>uuid4 i\<close>.
\<close>

record runtime =
  casefold :: "string \<Rightarrow> string"
  repr_other :: "json \<Rightarrow> string"
  isoformat :: "int \<Rightarrow> string"

fun py_str :: "runtime \<Rightarrow> json \<Rightarrow> string" where
  "py_str R (JStr s) = s"
| "py_str R (JInt i) = show_int i"
| "py_str R (JBool b) = (if b then ''True'' else ''False'')"
| "py_str R JNull = ''None''"
| "py_str R j = repr_other R j"

definition DEFAULT_TRACKED :: int where "DEFAULT_TRACKED = 10"
definition DEFAULT_OPTIMIZED :: int where "DEFAULT_OPTIMIZED = 5"
definition MAX_OPTIMIZED :: int where "MAX_OPTIMIZED = 25"
definition MAX_TRACKED :: int where "MAX_TRACKED = 50"
definition MAX_COMPETITORS :: nat where "MAX_COMPETITORS = 4"
definition DEFAULT_COMPETITOR_PAGES :: int where "DEFAULT_COMPETITOR_PAGES = 20"
definition MAX_COMPETITOR_PAGES :: int where "MAX_COMPETITOR_PAGES = 200"

lemmas planner_consts =
  DEFAULT_TRACKED_def DEFAULT_OPTIMIZED_def MAX_OPTIMIZED_def MAX_TRACKED_def
  MAX_COMPETITORS_def DEFAULT_COMPETITOR_PAGES_def MAX_COMPETITOR_PAGES_def

subsection \<open>Hosts and origins\<close>

definition with_slashes :: "string \<Rightarrow> string" where
  "with_slashes url = (if contains ''//'' url then url else ''//'' @ url)"

definition drop_www :: "string \<Rightarrow> string" where
  "drop_www host = (if starts_with ''www.'' host then drop 4 host else host)"

definition domain_of :: "string \<Rightarrow> string py" where
  "domain_of url = bindE (urlsplit (with_slashes url)) (\<lambda>u. Inr (lower (drop_www (hostname u))))"

definition origin_of :: "string \<Rightarrow> string py" where
  "origin_of url =
     bindE (urlsplit (with_slashes url)) (\<lambda>parsed.
     bindE (domain_of url) (\<lambda>host.
       if host = [] then Inr []
       else bindE (url_port parsed) (\<lambda>port.
         Inr (case port of
             Some p \<Rightarrow> if p \<noteq> 0 then host @ '':'' @ show_nat p else host
           | None \<Rightarrow> host))))"

text \<open>\<^verbatim>\<open>re.sub(r"[-_]+", " ", label)\<close>: the flag says whether a separator was just replaced.\<close>

fun separators_to_space :: "bool \<Rightarrow> string \<Rightarrow> string" where
  "separators_to_space insep [] = []"
| "separators_to_space insep (c # cs) =
     (if c = CHR ''-'' \<or> c = CHR ''_''
      then (if insep then separators_to_space True cs else CHR '' '' # separators_to_space True cs)
      else c # separators_to_space False cs)"

definition seed_from_domain :: "string \<Rightarrow> string py" where
  "seed_from_domain url =
     bindE (domain_of url) (\<lambda>dom.
       let host = (if dom = [] then url else dom);
           label = takeWhile (\<lambda>c. c \<noteq> CHR ''.'') host
       in Inr (strip (separators_to_space False label)))"

fun as_url :: "json \<Rightarrow> string py" where
  "as_url (JStr s) = Inr s"
| "as_url _ = Inl TypeError"

definition resolve_seed :: "dict \<Rightarrow> dict option \<Rightarrow> string py" where
  "resolve_seed params crawl_result =
     bindE (jstrip (py_or (dget params ''seed'') (JStr []))) (\<lambda>seed.
       if seed \<noteq> [] then Inr seed
       else
         (let crawled = dget (case crawl_result of None \<Rightarrow> [] | Some d \<Rightarrow> d) ''start_url'';
              url = py_or (py_or crawled (dget params ''start_url'')) (JStr [])
          in bindE (as_url url) seed_from_domain))"

subsection \<open>Competitors\<close>

text \<open>One entry of the list, stripped, with a scheme when it has none; empty for a blank entry.\<close>

definition competitor_url :: "runtime \<Rightarrow> json \<Rightarrow> string" where
  "competitor_url R raw =
     (let url = strip (py_str R (py_or raw (JStr []))) in
      if url = [] then [] else if contains ''//'' url then url else ''https://'' @ url)"

text \<open>The loop of \<^verbatim>\<open>competitors\<close>, with the urls and the origins collected so far.\<close>

fun competitors_loop :: "runtime \<Rightarrow> json list \<Rightarrow> string list \<Rightarrow> string list \<Rightarrow> string list py" where
  "competitors_loop R [] urls seen = Inr urls"
| "competitors_loop R (raw # rest) urls seen =
     (let url = competitor_url R raw in
      if url = [] then competitors_loop R rest urls seen
      else
         bindE (origin_of url) (\<lambda>key.
           if key = [] \<or> key \<in> set seen then competitors_loop R rest urls seen
           else if MAX_COMPETITORS \<le> length (urls @ [url]) then Inr (urls @ [url])
           else competitors_loop R rest (urls @ [url]) (key # seen)))"

definition competitors :: "runtime \<Rightarrow> dict \<Rightarrow> string list py" where
  "competitors R inputs =
     bindE (as_list (py_or (dget inputs ''competitors'') (JList []))) (\<lambda>raws.
       competitors_loop R raws [] [])"

definition competitor_pages :: "dict \<Rightarrow> int py" where
  "competitor_pages inputs =
     (let asked = dget inputs ''competitor_pages'' in
      if asked = JNull then Inr DEFAULT_COMPETITOR_PAGES
      else bindE (py_int asked) (\<lambda>n. Inr (max 1 (min n MAX_COMPETITOR_PAGES))))"

subsection \<open>Keywords to rank-check\<close>

fun keyword_term :: "runtime \<Rightarrow> json \<Rightarrow> string py" where
  "keyword_term R (JObj d) = jstrip (dget d ''keyword'')"
| "keyword_term R item = Inr (strip (py_str R item))"

fun track_loop :: "runtime \<Rightarrow> int \<Rightarrow> json list \<Rightarrow> string list \<Rightarrow> string list py" where
  "track_loop R limit [] kws = Inr kws"
| "track_loop R limit (item # rest) kws =
     bindE (keyword_term R item) (\<lambda>term.
       if term = [] \<or> casefold R term \<in> set (map (casefold R) kws) then track_loop R limit rest kws
       else if max 1 (min limit MAX_TRACKED) \<le> int (length (kws @ [term])) then Inr (kws @ [term])
       else track_loop R limit rest (kws @ [term]))"

definition keywords_to_track :: "runtime \<Rightarrow> dict option \<Rightarrow> int \<Rightarrow> string list py" where
  "keywords_to_track R research_result limit =
     bindE (as_list (dget_default (case research_result of None \<Rightarrow> [] | Some d \<Rightarrow> d)
              ''top_keywords'' (JList []))) (\<lambda>items.
       track_loop R limit items [])"

subsection \<open>The plan\<close>

text \<open>Copying the optional crawl limits, \<^verbatim>\<open>for key in ("max_pages", "max_depth")\<close>.\<close>

definition copy_limits :: "dict \<Rightarrow> dict \<Rightarrow> dict" where
  "copy_limits src params =
     foldl (\<lambda>p key. if dget src key \<noteq> JNull then dset p key (dget src key) else p)
       params [''max_pages'', ''max_depth'']"

definition int_or_default :: "dict \<Rightarrow> string \<Rightarrow> int \<Rightarrow> int py" where
  "int_or_default inputs key def = py_int (py_or (dget inputs key) (JInt def))"

definition mk_step :: "(nat \<Rightarrow> string) \<Rightarrow> nat \<Rightarrow> step_kind \<Rightarrow> dict \<Rightarrow> plan_step" where
  "mk_step uuid4 i k params =
     \<lparr>ps_position = int i + 1, ps_kind = k, ps_job_id = uuid4 i, ps_params = params\<rparr>"

text \<open>One crawl step per competitor, then the comparison, appended at the end of the plan.\<close>

fun add_rivals :: "(nat \<Rightarrow> string) \<Rightarrow> int \<Rightarrow> string list \<Rightarrow> plan_step list \<Rightarrow> plan_step list" where
  "add_rivals uuid4 pages [] steps = steps"
| "add_rivals uuid4 pages (url # urls) steps =
     add_rivals uuid4 pages urls
       (steps @ [mk_step uuid4 (length steps) Competitor_Crawl
          [(''start_url'', JStr url), (''max_pages'', JInt pages)]])"

text \<open>The six steps every site audit has.\<close>

definition base_steps ::
  "(nat \<Rightarrow> string) \<Rightarrow> dict \<Rightarrow> dict \<Rightarrow> json \<Rightarrow> json \<Rightarrow> int \<Rightarrow> int \<Rightarrow> plan_step list" where
  "base_steps uuid4 crawl_params research_params lang country tracked optimized =
     [mk_step uuid4 0 Crawl crawl_params,
      mk_step uuid4 1 Keyword_Research research_params,
      mk_step uuid4 2 Serp_Check
        [(''lang'', lang), (''country'', country), (''top_keywords'', JInt tracked)],
      mk_step uuid4 3 Link_Analysis [],
      mk_step uuid4 4 Content_Analysis [],
      mk_step uuid4 5 Optimizer_Plan [(''pages'', JInt optimized)]]"

definition add_competition ::
  "(nat \<Rightarrow> string) \<Rightarrow> int \<Rightarrow> string list \<Rightarrow> plan_step list \<Rightarrow> plan_step list" where
  "add_competition uuid4 pages rivals base =
     (let steps = add_rivals uuid4 pages rivals base in
      if rivals = [] then steps
      else steps @ [mk_step uuid4 (length steps) Competitor_Check []])"

definition site_audit :: "runtime \<Rightarrow> (nat \<Rightarrow> string) \<Rightarrow> dict \<Rightarrow> plan_step list py" where
  "site_audit R uuid4 inputs =
     bindE (jstrip (py_or (dget inputs ''start_url'') (JStr []))) (\<lambda>start_url.
     if start_url = [] then Inl (ValueError ''site_audit needs a start_url'')
     else
       (let crawl_params = copy_limits inputs [(''start_url'', JStr start_url)];
            lang = dget_default inputs ''lang'' (JStr ''fa'');
            country = dget_default inputs ''country'' (JStr ''IR'')
        in
        bindE (jstrip (py_or (dget inputs ''seed'') (JStr []))) (\<lambda>seed.
        bindE (int_or_default inputs ''track_keywords'' DEFAULT_TRACKED) (\<lambda>tracked.
        bindE (int_or_default inputs ''optimize_pages'' DEFAULT_OPTIMIZED) (\<lambda>optimized.
        bindE (competitors R inputs) (\<lambda>rivals.
        bindE (if rivals = [] then Inr 0 else competitor_pages inputs) (\<lambda>pages.
          let research_params = [(''lang'', lang), (''country'', country)]
                @ (if seed = [] then [] else [(''seed'', JStr seed)])
          in Inr (add_competition uuid4 pages rivals
                    (base_steps uuid4 crawl_params research_params lang country
                       tracked optimized)))))))))"

definition plan :: "runtime \<Rightarrow> (nat \<Rightarrow> string) \<Rightarrow> string \<Rightarrow> dict \<Rightarrow> plan_step list py" where
  "plan R uuid4 goal inputs =
     (if goal \<noteq> ''site_audit'' then Inl (UnknownGoal goal)
      else site_audit R uuid4 inputs)"

subsection \<open>Shape of a plan\<close>

text \<open>Positions count from one and each step carries its own identifier of the supply.\<close>

definition indexed :: "(nat \<Rightarrow> string) \<Rightarrow> plan_step list \<Rightarrow> bool" where
  "indexed uuid4 steps \<longleftrightarrow>
     map ps_position steps = map (\<lambda>i. int i + 1) [0..<length steps] \<and>
     map ps_job_id steps = map uuid4 [0..<length steps]"

lemma indexed_snoc:
  "indexed u steps \<Longrightarrow> indexed u (steps @ [mk_step u (length steps) k p])"
  by (simp add: indexed_def mk_step_def)

lemma indexed_Nil [simp]: "indexed u []"
  by (simp add: indexed_def)

lemma indexed_add_rivals: "indexed u steps \<Longrightarrow> indexed u (add_rivals u pages urls steps)"
  by (induction u pages urls steps rule: add_rivals.induct) (simp_all add: indexed_snoc)

lemma kinds_add_rivals:
  "map ps_kind (add_rivals u pages urls steps) =
     map ps_kind steps @ replicate (length urls) Competitor_Crawl"
  by (induction u pages urls steps rule: add_rivals.induct)
    (simp_all add: mk_step_def replicate_append_same)

definition base_kinds :: "step_kind list" where
  "base_kinds =
     [Crawl, Keyword_Research, Serp_Check, Link_Analysis, Content_Analysis, Optimizer_Plan]"

definition plan_kinds :: "nat \<Rightarrow> step_kind list" where
  "plan_kinds n = base_kinds @
     (if n = 0 then [] else replicate n Competitor_Crawl @ [Competitor_Check])"

lemma indexed_distinct_jobs: "indexed u steps \<Longrightarrow> inj u \<Longrightarrow> distinct (map ps_job_id steps)"
proof -
  assume "indexed u steps" and "inj u"
  then have "map ps_job_id steps = map u [0..<length steps]" and "inj_on u (set [0..<length steps])"
    by (auto simp: indexed_def intro: inj_on_subset)
  then show ?thesis by (simp only: distinct_map) simp
qed

lemma indexed_base_steps: "indexed u (base_steps u cp rp l c t op)"
  unfolding indexed_def base_steps_def mk_step_def
  by (simp add: upt_rec numeral_eq_Suc)

lemma kinds_base_steps: "map ps_kind (base_steps u cp rp l c t op) = base_kinds"
  by (simp add: base_steps_def base_kinds_def mk_step_def)

lemma indexed_add_competition:
  "indexed u base \<Longrightarrow> indexed u (add_competition u pages rivals base)"
  by (simp add: add_competition_def Let_def indexed_snoc indexed_add_rivals)

lemma kinds_add_competition:
  "map ps_kind base = base_kinds \<Longrightarrow>
     map ps_kind (add_competition u pages rivals base) = plan_kinds (length rivals)"
  by (simp add: add_competition_def Let_def plan_kinds_def kinds_add_rivals mk_step_def)

lemma site_audit_InrD:
  assumes "site_audit R u inputs = Inr steps"
  obtains rivals pages cp rp l c t op where
    "competitors R inputs = Inr rivals"
    "steps = add_competition u pages rivals (base_steps u cp rp l c t op)"
    "rivals \<noteq> [] \<longrightarrow> competitor_pages inputs = Inr pages"
  using assms by (auto simp: site_audit_def Let_def split: if_splits)

lemma site_audit_shape:
  assumes "site_audit R u inputs = Inr steps"
  shows "\<exists>rivals. competitors R inputs = Inr rivals \<and> indexed u steps \<and>
           map ps_kind steps = plan_kinds (length rivals)"
  using assms
  by (elim site_audit_InrD)
    (simp add: indexed_add_competition indexed_base_steps kinds_add_competition kinds_base_steps)

subsection \<open>Competitors: bounded, and one per origin\<close>

text \<open>
  The loop invariant: \<open>keys\<close> are the origins of the urls collected so far, all different and
  none empty.
\<close>

definition origins_ok :: "string list \<Rightarrow> string list \<Rightarrow> bool" where
  "origins_ok urls keys \<longleftrightarrow> mapE origin_of urls = Inr keys \<and> distinct keys \<and> [] \<notin> set keys"

lemma mapE_snoc:
  "mapE f xs = Inr ys \<Longrightarrow> f x = Inr y \<Longrightarrow> mapE f (xs @ [x]) = Inr (ys @ [y])"
  by (induction xs arbitrary: ys) auto

lemma origins_ok_snoc:
  "origins_ok urls keys \<Longrightarrow> origin_of url = Inr key \<Longrightarrow> key \<noteq> [] \<Longrightarrow> key \<notin> set keys \<Longrightarrow>
     origins_ok (urls @ [url]) (keys @ [key])"
  by (auto simp: origins_ok_def mapE_snoc)

lemma competitors_loop_invariant:
  assumes "competitors_loop R raws urls seen = Inr out"
    and "origins_ok urls keys" and "set keys = set seen" and "length urls < MAX_COMPETITORS"
  shows "\<exists>keys'. origins_ok out keys' \<and> length out \<le> MAX_COMPETITORS \<and> set urls \<subseteq> set out"
  using assms
proof (induction R raws urls seen arbitrary: keys rule: competitors_loop.induct)
  case (1 R urls seen)
  then show ?case by auto
next
  case (2 R raw rest urls seen)
  define url where "url = competitor_url R raw"
  show ?case
  proof (cases "url = []")
    case True
    with "2.prems" show ?thesis
      by (intro "2.IH"(1) [where keys = keys]) (auto simp: url_def Let_def)
  next
    case False
    with "2.prems"(1) obtain key where key: "origin_of url = Inr key"
      by (auto simp: url_def Let_def)
    show ?thesis
    proof (cases "key = [] \<or> key \<in> set seen")
      case True
      with "2.prems" False key show ?thesis
        by (intro "2.IH"(2) [where keys = keys]) (auto simp: url_def Let_def)
    next
      case new: False
      then have ok: "origins_ok (urls @ [url]) (keys @ [key])"
        using "2.prems" key by (intro origins_ok_snoc) auto
      show ?thesis
      proof (cases "MAX_COMPETITORS \<le> length (urls @ [url])")
        case True
        with "2.prems"(1) False new key have "out = urls @ [url]"
          by (auto simp: url_def Let_def)
        with ok "2.prems"(4) show ?thesis by auto
      next
        case more: False
        with "2.prems"(1) False new key
        have "competitors_loop R rest (urls @ [url]) (key # seen) = Inr out"
          by (simp add: url_def Let_def)
        with "2.IH"(3) [of url key "keys @ [key]"] ok more new False key "2.prems"(3)
        show ?thesis by (auto simp: url_def)
      qed
    qed
  qed
qed

lemma competitors_ok:
  assumes "competitors R inputs = Inr urls"
  shows "\<exists>keys. origins_ok urls keys \<and> length urls \<le> MAX_COMPETITORS"
proof -
  from assms obtain raws where "competitors_loop R raws [] [] = Inr urls"
    by (auto simp: competitors_def)
  from competitors_loop_invariant [OF this, of "[]"] show ?thesis
    by (auto simp: origins_ok_def MAX_COMPETITORS_def)
qed

subsection \<open>Keywords: bounded, one per case-folded spelling, nothing lost below the bound\<close>

definition track_limit :: "int \<Rightarrow> int" where
  "track_limit limit = max 1 (min limit MAX_TRACKED)"

definition tracked_ok :: "runtime \<Rightarrow> string list \<Rightarrow> bool" where
  "tracked_ok R kws \<longleftrightarrow> distinct (map (casefold R) kws) \<and> [] \<notin> set kws"

lemma track_loop_ok:
  assumes "track_loop R limit items kws = Inr out"
    and "tracked_ok R kws" and "int (length kws) < track_limit limit"
  shows "tracked_ok R out \<and> int (length out) \<le> track_limit limit"
  using assms
proof (induction R limit items kws rule: track_loop.induct)
  case (2 R limit item rest kws)
  from "2.prems"(1) obtain t where t: "keyword_term R item = Inr t"
    by auto
  with 2 show ?case
    by (auto simp: tracked_ok_def track_limit_def split: if_splits)
qed simp

lemma track_loop_prefix: "track_loop R limit items kws = Inr out \<Longrightarrow> set kws \<subseteq> set out"
  by (induction R limit items kws rule: track_loop.induct) (fastforce split: if_splits)+

lemma track_loop_complete:
  assumes "track_loop R limit items kws = Inr out"
    and "int (length out) < track_limit limit"
    and "item \<in> set items" and "keyword_term R item = Inr t" and "t \<noteq> []"
  shows "casefold R t \<in> casefold R ` set out"
  using assms
proof (induction R limit items kws rule: track_loop.induct)
  case (2 R limit i rest kws)
  from "2.prems"(1) obtain u where u: "keyword_term R i = Inr u"
    by auto
  show ?case
  proof (cases "item = i \<and> (u = [] \<or> casefold R u \<in> set (map (casefold R) kws))")
    case True
    with u "2.prems" show ?thesis
      using track_loop_prefix [of R limit rest kws out] by auto
  next
    case False
    with u "2.prems" "2.IH" show ?thesis
      using track_loop_prefix [of R limit rest "kws @ [u]" out]
      by (auto simp: track_limit_def split: if_splits)
  qed
qed simp

subsection \<open>Properties\<close>

text \<open>A runtime and a supply of identifiers for the witnesses.\<close>

definition plain_runtime :: runtime where
  "plain_runtime = \<lparr>casefold = lower, repr_other = (\<lambda>_. ''?''), isoformat = show_int\<rparr>"

definition plain_uuid :: "nat \<Rightarrow> string" where
  "plain_uuid i = replicate (Suc i) CHR ''u''"

lemma inj_plain_uuid: "inj plain_uuid"
  by (rule injI) (metis plain_uuid_def length_replicate nat.inject)

definition rival_inputs :: dict where
  "rival_inputs = [(''start_url'', JStr ''a.com''),
     (''competitors'', JList [JStr ''b.com'', JStr ''https://www.b.com/x'', JStr '' '', JStr ''c.com''])]"

text \<open>C14: a site audit that can be planned is the six base steps, then one crawl per accepted
  competitor and the comparison when there is at least one; positions count from one without
  gaps, and all job identifiers differ.\<close>

theorem plan_shape:
  assumes "plan R uuid4 goal inputs = Inr steps" and "inj uuid4"
  shows "\<exists>rivals. competitors R inputs = Inr rivals \<and> map ps_kind steps = plan_kinds (length rivals) \<and>
           map ps_position steps = map (\<lambda>i. int i + 1) [0..<length steps] \<and>
           distinct (map ps_job_id steps) \<and> length rivals \<le> MAX_COMPETITORS"
proof -
  have "site_audit R uuid4 inputs = Inr steps"
    using assms(1) by (simp add: plan_def split: if_splits)
  from site_audit_shape [OF this] obtain rivals
    where r: "competitors R inputs = Inr rivals" "indexed uuid4 steps"
      "map ps_kind steps = plan_kinds (length rivals)" by blast
  with competitors_ok [OF r(1)] indexed_distinct_jobs [OF r(2) assms(2)] show ?thesis
    by (auto simp: indexed_def)
qed

theorem plan_shape_witness:
  "\<exists>steps. plan plain_runtime plain_uuid ''site_audit'' rival_inputs = Inr steps \<and>
     map ps_kind steps = plan_kinds 2"
proof -
  have c: "competitors plain_runtime rival_inputs = Inr [''https://b.com'', ''https://c.com'']"
    by code_simp
  have "\<not> isl (plan plain_runtime plain_uuid ''site_audit'' rival_inputs)" by code_simp
  then obtain steps where s: "plan plain_runtime plain_uuid ''site_audit'' rival_inputs = Inr steps"
    by (cases "plan plain_runtime plain_uuid ''site_audit'' rival_inputs") auto
  from plan_shape [OF s inj_plain_uuid] c s show ?thesis by (auto simp: numeral_2_eq_2)
qed

text \<open>Only a site audit can be planned, and it needs an address: any other goal raises
  \<^verbatim>\<open>UnknownGoal\<close>, a blank address \<^verbatim>\<open>ValueError\<close>.\<close>

lemma plan_rejects:
  "(goal \<noteq> ''site_audit'' \<longrightarrow> plan R uuid4 goal inputs = Inl (UnknownGoal goal)) \<and>
   (\<not> truthy (dget inputs ''start_url'') \<or> (\<exists>s. dget inputs ''start_url'' = JStr s \<and> strip s = []) \<longrightarrow>
      (\<exists>m. plan R uuid4 ''site_audit'' inputs = Inl (ValueError m)))"
proof (intro conjI impI)
  show "plan R uuid4 goal inputs = Inl (UnknownGoal goal)" if "goal \<noteq> ''site_audit''"
    using that by (simp add: plan_def)
  assume "\<not> truthy (dget inputs ''start_url'') \<or> (\<exists>s. dget inputs ''start_url'' = JStr s \<and> strip s = [])"
  then have "jstrip (py_or (dget inputs ''start_url'') (JStr [])) = Inr []"
    by (auto simp: py_or_def strip_idem_nil)
  then show "\<exists>m. plan R uuid4 ''site_audit'' inputs = Inl (ValueError m)"
    by (simp add: plan_def site_audit_def)
qed

text \<open>The competitors of an audit are at most four, each has a host, and no two have the same
  origin (host and port, without \<^verbatim>\<open>www.\<close>), however the same rival is spelt.\<close>

lemma competitors_one_per_origin:
  assumes "competitors R inputs = Inr urls"
  shows "length urls \<le> 4 \<and>
         (\<exists>origins. mapE origin_of urls = Inr origins \<and> distinct origins \<and> [] \<notin> set origins)"
  using competitors_ok [OF assms] by (auto simp: origins_ok_def MAX_COMPETITORS_def)

text \<open>The keywords sent to the rank check: never more than the limit (between 1 and 50), none blank,
  no two equal up to case, and below the limit none of the keywords research found is dropped.\<close>

lemma keywords_bounded_distinct_complete:
  assumes "keywords_to_track R research limit = Inr kws"
    and "dget_default (case research of None \<Rightarrow> [] | Some d \<Rightarrow> d) ''top_keywords'' (JList []) = JList items"
  shows "int (length kws) \<le> max 1 (min limit 50) \<and> distinct (map (casefold R) kws) \<and> [] \<notin> set kws \<and>
         (int (length kws) < max 1 (min limit 50) \<longrightarrow>
            (\<forall>item\<in>set items. \<forall>t. keyword_term R item = Inr t \<and> t \<noteq> [] \<longrightarrow>
               casefold R t \<in> casefold R ` set kws))"
proof -
  have t: "track_loop R limit items [] = Inr kws"
    using assms by (simp add: keywords_to_track_def)
  have lim: "track_limit limit = max 1 (min limit 50)" by (simp add: track_limit_def MAX_TRACKED_def)
  have "tracked_ok R kws \<and> int (length kws) \<le> max 1 (min limit 50)"
    using track_loop_ok [OF t] by (simp add: lim tracked_ok_def)
  moreover have "\<forall>item\<in>set items. \<forall>t. keyword_term R item = Inr t \<and> t \<noteq> [] \<longrightarrow> casefold R t \<in> casefold R ` set kws"
    if "int (length kws) < max 1 (min limit 50)"
    using track_loop_complete [OF t] that by (auto simp only: lim)
  ultimately show ?thesis by (simp add: tracked_ok_def)
qed

text \<open>A keyword that is an object without a \<^verbatim>\<open>keyword\<close> entry is not skipped as the fallback
  \<^verbatim>\<open>or ""\<close> suggests: it raises \<^verbatim>\<open>AttributeError\<close> and the rank check is never dispatched.\<close>

lemma keyword_without_term_raises:
  assumes "map_of d ''keyword'' = None"
  shows "keywords_to_track R (Some [(''top_keywords'', JList (JObj d # items))]) limit = Inl AttributeError"
  using assms by (simp add: keywords_to_track_def dget_default_def dget_def)

text \<open>The seed of the keyword research: what the customer typed wins; without it the seed comes
  from the domain of the crawled address, and only then from the requested one.\<close>

lemma seed_priority:
  "(dget params ''seed'' = JStr s \<and> strip s \<noteq> [] \<longrightarrow> resolve_seed params crawl = Inr (strip s)) \<and>
   (dget params ''seed'' = JNull \<and> crawl = Some d \<and> dget d ''start_url'' = JStr u \<and> u \<noteq> [] \<longrightarrow>
      resolve_seed params crawl = seed_from_domain u) \<and>
   (dget params ''seed'' = JNull \<and> crawl = None \<and> dget params ''start_url'' = JStr v \<and> v \<noteq> [] \<longrightarrow>
      resolve_seed params crawl = seed_from_domain v)"
  by (auto simp: resolve_seed_def py_or_def strip_idem_nil)

end
