(* ===== verification/Workflow_Store.thy ===== *)
theory Workflow_Store
  imports Planner Outbox
begin

text \<open>
  \<^verbatim>\<open>src/agents/orchestrator/store.py\<close>: the workflow tables and every operation of \<^verbatim>\<open>WorkflowStore\<close>. A
  table is a list of rows; one method call is one transaction, so a function that raises leaves
  no new state. The CHECK constraints on the status and kind columns are the datatypes; the
  PRIMARY KEY, UNIQUE and REFERENCES constraints of the migrations are checked on insert.
\<close>

subsection \<open>Tables\<close>

datatype step_status = Pending | Dispatched | Completed | Failed | Skipped

datatype wf_status = WQueued | WRunning | WCompleted | WFailed

fun step_status_name :: "step_status \<Rightarrow> string" where
  "step_status_name Pending = ''pending''"
| "step_status_name Dispatched = ''dispatched''"
| "step_status_name Completed = ''completed''"
| "step_status_name Failed = ''failed''"
| "step_status_name Skipped = ''skipped''"

fun wf_status_name :: "wf_status \<Rightarrow> string" where
  "wf_status_name WQueued = ''queued''"
| "wf_status_name WRunning = ''running''"
| "wf_status_name WCompleted = ''completed''"
| "wf_status_name WFailed = ''failed''"

text \<open>\<^verbatim>\<open>TERMINAL\<close>.\<close>

definition terminal :: "wf_status \<Rightarrow> bool" where
  "terminal st \<longleftrightarrow> st = WCompleted \<or> st = WFailed"

record step_row =
  s_workflow_id :: string
  s_position :: int
  s_kind :: step_kind
  s_job_id :: string
  s_status :: step_status
  s_error :: "string option"
  s_result :: "dict option"
  s_params :: dict

record workflow_row =
  w_id :: string
  w_tenant_id :: "string option"
  w_project_id :: "string option"
  w_goal :: string
  w_inputs :: dict
  w_status :: wf_status
  w_error :: "string option"
  w_report :: "dict option"
  w_created_at :: int
  w_updated_at :: int

text \<open>The \<^verbatim>\<open>Workflow\<close> object the code passes around: the row together with its steps.\<close>

record workflow = workflow_row +
  w_steps :: "step_row list"

record wdb =
  workflows :: "workflow_row list"
  workflow_steps :: "step_row list"
  w_outbox :: outbox
  known_tenants :: "string list"
  known_projects :: "string list"
  now :: int

subsection \<open>Reading\<close>

text \<open>\<^verbatim>\<open>str(row[1]) if row[1] else None\<close>.\<close>

definition nonempty :: "string option \<Rightarrow> string option" where
  "nonempty x = (case x of Some s \<Rightarrow> if s = [] then None else Some s | None \<Rightarrow> None)"

definition with_steps :: "workflow_row \<Rightarrow> step_row list \<Rightarrow> workflow" where
  "with_steps w ss =
     workflow_row.extend
       (w\<lparr>w_tenant_id := nonempty (w_tenant_id w), w_project_id := nonempty (w_project_id w)\<rparr>)
       (workflow.fields ss)"

definition steps_of :: "wdb \<Rightarrow> string \<Rightarrow> step_row list" where
  "steps_of db wid = filter (\<lambda>s. s_workflow_id s = wid) (workflow_steps db)"

definition find_workflow :: "wdb \<Rightarrow> string \<Rightarrow> workflow_row option" where
  "find_workflow db wid = first_where (\<lambda>w. w_id w = wid) (workflows db)"

definition load :: "wdb \<Rightarrow> string \<Rightarrow> workflow option" where
  "load db wid = map_option (\<lambda>w. with_steps w (sort_key s_position (steps_of db wid)))
     (find_workflow db wid)"

definition get_workflow :: "wdb \<Rightarrow> string \<Rightarrow> string option \<Rightarrow> workflow option" where
  "get_workflow db wid tenant_id =
     (case load db wid of
        None \<Rightarrow> None
      | Some flow \<Rightarrow>
          if tenant_id = None then Some flow
          else if w_tenant_id flow = tenant_id then Some flow else None)"

definition recent :: "wdb \<Rightarrow> nat \<Rightarrow> string option \<Rightarrow> workflow list" where
  "recent db limit tenant_id =
     (let rows = (case tenant_id of
            None \<Rightarrow> workflows db
          | Some t \<Rightarrow> filter (\<lambda>w. w_tenant_id w = Some t) (workflows db));
          ids = map w_id (take limit (sort_key (\<lambda>w. - w_created_at w) rows))
      in List.map_filter (load db) ids)"

definition wf_count :: "wdb \<Rightarrow> nat" where
  "wf_count db = length (workflows db)"

definition step_at :: "workflow \<Rightarrow> int \<Rightarrow> step_row option" where
  "step_at flow position = first_where (\<lambda>s. s_position s = position) (w_steps flow)"

definition next_pending :: "workflow \<Rightarrow> step_row option" where
  "next_pending flow = first_where (\<lambda>s. s_status s = Pending) (sort_key s_position (w_steps flow))"

subsection \<open>Writing\<close>

text \<open>The plan's rows go in one by one; a clash of \<^verbatim>\<open>(workflow_id, position)\<close> or of \<^verbatim>\<open>job_id\<close> raises.\<close>

fun insert_steps ::
  "string \<Rightarrow> (int \<times> step_kind \<times> string \<times> dict) list \<Rightarrow> step_row list \<Rightarrow> step_row list py" where
  "insert_steps wid [] rows = Inr rows"
| "insert_steps wid ((position, kind, job_id, params) # rest) rows =
     (if \<exists>r\<in>set rows. s_job_id r = job_id \<or> s_workflow_id r = wid \<and> s_position r = position
      then Inl UniqueViolation
      else insert_steps wid rest (rows @
        [\<lparr>s_workflow_id = wid, s_position = position, s_kind = kind, s_job_id = job_id,
          s_status = Pending, s_error = None, s_result = None, s_params = params\<rparr>]))"

definition create ::
  "string \<Rightarrow> string \<Rightarrow> dict \<Rightarrow> (int \<times> step_kind \<times> string \<times> dict) list \<Rightarrow>
     string option \<Rightarrow> string option \<Rightarrow> wdb \<Rightarrow> wdb py" where
  "create wid goal inputs steps tenant_id project_id db =
     (if wid \<in> w_id ` set (workflows db) then Inl UniqueViolation
      else if set_option tenant_id \<subseteq> set (known_tenants db) \<and>
              set_option project_id \<subseteq> set (known_projects db)
      then bindE (insert_steps wid steps (workflow_steps db)) (\<lambda>rows.
        Inr (db\<lparr>workflows := workflows db @
               [\<lparr>w_id = wid, w_tenant_id = tenant_id, w_project_id = project_id, w_goal = goal,
                 w_inputs = inputs, w_status = WQueued, w_error = None, w_report = None,
                 w_created_at = now db, w_updated_at = now db\<rparr>],
             workflow_steps := rows\<rparr>))
      else Inl ForeignKeyViolation)"

definition mark_step ::
  "string \<Rightarrow> step_status \<Rightarrow> dict option \<Rightarrow> string option \<Rightarrow> wdb \<Rightarrow> string option \<times> wdb" where
  "mark_step job_id status result error db =
     (let hit = (\<lambda>r. s_job_id r = job_id \<and> s_status r = Dispatched) in
      (map_option s_workflow_id (first_where hit (workflow_steps db)),
       db\<lparr>workflow_steps := update_where hit
            (\<lambda>r. r\<lparr>s_status := status, s_result := result, s_error := error\<rparr>)
            (workflow_steps db)\<rparr>))"

definition skip_step :: "string \<Rightarrow> string \<Rightarrow> wdb \<Rightarrow> wdb" where
  "skip_step job_id reason db =
     db\<lparr>workflow_steps := update_where (\<lambda>r. s_job_id r = job_id \<and> s_status r = Pending)
          (\<lambda>r. r\<lparr>s_status := Skipped, s_error := Some reason\<rparr>) (workflow_steps db)\<rparr>"

definition mark_dispatched :: "string \<Rightarrow> wdb \<Rightarrow> wdb" where
  "mark_dispatched job_id db =
     db\<lparr>workflow_steps := update_where (\<lambda>r. s_job_id r = job_id \<and> s_status r = Pending)
          (\<lambda>r. r\<lparr>s_status := Dispatched\<rparr>) (workflow_steps db)\<rparr>"

definition set_status ::
  "string \<Rightarrow> wf_status \<Rightarrow> dict option \<Rightarrow> string option \<Rightarrow> pending_event list \<Rightarrow> wdb \<Rightarrow> wdb" where
  "set_status wid status report error events db =
     (let db' = db\<lparr>workflows := update_where (\<lambda>w. w_id w = wid)
            (\<lambda>w. w\<lparr>w_status := status,
                   w_report := (case report of None \<Rightarrow> w_report w | Some r \<Rightarrow> Some r),
                   w_error := error, w_updated_at := now db\<rparr>) (workflows db)\<rparr>
      in if events = [] then db'
         else
           (let row = find_workflow db' wid;
                subj = \<lparr>sj_job_id = wid,
                        sj_tenant_id = Option.bind row (\<lambda>w. nonempty (w_tenant_id w)),
                        sj_project_id = Option.bind row (\<lambda>w. nonempty (w_project_id w))\<rparr>
            in db'\<lparr>w_outbox := stage_all events subj (w_outbox db')\<rparr>))"

text \<open>Same goal, same tenant, same site, completed, not started later than this one.\<close>

definition same_site :: "workflow \<Rightarrow> string \<Rightarrow> workflow_row \<Rightarrow> bool" where
  "same_site flow start_url w \<longleftrightarrow>
     w_goal w = w_goal flow \<and> w_status w = WCompleted \<and> w_tenant_id w = w_tenant_id flow \<and>
     dget (w_inputs w) ''start_url'' = JStr start_url"

definition previous_completed :: "workflow \<Rightarrow> wdb \<Rightarrow> workflow option py" where
  "previous_completed flow db =
     (let start_url = dget (w_inputs flow) ''start_url'' in
      if \<not> truthy start_url then Inr None
      else bindE (as_url start_url) (\<lambda>url.
        let rows = filter (\<lambda>w. w_id w \<noteq> w_id flow \<and> same_site flow url w \<and>
                (case find_workflow db (w_id flow) of
                   None \<Rightarrow> False | Some self \<Rightarrow> w_created_at w \<le> w_created_at self))
              (workflows db)
        in Inr (case sort_key (\<lambda>w. - w_created_at w) rows of
              [] \<Rightarrow> None | w # _ \<Rightarrow> load db (w_id w))))"

definition history :: "workflow \<Rightarrow> nat \<Rightarrow> wdb \<Rightarrow> (string \<times> int \<times> int \<times> json) list py" where
  "history flow limit db =
     (let start_url = dget (w_inputs flow) ''start_url'' in
      if \<not> truthy start_url then Inr []
      else bindE (as_url start_url) (\<lambda>url.
        let rows = take limit (sort_key (\<lambda>w. - w_created_at w)
              (filter (same_site flow url) (workflows db)))
        in Inr (map (\<lambda>w. (w_id w, w_created_at w, w_updated_at w,
              py_or (case w_report w of None \<Rightarrow> JNull | Some r \<Rightarrow> dget r ''headline'') (JObj []))) rows)))"

definition save_summary :: "string \<Rightarrow> json \<Rightarrow> wdb \<Rightarrow> bool \<times> wdb" where
  "save_summary wid summary db =
     (let hit = (\<lambda>w. w_id w = wid \<and> terminal (w_status w)) in
      (\<exists>w\<in>set (workflows db). hit w,
       db\<lparr>workflows := update_where hit
            (\<lambda>w. w\<lparr>w_report := Some (dset (case w_report w of None \<Rightarrow> [] | Some r \<Rightarrow> r)
                     ''summary'' summary),
                   w_updated_at := now db\<rparr>) (workflows db)\<rparr>))"

subsection \<open>The views of a workflow\<close>

definition step_to_dict :: "step_row \<Rightarrow> dict" where
  "step_to_dict s =
     [(''position'', JInt (s_position s)), (''kind'', JStr (kind_name (s_kind s))),
      (''job_id'', JStr (s_job_id s)), (''status'', JStr (step_status_name (s_status s))),
      (''error'', opt_json (s_error s)),
      (''result'', (case s_result s of None \<Rightarrow> JNull | Some d \<Rightarrow> JObj d)),
      (''params'', JObj (s_params s))]"

definition trend_counts :: "dict \<Rightarrow> json py" where
  "trend_counts report =
     bindE (as_dict (py_or (dget report ''trend'') (JObj []))) (\<lambda>trend.
       if \<not> truthy (dget trend ''changes'') then Inr JNull
       else
         bindE (jlen (py_or (dget trend ''better'') (JList []))) (\<lambda>b.
         bindE (jlen (py_or (dget trend ''worse'') (JList []))) (\<lambda>w.
           Inr (JObj [(''better'', JInt b), (''worse'', JInt w)]))))"

definition wf_summary :: "runtime \<Rightarrow> workflow \<Rightarrow> dict py" where
  "wf_summary R flow =
     (let report = (case w_report flow of None \<Rightarrow> [] | Some r \<Rightarrow> r) in
      bindE (jget (py_or (dget report ''headline'') (JObj [])) ''overall_score'') (\<lambda>score.
      bindE (trend_counts report) (\<lambda>trend.
        Inr [(''workflow_id'', JStr (w_id flow)), (''goal'', JStr (w_goal flow)),
             (''status'', JStr (wf_status_name (w_status flow))), (''error'', opt_json (w_error flow)),
             (''created_at'', JStr (isoformat R (w_created_at flow))),
             (''updated_at'', JStr (isoformat R (w_updated_at flow))),
             (''start_url'', dget (w_inputs flow) ''start_url''),
             (''overall_score'', score), (''trend'', trend),
             (''steps'', JList (map (\<lambda>s. JObj
                [(''position'', JInt (s_position s)), (''kind'', JStr (kind_name (s_kind s))),
                 (''job_id'', JStr (s_job_id s)),
                 (''status'', JStr (step_status_name (s_status s)))])
                (sort_key s_position (w_steps flow))))])))"

definition wf_to_dict :: "runtime \<Rightarrow> workflow \<Rightarrow> dict py" where
  "wf_to_dict R flow =
     bindE (wf_summary R flow) (\<lambda>summary.
       Inr (dmerge summary
         [(''inputs'', JObj (w_inputs flow)),
          (''report'', (case w_report flow of None \<Rightarrow> JNull | Some r \<Rightarrow> JObj r)),
          (''steps'', JList (map (JObj \<circ> step_to_dict) (sort_key s_position (w_steps flow))))]))"

end
