(* ===== verification/Contracts.thy ===== *)
theory Contracts
  imports Py_Prelude
begin

text \<open>
  \<^verbatim>\<open>src/shared/contracts/__init__.py\<close>: validation of an event payload against its schema. The
  schema files and the optional third-party \<^verbatim>\<open>jsonschema\<close> package are parameters: \<open>schemas\<close> gives
  the parsed file of an event type, and \<open>jsonschema\<close> is \<open>None\<close> when the package is not installed
  and otherwise maps a schema and a payload to the message of a validation error, if any.
\<close>

record contracts =
  schemas :: "string \<Rightarrow> dict option"
  jsonschema :: "(dict \<Rightarrow> dict \<Rightarrow> string option) option"

definition event_schema :: "contracts \<Rightarrow> string \<Rightarrow> dict py" where
  "event_schema C event_type =
     (case schemas C event_type of
        None \<Rightarrow> Inl (ContractError (''no schema for event type '' @ event_type))
      | Some schema \<Rightarrow> Inr schema)"

text \<open>The fallback: the required keys of the schema that the payload does not have.\<close>

definition missing_keys :: "json list \<Rightarrow> dict \<Rightarrow> json list" where
  "missing_keys required payload = filter (\<lambda>k. k \<notin> JStr ` fst ` set payload) required"

definition validate_event :: "contracts \<Rightarrow> string \<Rightarrow> dict \<Rightarrow> unit py" where
  "validate_event C event_type payload =
     bindE (event_schema C event_type) (\<lambda>schema.
       case jsonschema C of
         None \<Rightarrow>
           bindE (as_list (dget_default schema ''required'' (JList []))) (\<lambda>required.
             if missing_keys required payload \<noteq> []
             then Inl (ContractError (event_type @ '' payload missing required fields''))
             else Inr ())
       | Some validate \<Rightarrow>
           (case validate schema payload of
              None \<Rightarrow> Inr ()
            | Some message \<Rightarrow> Inl (ContractError (event_type @ '' payload invalid: '' @ message))))"

text \<open>Schemas that ask for nothing.\<close>

definition open_contracts :: contracts where
  "open_contracts = \<lparr>schemas = (\<lambda>_. Some []), jsonschema = None\<rparr>"

lemma open_contracts_accept: "validate_event open_contracts t p = Inr ()"
  by (simp add: validate_event_def event_schema_def open_contracts_def dget_default_def missing_keys_def)

lemma validate_event_unknown:
  "schemas C t = None \<Longrightarrow> \<exists>m. validate_event C t payload = Inl (ContractError m)"
  by (simp add: validate_event_def event_schema_def)

text \<open>Without the package, a payload that passes has every required key.\<close>

lemma validate_event_required:
  assumes "jsonschema C = None" and "schemas C t = Some schema"
    and "dget_default schema ''required'' (JList []) = JList ks"
    and "validate_event C t payload = Inr ()" and "JStr k \<in> set ks"
  shows "k \<in> fst ` set payload"
proof -
  have "missing_keys ks payload = []"
    using assms(1-4) by (auto simp: validate_event_def event_schema_def split: if_splits)
  with assms(5) show ?thesis
    by (auto simp: missing_keys_def filter_empty_conv)
qed

text \<open>An event type without a schema is always refused. Without the validator package, a payload
  passes exactly when it has every key the schema requires; with the package its verdict decides.\<close>

lemma validate_event_decides:
  assumes "schemas C t = Some schema" and "dget_default schema ''required'' (JList []) = JList ks"
  shows "(jsonschema C = None \<longrightarrow>
            (validate_event C t payload = Inr () \<longleftrightarrow> (\<forall>k\<in>set ks. k \<in> JStr ` fst ` set payload))) \<and>
         (\<forall>v. jsonschema C = Some v \<longrightarrow>
            (validate_event C t payload = Inr () \<longleftrightarrow> v schema payload = None)) \<and>
         (\<forall>t'. schemas C t' = None \<longrightarrow> validate_event C t' payload \<noteq> Inr ())"
  using assms validate_event_unknown [of C _ payload]
  by (auto simp: validate_event_def event_schema_def missing_keys_def filter_empty_conv
      split: option.splits)

end
