(* ===== verification/Trend_Texts.thy ===== *)
theory Trend_Texts
  imports Py_Prelude
begin

text \<open>
  The Persian wording of \<^verbatim>\<open>src/agents/orchestrator/trends.py\<close>, as UTF-8 bytes: the metric and category
  labels, and the pieces of the headline sentence and of the note on unequal crawls.
\<close>

definition utf8 :: "nat list \<Rightarrow> string" where
  "utf8 bs = map char_of bs"

definition fa_metric_overall_score :: string where
"fa_metric_overall_score = utf8 [216, 167, 217, 133, 216, 170, 219, 140, 216, 167, 216, 178,
    32, 218, 169, 217, 132, 219, 140]"

definition fa_metric_total_issues :: string where
"fa_metric_total_issues = utf8 [216, 170, 216, 185, 216, 175, 216, 167, 216, 175, 32, 216,
    167, 219, 140, 216, 177, 216, 167, 216, 175, 217, 135, 216, 167]"

definition fa_metric_keywords_found :: string where
"fa_metric_keywords_found = utf8 [218, 169, 217, 132, 217, 133, 216, 167, 216, 170, 32, 218,
    169, 217, 132, 219, 140, 216, 175, 219, 140]"

definition fa_metric_keywords_ranked :: string where
"fa_metric_keywords_ranked = utf8 [218, 169, 217, 132, 217, 133, 217, 135, 226, 128, 140,
    219, 140, 32, 216, 177, 216, 170, 216, 168, 217, 135, 226, 128, 140, 218, 175, 216, 177,
    217, 129, 216, 170, 217, 135]"

definition fa_metric_average_position :: string where
"fa_metric_average_position = utf8 [217, 133, 219, 140, 216, 167, 217, 134, 218, 175, 219,
    140, 217, 134, 32, 216, 172, 216, 167, 219, 140, 218, 175, 216, 167, 217, 135]"

definition fa_metric_orphan_pages :: string where
"fa_metric_orphan_pages = utf8 [216, 181, 217, 129, 216, 173, 217, 135, 226, 128, 140, 219,
    140, 32, 219, 140, 216, 170, 219, 140, 217, 133]"

definition fa_metric_keyword_coverage :: string where
"fa_metric_keyword_coverage = utf8 [217, 190, 217, 136, 216, 180, 216, 180, 32, 218, 169,
    217, 132, 217, 133, 216, 167, 216, 170, 32, 218, 169, 217, 132, 219, 140, 216, 175, 219,
    140]"

definition fa_metric_behind_on :: string where
"fa_metric_behind_on = utf8 [216, 179, 217, 134, 216, 172, 217, 135, 226, 128, 140, 216,
    167, 219, 140, 32, 218, 169, 217, 135, 32, 216, 167, 216, 178, 32, 216, 177, 217, 130,
    216, 168, 216, 167, 32, 216, 185, 217, 130, 216, 168, 226, 128, 140, 216, 167, 219, 140,
    216, 175]"

definition fa_category_indexing :: string where
"fa_category_indexing = utf8 [216, 167, 219, 140, 217, 134, 216, 175, 218, 169, 216, 179,
    226, 128, 140, 216, 180, 216, 175, 217, 134, 32, 217, 136, 32, 216, 174, 216, 178, 216,
    180]"

definition fa_category_content :: string where
"fa_category_content = utf8 [217, 133, 216, 173, 216, 170, 217, 136, 216, 167, 32, 217, 136,
    32, 218, 169, 217, 132, 217, 133, 216, 167, 216, 170, 32, 218, 169, 217, 132, 219, 140,
    216, 175, 219, 140]"

definition fa_category_technical :: string where
"fa_category_technical = utf8 [217, 129, 217, 134, 219, 140]"

definition fa_category_performance :: string where
"fa_category_performance = utf8 [216, 179, 216, 177, 216, 185, 216, 170, 32, 217, 136, 32,
    67, 111, 114, 101, 32, 87, 101, 98, 32, 86, 105, 116, 97, 108, 115]"

definition fa_category_structured_data :: string where
"fa_category_structured_data = utf8 [216, 175, 216, 167, 216, 175, 217, 135, 32, 216, 179,
    216, 167, 216, 174, 216, 170, 216, 167, 216, 177, 219, 140, 216, 167, 217, 129, 216,
    170, 217, 135]"

definition fa_category_links :: string where
"fa_category_links = utf8 [217, 132, 219, 140, 217, 134, 218, 169, 226, 128, 140, 216, 179,
    216, 167, 216, 178, 219, 140]"

definition fa_category_images :: string where
"fa_category_images = utf8 [216, 170, 216, 181, 216, 167, 217, 136, 219, 140, 216, 177]"

definition fa_category_eeat :: string where
"fa_category_eeat = utf8 [216, 167, 216, 185, 216, 170, 216, 168, 216, 167, 216, 177, 32,
    217, 136, 32, 69, 45, 69, 45, 65, 45, 84]"

definition fa_category_international :: string where
"fa_category_international = utf8 [218, 134, 217, 134, 216, 175, 216, 178, 216, 168, 216,
    167, 217, 134, 217, 135]"

definition fa_category_ai_search :: string where
"fa_category_ai_search = utf8 [216, 172, 216, 179, 216, 170, 216, 172, 217, 136, 219, 140,
    32, 217, 135, 217, 136, 216, 180, 32, 217, 133, 216, 181, 217, 134, 217, 136, 216, 185,
    219, 140]"

definition fa_no_meaningful_change :: string where
"fa_no_meaningful_change = utf8 [217, 134, 216, 179, 216, 168, 216, 170, 32, 216, 168, 217,
    135, 32, 216, 167, 216, 172, 216, 177, 216, 167, 219, 140, 32, 217, 130, 216, 168, 217,
    132, 219, 140, 32, 216, 170, 216, 186, 219, 140, 219, 140, 216, 177, 32, 217, 133, 216,
    185, 217, 134, 216, 167, 216, 175, 216, 167, 216, 177, 219, 140, 32, 217, 134, 219, 140,
    216, 179, 216, 170, 46]"

definition fa_went_up :: string where
"fa_went_up = utf8 [216, 168, 216, 167, 217, 132, 216, 167, 32, 216, 177, 217, 129, 216,
    170, 217, 135]"

definition fa_went_down :: string where
"fa_went_down = utf8 [217, 190, 216, 167, 219, 140, 219, 140, 217, 134, 32, 216, 162, 217,
    133, 216, 175, 217, 135]"

definition fa_score_from :: string where
"fa_score_from = utf8 [216, 167, 217, 133, 216, 170, 219, 140, 216, 167, 216, 178, 32, 218,
    169, 217, 132, 219, 140, 32, 216, 167, 216, 178, 32]"

definition fa_score_to :: string where
"fa_score_to = utf8 [32, 216, 168, 217, 135, 32]"

definition fa_only_better :: string where
"fa_only_better = utf8 [32, 216, 179, 217, 134, 216, 172, 217, 135, 32, 216, 168, 217, 135,
    216, 170, 216, 177, 32, 216, 180, 216, 175, 217, 135, 32, 217, 136, 32, 217, 135, 219,
    140, 218, 134, 226, 128, 140, 218, 169, 216, 175, 216, 167, 217, 133, 32, 216, 168, 216,
    175, 216, 170, 216, 177, 32, 217, 134, 216, 180, 216, 175, 217, 135, 46]"

definition fa_only_worse :: string where
"fa_only_worse = utf8 [32, 216, 179, 217, 134, 216, 172, 217, 135, 32, 216, 168, 216, 175,
    216, 170, 216, 177, 32, 216, 180, 216, 175, 217, 135, 32, 217, 136, 32, 217, 135, 219,
    140, 218, 134, 226, 128, 140, 218, 169, 216, 175, 216, 167, 217, 133, 32, 216, 168, 217,
    135, 216, 170, 216, 177, 32, 217, 134, 216, 180, 216, 175, 217, 135, 46]"

definition fa_better_and :: string where
"fa_better_and = utf8 [32, 216, 179, 217, 134, 216, 172, 217, 135, 32, 216, 168, 217, 135,
    216, 170, 216, 177, 32, 217, 136, 32]"

definition fa_worse_end :: string where
"fa_worse_end = utf8 [32, 216, 179, 217, 134, 216, 172, 217, 135, 32, 216, 168, 216, 175,
    216, 170, 216, 177, 32, 216, 180, 216, 175, 217, 135, 46]"

definition fa_note_now :: string where
"fa_note_now = utf8 [216, 167, 219, 140, 217, 134, 32, 216, 168, 216, 167, 216, 177, 32]"

definition fa_note_crawled :: string where
"fa_note_crawled = utf8 [32, 216, 181, 217, 129, 216, 173, 217, 135, 32, 216, 174, 216, 178,
    219, 140, 216, 175, 217, 135, 32, 216, 180, 216, 175, 32, 217, 136, 32, 216, 175, 217,
    129, 216, 185, 217, 135, 226, 128, 140, 219, 140, 32, 217, 130, 216, 168, 217, 132, 32]"

definition fa_note_dash :: string where
"fa_note_dash = utf8 [32, 226, 128, 148, 32]"

definition fa_note_why :: string where
"fa_note_why = utf8 [216, 179, 217, 134, 216, 172, 217, 135, 226, 128, 140, 217, 135, 216,
    167, 219, 140, 219, 140, 32, 218, 169, 217, 135, 32, 218, 134, 219, 140, 216, 178, 219,
    140, 32, 216, 177, 216, 167, 32, 217, 133, 219, 140, 226, 128, 140, 216, 180, 217, 133,
    216, 167, 216, 177, 217, 134, 216, 175, 32, 217, 133, 217, 130, 216, 167, 219, 140, 216,
    179, 217, 135, 32, 217, 134, 216, 180, 216, 175, 217, 134, 216, 175, 216, 140, 32, 218,
    134, 217, 136, 217, 134, 32, 216, 168, 216, 167, 32, 216, 167, 217, 134, 216, 175, 216,
    167, 216, 178, 217, 135, 226, 128, 140, 219, 140, 32, 216, 174, 216, 178, 216, 180, 32,
    216, 168, 216, 167, 217, 132, 216, 167, 32, 217, 136, 32, 217, 190, 216, 167, 219, 140,
    219, 140, 217, 134, 32, 217, 133, 219, 140, 226, 128, 140, 216, 177, 217, 136, 217, 134,
    216, 175, 32, 217, 134, 217, 135, 32, 216, 168, 216, 167, 32, 217, 136, 216, 182, 216,
    185, 219, 140, 216, 170, 32, 216, 179, 216, 167, 219, 140, 216, 170, 46]"

end
