(* ===== verification/Trends.thy ===== *)
theory Trends
  imports Planner Trend_Texts "HOL-Library.List_Lexorder" "HOL-Library.Char_ord" "HOL-Library.Product_Lexorder"
begin

text \<open>
  \<^verbatim>\<open>src/agents/orchestrator/trends.py\<close>: what changed between two reports of the same site. A report is
  the dictionary the engine stores; numbers are exact rationals. The comparison of the integer
  page counts with \<^verbatim>\<open>0.2 * max(before, after)\<close> is the same over floats and over rationals, since the
  rounding error of \<^verbatim>\<open>0.2\<close> never reaches half a unit in the last place of an integer product.
\<close>

subsection \<open>Metrics\<close>

datatype direction = Level | Better | Worse

fun direction_name :: "direction \<Rightarrow> string" where
  "direction_name Level = ''level''"
| "direction_name Better = ''better''"
| "direction_name Worse = ''worse''"

record metric =
  m_key :: string
  m_higher :: bool
  m_threshold :: rat
  m_label :: string

definition METRICS :: "metric list" where
  "METRICS =
     [\<lparr>m_key = ''overall_score'', m_higher = True, m_threshold = 2, m_label = fa_metric_overall_score\<rparr>,
      \<lparr>m_key = ''total_issues'', m_higher = False, m_threshold = 2, m_label = fa_metric_total_issues\<rparr>,
      \<lparr>m_key = ''keywords_found'', m_higher = True, m_threshold = 5, m_label = fa_metric_keywords_found\<rparr>,
      \<lparr>m_key = ''keywords_ranked'', m_higher = True, m_threshold = 1, m_label = fa_metric_keywords_ranked\<rparr>,
      \<lparr>m_key = ''average_position'', m_higher = False, m_threshold = 1 / 2,
        m_label = fa_metric_average_position\<rparr>,
      \<lparr>m_key = ''orphan_pages'', m_higher = False, m_threshold = 1, m_label = fa_metric_orphan_pages\<rparr>,
      \<lparr>m_key = ''keyword_coverage'', m_higher = True, m_threshold = 5,
        m_label = fa_metric_keyword_coverage\<rparr>,
      \<lparr>m_key = ''behind_on'', m_higher = False, m_threshold = 1, m_label = fa_metric_behind_on\<rparr>]"

definition COUNTING :: "string list" where
  "COUNTING = [''total_issues'', ''orphan_pages'']"

definition SAMPLE_TOLERANCE :: rat where "SAMPLE_TOLERANCE = 1 / 5"
definition CATEGORY_THRESHOLD :: rat where "CATEGORY_THRESHOLD = 3"

definition CATEGORY_FA :: "(string \<times> string) list" where
  "CATEGORY_FA =
     [(''indexing'', fa_category_indexing), (''content'', fa_category_content),
      (''technical'', fa_category_technical), (''performance'', fa_category_performance),
      (''structured_data'', fa_category_structured_data), (''links'', fa_category_links),
      (''images'', fa_category_images), (''eeat'', fa_category_eeat),
      (''international'', fa_category_international), (''ai_search'', fa_category_ai_search)]"

record change =
  ch_metric :: string
  ch_label :: string
  ch_before :: json
  ch_after :: json
  ch_change :: rat
  ch_direction :: direction

definition change_to_dict :: "change \<Rightarrow> json" where
  "change_to_dict c = JObj
     [(''metric'', JStr (ch_metric c)), (''label_fa'', JStr (ch_label c)),
      (''before'', ch_before c), (''after'', ch_after c), (''change'', JFloat (ch_change c)),
      (''direction'', JStr (direction_name (ch_direction c)))]"

subsection \<open>Arithmetic\<close>

text \<open>\<^verbatim>\<open>round(x, 2)\<close>: to hundredths, ties to even.\<close>

definition round_half_even :: "rat \<Rightarrow> int" where
  "round_half_even x =
     (let f = \<lfloor>x\<rfloor>; d = x - of_int f in
      if d < 1 / 2 then f else if d > 1 / 2 then f + 1 else if even f then f else f + 1)"

definition round2 :: "rat \<Rightarrow> rat" where
  "round2 x = of_int (round_half_even (x * 100)) / 100"

text \<open>\<^verbatim>\<open>_number\<close>: \<^verbatim>\<open>float(value)\<close>, or zero where that raises; \<open>read_float\<close> reads the text of a number.\<close>

fun number :: "(string \<Rightarrow> rat option) \<Rightarrow> json \<Rightarrow> rat" where
  "number read_float (JInt i) = of_int i"
| "number read_float (JFloat r) = r"
| "number read_float (JBool b) = (if b then 1 else 0)"
| "number read_float (JStr s) = (case read_float s of None \<Rightarrow> 0 | Some r \<Rightarrow> r)"
| "number read_float _ = 0"

definition similar :: "int \<Rightarrow> int \<Rightarrow> bool" where
  "similar was_h now_h =
     (if was_h = 0 \<or> now_h = 0 then False
      else of_int \<bar>now_h - was_h\<bar> \<le> SAMPLE_TOLERANCE * of_int (max was_h now_h))"

definition pages :: "dict \<Rightarrow> int py" where
  "pages report =
     bindE (jget (py_or (dget report ''crawl'') (JObj [])) ''pages_crawled'') (\<lambda>n.
       py_int (py_or n (JInt 0)))"

definition judge :: "bool \<Rightarrow> rat \<Rightarrow> rat \<Rightarrow> direction" where
  "judge higher threshold delta =
     (if \<not> (\<bar>delta\<bar> \<ge> threshold) then Level
      else if (if higher then delta > 0 else delta < 0) then Better else Worse)"

subsection \<open>The comparison\<close>

text \<open>One metric of \<^verbatim>\<open>METRICS\<close>: no row when a side is missing or the samples differ too much.\<close>

definition metric_change ::
  "(string \<Rightarrow> rat option) \<Rightarrow> bool \<Rightarrow> dict \<Rightarrow> dict \<Rightarrow> metric \<Rightarrow> change option" where
  "metric_change rf comparable_sample was_h now_h m =
     (let old = dget was_h (m_key m); new = dget now_h (m_key m) in
      if old = JNull \<or> new = JNull then None
      else if m_key m \<in> set COUNTING \<and> \<not> comparable_sample then None
      else
        (let delta = round2 (number rf new - number rf old) in
         Some \<lparr>ch_metric = m_key m, ch_label = m_label m, ch_before = old, ch_after = new,
               ch_change = delta, ch_direction = judge (m_higher m) (m_threshold m) delta\<rparr>))"

fun as_text :: "json \<Rightarrow> string py" where
  "as_text (JStr s) = Inr s"
| "as_text _ = Inl TypeError"

text \<open>\<^verbatim>\<open>{c.get("category"): c for c in ...}\<close>; category keys are strings by contract.\<close>

fun index_categories :: "json list \<Rightarrow> dict \<Rightarrow> dict py" where
  "index_categories [] acc = Inr acc"
| "index_categories (c # cs) acc =
     bindE (as_dict c) (\<lambda>d.
     bindE (as_text (dget d ''category'')) (\<lambda>key.
       index_categories cs (dset acc key (JObj d))))"

definition category_scores :: "dict \<Rightarrow> dict py" where
  "category_scores report =
     bindE (jget (py_or (dget report ''crawl'') (JObj [])) ''category_scores'') (\<lambda>cs.
     bindE (as_list (py_or cs (JList []))) (\<lambda>items.
       index_categories items []))"

definition category_row ::
  "(string \<Rightarrow> rat option) \<Rightarrow> dict \<Rightarrow> string \<times> json \<Rightarrow> change option py" where
  "category_row rf was_h entry =
     (case entry of (key, nowc) \<Rightarrow>
       bindE (as_dict nowc) (\<lambda>cur.
         case map_of was_h key of
           None \<Rightarrow> Inr None
         | Some wasj \<Rightarrow>
             bindE (as_dict wasj) (\<lambda>was.
               let new = dget cur ''score''; old = dget was ''score'' in
               if new = JNull \<or> old = JNull then Inr None
               else
                 bindE (as_text (py_or (dget cur ''label_fa'')
                    (JStr (case map_of CATEGORY_FA key of None \<Rightarrow> key | Some l \<Rightarrow> l)))) (\<lambda>label.
                   let delta = round2 (number rf new - number rf old) in
                   Inr (Some \<lparr>ch_metric = ''category:'' @ key, ch_label = label,
                              ch_before = old, ch_after = new, ch_change = delta,
                              ch_direction = judge True CATEGORY_THRESHOLD delta\<rparr>)))))"

definition categories ::
  "(string \<Rightarrow> rat option) \<Rightarrow> dict \<Rightarrow> dict \<Rightarrow> change list py" where
  "categories rf previous current =
     bindE (category_scores previous) (\<lambda>was_h.
     bindE (category_scores current) (\<lambda>now_h.
     bindE (mapE (category_row rf was_h) now_h) (\<lambda>rows.
       Inr (sort_key (\<lambda>c. (- \<bar>ch_change c\<bar>, ch_label c)) (List.map_filter id rows)))))"

record trend =
  tr_compared_with :: json
  tr_compared_at :: json
  tr_changes :: "change list"
  tr_pages_before :: int
  tr_pages_after :: int
  tr_comparable :: bool

definition compare :: "(string \<Rightarrow> rat option) \<Rightarrow> dict option \<Rightarrow> dict \<Rightarrow> trend option py" where
  "compare rf previous current =
     (case previous of
        None \<Rightarrow> Inr None
      | Some prev \<Rightarrow>
          if prev = [] then Inr None
          else
            bindE (pages prev) (\<lambda>pages_before.
            bindE (pages current) (\<lambda>pages_after.
            bindE (as_dict (py_or (dget prev ''headline'') (JObj []))) (\<lambda>was_h.
            bindE (as_dict (py_or (dget current ''headline'') (JObj []))) (\<lambda>now_h.
              let comparable_sample = similar pages_before pages_after in
              bindE (categories rf prev current) (\<lambda>cats.
                Inr (Some
                  \<lparr>tr_compared_with = dget prev ''workflow_id'',
                   tr_compared_at = dget prev ''finished_at'',
                   tr_changes =
                     List.map_filter (metric_change rf comparable_sample was_h now_h) METRICS @ cats,
                   tr_pages_before = pages_before, tr_pages_after = pages_after,
                   tr_comparable = comparable_sample\<rparr>)))))))"

definition tr_better :: "trend \<Rightarrow> string list" where
  "tr_better t = map ch_metric (filter (\<lambda>c. ch_direction c = Better) (tr_changes t))"

definition tr_worse :: "trend \<Rightarrow> string list" where
  "tr_worse t = map ch_metric (filter (\<lambda>c. ch_direction c = Worse) (tr_changes t))"

definition trend_note :: "trend \<Rightarrow> json" where
  "trend_note t =
     (if tr_comparable t then JNull
      else JStr (fa_note_now @ show_int (tr_pages_after t) @ fa_note_crawled
             @ show_int (tr_pages_before t) @ fa_note_dash @ fa_note_why))"

definition trend_to_dict :: "trend \<Rightarrow> dict" where
  "trend_to_dict t =
     [(''compared_with'', tr_compared_with t), (''compared_at'', tr_compared_at t),
      (''changes'', JList (map change_to_dict (tr_changes t))),
      (''better'', JList (map JStr (tr_better t))), (''worse'', JList (map JStr (tr_worse t))),
      (''pages_before'', JInt (tr_pages_before t)), (''pages_after'', JInt (tr_pages_after t)),
      (''comparable_sample'', JBool (tr_comparable t)), (''note'', trend_note t)]"

definition headline :: "runtime \<Rightarrow> trend option \<Rightarrow> string option" where
  "headline R trend =
     (case trend of
        None \<Rightarrow> None
      | Some t \<Rightarrow>
          if tr_changes t = [] then None
          else
            (let better = length (tr_better t); worse = length (tr_worse t) in
             if better = 0 \<and> worse = 0 then Some fa_no_meaningful_change
             else
               (let lead =
                  (case first_where (\<lambda>c. ch_metric c = ''overall_score'') (tr_changes t) of
                     None \<Rightarrow> []
                   | Some c \<Rightarrow>
                       if ch_direction c = Level then []
                       else fa_score_from @ py_str R (ch_before c) @ fa_score_to
                              @ py_str R (ch_after c) @ '' ''
                              @ (if ch_change c > 0 then fa_went_up else fa_went_down) @ ''. '')
                in if better \<noteq> 0 \<and> worse = 0 then Some (lead @ show_nat better @ fa_only_better)
                   else if worse \<noteq> 0 \<and> better = 0 then Some (lead @ show_nat worse @ fa_only_worse)
                   else Some (lead @ show_nat better @ fa_better_and @ show_nat worse @ fa_worse_end))))"

subsection \<open>Lemmas\<close>

lemma similar_commute: "similar a b = similar b a"
  by (simp add: similar_def abs_minus_commute max.commute disj_commute)

lemma round_half_even_bounds: "\<bar>of_int (round_half_even x) - x\<bar> \<le> 1 / 2"
proof -
  have "of_int \<lfloor>x\<rfloor> \<le> x" and "x < of_int \<lfloor>x\<rfloor> + 1" by linarith+
  then show ?thesis
    by (auto simp: round_half_even_def Let_def abs_le_iff)
qed

lemma round_half_even_neg: "round_half_even (- x) = - round_half_even x"
proof (cases "x = of_int \<lfloor>x\<rfloor>")
  case True
  then have "\<lfloor>- x\<rfloor> = - \<lfloor>x\<rfloor>" by (metis floor_of_int of_int_minus)
  with True show ?thesis by (auto simp: round_half_even_def Let_def)
next
  case False
  have *: "of_int \<lfloor>x\<rfloor> \<le> x" "x < of_int \<lfloor>x\<rfloor> + 1" by linarith+
  with False have fl: "\<lfloor>- x\<rfloor> = - \<lfloor>x\<rfloor> - 1" by linarith
  have d: "- x - of_int (- \<lfloor>x\<rfloor> - 1) = 1 - (x - of_int \<lfloor>x\<rfloor>)" by simp
  show ?thesis
    unfolding round_half_even_def fl Let_def d by auto
qed

lemma round2_minus: "round2 (a - b) = - round2 (b - a)"
proof -
  have "(a - b) * 100 = - ((b - a) * 100)" by simp
  then have "round2 (a - b) = of_int (round_half_even (- ((b - a) * 100))) / 100"
    by (simp only: round2_def)
  then show ?thesis by (simp only: round_half_even_neg of_int_minus round2_def minus_divide_left)
qed

lemma round2_error: "\<bar>round2 x - x\<bar> \<le> 1 / 200"
proof -
  have "\<bar>round2 x - x\<bar> = \<bar>of_int (round_half_even (x * 100)) - x * 100\<bar> / 100"
    by (simp add: round2_def abs_if field_simps)
  with round_half_even_bounds [of "x * 100"] show ?thesis by simp
qed

fun opposite :: "direction \<Rightarrow> direction" where
  "opposite Level = Level"
| "opposite Better = Worse"
| "opposite Worse = Better"

lemma judge_opposite: "threshold > 0 \<Longrightarrow> judge h threshold (- d) = opposite (judge h threshold d)"
  by (auto simp: judge_def)

lemma METRICS_threshold_pos: "m \<in> set METRICS \<Longrightarrow> m_threshold m > 0"
  by (auto simp: METRICS_def)

lemma METRICS_distinct: "distinct (map m_key METRICS)"
  by (simp add: METRICS_def)

text \<open>The change seen from the other side.\<close>

definition reversed :: "change \<Rightarrow> change" where
  "reversed c = c\<lparr>ch_before := ch_after c, ch_after := ch_before c, ch_change := - ch_change c,
                 ch_direction := opposite (ch_direction c)\<rparr>"

lemma metric_change_swap:
  assumes "m \<in> set METRICS"
  shows "metric_change rf cs b a m = map_option reversed (metric_change rf cs a b m)"
proof -
  let ?x = "number rf (dget a (m_key m))" and ?y = "number rf (dget b (m_key m))"
  have "judge (m_higher m) (m_threshold m) (round2 (?x - ?y)) =
        opposite (judge (m_higher m) (m_threshold m) (round2 (?y - ?x)))"
    unfolding round2_minus [of ?x ?y] using METRICS_threshold_pos [OF assms] by (rule judge_opposite)
  moreover have "round2 (?x - ?y) = - round2 (?y - ?x)"
    by (rule round2_minus)
  ultimately show ?thesis
    by (simp add: metric_change_def Let_def reversed_def)
qed

subsection \<open>Properties\<close>

text \<open>The trend is even-handed: comparing the reports the other way round gives, for every metric,
  the same row with before and after exchanged, the change negated and better and worse swapped.\<close>

lemma trend_even_handed:
  assumes "m \<in> set METRICS"
  shows "metric_change rf (similar pages_b pages_a) b a m =
           map_option reversed (metric_change rf (similar pages_a pages_b) a b m)"
  unfolding similar_commute [of pages_b pages_a] by (rule metric_change_swap [OF assms])

text \<open>A metric is compared only when both reports have it, and a count of problems only when the
  two crawls saw about as many pages; what is reported is within half a hundredth of the true
  difference, and a difference below the metric's threshold is level, never better or worse.\<close>

lemma trend_rows_justified:
  assumes "metric_change rf cs was_h now_h m = Some c"
  shows "dget was_h (m_key m) \<noteq> JNull \<and> dget now_h (m_key m) \<noteq> JNull \<and>
         (m_key m \<in> {''total_issues'', ''orphan_pages''} \<longrightarrow> cs) \<and>
         ch_before c = dget was_h (m_key m) \<and> ch_after c = dget now_h (m_key m) \<and>
         \<bar>ch_change c - (number rf (ch_after c) - number rf (ch_before c))\<bar> \<le> 1 / 200 \<and>
         (ch_direction c = Level \<longleftrightarrow> \<bar>ch_change c\<bar> < m_threshold m) \<and>
         (ch_direction c = Better \<longrightarrow> (if m_higher m then ch_change c \<ge> m_threshold m else - ch_change c \<ge> m_threshold m))"
proof -
  let ?d = "round2 (number rf (dget now_h (m_key m)) - number rf (dget was_h (m_key m)))"
  have c: "c = \<lparr>ch_metric = m_key m, ch_label = m_label m, ch_before = dget was_h (m_key m),
      ch_after = dget now_h (m_key m), ch_change = ?d, ch_direction = judge (m_higher m) (m_threshold m) ?d\<rparr>"
    and guards: "dget was_h (m_key m) \<noteq> JNull" "dget now_h (m_key m) \<noteq> JNull" "m_key m \<in> set COUNTING \<longrightarrow> cs"
    using assms by (simp_all add: metric_change_def Let_def split: if_splits)
  have "judge h th d = Level \<longleftrightarrow> \<bar>d\<bar> < th" "judge h th d = Better \<Longrightarrow> (if h then d \<ge> th else - d \<ge> th)" for h th d
    by (auto simp: judge_def abs_if split: if_splits)
  with guards round2_error show ?thesis by (simp add: c COUNTING_def)
qed

end
