(* ===== verification/Engine.thy ===== *)
theory Engine
  imports Workflow_Store Contracts Trends
begin

text \<open>
  \<^verbatim>\<open>src/agents/orchestrator/engine.py\<close>: dispatch a step, wait for its event, advance. Everything done
  under one \<^verbatim>\<open>store.claim\<close> is one function from the database to the database or an exception, since
  the transaction commits as a whole or not at all. \<^verbatim>\<open>start\<close> and \<^verbatim>\<open>on_completion\<close> are several
  transactions in a row, so an exception of a later one leaves the earlier ones committed.
\<close>

text \<open>
  What the engine is given: the contracts, the Python runtime, the reader of numbers in text, and
  the rule-based summary of \<^verbatim>\<open>summary.py\<close>, of which the engine uses only that it maps a report to a
  dictionary or raises.
\<close>

record engine_env =
  ee_contracts :: contracts
  ee_runtime :: runtime
  ee_read_float :: "string \<Rightarrow> rat option"
  ee_deterministic :: "dict \<Rightarrow> dict py"

definition SERVICE :: string where "SERVICE = ''orchestrator''"

subsection \<open>Tables of the module\<close>

definition COMPLETIONS :: "(string \<times> step_kind \<times> string) list" where
  "COMPLETIONS =
     [(''crawl.completed'', Crawl, ''crawl_id''),
      (''keyword.researched'', Keyword_Research, ''research_id''),
      (''serp.checked'', Serp_Check, ''check_id''),
      (''links.analyzed'', Link_Analysis, ''analysis_id''),
      (''content.analyzed'', Content_Analysis, ''analysis_id''),
      (''optimizer.planned'', Optimizer_Plan, ''plan_id''),
      (''competitor.compared'', Competitor_Check, ''comparison_id'')]"

definition OPTIONAL_KINDS :: "step_kind list" where
  "OPTIONAL_KINDS = [Competitor_Crawl]"

subsection \<open>Parameters of a step\<close>

definition first_result :: "workflow \<Rightarrow> step_kind \<Rightarrow> dict option" where
  "first_result flow k =
     Option.bind (first_where (\<lambda>s. s_kind s = k \<and> s_result s \<noteq> None \<and> s_result s \<noteq> Some [])
        (w_steps flow)) s_result"

text \<open>\<^verbatim>\<open>(x or {}).get(key)\<close> for an optional dictionary.\<close>

definition oget :: "dict option \<Rightarrow> string \<Rightarrow> json" where
  "oget d key = dget (case d of None \<Rightarrow> [] | Some d' \<Rightarrow> d') key"

definition own_crawl :: "workflow \<Rightarrow> dict option" where
  "own_crawl flow = first_result flow Crawl"

definition crawl_params :: "workflow \<Rightarrow> step_row \<Rightarrow> dict py" where
  "crawl_params flow step =
     (if truthy (dget (s_params step) ''start_url'')
      then Inr (copy_limits (s_params step) [(''start_url'', dget (s_params step) ''start_url'')])
      else bindE (ditem (w_inputs flow) ''start_url'') (\<lambda>url.
        Inr (copy_limits (w_inputs flow) [(''start_url'', url)])))"

definition competitor_params :: "workflow \<Rightarrow> dict py" where
  "competitor_params flow =
     (let crawl_id = oget (own_crawl flow) ''crawl_id'' in
      if \<not> truthy crawl_id then Inl (NoWorkToDo ''no crawl of your own site to compare'')
      else
        (let rivals = filter truthy (map (\<lambda>s. oget (s_result s) ''crawl_id'')
               (filter (\<lambda>s. s_kind s = Competitor_Crawl \<and> s_status s = Completed)
                  (sort_key s_position (w_steps flow))))
         in if rivals = []
            then Inl (NoWorkToDo
              ''no competitor crawl finished, so there is nothing to compare with'')
            else Inr [(''crawl_id'', crawl_id), (''competitor_crawl_ids'', JList rivals)]))"

definition research_params :: "workflow \<Rightarrow> dict py" where
  "research_params flow =
     (let crawl_step = first_where (\<lambda>s. s_kind s = Crawl) (w_steps flow) in
      bindE (resolve_seed
          [(''seed'', dget (w_inputs flow) ''seed''), (''start_url'', dget (w_inputs flow) ''start_url'')]
          (Option.bind crawl_step s_result)) (\<lambda>seed.
        if seed = [] then Inl (ValueError ''could not work out what to research'')
        else Inr [(''seed'', JStr seed),
                  (''lang'', dget_default (w_inputs flow) ''lang'' (JStr ''fa'')),
                  (''country'', dget_default (w_inputs flow) ''country'' (JStr ''IR''))]))"

definition serp_params :: "runtime \<Rightarrow> workflow \<Rightarrow> dict py" where
  "serp_params R flow =
     (let research = first_result flow Keyword_Research in
      bindE (int_or_default (w_inputs flow) ''track_keywords'' DEFAULT_TRACKED) (\<lambda>limit.
      bindE (keywords_to_track R research limit) (\<lambda>keywords.
        if keywords = []
        then Inl (NoWorkToDo ''research produced no keywords to rank-check'')
        else
          bindE (as_url (dget_default (w_inputs flow) ''start_url'' (JStr []))) (\<lambda>url.
          bindE (domain_of url) (\<lambda>domain.
            if domain = [] then Inl (ValueError ''could not work out which domain to rank-check'')
            else Inr [(''target_domain'', JStr domain), (''keywords'', JList (map JStr keywords)),
                      (''lang'', dget_default (w_inputs flow) ''lang'' (JStr ''fa'')),
                      (''country'', dget_default (w_inputs flow) ''country'' (JStr ''IR''))])))))"

definition links_params :: "workflow \<Rightarrow> dict py" where
  "links_params flow =
     (let crawl_id = oget (own_crawl flow) ''crawl_id'' in
      if \<not> truthy crawl_id then Inl (NoWorkToDo ''no crawl to analyse'')
      else Inr [(''crawl_id'', crawl_id)])"

definition content_params :: "workflow \<Rightarrow> dict py" where
  "content_params flow =
     (let crawl_id = oget (own_crawl flow) ''crawl_id'';
          research_id = oget (first_result flow Keyword_Research) ''research_id''
      in if \<not> truthy crawl_id \<or> \<not> truthy research_id
         then Inl (NoWorkToDo ''content coverage needs both a crawl and a keyword study'')
         else Inr [(''crawl_id'', crawl_id), (''research_id'', research_id)])"

definition optimizer_params :: "workflow \<Rightarrow> dict py" where
  "optimizer_params flow =
     (let crawl_id = oget (own_crawl flow) ''crawl_id'';
          research_id = oget (first_result flow Keyword_Research) ''research_id''
      in if \<not> truthy crawl_id then Inl (NoWorkToDo ''no crawl to optimise'')
         else bindE (int_or_default (w_inputs flow) ''optimize_pages'' DEFAULT_OPTIMIZED) (\<lambda>n.
           Inr ([(''crawl_id'', crawl_id), (''pages'', JInt n)]
                @ (if truthy research_id then [(''research_id'', research_id)] else []))))"

subsection \<open>The event that dispatches a step\<close>

fun request_type :: "step_kind \<Rightarrow> string" where
  "request_type Crawl = ''crawl.requested''"
| "request_type Competitor_Crawl = ''crawl.requested''"
| "request_type Keyword_Research = ''keyword.research_requested''"
| "request_type Serp_Check = ''serp.check_requested''"
| "request_type Link_Analysis = ''links.analysis_requested''"
| "request_type Content_Analysis = ''content.analysis_requested''"
| "request_type Optimizer_Plan = ''optimizer.plan_requested''"
| "request_type Competitor_Check = ''competitor.comparison_requested''"

fun id_field :: "step_kind \<Rightarrow> string" where
  "id_field Crawl = ''crawl_id''"
| "id_field Competitor_Crawl = ''crawl_id''"
| "id_field Keyword_Research = ''research_id''"
| "id_field Serp_Check = ''check_id''"
| "id_field Link_Analysis = ''analysis_id''"
| "id_field Content_Analysis = ''analysis_id''"
| "id_field Optimizer_Plan = ''plan_id''"
| "id_field Competitor_Check = ''comparison_id''"

definition step_params :: "runtime \<Rightarrow> workflow \<Rightarrow> step_row \<Rightarrow> dict py" where
  "step_params R flow step =
     (case s_kind step of
        Crawl \<Rightarrow> crawl_params flow step
      | Competitor_Crawl \<Rightarrow> crawl_params flow step
      | Keyword_Research \<Rightarrow> research_params flow
      | Serp_Check \<Rightarrow> serp_params R flow
      | Link_Analysis \<Rightarrow> links_params flow
      | Content_Analysis \<Rightarrow> content_params flow
      | Optimizer_Plan \<Rightarrow> optimizer_params flow
      | Competitor_Check \<Rightarrow> competitor_params flow)"

definition dispatch_event :: "engine_env \<Rightarrow> workflow \<Rightarrow> step_row \<Rightarrow> string \<Rightarrow> pending_event py" where
  "dispatch_event E flow step event_id =
     bindE (step_params (ee_runtime E) flow step) (\<lambda>params.
       let event_type = request_type (s_kind step);
           payload = dmerge [(id_field (s_kind step), JStr (s_job_id step))] params
       in bindE (validate_event (ee_contracts E) event_type payload) (\<lambda>_.
            Inr \<lparr>pe_type = event_type, pe_payload = payload, pe_producer = SERVICE,
                 pe_event_id = event_id, pe_correlation_id = Some (w_id flow),
                 pe_causation_id = None\<rparr>))"

subsection \<open>The report\<close>

definition result_url :: "step_row \<Rightarrow> json" where
  "result_url step = oget (s_result step) ''result_url''"

definition step_summary :: "step_row \<Rightarrow> json" where
  "step_summary s = JObj
     [(''position'', JInt (s_position s)), (''kind'', JStr (kind_name (s_kind s))),
      (''job_id'', JStr (s_job_id s)), (''status'', JStr (step_status_name (s_status s))),
      (''error'', opt_json (s_error s)), (''result_url'', result_url s)]"

definition step_summaries :: "workflow \<Rightarrow> json list" where
  "step_summaries flow = map step_summary (sort_key s_position (w_steps flow))"

definition result_of :: "workflow \<Rightarrow> step_kind \<Rightarrow> dict" where
  "result_of flow k = (case first_result flow k of None \<Rightarrow> [] | Some d \<Rightarrow> d)"

definition trend_input :: "runtime \<Rightarrow> workflow option \<Rightarrow> dict option" where
  "trend_input R previous =
     (case previous of
        None \<Rightarrow> None
      | Some p \<Rightarrow>
          (case w_report p of
             None \<Rightarrow> None
           | Some r \<Rightarrow>
               if r = [] then None
               else Some (dmerge r [(''workflow_id'', JStr (w_id p)),
                            (''finished_at'', JStr (isoformat R (w_updated_at p)))])))"

definition report_headline :: "workflow \<Rightarrow> dict py" where
  "report_headline flow =
     (let rivals = result_of flow Competitor_Check;
          base =
            [(''overall_score'', dget (result_of flow Crawl) ''overall_score''),
             (''total_issues'', dget (result_of flow Crawl) ''total_issues''),
             (''keywords_found'', dget (result_of flow Keyword_Research) ''total''),
             (''keywords_ranked'', dget (result_of flow Serp_Check) ''keywords_ranked''),
             (''average_position'', dget (result_of flow Serp_Check) ''average_position''),
             (''orphan_pages'', dget (result_of flow Link_Analysis) ''orphan_count''),
             (''keyword_coverage'', dget (result_of flow Content_Analysis) ''coverage''),
             (''pages_to_rewrite'', dget (result_of flow Optimizer_Plan) ''pages_with_fixes'')]
      in if rivals = [] then Inr base
         else bindE (jlen (py_or (dget rivals ''behind_on'') (JList []))) (\<lambda>n.
           Inr (base @ [(''competitors_compared'', dget rivals ''compared_against''),
                        (''behind_on'', JInt n)])))"

definition report ::
  "engine_env \<Rightarrow> workflow \<Rightarrow> wf_status \<Rightarrow> string option \<Rightarrow> workflow option \<Rightarrow> dict py" where
  "report E flow status error previous =
     bindE (report_headline flow) (\<lambda>headline.
       let rivals = result_of flow Competitor_Check;
           body =
             [(''goal'', JStr (w_goal flow)), (''status'', JStr (wf_status_name status)),
              (''error'', opt_json error), (''steps'', JList (step_summaries flow)),
              (''headline'', JObj headline),
              (''crawl'', JObj (result_of flow Crawl)),
              (''keywords'', JObj (result_of flow Keyword_Research)),
              (''rankings'', JObj (result_of flow Serp_Check)),
              (''links'', JObj (result_of flow Link_Analysis)),
              (''content'', JObj (result_of flow Content_Analysis)),
              (''optimizer'', JObj (result_of flow Optimizer_Plan))]
             @ (if rivals = [] then [] else [(''competitors'', JObj rivals)])
       in
       bindE (if previous = None then Inr None
              else compare (ee_read_float E) (trend_input (ee_runtime E) previous) body) (\<lambda>trend.
         let body = (case trend of None \<Rightarrow> body
               | Some t \<Rightarrow> dset body ''trend'' (JObj (trend_to_dict t)))
         in bindE (ee_deterministic E body) (\<lambda>summary.
              Inr (dset body ''summary'' (JObj summary)))))"

subsection \<open>Finishing\<close>

definition completed_payload :: "workflow \<Rightarrow> wf_status \<Rightarrow> string option \<Rightarrow> dict \<Rightarrow> dict" where
  "completed_payload flow status error rep =
     [(''workflow_id'', JStr (w_id flow)), (''goal'', JStr (w_goal flow)),
      (''status'', JStr (wf_status_name status)), (''error'', opt_json error),
      (''steps'', JList (step_summaries flow)), (''headline'', dget rep ''headline''),
      (''result_url'', JStr (''/v1/workflows/'' @ w_id flow))]"

text \<open>An event that breaks its own contract is logged and not staged; other exceptions escape.\<close>

definition completed_events ::
  "engine_env \<Rightarrow> workflow \<Rightarrow> dict \<Rightarrow> string \<Rightarrow> pending_event list py" where
  "completed_events E flow payload event_id =
     (case validate_event (ee_contracts E) ''workflow.completed'' payload of
        Inr _ \<Rightarrow> Inr [\<lparr>pe_type = ''workflow.completed'', pe_payload = payload,
                       pe_producer = SERVICE, pe_event_id = event_id,
                       pe_correlation_id = Some (w_id flow), pe_causation_id = None\<rparr>]
      | Inl (ContractError _) \<Rightarrow> Inr []
      | Inl e \<Rightarrow> Inl e)"

definition finish ::
  "engine_env \<Rightarrow> workflow \<Rightarrow> wf_status \<Rightarrow> string option \<Rightarrow> string \<Rightarrow> wdb \<Rightarrow> wdb py" where
  "finish E flow status error event_id db =
     (let previous =
        (if status = WCompleted
         then (case previous_completed flow db of Inl _ \<Rightarrow> None | Inr p \<Rightarrow> p)
         else None)
      in
      bindE (report E flow status error previous) (\<lambda>rep.
      bindE (completed_events E flow (completed_payload flow status error rep) event_id) (\<lambda>events.
        Inr (set_status (w_id flow) status (Some rep) error events db))))"

subsection \<open>Advancing\<close>

definition fatal_steps :: "workflow \<Rightarrow> step_row list" where
  "fatal_steps flow =
     filter (\<lambda>s. s_status s = Failed \<and> s_kind s \<notin> set OPTIONAL_KINDS) (w_steps flow)"

definition first_error :: "step_row list \<Rightarrow> string" where
  "first_error failed =
     (let step = hd (sort_key s_position failed) in
      ''step '' @ show_int (s_position step) @ '' ('' @ kind_name (s_kind step) @ '') failed: ''
        @ or_else (s_error step) ''no reason given'')"

text \<open>Stage the request and mark the step, in the transaction that holds the lock.\<close>

definition send_step :: "string \<Rightarrow> step_row \<Rightarrow> pending_event \<Rightarrow> wdb \<Rightarrow> wdb" where
  "send_step wid step event db =
     mark_dispatched (s_job_id step) (set_status wid WRunning None None [event] db)"

definition after_skip :: "engine_env \<Rightarrow> string \<Rightarrow> string \<Rightarrow> wdb \<Rightarrow> wdb py" where
  "after_skip E wid event_id db =
     (case load db wid of
        None \<Rightarrow> Inl AttributeError
      | Some flow \<Rightarrow>
          (case next_pending flow of
             None \<Rightarrow> finish E flow WCompleted None event_id db
           | Some step \<Rightarrow>
               (case dispatch_event E flow step event_id of
                  Inr event \<Rightarrow> Inr (send_step wid step event db)
                | Inl e \<Rightarrow> finish E flow WFailed (Some (exn_text e)) event_id db)))"

definition advance :: "engine_env \<Rightarrow> string \<Rightarrow> string \<Rightarrow> wdb \<Rightarrow> wdb py" where
  "advance E wid event_id db =
     (case load db wid of
        None \<Rightarrow> Inr db
      | Some flow \<Rightarrow>
          if terminal (w_status flow) then Inr db
          else if fatal_steps flow \<noteq> []
          then finish E flow WFailed (Some (first_error (fatal_steps flow))) event_id db
          else if \<exists>s\<in>set (w_steps flow). s_status s = Dispatched then Inr db
          else
            (case next_pending flow of
               None \<Rightarrow> finish E flow WCompleted None event_id db
             | Some step \<Rightarrow>
                 (case dispatch_event E flow step event_id of
                    Inr event \<Rightarrow> Inr (send_step wid step event db)
                  | Inl (NoWorkToDo reason) \<Rightarrow>
                      after_skip E wid event_id (skip_step (s_job_id step) reason db)
                  | Inl e \<Rightarrow> finish E flow WFailed (Some (exn_text e)) event_id db)))"

subsection \<open>Completion events\<close>

text \<open>\<^verbatim>\<open>[payload.get(key) for key in keys]\<close>, in order.\<close>

definition pick :: "dict \<Rightarrow> string list \<Rightarrow> dict" where
  "pick payload keys = map (\<lambda>k. (k, dget payload k)) keys"

definition pick_head :: "dict \<Rightarrow> string \<Rightarrow> nat \<Rightarrow> dict py" where
  "pick_head payload key n =
     bindE (jtake n (dget_default payload key (JList []))) (\<lambda>v. Inr [(key, v)])"

definition step_result :: "step_kind \<Rightarrow> dict \<Rightarrow> dict py" where
  "step_result kind payload =
     (let url = pick payload [''result_url''] in
      case kind of
        Crawl \<Rightarrow>
          bindE (as_dict (dget_default payload ''stats'' (JObj []))) (\<lambda>stats.
            Inr (pick payload [''crawl_id'', ''start_url'', ''overall_score'', ''grade'']
                 @ pick stats [''total_issues'', ''pages_crawled'']
                 @ [(''category_scores'', dget_default payload ''category_scores'' (JList []))]
                 @ url))
      | Keyword_Research \<Rightarrow>
          bindE (pick_head payload ''top_keywords'' 25) (\<lambda>top.
            Inr (pick payload [''research_id'', ''seed'', ''total'', ''cluster_count''] @ top @ url))
      | Optimizer_Plan \<Rightarrow>
          bindE (pick_head payload ''pages'' 10) (\<lambda>top.
            Inr (pick payload [''plan_id'', ''crawl_id'', ''pages_examined'', ''pages_with_fixes'',
                   ''fixes'', ''written_by''] @ top @ url))
      | Content_Analysis \<Rightarrow>
          bindE (pick_head payload ''top_gaps'' 10) (\<lambda>top.
            Inr (pick payload [''analysis_id'', ''crawl_id'', ''research_id'', ''keywords'',
                   ''covered'', ''coverage'', ''gap_count'', ''cannibalisation_count''] @ top @ url))
      | Competitor_Check \<Rightarrow>
          bindE (pick_head payload ''top_missing_themes'' 10) (\<lambda>top.
            Inr (pick payload [''comparison_id'', ''crawl_id'', ''compared_against'']
                 @ [(''behind_on'', dget_default payload ''behind_on'' (JList [])),
                    (''ahead_on'', dget_default payload ''ahead_on'' (JList []))]
                 @ pick payload [''missing_theme_count''] @ top @ url))
      | Link_Analysis \<Rightarrow>
          bindE (pick_head payload ''top_opportunities'' 10) (\<lambda>top.
            Inr (pick payload [''analysis_id'', ''crawl_id'', ''pages'', ''internal_links'',
                   ''orphan_count'', ''dead_end_count'', ''broken_target_count'', ''max_depth'',
                   ''average_inlinks''] @ top @ url))
      | _ \<Rightarrow>
          bindE (pick_head payload ''top_competitors'' 5) (\<lambda>top.
          bindE (pick_head payload ''opportunities'' 10) (\<lambda>opp.
            Inr (pick payload [''check_id'', ''target_domain'', ''keywords_checked'',
                   ''keywords_ranked'', ''average_position'', ''best''] @ top @ opp @ url))))"

text \<open>A text column takes a string or NULL.\<close>

fun text_column :: "json \<Rightarrow> string option py" where
  "text_column JNull = Inr None"
| "text_column (JStr s) = Inr (Some s)"
| "text_column _ = Inl TypeError"

text \<open>What \<^verbatim>\<open>on_completion\<close> reads of an event before it touches the database.\<close>

definition completion_update ::
  "string \<Rightarrow> dict \<Rightarrow> (string \<times> step_status \<times> dict \<times> string option) py" where
  "completion_update event_type payload =
     (case map_of COMPLETIONS event_type of
        None \<Rightarrow> Inl (KeyError event_type)
      | Some (kind, field) \<Rightarrow>
          (let job_id = dget payload field in
           if \<not> truthy job_id then Inl (ValueError (event_type @ '' carries no '' @ field))
           else
             bindE (step_result kind payload) (\<lambda>result.
             bindE (as_url job_id) (\<lambda>job.
             bindE (text_column (dget payload ''error'')) (\<lambda>error.
               Inr (job, if dget payload ''status'' = JStr ''failed'' then Failed else Completed,
                    result, error))))))"

definition on_completion ::
  "engine_env \<Rightarrow> string \<Rightarrow> dict \<Rightarrow> string \<Rightarrow> wdb \<Rightarrow> string option py \<times> wdb" where
  "on_completion E event_type payload event_id db =
     (case completion_update event_type payload of
        Inl e \<Rightarrow> (Inl e, db)
      | Inr (job, status, result, error) \<Rightarrow>
          (case mark_step job status (Some result) error db of
             (None, db1) \<Rightarrow> (Inr None, db1)
           | (Some wid, db1) \<Rightarrow>
               (case advance E wid event_id db1 of
                  Inl e \<Rightarrow> (Inl e, db1)
                | Inr db2 \<Rightarrow> (Inr (Some wid), db2))))"

subsection \<open>Starting\<close>

definition plan_rows :: "plan_step list \<Rightarrow> (int \<times> step_kind \<times> string \<times> dict) list" where
  "plan_rows steps = map (\<lambda>s. (ps_position s, ps_kind s, ps_job_id s, ps_params s)) steps"

definition start ::
  "engine_env \<Rightarrow> (nat \<Rightarrow> string) \<Rightarrow> string \<Rightarrow> string \<Rightarrow> dict \<Rightarrow> string option \<Rightarrow> string option \<Rightarrow>
     string \<Rightarrow> wdb \<Rightarrow> workflow option py \<times> wdb" where
  "start E uuid4 wid goal inputs tenant_id project_id event_id db =
     (case bindE (plan (ee_runtime E) uuid4 goal inputs) (\<lambda>steps.
             create wid goal inputs (plan_rows steps) tenant_id project_id db) of
        Inl e \<Rightarrow> (Inl e, db)
      | Inr db1 \<Rightarrow>
          (let db2 = set_status wid WRunning None None [] db1 in
           case advance E wid event_id db2 of
             Inl e \<Rightarrow> (Inl e, db2)
           | Inr db3 \<Rightarrow> (Inr (get_workflow db3 wid None), db3)))"

end
