(* ===== verification/Engine_Facts.thy ===== *)
theory Engine_Facts
  imports Engine
begin

text \<open>
  Lemmas on the store and the engine that the state-machine proofs share: what each table update
  leaves alone, and \<^verbatim>\<open>advance\<close> as a sequence of at most two elementary moves (skip a step, send a
  step, finish the workflow), each made only in a state that allows it.
\<close>

subsection \<open>Loading\<close>

lemma with_steps_simps [simp]:
  "w_steps (with_steps w ss) = ss"
  "w_id (with_steps w ss) = w_id w"
  "w_goal (with_steps w ss) = w_goal w"
  "w_inputs (with_steps w ss) = w_inputs w"
  "w_status (with_steps w ss) = w_status w"
  "w_error (with_steps w ss) = w_error w"
  "w_report (with_steps w ss) = w_report w"
  "w_created_at (with_steps w ss) = w_created_at w"
  "w_updated_at (with_steps w ss) = w_updated_at w"
  "w_tenant_id (with_steps w ss) = nonempty (w_tenant_id w)"
  by (simp_all add: with_steps_def workflow_row.defs workflow.defs)

lemma set_steps_of [simp]: "set (steps_of db wid) = {s \<in> set (workflow_steps db). s_workflow_id s = wid}"
  by (auto simp: steps_of_def)

lemma load_SomeD:
  assumes "load db wid = Some flow"
  shows "\<exists>w. find_workflow db wid = Some w \<and> w \<in> set (workflows db) \<and> w_id w = wid \<and>
           w_id flow = wid \<and> w_status flow = w_status w \<and> w_goal flow = w_goal w \<and>
           w_inputs flow = w_inputs w \<and>
           set (w_steps flow) = {s \<in> set (workflow_steps db). s_workflow_id s = wid}"
proof -
  from assms obtain w where w: "find_workflow db wid = Some w"
    and flow: "flow = with_steps w (sort_key s_position (steps_of db wid))"
    by (auto simp: load_def)
  from w have "w \<in> set (workflows db) \<and> w_id w = wid"
    unfolding find_workflow_def by (rule find_SomeD)
  with w flow show ?thesis by simp
qed

lemma load_unknown: "load db wid = None \<longleftrightarrow> wid \<notin> w_id ` set (workflows db)"
  by (auto simp: load_def find_workflow_def find_None_iff_all)

lemma find_workflow_unique:
  "distinct (map w_id (workflows db)) \<Longrightarrow> w \<in> set (workflows db) \<Longrightarrow>
     find_workflow db (w_id w) = Some w"
proof -
  assume d: "distinct (map w_id (workflows db))" and w: "w \<in> set (workflows db)"
  then obtain w' where "find_workflow db (w_id w) = Some w'"
    using find_Some_exists [of w] by (fastforce simp: find_workflow_def)
  then show ?thesis
    using d w distinct_map_inj_on find_SomeD unfolding find_workflow_def by fastforce
qed

lemma next_pending_SomeD:
  assumes "load db wid = Some flow" and "next_pending flow = Some step"
  shows "step \<in> set (workflow_steps db) \<and> s_workflow_id step = wid \<and> s_status step = Pending \<and>
         (\<forall>t\<in>set (workflow_steps db). s_workflow_id t = wid \<and> s_status t = Pending \<longrightarrow>
            s_position step \<le> s_position t)"
proof -
  from assms(2) have "step \<in> set (w_steps flow) \<and> s_status step = Pending \<and>
      (\<forall>t\<in>set (w_steps flow). s_status t = Pending \<longrightarrow> s_position step \<le> s_position t)"
    unfolding next_pending_def by (rule find_sort_key_least)
  with load_SomeD [OF assms(1)] show ?thesis by auto
qed

lemma next_pending_NoneD:
  assumes "load db wid = Some flow" and "next_pending flow = None"
    and "s \<in> set (workflow_steps db)" and "s_workflow_id s = wid"
  shows "s_status s \<noteq> Pending"
  using assms load_SomeD [OF assms(1)] by (auto simp: next_pending_def find_None_iff_all)

subsection \<open>Frames\<close>

lemma set_status_frame [simp]:
  "workflow_steps (set_status wid st rep err evs db) = workflow_steps db"
  "known_tenants (set_status wid st rep err evs db) = known_tenants db"
  "now (set_status wid st rep err evs db) = now db"
  by (simp_all add: set_status_def Let_def)

lemma workflows_set_status:
  "workflows (set_status wid st rep err evs db) =
     update_where (\<lambda>w. w_id w = wid)
       (\<lambda>w. w\<lparr>w_status := st, w_report := (case rep of None \<Rightarrow> w_report w | Some r \<Rightarrow> Some r),
              w_error := err, w_updated_at := now db\<rparr>) (workflows db)"
  by (simp add: set_status_def Let_def)

lemma outbox_set_status:
  "\<exists>sj. w_outbox (set_status wid st rep err evs db) = stage_all evs sj (w_outbox db)"
  by (simp add: set_status_def Let_def) (metis stage_all.simps(1))

lemma skip_step_frame [simp]:
  "workflows (skip_step j r db) = workflows db"
  "w_outbox (skip_step j r db) = w_outbox db"
  "now (skip_step j r db) = now db"
  by (simp_all add: skip_step_def)

lemma mark_dispatched_frame [simp]:
  "workflows (mark_dispatched j db) = workflows db"
  "w_outbox (mark_dispatched j db) = w_outbox db"
  "now (mark_dispatched j db) = now db"
  by (simp_all add: mark_dispatched_def)

lemma mark_step_frame:
  "mark_step j st res err db = (w, db') \<Longrightarrow>
     workflows db' = workflows db \<and> w_outbox db' = w_outbox db \<and> now db' = now db"
  by (auto simp: mark_step_def Let_def)

text \<open>Updates of the step table that keep a row's identity and place.\<close>

definition same_place :: "(step_row \<Rightarrow> step_row) \<Rightarrow> bool" where
  "same_place f \<longleftrightarrow> (\<forall>s. s_workflow_id (f s) = s_workflow_id s \<and> s_position (f s) = s_position s \<and>
     s_job_id (f s) = s_job_id s \<and> s_kind (f s) = s_kind s \<and> s_params (f s) = s_params s)"

lemma same_place_maps:
  assumes "same_place f"
  shows "map s_job_id (update_where p f ss) = map s_job_id ss"
    and "map s_workflow_id (update_where p f ss) = map s_workflow_id ss"
    and "map (\<lambda>s. (s_workflow_id s, s_position s)) (update_where p f ss) =
           map (\<lambda>s. (s_workflow_id s, s_position s)) ss"
  using assms by (simp_all add: update_where_def same_place_def)

lemma same_place_status [simp]:
  "same_place (\<lambda>r. r\<lparr>s_status := st, s_error := e\<rparr>)"
  "same_place (\<lambda>r. r\<lparr>s_status := st\<rparr>)"
  "same_place (\<lambda>r. r\<lparr>s_status := st, s_result := res, s_error := e\<rparr>)"
  by (simp_all add: same_place_def)

subsection \<open>The elementary moves\<close>

definition fatal :: "step_row \<Rightarrow> bool" where
  "fatal s \<longleftrightarrow> s_status s = Failed \<and> s_kind s \<notin> set OPTIONAL_KINDS"

lemma fatal_steps_Nil: "fatal_steps flow = [] \<longleftrightarrow> (\<forall>s\<in>set (w_steps flow). \<not> fatal s)"
  by (auto simp: fatal_steps_def fatal_def filter_empty_conv)

text \<open>A workflow that runs, has no fatal step and waits for nothing.\<close>

definition idle :: "wdb \<Rightarrow> string \<Rightarrow> workflow \<Rightarrow> bool" where
  "idle db wid flow \<longleftrightarrow>
     load db wid = Some flow \<and> \<not> terminal (w_status flow) \<and> fatal_steps flow = [] \<and>
     (\<forall>s\<in>set (w_steps flow). s_status s \<noteq> Dispatched)"

inductive move :: "engine_env \<Rightarrow> string \<Rightarrow> string \<Rightarrow> wdb \<Rightarrow> wdb \<Rightarrow> bool"
  for E :: engine_env and wid :: string and eid :: string where
  skip: "idle db wid flow \<Longrightarrow> next_pending flow = Some step \<Longrightarrow>
     dispatch_event E flow step eid = Inl (NoWorkToDo reason) \<Longrightarrow>
     move E wid eid db (skip_step (s_job_id step) reason db)"
| send: "idle db wid flow \<Longrightarrow> next_pending flow = Some step \<Longrightarrow>
     dispatch_event E flow step eid = Inr event \<Longrightarrow>
     move E wid eid db (send_step wid step event db)"
| complete: "idle db wid flow \<Longrightarrow> next_pending flow = None \<Longrightarrow>
     finish E flow WCompleted None eid db = Inr db' \<Longrightarrow> move E wid eid db db'"
| give_up: "load db wid = Some flow \<Longrightarrow> \<not> terminal (w_status flow) \<Longrightarrow>
     fatal_steps flow \<noteq> [] \<or> idle db wid flow \<Longrightarrow>
     finish E flow WFailed (Some err) eid db = Inr db' \<Longrightarrow> move E wid eid db db'"

lemma idle_skip:
  assumes "idle db wid flow" and "load (skip_step j r db) wid = Some flow'"
  shows "idle (skip_step j r db) wid flow'"
proof -
  have st: "w_status flow' = w_status flow"
    using assms by (auto simp: idle_def load_def find_workflow_def)
  have "s_status s \<noteq> Dispatched \<and> \<not> fatal s" if "s \<in> set (w_steps flow')" for s
  proof -
    from that load_SomeD [OF assms(2)] have "s \<in> set (workflow_steps (skip_step j r db))"
      and wid: "s_workflow_id s = wid" by auto
    then obtain s0 where s0: "s0 \<in> set (workflow_steps db)"
      "s = (if s_job_id s0 = j \<and> s_status s0 = Pending
            then s0\<lparr>s_status := Skipped, s_error := Some r\<rparr> else s0)"
      by (auto simp: skip_step_def set_update_where)
    then have "s_workflow_id s0 = wid" using wid by (auto split: if_splits)
    with s0 assms(1) load_SomeD [of db wid flow] have "s_status s0 \<noteq> Dispatched" "\<not> fatal s0"
      by (auto simp: idle_def fatal_steps_Nil)
    with s0 show ?thesis by (auto simp: fatal_def split: if_splits)
  qed
  with assms st show ?thesis
    by (simp add: idle_def fatal_steps_Nil)
qed

lemma load_skip_Some: "load db wid = Some flow \<Longrightarrow> \<exists>flow'. load (skip_step j r db) wid = Some flow'"
  by (auto simp: load_def find_workflow_def)

lemma after_skip_moves:
  assumes "idle db wid flow" and "after_skip E wid eid db = Inr db'"
  shows "(move E wid eid)\<^sup>*\<^sup>* db db'"
proof -
  from assms(1) have l: "load db wid = Some flow" by (simp add: idle_def)
  show ?thesis
  proof (cases "next_pending flow")
    case None
    with assms l show ?thesis
      by (auto simp: after_skip_def intro: move.complete)
  next
    case (Some step)
    show ?thesis
    proof (cases "dispatch_event E flow step eid")
      case (Inl e)
      with assms l Some have "finish E flow WFailed (Some (exn_text e)) eid db = Inr db'"
        by (simp add: after_skip_def)
      with assms(1) l show ?thesis
        by (auto simp: idle_def intro!: r_into_rtranclp move.give_up)
    next
      case (Inr event)
      with assms l Some show ?thesis
        by (auto simp: after_skip_def intro: move.send)
    qed
  qed
qed

lemma advance_moves:
  assumes "advance E wid eid db = Inr db'"
  shows "(move E wid eid)\<^sup>*\<^sup>* db db'"
proof (cases "load db wid")
  case None
  with assms show ?thesis by (simp add: advance_def)
next
  case (Some flow)
  show ?thesis
  proof (cases "idle db wid flow")
    case False
    with Some assms show ?thesis
      by (auto simp: advance_def idle_def split: if_splits intro: move.give_up)
  next
    case idl: True
    then have adv: "advance E wid eid db = (case next_pending flow of
               None \<Rightarrow> finish E flow WCompleted None eid db
             | Some step \<Rightarrow>
                 (case dispatch_event E flow step eid of
                    Inr event \<Rightarrow> Inr (send_step wid step event db)
                  | Inl (NoWorkToDo reason) \<Rightarrow> after_skip E wid eid (skip_step (s_job_id step) reason db)
                  | Inl e \<Rightarrow> finish E flow WFailed (Some (exn_text e)) eid db))"
      by (auto simp: advance_def idle_def)
    show ?thesis
    proof (cases "next_pending flow")
      case None
      with adv assms have "finish E flow WCompleted None eid db = Inr db'" by simp
      with idl None show ?thesis by (blast intro: move.complete)
    next
      case np: (Some step)
      show ?thesis
      proof (cases "dispatch_event E flow step eid")
        case (Inr event)
        with idl adv np assms show ?thesis by (auto intro: move.send)
      next
        case (Inl e)
        show ?thesis
        proof (cases "\<exists>reason. e = NoWorkToDo reason")
          case True
          then obtain reason where e: "e = NoWorkToDo reason" by blast
          let ?db = "skip_step (s_job_id step) reason db"
          from load_skip_Some [OF Some] obtain flow' where l': "load ?db wid = Some flow'" by blast
          with idl have "idle ?db wid flow'" by (rule idle_skip)
          moreover have "after_skip E wid eid ?db = Inr db'"
            using adv np Inl e assms by simp
          ultimately have "(move E wid eid)\<^sup>*\<^sup>* ?db db'" by (rule after_skip_moves)
          moreover have "move E wid eid db ?db"
            using idl np Inl e by (blast intro: move.skip)
          ultimately show ?thesis by (rule converse_rtranclp_into_rtranclp [rotated])
        next
          case False
          with adv np Inl assms have "finish E flow WFailed (Some (exn_text e)) eid db = Inr db'"
            by (cases e) auto
          with idl Some show ?thesis
            by (auto simp: idle_def intro!: r_into_rtranclp move.give_up)
        qed
      qed
    qed
  qed
qed

end
