(* ===== verification/Orchestration.thy ===== *)
theory Orchestration
  imports Engine_Facts Systems
begin

text \<open>
  The orchestrator as a state machine: any number of instances of \<^verbatim>\<open>engine.py\<close> over one database. A
  step of the machine is one transaction; between the transactions of a handler any other
  instance may run, and a handler may die. The theory gives the machine, its invariant and the
  proof that every transaction keeps it.
\<close>

subsection \<open>Requests in the outbox\<close>

definition request_fields :: "(string \<times> string) list" where
  "request_fields =
     [(''crawl.requested'', ''crawl_id''), (''keyword.research_requested'', ''research_id''),
      (''serp.check_requested'', ''check_id''), (''links.analysis_requested'', ''analysis_id''),
      (''content.analysis_requested'', ''analysis_id''), (''optimizer.plan_requested'', ''plan_id''),
      (''competitor.comparison_requested'', ''comparison_id'')]"

text \<open>The job an outbox row asks a service to run, if it is such a request.\<close>

definition requests_job :: "string \<Rightarrow> outbox_row \<Rightarrow> bool" where
  "requests_job job r \<longleftrightarrow>
     (case map_of request_fields (ob_event_type r) of
        None \<Rightarrow> False
      | Some field \<Rightarrow> dget (ob_payload r) field = JStr job)"

definition n_requests :: "string \<Rightarrow> wdb \<Rightarrow> nat" where
  "n_requests job db = length (filter (requests_job job) (ob_rows (w_outbox db)))"

text \<open>The completion announcements of a workflow.\<close>

definition announces :: "string \<Rightarrow> outbox_row \<Rightarrow> bool" where
  "announces wid r \<longleftrightarrow>
     ob_event_type r = ''workflow.completed'' \<and> dget (ob_payload r) ''workflow_id'' = JStr wid"

definition n_announced :: "string \<Rightarrow> wdb \<Rightarrow> nat" where
  "n_announced wid db = length (filter (announces wid) (ob_rows (w_outbox db)))"

lemma request_field_of_kind: "map_of request_fields (request_type k) = Some (id_field k)"
  by (cases k) (simp_all add: request_fields_def)

lemma request_type_not_completed: "request_type k \<noteq> ''workflow.completed''"
  by (cases k) simp_all

lemma dget_dmerge_notin: "k \<notin> fst ` set b \<Longrightarrow> dget (dmerge a b) k = dget a k"
  by (induction b arbitrary: a) (auto simp: image_iff)

lemma keys_copy_limits: "fst ` set (copy_limits src p) \<subseteq> fst ` set p \<union> {''max_pages'', ''max_depth''}"
  by (auto simp: copy_limits_def keys_dset split: if_splits)

lemma step_params_keys:
  assumes "step_params R flow step = Inr params"
  shows "id_field (s_kind step) \<notin> fst ` set params"
proof (cases "s_kind step = Crawl \<or> s_kind step = Competitor_Crawl")
  case True
  with assms have "crawl_params flow step = Inr params"
    by (auto simp: step_params_def)
  then obtain src v where "params = copy_limits src [(''start_url'', v)]"
    by (auto simp: crawl_params_def split: if_splits)
  with True keys_copy_limits [of src "[(''start_url'', v)]"] show ?thesis by auto
next
  case False
  with assms show ?thesis
    by (cases "s_kind step")
      (auto simp: step_params_def research_params_def serp_params_def links_params_def
        content_params_def optimizer_params_def competitor_params_def Let_def split: if_splits)
qed

lemma dispatch_event_facts:
  assumes "dispatch_event E flow step eid = Inr ev"
  shows "pe_event_id ev = eid \<and> pe_type ev = request_type (s_kind step) \<and>
         dget (pe_payload ev) (id_field (s_kind step)) = JStr (s_job_id step) \<and>
         pe_correlation_id ev = Some (w_id flow) \<and>
         validate_event (ee_contracts E) (pe_type ev) (pe_payload ev) = Inr ()"
  using assms step_params_keys
  by (fastforce simp: dispatch_event_def Let_def dget_dmerge_notin)

lemma dispatch_row_requests:
  "dispatch_event E flow step eid = Inr ev \<Longrightarrow>
     requests_job job (row_of i ev sj) \<longleftrightarrow> job = s_job_id step"
  by (drule dispatch_event_facts)
    (auto simp: requests_job_def row_of_def request_field_of_kind)

lemma dispatch_row_announces:
  "dispatch_event E flow step eid = Inr ev \<Longrightarrow> \<not> announces wid (row_of i ev sj)"
  by (drule dispatch_event_facts) (simp add: announces_def row_of_def request_type_not_completed)

lemma finish_event_facts:
  assumes "completed_events E flow payload eid = Inr evs"
  shows "evs = [] \<or> (\<exists>ev. evs = [ev] \<and> pe_event_id ev = eid \<and> pe_type ev = ''workflow.completed'' \<and>
           pe_payload ev = payload)"
  using assms by (auto simp: completed_events_def split: sum.splits exn.splits)

lemma completed_row_requests: "ob_event_type r = ''workflow.completed'' \<Longrightarrow> \<not> requests_job job r"
  by (simp add: requests_job_def request_fields_def)

subsection \<open>The invariant\<close>

definition settled :: "step_status \<Rightarrow> bool" where
  "settled st \<longleftrightarrow> st \<in> {Completed, Failed, Skipped}"

text \<open>Keys: every unique constraint of the schema holds and every step has its workflow.\<close>

definition keys_inv :: "wdb \<Rightarrow> bool" where
  "keys_inv db \<longleftrightarrow>
     distinct (map w_id (workflows db)) \<and>
     distinct (map s_job_id (workflow_steps db)) \<and>
     distinct (map (\<lambda>s. (s_workflow_id s, s_position s)) (workflow_steps db)) \<and>
     set (map s_workflow_id (workflow_steps db)) \<subseteq> set (map w_id (workflows db)) \<and>
     outbox_inv (w_outbox db)"

text \<open>Steps run one at a time and in order: after an unsettled step everything is pending.\<close>

definition order_inv :: "step_row list \<Rightarrow> bool" where
  "order_inv ss \<longleftrightarrow>
     (\<forall>s\<in>set ss. \<forall>t\<in>set ss. s_workflow_id s = s_workflow_id t \<and> s_position s < s_position t \<and>
        \<not> settled (s_status s) \<longrightarrow> s_status t = Pending)"

text \<open>While a fatal step is on record nothing is under way.\<close>

definition fatal_inv :: "step_row list \<Rightarrow> bool" where
  "fatal_inv ss \<longleftrightarrow>
     (\<forall>s\<in>set ss. \<forall>t\<in>set ss. s_workflow_id s = s_workflow_id t \<and> fatal s \<longrightarrow>
        s_status t \<noteq> Dispatched)"

text \<open>A finished workflow waits for nothing; a completed one has every step settled, none fatally.\<close>

definition ended_ok :: "step_row list \<Rightarrow> workflow_row \<Rightarrow> bool" where
  "ended_ok ss w \<longleftrightarrow>
     (terminal (w_status w) \<longrightarrow> w_report w \<noteq> None \<and>
        (\<forall>s\<in>set ss. s_workflow_id s = w_id w \<longrightarrow> s_status s \<noteq> Dispatched)) \<and>
     (w_status w = WCompleted \<longrightarrow>
        (\<forall>s\<in>set ss. s_workflow_id s = w_id w \<longrightarrow> settled (s_status s) \<and> \<not> fatal s))"

definition ended_inv :: "wdb \<Rightarrow> bool" where
  "ended_inv db \<longleftrightarrow> (\<forall>w\<in>set (workflows db). ended_ok (workflow_steps db) w)"

text \<open>One request per step that was dispatched, none for the others, none for unknown jobs.\<close>

definition asked :: "step_status \<Rightarrow> nat" where
  "asked st = (if st = Pending \<or> st = Skipped then 0 else 1)"

definition request_inv :: "wdb \<Rightarrow> bool" where
  "request_inv db \<longleftrightarrow>
     (\<forall>s\<in>set (workflow_steps db). n_requests (s_job_id s) db = asked (s_status s)) \<and>
     (\<forall>job. job \<notin> s_job_id ` set (workflow_steps db) \<longrightarrow> n_requests job db = 0)"

text \<open>At most one announcement per workflow, and none before it has ended.\<close>

definition announce_inv :: "wdb \<Rightarrow> bool" where
  "announce_inv db \<longleftrightarrow>
     (\<forall>wid. n_announced wid db \<le> 1) \<and>
     (\<forall>wid. 0 < n_announced wid db \<longrightarrow>
        (\<exists>w\<in>set (workflows db). w_id w = wid \<and> terminal (w_status w)))"

definition db_inv :: "wdb \<Rightarrow> bool" where
  "db_inv db \<longleftrightarrow> keys_inv db \<and> order_inv (workflow_steps db) \<and> fatal_inv (workflow_steps db) \<and>
     ended_inv db \<and> request_inv db \<and> announce_inv db"

lemma db_invD:
  assumes "db_inv db"
  shows "keys_inv db" "order_inv (workflow_steps db)" "fatal_inv (workflow_steps db)"
    "ended_inv db" "request_inv db" "announce_inv db"
  using assms by (simp_all add: db_inv_def)

subsection \<open>Changing one step\<close>

text \<open>The step table after the row with a given job was changed.\<close>

definition set_step :: "string \<Rightarrow> (step_row \<Rightarrow> step_row) \<Rightarrow> step_row list \<Rightarrow> step_row list" where
  "set_step job f ss = update_where (\<lambda>r. s_job_id r = job) f ss"

lemma set_step_rows:
  assumes "distinct (map s_job_id ss)" and "step \<in> set ss" and "s_job_id step = job"
  shows "set (set_step job f ss) = insert (f step) (set ss - {step})"
proof -
  have "s_job_id r = job \<longleftrightarrow> r = step" if "r \<in> set ss" for r
    using assms that distinct_map_inj_on by fastforce
  with assms(2) show ?thesis
    by (auto simp: set_step_def set_update_where)
qed

lemma update_status_eq:
  assumes "distinct (map s_job_id ss)" and "step \<in> set ss" and "s_status step = st"
  shows "update_where (\<lambda>r. s_job_id r = s_job_id step \<and> s_status r = st) f ss =
           set_step (s_job_id step) f ss"
proof -
  have "s_job_id r = s_job_id step \<and> s_status r = st \<longleftrightarrow> s_job_id r = s_job_id step"
    if "r \<in> set ss" for r
    using assms that distinct_map_inj_on by fastforce
  then show ?thesis
    by (simp add: set_step_def update_where_def)
qed

lemma order_invD:
  "order_inv ss \<Longrightarrow> s \<in> set ss \<Longrightarrow> t \<in> set ss \<Longrightarrow> s_workflow_id s = s_workflow_id t \<Longrightarrow>
     s_position s < s_position t \<Longrightarrow> \<not> settled (s_status s) \<Longrightarrow> s_status t = Pending"
  unfolding order_inv_def by blast

text \<open>The step at which a workflow stands: unsettled, with everything before it settled.\<close>

definition frontier :: "step_row list \<Rightarrow> step_row \<Rightarrow> bool" where
  "frontier ss step \<longleftrightarrow> step \<in> set ss \<and> \<not> settled (s_status step) \<and>
     (\<forall>t\<in>set ss. s_workflow_id t = s_workflow_id step \<and> s_position t < s_position step \<longrightarrow>
        settled (s_status t))"

lemma frontier_dispatched:
  assumes "order_inv ss" and "step \<in> set ss" and "s_status step = Dispatched"
  shows "frontier ss step"
proof -
  have "settled (s_status t)" if "t \<in> set ss" "s_workflow_id t = s_workflow_id step"
    "s_position t < s_position step" for t
    using order_invD [OF assms(1) that(1) assms(2) that(2,3)] assms(3) by auto
  with assms show ?thesis by (auto simp: frontier_def settled_def)
qed

lemma frontier_next_pending:
  assumes "idle db wid flow" and "next_pending flow = Some step"
  shows "frontier (workflow_steps db) step"
proof -
  from assms(1) have l: "load db wid = Some flow" by (simp add: idle_def)
  note np = next_pending_SomeD [OF l assms(2)]
  have "settled (s_status t)" if t: "t \<in> set (workflow_steps db)" "s_workflow_id t = s_workflow_id step"
    "s_position t < s_position step" for t
  proof -
    from t np have "s_status t \<noteq> Pending" by fastforce
    moreover from t np load_SomeD [OF l] assms(1) have "s_status t \<noteq> Dispatched"
      by (auto simp: idle_def)
    ultimately show ?thesis by (cases "s_status t") (simp_all add: settled_def)
  qed
  with np show ?thesis by (auto simp: frontier_def settled_def)
qed

lemma order_inv_change:
  assumes inv: "order_inv ss" and fr: "frontier ss step" and f: "same_place f"
    and ss': "set ss' = insert (f step) (set ss - {step})"
  shows "order_inv ss'"
  unfolding order_inv_def
proof (intro ballI impI, elim conjE)
  fix s t
  assume s: "s \<in> set ss'" and t: "t \<in> set ss'" and w: "s_workflow_id s = s_workflow_id t"
    and p: "s_position s < s_position t" and u: "\<not> settled (s_status s)"
  have f': "s_workflow_id (f step) = s_workflow_id step" "s_position (f step) = s_position step"
    using f by (simp_all add: same_place_def)
  have step: "step \<in> set ss" "\<not> settled (s_status step)" using fr by (simp_all add: frontier_def)
  show "s_status t = Pending"
  proof (cases "t = f step")
    case True
    then have "s \<in> set ss" using s p ss' by auto
    with True w p f' fr have "settled (s_status s)" by (simp add: frontier_def)
    with u show ?thesis by simp
  next
    case False
    then have t': "t \<in> set ss" using t ss' by auto
    show ?thesis
    proof (cases "s = f step")
      case True
      show ?thesis
        using order_invD [OF inv step(1) t'] w p f' step(2) True by simp
    next
      case False
      then have "s \<in> set ss" using s ss' by auto
      from order_invD [OF inv this t' w p u] show ?thesis .
    qed
  qed
qed

lemma fatal_inv_change:
  assumes inv: "fatal_inv ss" and f: "same_place f" and step: "step \<in> set ss"
    and ss': "set ss' = insert (f step) (set ss - {step})"
    and d: "s_status (f step) = Dispatched \<Longrightarrow>
       (\<forall>t\<in>set ss. s_workflow_id t = s_workflow_id step \<longrightarrow> \<not> fatal t)"
    and x: "fatal (f step) \<Longrightarrow>
       (\<forall>t\<in>set ss - {step}. s_workflow_id t = s_workflow_id step \<longrightarrow> s_status t \<noteq> Dispatched)"
  shows "fatal_inv ss'"
  unfolding fatal_inv_def
proof (intro ballI impI, elim conjE)
  fix s t
  assume s: "s \<in> set ss'" and t: "t \<in> set ss'" and w: "s_workflow_id s = s_workflow_id t" and fs: "fatal s"
  have f': "s_workflow_id (f step) = s_workflow_id step" using f by (simp add: same_place_def)
  consider "s = f step" "t = f step" | "s = f step" "t \<in> set ss - {step}"
    | "s \<in> set ss - {step}" "t = f step" | "s \<in> set ss - {step}" "t \<in> set ss - {step}"
    using s t ss' by blast
  then show "s_status t \<noteq> Dispatched"
  proof cases
    case 1
    with fs show ?thesis by (simp add: fatal_def)
  next
    case 2
    with x fs w f' show ?thesis by auto
  next
    case 3
    with d fs w f' show ?thesis by auto
  next
    case 4
    with inv w fs show ?thesis by (auto simp: fatal_inv_def)
  qed
qed

lemma keys_inv_steps:
  assumes "keys_inv db" and "same_place f"
  shows "keys_inv (db\<lparr>workflow_steps := update_where p f (workflow_steps db)\<rparr>)"
proof -
  let ?db = "db\<lparr>workflow_steps := update_where p f (workflow_steps db)\<rparr>"
  have "workflows ?db = workflows db" "w_outbox ?db = w_outbox db"
    "workflow_steps ?db = update_where p f (workflow_steps db)" by simp_all
  with assms(1) show ?thesis
    by (simp only: keys_inv_def same_place_maps [OF assms(2)])
qed

lemma ended_ok_change:
  assumes "ended_ok ss w" and "set ss' = insert (f step) (set ss - {step})" and "same_place f"
    and "w_id w = s_workflow_id step \<Longrightarrow> \<not> terminal (w_status w)"
  shows "ended_ok ss' w"
proof (cases "terminal (w_status w)")
  case True
  with assms(4) have "w_id w \<noteq> s_workflow_id step" by blast
  then have "s_workflow_id (f step) \<noteq> w_id w"
    using assms(3) by (simp add: same_place_def)
  with assms(1,2) True show ?thesis by (auto simp: ended_ok_def)
next
  case False
  then show ?thesis by (auto simp: ended_ok_def terminal_def)
qed

lemma requests_change:
  assumes "\<forall>s\<in>set ss. n (s_job_id s) = asked (s_status s)"
    and "set ss' = insert (f step) (set ss - {step})" and "same_place f" and "step \<in> set ss"
    and "\<And>s. s \<in> set ss - {step} \<Longrightarrow> n' (s_job_id s) = n (s_job_id s)"
    and "n' (s_job_id step) = asked (s_status (f step))"
  shows "\<forall>s\<in>set ss'. n' (s_job_id s) = asked (s_status s)"
  using assms by (auto simp: same_place_def)

lemma jobs_change:
  "set ss' = insert (f step) (set ss - {step}) \<Longrightarrow> same_place f \<Longrightarrow> step \<in> set ss \<Longrightarrow>
     s_job_id ` set ss' = s_job_id ` set ss"
  by (auto simp: same_place_def image_iff)

text \<open>A change of the step at the frontier that leaves the outbox and the workflow rows alone.\<close>

lemma db_inv_change_step:
  assumes inv: "db_inv db" and fr: "frontier (workflow_steps db) step" and f: "same_place f"
    and run: "\<And>w. w \<in> set (workflows db) \<Longrightarrow> w_id w = s_workflow_id step \<Longrightarrow> \<not> terminal (w_status w)"
    and ask: "asked (s_status (f step)) = asked (s_status step)"
    and nd: "s_status (f step) \<noteq> Dispatched"
    and x: "fatal (f step) \<Longrightarrow> (\<forall>t\<in>set (workflow_steps db) - {step}.
              s_workflow_id t = s_workflow_id step \<longrightarrow> s_status t \<noteq> Dispatched)"
  shows "db_inv (db\<lparr>workflow_steps := set_step (s_job_id step) f (workflow_steps db)\<rparr>)"
proof -
  let ?ss = "workflow_steps db" and ?ss' = "set_step (s_job_id step) f (workflow_steps db)"
  let ?db = "db\<lparr>workflow_steps := ?ss'\<rparr>"
  note parts = db_invD [OF inv]
  have step: "step \<in> set ?ss" using fr by (simp add: frontier_def)
  have rows: "set ?ss' = insert (f step) (set ?ss - {step})"
    using parts(1) step by (intro set_step_rows) (auto simp: keys_inv_def)
  have "keys_inv ?db"
    unfolding set_step_def using parts(1) f by (rule keys_inv_steps)
  moreover have "order_inv ?ss'"
    using parts(2) fr f rows by (rule order_inv_change)
  moreover have "fatal_inv ?ss'"
    by (rule fatal_inv_change [OF parts(3) f step rows]) (simp_all add: nd x)
  moreover have "ended_inv ?db"
    using parts(4) run ended_ok_change [OF _ rows f] by (simp add: ended_inv_def)
  moreover have "request_inv ?db"
  proof -
    have n: "n_requests j ?db = n_requests j db" for j by (simp add: n_requests_def)
    have "\<forall>s\<in>set ?ss'. n_requests (s_job_id s) ?db = asked (s_status s)"
      by (rule requests_change [where n = "\<lambda>j. n_requests j db", OF _ rows f step])
        (use parts(5) step ask n in \<open>auto simp: request_inv_def\<close>)
    with parts(5) jobs_change [OF rows f step] n show ?thesis by (simp add: request_inv_def)
  qed
  moreover have "announce_inv ?db"
    using parts(6) by (simp add: announce_inv_def n_announced_def)
  ultimately show ?thesis by (simp add: db_inv_def)
qed

lemma only_dispatched:
  assumes "db_inv db" and "s \<in> set (workflow_steps db)" and "t \<in> set (workflow_steps db)"
    and "s_workflow_id s = s_workflow_id t"
    and "s_status s = Dispatched" and "s_status t = Dispatched"
  shows "s = t"
proof -
  note parts = db_invD [OF assms(1)]
  have "\<not> s_position s < s_position t" "\<not> s_position t < s_position s"
    using order_invD [OF parts(2) assms(2,3,4)] order_invD [OF parts(2) assms(3,2) assms(4) [symmetric]]
      assms(5,6) by (auto simp: settled_def)
  then have "(s_workflow_id s, s_position s) = (s_workflow_id t, s_position t)"
    using assms(4) by simp
  with parts(1) assms(2,3) show ?thesis
    unfolding keys_inv_def by (metis (mono_tags, lifting) distinct_map_inj_on)
qed

subsection \<open>Every transaction keeps the invariant\<close>

lemma loaded_status:
  assumes "keys_inv db" and "load db wid = Some flow" and "w \<in> set (workflows db)" and "w_id w = wid"
  shows "w_status w = w_status flow"
proof -
  from find_workflow_unique [of db w] assms have "find_workflow db wid = Some w"
    by (simp add: keys_inv_def)
  with load_SomeD [OF assms(2)] show ?thesis by auto
qed

lemma idle_running:
  assumes "db_inv db" and "idle db wid flow" and "w \<in> set (workflows db)" and "w_id w = wid"
  shows "\<not> terminal (w_status w)"
  using loaded_status [OF db_invD(1) [OF assms(1)] _ assms(3,4)] assms(2) by (simp add: idle_def)

lemma skip_inv:
  assumes "db_inv db" and "idle db wid flow" and "next_pending flow = Some step"
  shows "db_inv (skip_step (s_job_id step) reason db)"
proof -
  from assms(2) have "load db wid = Some flow" by (simp add: idle_def)
  note np = next_pending_SomeD [OF this assms(3)]
  let ?f = "\<lambda>r. r\<lparr>s_status := Skipped, s_error := Some reason\<rparr>"
  have eq: "skip_step (s_job_id step) reason db =
      db\<lparr>workflow_steps := set_step (s_job_id step) ?f (workflow_steps db)\<rparr>"
    using np db_invD(1) [OF assms(1)] by (simp add: skip_step_def update_status_eq keys_inv_def)
  show ?thesis
    unfolding eq
    by (rule db_inv_change_step [OF assms(1) frontier_next_pending [OF assms(2,3)]])
      (use np idle_running [OF assms(1,2)] in \<open>auto simp: asked_def fatal_def\<close>)
qed

lemma mark_step_inv:
  assumes "db_inv db" and "mark_step job st res err db = (r, db')" and "st = Completed \<or> st = Failed"
  shows "db_inv db'"
proof -
  let ?hit = "\<lambda>r. s_job_id r = job \<and> s_status r = Dispatched"
  let ?f = "\<lambda>r. r\<lparr>s_status := st, s_result := res, s_error := err\<rparr>"
  have db': "db' = db\<lparr>workflow_steps := update_where ?hit ?f (workflow_steps db)\<rparr>"
    using assms(2) by (simp add: mark_step_def Let_def)
  show ?thesis
  proof (cases "\<exists>s\<in>set (workflow_steps db). ?hit s")
    case False
    then have "update_where ?hit ?f (workflow_steps db) = workflow_steps db"
      by (intro update_where_id) auto
    with db' assms(1) show ?thesis by simp
  next
    case True
    then obtain step where step: "step \<in> set (workflow_steps db)" "s_job_id step = job"
      "s_status step = Dispatched" by blast
    note parts = db_invD [OF assms(1)]
    have "update_where ?hit ?f (workflow_steps db) = set_step (s_job_id step) ?f (workflow_steps db)"
      using update_status_eq [OF _ step(1,3)] parts(1) step(2) by (simp add: keys_inv_def)
    moreover have "db_inv (db\<lparr>workflow_steps := set_step (s_job_id step) ?f (workflow_steps db)\<rparr>)"
    proof (rule db_inv_change_step [OF assms(1) frontier_dispatched [OF parts(2) step(1,3)]])
      show "\<not> terminal (w_status w)" if "w \<in> set (workflows db)" "w_id w = s_workflow_id step" for w
        using parts(4) that step by (auto simp: ended_inv_def ended_ok_def)
      show "\<forall>t\<in>set (workflow_steps db) - {step}. s_workflow_id t = s_workflow_id step \<longrightarrow>
              s_status t \<noteq> Dispatched"
        using only_dispatched [OF assms(1)] step by blast
    qed (use assms(3) step in \<open>auto simp: asked_def\<close>)
    ultimately show ?thesis by (simp add: db')
  qed
qed

text \<open>Staging one fresh event adds one row.\<close>

lemma stage_one_count:
  assumes "pe_event_id ev \<notin> ob_event_id ` set (ob_rows ob)"
  shows "length (filter p (ob_rows (stage ev sj ob))) =
           length (filter p (ob_rows ob)) + (if p (row_of (ob_next ob) ev sj) then 1 else 0)"
  using assms by (simp add: stage_fresh)

definition fresh_event :: "string \<Rightarrow> wdb \<Rightarrow> bool" where
  "fresh_event eid db \<longleftrightarrow> eid \<notin> ob_event_id ` set (ob_rows (w_outbox db))"

lemma w_id_set_status: "map w_id (workflows (set_status wid st rep err evs db)) = map w_id (workflows db)"
  by (simp add: workflows_set_status update_where_def)

lemma keys_inv_set_status:
  assumes "keys_inv db"
  shows "keys_inv (set_status wid st rep err evs db)"
proof -
  obtain sj where "w_outbox (set_status wid st rep err evs db) = stage_all evs sj (w_outbox db)"
    using outbox_set_status by blast
  with assms show ?thesis
    by (simp only: keys_inv_def w_id_set_status set_status_frame) (simp add: outbox_inv_stage_all)
qed

lemma set_status_rows:
  "w \<in> set (workflows (set_status wid st rep err evs db)) \<Longrightarrow>
     (w_id w = wid \<and> w_status w = st \<and> (rep \<noteq> None \<longrightarrow> w_report w \<noteq> None)) \<or>
     (w_id w \<noteq> wid \<and> w \<in> set (workflows db))"
  by (auto simp: workflows_set_status set_update_where split: if_splits)

lemma set_status_keeps_rows:
  assumes "w \<in> set (workflows db)"
  shows "\<exists>w'\<in>set (workflows (set_status wid st rep err evs db)).
           w_id w' = w_id w \<and> w_status w' = (if w_id w = wid then st else w_status w)"
  unfolding workflows_set_status set_update_where
  by (rule bexI [OF _ imageI [OF assms]]) simp

lemma send_inv:
  assumes inv: "db_inv db" and idl: "idle db wid flow" and np: "next_pending flow = Some step"
    and ev: "dispatch_event E flow step eid = Inr event" and fresh: "fresh_event eid db"
  shows "db_inv (send_step wid step event db)"
proof -
  let ?db1 = "set_status wid WRunning None None [event] db"
  let ?f = "\<lambda>r. r\<lparr>s_status := Dispatched\<rparr>"
  let ?ss = "workflow_steps db" and ?ss' = "set_step (s_job_id step) ?f (workflow_steps db)"
  note parts = db_invD [OF inv]
  from idl have l: "load db wid = Some flow" by (simp add: idle_def)
  note st = next_pending_SomeD [OF l np]
  have db': "send_step wid step event db = ?db1\<lparr>workflow_steps := ?ss'\<rparr>"
    using st parts(1) by (simp add: send_step_def mark_dispatched_def update_status_eq keys_inv_def)
  have rows: "set ?ss' = insert (?f step) (set ?ss - {step})"
    using parts(1) st by (intro set_step_rows) (auto simp: keys_inv_def)
  have sp: "same_place ?f" by simp
  have step: "step \<in> set ?ss" using st by blast
  from outbox_set_status [of wid WRunning None None "[event]" db]
  obtain sj where ob: "w_outbox ?db1 = stage event sj (w_outbox db)" by auto
  have eid: "pe_event_id event \<notin> ob_event_id ` set (ob_rows (w_outbox db))"
    using fresh dispatch_event_facts [OF ev] by (simp add: fresh_event_def)
  note count = stage_one_count [OF eid]
  have reqs: "n_requests j (?db1\<lparr>workflow_steps := ?ss'\<rparr>) =
      n_requests j db + (if j = s_job_id step then 1 else 0)" for j
    using dispatch_row_requests [OF ev] by (simp add: n_requests_def ob count)
  have anns: "n_announced i (?db1\<lparr>workflow_steps := ?ss'\<rparr>) = n_announced i db" for i
    using dispatch_row_announces [OF ev] by (simp add: n_announced_def ob count)
  have nofatal: "\<forall>t\<in>set ?ss. s_workflow_id t = s_workflow_id step \<longrightarrow> \<not> fatal t"
    using idl load_SomeD [OF l] st by (auto simp: idle_def fatal_steps_Nil)
  have "keys_inv (?db1\<lparr>workflow_steps := ?ss'\<rparr>)"
    using keys_inv_steps [OF keys_inv_set_status [OF parts(1)] sp, where p = "\<lambda>r. s_job_id r = s_job_id step"]
    by (simp add: set_step_def)
  moreover have "order_inv ?ss'"
    using parts(2) frontier_next_pending [OF idl np] sp rows by (rule order_inv_change)
  moreover have "fatal_inv ?ss'"
  proof (rule fatal_inv_change [OF parts(3) sp step rows])
    show "\<forall>t\<in>set ?ss - {step}. s_workflow_id t = s_workflow_id step \<longrightarrow> s_status t \<noteq> Dispatched"
      if "fatal (?f step)"
      using that by (simp add: fatal_def)
  qed (rule nofatal)
  moreover have "ended_inv (?db1\<lparr>workflow_steps := ?ss'\<rparr>)"
    unfolding ended_inv_def
  proof
    fix w assume "w \<in> set (workflows (?db1\<lparr>workflow_steps := ?ss'\<rparr>))"
    then consider "w_id w = wid" "w_status w = WRunning" | "w_id w \<noteq> wid" "w \<in> set (workflows db)"
      using set_status_rows [of w wid WRunning None None "[event]" db] by auto
    then show "ended_ok (workflow_steps (?db1\<lparr>workflow_steps := ?ss'\<rparr>)) w"
    proof cases
      case 1
      then show ?thesis by (simp add: ended_ok_def terminal_def)
    next
      case 2
      then have "ended_ok ?ss w" using parts(4) by (simp add: ended_inv_def)
      from ended_ok_change [OF this rows sp] 2 st show ?thesis by simp
    qed
  qed
  moreover have "request_inv (?db1\<lparr>workflow_steps := ?ss'\<rparr>)"
  proof -
    have dj: "distinct (map s_job_id ?ss)" using parts(1) by (simp add: keys_inv_def)
    have ne: "s_job_id s \<noteq> s_job_id step" if "s \<in> set ?ss - {step}" for s
      using that step distinct_map_inj_on [OF dj, of s step] by blast
    have zero: "n_requests (s_job_id step) db = 0"
      using parts(5) st by (auto simp: request_inv_def asked_def)
    have "\<forall>s\<in>set ?ss'. n_requests (s_job_id s) (?db1\<lparr>workflow_steps := ?ss'\<rparr>) = asked (s_status s)"
    proof (rule requests_change [where n = "\<lambda>j. n_requests j db", OF _ rows sp step])
      show "\<forall>s\<in>set ?ss. n_requests (s_job_id s) db = asked (s_status s)"
        using parts(5) by (simp add: request_inv_def)
    qed (simp_all add: reqs ne zero asked_def)
    moreover have "s_job_id step \<in> s_job_id ` set ?ss" using step by simp
    ultimately show ?thesis
      using parts(5) jobs_change [OF rows sp step] reqs by (auto simp: request_inv_def)
  qed
  moreover have "announce_inv (?db1\<lparr>workflow_steps := ?ss'\<rparr>)"
    unfolding announce_inv_def anns
  proof (intro conjI allI impI)
    fix i assume "0 < n_announced i db"
    with parts(6) obtain w where w: "w \<in> set (workflows db)" "w_id w = i" "terminal (w_status w)"
      by (auto simp: announce_inv_def)
    with idle_running [OF inv idl] have "i \<noteq> wid" by blast
    with w set_status_keeps_rows [of w db wid WRunning None None "[event]"]
    show "\<exists>w\<in>set (workflows (?db1\<lparr>workflow_steps := ?ss'\<rparr>)). w_id w = i \<and> terminal (w_status w)"
      by auto
  qed (use parts(6) in \<open>simp add: announce_inv_def\<close>)
  ultimately show ?thesis
    unfolding db' by (simp add: db_inv_def)
qed

lemma finish_InrD:
  assumes "finish E flow st err eid db = Inr db'"
  shows "\<exists>rep evs. db' = set_status (w_id flow) st (Some rep) err evs db \<and>
           (evs = [] \<or> (\<exists>ev. evs = [ev] \<and> pe_event_id ev = eid \<and> pe_type ev = ''workflow.completed'' \<and>
              dget (pe_payload ev) ''workflow_id'' = JStr (w_id flow)))"
proof -
  from assms obtain rep evs
    where evs: "completed_events E flow (completed_payload flow st err rep) eid = Inr evs"
      and db': "db' = set_status (w_id flow) st (Some rep) err evs db"
    by (auto simp: finish_def Let_def)
  from finish_event_facts [OF evs] have "evs = [] \<or> (\<exists>ev. evs = [ev] \<and> pe_event_id ev = eid \<and>
      pe_type ev = ''workflow.completed'' \<and> dget (pe_payload ev) ''workflow_id'' = JStr (w_id flow))"
    by (auto simp: completed_payload_def)
  with db' show ?thesis by blast
qed

text \<open>What a finishing transaction does to the outbox.\<close>

lemma finish_counts:
  assumes "finish E flow st err eid db = Inr db'" and "fresh_event eid db"
  shows "n_requests job db' = n_requests job db"
    and "n_announced i db' \<le> n_announced i db + (if i = w_id flow then 1 else 0)"
proof -
  from finish_InrD [OF assms(1)] obtain rep evs
    where db': "db' = set_status (w_id flow) st (Some rep) err evs db"
      and evs: "evs = [] \<or> (\<exists>ev. evs = [ev] \<and> pe_event_id ev = eid \<and> pe_type ev = ''workflow.completed'' \<and>
              dget (pe_payload ev) ''workflow_id'' = JStr (w_id flow))" by blast
  from outbox_set_status [of "w_id flow" st "Some rep" err evs db]
  obtain sj where ob: "w_outbox db' = stage_all evs sj (w_outbox db)" by (auto simp: db')
  have "n_requests job db' = n_requests job db \<and>
    n_announced i db' \<le> n_announced i db + (if i = w_id flow then 1 else 0)"
  proof (cases "evs = []")
    case True
    with ob show ?thesis by (simp add: n_requests_def n_announced_def)
  next
    case False
    with evs obtain ev where ev: "evs = [ev]" "pe_event_id ev = eid"
      "pe_type ev = ''workflow.completed''" "dget (pe_payload ev) ''workflow_id'' = JStr (w_id flow)"
      by blast
    have "pe_event_id ev \<notin> ob_event_id ` set (ob_rows (w_outbox db))"
      using assms(2) ev(2) by (simp add: fresh_event_def)
    note count = stage_one_count [OF this]
    have r: "\<not> requests_job job (row_of k ev sj)" for k
      by (rule completed_row_requests) (simp add: row_of_def ev(3))
    have a: "announces i (row_of k ev sj) \<longleftrightarrow> i = w_id flow" for k
      using ev(3,4) by (auto simp: announces_def row_of_def)
    from ob ev(1) r a show ?thesis
      by (simp add: n_requests_def n_announced_def count)
  qed
  then show "n_requests job db' = n_requests job db"
    and "n_announced i db' \<le> n_announced i db + (if i = w_id flow then 1 else 0)" by simp_all
qed

lemma finish_inv:
  assumes inv: "db_inv db" and l: "load db wid = Some flow" and nt: "\<not> terminal (w_status flow)"
    and nd: "\<forall>s\<in>set (workflow_steps db). s_workflow_id s = wid \<longrightarrow> s_status s \<noteq> Dispatched"
    and st: "st = WFailed \<or> st = WCompleted \<and>
      (\<forall>s\<in>set (workflow_steps db). s_workflow_id s = wid \<longrightarrow> settled (s_status s) \<and> \<not> fatal s)"
    and fin: "finish E flow st err eid db = Inr db'" and fresh: "fresh_event eid db"
  shows "db_inv db'"
proof -
  note parts = db_invD [OF inv]
  have wid: "w_id flow = wid" using load_SomeD [OF l] by blast
  from finish_InrD [OF fin] obtain rep evs where db': "db' = set_status wid st (Some rep) err evs db"
    by (auto simp: wid)
  have steps: "workflow_steps db' = workflow_steps db" by (simp add: db')
  have tst: "terminal st" using st by (auto simp: terminal_def)
  have "keys_inv db'" unfolding db' using parts(1) by (rule keys_inv_set_status)
  moreover have "ended_inv db'"
    unfolding ended_inv_def
  proof
    fix w assume "w \<in> set (workflows db')"
    then have "w_id w = wid \<and> w_status w = st \<and> w_report w \<noteq> None \<or> w_id w \<noteq> wid \<and> w \<in> set (workflows db)"
      using set_status_rows [of w wid st "Some rep" err evs db] by (auto simp: db')
    then show "ended_ok (workflow_steps db') w"
      using st nd parts(4) by (auto simp: ended_ok_def ended_inv_def steps)
  qed
  moreover have "request_inv db'"
    using parts(5) finish_counts(1) [OF fin fresh] by (simp add: request_inv_def steps)
  moreover have "announce_inv db'"
    unfolding announce_inv_def
  proof (intro conjI allI impI)
    fix i
    have zero: "n_announced wid db = 0"
      using parts(6) loaded_status [OF parts(1) l] nt by (auto simp: announce_inv_def)
    show "n_announced i db' \<le> 1"
      using finish_counts(2) [OF fin fresh, of i] zero parts(6)
      by (cases "i = wid") (auto simp: announce_inv_def wid intro: le_trans)
    assume pos: "0 < n_announced i db'"
    show "\<exists>w\<in>set (workflows db'). w_id w = i \<and> terminal (w_status w)"
    proof (cases "i = wid")
      case True
      from load_SomeD [OF l] obtain w where "w \<in> set (workflows db)" "w_id w = wid" by blast
      with True tst set_status_keeps_rows [of w db wid st "Some rep" err evs] show ?thesis
        unfolding db' by auto
    next
      case False
      with finish_counts(2) [OF fin fresh, of i] pos wid have "0 < n_announced i db" by simp
      with parts(6) obtain w where "w \<in> set (workflows db)" "w_id w = i" "terminal (w_status w)"
        by (auto simp: announce_inv_def)
      with False set_status_keeps_rows [of w db wid st "Some rep" err evs] show ?thesis
        unfolding db' by auto
    qed
  qed
  ultimately show ?thesis
    using parts(2,3) by (simp add: db_inv_def steps)
qed

end
