(* ===== verification/Orch_Moves.thy ===== *)
theory Orch_Moves
  imports Orchestration
begin

text \<open>
  The transactions of the orchestrator as a whole: \<^verbatim>\<open>advance\<close> and \<^verbatim>\<open>create\<close> keep the invariant, touch
  one workflow only, and \<^verbatim>\<open>advance\<close> always leaves its workflow finished or waiting for a step.
\<close>

subsection \<open>Finished or waiting\<close>

definition calm :: "string \<Rightarrow> wdb \<Rightarrow> bool" where
  "calm wid db \<longleftrightarrow>
     (\<forall>w\<in>set (workflows db). w_id w = wid \<longrightarrow> terminal (w_status w)) \<or>
     (\<exists>s\<in>set (workflow_steps db). s_workflow_id s = wid \<and> s_status s = Dispatched)"

lemma calm_finish:
  assumes "finish E flow st err eid db = Inr db'" and "terminal st" and "w_id flow = wid"
  shows "calm wid db'"
proof -
  from finish_InrD [OF assms(1)] obtain rep evs
    where db': "db' = set_status wid st (Some rep) err evs db" by (auto simp: assms(3))
  have "terminal (w_status w)" if "w \<in> set (workflows db')" "w_id w = wid" for w
    using set_status_rows [of w wid st "Some rep" err evs db] that assms(2) by (auto simp: db')
  then show ?thesis by (simp add: calm_def)
qed

lemma calm_send:
  assumes "load db wid = Some flow" and "next_pending flow = Some step"
  shows "calm wid (send_step wid step event db)"
proof -
  note st = next_pending_SomeD [OF assms]
  then have "step\<lparr>s_status := Dispatched\<rparr> \<in> set (workflow_steps (send_step wid step event db))"
    unfolding send_step_def mark_dispatched_def
    by (simp add: set_update_where)
  with st show ?thesis unfolding calm_def by force
qed

lemma idle_not_calm:
  assumes "idle db wid flow"
  shows "\<not> calm wid db"
proof -
  from assms have l: "load db wid = Some flow" by (simp add: idle_def)
  from load_SomeD [OF l] assms show ?thesis by (auto simp: idle_def calm_def)
qed

lemma give_up_not_calm:
  assumes "db_inv db" and "load db wid = Some flow" and "\<not> terminal (w_status flow)"
    and "fatal_steps flow \<noteq> []"
  shows "\<not> calm wid db"
proof -
  obtain w where w: "w \<in> set (workflows db)" "w_id w = wid" "\<not> terminal (w_status w)"
    using load_SomeD [OF assms(2)] assms(3) by auto
  obtain s where s: "s \<in> set (workflow_steps db)" "s_workflow_id s = wid" "fatal s"
    using assms(4) load_SomeD [OF assms(2)] by (auto simp: fatal_steps_Nil)
  have "s_status t \<noteq> Dispatched" if "t \<in> set (workflow_steps db)" "s_workflow_id t = wid" for t
    using db_invD(3) [OF assms(1)] s that by (simp add: fatal_inv_def)
  with w show ?thesis by (auto simp: calm_def)
qed

lemma calm_no_move:
  assumes "move E wid eid db db'" and "db_inv db"
  shows "\<not> calm wid db"
  using assms
  by cases (auto dest: idle_not_calm give_up_not_calm)

subsection \<open>One workflow at a time\<close>

text \<open>Everything that belongs to another workflow is as it was.\<close>

definition only_touches :: "string \<Rightarrow> wdb \<Rightarrow> wdb \<Rightarrow> bool" where
  "only_touches wid db db' \<longleftrightarrow>
     {w \<in> set (workflows db'). w_id w \<noteq> wid} = {w \<in> set (workflows db). w_id w \<noteq> wid} \<and>
     {s \<in> set (workflow_steps db'). s_workflow_id s \<noteq> wid} =
       {s \<in> set (workflow_steps db). s_workflow_id s \<noteq> wid} \<and>
     w_id ` set (workflows db') = w_id ` set (workflows db)"

lemma only_touches_refl: "only_touches wid db db"
  by (simp add: only_touches_def)

lemma only_touches_trans:
  "only_touches wid db db' \<Longrightarrow> only_touches wid db' db'' \<Longrightarrow> only_touches wid db db''"
  by (simp add: only_touches_def)

lemma update_where_others:
  assumes "\<And>r. p r \<Longrightarrow> key r = k" and "\<And>r. key (f r) = key r"
  shows "{r \<in> set (update_where p f rs). key r \<noteq> k} = {r \<in> set rs. key r \<noteq> k}"
  using assms by (auto simp: set_update_where split: if_splits intro: image_eqI)

lemma only_touches_set_status: "only_touches wid db (set_status wid st rep err evs db)"
proof -
  have "map w_id (workflows (set_status wid st rep err evs db)) = map w_id (workflows db)"
    by (rule w_id_set_status)
  then have "w_id ` set (workflows (set_status wid st rep err evs db)) = w_id ` set (workflows db)"
    by (metis list.set_map)
  moreover have "{w \<in> set (workflows (set_status wid st rep err evs db)). w_id w \<noteq> wid} =
      {w \<in> set (workflows db). w_id w \<noteq> wid}"
    unfolding workflows_set_status by (rule update_where_others) simp_all
  ultimately show ?thesis by (simp add: only_touches_def)
qed

lemma only_touches_steps:
  assumes "\<And>r. r \<in> set (workflow_steps db) \<Longrightarrow> p r \<Longrightarrow> s_workflow_id r = wid" and "same_place f"
  shows "only_touches wid db (db\<lparr>workflow_steps := update_where p f (workflow_steps db)\<rparr>)"
proof -
  have "{r \<in> set (update_where p f (workflow_steps db)). s_workflow_id r \<noteq> wid} =
      {r \<in> set (workflow_steps db). s_workflow_id r \<noteq> wid}"
    using assms by (auto simp: set_update_where same_place_def split: if_splits intro: image_eqI)
  then show ?thesis by (simp add: only_touches_def)
qed

lemma keys_job_workflow:
  assumes "keys_inv db" and "step \<in> set (workflow_steps db)" and "r \<in> set (workflow_steps db)"
    and "s_job_id r = s_job_id step"
  shows "r = step"
  using assms distinct_map_inj_on [of s_job_id "workflow_steps db" r step] by (simp add: keys_inv_def)

lemma move_touches:
  assumes "move E wid eid db db'" and "db_inv db"
  shows "only_touches wid db db'"
  using assms(1)
proof cases
  case (skip flow step reason)
  then have "load db wid = Some flow" by (simp add: idle_def)
  note st = next_pending_SomeD [OF this skip(3)]
  show ?thesis
    unfolding skip(1) skip_step_def
    by (rule only_touches_steps)
      (use st keys_job_workflow [OF db_invD(1) [OF assms(2)]] in auto)
next
  case (send flow step event)
  then have "load db wid = Some flow" by (simp add: idle_def)
  note st = next_pending_SomeD [OF this send(3)]
  show ?thesis
    unfolding send(1) send_step_def mark_dispatched_def
    by (rule only_touches_trans [OF only_touches_set_status only_touches_steps])
      (use st keys_job_workflow [OF db_invD(1) [OF assms(2)]] in auto)
next
  case (complete flow)
  then have "w_id flow = wid" using load_SomeD [of db wid flow] by (auto simp: idle_def)
  with finish_InrD [OF complete(3)] show ?thesis by (auto intro: only_touches_set_status)
next
  case (give_up flow err)
  then have "w_id flow = wid" using load_SomeD [of db wid flow] by auto
  with finish_InrD [OF give_up(4)] show ?thesis by (auto intro: only_touches_set_status)
qed

subsection \<open>Advancing\<close>

lemma idle_facts:
  assumes "db_inv db" and "idle db wid flow"
  shows "load db wid = Some flow" "\<not> terminal (w_status flow)" "w_id flow = wid"
    "\<forall>s\<in>set (workflow_steps db). s_workflow_id s = wid \<longrightarrow> s_status s \<noteq> Dispatched"
    "\<forall>s\<in>set (workflow_steps db). s_workflow_id s = wid \<longrightarrow> \<not> fatal s"
  using assms(2) load_SomeD [of db wid flow] by (auto simp: idle_def fatal_steps_Nil)

lemma move_inv:
  assumes "move E wid eid db db'" and inv: "db_inv db" and fresh: "fresh_event eid db"
  shows "db_inv db' \<and> (fresh_event eid db' \<or> calm wid db')"
  using assms(1)
proof cases
  case (skip flow step reason)
  then show ?thesis
    using skip_inv [OF inv skip(2,3)] fresh by (simp add: fresh_event_def)
next
  case (send flow step event)
  then show ?thesis
    using send_inv [OF inv send(2-4) fresh] calm_send [OF idle_facts(1) [OF inv send(2)] send(3)]
    by simp
next
  case (complete flow)
  note i = idle_facts [OF inv complete(1)]
  have "settled (s_status s)" if "s \<in> set (workflow_steps db)" "s_workflow_id s = wid" for s
    using next_pending_NoneD [OF i(1) complete(2) that] i(4) that
    by (cases "s_status s") (auto simp: settled_def)
  with i(5) have "db_inv db'"
    using finish_inv [OF inv i(1,2,4) _ complete(3) fresh] by blast
  with calm_finish [OF complete(3) _ i(3)] show ?thesis by (simp add: terminal_def)
next
  case (give_up flow err)
  have nd: "\<forall>s\<in>set (workflow_steps db). s_workflow_id s = wid \<longrightarrow> s_status s \<noteq> Dispatched"
    using give_up(3)
  proof
    assume "fatal_steps flow \<noteq> []"
    from give_up_not_calm [OF inv give_up(1,2) this] show ?thesis by (auto simp: calm_def)
  next
    assume "idle db wid flow"
    from idle_facts(4) [OF inv this] show ?thesis .
  qed
  have "w_id flow = wid" using load_SomeD [OF give_up(1)] by blast
  with finish_inv [OF inv give_up(1,2) nd _ give_up(4) fresh] calm_finish [OF give_up(4)]
  show ?thesis by (simp add: terminal_def)
qed

lemma moves_inv:
  assumes "(move E wid eid)\<^sup>*\<^sup>* db db'" and "db_inv db" and "fresh_event eid db"
  shows "db_inv db' \<and> (fresh_event eid db' \<or> calm wid db') \<and> only_touches wid db db'"
  using assms(1)
proof (induction rule: rtranclp_induct)
  case base
  then show ?case using assms(2,3) by (simp add: only_touches_refl)
next
  case (step db1 db2)
  with calm_no_move have "fresh_event eid db1" by blast
  with step move_inv move_touches only_touches_trans show ?case by blast
qed

lemma advance_inv:
  assumes "advance E wid eid db = Inr db'" and "db_inv db" and "fresh_event eid db"
  shows "db_inv db'" "only_touches wid db db'"
  using moves_inv [OF advance_moves [OF assms(1)] assms(2,3)] by simp_all

text \<open>\<^verbatim>\<open>advance\<close> never stops half way.\<close>

lemma finish_calm:
  assumes "load db wid = Some flow" and "finish E flow st err eid db = Inr db'" and "terminal st"
  shows "calm wid db'"
  using calm_finish [OF assms(2,3)] load_SomeD [OF assms(1)] by blast

lemma terminal_statuses [simp]: "terminal WCompleted" "terminal WFailed" "\<not> terminal WQueued" "\<not> terminal WRunning"
  by (simp_all add: terminal_def)

lemma after_skip_calm:
  assumes "after_skip E wid eid db = Inr db'"
  shows "calm wid db'"
proof (cases "load db wid")
  case None
  with assms show ?thesis by (simp add: after_skip_def)
next
  case l: (Some flow)
  show ?thesis
  proof (cases "next_pending flow")
    case None
    with assms l have "finish E flow WCompleted None eid db = Inr db'" by (simp add: after_skip_def)
    from finish_calm [OF l this] show ?thesis by simp
  next
    case np: (Some step)
    with assms l calm_send [OF l np] finish_calm [OF l] show ?thesis
      by (auto simp: after_skip_def split: sum.splits)
  qed
qed

lemma advance_calm:
  assumes "advance E wid eid db = Inr db'" and "keys_inv db"
  shows "calm wid db'"
proof (cases "load db wid")
  case None
  with assms(1) have "db' = db" "wid \<notin> w_id ` set (workflows db)"
    by (auto simp: advance_def load_unknown)
  then show ?thesis by (auto simp: calm_def)
next
  case (Some flow)
  note flow = load_SomeD [OF Some]
  show ?thesis
  proof (cases "terminal (w_status flow)")
    case True
    with assms(1) Some loaded_status [OF assms(2) Some] show ?thesis
      by (simp add: calm_def advance_def)
  next
    case nt: False
    show ?thesis
    proof (cases "fatal_steps flow = []")
      case False
      with assms(1) Some nt finish_calm [OF Some] show ?thesis by (simp add: advance_def)
    next
      case nf: True
      show ?thesis
      proof (cases "\<exists>s\<in>set (w_steps flow). s_status s = Dispatched")
        case True
        with assms(1) Some nt nf flow show ?thesis by (auto simp: advance_def calm_def)
      next
        case nd: False
        show ?thesis
        proof (cases "next_pending flow")
          case None
          with assms(1) Some nt nf nd finish_calm [OF Some] show ?thesis by (simp add: advance_def)
        next
          case np: (Some step)
          have adv: "(case dispatch_event E flow step eid of
                    Inr event \<Rightarrow> Inr (send_step wid step event db)
                  | Inl (NoWorkToDo reason) \<Rightarrow> after_skip E wid eid (skip_step (s_job_id step) reason db)
                  | Inl e \<Rightarrow> finish E flow WFailed (Some (exn_text e)) eid db) = Inr db'"
            using assms(1) Some nt nf nd np by (simp add: advance_def)
          show ?thesis
          proof (cases "dispatch_event E flow step eid")
            case (Inl e)
            with adv after_skip_calm finish_calm [OF Some] show ?thesis by (cases e) auto
          next
            case (Inr event)
            with adv calm_send [OF Some np] show ?thesis by auto
          qed
        qed
      qed
    qed
  qed
qed

subsection \<open>Creating a workflow\<close>

definition step_keys :: "step_row \<Rightarrow> int \<times> step_kind \<times> string \<times> dict" where
  "step_keys s = (s_position s, s_kind s, s_job_id s, s_params s)"

definition untouched :: "string \<Rightarrow> step_row \<Rightarrow> bool" where
  "untouched wid s \<longleftrightarrow> s_workflow_id s = wid \<and> s_status s = Pending \<and> s_error s = None \<and> s_result s = None"

lemma insert_steps_InrD:
  assumes "insert_steps wid ps rows = Inr rows'"
    and "distinct (map s_job_id rows)"
    and "distinct (map (\<lambda>s. (s_workflow_id s, s_position s)) rows)"
  shows "\<exists>new. rows' = rows @ new \<and> map step_keys new = ps \<and> (\<forall>s\<in>set new. untouched wid s) \<and>
           distinct (map s_job_id rows') \<and>
           distinct (map (\<lambda>s. (s_workflow_id s, s_position s)) rows')"
  using assms
proof (induction wid ps rows rule: insert_steps.induct)
  case (1 wid rows)
  then show ?case by simp
next
  case (2 wid position kind job_id params rest rows)
  let ?r = "\<lparr>s_workflow_id = wid, s_position = position, s_kind = kind, s_job_id = job_id,
          s_status = Pending, s_error = None, s_result = None, s_params = params\<rparr>"
  have free: "\<not> (\<exists>r\<in>set rows. s_job_id r = job_id \<or> s_workflow_id r = wid \<and> s_position r = position)"
    using 2(2) by (auto split: if_splits)
  then have rest: "insert_steps wid rest (rows @ [?r]) = Inr rows'"
    using 2(2) by (simp only: insert_steps.simps if_False)
  have d: "distinct (map s_job_id (rows @ [?r]))"
    "distinct (map (\<lambda>s. (s_workflow_id s, s_position s)) (rows @ [?r]))"
    using free 2(3,4) by auto
  from 2(1) [OF free rest d] obtain new
    where new: "rows' = (rows @ [?r]) @ new" "map step_keys new = rest" "\<forall>s\<in>set new. untouched wid s"
      "distinct (map s_job_id rows')" "distinct (map (\<lambda>s. (s_workflow_id s, s_position s)) rows')"
    by blast
  from new(2,3) have "map step_keys (?r # new) = (position, kind, job_id, params) # rest"
    "\<forall>s\<in>set (?r # new). untouched wid s"
    by (simp_all add: step_keys_def untouched_def)
  with new(1,4,5) show ?case by (intro exI [of _ "?r # new"]) simp
qed

lemma create_InrD:
  assumes "create wid goal inputs ps tid pid db = Inr db'" and "keys_inv db"
  shows "\<exists>w new. db' = db\<lparr>workflows := workflows db @ [w], workflow_steps := workflow_steps db @ new\<rparr> \<and>
           w_id w = wid \<and> w_status w = WQueued \<and> w_inputs w = inputs \<and> w_goal w = goal \<and>
           wid \<notin> w_id ` set (workflows db) \<and>
           map step_keys new = ps \<and> (\<forall>s\<in>set new. untouched wid s) \<and>
           distinct (map s_job_id (workflow_steps db @ new)) \<and>
           distinct (map (\<lambda>s. (s_workflow_id s, s_position s)) (workflow_steps db @ new))"
proof -
  from assms(1) obtain rows where wid: "wid \<notin> w_id ` set (workflows db)"
    and ins: "insert_steps wid ps (workflow_steps db) = Inr rows"
    and db': "db' = db\<lparr>workflows := workflows db @
               [\<lparr>w_id = wid, w_tenant_id = tid, w_project_id = pid, w_goal = goal,
                 w_inputs = inputs, w_status = WQueued, w_error = None, w_report = None,
                 w_created_at = now db, w_updated_at = now db\<rparr>],
             workflow_steps := rows\<rparr>"
    by (auto simp: create_def split: if_splits)
  from insert_steps_InrD [OF ins] assms(2) obtain new where new: "rows = workflow_steps db @ new"
      "map step_keys new = ps" "\<forall>s\<in>set new. untouched wid s" "distinct (map s_job_id rows)"
      "distinct (map (\<lambda>s. (s_workflow_id s, s_position s)) rows)"
    unfolding keys_inv_def by blast
  with wid db' show ?thesis by (intro exI conjI) (auto simp: new(1))
qed

lemma append_pending_inv:
  assumes "\<And>s. s \<in> set ss \<Longrightarrow> s_workflow_id s \<noteq> wid" and "\<forall>s\<in>set new. untouched wid s"
  shows "order_inv ss \<Longrightarrow> order_inv (ss @ new)" and "fatal_inv ss \<Longrightarrow> fatal_inv (ss @ new)"
proof -
  have other: "s \<in> set ss" if "s \<in> set (ss @ new)" "t \<in> set ss" "s_workflow_id s = s_workflow_id t" for s t
    using assms(1) [OF that(2)] assms(2) that by (auto simp: untouched_def)
  have new: "s_status t = Pending" if "t \<in> set new" for t
    using assms(2) that by (simp add: untouched_def)
  show "order_inv (ss @ new)" if "order_inv ss"
    unfolding order_inv_def
  proof (intro ballI impI, elim conjE)
    fix s t assume s: "s \<in> set (ss @ new)" and t: "t \<in> set (ss @ new)"
      and rest: "s_workflow_id s = s_workflow_id t" "s_position s < s_position t" "\<not> settled (s_status s)"
    show "s_status t = Pending"
    proof (cases "t \<in> set ss")
      case True
      from order_invD [OF that other [OF s True rest(1)] True rest] show ?thesis .
    next
      case False
      with t new show ?thesis by simp
    qed
  qed
  show "fatal_inv (ss @ new)" if inv: "fatal_inv ss"
    unfolding fatal_inv_def
  proof (intro ballI impI, elim conjE)
    fix s t assume "s \<in> set (ss @ new)" "t \<in> set (ss @ new)" "s_workflow_id s = s_workflow_id t" "fatal s"
    then show "s_status t \<noteq> Dispatched"
      using new inv other [of s t] by (cases "t \<in> set ss") (auto simp: fatal_inv_def)
  qed
qed

lemma create_inv:
  assumes "create wid goal inputs ps tid pid db = Inr db'" and inv: "db_inv db"
  shows "db_inv db'"
proof -
  note parts = db_invD [OF inv]
  from create_InrD [OF assms(1) parts(1)] obtain w new
    where db': "db' = db\<lparr>workflows := workflows db @ [w], workflow_steps := workflow_steps db @ new\<rparr>"
      and w: "w_id w = wid" "w_status w = WQueued" "wid \<notin> w_id ` set (workflows db)"
      and new: "\<forall>s\<in>set new. untouched wid s"
      and d: "distinct (map s_job_id (workflow_steps db @ new))"
        "distinct (map (\<lambda>s. (s_workflow_id s, s_position s)) (workflow_steps db @ new))"
    by blast
  have old: "s_workflow_id s \<noteq> wid" if "s \<in> set (workflow_steps db)" for s
    using parts(1) that w(3) by (auto simp: keys_inv_def)
  have new': "s_workflow_id s = wid" "s_status s = Pending" "\<not> fatal s" "\<not> settled (s_status s)" if "s \<in> set new" for s
    using new that by (auto simp: untouched_def fatal_def settled_def)
  have "keys_inv db'"
    using parts(1) w d new'(1) by (auto simp: keys_inv_def db')
  moreover have "order_inv (workflow_steps db')"
    using append_pending_inv(1) [OF old new parts(2)] by (simp add: db')
  moreover have "fatal_inv (workflow_steps db')"
    using append_pending_inv(2) [OF old new parts(3)] by (simp add: db')
  moreover have "ended_inv db'"
  proof -
    have "w_id v \<noteq> wid" if "v \<in> set (workflows db)" for v using that w(3) by auto
    with parts(4) w new' show ?thesis by (auto simp: ended_inv_def ended_ok_def db')
  qed
  moreover have "request_inv db'"
  proof -
    have n: "n_requests j db' = n_requests j db" for j by (simp add: n_requests_def db')
    have "n_requests (s_job_id s) db = 0" if "s \<in> set new" for s
      using parts(5) that d(1) by (auto simp: request_inv_def)
    with parts(5) n new' show ?thesis by (auto simp: request_inv_def asked_def db')
  qed
  moreover have "announce_inv db'"
    using parts(6) by (auto simp: announce_inv_def n_announced_def db')
  ultimately show ?thesis by (simp add: db_inv_def)
qed

end
