(* ===== verification/Orch_System.thy ===== *)
theory Orch_System
  imports Orch_Moves
begin

text \<open>
  The orchestrator as a state machine: any number of workers, API processes and relays over one
  database. A step of the machine is one transaction. \<^verbatim>\<open>start\<close> is create, then run, then advance;
  \<^verbatim>\<open>on_completion\<close> is mark, then advance; what a handler still has to do is a task in its memory, and
  any other transaction may come in between. In the machine with losses a handler may also die
  with its task, or its \<^verbatim>\<open>advance\<close> may raise.
\<close>

datatype task = Run_Start string | Do_Advance string

record orch =
  o_db :: wdb
  o_tasks :: "task list"

definition orch_init :: "orch \<Rightarrow> bool" where
  "orch_init S \<longleftrightarrow> o_tasks S = [] \<and> workflows (o_db S) = [] \<and> workflow_steps (o_db S) = [] \<and>
     w_outbox (o_db S) = empty_outbox"

inductive orch_step :: "engine_env \<Rightarrow> bool \<Rightarrow> orch \<Rightarrow> orch \<Rightarrow> bool"
  for E :: engine_env and lossy :: bool where
  begin_start: "plan (ee_runtime E) uuid4 goal inputs = Inr steps \<Longrightarrow>
     create wid goal inputs (plan_rows steps) tid pid db = Inr db' \<Longrightarrow>
     orch_step E lossy \<lparr>o_db = db, o_tasks = ts\<rparr> \<lparr>o_db = db', o_tasks = Run_Start wid # ts\<rparr>"
| continue_start: "Run_Start wid \<in> set ts \<Longrightarrow>
     orch_step E lossy \<lparr>o_db = db, o_tasks = ts\<rparr>
       \<lparr>o_db = set_status wid WRunning None None [] db,
        o_tasks = Do_Advance wid # remove1 (Run_Start wid) ts\<rparr>"
| complete_step: "st = Completed \<or> st = Failed \<Longrightarrow> mark_step job st res err db = (Some wid, db') \<Longrightarrow>
     orch_step E lossy \<lparr>o_db = db, o_tasks = ts\<rparr> \<lparr>o_db = db', o_tasks = Do_Advance wid # ts\<rparr>"
| advance_ok: "Do_Advance wid \<in> set ts \<Longrightarrow> fresh_event eid db \<Longrightarrow> advance E wid eid db = Inr db' \<Longrightarrow>
     orch_step E lossy \<lparr>o_db = db, o_tasks = ts\<rparr> \<lparr>o_db = db', o_tasks = remove1 (Do_Advance wid) ts\<rparr>"
| lose: "lossy \<Longrightarrow> orch_step E lossy \<lparr>o_db = db, o_tasks = ts\<rparr> \<lparr>o_db = db, o_tasks = remove1 t ts\<rparr>"
| summarise: "save_summary wid summary db = (b, db') \<Longrightarrow>
     orch_step E lossy \<lparr>o_db = db, o_tasks = ts\<rparr> \<lparr>o_db = db', o_tasks = ts\<rparr>"
| relay_pass: "drain atts t batch (w_outbox db) = (out, res, ob') \<Longrightarrow>
     orch_step E lossy \<lparr>o_db = db, o_tasks = ts\<rparr> \<lparr>o_db = db\<lparr>w_outbox := ob'\<rparr>, o_tasks = ts\<rparr>"
| tick: "orch_step E lossy \<lparr>o_db = db, o_tasks = ts\<rparr> \<lparr>o_db = db\<lparr>now := t\<rparr>, o_tasks = ts\<rparr>"

subsection \<open>The other transactions keep the invariant\<close>

lemma run_inv:
  assumes inv: "db_inv db" and nt: "\<And>w. w \<in> set (workflows db) \<Longrightarrow> w_id w = wid \<Longrightarrow> \<not> terminal (w_status w)"
  shows "db_inv (set_status wid WRunning None None [] db)"
proof -
  let ?db = "set_status wid WRunning None None [] db"
  note parts = db_invD [OF inv]
  have ob: "w_outbox ?db = w_outbox db" by (simp add: set_status_def)
  have "ended_inv ?db"
    unfolding ended_inv_def
  proof
    fix w assume "w \<in> set (workflows ?db)"
    from set_status_rows [OF this] parts(4) show "ended_ok (workflow_steps ?db) w"
      by (auto simp: ended_ok_def ended_inv_def)
  qed
  moreover have "announce_inv ?db"
    unfolding announce_inv_def
  proof (intro conjI allI impI)
    fix i assume "0 < n_announced i ?db"
    with parts(6) obtain w where w: "w \<in> set (workflows db)" "w_id w = i" "terminal (w_status w)"
      by (auto simp: announce_inv_def n_announced_def ob)
    with nt have "i \<noteq> wid" by blast
    with w set_status_keeps_rows [of w db wid WRunning None None "[]"]
    show "\<exists>w\<in>set (workflows ?db). w_id w = i \<and> terminal (w_status w)" by auto
  qed (use parts(6) in \<open>simp add: announce_inv_def n_announced_def ob\<close>)
  moreover have "request_inv ?db"
    using parts(5) by (simp add: request_inv_def n_requests_def ob)
  ultimately show ?thesis
    using parts keys_inv_set_status by (simp add: db_inv_def)
qed

lemma save_summary_rows:
  assumes "save_summary wid summary db = (b, db')"
  shows "workflow_steps db' = workflow_steps db" "w_outbox db' = w_outbox db"
    "map w_id (workflows db') = map w_id (workflows db)"
    "w \<in> set (workflows db') \<Longrightarrow>
       \<exists>v\<in>set (workflows db). w_id v = w_id w \<and> w_status v = w_status w \<and> (w_report v \<noteq> None \<longrightarrow> w_report w \<noteq> None)"
    "v \<in> set (workflows db) \<Longrightarrow> \<exists>w\<in>set (workflows db'). w_id v = w_id w \<and> w_status v = w_status w"
proof -
  let ?hit = "\<lambda>w. w_id w = wid \<and> terminal (w_status w)"
  let ?f = "\<lambda>w. w\<lparr>w_report := Some (dset (case w_report w of None \<Rightarrow> [] | Some r \<Rightarrow> r) ''summary'' summary),
                   w_updated_at := now db\<rparr>"
  have db': "db' = db\<lparr>workflows := update_where ?hit ?f (workflows db)\<rparr>"
    using assms by (simp add: save_summary_def Let_def)
  then have rows: "workflows db' = update_where ?hit ?f (workflows db)" by simp
  show "workflow_steps db' = workflow_steps db" "w_outbox db' = w_outbox db" by (simp_all add: db')
  show "map w_id (workflows db') = map w_id (workflows db)"
    unfolding rows by (simp add: update_where_def)
  show "\<exists>v\<in>set (workflows db). w_id v = w_id w \<and> w_status v = w_status w \<and> (w_report v \<noteq> None \<longrightarrow> w_report w \<noteq> None)"
    if "w \<in> set (workflows db')"
  proof -
    from that obtain v where v: "v \<in> set (workflows db)" "w = (if ?hit v then ?f v else v)"
      unfolding rows set_update_where by blast
    then show ?thesis by (intro bexI [of _ v]) simp_all
  qed
  show "\<exists>w\<in>set (workflows db'). w_id v = w_id w \<and> w_status v = w_status w" if "v \<in> set (workflows db)"
    unfolding rows set_update_where by (rule bexI [OF _ imageI [OF that]]) simp
qed

lemma save_summary_inv:
  assumes "save_summary wid summary db = (b, db')" and inv: "db_inv db"
  shows "db_inv db'"
proof -
  note parts = db_invD [OF inv] and rows = save_summary_rows [OF assms(1)]
  have "keys_inv db'" using parts(1) by (simp only: keys_inv_def rows(1-3))
  moreover have "ended_inv db'"
    unfolding ended_inv_def
  proof
    fix w assume "w \<in> set (workflows db')"
    from rows(4) [OF this] parts(4) show "ended_ok (workflow_steps db') w"
      by (auto simp: ended_inv_def ended_ok_def rows(1))
  qed
  moreover have "announce_inv db'"
    unfolding announce_inv_def
  proof (intro conjI allI impI)
    fix i assume "0 < n_announced i db'"
    with parts(6) obtain w where "w \<in> set (workflows db)" "w_id w = i" "terminal (w_status w)"
      by (auto simp: announce_inv_def n_announced_def rows(2))
    with rows(5) [of w] show "\<exists>w\<in>set (workflows db'). w_id w = i \<and> terminal (w_status w)" by metis
  qed (use parts(6) in \<open>simp add: announce_inv_def n_announced_def rows(2)\<close>)
  ultimately show ?thesis
    using parts by (simp add: db_inv_def request_inv_def n_requests_def rows(1,2))
qed

lemma mark_batch_contents:
  "map (\<lambda>r. (ob_event_id r, ob_event_type r, ob_payload r)) (ob_rows (mark_batch t rs ob)) =
     map (\<lambda>r. (ob_event_id r, ob_event_type r, ob_payload r)) (ob_rows ob)"
  by (simp add: mark_batch_def update_where_def)

lemma length_filter_map: "length (filter (\<lambda>r. p (f r)) xs) = length (filter p (map f xs))"
  by (induction xs) simp_all

lemma drain_counts:
  assumes "drain atts t batch (w_outbox db) = (out, res, ob')"
  shows "n_requests job (db\<lparr>w_outbox := ob'\<rparr>) = n_requests job db"
    and "n_announced wid (db\<lparr>w_outbox := ob'\<rparr>) = n_announced wid db"
proof -
  let ?f = "\<lambda>r. (ob_event_id r, ob_event_type r, ob_payload r)"
  have m: "map ?f (ob_rows ob') = map ?f (ob_rows (w_outbox db))"
    using assms by (elim drain_cases) (simp_all only: mark_batch_contents)
  have r: "requests_job job = (\<lambda>r. (\<lambda>(i, ty, p). case map_of request_fields ty of None \<Rightarrow> False
        | Some field \<Rightarrow> dget p field = JStr job) (?f r))"
    by (rule ext) (simp add: requests_job_def)
  have a: "announces wid = (\<lambda>r. (\<lambda>(i, ty, p). ty = ''workflow.completed'' \<and>
        dget p ''workflow_id'' = JStr wid) (?f r))"
    by (rule ext) (simp add: announces_def)
  show "n_requests job (db\<lparr>w_outbox := ob'\<rparr>) = n_requests job db"
    unfolding n_requests_def r by (subst (1 2) length_filter_map) (simp add: m)
  show "n_announced wid (db\<lparr>w_outbox := ob'\<rparr>) = n_announced wid db"
    unfolding n_announced_def a by (subst (1 2) length_filter_map) (simp add: m)
qed

lemma relay_pass_inv:
  assumes "drain atts t batch (w_outbox db) = (out, res, ob')" and inv: "db_inv db"
  shows "db_inv (db\<lparr>w_outbox := ob'\<rparr>)"
  using db_invD [OF inv] outbox_inv_drain [OF assms(1)] drain_counts [OF assms(1)]
  by (simp add: db_inv_def keys_inv_def ended_inv_def request_inv_def announce_inv_def)

lemma tick_inv: "db_inv db \<Longrightarrow> db_inv (db\<lparr>now := t\<rparr>)"
  by (simp add: db_inv_def keys_inv_def ended_inv_def request_inv_def announce_inv_def
      n_requests_def n_announced_def)

subsection \<open>The tasks in memory\<close>

definition queued :: "string \<Rightarrow> wdb \<Rightarrow> bool" where
  "queued wid db \<longleftrightarrow>
     (\<exists>w\<in>set (workflows db). w_id w = wid \<and> w_status w = WQueued) \<and>
     (\<forall>s\<in>set (workflow_steps db). s_workflow_id s = wid \<longrightarrow> s_status s = Pending)"

primrec is_start :: "task \<Rightarrow> bool" where
  "is_start (Run_Start _) = True"
| "is_start (Do_Advance _) = False"

definition tasks_inv :: "wdb \<Rightarrow> task list \<Rightarrow> bool" where
  "tasks_inv db ts \<longleftrightarrow>
     (\<forall>wid. Run_Start wid \<in> set ts \<longrightarrow> queued wid db \<and> Do_Advance wid \<notin> set ts) \<and>
     (\<forall>wid. Do_Advance wid \<in> set ts \<longrightarrow> wid \<in> w_id ` set (workflows db)) \<and>
     distinct (filter is_start ts)"

definition orch_inv :: "orch \<Rightarrow> bool" where
  "orch_inv S \<longleftrightarrow> db_inv (o_db S) \<and> tasks_inv (o_db S) (o_tasks S)"

lemma only_touchesD:
  assumes "only_touches wid db db'" and "i \<noteq> wid"
  shows "w_id w = i \<Longrightarrow> w \<in> set (workflows db') \<longleftrightarrow> w \<in> set (workflows db)"
    and "s_workflow_id s = i \<Longrightarrow> s \<in> set (workflow_steps db') \<longleftrightarrow> s \<in> set (workflow_steps db)"
  using assms unfolding only_touches_def by auto

lemma queued_touches:
  assumes "only_touches wid db db'" and "i \<noteq> wid"
  shows "queued i db' \<longleftrightarrow> queued i db"
  using only_touchesD [OF assms] unfolding queued_def by meson

lemma calm_touches:
  assumes "only_touches wid db db'" and "i \<noteq> wid"
  shows "calm i db' \<longleftrightarrow> calm i db"
  using only_touchesD [OF assms] unfolding calm_def by meson

lemma queued_not_calm: "queued wid db \<Longrightarrow> \<not> calm wid db"
  by (auto simp: queued_def calm_def)

lemma mark_step_hit:
  assumes "mark_step job st res err db = (Some wid, db')" and "keys_inv db"
  shows "only_touches wid db db'" and "wid \<in> w_id ` set (workflows db)"
    and "\<exists>s\<in>set (workflow_steps db). s_job_id s = job \<and> s_workflow_id s = wid \<and> s_status s = Dispatched"
proof -
  let ?hit = "\<lambda>r. s_job_id r = job \<and> s_status r = Dispatched"
  let ?f = "\<lambda>r. r\<lparr>s_status := st, s_result := res, s_error := err\<rparr>"
  have db': "db' = db\<lparr>workflow_steps := update_where ?hit ?f (workflow_steps db)\<rparr>"
    using assms(1) by (simp add: mark_step_def Let_def)
  have "map_option s_workflow_id (first_where ?hit (workflow_steps db)) = Some wid"
    using assms(1) by (simp add: mark_step_def Let_def)
  then obtain s where f: "first_where ?hit (workflow_steps db) = Some s" and wid: "wid = s_workflow_id s"
    by auto
  from find_SomeD [OF f] wid
  have s: "s \<in> set (workflow_steps db)" "s_job_id s = job" "s_status s = Dispatched" "wid = s_workflow_id s"
    by simp_all
  then show "\<exists>s\<in>set (workflow_steps db). s_job_id s = job \<and> s_workflow_id s = wid \<and> s_status s = Dispatched"
    by blast
  show "wid \<in> w_id ` set (workflows db)" using assms(2) s by (auto simp: keys_inv_def)
  show "only_touches wid db db'"
    unfolding db'
  proof (rule only_touches_steps)
    fix r assume r: "r \<in> set (workflow_steps db)" "?hit r"
    then have "r = s" using keys_job_workflow [OF assms(2) s(1) r(1)] s(2) by simp
    then show "s_workflow_id r = wid" using s(4) by simp
  qed simp
qed

text \<open>A transaction on one workflow that has no start under way leaves the tasks in order.\<close>

lemma tasks_inv_touch:
  assumes "tasks_inv db ts" and "only_touches wid db db'" and "Run_Start wid \<notin> set ts"
  shows "tasks_inv db' ts"
proof -
  have "queued i db'" if "Run_Start i \<in> set ts" for i
  proof -
    have "i \<noteq> wid" using that assms(3) by blast
    moreover have "queued i db" using that assms(1) by (simp add: tasks_inv_def)
    ultimately show ?thesis using queued_touches [OF assms(2)] by blast
  qed
  with assms(1,2) show ?thesis by (simp add: tasks_inv_def only_touches_def)
qed

lemma tasks_inv_remove: "tasks_inv db ts \<Longrightarrow> tasks_inv db (remove1 t ts)"
  using set_remove1_subset [of t ts] by (auto simp: tasks_inv_def filter_remove1 distinct_remove1)

lemma tasks_inv_advance:
  "tasks_inv db ts \<Longrightarrow> Run_Start wid \<notin> set ts \<Longrightarrow> wid \<in> w_id ` set (workflows db) \<Longrightarrow>
     tasks_inv db (Do_Advance wid # ts)"
  by (auto simp: tasks_inv_def)

lemma tasks_inv_ids:
  assumes "tasks_inv db ts" and "\<And>i. queued i db \<Longrightarrow> queued i db'"
    and "w_id ` set (workflows db) \<subseteq> w_id ` set (workflows db')"
  shows "tasks_inv db' ts"
  using assms by (auto simp: tasks_inv_def)

lemma tasks_inv_create:
  assumes "tasks_inv db ts" and "create wid goal inputs ps tid pid db = Inr db'" and "keys_inv db"
  shows "tasks_inv db' (Run_Start wid # ts)"
proof -
  from create_InrD [OF assms(2,3)] obtain w new
    where db': "db' = db\<lparr>workflows := workflows db @ [w], workflow_steps := workflow_steps db @ new\<rparr>"
      and w: "w_id w = wid" "w_status w = WQueued" "wid \<notin> w_id ` set (workflows db)"
      and new: "\<forall>s\<in>set new. untouched wid s" by blast
  have old: "s_workflow_id s \<noteq> wid" if "s \<in> set (workflow_steps db)" for s
    using assms(3) that w(3) by (auto simp: keys_inv_def)
  have fresh: "Run_Start wid \<notin> set ts" "Do_Advance wid \<notin> set ts"
    using assms(1) w(3) by (auto simp: tasks_inv_def queued_def)
  have "queued wid db'"
    using w(1,2) new old by (auto simp: queued_def db' untouched_def)
  moreover have "tasks_inv db' ts"
    by (rule tasks_inv_ids [OF assms(1)]) (use new w(3) in \<open>auto simp: queued_def db' untouched_def\<close>)
  ultimately show ?thesis using fresh by (auto simp: tasks_inv_def)
qed

lemma tasks_inv_continue:
  assumes "tasks_inv db ts" and "Run_Start wid \<in> set ts"
  shows "tasks_inv (set_status wid WRunning None None [] db) (Do_Advance wid # remove1 (Run_Start wid) ts)"
proof -
  have "distinct (filter is_start ts)" using assms(1) by (simp add: tasks_inv_def)
  then have "Run_Start wid \<notin> set (filter is_start (remove1 (Run_Start wid) ts))"
    by (simp add: filter_remove1)
  then have gone: "Run_Start wid \<notin> set (remove1 (Run_Start wid) ts)" by simp
  note t = tasks_inv_touch [OF tasks_inv_remove [OF assms(1)] only_touches_set_status gone]
  have "wid \<in> w_id ` set (workflows (set_status wid WRunning None None [] db))"
    using assms only_touches_set_status [of wid db] by (auto simp: tasks_inv_def queued_def only_touches_def)
  with t gone show ?thesis by (intro tasks_inv_advance)
qed

lemma queued_running:
  assumes "db_inv db" and "queued wid db" and "w \<in> set (workflows db)" and "w_id w = wid"
  shows "\<not> terminal (w_status w)"
proof -
  from assms(2) obtain v where "v \<in> set (workflows db)" "w_id v = wid" "w_status v = WQueued"
    by (auto simp: queued_def)
  moreover from this assms have "w = v"
    using distinct_map_inj_on [of w_id "workflows db" w v] by (simp add: db_inv_def keys_inv_def)
  ultimately show ?thesis by simp
qed

theorem orch_inv_step:
  assumes "orch_step E lossy S S'" and "orch_inv S"
  shows "orch_inv S'"
  using assms
proof (induction rule: orch_step.induct)
  case (begin_start uuid4 goal inputs steps wid tid pid db db' ts)
  then show ?case
    using create_inv [OF begin_start(2)] tasks_inv_create [OF _ begin_start(2)] db_invD(1)
    by (simp add: orch_inv_def)
next
  case (continue_start wid ts db)
  then have k: "db_inv db" "tasks_inv db ts" "queued wid db"
    by (simp_all add: orch_inv_def tasks_inv_def)
  from run_inv [OF k(1) queued_running [OF k(1,3)]] tasks_inv_continue [OF k(2) continue_start(1)]
  show ?case by (simp add: orch_inv_def)
next
  case (complete_step st job res err db wid db' ts)
  then have k: "db_inv db" "tasks_inv db ts" by (simp_all add: orch_inv_def)
  note hit = mark_step_hit [OF complete_step(2) db_invD(1) [OF k(1)]]
  from hit(3) have "\<not> queued wid db" by (auto simp: queued_def)
  then have ns: "Run_Start wid \<notin> set ts" using k(2) by (auto simp: tasks_inv_def)
  have "tasks_inv db' (Do_Advance wid # ts)"
    using tasks_inv_touch [OF k(2) hit(1) ns] ns hit(1,2)
    by (intro tasks_inv_advance) (simp_all add: only_touches_def)
  with mark_step_inv [OF k(1) complete_step(2,1)] show ?case by (simp add: orch_inv_def)
next
  case (advance_ok wid ts eid db db')
  then have k: "db_inv db" "tasks_inv db ts" by (simp_all add: orch_inv_def)
  note adv = advance_inv [OF advance_ok(3) k(1) advance_ok(2)]
  have "Run_Start wid \<notin> set ts" using k(2) advance_ok(1) by (auto simp: tasks_inv_def)
  with tasks_inv_remove [OF tasks_inv_touch [OF k(2) adv(2)]] adv(1) show ?case
    by (simp add: orch_inv_def)
next
  case (lose db ts t)
  then show ?case using tasks_inv_remove by (simp add: orch_inv_def)
next
  case (summarise wid summary db b db' ts)
  note rows = save_summary_rows [OF summarise(1)]
  have "queued i db'" if "queued i db" for i
    using that rows(5) by (fastforce simp: queued_def rows(1))
  moreover have "w_id ` set (workflows db) = w_id ` set (workflows db')"
    using rows(3) by (metis list.set_map)
  ultimately show ?case
    using summarise save_summary_inv tasks_inv_ids [of db ts db'] by (simp add: orch_inv_def)
next
  case (relay_pass atts t batch db out res ob' ts)
  then show ?case
    using relay_pass_inv by (simp add: orch_inv_def tasks_inv_def queued_def)
next
  case (tick db ts t)
  then show ?case using tick_inv by (simp add: orch_inv_def tasks_inv_def queued_def)
qed

lemma orch_inv_init: "orch_init S \<Longrightarrow> orch_inv S"
  by (simp add: orch_init_def orch_inv_def tasks_inv_def db_inv_def keys_inv_def order_inv_def
      fatal_inv_def ended_inv_def request_inv_def announce_inv_def n_requests_def n_announced_def
      outbox_inv_empty) (simp add: empty_outbox_def)

interpretation orch: invariant_system orch_init "orch_step E lossy" orch_inv
  by unfold_locales (blast intro: orch_inv_init orch_inv_step)+

subsection \<open>Nothing is forgotten when nothing is lost\<close>

definition live :: "orch \<Rightarrow> bool" where
  "live S \<longleftrightarrow> (\<forall>wid\<in>w_id ` set (workflows (o_db S)).
     calm wid (o_db S) \<or> Run_Start wid \<in> set (o_tasks S) \<or> Do_Advance wid \<in> set (o_tasks S))"

lemma live_touch:
  assumes "live \<lparr>o_db = db, o_tasks = ts\<rparr>" and "only_touches wid db db'"
    and "\<And>i. i \<noteq> wid \<Longrightarrow> Run_Start i \<in> set ts \<or> Do_Advance i \<in> set ts \<Longrightarrow>
           Run_Start i \<in> set ts' \<or> Do_Advance i \<in> set ts'"
    and "calm wid db' \<or> Do_Advance wid \<in> set ts'"
  shows "live \<lparr>o_db = db', o_tasks = ts'\<rparr>"
  unfolding live_def
proof
  fix i assume "i \<in> w_id ` set (workflows (o_db \<lparr>o_db = db', o_tasks = ts'\<rparr>))"
  then have i: "i \<in> w_id ` set (workflows db)" using assms(2) by (simp add: only_touches_def)
  show "calm i (o_db \<lparr>o_db = db', o_tasks = ts'\<rparr>) \<or> Run_Start i \<in> set (o_tasks \<lparr>o_db = db', o_tasks = ts'\<rparr>) \<or>
        Do_Advance i \<in> set (o_tasks \<lparr>o_db = db', o_tasks = ts'\<rparr>)"
  proof (cases "i = wid")
    case True
    with assms(4) show ?thesis by auto
  next
    case False
    from assms(1) i have "calm i db \<or> Run_Start i \<in> set ts \<or> Do_Advance i \<in> set ts"
      by (auto simp: live_def)
    with assms(3) [OF False] calm_touches [OF assms(2) False] show ?thesis by auto
  qed
qed

lemma live_same:
  assumes "live \<lparr>o_db = db, o_tasks = ts\<rparr>" and "\<And>i. calm i db \<Longrightarrow> calm i db'"
    and "w_id ` set (workflows db') = w_id ` set (workflows db)"
  shows "live \<lparr>o_db = db', o_tasks = ts\<rparr>"
  using assms by (auto simp: live_def)

lemma live_create:
  assumes "live \<lparr>o_db = db, o_tasks = ts\<rparr>" and "create wid goal inputs ps tid pid db = Inr db'"
    and "keys_inv db"
  shows "live \<lparr>o_db = db', o_tasks = Run_Start wid # ts\<rparr>"
proof -
  from create_InrD [OF assms(2,3)] obtain w new
    where db': "db' = db\<lparr>workflows := workflows db @ [w], workflow_steps := workflow_steps db @ new\<rparr>"
      and w: "w_id w = wid" "wid \<notin> w_id ` set (workflows db)" by blast
  have "calm i db'" if "calm i db" "i \<noteq> wid" for i
    using that w by (auto simp: calm_def db')
  with assms(1) w show ?thesis by (fastforce simp: live_def db')
qed

lemma in_set_remove1_other: "x \<noteq> y \<Longrightarrow> x \<in> set (remove1 y xs) \<longleftrightarrow> x \<in> set xs"
  by (rule in_set_remove1)

lemma live_step:
  assumes "orch_step E False S S'" and "orch_inv S" and "live S"
  shows "live S'"
  using assms
proof (induction rule: orch_step.induct)
  case (begin_start uuid4 goal inputs steps wid tid pid db db' ts)
  then show ?case using live_create db_invD(1) by (simp add: orch_inv_def)
next
  case (continue_start wid ts db)
  show ?case
    by (rule live_touch [OF continue_start(3) only_touches_set_status]) (auto simp: in_set_remove1_other)
next
  case (complete_step st job res err db wid db' ts)
  then have "keys_inv db" by (simp add: orch_inv_def db_inv_def)
  note hit = mark_step_hit [OF complete_step(2) this]
  show ?case by (rule live_touch [OF complete_step(4) hit(1)]) auto
next
  case (advance_ok wid ts eid db db')
  then have k: "db_inv db" by (simp add: orch_inv_def)
  note adv = advance_inv [OF advance_ok(3) k advance_ok(2)]
  show ?case
    by (rule live_touch [OF advance_ok(5) adv(2)])
      (use advance_calm [OF advance_ok(3) db_invD(1) [OF k]] in \<open>auto simp: in_set_remove1_other\<close>)
next
  case (summarise wid summary db b db' ts)
  note rows = save_summary_rows [OF summarise(1)]
  show ?case
  proof (rule live_same [OF summarise(3)])
    show "calm i db'" if "calm i db" for i
      using that rows(4) unfolding calm_def rows(1) by metis
    show "w_id ` set (workflows db') = w_id ` set (workflows db)"
      using rows(3) by (metis list.set_map)
  qed
next
  case (relay_pass atts t batch db out res ob' ts)
  then show ?case by (simp add: live_def calm_def)
next
  case (tick db ts t)
  then show ?case by (simp add: live_def calm_def)
qed simp

interpretation orch_live: invariant_system orch_init "orch_step E False" "\<lambda>S. orch_inv S \<and> live S"
proof unfold_locales
  show "orch_inv S \<and> live S" if "orch_init S" for S
    using that orch_inv_init by (auto simp: live_def orch_init_def)
  show "orch_inv S' \<and> live S'" if "orch_step E False S S'" "orch_inv S \<and> live S" for S S'
    using that orch_inv_step live_step by blast
qed

subsection \<open>The handlers are runs of the machine\<close>

lemma mark_step_miss:
  assumes "mark_step job st res err db = (None, db')"
  shows "db' = db" and "\<And>s. s \<in> set (workflow_steps db) \<Longrightarrow> s_job_id s = job \<Longrightarrow> s_status s \<noteq> Dispatched"
proof -
  let ?hit = "\<lambda>r. s_job_id r = job \<and> s_status r = Dispatched"
  have "first_where ?hit (workflow_steps db) = None"
    using assms by (simp add: mark_step_def Let_def)
  then have no: "\<not> ?hit r" if "r \<in> set (workflow_steps db)" for r
    using that by (auto simp: find_None_iff_all)
  have "db' = db\<lparr>workflow_steps := update_where ?hit
      (\<lambda>r. r\<lparr>s_status := st, s_result := res, s_error := err\<rparr>) (workflow_steps db)\<rparr>"
    using assms by (simp add: mark_step_def Let_def)
  then show "db' = db" using no by (simp add: update_where_id)
  show "s_status s \<noteq> Dispatched" if "s \<in> set (workflow_steps db)" "s_job_id s = job" for s
    using no that by blast
qed

lemma completion_update_status:
  "completion_update ty payload = Inr (job, st, res, err) \<Longrightarrow> st = Completed \<or> st = Failed"
  by (auto simp: completion_update_def Let_def split: option.splits if_splits)

lemma on_completion_run:
  assumes "on_completion E ty payload eid db = (res, db')" and "fresh_event eid db"
    and "(\<exists>e. res = Inl e) \<Longrightarrow> lossy"
  shows "(orch_step E lossy)\<^sup>*\<^sup>* \<lparr>o_db = db, o_tasks = ts\<rparr> \<lparr>o_db = db', o_tasks = ts\<rparr>"
proof (cases "completion_update ty payload")
  case (Inl e)
  with assms(1) show ?thesis by (simp add: on_completion_def)
next
  case (Inr u)
  then obtain job st r err where u: "completion_update ty payload = Inr (job, st, r, err)"
    by (cases u) auto
  obtain hit db1 where m: "mark_step job st (Some r) err db = (hit, db1)" by fastforce
  show ?thesis
  proof (cases hit)
    case None
    with mark_step_miss(1) [of job st "Some r" err db db1] m assms(1) u show ?thesis
      by (simp add: on_completion_def)
  next
    case (Some wid)
    have one: "orch_step E lossy \<lparr>o_db = db, o_tasks = ts\<rparr> \<lparr>o_db = db1, o_tasks = Do_Advance wid # ts\<rparr>"
      using completion_update_status [OF u] m Some by (auto intro: orch_step.complete_step)
    have fresh: "fresh_event eid db1"
      using mark_step_frame [OF m] assms(2) by (simp add: fresh_event_def)
    have two: "orch_step E lossy \<lparr>o_db = db1, o_tasks = Do_Advance wid # ts\<rparr> \<lparr>o_db = db', o_tasks = ts\<rparr>"
    proof (cases "advance E wid eid db1")
      case (Inl e)
      with assms u m Some have "lossy" "db' = db1" by (auto simp: on_completion_def)
      then show ?thesis
        using orch_step.lose [of lossy E db1 "Do_Advance wid # ts" "Do_Advance wid"] by simp
    next
      case (Inr db2)
      with assms(1) u m Some have "db' = db2" by (auto simp: on_completion_def)
      then show ?thesis
        using orch_step.advance_ok [of wid "Do_Advance wid # ts" eid db1 E db2 lossy] fresh Inr by simp
    qed
    from one two show ?thesis by (meson rtranclp.rtrancl_into_rtrancl rtranclp.rtrancl_refl)
  qed
qed

lemma start_run:
  assumes "start E uuid4 wid goal inputs tid pid eid db = (res, db')" and "fresh_event eid db"
    and "(\<exists>e. res = Inl e) \<Longrightarrow> lossy"
  shows "(orch_step E lossy)\<^sup>*\<^sup>* \<lparr>o_db = db, o_tasks = ts\<rparr> \<lparr>o_db = db', o_tasks = ts\<rparr>"
proof (cases "bindE (plan (ee_runtime E) uuid4 goal inputs) (\<lambda>steps.
    create wid goal inputs (plan_rows steps) tid pid db)")
  case (Inl e)
  with assms(1) show ?thesis by (simp add: start_def)
next
  case (Inr db1)
  then obtain steps where p: "plan (ee_runtime E) uuid4 goal inputs = Inr steps"
    and c: "create wid goal inputs (plan_rows steps) tid pid db = Inr db1" by auto
  let ?db2 = "set_status wid WRunning None None [] db1"
  have one: "orch_step E lossy \<lparr>o_db = db, o_tasks = ts\<rparr> \<lparr>o_db = db1, o_tasks = Run_Start wid # ts\<rparr>"
    using p c by (rule orch_step.begin_start)
  have two: "orch_step E lossy \<lparr>o_db = db1, o_tasks = Run_Start wid # ts\<rparr>
      \<lparr>o_db = ?db2, o_tasks = Do_Advance wid # ts\<rparr>"
    using orch_step.continue_start [of wid "Run_Start wid # ts" E lossy db1] by simp
  have "w_outbox ?db2 = w_outbox db"
    using c by (auto simp: set_status_def create_def split: if_splits)
  then have fresh: "fresh_event eid ?db2" using assms(2) by (simp add: fresh_event_def)
  have three: "orch_step E lossy \<lparr>o_db = ?db2, o_tasks = Do_Advance wid # ts\<rparr> \<lparr>o_db = db', o_tasks = ts\<rparr>"
  proof (cases "advance E wid eid ?db2")
    case (Inl e)
    with assms Inr have "lossy" "db' = ?db2" by (auto simp: start_def Let_def)
    then show ?thesis
      using orch_step.lose [of lossy E ?db2 "Do_Advance wid # ts" "Do_Advance wid"] by simp
  next
    case adv: (Inr db3)
    with assms(1) Inr have "db' = db3" by (auto simp: start_def Let_def)
    then show ?thesis
      using orch_step.advance_ok [of wid "Do_Advance wid # ts" eid ?db2 E db3 lossy] fresh adv by simp
  qed
  from one two three show ?thesis by (meson rtranclp.rtrancl_into_rtrancl rtranclp.rtrancl_refl)
qed

end
