(* ===== verification/Orch_Stability.thy ===== *)
theory Orch_Stability
  imports Orch_System
begin

text \<open>
  What never changes again in the orchestrator: a settled step, a finished workflow, and a
  workflow whose last task was lost.
\<close>

subsection \<open>Settled steps\<close>

lemma update_where_keeps: "r \<in> set rs \<Longrightarrow> \<not> p r \<Longrightarrow> r \<in> set (update_where p f rs)"
  unfolding set_update_where by (rule image_eqI [of _ _ r]) simp_all

lemma move_keeps_settled:
  assumes "move E wid eid db db'" and "s \<in> set (workflow_steps db)" and "settled (s_status s)"
  shows "s \<in> set (workflow_steps db')"
  using assms
  by cases (auto simp: skip_step_def send_step_def mark_dispatched_def settled_def
      dest!: finish_InrD intro!: update_where_keeps)

lemma moves_keep_settled:
  "(move E wid eid)\<^sup>*\<^sup>* db db' \<Longrightarrow> s \<in> set (workflow_steps db) \<Longrightarrow> settled (s_status s) \<Longrightarrow>
     s \<in> set (workflow_steps db')"
  by (induction rule: rtranclp_induct) (auto intro: move_keeps_settled)

lemma mark_step_keeps_settled:
  "mark_step job st res err db = (r, db') \<Longrightarrow> s \<in> set (workflow_steps db) \<Longrightarrow> settled (s_status s) \<Longrightarrow>
     s \<in> set (workflow_steps db')"
  by (auto simp: mark_step_def Let_def settled_def intro!: update_where_keeps)

lemma create_keeps_steps:
  assumes "create wid goal inputs ps tid pid db = Inr db'" and "keys_inv db" and "s \<in> set (workflow_steps db)"
  shows "s \<in> set (workflow_steps db')"
  using create_InrD [OF assms(1,2)] assms(3) by auto

lemma settled_kept:
  assumes "orch_step E lossy S S'" and "orch_inv S"
    and "s \<in> set (workflow_steps (o_db S))" and "settled (s_status s)"
  shows "s \<in> set (workflow_steps (o_db S'))"
  using assms
proof (induction rule: orch_step.induct)
  case (begin_start uuid4 goal inputs steps wid tid pid db db' ts)
  then show ?case using create_keeps_steps by (simp add: orch_inv_def db_inv_def)
next
  case (advance_ok wid ts eid db db')
  then show ?case using moves_keep_settled [OF advance_moves [OF advance_ok(3)]] by simp
next
  case (complete_step st job res err db wid db' ts)
  then show ?case using mark_step_keeps_settled [OF complete_step(2)] by simp
next
  case (summarise wid summary db b db' ts)
  then show ?case using save_summary_rows(1) by simp
qed simp_all

subsection \<open>Finished workflows\<close>

definition ended :: "string \<Rightarrow> wf_status \<Rightarrow> orch \<Rightarrow> bool" where
  "ended wid st S \<longleftrightarrow> (\<exists>w\<in>set (workflows (o_db S)). w_id w = wid \<and> w_status w = st)"

lemma ended_touch:
  assumes "only_touches wid' db db'" and "wid \<noteq> wid'" and "ended wid st \<lparr>o_db = db, o_tasks = ts\<rparr>"
  shows "ended wid st \<lparr>o_db = db', o_tasks = ts'\<rparr>"
  using assms only_touchesD(1) [OF assms(1,2)] by (auto simp: ended_def)

lemma moves_terminal:
  assumes "(move E wid eid)\<^sup>*\<^sup>* db db'" and "db_inv db"
    and "w \<in> set (workflows db)" and "w_id w = wid" and "terminal (w_status w)"
  shows "db' = db"
proof -
  have "calm wid db"
    using assms(2-5) distinct_map_inj_on [of w_id "workflows db"]
    by (auto simp: calm_def db_inv_def keys_inv_def)
  then have "\<not> move E wid eid db db1" for db1
    using calm_no_move assms(2) by blast
  with assms(1) show ?thesis by (metis converse_rtranclpE)
qed

lemma ended_kept:
  assumes "orch_step E lossy S S'" and "orch_inv S" and "ended wid st S" and "terminal st"
  shows "ended wid st S'"
  using assms
proof (induction rule: orch_step.induct)
  case (begin_start uuid4 goal inputs steps wid' tid pid db db' ts)
  then have "keys_inv db" by (simp add: orch_inv_def db_inv_def)
  from create_InrD [OF begin_start(2) this] begin_start(4) show ?case by (auto simp: ended_def)
next
  case (continue_start wid' ts db)
  then have k: "db_inv db" "queued wid' db" by (simp_all add: orch_inv_def tasks_inv_def)
  have "wid \<noteq> wid'"
    using continue_start(3,4) queued_running [OF k] by (auto simp: ended_def)
  from ended_touch [OF only_touches_set_status this continue_start(3)] show ?case .
next
  case (complete_step st' job res err db wid' db' ts)
  then show ?case using mark_step_frame [OF complete_step(2)] by (simp add: ended_def)
next
  case (advance_ok wid' ts eid db db')
  then have k: "db_inv db" by (simp add: orch_inv_def)
  show ?case
  proof (cases "wid = wid'")
    case True
    from advance_ok(5) obtain w where w: "w \<in> set (workflows db)" "w_id w = wid" "w_status w = st"
      by (auto simp: ended_def)
    then have "db' = db"
      using moves_terminal [OF advance_moves [OF advance_ok(3)] k] True advance_ok(6) by simp
    with w show ?thesis by (auto simp: ended_def)
  next
    case False
    from ended_touch [OF advance_inv(2) [OF advance_ok(3) k advance_ok(2)] False advance_ok(5)]
    show ?thesis .
  qed
next
  case (summarise wid' summary db b db' ts)
  then obtain w where "w \<in> set (workflows db)" "w_id w = wid" "w_status w = st"
    by (auto simp: ended_def)
  with save_summary_rows(5) [OF summarise(1), of w] show ?case by (auto simp: ended_def)
qed (simp_all add: ended_def)

subsection \<open>Stranded workflows\<close>

text \<open>Not finished, waiting for nothing, and no process remembers it.\<close>

definition stranded :: "string \<Rightarrow> orch \<Rightarrow> bool" where
  "stranded wid S \<longleftrightarrow>
     wid \<in> w_id ` set (workflows (o_db S)) \<and> \<not> calm wid (o_db S) \<and>
     Run_Start wid \<notin> set (o_tasks S) \<and> Do_Advance wid \<notin> set (o_tasks S)"

lemma stranded_touch:
  assumes "only_touches wid' db db'" and "wid \<noteq> wid'" and "stranded wid \<lparr>o_db = db, o_tasks = ts\<rparr>"
    and "set ts' \<subseteq> set ts \<union> {Run_Start wid', Do_Advance wid'}"
  shows "stranded wid \<lparr>o_db = db', o_tasks = ts'\<rparr>"
  using assms calm_touches [OF assms(1,2)] by (auto simp: stranded_def only_touches_def)

lemma stranded_kept:
  assumes "orch_step E lossy S S'" and "orch_inv S" and "stranded wid S"
  shows "stranded wid S'"
  using assms
proof (induction rule: orch_step.induct)
  case (begin_start uuid4 goal inputs steps wid' tid pid db db' ts)
  then have k: "keys_inv db" by (simp add: orch_inv_def db_inv_def)
  from create_InrD [OF begin_start(2) k] obtain w new
    where db': "db' = db\<lparr>workflows := workflows db @ [w], workflow_steps := workflow_steps db @ new\<rparr>"
      and w: "w_id w = wid'" "wid' \<notin> w_id ` set (workflows db)" and new: "\<forall>s\<in>set new. untouched wid' s"
    by blast
  from w(2) begin_start(4) have "wid \<noteq> wid'" unfolding stranded_def by fastforce
  with begin_start(4) new w show ?case by (auto simp: stranded_def calm_def db' untouched_def)
next
  case (continue_start wid' ts db)
  then have "wid \<noteq> wid'" by (auto simp: stranded_def)
  have "set (Do_Advance wid' # remove1 (Run_Start wid') ts) \<subseteq> set ts \<union> {Run_Start wid', Do_Advance wid'}"
    using set_remove1_subset [of "Run_Start wid'" ts] by auto
  from stranded_touch [OF only_touches_set_status \<open>wid \<noteq> wid'\<close> continue_start(3) this] show ?case .
next
  case (complete_step st job res err db wid' db' ts)
  then have "keys_inv db" by (simp add: orch_inv_def db_inv_def)
  note hit = mark_step_hit [OF complete_step(2) this]
  have "wid \<noteq> wid'" using hit(3) complete_step(4) by (auto simp: stranded_def calm_def)
  show ?case by (rule stranded_touch [OF hit(1) \<open>wid \<noteq> wid'\<close> complete_step(4)]) auto
next
  case (advance_ok wid' ts eid db db')
  then have k: "db_inv db" by (simp add: orch_inv_def)
  have "wid \<noteq> wid'" using advance_ok(1,5) by (auto simp: stranded_def)
  show ?case
    by (rule stranded_touch [OF advance_inv(2) [OF advance_ok(3) k advance_ok(2)] \<open>wid \<noteq> wid'\<close> advance_ok(5)])
      (use set_remove1_subset [of _ ts] in blast)
next
  case (lose db ts t)
  then show ?case using set_remove1_subset [of t ts] by (auto simp: stranded_def)
next
  case (summarise wid' summary db b db' ts)
  note rows = save_summary_rows [OF summarise(1)]
  have "w_id ` set (workflows db') = w_id ` set (workflows db)" using rows(3) by (metis list.set_map)
  moreover have "\<not> calm wid db'" using summarise(3) rows(1,5) unfolding stranded_def calm_def
    by simp metis
  ultimately show ?case using summarise(3) by (simp add: stranded_def)
qed (simp_all add: stranded_def calm_def)

end
