(* ===== verification/Orch_Properties.thy ===== *)
theory Orch_Properties
  imports Orch_Stability
begin

section \<open>A scenario\<close>

text \<open>
  A small site on which the theorems are exercised: a runtime, contracts that accept every
  payload that has its required keys, an empty database, and the states its first audit runs
  through. Nothing here models code; the witnesses evaluate the model on it.
\<close>

definition demo_runtime :: runtime where
  "demo_runtime = \<lparr>casefold = lower, repr_other = (\<lambda>_. ''?''), isoformat = show_int\<rparr>"

definition demo_env :: engine_env where
  "demo_env = \<lparr>ee_contracts = \<lparr>schemas = (\<lambda>_. Some []), jsonschema = None\<rparr>,
     ee_runtime = demo_runtime, ee_read_float = (\<lambda>_. None), ee_deterministic = (\<lambda>_. Inr [])\<rparr>"

definition demo_db :: wdb where
  "demo_db = \<lparr>workflows = [], workflow_steps = [], w_outbox = empty_outbox,
     known_tenants = [], known_projects = [], now = 0\<rparr>"

definition demo_inputs :: dict where
  "demo_inputs = [(''start_url'', JStr ''https://a.com'')]"

definition demo_uuid :: "nat \<Rightarrow> string" where
  "demo_uuid i = CHR ''j'' # show_nat i"

definition demo_started :: wdb where
  "demo_started = snd (start demo_env demo_uuid ''w'' ''site_audit'' demo_inputs None None ''e0'' demo_db)"

definition demo_crawled :: dict where
  "demo_crawled = [(''crawl_id'', JStr ''j0''), (''start_url'', JStr ''https://a.com''),
     (''status'', JStr ''completed'')]"

definition demo_second :: wdb where
  "demo_second = snd (on_completion demo_env ''crawl.completed'' demo_crawled ''e1'' demo_started)"

text \<open>The crawl failed, so the audit is over.\<close>

definition demo_failed :: wdb where
  "demo_failed = snd (on_completion demo_env ''crawl.completed''
     [(''crawl_id'', JStr ''j0''), (''status'', JStr ''failed''), (''error'', JStr ''timeout'')] ''e1'' demo_started)"

definition demo_first :: step_row where
  "demo_first = \<lparr>s_workflow_id = ''w'', s_position = 1, s_kind = Crawl, s_job_id = ''j0'',
     s_status = Dispatched, s_error = None, s_result = None,
     s_params = [(''start_url'', JStr ''https://a.com'')]\<rparr>"

definition idle_orch :: "wdb \<Rightarrow> orch" where
  "idle_orch db = \<lparr>o_db = db, o_tasks = []\<rparr>"

definition orch_reachable :: "engine_env \<Rightarrow> bool \<Rightarrow> orch \<Rightarrow> bool" where
  "orch_reachable E lossy S \<longleftrightarrow> (\<exists>S0. orch_init S0 \<and> (orch_step E lossy)\<^sup>*\<^sup>* S0 S)"

lemma orch_reachable_inv: "orch_reachable E lossy S \<Longrightarrow> orch_inv S"
  unfolding orch_reachable_def using orch.inv_reachable by blast

lemma orch_reachable_live: "orch_reachable E False S \<Longrightarrow> live S"
  unfolding orch_reachable_def using orch_live.inv_reachable by blast

lemma orch_reachable_steps:
  "orch_reachable E lossy S \<Longrightarrow> (orch_step E lossy)\<^sup>*\<^sup>* S S' \<Longrightarrow> orch_reachable E lossy S'"
  unfolding orch_reachable_def by (meson rtranclp_trans)

lemma demo_init: "orch_init (idle_orch demo_db)"
  by (simp add: orch_init_def idle_orch_def demo_db_def)

lemma demo_start_ok:
  "(case start demo_env demo_uuid ''w'' ''site_audit'' demo_inputs None None ''e0'' demo_db of
      (Inr _, _) \<Rightarrow> True | _ \<Rightarrow> False)"
  by code_simp

lemma demo_started_reachable: "orch_reachable demo_env lossy (idle_orch demo_started)"
proof -
  obtain r where s: "start demo_env demo_uuid ''w'' ''site_audit'' demo_inputs None None ''e0'' demo_db =
      (Inr r, demo_started)"
    using demo_start_ok by (auto simp: demo_started_def split: prod.splits sum.splits)
  have "fresh_event ''e0'' demo_db" by (simp add: fresh_event_def demo_db_def empty_outbox_def)
  from start_run [OF s this, of lossy "[]"] demo_init show ?thesis
    by (auto simp: orch_reachable_def idle_orch_def)
qed

lemma demo_second_ok:
  "(case on_completion demo_env ''crawl.completed'' demo_crawled ''e1'' demo_started of
      (Inr _, _) \<Rightarrow> True | _ \<Rightarrow> False)"
  by code_simp

lemma demo_fresh: "fresh_event ''e1'' demo_started"
  unfolding fresh_event_def by code_simp

lemma demo_second_reachable: "orch_reachable demo_env lossy (idle_orch demo_second)"
proof -
  obtain r where s: "on_completion demo_env ''crawl.completed'' demo_crawled ''e1'' demo_started =
      (Inr r, demo_second)"
    using demo_second_ok by (auto simp: demo_second_def split: prod.splits sum.splits)
  from on_completion_run [OF s demo_fresh, of lossy "[]"] demo_started_reachable show ?thesis
    by (auto simp: idle_orch_def intro: orch_reachable_steps)
qed

lemma demo_failed_ok:
  "(case on_completion demo_env ''crawl.completed''
     [(''crawl_id'', JStr ''j0''), (''status'', JStr ''failed''), (''error'', JStr ''timeout'')] ''e1'' demo_started of
      (Inr _, _) \<Rightarrow> True | _ \<Rightarrow> False)"
  by code_simp

lemma demo_failed_reachable: "orch_reachable demo_env lossy (idle_orch demo_failed)"
proof -
  obtain r where s: "on_completion demo_env ''crawl.completed''
     [(''crawl_id'', JStr ''j0''), (''status'', JStr ''failed''), (''error'', JStr ''timeout'')] ''e1''
      demo_started = (Inr r, demo_failed)"
    using demo_failed_ok by (auto simp: demo_failed_def split: prod.splits sum.splits)
  from on_completion_run [OF s demo_fresh, of lossy "[]"] demo_started_reachable show ?thesis
    by (auto simp: idle_orch_def intro: orch_reachable_steps)
qed

section \<open>Properties of the reachable states\<close>

text \<open>
  The properties of the orchestrator, over every state that any number of instances can reach
  together, crashes included, and of its two handlers.
\<close>

lemma mark_step_none:
  assumes "\<And>s. s \<in> set (workflow_steps db) \<Longrightarrow> s_job_id s = job \<Longrightarrow> s_status s \<noteq> Dispatched"
  shows "mark_step job st res err db = (None, db)"
proof -
  let ?hit = "\<lambda>r. s_job_id r = job \<and> s_status r = Dispatched"
  have no: "\<not> ?hit r" if "r \<in> set (workflow_steps db)" for r using assms that by blast
  then have "first_where ?hit (workflow_steps db) = None" by (simp add: find_None_iff_all)
  with no show ?thesis by (simp add: mark_step_def Let_def update_where_id)
qed

lemma mark_step_settles:
  assumes "mark_step job st res err db = (Some wid, db')" and "settled st" and "keys_inv db"
  shows "\<exists>s\<in>set (workflow_steps db'). s_job_id s = job \<and> settled (s_status s)"
proof -
  from mark_step_hit(3) [OF assms(1,3)] obtain s
    where s: "s \<in> set (workflow_steps db)" "s_job_id s = job" "s_status s = Dispatched" by blast
  let ?hit = "\<lambda>r. s_job_id r = job \<and> s_status r = Dispatched"
  let ?f = "\<lambda>r. r\<lparr>s_status := st, s_result := res, s_error := err\<rparr>"
  have "workflow_steps db' = update_where ?hit ?f (workflow_steps db)"
    using assms(1) by (auto simp: mark_step_def Let_def)
  then have "(if ?hit s then ?f s else s) \<in> set (workflow_steps db')"
    unfolding set_update_where [of ?hit ?f, symmetric] using s(1) by (simp add: set_update_where)
  with s assms(2) show ?thesis by (intro bexI [of _ "?f s"]) simp_all
qed

lemma completed_settled [simp]: "settled Completed" "settled Failed" "settled Skipped"
  "\<not> settled Pending" "\<not> settled Dispatched"
  by (simp_all add: settled_def)

text \<open>After a completion has been handled no step waits for its job.\<close>

lemma handled_job_not_waiting:
  assumes "db_inv db" and "fresh_event eid db"
    and u: "completion_update ty payload = Inr (job, st, r, err)"
    and oc: "on_completion E ty payload eid db = (res, db')"
    and s: "s \<in> set (workflow_steps db')" "s_job_id s = job"
  shows "s_status s \<noteq> Dispatched"
proof -
  have st: "st = Completed \<or> st = Failed" using completion_update_status [OF u] .
  obtain hit db1 where m: "mark_step job st (Some r) err db = (hit, db1)" by fastforce
  show ?thesis
  proof (cases hit)
    case None
    with m mark_step_miss [of job st "Some r" err db db1] oc u s show ?thesis
      by (simp add: on_completion_def)
  next
    case (Some wid)
    have inv1: "db_inv db1" using mark_step_inv [OF assms(1) m st] .
    from mark_step_settles [OF m [unfolded Some] _ db_invD(1) [OF assms(1)]] st
    obtain t where t: "t \<in> set (workflow_steps db1)" "s_job_id t = job" "settled (s_status t)" by auto
    have "db_inv db' \<and> t \<in> set (workflow_steps db')"
    proof (cases "advance E wid eid db1")
      case (Inl e)
      with oc u m Some have "db' = db1" by (auto simp: on_completion_def)
      with inv1 t show ?thesis by simp
    next
      case (Inr db2)
      with oc u m Some have db': "db' = db2" by (auto simp: on_completion_def)
      have "fresh_event eid db1" using mark_step_frame [OF m] assms(2) by (simp add: fresh_event_def)
      from advance_inv(1) [OF Inr inv1 this] moves_keep_settled [OF advance_moves [OF Inr] t(1,3)]
      show ?thesis by (simp add: db')
    qed
    then have "s = t" using keys_job_workflow [of db' t s] s t(2) db_invD(1) by simp
    with t(3) show ?thesis by auto
  qed
qed

text \<open>C1: in every reachable state of the orchestrator, crashes and interleaved instances included, a
  workflow has at most one step dispatched at a time.\<close>

theorem one_step_at_a_time:
  assumes "orch_reachable E lossy S"
    and "s \<in> set (workflow_steps (o_db S))" and "t \<in> set (workflow_steps (o_db S))"
    and "s_workflow_id s = s_workflow_id t"
    and "s_status s = Dispatched" and "s_status t = Dispatched"
  shows "s = t"
proof -
  from orch_reachable_inv [OF assms(1)] have "db_inv (o_db S)" by (simp add: orch_inv_def)
  from only_dispatched [OF this assms(2-6)] show ?thesis .
qed

theorem one_step_at_a_time_witness:
  "hd (workflow_steps demo_started) = demo_first \<and> s_status demo_first = Dispatched"
proof -
  have m: "demo_first \<in> set (workflow_steps (o_db (idle_orch demo_started)))" by code_simp
  have h: "hd (workflow_steps demo_started) \<in> set (workflow_steps (o_db (idle_orch demo_started)))"
    by code_simp
  have "s_workflow_id (hd (workflow_steps demo_started)) = s_workflow_id demo_first"
    "s_status (hd (workflow_steps demo_started)) = Dispatched" "s_status demo_first = Dispatched"
    by code_simp+
  from one_step_at_a_time [OF demo_started_reachable h m this] show ?thesis
    by (simp add: demo_first_def)
qed



text \<open>C10: steps run in the order of the plan: when a step has left the pending state, every earlier
  step of its workflow has been completed, has failed or was skipped.\<close>

theorem steps_run_in_order:
  assumes "orch_reachable E lossy S"
    and "s \<in> set (workflow_steps (o_db S))" and "t \<in> set (workflow_steps (o_db S))"
    and "s_workflow_id s = s_workflow_id t" and "s_position s < s_position t"
    and "s_status t \<noteq> Pending"
  shows "s_status s \<in> {Completed, Failed, Skipped}"
proof -
  from orch_reachable_inv [OF assms(1)] have "order_inv (workflow_steps (o_db S))"
    by (simp add: orch_inv_def db_inv_def)
  from order_invD [OF this assms(2-5)] assms(6) show ?thesis by (auto simp: settled_def)
qed

theorem steps_run_in_order_witness:
  "s_status (workflow_steps demo_second ! 0) \<in> {Completed, Failed, Skipped} \<and>
   s_status (workflow_steps demo_second ! 1) = Dispatched"
proof -
  have m: "workflow_steps demo_second ! 0 \<in> set (workflow_steps (o_db (idle_orch demo_second)))"
    "workflow_steps demo_second ! 1 \<in> set (workflow_steps (o_db (idle_orch demo_second)))"
    "s_workflow_id (workflow_steps demo_second ! 0) = s_workflow_id (workflow_steps demo_second ! 1)"
    "s_position (workflow_steps demo_second ! 0) < s_position (workflow_steps demo_second ! 1)"
    "s_status (workflow_steps demo_second ! 1) \<noteq> Pending"
    "s_status (workflow_steps demo_second ! 1) = Dispatched"
    by code_simp+
  from steps_run_in_order [OF demo_second_reachable m(1-5)] m(6) show ?thesis by simp
qed

text \<open>C9: a finished workflow has its report and waits for no step; one that finished as completed
  has every step completed, skipped, or failed in the one kind of step that is allowed to fail.\<close>

theorem finished_workflow_settled:
  assumes "orch_reachable E lossy S" and "w \<in> set (workflows (o_db S))"
    and "s \<in> set (workflow_steps (o_db S))" and "s_workflow_id s = w_id w"
    and "terminal (w_status w)"
  shows "w_report w \<noteq> None \<and> s_status s \<noteq> Dispatched \<and>
         (w_status w = WCompleted \<longrightarrow>
            s_status s = Completed \<or> s_status s = Skipped \<or>
            s_status s = Failed \<and> s_kind s = Competitor_Crawl)"
proof -
  from orch_reachable_inv [OF assms(1)] assms(2)
  have "ended_ok (workflow_steps (o_db S)) w" by (simp add: orch_inv_def db_inv_def ended_inv_def)
  with assms(3-5) show ?thesis
    by (auto simp: ended_ok_def settled_def fatal_def OPTIONAL_KINDS_def)
qed

theorem finished_workflow_settled_witness:
  "w_status (hd (workflows demo_failed)) = WFailed \<and> w_report (hd (workflows demo_failed)) \<noteq> None"
proof -
  have m: "hd (workflows demo_failed) \<in> set (workflows (o_db (idle_orch demo_failed)))"
    "hd (workflow_steps demo_failed) \<in> set (workflow_steps (o_db (idle_orch demo_failed)))"
    "s_workflow_id (hd (workflow_steps demo_failed)) = w_id (hd (workflows demo_failed))"
    "terminal (w_status (hd (workflows demo_failed)))"
    "w_status (hd (workflows demo_failed)) = WFailed"
    by code_simp+
  from finished_workflow_settled [OF demo_failed_reachable m(1-4)] m(5) show ?thesis by simp
qed

text \<open>C12: the completion of a workflow is announced at most once, and never while it still runs.\<close>

theorem announced_at_most_once:
  assumes "orch_reachable E lossy S"
  shows "n_announced wid (o_db S) \<le> 1 \<and>
         (n_announced wid (o_db S) = 1 \<longrightarrow>
            (\<exists>w\<in>set (workflows (o_db S)). w_id w = wid \<and> terminal (w_status w)))"
  using orch_reachable_inv [OF assms] by (auto simp: orch_inv_def db_inv_def announce_inv_def)

theorem announced_at_most_once_witness:
  "n_announced ''w'' demo_failed = 1 \<and> (\<exists>w\<in>set (workflows demo_failed). w_id w = ''w'' \<and> terminal (w_status w))"
proof -
  have "n_announced ''w'' demo_failed = 1" by code_simp
  with announced_at_most_once [OF demo_failed_reachable, of "''w''"] show ?thesis
    by (simp add: idle_orch_def)
qed

text \<open>C11: a finished workflow stays as it finished, whatever any instance does afterwards: late or
  repeated events, further audits, crashes, summaries.\<close>

theorem finished_is_final:
  assumes "orch_reachable E lossy S" and "(orch_step E lossy)\<^sup>*\<^sup>* S S'"
    and "w \<in> set (workflows (o_db S))" and "terminal (w_status w)"
  shows "\<exists>w'\<in>set (workflows (o_db S')). w_id w' = w_id w \<and> w_status w' = w_status w"
proof -
  have "ended (w_id w) (w_status w) S" using assms(3) by (auto simp: ended_def)
  then have "ended (w_id w) (w_status w) S'"
    using orch.stable_steps [where P = "ended (w_id w) (w_status w)", OF _ assms(2) orch_reachable_inv [OF assms(1)]]
      ended_kept assms(4) by blast
  then show ?thesis by (auto simp: ended_def)
qed

theorem finished_is_final_witness:
  "\<exists>w'\<in>set (workflows (demo_failed\<lparr>now := 5\<rparr>)). w_id w' = ''w'' \<and> w_status w' = WFailed"
proof -
  have m: "hd (workflows demo_failed) \<in> set (workflows (o_db (idle_orch demo_failed)))"
    "terminal (w_status (hd (workflows demo_failed)))"
    "w_id (hd (workflows demo_failed)) = ''w''" "w_status (hd (workflows demo_failed)) = WFailed"
    by code_simp+
  have "(orch_step demo_env True)\<^sup>*\<^sup>* (idle_orch demo_failed) \<lparr>o_db = demo_failed\<lparr>now := 5\<rparr>, o_tasks = []\<rparr>"
    unfolding idle_orch_def by (rule r_into_rtranclp) (rule orch_step.tick)
  from finished_is_final [OF demo_failed_reachable this m(1,2)] m(3,4) show ?thesis by simp
qed

text \<open>A step that has been completed, has failed or was skipped keeps its row, result and error
  included, for ever.\<close>

lemma settled_step_is_final:
  assumes "orch_reachable E lossy S" and "(orch_step E lossy)\<^sup>*\<^sup>* S S'"
    and "s \<in> set (workflow_steps (o_db S))" and "s_status s \<in> {Completed, Failed, Skipped}"
  shows "s \<in> set (workflow_steps (o_db S'))"
  using orch.stable_steps [where P = "\<lambda>S. s \<in> set (workflow_steps (o_db S))", OF _ assms(2)
      orch_reachable_inv [OF assms(1)] assms(3)] settled_kept assms(4)
  unfolding settled_def by blast

section \<open>Properties of the handlers\<close>

text \<open>
  The handlers \<^verbatim>\<open>start\<close> and \<^verbatim>\<open>on_completion\<close>, and what the orchestrator promises and does not promise
  about making progress.
\<close>

text \<open>C3: when no task is lost, no workflow is forgotten: in every reachable state in which no
  handler is half way through, a workflow that is not finished waits for exactly one dispatched
  step, whose completion moves it on.\<close>

theorem no_workflow_forgotten:
  assumes "orch_reachable E False S" and "o_tasks S = []"
    and "w \<in> set (workflows (o_db S))" and "\<not> terminal (w_status w)"
  shows "\<exists>!s. s \<in> set (workflow_steps (o_db S)) \<and> s_workflow_id s = w_id w \<and> s_status s = Dispatched"
proof -
  have inv: "db_inv (o_db S)" using orch_reachable_inv [OF assms(1)] by (simp add: orch_inv_def)
  have "calm (w_id w) (o_db S)"
    using orch_reachable_live [OF assms(1)] assms(2,3) by (auto simp: live_def)
  with assms(3,4) obtain s where s: "s \<in> set (workflow_steps (o_db S))" "s_workflow_id s = w_id w"
    "s_status s = Dispatched" by (auto simp: calm_def)
  with only_dispatched [OF inv] show ?thesis by (intro ex1I [of _ s]) auto
qed

theorem no_workflow_forgotten_witness:
  "\<exists>!s. s \<in> set (workflow_steps demo_started) \<and> s_workflow_id s = ''w'' \<and> s_status s = Dispatched"
proof -
  have m: "hd (workflows demo_started) \<in> set (workflows (o_db (idle_orch demo_started)))"
    "\<not> terminal (w_status (hd (workflows demo_started)))" "w_id (hd (workflows demo_started)) = ''w''"
    by code_simp+
  have "o_tasks (idle_orch demo_started) = []" by (simp add: idle_orch_def)
  from no_workflow_forgotten [OF demo_started_reachable this m(1,2)] m(3) show ?thesis
    by (simp add: idle_orch_def)
qed

text \<open>Whatever \<^verbatim>\<open>advance\<close> does with a workflow (send the next step, skip a step that has no work,
  finish), it leaves the workflow finished or waiting for a dispatched step, never in between, and
  it changes no other workflow and none of the other workflows' steps.\<close>

lemma advance_never_stops_half_way:
  assumes "orch_reachable E lossy S" and "fresh_event eid (o_db S)"
    and "advance E wid eid (o_db S) = Inr db'"
    and "w \<in> set (workflows db')" and "w_id w = wid"
  shows "(terminal (w_status w) \<or>
          (\<exists>s\<in>set (workflow_steps db'). s_workflow_id s = wid \<and> s_status s = Dispatched)) \<and>
         {v \<in> set (workflows db'). w_id v \<noteq> wid} = {v \<in> set (workflows (o_db S)). w_id v \<noteq> wid} \<and>
         {s \<in> set (workflow_steps db'). s_workflow_id s \<noteq> wid} =
           {s \<in> set (workflow_steps (o_db S)). s_workflow_id s \<noteq> wid}"
proof -
  have inv: "db_inv (o_db S)" using orch_reachable_inv [OF assms(1)] by (simp add: orch_inv_def)
  from advance_calm [OF assms(3) db_invD(1) [OF inv]] assms(4,5) advance_inv(2) [OF assms(3) inv assms(2)]
  show ?thesis by (auto simp: calm_def only_touches_def)
qed

lemma demo_advance_again: "advance demo_env ''w'' ''e1'' (o_db (idle_orch demo_started)) = Inr demo_started"
  by code_simp

text \<open>The handlers are runs of the state machine. From a reachable state, \<^verbatim>\<open>on_completion\<close> of any
  event ends in a reachable state, also when it raises, and when it returns the run needs no loss;
  so does \<^verbatim>\<open>start\<close>. Every property of the reachable states therefore holds after every call.\<close>

lemma handlers_refine_machine:
  assumes "orch_reachable E lossy \<lparr>o_db = db, o_tasks = ts\<rparr>" and "fresh_event eid db"
    and "on_completion E ty payload eid db = (res, db')"
    and "start E uuid4 wid goal inputs tid pid eid db = (res', db'')"
  shows "(lossy \<or> (\<exists>r. res = Inr r) \<longrightarrow> orch_reachable E lossy \<lparr>o_db = db', o_tasks = ts\<rparr>) \<and>
         (lossy \<or> (\<exists>r. res' = Inr r) \<longrightarrow> orch_reachable E lossy \<lparr>o_db = db'', o_tasks = ts\<rparr>)"
  using orch_reachable_steps [OF assms(1) on_completion_run [OF assms(3,2)]]
    orch_reachable_steps [OF assms(1) start_run [OF assms(4,2)]] by auto

lemma demo_raises_nothing:
  "on_completion demo_env ''crawl.completed'' [] ''e1'' demo_started =
     (Inl (ValueError ''crawl.completed carries no crawl_id''), demo_started)"
  by (simp add: on_completion_def completion_update_def COMPLETIONS_def)

lemma demo_unknown_goal:
  "start demo_env demo_uuid ''w'' ''?'' [] None None ''e1'' demo_started =
     (Inl (UnknownGoal ''?''), demo_started)"
  by (simp add: start_def plan_def)

text \<open>A completion event that is delivered again is ignored: once an event has been handled, with
  or without an exception, every further delivery of it returns nothing and changes nothing.\<close>

lemma redelivered_completion_ignored:
  assumes "orch_reachable E lossy \<lparr>o_db = db, o_tasks = ts\<rparr>" and "fresh_event eid db"
    and "completion_update ty payload = Inr u"
    and "on_completion E ty payload eid db = (res, db')"
  shows "on_completion E ty payload eid' db' = (Inr None, db')"
proof -
  obtain job st r err where u: "completion_update ty payload = Inr (job, st, r, err)"
    using assms(3) by (cases u) auto
  have "db_inv db" using orch_reachable_inv [OF assms(1)] by (simp add: orch_inv_def)
  from handled_job_not_waiting [OF this assms(2) u assms(4)]
  have "mark_step job st (Some r) err db' = (None, db')" by (rule mark_step_none)
  with u show ?thesis by (simp add: on_completion_def)
qed

text \<open>An event whose job no workflow waits for (an on-demand crawl, a job of another orchestrator,
  a step that was already settled) is ignored and changes nothing.\<close>

lemma unrelated_completion_ignored:
  assumes "completion_update ty payload = Inr (job, st, result, err)"
    and "\<And>s. s \<in> set (workflow_steps db) \<Longrightarrow> s_job_id s = job \<Longrightarrow> s_status s \<noteq> Dispatched"
  shows "on_completion E ty payload eid db = (Inr None, db)"
  using assms mark_step_none [of db job st "Some result" err] by (simp add: on_completion_def)

text \<open>A handler is several transactions, and what lies between them is kept in memory only. A
  workflow whose advance was lost (the process died, or \<^verbatim>\<open>advance\<close> raised, after the step was
  marked) is never finished: no event, restart or other workflow moves it again.\<close>

lemma lost_advance_strands_workflow:
  assumes "orch_reachable E lossy S" and "(orch_step E lossy)\<^sup>*\<^sup>* S S'"
    and "w \<in> set (workflows (o_db S))" and "\<not> terminal (w_status w)"
    and "\<And>s. s \<in> set (workflow_steps (o_db S)) \<Longrightarrow> s_workflow_id s = w_id w \<Longrightarrow> s_status s \<noteq> Dispatched"
    and "o_tasks S = []"
  shows "\<exists>w'\<in>set (workflows (o_db S')). w_id w' = w_id w \<and> \<not> terminal (w_status w')"
proof -
  have "stranded (w_id w) S" using assms(3-6) by (auto simp: stranded_def calm_def)
  then have "stranded (w_id w) S'"
    using orch.stable_steps [where P = "stranded (w_id w)", OF _ assms(2) orch_reachable_inv [OF assms(1)]]
      stranded_kept by blast
  then show ?thesis by (auto simp: stranded_def calm_def)
qed

definition demo_lost :: wdb where
  "demo_lost = snd (mark_step ''j0'' Completed (Some []) None demo_started)"

lemma demo_lost_reachable: "orch_reachable demo_env True (idle_orch demo_lost)"
proof -
  have "fst (mark_step ''j0'' Completed (Some []) None demo_started) = Some ''w''" by code_simp
  then have m: "mark_step ''j0'' Completed (Some []) None demo_started = (Some ''w'', demo_lost)"
    by (simp add: demo_lost_def prod_eq_iff)
  have "orch_step demo_env True (idle_orch demo_started) \<lparr>o_db = demo_lost, o_tasks = [Do_Advance ''w'']\<rparr>"
    unfolding idle_orch_def by (rule orch_step.complete_step [OF _ m]) simp
  moreover have "orch_step demo_env True \<lparr>o_db = demo_lost, o_tasks = [Do_Advance ''w'']\<rparr> (idle_orch demo_lost)"
    using orch_step.lose [of True demo_env demo_lost "[Do_Advance ''w'']" "Do_Advance ''w''"]
    by (simp add: idle_orch_def)
  ultimately show ?thesis
    using orch_reachable_steps [OF demo_started_reachable] by (meson rtranclp.simps)
qed

end
