(* ===== verification/Job_Store.thy ===== *)
theory Job_Store
  imports Outbox "HOL-Library.List_Lexorder" "HOL-Library.Char_ord"
begin

text \<open>
  The job stores every service uses: \<^verbatim>\<open>src/shared/store.py\<close> (files, with a cache in memory) and
  \<^verbatim>\<open>src/shared/db.py\<close> (Postgres, with the outbox), and the interface they share. A service's record class
  differs from \<^verbatim>\<open>JobRecord\<close> only in the names of its views; the stores treat all alike.
\<close>

subsection \<open>Records\<close>

datatype job_status = J_Queued | J_Running | J_Completed | J_Failed

fun job_status_name :: "job_status \<Rightarrow> string" where
  "job_status_name J_Queued = ''queued''"
| "job_status_name J_Running = ''running''"
| "job_status_name J_Completed = ''completed''"
| "job_status_name J_Failed = ''failed''"

record job_record =
  j_id :: string
  j_subject :: string
  j_status :: job_status
  j_created_at :: string
  j_updated_at :: string
  j_error :: "string option"
  j_result :: "dict option"
  j_tenant_id :: "string option"
  j_project_id :: "string option"

definition job_summary :: "job_record \<Rightarrow> dict" where
  "job_summary r =
     [(''job_id'', JStr (j_id r)), (''subject'', JStr (j_subject r)),
      (''status'', JStr (job_status_name (j_status r))), (''created_at'', JStr (j_created_at r)),
      (''updated_at'', JStr (j_updated_at r)), (''error'', opt_json (j_error r))]"

fun opt_dict :: "dict option \<Rightarrow> json" where
  "opt_dict None = JNull"
| "opt_dict (Some d) = JObj d"

definition job_to_dict :: "job_record \<Rightarrow> dict" where
  "job_to_dict r = job_summary r @ [(''result'', opt_dict (j_result r))]"

text \<open>\<^verbatim>\<open>asdict\<close>: every field, in the order of the class.\<close>

definition to_storage :: "job_record \<Rightarrow> dict" where
  "to_storage r =
     [(''job_id'', JStr (j_id r)), (''subject'', JStr (j_subject r)),
      (''status'', JStr (job_status_name (j_status r))), (''created_at'', JStr (j_created_at r)),
      (''updated_at'', JStr (j_updated_at r)), (''error'', opt_json (j_error r)),
      (''result'', opt_dict (j_result r)), (''tenant_id'', opt_json (j_tenant_id r)),
      (''project_id'', opt_json (j_project_id r))]"

text \<open>
  \<^verbatim>\<open>from_dict\<close>: unknown keys are dropped, missing ones take the class's default (the present moment
  for the two times), \<^verbatim>\<open>job_id\<close> and \<^verbatim>\<open>subject\<close> have none. The Python class does not check the types
  of its fields; a file the store wrote has them right, and another one reads as unreadable here.
\<close>

definition read_status :: "json \<Rightarrow> job_status py" where
  "read_status j =
     (case first_where (\<lambda>st. JStr (job_status_name st) = j) [J_Queued, J_Running, J_Completed, J_Failed] of
        None \<Rightarrow> Inl TypeError | Some st \<Rightarrow> Inr st)"

fun read_opt_text :: "json \<Rightarrow> string option py" where
  "read_opt_text JNull = Inr None"
| "read_opt_text (JStr s) = Inr (Some s)"
| "read_opt_text _ = Inl TypeError"

fun read_text :: "json \<Rightarrow> string py" where
  "read_text (JStr s) = Inr s"
| "read_text _ = Inl TypeError"

fun read_opt_dict :: "json \<Rightarrow> dict option py" where
  "read_opt_dict JNull = Inr None"
| "read_opt_dict (JObj d) = Inr (Some d)"
| "read_opt_dict _ = Inl TypeError"

definition from_dict :: "string \<Rightarrow> dict \<Rightarrow> job_record py" where
  "from_dict present raw =
     bindE (ditem raw ''job_id'') (\<lambda>i. bindE (read_text i) (\<lambda>id.
     bindE (ditem raw ''subject'') (\<lambda>s. bindE (read_text s) (\<lambda>subject.
     bindE (read_status (dget_default raw ''status'' (JStr ''queued''))) (\<lambda>status.
     bindE (read_text (dget_default raw ''created_at'' (JStr present))) (\<lambda>created.
     bindE (read_text (dget_default raw ''updated_at'' (JStr present))) (\<lambda>updated.
     bindE (read_opt_text (dget raw ''error'')) (\<lambda>error.
     bindE (read_opt_dict (dget raw ''result'')) (\<lambda>result.
     bindE (read_opt_text (dget raw ''tenant_id'')) (\<lambda>tenant.
     bindE (read_opt_text (dget raw ''project_id'')) (\<lambda>project.
       Inr \<lparr>j_id = id, j_subject = subject, j_status = status, j_created_at = created,
            j_updated_at = updated, j_error = error, j_result = result,
            j_tenant_id = tenant, j_project_id = project\<rparr>)))))))))))"

definition owned :: "job_record option \<Rightarrow> string option \<Rightarrow> job_record option" where
  "owned r tenant_id =
     (case (r, tenant_id) of
        (None, _) \<Rightarrow> None
      | (_, None) \<Rightarrow> r
      | (Some rec, Some t) \<Rightarrow> if j_tenant_id rec = Some t then r else None)"

subsection \<open>Changes\<close>

text \<open>The keyword arguments of \<^verbatim>\<open>update\<close>: fields of the record, or a name the record does not have.\<close>

datatype job_change =
    Set_Status job_status
  | Set_Error "string option"
  | Set_Result "dict option"
  | Set_Subject string
  | Set_Unknown string

fun apply_change :: "job_change \<Rightarrow> job_record \<Rightarrow> job_record" where
  "apply_change (Set_Status st) r = r\<lparr>j_status := st\<rparr>"
| "apply_change (Set_Error e) r = r\<lparr>j_error := e\<rparr>"
| "apply_change (Set_Result d) r = r\<lparr>j_result := d\<rparr>"
| "apply_change (Set_Subject s) r = r\<lparr>j_subject := s\<rparr>"
| "apply_change (Set_Unknown _) r = r"

definition apply_changes :: "job_change list \<Rightarrow> job_record \<Rightarrow> job_record" where
  "apply_changes cs r = foldl (\<lambda>r c. apply_change c r) r cs"

definition running_changes :: "job_change list" where
  "running_changes = [Set_Status J_Running]"

definition complete_changes :: "dict \<Rightarrow> job_change list" where
  "complete_changes result = [Set_Status J_Completed, Set_Result (Some result), Set_Error None]"

definition fail_changes :: "string \<Rightarrow> job_change list" where
  "fail_changes error = [Set_Status J_Failed, Set_Error (Some error)]"

subsection \<open>The file store\<close>

text \<open>
  One process's store: its memory, the directory (file name to decoded contents, most recently
  written first), whether the directory could be made, and the present moment. Writing to disk
  succeeds or, on \<^verbatim>\<open>OSError\<close>, leaves the old file in place; \<open>disk_ok\<close> says which.
\<close>

record file_store =
  fs_memory :: "(string \<times> job_record) list"
  fs_disk :: "(string \<times> dict) list"
  fs_writable :: bool
  fs_disk_ok :: bool
  fs_now :: string

text \<open>\<^verbatim>\<open>dict[key] = value\<close> keeps the place of a key; a rewritten file becomes the newest.\<close>

fun assoc_set :: "'k \<Rightarrow> 'v \<Rightarrow> ('k \<times> 'v) list \<Rightarrow> ('k \<times> 'v) list" where
  "assoc_set k v [] = [(k, v)]"
| "assoc_set k v ((k', v') # m) = (if k = k' then (k, v) # m else (k', v') # assoc_set k v m)"

lemma assoc_set_keys:
  "map fst (assoc_set k v d) = (if k \<in> fst ` set d then map fst d else map fst d @ [k])"
  by (induction k v d rule: assoc_set.induct) auto

lemma assoc_set_entries: "e \<in> set (assoc_set k v d) \<Longrightarrow> e = (k, v) \<or> e \<in> set d"
  by (induction k v d rule: assoc_set.induct) (auto split: if_splits)

definition newest_set :: "string \<Rightarrow> dict \<Rightarrow> (string \<times> dict) list \<Rightarrow> (string \<times> dict) list" where
  "newest_set k v m = (k, v) # filter (\<lambda>e. fst e \<noteq> k) m"

definition file_write :: "job_record \<Rightarrow> file_store \<Rightarrow> file_store" where
  "file_write r s =
     (if fs_writable s \<and> fs_disk_ok s then s\<lparr>fs_disk := newest_set (j_id r) (to_storage r) (fs_disk s)\<rparr>
      else s)"

definition file_read :: "string \<Rightarrow> file_store \<Rightarrow> job_record option" where
  "file_read job s =
     (case map_of (fs_disk s) job of
        None \<Rightarrow> None
      | Some raw \<Rightarrow> (case from_dict (fs_now s) raw of Inl _ \<Rightarrow> None | Inr r \<Rightarrow> Some r))"

definition remember :: "job_record \<Rightarrow> string \<Rightarrow> file_store \<Rightarrow> file_store" where
  "remember r job s = s\<lparr>fs_memory := assoc_set job r (fs_memory s)\<rparr>"

definition new_record :: "string \<Rightarrow> string \<Rightarrow> string \<Rightarrow> string option \<Rightarrow> string option \<Rightarrow> job_record" where
  "new_record present job subject tenant_id project_id =
     \<lparr>j_id = job, j_subject = subject, j_status = J_Queued, j_created_at = present,
      j_updated_at = present, j_error = None, j_result = None,
      j_tenant_id = tenant_id, j_project_id = project_id\<rparr>"

definition file_create ::
  "string \<Rightarrow> string \<Rightarrow> string option \<Rightarrow> string option \<Rightarrow> file_store \<Rightarrow> job_record py \<times> file_store" where
  "file_create job subject tenant_id project_id s =
     (let r = new_record (fs_now s) job subject tenant_id project_id
      in (Inr r, file_write r (remember r job s)))"

definition file_get :: "string \<Rightarrow> string option \<Rightarrow> file_store \<Rightarrow> job_record option \<times> file_store" where
  "file_get job tenant_id s =
     (case map_of (fs_memory s) job of
        Some r \<Rightarrow> (owned (Some r) tenant_id, s)
      | None \<Rightarrow>
          (case file_read job s of
             None \<Rightarrow> (None, s)
           | Some r \<Rightarrow> (owned (Some r) tenant_id, remember r job s)))"

text \<open>The record is one object, so setting its attributes also changes the copy in memory.\<close>

definition file_update ::
  "string \<Rightarrow> job_change list \<Rightarrow> pending_event list \<Rightarrow> file_store \<Rightarrow> job_record py \<times> file_store" where
  "file_update job changes events s =
     (case file_get job None s of
        (None, s') \<Rightarrow> (Inl (KeyError job), s')
      | (Some r, s') \<Rightarrow>
          (let r' = (apply_changes changes r)\<lparr>j_updated_at := fs_now s'\<rparr>
           in (Inr r', file_write r' (remember r' job s'))))"

text \<open>A sort by time, newest first, that keeps the order of equals, as \<^verbatim>\<open>sorted(..., reverse=True)\<close> does.\<close>

definition newest_first :: "('a \<Rightarrow> 'k::linorder) \<Rightarrow> 'a list \<Rightarrow> 'a list" where
  "newest_first key xs = rev (sort_key key (rev xs))"

definition file_recent :: "nat \<Rightarrow> string option \<Rightarrow> file_store \<Rightarrow> job_record list" where
  "file_recent limit tenant_id s =
     (let found =
        (if \<not> fs_writable s then map Some (newest_first j_created_at (map snd (fs_memory s)))
         else map (\<lambda>e. file_read (fst e) s)
                (take (if tenant_id \<noteq> None \<and> tenant_id \<noteq> Some [] then limit * 20 else limit) (fs_disk s)))
      in take limit (List.map_filter (\<lambda>r. owned r tenant_id) found))"

definition file_count :: "file_store \<Rightarrow> nat" where
  "file_count s = (if fs_writable s then length (fs_disk s) else length (fs_memory s))"

subsection \<open>The Postgres store\<close>

record pg_row =
  p_id :: string
  p_tenant_id :: "string option"
  p_project_id :: "string option"
  p_subject :: string
  p_status :: job_status
  p_error :: "string option"
  p_result :: "dict option"
  p_created_at :: int
  p_updated_at :: int

record pg_store =
  pg_rows :: "pg_row list"
  pg_outbox :: outbox
  pg_tenants :: "string list"
  pg_projects :: "string list"
  pg_now :: int

text \<open>\<^verbatim>\<open>str(tenant_id) if tenant_id else None\<close>.\<close>

definition present_text :: "string option \<Rightarrow> string option" where
  "present_text x = (if x = Some [] then None else x)"

definition row_to_record :: "(int \<Rightarrow> string) \<Rightarrow> pg_row \<Rightarrow> job_record" where
  "row_to_record isof row =
     \<lparr>j_id = p_id row, j_subject = p_subject row, j_status = p_status row,
      j_created_at = isof (p_created_at row), j_updated_at = isof (p_updated_at row),
      j_error = p_error row, j_result = p_result row,
      j_tenant_id = present_text (p_tenant_id row), j_project_id = present_text (p_project_id row)\<rparr>"

definition pg_find :: "string \<Rightarrow> pg_store \<Rightarrow> pg_row option" where
  "pg_find job s = first_where (\<lambda>row. p_id row = job) (pg_rows s)"

text \<open>\<^verbatim>\<open>ON CONFLICT (id) DO NOTHING\<close>: an existing row stays as it is and no key is checked.\<close>

definition pg_create ::
  "(int \<Rightarrow> string) \<Rightarrow> string \<Rightarrow> string \<Rightarrow> string option \<Rightarrow> string option \<Rightarrow> pg_store \<Rightarrow>
     job_record py \<times> pg_store" where
  "pg_create isof job subject tenant_id project_id s =
     (let r = new_record (isof (pg_now s)) job subject tenant_id project_id in
      if pg_find job s \<noteq> None then (Inr r, s)
      else if set_option tenant_id \<subseteq> set (pg_tenants s) \<and> set_option project_id \<subseteq> set (pg_projects s)
      then (Inr r, s\<lparr>pg_rows := pg_rows s @
             [\<lparr>p_id = job, p_tenant_id = tenant_id, p_project_id = project_id, p_subject = subject,
               p_status = J_Queued, p_error = None, p_result = None,
               p_created_at = pg_now s, p_updated_at = pg_now s\<rparr>]\<rparr>)
      else (Inl (UnknownTenant ''unknown tenant_id or project_id''), s))"

definition pg_get ::
  "(int \<Rightarrow> string) \<Rightarrow> string \<Rightarrow> string option \<Rightarrow> pg_store \<Rightarrow> job_record option \<times> pg_store" where
  "pg_get isof job tenant_id s =
     (map_option (row_to_record isof)
        (first_where (\<lambda>row. p_id row = job \<and> (tenant_id = None \<or> p_tenant_id row = tenant_id)) (pg_rows s)), s)"

fun row_change :: "job_change \<Rightarrow> pg_row \<Rightarrow> pg_row" where
  "row_change (Set_Status st) row = row\<lparr>p_status := st\<rparr>"
| "row_change (Set_Error e) row = row\<lparr>p_error := e\<rparr>"
| "row_change (Set_Result d) row = row\<lparr>p_result := d\<rparr>"
| "row_change (Set_Subject s) row = row\<lparr>p_subject := s\<rparr>"
| "row_change (Set_Unknown _) row = row"

definition row_changes :: "job_change list \<Rightarrow> pg_row \<Rightarrow> pg_row" where
  "row_changes cs row = foldl (\<lambda>r c. row_change c r) row cs"

fun unknown_field :: "job_change \<Rightarrow> string option" where
  "unknown_field (Set_Unknown f) = Some f"
| "unknown_field _ = None"

text \<open>One transaction: the row and the events it stages, or nothing.\<close>

definition pg_write ::
  "(int \<Rightarrow> string) \<Rightarrow> string \<Rightarrow> job_change list \<Rightarrow> pending_event list \<Rightarrow> pg_store \<Rightarrow>
     job_record py \<times> pg_store" where
  "pg_write isof job changes events s =
     (case List.map_filter unknown_field changes of
        f # _ \<Rightarrow> (Inl (KeyError (''unknown field '' @ f)), s)
      | [] \<Rightarrow>
          (case pg_find job s of
             None \<Rightarrow> (Inl (KeyError job), s)
           | Some row \<Rightarrow>
               (let row' = (row_changes changes row)\<lparr>p_updated_at := pg_now s\<rparr>;
                    r = row_to_record isof row'
                in (Inr r,
                    s\<lparr>pg_rows := update_where (\<lambda>x. p_id x = job) (\<lambda>_. row') (pg_rows s),
                      pg_outbox := stage_all events
                        \<lparr>sj_job_id = j_id r, sj_tenant_id = j_tenant_id r, sj_project_id = j_project_id r\<rparr>
                        (pg_outbox s)\<rparr>))))"

definition pg_recent :: "(int \<Rightarrow> string) \<Rightarrow> nat \<Rightarrow> string option \<Rightarrow> pg_store \<Rightarrow> job_record list" where
  "pg_recent isof limit tenant_id s =
     map (row_to_record isof)
       (take limit (newest_first p_created_at
          (filter (\<lambda>row. tenant_id = None \<or> p_tenant_id row = tenant_id) (pg_rows s))))"

definition pg_count :: "pg_store \<Rightarrow> nat" where
  "pg_count s = length (pg_rows s)"

text \<open>\<^verbatim>\<open>store_for\<close>: Postgres when an address is configured and the server answers, files otherwise.\<close>

definition store_for :: "string \<Rightarrow> pg_store option \<Rightarrow> file_store \<Rightarrow> file_store + pg_store" where
  "store_for dsn server files =
     (if dsn = [] then Inl files else (case server of None \<Rightarrow> Inl files | Some pg \<Rightarrow> Inr pg))"

subsection \<open>The interface\<close>

definition known_changes :: "job_change list \<Rightarrow> bool" where
  "known_changes cs \<longleftrightarrow> List.map_filter unknown_field cs = []"

lemma known_changes_simps [simp]:
  "known_changes running_changes" "known_changes (complete_changes d)" "known_changes (fail_changes e)"
  by (simp_all add: known_changes_def running_changes_def complete_changes_def fail_changes_def
      List.map_filter_def)

locale job_store =
  fixes create :: "string \<Rightarrow> string \<Rightarrow> string option \<Rightarrow> string option \<Rightarrow> 's \<Rightarrow> job_record py \<times> 's"
    and get :: "string \<Rightarrow> string option \<Rightarrow> 's \<Rightarrow> job_record option \<times> 's"
    and update :: "string \<Rightarrow> job_change list \<Rightarrow> pending_event list \<Rightarrow> 's \<Rightarrow> job_record py \<times> 's"
    and view :: "'s \<Rightarrow> string \<Rightarrow> job_record option"
    and inv :: "'s \<Rightarrow> bool"
    and present :: "'s \<Rightarrow> string"
  assumes get_view: "inv s \<Longrightarrow> fst (get j t s) = owned (view s j) t"
    and get_frame: "inv s \<Longrightarrow> view (snd (get j t s)) = view s \<and> inv (snd (get j t s))"
    and create_new: "inv s \<Longrightarrow> view s j = None \<Longrightarrow> create j subject t p s = (Inr r, s') \<Longrightarrow>
          r = new_record (present s) j subject t p \<and> view s' = (view s)(j \<mapsto> r) \<and> inv s'"
    and create_raises: "inv s \<Longrightarrow> create j subject t p s = (Inl e, s') \<Longrightarrow> s' = s"
    and update_known: "inv s \<Longrightarrow> view s j = Some r \<Longrightarrow> known_changes cs \<Longrightarrow> update j cs evs s = (res, s') \<Longrightarrow>
          res = Inr ((apply_changes cs r)\<lparr>j_updated_at := present s\<rparr>) \<and>
          view s' = (view s)(j \<mapsto> (apply_changes cs r)\<lparr>j_updated_at := present s\<rparr>) \<and> inv s'"
    and update_unknown: "inv s \<Longrightarrow> view s j = None \<Longrightarrow> known_changes cs \<Longrightarrow> update j cs evs s = (res, s') \<Longrightarrow>
          res = Inl (KeyError j) \<and> view s' = view s \<and> inv s'"
begin

text \<open>A tenant sees its own records and no others.\<close>

lemma get_tenant:
  assumes "inv s" and "fst (get j (Some t) s) = Some r"
  shows "j_tenant_id r = Some t \<and> view s j = Some r"
  using assms get_view [of s j "Some t"] by (auto simp: owned_def split: option.splits if_splits)

lemma get_anyone: "inv s \<Longrightarrow> fst (get j None s) = view s j"
  by (simp add: get_view owned_def split: option.splits)

text \<open>A job that was created, run and completed answers with its result.\<close>

lemma life_of_a_job:
  assumes "inv s" and "view s j = None" and "create j subject t p s = (Inr r, s1)"
    and "update j running_changes [] s1 = (r2, s2)"
    and "update j (complete_changes result) evs s2 = (r3, s3)"
  shows "\<exists>rec. r3 = Inr rec \<and> fst (get j None s3) = Some rec \<and> j_status rec = J_Completed \<and>
           j_result rec = Some result \<and> j_error rec = None \<and> j_subject rec = subject \<and>
           j_tenant_id rec = t \<and> j_project_id rec = p"
proof -
  from create_new [OF assms(1-3)] have s1: "view s1 j = Some (new_record (present s) j subject t p)" "inv s1"
    by auto
  from update_known [OF s1(2,1) known_changes_simps(1) assms(4)] obtain r'
    where s2: "view s2 j = Some r'" "inv s2"
      and r': "r' = (apply_changes running_changes (new_record (present s) j subject t p))\<lparr>j_updated_at := present s1\<rparr>"
    by auto
  from update_known [OF s2(2,1) known_changes_simps(2) assms(5)] get_anyone [of s3 j] show ?thesis
    by (auto simp: r' apply_changes_def running_changes_def complete_changes_def new_record_def)
qed

end

subsection \<open>The file store provides it\<close>

definition file_view :: "file_store \<Rightarrow> string \<Rightarrow> job_record option" where
  "file_view s job = (case map_of (fs_memory s) job of Some r \<Rightarrow> Some r | None \<Rightarrow> file_read job s)"

text \<open>Every record, in memory and on disk, is filed under its own identifier.\<close>

definition file_inv :: "file_store \<Rightarrow> bool" where
  "file_inv s \<longleftrightarrow>
     (\<forall>j r. map_of (fs_memory s) j = Some r \<longrightarrow> j_id r = j) \<and>
     (\<forall>j raw r t. map_of (fs_disk s) j = Some raw \<longrightarrow> from_dict t raw = Inr r \<longrightarrow> j_id r = j)"

lemma map_of_assoc_set [simp]: "map_of (assoc_set k v m) = (map_of m)(k \<mapsto> v)"
  by (induction k v m rule: assoc_set.induct) (auto simp: fun_eq_iff)

lemma map_of_filter_key: "map_of (filter (\<lambda>e. fst e \<noteq> k) m) x = (if x = k then None else map_of m x)"
  by (induction m) auto

lemma map_of_newest_set [simp]: "map_of (newest_set k v m) = (map_of m)(k \<mapsto> v)"
  by (simp add: newest_set_def map_of_filter_key fun_eq_iff)

lemma read_status_name [simp]: "read_status (JStr (job_status_name st)) = Inr st"
  by (cases st) (simp_all add: read_status_def)

lemma read_opt_roundtrip [simp]: "read_opt_text (opt_json x) = Inr x" "read_opt_dict (opt_dict d) = Inr d"
  by (cases x; simp) (cases d; simp)

lemma from_dict_to_storage: "from_dict t (to_storage r) = Inr r"
  by (simp add: from_dict_def to_storage_def ditem_def dget_default_def)

lemma file_read_write:
  "file_read j (file_write r (remember r' k s)) =
     (if fs_writable s \<and> fs_disk_ok s \<and> j = j_id r then Some r else file_read j s)"
  by (simp add: file_read_def file_write_def remember_def from_dict_to_storage cong: option.case_cong)

lemma file_store_frame [simp]:
  "fs_memory (file_write r s) = fs_memory s" "fs_now (file_write r s) = fs_now s"
  "fs_memory (remember r j s) = assoc_set j r (fs_memory s)" "fs_now (remember r j s) = fs_now s"
  "fs_disk (remember r j s) = fs_disk s" "file_read i (remember r j s) = file_read i s"
  by (simp_all add: file_write_def remember_def file_read_def cong: option.case_cong)

lemma file_store_put:
  assumes "file_inv s" and "j_id r = j"
  shows "file_view (file_write r (remember r j s)) = (file_view s)(j \<mapsto> r)"
    and "file_inv (file_write r (remember r j s))"
proof -
  show "file_view (file_write r (remember r j s)) = (file_view s)(j \<mapsto> r)"
    using assms(2) by (auto simp: file_view_def file_read_write fun_eq_iff split: option.splits)
  have "fs_disk (file_write r (remember r j s)) =
      (if fs_writable s \<and> fs_disk_ok s then newest_set j (to_storage r) (fs_disk s) else fs_disk s)"
    using assms(2) by (simp add: file_write_def remember_def)
  then show "file_inv (file_write r (remember r j s))"
    using assms by (auto simp: file_inv_def from_dict_to_storage split: if_splits)
qed

lemma file_read_id:
  assumes "file_inv s" and "file_read j s = Some r"
  shows "j_id r = j"
proof -
  from assms(2) obtain raw where "map_of (fs_disk s) j = Some raw" "from_dict (fs_now s) raw = Inr r"
    by (auto simp: file_read_def split: option.splits sum.splits)
  with assms(1) show ?thesis unfolding file_inv_def by blast
qed

lemma file_view_id:
  assumes "file_inv s" and "file_view s j = Some r"
  shows "j_id r = j"
proof (cases "map_of (fs_memory s) j")
  case None
  with assms file_read_id show ?thesis by (simp add: file_view_def)
next
  case (Some r')
  with assms show ?thesis by (simp add: file_view_def file_inv_def)
qed

lemma file_get_keeps:
  assumes "file_inv s"
  shows "file_view (snd (file_get j t s)) = file_view s" "file_inv (snd (file_get j t s))"
    "fs_now (snd (file_get j t s)) = fs_now s"
proof -
  have "file_view (remember r j s) = file_view s" if "map_of (fs_memory s) j = None" "file_read j s = Some r" for r
    using that by (auto simp: file_view_def fun_eq_iff split: option.splits)
  moreover have "file_inv (remember r j s)" if "file_read j s = Some r" for r
    using assms file_read_id [OF assms that] by (simp add: file_inv_def)
  ultimately show "file_view (snd (file_get j t s)) = file_view s" "file_inv (snd (file_get j t s))"
    "fs_now (snd (file_get j t s)) = fs_now s"
    using assms by (auto simp: file_get_def split: option.splits)
qed

lemma file_get_value: "fst (file_get j t s) = owned (file_view s j) t"
  by (auto simp: file_get_def file_view_def owned_def split: option.splits)

lemma apply_changes_id [simp]: "j_id (apply_changes cs r) = j_id r"
proof -
  have "j_id (apply_change c r) = j_id r" for c r by (cases c) simp_all
  then show ?thesis
    unfolding apply_changes_def by (induction cs arbitrary: r) simp_all
qed

lemma file_update_cases:
  assumes "file_inv s" and "file_update j cs evs s = (res, s')"
  shows "file_view s j = None \<Longrightarrow> res = Inl (KeyError j) \<and> file_view s' = file_view s \<and> file_inv s'"
    and "file_view s j = Some r \<Longrightarrow>
      res = Inr ((apply_changes cs r)\<lparr>j_updated_at := fs_now s\<rparr>) \<and>
      file_view s' = (file_view s)(j \<mapsto> (apply_changes cs r)\<lparr>j_updated_at := fs_now s\<rparr>) \<and> file_inv s'"
proof -
  obtain g s1 where g: "file_get j None s = (g, s1)" by fastforce
  have v: "g = file_view s j" using file_get_value [of j None s] g
    by (simp add: owned_def split: option.splits)
  note keep = file_get_keeps [OF assms(1), of j None, unfolded g snd_conv]
  show "res = Inl (KeyError j) \<and> file_view s' = file_view s \<and> file_inv s'" if "file_view s j = None"
    using assms(2) g v that keep by (simp add: file_update_def)
  show "res = Inr ((apply_changes cs r)\<lparr>j_updated_at := fs_now s\<rparr>) \<and>
      file_view s' = (file_view s)(j \<mapsto> (apply_changes cs r)\<lparr>j_updated_at := fs_now s\<rparr>) \<and> file_inv s'"
    if r: "file_view s j = Some r"
  proof -
    have id: "j_id ((apply_changes cs r)\<lparr>j_updated_at := fs_now s\<rparr>) = j"
      using file_view_id [OF assms(1) r] by simp
    from assms(2) g v r keep(3)
    have "res = Inr ((apply_changes cs r)\<lparr>j_updated_at := fs_now s\<rparr>)"
      and s': "s' = file_write ((apply_changes cs r)\<lparr>j_updated_at := fs_now s\<rparr>)
             (remember ((apply_changes cs r)\<lparr>j_updated_at := fs_now s\<rparr>) j s1)"
      by (simp_all add: file_update_def Let_def)
    with file_store_put [OF keep(2) id] keep(1) show ?thesis by simp
  qed
qed

interpretation files: job_store file_create file_get file_update file_view file_inv fs_now
proof unfold_locales
  fix s :: file_store and j t assume inv: "file_inv s"
  show "fst (file_get j t s) = owned (file_view s j) t" by (rule file_get_value)
  show "file_view (snd (file_get j t s)) = file_view s \<and> file_inv (snd (file_get j t s))"
    using file_get_keeps [OF inv] by simp
  show "r = new_record (fs_now s) j subject t p \<and> file_view s' = (file_view s)(j \<mapsto> r) \<and> file_inv s'"
    if "file_create j subject t p s = (Inr r, s')" for subject p r s'
    using that file_store_put [OF inv, of "new_record (fs_now s) j subject t p" j]
    by (auto simp: file_create_def Let_def) (auto simp: new_record_def)
  show "s' = s" if "file_create j subject t p s = (Inl e, s')" for subject p e s'
    using that by (simp add: file_create_def Let_def)
  show "res = Inr ((apply_changes cs r)\<lparr>j_updated_at := fs_now s\<rparr>) \<and>
        file_view s' = (file_view s)(j \<mapsto> (apply_changes cs r)\<lparr>j_updated_at := fs_now s\<rparr>) \<and> file_inv s'"
    if "file_view s j = Some r" "file_update j cs evs s = (res, s')" for r cs evs res s'
    using file_update_cases(2) [OF inv that(2,1)] .
  show "res = Inl (KeyError j) \<and> file_view s' = file_view s \<and> file_inv s'"
    if "file_view s j = None" "file_update j cs evs s = (res, s')" for cs evs res s'
    using file_update_cases(1) [OF inv that(2,1)] .
qed

subsection \<open>The Postgres store provides it\<close>

definition pg_view :: "(int \<Rightarrow> string) \<Rightarrow> pg_store \<Rightarrow> string \<Rightarrow> job_record option" where
  "pg_view isof s job = map_option (row_to_record isof) (pg_find job s)"

definition pg_inv :: "pg_store \<Rightarrow> bool" where
  "pg_inv s \<longleftrightarrow>
     distinct (map p_id (pg_rows s)) \<and> outbox_inv (pg_outbox s) \<and>
     [] \<notin> set (pg_tenants s) \<and> [] \<notin> set (pg_projects s) \<and>
     (\<forall>row\<in>set (pg_rows s). p_tenant_id row \<noteq> Some [] \<and> p_project_id row \<noteq> Some [])"

lemma find_key_guard:
  "distinct (map k xs) \<Longrightarrow>
     first_where (\<lambda>x. k x = a \<and> q x) xs =
       (case first_where (\<lambda>x. k x = a) xs of None \<Rightarrow> None | Some x \<Rightarrow> if q x then Some x else None)"
proof (induction xs)
  case (Cons x xs)
  have "first_where (\<lambda>x. k x = a \<and> q x) xs = None" if "k x = a"
    unfolding find_None_iff_all using Cons.prems that by (metis distinct.simps(2) image_eqI list.set_map list.simps(9))
  with Cons show ?case by simp
qed simp

lemma find_update_where_key:
  "(\<And>x. k x = a \<Longrightarrow> k (f x) = a) \<Longrightarrow>
     first_where (\<lambda>x. k x = b) (update_where (\<lambda>x. k x = a) f xs) =
       (if b = a then map_option f (first_where (\<lambda>x. k x = b) xs) else first_where (\<lambda>x. k x = b) xs)"
  by (induction xs) auto

lemma find_append: "first_where p (xs @ ys) = (case first_where p xs of None \<Rightarrow> first_where p ys | Some x \<Rightarrow> Some x)"
  by (induction xs) auto

lemma pg_find_row: "pg_find j s = Some row \<Longrightarrow> row \<in> set (pg_rows s) \<and> p_id row = j"
  unfolding pg_find_def by (rule find_SomeD)

lemma row_changes_frame:
  "p_id (row_changes cs row) = p_id row" "p_tenant_id (row_changes cs row) = p_tenant_id row"
  "p_project_id (row_changes cs row) = p_project_id row"
proof -
  have "p_id (row_change c r) = p_id r \<and> p_tenant_id (row_change c r) = p_tenant_id r \<and>
      p_project_id (row_change c r) = p_project_id r" for c r
    by (cases c) simp_all
  then have "p_id (row_changes cs row) = p_id row \<and> p_tenant_id (row_changes cs row) = p_tenant_id row \<and>
      p_project_id (row_changes cs row) = p_project_id row"
    unfolding row_changes_def by (induction cs arbitrary: row) simp_all
  then show "p_id (row_changes cs row) = p_id row" "p_tenant_id (row_changes cs row) = p_tenant_id row"
    "p_project_id (row_changes cs row) = p_project_id row" by simp_all
qed

lemma row_changes_record:
  "row_to_record isof ((row_changes cs row)\<lparr>p_updated_at := t\<rparr>) =
     (apply_changes cs (row_to_record isof row))\<lparr>j_updated_at := isof t\<rparr>"
proof (induction cs arbitrary: row)
  case Nil
  then show ?case by (simp add: row_changes_def apply_changes_def row_to_record_def)
next
  case (Cons c cs)
  have "row_to_record isof (row_change c row) = apply_change c (row_to_record isof row)"
    by (cases c) (simp_all add: row_to_record_def)
  with Cons [of "row_change c row"] show ?case
    by (simp add: row_changes_def apply_changes_def)
qed

lemma pg_write_known:
  assumes "pg_inv s" and "pg_find j s = Some row" and "known_changes cs"
    and "pg_write isof j cs evs s = (res, s')"
  shows "res = Inr ((apply_changes cs (row_to_record isof row))\<lparr>j_updated_at := isof (pg_now s)\<rparr>)"
    and "pg_view isof s' = (pg_view isof s)(j \<mapsto> (apply_changes cs (row_to_record isof row))\<lparr>j_updated_at := isof (pg_now s)\<rparr>)"
    and "pg_inv s'"
proof -
  let ?row = "(row_changes cs row)\<lparr>p_updated_at := pg_now s\<rparr>"
  from pg_find_row [OF assms(2)] have row: "row \<in> set (pg_rows s)" "p_id row = j" by auto
  have res: "res = Inr (row_to_record isof ?row)"
    and rows: "pg_rows s' = update_where (\<lambda>x. p_id x = j) (\<lambda>_. ?row) (pg_rows s)"
    and ob: "\<exists>sj. pg_outbox s' = stage_all evs sj (pg_outbox s)"
    and rest: "pg_tenants s' = pg_tenants s" "pg_projects s' = pg_projects s"
    using assms(2-4) by (auto simp: pg_write_def known_changes_def Let_def)
  show "res = Inr ((apply_changes cs (row_to_record isof row))\<lparr>j_updated_at := isof (pg_now s)\<rparr>)"
    by (simp only: res row_changes_record)
  have "pg_find i s' = (if i = j then map_option (\<lambda>_. ?row) (pg_find i s) else pg_find i s)" for i
    unfolding pg_find_def rows by (rule find_update_where_key) (simp add: row_changes_frame row)
  then show "pg_view isof s' = (pg_view isof s)(j \<mapsto> (apply_changes cs (row_to_record isof row))\<lparr>j_updated_at := isof (pg_now s)\<rparr>)"
    using assms(2) by (auto simp: pg_view_def fun_eq_iff row_changes_record)
  have "map p_id (pg_rows s') = map p_id (pg_rows s)"
    unfolding rows by (rule map_update_where_frame) (simp add: row_changes_frame row)
  moreover have "\<forall>x\<in>set (pg_rows s'). p_tenant_id x \<noteq> Some [] \<and> p_project_id x \<noteq> Some []"
    using assms(1) row(1) by (auto simp: rows set_update_where pg_inv_def row_changes_frame)
  moreover have "outbox_inv (pg_outbox s')"
    using ob assms(1) outbox_inv_stage_all by (auto simp: pg_inv_def)
  ultimately show "pg_inv s'"
    using assms(1) rest by (simp add: pg_inv_def)
qed

lemma pg_create_new:
  assumes "pg_inv s" and "pg_find j s = None" and "pg_create isof j subject t p s = (Inr r, s')"
  shows "r = new_record (isof (pg_now s)) j subject t p" and "pg_view isof s' = (pg_view isof s)(j \<mapsto> r)"
    and "pg_inv s'"
proof -
  let ?row = "\<lparr>p_id = j, p_tenant_id = t, p_project_id = p, p_subject = subject,
               p_status = J_Queued, p_error = None, p_result = None,
               p_created_at = pg_now s, p_updated_at = pg_now s\<rparr>"
  have known: "set_option t \<subseteq> set (pg_tenants s)" "set_option p \<subseteq> set (pg_projects s)"
    and r: "r = new_record (isof (pg_now s)) j subject t p" and s': "s' = s\<lparr>pg_rows := pg_rows s @ [?row]\<rparr>"
    using assms(2,3) by (simp_all add: pg_create_def Let_def split: if_splits)
  then have tp: "t \<noteq> Some []" "p \<noteq> Some []" using assms(1) by (auto simp: pg_inv_def)
  show "r = new_record (isof (pg_now s)) j subject t p" by (rule r)
  have "row_to_record isof ?row = r"
    using tp by (simp add: r new_record_def row_to_record_def present_text_def)
  then show "pg_view isof s' = (pg_view isof s)(j \<mapsto> r)"
    using assms(2) by (auto simp: pg_view_def pg_find_def s' find_append fun_eq_iff split: option.splits)
  have "j \<notin> set (map p_id (pg_rows s))" using assms(2) by (auto simp: pg_find_def find_None_iff_all)
  with assms(1) tp show "pg_inv s'" by (auto simp: pg_inv_def s')
qed

lemma pg_write_atomic:
  assumes "pg_write isof job changes events s = (res, s')"
  shows "(\<forall>e. res = Inl e \<longrightarrow> s' = s) \<and>
         (\<forall>r. res = Inr r \<longrightarrow>
            pg_outbox s' = stage_all events \<lparr>sj_job_id = job, sj_tenant_id = j_tenant_id r,
                             sj_project_id = j_project_id r\<rparr> (pg_outbox s) \<and>
            pg_view isof s' job = Some r)"
proof (intro conjI allI impI)
  show "s' = s" if "res = Inl e" for e
    using assms that by (auto simp: pg_write_def Let_def split: list.splits option.splits)
next
  fix r assume r: "res = Inr r"
  then obtain row where row: "pg_find job s = Some row" and cs: "List.map_filter unknown_field changes = []"
    using assms by (auto simp: pg_write_def split: list.splits option.splits)
  let ?row = "(row_changes changes row)\<lparr>p_updated_at := pg_now s\<rparr>"
  from pg_find_row [OF row] have id: "p_id row = job" by simp
  have eq: "r = row_to_record isof ?row"
    "s' = s\<lparr>pg_rows := update_where (\<lambda>x. p_id x = job) (\<lambda>_. ?row) (pg_rows s),
       pg_outbox := stage_all events \<lparr>sj_job_id = j_id r, sj_tenant_id = j_tenant_id r,
         sj_project_id = j_project_id r\<rparr> (pg_outbox s)\<rparr>"
    using assms r row cs by (auto simp: pg_write_def Let_def)
  have jid: "j_id r = job" by (simp add: eq(1) row_to_record_def row_changes_frame id)
  show "pg_outbox s' = stage_all events \<lparr>sj_job_id = job, sj_tenant_id = j_tenant_id r,
      sj_project_id = j_project_id r\<rparr> (pg_outbox s)"
    unfolding eq(2) jid by simp
  have "pg_find job s' = map_option (\<lambda>_. ?row) (pg_find job s)"
    using find_update_where_key [of p_id job "\<lambda>_. ?row" job "pg_rows s"] id
    by (simp add: pg_find_def eq(2) row_changes_frame)
  then show "pg_view isof s' job = Some r" by (simp add: pg_view_def row eq(1))
qed

interpretation pg: job_store "pg_create isof" "pg_get isof" "pg_write isof" "pg_view isof" pg_inv
  "\<lambda>s. isof (pg_now s)"
  for isof
proof unfold_locales
  fix s :: pg_store and j t assume inv: "pg_inv s"
  show "fst (pg_get isof j t s) = owned (pg_view isof s j) t"
  proof -
    have d: "distinct (map p_id (pg_rows s))" using inv by (simp add: pg_inv_def)
    have "p_tenant_id row = present_text (p_tenant_id row)" if "pg_find j s = Some row" for row
      using inv pg_find_row [OF that] by (auto simp: pg_inv_def present_text_def)
    then show ?thesis
      unfolding pg_get_def find_key_guard [OF d]
      by (auto simp: pg_view_def owned_def row_to_record_def pg_find_def split: option.splits if_splits)
  qed
  show "pg_view isof (snd (pg_get isof j t s)) = pg_view isof s \<and> pg_inv (snd (pg_get isof j t s))"
    using inv by (simp add: pg_get_def)
  show "r = new_record (isof (pg_now s)) j subject t p \<and> pg_view isof s' = (pg_view isof s)(j \<mapsto> r) \<and> pg_inv s'"
    if "pg_view isof s j = None" "pg_create isof j subject t p s = (Inr r, s')" for subject p r s'
    using pg_create_new [OF inv _ that(2)] that(1) by (simp add: pg_view_def)
  show "s' = s" if "pg_create isof j subject t p s = (Inl e, s')" for subject p e s'
    using that by (simp add: pg_create_def Let_def split: if_splits)
  show "res = Inr ((apply_changes cs r)\<lparr>j_updated_at := isof (pg_now s)\<rparr>) \<and>
        pg_view isof s' = (pg_view isof s)(j \<mapsto> (apply_changes cs r)\<lparr>j_updated_at := isof (pg_now s)\<rparr>) \<and> pg_inv s'"
    if "pg_view isof s j = Some r" "known_changes cs" "pg_write isof j cs evs s = (res, s')" for r cs evs res s'
    using pg_write_known [OF inv _ that(2,3)] that(1) by (auto simp: pg_view_def)
  show "res = Inl (KeyError j) \<and> pg_view isof s' = pg_view isof s \<and> pg_inv s'"
    if "pg_view isof s j = None" "known_changes cs" "pg_write isof j cs evs s = (res, s')" for cs evs res s'
    using that inv by (simp add: pg_view_def pg_write_def known_changes_def)
qed

subsection \<open>Properties\<close>

text \<open>A fresh store of each kind and a second process on the same directory, for the witnesses.\<close>

definition demo_files :: file_store where
  "demo_files = \<lparr>fs_memory = [], fs_disk = [], fs_writable = True, fs_disk_ok = True, fs_now = ''t0''\<rparr>"

definition demo_pg :: pg_store where
  "demo_pg = \<lparr>pg_rows = [], pg_outbox = empty_outbox, pg_tenants = [''a''], pg_projects = [], pg_now = 0\<rparr>"

definition other_process :: "file_store \<Rightarrow> file_store" where
  "other_process s = s\<lparr>fs_memory := []\<rparr>"

lemma demo_stores_ok: "file_inv demo_files" "pg_inv demo_pg"
  by (simp_all add: file_inv_def demo_files_def pg_inv_def demo_pg_def outbox_inv_empty)



text \<open>A tenant reads only its own jobs, one by one and in lists, from either store.\<close>

lemma tenant_isolation:
  assumes "file_inv f" and "pg_inv g"
  shows "(fst (file_get job (Some t) f) = Some r \<longrightarrow> j_tenant_id r = Some t) \<and>
         (fst (pg_get isof job (Some t) g) = Some r \<longrightarrow> j_tenant_id r = Some t) \<and>
         (\<forall>x\<in>set (file_recent limit (Some t) f). j_tenant_id x = Some t) \<and>
         (\<forall>x\<in>set (pg_recent isof limit (Some t) g). j_tenant_id x = Some t)"
proof (intro conjI impI ballI)
  show "j_tenant_id r = Some t" if "fst (file_get job (Some t) f) = Some r"
    using files.get_tenant [OF assms(1) that] by simp
  show "j_tenant_id r = Some t" if "fst (pg_get isof job (Some t) g) = Some r"
    using pg.get_tenant [OF assms(2) that] by simp
  show "j_tenant_id x = Some t" if "x \<in> set (file_recent limit (Some t) f)" for x
    using that
    by (auto simp: file_recent_def Let_def in_map_filter owned_def
        dest!: in_set_takeD split: option.splits if_splits)
  show "j_tenant_id x = Some t" if "x \<in> set (pg_recent isof limit (Some t) g)" for x
  proof -
    from that obtain row where "row \<in> set (pg_rows g)" "p_tenant_id row = Some t" "x = row_to_record isof row"
      by (auto simp: pg_recent_def newest_first_def dest!: in_set_takeD)
    with assms(2) show ?thesis by (auto simp: row_to_record_def present_text_def pg_inv_def)
  qed
qed





text \<open>The file store's cache is never refreshed: when one process has read or created a job and
  another process on the same directory finishes it, the first keeps answering with the old
  record, although the directory holds the new one.\<close>

lemma second_process_goes_stale:
  assumes "file_inv api" and "file_view api job = Some r"
    and "api' = snd (file_get job None api)"
    and "file_update job changes events (other_process api') = (res, worker)"
  shows "fst (file_get job None (api'\<lparr>fs_disk := fs_disk worker\<rparr>)) = Some r"
proof -
  have "fst (file_get job None api) = Some r"
    using files.get_anyone [OF assms(1)] assms(2) by simp
  then have "map_of (fs_memory api') job = Some r"
    by (auto simp: assms(3) file_get_def owned_def split: option.splits)
  then show ?thesis by (simp add: file_get_def owned_def)
qed

end
