(* ===== verification/Job_Service.thy ===== *)
theory Job_Service
  imports Job_Store Contracts
begin

text \<open>
  The shape every service has: \<^verbatim>\<open>worker.handle\<close> takes a request off the bus and \<^verbatim>\<open>api.run_*\<close> does the job,
  stores the outcome and publishes it. The services differ in the names they use, in what they
  read of a request, in the work and in the events that announce the outcome; these are the
  fields of \<open>service\<close>, and each service of \<^verbatim>\<open>src/services\<close> is a value of that type.
\<close>

record service =
  sv_name :: string
  sv_request :: string
  sv_id_field :: string
  sv_early :: "dict \<Rightarrow> unit py"  \<comment> \<open>what \<^verbatim>\<open>handle\<close> reads before it looks the job up\<close>
  sv_subject :: "dict \<Rightarrow> json py"  \<comment> \<open>the subject of a job it has to create\<close>
  sv_begin :: "dict \<Rightarrow> unit py"  \<comment> \<open>what \<^verbatim>\<open>run_*\<close> reads before it marks the job running\<close>
  sv_work :: "string option \<Rightarrow> dict \<Rightarrow> dict py"
  sv_outgoing :: "string \<Rightarrow> dict \<Rightarrow> dict \<Rightarrow> string \<Rightarrow> string option \<Rightarrow> (string \<times> dict) list py"

text \<open>An envelope whose payload is an object and whose identifiers are text, as the relay publishes it.\<close>

record delivery =
  dl_id :: string
  dl_payload :: dict
  dl_tenant_id :: "string option"
  dl_project_id :: "string option"
  dl_correlation_id :: "string option"

subsection \<open>Running a job\<close>

text \<open>\<^verbatim>\<open>_publishable\<close> on each event in turn: a contract violation drops the event.\<close>

fun publishable :: "contracts \<Rightarrow> (string \<times> dict) list \<Rightarrow> (string \<times> dict) list py" where
  "publishable C [] = Inr []"
| "publishable C ((event_type, payload) # rest) =
     (case validate_event C event_type payload of
        Inr _ \<Rightarrow> bindE (publishable C rest) (\<lambda>out. Inr ((event_type, payload) # out))
      | Inl (ContractError _) \<Rightarrow> publishable C rest
      | Inl e \<Rightarrow> Inl e)"

definition stage_events ::
  "service \<Rightarrow> string \<Rightarrow> string option \<Rightarrow> (nat \<Rightarrow> string) \<Rightarrow> (string \<times> dict) list \<Rightarrow> pending_event list" where
  "stage_events sv correlation causation event_ids out =
     map (\<lambda>(i, event_type, payload). \<lparr>pe_type = event_type, pe_payload = payload, pe_producer = sv_name sv,
            pe_event_id = event_ids i, pe_correlation_id = Some correlation, pe_causation_id = causation\<rparr>)
       (List.enumerate 0 out)"

text \<open>The body of the \<^verbatim>\<open>try\<close>: a report, or any exception as the text of a failure.\<close>

definition outcome :: "service \<Rightarrow> string option \<Rightarrow> dict \<Rightarrow> dict \<times> job_status \<times> string option" where
  "outcome sv tenant_id request =
     (case sv_work sv tenant_id request of
        Inr report \<Rightarrow> (report, J_Completed, None)
      | Inl e \<Rightarrow> ([], J_Failed, Some (exn_text e)))"

definition finish_changes :: "dict \<Rightarrow> string option \<Rightarrow> job_change list" where
  "finish_changes report error =
     (case error of None \<Rightarrow> complete_changes report | Some e \<Rightarrow> fail_changes e)"

text \<open>
  \<^verbatim>\<open>run_*\<close>: the result, the events it publishes itself (only when the store stages none) and the
  store. \<open>update\<close> is the store's \<^verbatim>\<open>update\<close> with the events to stage.
\<close>

definition run_job ::
  "contracts \<Rightarrow> service \<Rightarrow> (string \<Rightarrow> job_change list \<Rightarrow> pending_event list \<Rightarrow> 's \<Rightarrow> job_record py \<times> 's) \<Rightarrow> bool \<Rightarrow>
     string \<Rightarrow> dict \<Rightarrow> string option \<Rightarrow> string option \<Rightarrow> string option \<Rightarrow> (nat \<Rightarrow> string) \<Rightarrow> 's \<Rightarrow>
     job_record py \<times> (string \<times> dict) list \<times> 's" where
  "run_job C sv update stages job request tenant_id correlation causation event_ids s =
     (case sv_begin sv request of
        Inl e \<Rightarrow> (Inl e, [], s)
      | Inr _ \<Rightarrow>
          (case update job running_changes [] s of
             (Inl e, s1) \<Rightarrow> (Inl e, [], s1)
           | (Inr _, s1) \<Rightarrow>
               (case outcome sv tenant_id request of
                  (report, status, error) \<Rightarrow>
                    (case bindE (sv_outgoing sv job request report (job_status_name status) error) (publishable C) of
                       Inl e \<Rightarrow> (Inl e, [], s1)
                     | Inr out \<Rightarrow>
                         (case update job (finish_changes report error)
                              (stage_events sv (or_else correlation job) causation event_ids out) s1 of
                            (Inl e, s2) \<Rightarrow> (Inl e, [], s2)
                          | (Inr r, s2) \<Rightarrow> (Inr r, if stages then [] else out, s2))))))"

subsection \<open>The worker\<close>

definition SEEN_MAX :: nat where "SEEN_MAX = 10000"

record 's worker =
  wk_store :: 's
  wk_seen :: "string list"
  wk_emitted :: "(string \<times> dict) list"

definition remember_event :: "string \<Rightarrow> 's worker \<Rightarrow> 's worker" where
  "remember_event event_id w =
     w\<lparr>wk_seen := List.insert event_id (if SEEN_MAX \<le> length (wk_seen w) then [] else wk_seen w)\<rparr>"

text \<open>\<^verbatim>\<open>payload.pop(field, None) or str(uuid.uuid4())\<close>.\<close>

definition job_id_of :: "service \<Rightarrow> string \<Rightarrow> dict \<Rightarrow> string py" where
  "job_id_of sv new_id payload =
     (case dget payload (sv_id_field sv) of
        JStr s \<Rightarrow> Inr (if s = [] then new_id else s)
      | j \<Rightarrow> if truthy j then Inl TypeError else Inr new_id)"

definition busy :: "job_record option \<Rightarrow> bool" where
  "busy existing = (case existing of None \<Rightarrow> False | Some r \<Rightarrow> j_status r = J_Running \<or> j_status r = J_Completed)"

definition run_and_remember ::
  "contracts \<Rightarrow> service \<Rightarrow> (string \<Rightarrow> job_change list \<Rightarrow> pending_event list \<Rightarrow> 's \<Rightarrow> job_record py \<times> 's) \<Rightarrow> bool \<Rightarrow>
     string \<Rightarrow> dict \<Rightarrow> delivery \<Rightarrow> (nat \<Rightarrow> string) \<Rightarrow> 's worker \<Rightarrow> unit py \<times> 's worker" where
  "run_and_remember C sv update stages job payload d event_ids w =
     (case run_job C sv update stages job payload (dl_tenant_id d)
           (Some (or_else (dl_correlation_id d) (dl_id d))) (Some (dl_id d)) event_ids (wk_store w) of
        (Inl e, em, s) \<Rightarrow> (Inl e, w\<lparr>wk_store := s, wk_emitted := wk_emitted w @ em\<rparr>)
      | (Inr _, em, s) \<Rightarrow>
          (Inr (), remember_event (dl_id d) (w\<lparr>wk_store := s, wk_emitted := wk_emitted w @ em\<rparr>)))"

definition handle ::
  "contracts \<Rightarrow> service \<Rightarrow>
     (string \<Rightarrow> string \<Rightarrow> string option \<Rightarrow> string option \<Rightarrow> 's \<Rightarrow> job_record py \<times> 's) \<Rightarrow>
     (string \<Rightarrow> string option \<Rightarrow> 's \<Rightarrow> job_record option \<times> 's) \<Rightarrow>
     (string \<Rightarrow> job_change list \<Rightarrow> pending_event list \<Rightarrow> 's \<Rightarrow> job_record py \<times> 's) \<Rightarrow> bool \<Rightarrow>
     delivery \<Rightarrow> string \<Rightarrow> (nat \<Rightarrow> string) \<Rightarrow> 's worker \<Rightarrow> unit py \<times> 's worker" where
  "handle C sv create get update stages d new_id event_ids w =
     (if dl_id d \<in> set (wk_seen w) then (Inr (), w)
      else
        (case validate_event C (sv_request sv) (dl_payload d) of
           Inl (ContractError m) \<Rightarrow> (Inl (ValueError (''invalid '' @ sv_request sv @ '': '' @ m)), w)
         | Inl e \<Rightarrow> (Inl e, w)
         | Inr _ \<Rightarrow>
             (let payload = filter (\<lambda>e. fst e \<noteq> sv_id_field sv) (dl_payload d) in
              (case bindE (job_id_of sv new_id (dl_payload d)) (\<lambda>job. bindE (sv_early sv payload) (\<lambda>_. Inr job)) of
                 Inl e \<Rightarrow> (Inl e, w)
               | Inr job \<Rightarrow>
                   (case get job None (wk_store w) of
                      (existing, s1) \<Rightarrow>
                        if busy existing then (Inr (), remember_event (dl_id d) (w\<lparr>wk_store := s1\<rparr>))
                        else
                          (case existing of
                             Some _ \<Rightarrow> run_and_remember C sv update stages job payload d event_ids (w\<lparr>wk_store := s1\<rparr>)
                           | None \<Rightarrow>
                               (case bindE (sv_subject sv payload) read_text of
                                  Inl e \<Rightarrow> (Inl e, w\<lparr>wk_store := s1\<rparr>)
                                | Inr subject \<Rightarrow>
                                    (case create job subject (dl_tenant_id d) (dl_project_id d) s1 of
                                       (Inl e, s2) \<Rightarrow> (Inl e, w\<lparr>wk_store := s2\<rparr>)
                                     | (Inr _, s2) \<Rightarrow>
                                         run_and_remember C sv update stages job payload d event_ids
                                           (w\<lparr>wk_store := s2\<rparr>)))))))))"

subsection \<open>What a service promises over any store\<close>

text \<open>The record of a job whose work gave the outcome.\<close>

definition finished_with :: "service \<Rightarrow> string option \<Rightarrow> dict \<Rightarrow> job_record \<Rightarrow> bool" where
  "finished_with sv tenant_id request r \<longleftrightarrow>
     (case sv_work sv tenant_id request of
        Inr report \<Rightarrow> j_status r = J_Completed \<and> j_result r = Some report \<and> j_error r = None
      | Inl e \<Rightarrow> j_status r = J_Failed \<and> j_error r = Some (exn_text e))"

lemma finish_changes_known: "known_changes (finish_changes report error)"
  by (simp add: finish_changes_def split: option.splits)

lemma finished_record:
  assumes "outcome sv t request = (report, status, error)"
  shows "finished_with sv t request ((apply_changes (finish_changes report error) r)\<lparr>j_updated_at := u\<rparr>)"
  using assms
  by (auto simp: outcome_def finished_with_def finish_changes_def apply_changes_def complete_changes_def
      fail_changes_def split: sum.splits)

lemma apply_changes_owner:
  "j_tenant_id (apply_changes cs r) = j_tenant_id r" "j_project_id (apply_changes cs r) = j_project_id r"
proof -
  have "j_tenant_id (apply_change c r) = j_tenant_id r \<and> j_project_id (apply_change c r) = j_project_id r" for c r
    by (cases c) simp_all
  then have "j_tenant_id (apply_changes cs r) = j_tenant_id r \<and> j_project_id (apply_changes cs r) = j_project_id r"
    unfolding apply_changes_def by (induction cs arbitrary: r) simp_all
  then show "j_tenant_id (apply_changes cs r) = j_tenant_id r" "j_project_id (apply_changes cs r) = j_project_id r"
    by simp_all
qed

definition announces_all :: "contracts \<Rightarrow> service \<Rightarrow> string \<Rightarrow> string option \<Rightarrow> dict \<Rightarrow> (string \<times> dict) list \<Rightarrow> bool" where
  "announces_all C sv job tenant_id request out \<longleftrightarrow>
     (case outcome sv tenant_id request of (report, status, error) \<Rightarrow>
        bindE (sv_outgoing sv job request report (job_status_name status) error) (publishable C) = Inr out)"

context job_store
begin

text \<open>A job that exists is run to its end, whatever its work does, as long as its events can be built.\<close>

lemma run_job_finishes:
  assumes "inv s" and "view s j = Some r" and "sv_begin sv request = Inr u"
    and "announces_all C sv j t request out"
    and "run_job C sv update stages j request t corr caus ids s = (res, em, s')"
  shows "\<exists>r'. res = Inr r' \<and> view s' = (view s)(j \<mapsto> r') \<and> inv s' \<and> finished_with sv t request r' \<and>
           j_tenant_id r' = j_tenant_id r \<and> j_project_id r' = j_project_id r \<and>
           em = (if stages then [] else out)"
proof -
  obtain report status error where o: "outcome sv t request = (report, status, error)"
    by (cases "outcome sv t request") auto
  with assms(4) have out: "bindE (sv_outgoing sv j request report (job_status_name status) error) (publishable C) = Inr out"
    by (simp add: announces_all_def)
  obtain x1 s1 where u1: "update j running_changes [] s = (x1, s1)" by fastforce
  note up1 = update_known [OF assms(1,2) known_changes_simps(1) u1]
  define r1 where "r1 = (apply_changes running_changes r)\<lparr>j_updated_at := present s\<rparr>"
  have s1: "inv s1" "view s1 j = Some r1" "x1 = Inr r1" using up1 by (simp_all add: r1_def)
  obtain x2 s2 where u2: "update j (finish_changes report error)
      (stage_events sv (or_else corr j) caus ids out) s1 = (x2, s2)" by fastforce
  note up2 = update_known [OF s1(1,2) finish_changes_known u2]
  define r2 where "r2 = (apply_changes (finish_changes report error) r1)\<lparr>j_updated_at := present s1\<rparr>"
  have "res = Inr r2" "em = (if stages then [] else out)" "s' = s2"
    using assms(3,5) u1 s1(3) o out u2 up2 by (simp_all add: run_job_def r2_def)
  moreover have "view s2 = (view s)(j \<mapsto> r2)" "inv s2" using up1 up2 by (simp_all add: r2_def)
  moreover have "finished_with sv t request r2" unfolding r2_def using o by (rule finished_record)
  moreover have "j_tenant_id r2 = j_tenant_id r" "j_project_id r2 = j_project_id r"
    by (simp_all add: r2_def r1_def apply_changes_owner)
  ultimately show ?thesis by blast
qed

lemma handle_busy:
  assumes "inv (wk_store w)" and "view (wk_store w) job = Some r" and "j_status r = J_Running \<or> j_status r = J_Completed"
    and "validate_event C (sv_request sv) (dl_payload d) = Inr ()"
    and "job_id_of sv new_id (dl_payload d) = Inr job"
    and "sv_early sv (filter (\<lambda>e. fst e \<noteq> sv_id_field sv) (dl_payload d)) = Inr u"
    and "handle C sv create get update stages d new_id ids w = (res, w')"
  shows "res = Inr () \<and> view (wk_store w') = view (wk_store w) \<and> wk_emitted w' = wk_emitted w \<and> inv (wk_store w')"
proof (cases "dl_id d \<in> set (wk_seen w)")
  case True
  with assms(1,7) show ?thesis by (auto simp: handle_def)
next
  case False
  obtain ex s1 where g: "get job None (wk_store w) = (ex, s1)" by fastforce
  have ex: "ex = Some r" using get_anyone [OF assms(1), of job] g assms(2) by simp
  have s1: "view s1 = view (wk_store w)" "inv s1" using get_frame [OF assms(1), of job None] g by simp_all
  have "busy ex" using ex assms(3) by (simp add: busy_def)
  with False assms(4-7) g s1 show ?thesis
    by (auto simp: handle_def Let_def remember_event_def)
qed

lemma handle_new_job_runs:
  assumes "inv (wk_store w)" and "view (wk_store w) job = None" and "dl_id d \<notin> set (wk_seen w)"
    and "validate_event C (sv_request sv) (dl_payload d) = Inr ()"
    and "job_id_of sv new_id (dl_payload d) = Inr job"
    and pay: "payload = filter (\<lambda>e. fst e \<noteq> sv_id_field sv) (dl_payload d)"
    and "sv_early sv payload = Inr u" and "bindE (sv_subject sv payload) read_text = Inr subject"
    and "get job None (wk_store w) = (ex, s1)"
    and "create job subject (dl_tenant_id d) (dl_project_id d) s1 = (Inr r0, s2)"
  shows "handle C sv create get update stages d new_id ids w =
           run_and_remember C sv update stages job payload d ids (w\<lparr>wk_store := s2\<rparr>)"
    and "inv s2" and "view s2 = (view (wk_store w))(job \<mapsto> r0)"
    and "r0 = new_record (present s1) job subject (dl_tenant_id d) (dl_project_id d)"
proof -
  have ex: "ex = None" using get_anyone [OF assms(1), of job] assms(2,9) by simp
  have s1: "view s1 = view (wk_store w)" "inv s1" using get_frame [OF assms(1), of job None] assms(9) by simp_all
  have "view s1 job = None" using s1(1) assms(2) by simp
  from create_new [OF s1(2) this assms(10)] s1(1)
  show "inv s2" and "view s2 = (view (wk_store w))(job \<mapsto> r0)"
    and "r0 = new_record (present s1) job subject (dl_tenant_id d) (dl_project_id d)" by simp_all
  show "handle C sv create get update stages d new_id ids w =
      run_and_remember C sv update stages job payload d ids (w\<lparr>wk_store := s2\<rparr>)"
    using assms(3-5,7-10) ex by (auto simp: handle_def Let_def pay [symmetric] busy_def)
qed

lemma run_and_remember_finishes:
  assumes "inv (wk_store w)" and "view (wk_store w) j = Some r" and "sv_begin sv payload = Inr u"
    and "announces_all C sv j (dl_tenant_id d) payload out"
    and "run_and_remember C sv update stages j payload d ids w = (res, w')"
  shows "\<exists>r'. res = Inr () \<and> view (wk_store w') = (view (wk_store w))(j \<mapsto> r') \<and> inv (wk_store w') \<and>
           finished_with sv (dl_tenant_id d) payload r' \<and> j_tenant_id r' = j_tenant_id r \<and>
           wk_emitted w' = wk_emitted w @ (if stages then [] else out) \<and> dl_id d \<in> set (wk_seen w')"
proof -
  let ?caus = "Some (dl_id d)" and ?corr = "Some (or_else (dl_correlation_id d) (dl_id d))"
  obtain x em s3 where run: "run_job C sv update stages j payload (dl_tenant_id d) ?corr ?caus ids (wk_store w) = (x, em, s3)"
    by (metis prod.collapse)
  from run_job_finishes [OF assms(1-4) run] obtain r' where "x = Inr r'"
      "view s3 = (view (wk_store w))(j \<mapsto> r')" "inv s3" "finished_with sv (dl_tenant_id d) payload r'"
      "j_tenant_id r' = j_tenant_id r" "em = (if stages then [] else out)" by blast
  with assms(5) run show ?thesis
    by (auto simp: run_and_remember_def remember_event_def)
qed

end

subsection \<open>Over Postgres: the outcome and its events together\<close>

lemma pg_run_job_outbox:
  assumes "pg_inv s" and "pg_view isof s j = Some r" and "sv_begin sv request = Inr u"
    and "announces_all C sv j t request out"
    and "run_job C sv (pg_write isof) True j request t corr caus ids s = (res, em, s')"
  shows "pg_outbox s' = stage_all (stage_events sv (or_else corr j) caus ids out)
           \<lparr>sj_job_id = j, sj_tenant_id = j_tenant_id r, sj_project_id = j_project_id r\<rparr> (pg_outbox s)"
proof -
  obtain report status error where o: "outcome sv t request = (report, status, error)"
    by (cases "outcome sv t request") auto
  with assms(4) have out: "bindE (sv_outgoing sv j request report (job_status_name status) error) (publishable C) = Inr out"
    by (simp add: announces_all_def)
  obtain x1 s1 where u1: "pg_write isof j running_changes [] s = (x1, s1)" by fastforce
  note up1 = pg.update_known [OF assms(1,2) known_changes_simps(1) u1]
  from up1 obtain r1 where r1: "x1 = Inr r1" "pg_view isof s1 j = Some r1" "pg_inv s1"
    "j_tenant_id r1 = j_tenant_id r" "j_project_id r1 = j_project_id r"
    by (simp add: apply_changes_owner)
  have ob1: "pg_outbox s1 = pg_outbox s"
    using pg_write_atomic [OF u1] r1(1) by simp
  obtain x2 s2 where u2: "pg_write isof j (finish_changes report error)
      (stage_events sv (or_else corr j) caus ids out) s1 = (x2, s2)" by fastforce
  note up2 = pg.update_known [OF r1(3,2) finish_changes_known u2]
  then obtain r2 where r2: "x2 = Inr r2" "j_tenant_id r2 = j_tenant_id r" "j_project_id r2 = j_project_id r"
    using r1(4,5) by (simp add: apply_changes_owner)
  have "s' = s2"
    using assms(3,5) u1 r1(1) o out u2 r2(1) by (simp add: run_job_def)
  with pg_write_atomic [OF u2] r2 ob1 show ?thesis by simp
qed

end
