(* ===== verification/Orch_Worker.thy ===== *)
theory Orch_Worker
  imports Orch_Properties Job_Service "HOL-Library.List_Lexorder" "HOL-Library.Char_ord"
begin

text \<open>
  \<^verbatim>\<open>src/agents/orchestrator/worker.py\<close>, which takes the orchestrator's events off the bus, with \<^verbatim>\<open>enrich\<close> of
  \<^verbatim>\<open>summary.py\<close>, and the workflow routes of \<^verbatim>\<open>api.py\<close>. The language model is a parameter: \<open>llm_ask\<close> gives
  the answer for a report, or the text of \<^verbatim>\<open>AIUnavailable\<close>. The rule-based summary is the parameter
  \<open>ee_deterministic\<close> the engine uses too.
\<close>

subsection \<open>The summary\<close>

record llm =
  llm_available :: bool
  llm_ask :: "dict \<Rightarrow> string + dict"

text \<open>The notes of \<^verbatim>\<open>enrich\<close>, in the bytes of the source.\<close>

definition fa_note_no_key :: string where
"fa_note_no_key = utf8 [65, 78, 84, 72, 82, 79, 80, 73, 67, 95, 65, 80, 73, 95, 75, 69, 89,
    32, 216, 170, 217, 134, 216, 184, 219, 140, 217, 133, 32, 217, 134, 216, 180, 216, 175,
    217, 135, 216, 155, 32, 216, 174, 217, 132, 216, 167, 216, 181, 217, 135, 226, 128, 140,
    219, 140, 32, 217, 130, 216, 167, 217, 134, 217, 136, 217, 134, 226, 128, 140, 217, 133,
    216, 173, 217, 136, 216, 177, 32, 216, 167, 216, 179, 216, 170, 217, 129, 216, 167, 216,
    175, 217, 135, 32, 216, 180, 216, 175, 46]"

definition fa_note_failed :: string where
"fa_note_failed = utf8 [216, 174, 217, 132, 216, 167, 216, 181, 217, 135, 226, 128, 140,
    219, 140, 32, 217, 135, 217, 136, 216, 180, 32, 217, 133, 216, 181, 217, 134, 217, 136,
    216, 185, 219, 140, 32, 216, 179, 216, 167, 216, 174, 216, 170, 217, 135, 32, 217, 134,
    216, 180, 216, 175, 58, 32]"

definition fa_note_empty :: string where
"fa_note_empty = utf8 [217, 190, 216, 167, 216, 179, 216, 174, 32, 217, 133, 216, 175, 217,
    132, 32, 216, 174, 217, 132, 216, 167, 216, 181, 217, 135, 226, 128, 140, 216, 167, 219,
    140, 32, 217, 134, 216, 175, 216, 167, 216, 180, 216, 170, 216, 155, 32, 216, 174, 217,
    132, 216, 167, 216, 181, 217, 135, 226, 128, 140, 219, 140, 32, 217, 130, 216, 167, 217,
    134, 217, 136, 217, 134, 226, 128, 140, 217, 133, 216, 173, 217, 136, 216, 177, 32, 216,
    167, 216, 179, 216, 170, 217, 129, 216, 167, 216, 175, 217, 135, 32, 216, 180, 216, 175,
    46]"

definition enrich :: "engine_env \<Rightarrow> llm \<Rightarrow> dict \<Rightarrow> dict py" where
  "enrich E L rep =
     bindE (ee_deterministic E rep) (\<lambda>base.
       if \<not> llm_available L then Inr (dset base ''note'' (JStr fa_note_no_key))
       else (case llm_ask L rep of
          Inl reason \<Rightarrow> Inr (dset base ''note'' (JStr (fa_note_failed @ reason)))
        | Inr answer \<Rightarrow>
            (let words = strip (py_str (ee_runtime E) (py_or (dget answer ''summary'') (JStr [])))
             in if words = [] then Inr (dset base ''note'' (JStr fa_note_empty))
                else bindE (if truthy (dget answer ''next_actions'') then Inr (dget answer ''next_actions'')
                            else ditem base ''next_actions'') (\<lambda>actions.
                  Inr [(''source'', JStr ''ai''), (''text_fa'', JStr words), (''next_actions'', actions),
                       (''watch_outs'', py_or (dget answer ''watch_outs'') (JList [])), (''note'', JNull)]))))"

subsection \<open>The worker\<close>

text \<open>\<^verbatim>\<open>payload.get("workflow_id") or str(uuid.uuid4())\<close>; the identifier of a row is text.\<close>

definition wanted_id :: "string \<Rightarrow> dict \<Rightarrow> string py" where
  "wanted_id new_id payload =
     (let j = dget payload ''workflow_id'' in if truthy j then read_text j else Inr new_id)"

definition start_requested ::
  "engine_env \<Rightarrow> (nat \<Rightarrow> string) \<Rightarrow> string \<Rightarrow> string \<Rightarrow> delivery \<Rightarrow> wdb \<Rightarrow> unit py \<times> wdb" where
  "start_requested E uuid4 new_id event_id d db =
     (case validate_event (ee_contracts E) ''workflow.requested'' (dl_payload d) of
        Inl (ContractError m) \<Rightarrow> (Inl (ValueError (''invalid workflow.requested: '' @ m)), db)
      | Inl e \<Rightarrow> (Inl e, db)
      | Inr _ \<Rightarrow>
          (case wanted_id new_id (dl_payload d) of
             Inl e \<Rightarrow> (Inl e, db)
           | Inr wid \<Rightarrow>
               if get_workflow db wid None \<noteq> None then (Inr (), db)
               else
                 (case bindE (bindE (ditem (dl_payload d) ''goal'') read_text) (\<lambda>goal.
                         bindE (as_dict (dget_default (dl_payload d) ''inputs'' (JObj []))) (\<lambda>inputs. Inr (goal, inputs))) of
                    Inl e \<Rightarrow> (Inl e, db)
                  | Inr (goal, inputs) \<Rightarrow>
                      (case start E uuid4 wid goal inputs (dl_tenant_id d) (dl_project_id d) event_id db of
                         (Inl e, db') \<Rightarrow> (Inl e, db') | (Inr _, db') \<Rightarrow> (Inr (), db')))))"

definition written_by_ai :: "dict \<Rightarrow> bool py" where
  "written_by_ai rep =
     bindE (as_dict (py_or (dget rep ''summary'') (JObj []))) (\<lambda>s. Inr (dget s ''source'' = JStr ''ai''))"

definition summarise_completed :: "engine_env \<Rightarrow> llm \<Rightarrow> delivery \<Rightarrow> wdb \<Rightarrow> unit py \<times> wdb" where
  "summarise_completed E L d db =
     (case dget (dl_payload d) ''workflow_id'' of
        JStr wid \<Rightarrow>
          (case (if wid = [] then None else get_workflow db wid None) of
             None \<Rightarrow> (Inr (), db)
           | Some flow \<Rightarrow>
               (let rep = (case w_report flow of None \<Rightarrow> [] | Some r \<Rightarrow> r) in
                case written_by_ai rep of
                  Inl e \<Rightarrow> (Inl e, db)
                | Inr True \<Rightarrow> (Inr (), db)
                | Inr False \<Rightarrow>
                    (case bindE (enrich E L rep) (\<lambda>written. bindE (ditem written ''source'') (\<lambda>src. Inr (written, src))) of
                       Inl e \<Rightarrow> (Inl e, db)
                     | Inr (written, src) \<Rightarrow>
                         if src \<noteq> JStr ''ai'' then (Inr (), db)
                         else (Inr (), snd (save_summary wid (JObj written) db)))))
      | j \<Rightarrow> if truthy j then (Inl TypeError, db) else (Inr (), db))"

definition ROUTING_KEYS :: "string list" where
  "ROUTING_KEYS = ''workflow.requested'' # ''workflow.completed'' # sort (map fst COMPLETIONS)"

text \<open>\<^verbatim>\<open>handle\<close>: the kind of event decides; an event that was handled is remembered.\<close>

definition orch_dispatch ::
  "engine_env \<Rightarrow> llm \<Rightarrow> (nat \<Rightarrow> string) \<Rightarrow> string \<Rightarrow> string \<Rightarrow> string \<Rightarrow> delivery \<Rightarrow> wdb \<Rightarrow> unit py \<times> wdb" where
  "orch_dispatch E L uuid4 new_id event_id event_type d db =
     (if event_type = ''workflow.requested'' then start_requested E uuid4 new_id event_id d db
      else if event_type = ''workflow.completed'' then summarise_completed E L d db
      else if event_type \<in> set (map fst COMPLETIONS) then
        (case on_completion E event_type (dl_payload d) event_id db of
           (Inl e, db') \<Rightarrow> (Inl e, db') | (Inr _, db') \<Rightarrow> (Inr (), db'))
      else (Inr (), db))"

definition orch_handle ::
  "engine_env \<Rightarrow> llm \<Rightarrow> (nat \<Rightarrow> string) \<Rightarrow> string \<Rightarrow> string \<Rightarrow> string \<Rightarrow> delivery \<Rightarrow> wdb worker \<Rightarrow>
     unit py \<times> wdb worker" where
  "orch_handle E L uuid4 new_id event_id event_type d w =
     (if dl_id d \<in> set (wk_seen w) then (Inr (), w)
      else (case orch_dispatch E L uuid4 new_id event_id event_type d (wk_store w) of
              (Inl e, db) \<Rightarrow> (Inl e, w\<lparr>wk_store := db\<rparr>)
            | (Inr _, db) \<Rightarrow> (Inr (), remember_event (dl_id d) (w\<lparr>wk_store := db\<rparr>))))"

subsection \<open>The worker and the state machine\<close>

lemma start_requested_run:
  assumes "start_requested E uuid4 new_id eid d db = (res, db')" and "fresh_event eid db"
    and "(\<exists>e. res = Inl e) \<Longrightarrow> lossy"
  shows "(orch_step E lossy)\<^sup>*\<^sup>* \<lparr>o_db = db, o_tasks = ts\<rparr> \<lparr>o_db = db', o_tasks = ts\<rparr>"
proof (cases "db' = db")
  case False
  with assms(1) obtain wid goal inputs r where
    s: "start E uuid4 wid goal inputs (dl_tenant_id d) (dl_project_id d) eid db = (r, db')"
      "res = (case r of Inl e \<Rightarrow> Inl e | Inr _ \<Rightarrow> Inr ())"
    by (auto simp: start_requested_def split: sum.splits exn.splits if_splits prod.splits)
  from start_run [OF s(1) assms(2)] s(2) assms(3) show ?thesis by (auto split: sum.splits)
qed simp

lemma summarise_completed_run:
  assumes "summarise_completed E L d db = (res, db')"
  shows "(orch_step E lossy)\<^sup>*\<^sup>* \<lparr>o_db = db, o_tasks = ts\<rparr> \<lparr>o_db = db', o_tasks = ts\<rparr>"
proof (cases "db' = db")
  case False
  with assms obtain wid summary where "db' = snd (save_summary wid summary db)"
    by (auto simp: summarise_completed_def Let_def split: json.splits option.splits sum.splits bool.splits if_splits prod.splits)
  then have "save_summary wid summary db = (fst (save_summary wid summary db), db')" by simp
  from orch_step.summarise [OF this] show ?thesis by blast
qed simp

lemma orch_dispatch_run:
  assumes "orch_dispatch E L uuid4 new_id eid ty d db = (res, db')" and "fresh_event eid db"
    and "(\<exists>e. res = Inl e) \<Longrightarrow> lossy"
  shows "(orch_step E lossy)\<^sup>*\<^sup>* \<lparr>o_db = db, o_tasks = ts\<rparr> \<lparr>o_db = db', o_tasks = ts\<rparr>"
proof -
  consider (req) "ty = ''workflow.requested''" | (fin) "ty = ''workflow.completed''"
    | (step) "ty \<noteq> ''workflow.requested''" "ty \<noteq> ''workflow.completed''" "ty \<in> set (map fst COMPLETIONS)"
    | (other) "ty \<noteq> ''workflow.requested''" "ty \<noteq> ''workflow.completed''" "ty \<notin> set (map fst COMPLETIONS)" by blast
  then show ?thesis
  proof cases
    case req
    with assms(1) start_requested_run [OF _ assms(2,3)] show ?thesis by (simp add: orch_dispatch_def)
  next
    case fin
    with assms(1) summarise_completed_run show ?thesis by (simp add: orch_dispatch_def)
  next
    case step
    obtain r where r: "on_completion E ty (dl_payload d) eid db = (r, db')"
        "res = (case r of Inl e \<Rightarrow> Inl e | Inr _ \<Rightarrow> Inr ())"
      using assms(1) step by (auto simp: orch_dispatch_def split: prod.splits sum.splits)
    from on_completion_run [OF r(1) assms(2)] r(2) assms(3) show ?thesis by (auto split: sum.splits)
  next
    case other
    with assms(1) show ?thesis by (simp add: orch_dispatch_def)
  qed
qed

text \<open>C4: the orchestrator's worker is a run of the state machine: whatever event is delivered, in whatever
  order and however often, handling it takes the database from a reachable state to a reachable
  state, also when it raises (a run with losses) and without a loss when it returns. Everything that
  holds of the reachable states therefore holds of the program that consumes the queue.\<close>

theorem worker_refines_machine:
  assumes "orch_reachable E lossy \<lparr>o_db = wk_store w, o_tasks = ts\<rparr>" and "fresh_event eid (wk_store w)"
    and "orch_handle E L uuid4 new_id eid ty d w = (res, w')" and "lossy \<or> res = Inr ()"
  shows "orch_reachable E lossy \<lparr>o_db = wk_store w', o_tasks = ts\<rparr>"
proof (cases "dl_id d \<in> set (wk_seen w)")
  case True
  with assms(1,3) show ?thesis by (simp add: orch_handle_def)
next
  case False
  obtain r db' where r: "orch_dispatch E L uuid4 new_id eid ty d (wk_store w) = (r, db')" by fastforce
  have w': "wk_store w' = db'" "res = r"
    using assms(3) False r by (auto simp: orch_handle_def remember_event_def split: sum.splits)
  have "(orch_step E lossy)\<^sup>*\<^sup>* \<lparr>o_db = wk_store w, o_tasks = ts\<rparr> \<lparr>o_db = db', o_tasks = ts\<rparr>"
    by (rule orch_dispatch_run [OF r assms(2)]) (use assms(4) w'(2) in auto)
  with orch_reachable_steps [OF assms(1)] w'(1) show ?thesis by simp
qed

definition demo_request :: delivery where
  "demo_request = \<lparr>dl_id = ''m'', dl_payload = [(''workflow_id'', JStr ''w''), (''goal'', JStr ''site_audit''),
     (''inputs'', JObj demo_inputs)], dl_tenant_id = None, dl_project_id = None, dl_correlation_id = None\<rparr>"

definition no_llm :: llm where
  "no_llm = \<lparr>llm_available = False, llm_ask = (\<lambda>_. Inl [])\<rparr>"

theorem worker_refines_machine_witness:
  "orch_reachable demo_env True \<lparr>o_db = wk_store (snd (orch_handle demo_env no_llm demo_uuid ''n'' ''e0''
     ''workflow.requested'' demo_request \<lparr>wk_store = demo_db, wk_seen = [], wk_emitted = []\<rparr>)), o_tasks = []\<rparr>"
proof -
  let ?w = "\<lparr>wk_store = demo_db, wk_seen = [], wk_emitted = []\<rparr>"
  obtain res w' where h: "orch_handle demo_env no_llm demo_uuid ''n'' ''e0'' ''workflow.requested'' demo_request ?w = (res, w')"
    by fastforce
  have r: "orch_reachable demo_env True \<lparr>o_db = wk_store ?w, o_tasks = []\<rparr>"
    using demo_init by (auto simp: orch_reachable_def idle_orch_def)
  have f: "fresh_event ''e0'' (wk_store ?w)" by (simp add: fresh_event_def demo_db_def empty_outbox_def)
  from worker_refines_machine [OF r f h] h show ?thesis by simp
qed

text \<open>A request for a workflow that exists starts nothing: delivered again, or by another process, it is
  acknowledged and neither the workflow nor the outbox changes; and a workflow that the model has
  summarised is not summarised again.\<close>

lemma repeated_events_change_nothing:
  assumes "get_workflow db wid None = Some flow" and "dget (dl_payload d) ''workflow_id'' = JStr wid" and "wid \<noteq> []"
  shows "(validate_event (ee_contracts E) ''workflow.requested'' (dl_payload d) = Inr () \<longrightarrow>
            orch_dispatch E L uuid4 new_id eid ''workflow.requested'' d db = (Inr (), db)) \<and>
         (w_report flow = Some rep \<and> written_by_ai rep = Inr True \<longrightarrow>
            orch_dispatch E L uuid4 new_id eid ''workflow.completed'' d db = (Inr (), db))"
  using assms by (simp add: orch_dispatch_def start_requested_def summarise_completed_def wanted_id_def)

end
