(* ===== verification/Civil_Time.thy ===== *)
theory Civil_Time
  imports Py_Prelude "HOL-Library.Product_Lexorder"
begin

text \<open>
  The part of Python's \<^verbatim>\<open>datetime\<close> and \<^verbatim>\<open>calendar\<close> the scheduler uses: the proleptic Gregorian calendar
  with its day numbers (\<^verbatim>\<open>toordinal\<close>, \<^verbatim>\<open>fromordinal\<close>, \<^verbatim>\<open>weekday\<close>, \<^verbatim>\<open>monthrange\<close>), wall-clock times with a
  fold, and time zones given by their UTC offsets. A length of time is a number of microseconds; an
  instant is the microseconds of its UTC wall clock, counted from day 0 of the calendar.
\<close>

named_theorems calendar_simps \<open>unfolding rules of the calendar\<close>

subsection \<open>Days\<close>

definition is_leap :: "int \<Rightarrow> bool" where
  "is_leap y \<longleftrightarrow> y mod 4 = 0 \<and> (y mod 100 \<noteq> 0 \<or> y mod 400 = 0)"

definition days_in_year :: "int \<Rightarrow> int" where
  "days_in_year y = (if is_leap y then 366 else 365)"

definition days_before_year :: "int \<Rightarrow> int" where
  "days_before_year y = (let z = y - 1 in z * 365 + z div 4 - z div 100 + z div 400)"

text \<open>The second component of \<^verbatim>\<open>calendar.monthrange\<close>.\<close>

definition days_in_month :: "int \<Rightarrow> int \<Rightarrow> int" where
  "days_in_month y m =
     (if m = 2 then (if is_leap y then 29 else 28) else if m \<in> {4, 6, 9, 11} then 30 else 31)"

fun days_before :: "int \<Rightarrow> nat \<Rightarrow> int" where
  "days_before y 0 = 0"
| "days_before y (Suc k) = days_before y k + days_in_month y (int (Suc k))"

definition days_before_month :: "int \<Rightarrow> int \<Rightarrow> int" where
  "days_before_month y m = days_before y (nat (m - 1))"

definition ymd2ord :: "int \<Rightarrow> int \<Rightarrow> int \<Rightarrow> int" where
  "ymd2ord y m d = days_before_year y + days_before_month y m + d"

text \<open>The other way: the year, then the month, is the last one that starts before the day.\<close>

lemma div_step:
  assumes "(0 :: int) < n"
  shows "(z + 1) div n = z div n + (if (z + 1) mod n = 0 then 1 else 0)"
proof (cases "z mod n + 1 = n")
  case True
  have "n * (z div n) + z mod n = z" by (rule mult_div_mod_eq)
  with True have "z + 1 = n * (z div n) + n" by linarith
  then have "z + 1 = n * (z div n + 1)" by (simp only: distrib_left mult_1_right)
  with assms show ?thesis by simp
next
  case False
  have z: "z + 1 = n * (z div n) + (z mod n + 1)"
    using mult_div_mod_eq [of n z] by simp
  have r: "0 \<le> z mod n + 1" "z mod n + 1 < n"
    using assms False pos_mod_bound [of n z] pos_mod_sign [of n z] by linarith+
  from int_div_pos_eq [OF z r] int_mod_pos_eq [OF z r] pos_mod_sign [OF assms, of z] show ?thesis by simp
qed

lemma days_before_year_Suc: "days_before_year (y + 1) = days_before_year y + days_in_year y"
proof -
  have d: "(y + 1 - 1) div n = (y - 1) div n + (if y mod n = 0 then 1 else 0)" if "0 < n" for n
    using div_step [OF that, of "y - 1"] by (simp only: diff_add_cancel add_diff_cancel_right')
  have m: "y mod 400 = 0 \<Longrightarrow> y mod 100 = 0" "y mod 100 = 0 \<Longrightarrow> y mod 4 = 0"
    using dvd_trans [of 100 400 y] dvd_trans [of 4 100 y] by (simp_all flip: dvd_eq_mod_eq_0)
  define a b c where "a = (y - 1) div 4" and "b = (y - 1) div 100" and "c = (y - 1) div 400"
  define p q r where "p \<longleftrightarrow> y mod 4 = 0" and "q \<longleftrightarrow> y mod 100 = 0" and "r \<longleftrightarrow> y mod 400 = 0"
  have "(y + 1 - 1) div 4 = a + (if p then 1 else 0)" "(y + 1 - 1) div 100 = b + (if q then 1 else 0)"
    "(y + 1 - 1) div 400 = c + (if r then 1 else 0)"
    unfolding a_def b_def c_def p_def q_def r_def by (rule d; simp only: zero_less_numeral)+
  note days = this
  show ?thesis
    unfolding days_before_year_def Let_def days_in_year_def is_leap_def days
    unfolding a_def [symmetric] b_def [symmetric] c_def [symmetric] p_def [symmetric] q_def [symmetric] r_def [symmetric]
    using m unfolding p_def [symmetric] q_def [symmetric] r_def [symmetric] by (cases p; cases q; cases r) simp_all
qed

lemma days_in_year_bounds: "365 \<le> days_in_year y" "days_in_year y \<le> 366"
  by (simp_all add: days_in_year_def)

lemma days_before_year_mono: "y \<le> z \<Longrightarrow> days_before_year y \<le> days_before_year z"
proof (induction z rule: int_ge_induct)
  case (step z)
  with days_before_year_Suc [of z] days_in_year_bounds(1) [of z] show ?case by simp
qed simp

function year_from :: "int \<Rightarrow> int \<Rightarrow> int" where
  "year_from n y = (if n \<le> days_before_year (y + 1) then y else year_from n (y + 1))"
  by auto

termination
proof (relation "measure (\<lambda>(n, y). nat (n - days_before_year y))")
  fix n y :: int
  assume "\<not> n \<le> days_before_year (y + 1)"
  then show "((n, y + 1), n, y) \<in> measure (\<lambda>(n, y). nat (n - days_before_year y))"
    using days_before_year_Suc [of y] days_in_year_bounds(1) [of y] by simp
qed simp

declare year_from.simps [simp del]

fun month_from :: "int \<Rightarrow> int \<Rightarrow> nat \<Rightarrow> int \<times> int" where
  "month_from y d 0 = (12, d)"
| "month_from y d (Suc k) =
     (let m = 12 - int k in
      if d \<le> days_in_month y m \<or> k = 0 then (m, d) else month_from y (d - days_in_month y m) k)"

text \<open>\<^verbatim>\<open>n // 366 + 1\<close> is never after the year of day \<^verbatim>\<open>n\<close>.\<close>

definition ord2ymd :: "int \<Rightarrow> int \<times> int \<times> int" where
  "ord2ymd n =
     (let y = year_from n ((n - 1) div 366 + 1);
          (m, d) = month_from y (n - days_before_year y) 12
      in (y, m, d))"

subsection \<open>Facts of the calendar\<close>

definition valid_date :: "int \<Rightarrow> int \<Rightarrow> int \<Rightarrow> bool" where
  "valid_date y m d \<longleftrightarrow> 1 \<le> m \<and> m \<le> 12 \<and> 1 \<le> d \<and> d \<le> days_in_month y m"

lemma days_in_month_bounds: "28 \<le> days_in_month y m" "days_in_month y m \<le> 31"
  by (simp_all add: days_in_month_def)

lemma days_before_month_Suc:
  "1 \<le> m \<Longrightarrow> days_before_month y (m + 1) = days_before_month y m + days_in_month y m"
proof -
  assume "1 \<le> m"
  then have "nat (m + 1 - 1) = Suc (nat (m - 1))" "int (Suc (nat (m - 1))) = m" by simp_all
  then show ?thesis by (simp only: days_before_month_def days_before.simps)
qed

lemma days_before_month_1: "days_before_month y 1 = 0"
  by (simp add: days_before_month_def)

lemma days_before_month_13: "days_before_month y 13 = days_in_year y"
  by (simp add: days_before_month_def eval_nat_numeral days_in_month_def days_in_year_def)

lemma days_before_month_mono:
  assumes "1 \<le> l" and "l \<le> m" shows "days_before_month y l \<le> days_before_month y m"
  using assms(2)
proof (induction m rule: int_ge_induct)
  case (step m)
  with assms(1) days_before_month_Suc [of m y] days_in_month_bounds(1) [of y m] show ?case by simp
qed simp

lemma ord_in_month:
  assumes "valid_date y m d"
  shows "days_before_year y + days_before_month y m < ymd2ord y m d"
    "ymd2ord y m d \<le> days_before_year y + days_before_month y (m + 1)"
  using assms days_before_month_Suc [of m y] by (simp_all add: valid_date_def ymd2ord_def)

lemma ord_in_year:
  assumes "valid_date y m d"
  shows "days_before_year y < ymd2ord y m d" "ymd2ord y m d \<le> days_before_year (y + 1)"
proof -
  have m: "1 \<le> m" "m + 1 \<le> 13" using assms by (simp_all add: valid_date_def)
  have "days_before_month y 1 \<le> days_before_month y m" using m by (intro days_before_month_mono) simp_all
  then show "days_before_year y < ymd2ord y m d"
    using ord_in_month(1) [OF assms] days_before_month_1 [of y] by simp
  have "days_before_month y (m + 1) \<le> days_before_month y 13" using m by (intro days_before_month_mono) simp_all
  then show "ymd2ord y m d \<le> days_before_year (y + 1)"
    using ord_in_month(2) [OF assms] days_before_month_13 [of y] days_before_year_Suc [of y] by simp
qed

text \<open>Day numbers are ordered as dates are.\<close>

lemma ord_month_less:
  assumes "valid_date y m d" and "valid_date z l e" and "y < z \<or> y = z \<and> m < l"
  shows "ymd2ord y m d < ymd2ord z l e"
proof (cases "y < z")
  case True
  then have "days_before_year (y + 1) \<le> days_before_year z" by (intro days_before_year_mono) simp
  with ord_in_year [OF assms(1)] ord_in_year [OF assms(2)] show ?thesis by simp
next
  case False
  with assms(3) have "y = z" "m + 1 \<le> l" by simp_all
  moreover have "1 \<le> m + 1" using assms(1) by (simp add: valid_date_def)
  ultimately have "days_before_month y (m + 1) \<le> days_before_month y l" by (intro days_before_month_mono)
  with ord_in_month [OF assms(1)] ord_in_month [OF assms(2)] \<open>y = z\<close> show ?thesis by simp
qed

lemma ord_inject:
  assumes "valid_date y m d" and "valid_date z l e" and "ymd2ord y m d = ymd2ord z l e"
  shows "y = z" "m = l" "d = e"
proof -
  have "\<not> (y < z \<or> y = z \<and> m < l)" "\<not> (z < y \<or> z = y \<and> l < m)"
    using ord_month_less [OF assms(1,2)] ord_month_less [OF assms(2,1)] assms(3) by auto
  then show "y = z" "m = l" by linarith+
  with assms(3) show "d = e" by (simp add: ymd2ord_def)
qed

lemma year_from_bounds:
  "days_before_year y < n \<Longrightarrow>
     days_before_year (year_from n y) < n \<and> n \<le> days_before_year (year_from n y + 1)"
proof (induction n y rule: year_from.induct)
  case (1 n y)
  then show ?case by (subst (1 2) year_from.simps) auto
qed

lemma first_guess: "1 \<le> n \<Longrightarrow> days_before_year ((n - 1) div 366 + 1) < n"
proof -
  assume n: "1 \<le> n"
  let ?z = "(n - 1) div 366"
  have "?z div 4 \<le> ?z" "0 \<le> ?z div 100" "?z div 400 \<le> ?z div 100"
    using n by (simp_all add: pos_imp_zdiv_nonneg_iff zdiv_mono2 div_le_dividend)
  then have "days_before_year (?z + 1) \<le> ?z * 366"
    unfolding days_before_year_def Let_def add_diff_cancel_right' by linarith
  moreover have "?z * 366 + (n - 1) mod 366 = n - 1" by (rule div_mult_mod_eq)
  moreover have "0 \<le> (n - 1) mod 366" by (rule pos_mod_sign) simp
  ultimately show ?thesis by linarith
qed

lemma month_from_valid:
  assumes "month_from y d k = (m, e)" and "1 \<le> k" "k \<le> 12" "1 \<le> d"
    and "days_before_month y (13 - int k) + d \<le> days_in_year y"
  shows "valid_date y m e \<and> days_before_month y m + e = days_before_month y (13 - int k) + d"
  using assms
proof (induction y d k arbitrary: m e rule: month_from.induct)
  case (2 y d k)
  let ?m = "12 - int k"
  have next_m: "days_before_month y (?m + 1) = days_before_month y ?m + days_in_month y ?m"
    using "2.prems"(3) by (intro days_before_month_Suc) simp
  show ?case
  proof (cases "d \<le> days_in_month y ?m \<or> k = 0")
    case True
    then have "m = ?m" "e = d" using "2.prems"(1) by (simp_all add: Let_def split: if_splits)
    moreover have "d \<le> days_in_month y ?m"
      using True next_m "2.prems"(5) days_before_month_13 [of y] by (auto simp: algebra_simps)
    ultimately show ?thesis using "2.prems" by (auto simp: valid_date_def)
  next
    case False
    then have "month_from y (d - days_in_month y ?m) k = (m, e)" "1 \<le> k" "k \<le> 12" "1 \<le> d - days_in_month y ?m"
      using "2.prems" by (simp_all add: Let_def)
    moreover have "13 - int k = ?m + 1" by simp
    ultimately show ?thesis
      using "2.IH" [OF refl False] "2.prems"(5) next_m by (simp add: algebra_simps)
  qed
qed simp

lemma ord2ymd_valid:
  assumes "1 \<le> n" and "ord2ymd n = (y, m, d)"
  shows "valid_date y m d \<and> ymd2ord y m d = n"
proof -
  have y: "y = year_from n ((n - 1) div 366 + 1)"
    using assms(2) by (simp add: ord2ymd_def Let_def split: prod.splits)
  have md: "month_from y (n - days_before_year y) 12 = (m, d)"
    using assms(2) unfolding ord2ymd_def Let_def y [symmetric] by (simp split: prod.splits)
  have b: "days_before_year y < n" "n \<le> days_before_year (y + 1)"
    using year_from_bounds [OF first_guess [OF assms(1)]] y by simp_all
  then have "valid_date y m d \<and> days_before_month y m + d = days_before_month y (13 - int 12) + (n - days_before_year y)"
    using days_before_year_Suc [of y] days_before_month_1 [of y] by (intro month_from_valid [OF md]) simp_all
  then show ?thesis by (simp add: ymd2ord_def days_before_month_1)
qed

lemma ord2ymd_inverse: "valid_date y m d \<Longrightarrow> 1 \<le> ymd2ord y m d \<Longrightarrow> ord2ymd (ymd2ord y m d) = (y, m, d)"
proof -
  assume v: "valid_date y m d" and n: "1 \<le> ymd2ord y m d"
  obtain a b c where o: "ord2ymd (ymd2ord y m d) = (a, b, c)" by (cases "ord2ymd (ymd2ord y m d)")
  from ord2ymd_valid [OF n o] ord_inject [OF _ v, of a b c] o show ?thesis by simp
qed

subsection \<open>Wall-clock times\<close>

record wall =
  w_year :: int
  w_month :: int
  w_day :: int
  w_hour :: int
  w_minute :: int
  w_second :: int
  w_micro :: int
  w_fold :: bool

definition HOUR :: int where "HOUR = 3600000000"
definition DAY :: int where "DAY = 24 * HOUR"

lemma HOUR_pos [simp]: "0 < HOUR"
  by (simp add: HOUR_def)

lemma DAY_pos [simp]: "0 < DAY"
  by (simp add: DAY_def HOUR_def)

definition time_of_day :: "wall \<Rightarrow> int" where
  "time_of_day w = ((w_hour w * 60 + w_minute w) * 60 + w_second w) * 1000000 + w_micro w"

definition day_of :: "wall \<Rightarrow> int" where
  "day_of w = ymd2ord (w_year w) (w_month w) (w_day w)"

definition stamp :: "wall \<Rightarrow> int" where
  "stamp w = day_of w * DAY + time_of_day w"

text \<open>The wall clock at a position; outside the years 1 to 9999 Python raises.\<close>

definition wall_of :: "int \<Rightarrow> bool \<Rightarrow> wall py" where
  "wall_of n later =
     (if n < DAY \<or> days_before_year 10000 < n div DAY then Inl OverflowError
      else (case ord2ymd (n div DAY) of (y, m, d) \<Rightarrow>
        (let t = n mod DAY in
         Inr \<lparr>w_year = y, w_month = m, w_day = d, w_hour = t div HOUR, w_minute = t div 60000000 mod 60,
              w_second = t div 1000000 mod 60, w_micro = t mod 1000000, w_fold = later\<rparr>)))"

text \<open>Comparison of two times of one zone: field by field, the fold ignored.\<close>

definition wall_key :: "wall \<Rightarrow> int \<times> int \<times> int \<times> int \<times> int \<times> int \<times> int" where
  "wall_key w = (w_year w, w_month w, w_day w, w_hour w, w_minute w, w_second w, w_micro w)"

definition wall_less :: "wall \<Rightarrow> wall \<Rightarrow> bool" where
  "wall_less a b \<longleftrightarrow> wall_key a < wall_key b"

text \<open>\<^verbatim>\<open>w.weekday()\<close>, Monday being 0, and \<^verbatim>\<open>w + timedelta(days=k)\<close>, which forgets the fold.\<close>

definition weekday_of :: "wall \<Rightarrow> int" where
  "weekday_of w = (day_of w + 6) mod 7"

definition add_days :: "int \<Rightarrow> wall \<Rightarrow> wall py" where
  "add_days k w = wall_of (stamp w + k * DAY) False"

definition valid_wall :: "wall \<Rightarrow> bool" where
  "valid_wall w \<longleftrightarrow> valid_date (w_year w) (w_month w) (w_day w) \<and> 0 \<le> w_hour w \<and> w_hour w < 24 \<and>
     0 \<le> w_minute w \<and> w_minute w < 60 \<and> 0 \<le> w_second w \<and> w_second w < 60 \<and>
     0 \<le> w_micro w \<and> w_micro w < 1000000"

lemma time_of_day_bounds: "valid_wall w \<Longrightarrow> 0 \<le> time_of_day w \<and> time_of_day w < DAY"
  by (simp add: valid_wall_def time_of_day_def DAY_def HOUR_def)

lemma stamp_split:
  assumes "valid_wall w" shows "stamp w div DAY = day_of w" "stamp w mod DAY = time_of_day w"
proof -
  have s: "stamp w = DAY * day_of w + time_of_day w" by (simp add: stamp_def)
  from time_of_day_bounds [OF assms] show "stamp w div DAY = day_of w" "stamp w mod DAY = time_of_day w"
    by (auto intro: int_div_pos_eq [OF s] int_mod_pos_eq [OF s])
qed

lemma mixed_radix:
  assumes "(a :: int) < b" and "r < n" and "0 \<le> s" and "0 \<le> n"
  shows "a * n + r < b * n + s"
proof -
  have "(a + 1) * n \<le> b * n" using assms(1,4) by (intro mult_right_mono) simp_all
  with assms(2,3) show ?thesis by (simp add: distrib_right)
qed

lemma day_less_stamp_less:
  assumes "valid_wall a" and "valid_wall b" and "day_of a < day_of b"
  shows "stamp a < stamp b"
  unfolding stamp_def using assms time_of_day_bounds [OF assms(1)] time_of_day_bounds [OF assms(2)]
  by (intro mixed_radix) simp_all

lemma wall_key_stamp:
  assumes a: "valid_wall a" and b: "valid_wall b" and less: "wall_key a < wall_key b"
  shows "stamp a < stamp b"
proof (cases "w_year a < w_year b \<or> w_year a = w_year b \<and> w_month a < w_month b")
  case True
  with a b have "day_of a < day_of b"
    unfolding day_of_def valid_wall_def by (intro ord_month_less) simp_all
  with a b show ?thesis by (rule day_less_stamp_less)
next
  case False
  with less have y: "w_year a = w_year b" "w_month a = w_month b"
    by (auto simp: wall_key_def less_prod_def')
  show ?thesis
  proof (cases "w_day a < w_day b")
    case True
    with y have "day_of a < day_of b" by (simp add: day_of_def ymd2ord_def)
    with a b show ?thesis by (rule day_less_stamp_less)
  next
    case False
    with less y have d: "w_day a = w_day b" and t: "(w_hour a, w_minute a, w_second a, w_micro a) <
        (w_hour b, w_minute b, w_second b, w_micro b)"
      by (auto simp: wall_key_def less_prod_def')
    from t consider "w_hour a < w_hour b" | "w_hour a = w_hour b" "w_minute a < w_minute b"
      | "w_hour a = w_hour b" "w_minute a = w_minute b" "w_second a < w_second b"
      | "w_hour a = w_hour b" "w_minute a = w_minute b" "w_second a = w_second b" "w_micro a < w_micro b"
      by (auto simp: less_prod_def')
    moreover have "0 \<le> w_minute b" "0 \<le> w_second b" "0 \<le> w_micro b" "w_minute a < 60" "w_second a < 60"
      "w_micro a < 1000000" using a b by (simp_all add: valid_wall_def)
    ultimately have "time_of_day a < time_of_day b"
      unfolding time_of_day_def by cases (simp_all add: mixed_radix)
    with y d show ?thesis by (simp add: stamp_def day_of_def)
  qed
qed

lemma wall_less_iff:
  assumes "valid_wall a" and "valid_wall b"
  shows "wall_less a b \<longleftrightarrow> stamp a < stamp b"
proof (cases "wall_key a" "wall_key b" rule: linorder_cases)
  case equal
  then have "stamp a = stamp b" by (simp add: wall_key_def stamp_def day_of_def time_of_day_def)
  with equal show ?thesis by (simp add: wall_less_def)
qed (use assms wall_key_stamp [OF assms] wall_key_stamp [OF assms(2,1)] in \<open>auto simp: wall_less_def\<close>)

lemma time_fields:
  assumes "0 \<le> t" and "t < DAY"
  shows "0 \<le> t div HOUR \<and> t div HOUR < 24 \<and>
    ((t div HOUR * 60 + t div 60000000 mod 60) * 60 + t div 1000000 mod 60) * 1000000 + t mod 1000000 = t"
proof -
  define q where "q = t div 1000000"
  have e: "(60000000 :: int) = 1000000 * 60" "HOUR = 1000000 * 60 * 60" by (simp_all add: HOUR_def)
  have m: "t div 60000000 = q div 60" and h: "t div HOUR = q div 60 div 60"
    unfolding q_def e by (simp_all only: zdiv_zmult2_eq zero_le_numeral)
  have lo: "0 \<le> t div HOUR" using assms(1) pos_imp_zdiv_nonneg_iff [OF HOUR_pos] by (simp only:)
  have "t div HOUR \<le> (DAY - 1) div HOUR"
    using assms(2) by (intro zdiv_mono1) simp_all
  also have "\<dots> = 23" by (simp add: DAY_def HOUR_def)
  finally have hi: "t div HOUR < 24" by (rule order.strict_trans1) simp
  have "(q div 60 div 60 * 60 + q div 60 mod 60) * 60 + q mod 60 = q"
    by (simp only: div_mult_mod_eq)
  then have "((t div HOUR * 60 + t div 60000000 mod 60) * 60 + t div 1000000 mod 60) * 1000000 + t mod 1000000 = t"
    unfolding m h by (simp only: q_def div_mult_mod_eq)
  with lo hi show ?thesis by blast
qed

lemma wall_of_valid:
  assumes "wall_of n later = Inr w"
  shows "valid_wall w \<and> stamp w = n \<and> w_fold w = later"
proof -
  define k t where "k = n div DAY" and "t = n mod DAY"
  obtain y m d where o: "ord2ymd k = (y, m, d)" by (cases "ord2ymd k")
  have n: "DAY \<le> n" using assms by (simp add: wall_of_def split: if_splits)
  have "DAY div DAY \<le> k" unfolding k_def by (rule zdiv_mono1 [OF n DAY_pos])
  moreover have "DAY div DAY = 1" by (simp add: DAY_def HOUR_def)
  ultimately have "1 \<le> k" by simp
  from ord2ymd_valid [OF this o] have v: "valid_date y m d" "ymd2ord y m d = k" by simp_all
  have t: "0 \<le> t" "t < DAY" by (simp_all add: t_def)
  have w: "w = \<lparr>w_year = y, w_month = m, w_day = d, w_hour = t div HOUR, w_minute = t div 60000000 mod 60,
              w_second = t div 1000000 mod 60, w_micro = t mod 1000000, w_fold = later\<rparr>"
    using assms o unfolding wall_of_def k_def [symmetric] t_def [symmetric] by (simp add: Let_def split: if_splits)
  have "time_of_day w = t"
    unfolding w time_of_day_def wall.select_convs by (rule time_fields [OF t, THEN conjunct2, THEN conjunct2])
  moreover have "k * DAY + t = n" unfolding k_def t_def by (rule div_mult_mod_eq)
  ultimately have "stamp w = n" using v(2) by (simp add: stamp_def day_of_def w)
  moreover have "valid_wall w"
    unfolding valid_wall_def w wall.select_convs
    by (intro conjI v(1) time_fields [OF t, THEN conjunct1] time_fields [OF t, THEN conjunct2, THEN conjunct1]) simp_all
  ultimately show ?thesis by (simp add: w)
qed

lemma wall_of_in_range:
  assumes "DAY \<le> n" and "n div DAY \<le> days_before_year 10000"
  shows "\<exists>w. wall_of n later = Inr w"
  using assms by (auto simp: wall_of_def Let_def split: prod.splits)

end
