(* ===== verification/Next_Run.thy ===== *)
theory Next_Run
  imports Civil_Time
begin

text \<open>
  The timing of \<^verbatim>\<open>src/agents/orchestrator/schedules.py\<close>: \<^verbatim>\<open>zone\<close>, \<^verbatim>\<open>next_run\<close> and \<^verbatim>\<open>_monthly\<close>. The time
  zone database is a parameter: a zone gives the offset in force at an instant, whether the wall
  clock then shows a time for the second time, and the offset it attributes to a wall clock time.
\<close>

definition CADENCES :: "string list" where
  "CADENCES = [''daily'', ''weekly'', ''monthly'']"

record tzinfo =
  tz_offset :: "int \<Rightarrow> int"
  tz_fold :: "int \<Rightarrow> bool"
  tz_wall_offset :: "int \<Rightarrow> bool \<Rightarrow> int"

type_synonym tzdb = "string \<Rightarrow> tzinfo option"

definition zone :: "tzdb \<Rightarrow> string \<Rightarrow> tzinfo py" where
  "zone db name =
     (case db name of None \<Rightarrow> Inl (InvalidSchedule (''unknown timezone '' @ name)) | Some z \<Rightarrow> Inr z)"

text \<open>\<^verbatim>\<open>t.astimezone(zone)\<close> of an instant and \<^verbatim>\<open>w.astimezone(timezone.utc)\<close> of a wall clock time.\<close>

definition to_local :: "tzinfo \<Rightarrow> int \<Rightarrow> wall py" where
  "to_local z t = wall_of (t + tz_offset z t) (tz_fold z t)"

definition to_utc :: "tzinfo \<Rightarrow> wall \<Rightarrow> int py" where
  "to_utc z w =
     (let t = stamp w - tz_wall_offset z (stamp w) (w_fold w)
      in bindE (wall_of t False) (\<lambda>_. Inr t))"

definition at_hour :: "int \<Rightarrow> wall \<Rightarrow> wall" where
  "at_hour hour w = w\<lparr>w_hour := hour, w_minute := 0, w_second := 0, w_micro := 0\<rparr>"

text \<open>\<^verbatim>\<open>moment.replace(year=..., month=..., day=..., hour=...)\<close>, which refuses the year 10000.\<close>

definition month_candidate :: "wall \<Rightarrow> int \<Rightarrow> int \<Rightarrow> int \<Rightarrow> int \<Rightarrow> wall py" where
  "month_candidate moment hour day_of_month year month =
     (if 9999 < year then Inl (ValueError ''year is out of range'')
      else Inr (at_hour hour (moment\<lparr>w_year := year, w_month := month,
                                    w_day := min day_of_month (days_in_month year month)\<rparr>)))"

definition month_after :: "int \<times> int \<Rightarrow> int \<times> int" where
  "month_after ym = (case ym of (year, month) \<Rightarrow> if month = 12 then (year + 1, 1) else (year, month + 1))"

fun monthly_loop :: "nat \<Rightarrow> wall \<Rightarrow> int \<Rightarrow> int \<Rightarrow> int \<times> int \<Rightarrow> wall py" where
  "monthly_loop 0 moment hour day_of_month ym =
     Inl (InvalidSchedule ''could not find a next monthly occurrence'')"
| "monthly_loop (Suc k) moment hour day_of_month ym =
     bindE (month_candidate moment hour day_of_month (fst ym) (snd ym)) (\<lambda>candidate.
       if wall_less moment candidate then Inr candidate
       else monthly_loop k moment hour day_of_month (month_after ym))"

definition monthly :: "wall \<Rightarrow> int \<Rightarrow> int \<Rightarrow> wall py" where
  "monthly moment hour day_of_month =
     monthly_loop 2 moment hour day_of_month (w_year moment, w_month moment)"

definition daily :: "wall \<Rightarrow> int \<Rightarrow> wall py" where
  "daily moment hour =
     (let candidate = at_hour hour moment in
      if wall_less moment candidate then Inr candidate else add_days 1 candidate)"

definition weekly :: "wall \<Rightarrow> int \<Rightarrow> int \<Rightarrow> wall py" where
  "weekly moment hour weekday =
     (let candidate = at_hour hour moment;
          ahead = (weekday - weekday_of candidate) mod 7
      in bindE (add_days ahead candidate) (\<lambda>candidate.
           if wall_less moment candidate then Inr candidate else add_days 7 candidate))"

text \<open>Which wall clock time a schedule means next, and the instant it names.\<close>

definition candidate_of :: "string \<Rightarrow> int \<Rightarrow> int \<Rightarrow> int \<Rightarrow> wall \<Rightarrow> wall py" where
  "candidate_of cadence hour weekday day_of_month moment =
     (if cadence = ''daily'' then daily moment hour
      else if cadence = ''weekly'' then
        (if 0 \<le> weekday \<and> weekday \<le> 6 then weekly moment hour weekday
         else Inl (InvalidSchedule ''weekday must be 0-6''))
      else
        (if 1 \<le> day_of_month \<and> day_of_month \<le> 31 then monthly moment hour day_of_month
         else Inl (InvalidSchedule ''day_of_month must be 1-31'')))"

definition next_run :: "tzdb \<Rightarrow> string \<Rightarrow> int \<Rightarrow> int \<Rightarrow> int \<Rightarrow> string \<Rightarrow> int \<Rightarrow> int py" where
  "next_run db cadence hour weekday day_of_month tz after =
     (if cadence \<notin> set CADENCES then Inl (InvalidSchedule (''unknown cadence '' @ cadence))
      else if \<not> (0 \<le> hour \<and> hour \<le> 23) then Inl (InvalidSchedule ''hour must be 0-23'')
      else bindE (zone db tz) (\<lambda>local_zone.
           bindE (to_local local_zone after) (\<lambda>moment.
           bindE (candidate_of cadence hour weekday day_of_month moment) (\<lambda>candidate.
             to_utc local_zone candidate))))"

subsection \<open>What a schedule means\<close>

text \<open>The wall clock times a schedule names.\<close>

definition occurrence :: "string \<Rightarrow> int \<Rightarrow> int \<Rightarrow> int \<Rightarrow> wall \<Rightarrow> bool" where
  "occurrence cadence hour weekday day_of_month w \<longleftrightarrow>
     time_of_day w = hour * HOUR \<and>
     (cadence = ''weekly'' \<longrightarrow> weekday_of w = weekday) \<and>
     (cadence = ''monthly'' \<longrightarrow> w_day w = min day_of_month (days_in_month (w_year w) (w_month w)))"

definition well_formed :: "string \<Rightarrow> int \<Rightarrow> int \<Rightarrow> int \<Rightarrow> bool" where
  "well_formed cadence hour weekday day_of_month \<longleftrightarrow>
     cadence \<in> set CADENCES \<and> 0 \<le> hour \<and> hour \<le> 23 \<and>
     (cadence = ''weekly'' \<longrightarrow> 0 \<le> weekday \<and> weekday \<le> 6) \<and>
     (cadence = ''monthly'' \<longrightarrow> 1 \<le> day_of_month \<and> day_of_month \<le> 31)"

text \<open>The first occurrence after a wall clock time.\<close>

definition first_after :: "(wall \<Rightarrow> bool) \<Rightarrow> wall \<Rightarrow> wall \<Rightarrow> bool" where
  "first_after P moment c \<longleftrightarrow> valid_wall c \<and> P c \<and> stamp moment < stamp c \<and>
     (\<forall>w. valid_wall w \<longrightarrow> P w \<longrightarrow> stamp moment < stamp w \<longrightarrow> stamp c \<le> stamp w)"

lemma at_hour_valid:
  assumes "valid_wall w" and "0 \<le> hour" and "hour \<le> 23"
  shows "valid_wall (at_hour hour w)" "day_of (at_hour hour w) = day_of w"
    "time_of_day (at_hour hour w) = hour * HOUR" "w_year (at_hour hour w) = w_year w"
  using assms by (simp_all add: at_hour_def valid_wall_def day_of_def time_of_day_def HOUR_def)

lemma year_day_bound: "valid_wall w \<Longrightarrow> w_year w \<le> y \<Longrightarrow> day_of w \<le> days_before_year (y + 1)"
  using ord_in_year(2) [of "w_year w" "w_month w" "w_day w"] days_before_year_mono [of "w_year w + 1" "y + 1"]
  by (simp add: valid_wall_def day_of_def)

lemma day_of_pos: "valid_wall w \<Longrightarrow> 1 \<le> w_year w \<Longrightarrow> 1 \<le> day_of w"
  using ord_in_year(1) [of "w_year w" "w_month w" "w_day w"] days_before_year_mono [of 1 "w_year w"]
  by (simp add: valid_wall_def day_of_def days_before_year_def)

lemma days_before_year_10000: "days_before_year 9999 + 365 \<le> days_before_year 10000"
  using days_before_year_Suc [of 9999] days_in_year_bounds(1) [of 9999] by simp

text \<open>Moving a valid time by whole days keeps its time of day.\<close>

lemma add_days_valid:
  assumes "valid_wall w" and "0 \<le> k" and "1 \<le> w_year w" and "day_of w + k \<le> days_before_year 10000"
  shows "\<exists>c. add_days k w = Inr c \<and> valid_wall c \<and> day_of c = day_of w + k \<and>
           time_of_day c = time_of_day w \<and> stamp c = stamp w + k * DAY"
proof -
  have s: "stamp w + k * DAY = DAY * (day_of w + k) + time_of_day w"
    by (simp add: stamp_def algebra_simps)
  note t = time_of_day_bounds [OF assms(1)]
  have d: "(stamp w + k * DAY) div DAY = day_of w + k" "(stamp w + k * DAY) mod DAY = time_of_day w"
    using int_div_pos_eq [OF s] int_mod_pos_eq [OF s] t by blast+
  have "1 * DAY \<le> (day_of w + k) * DAY"
    using day_of_pos [OF assms(1,3)] assms(2) DAY_pos by (intro mult_right_mono) linarith+
  then have lo: "DAY \<le> stamp w + k * DAY" using t by (simp add: stamp_def distrib_right)
  have "\<exists>c. wall_of (stamp w + k * DAY) False = Inr c"
    by (rule wall_of_in_range [OF lo]) (simp only: d assms(4))
  then obtain c where c: "wall_of (stamp w + k * DAY) False = Inr c" by blast
  from wall_of_valid [OF c] have v: "valid_wall c" "stamp c = stamp w + k * DAY" by simp_all
  with stamp_split [OF v(1)] d c show ?thesis by (auto simp: add_days_def)
qed

lemma stamp_less_iff:
  assumes "valid_wall a" and "valid_wall b"
  shows "stamp a < stamp b \<longleftrightarrow> day_of a < day_of b \<or> day_of a = day_of b \<and> time_of_day a < time_of_day b"
proof (cases "day_of a" "day_of b" rule: linorder_cases)
  case equal
  then show ?thesis by (simp add: stamp_def)
qed (use day_less_stamp_less [OF assms] day_less_stamp_less [OF assms(2,1)] in auto)

text \<open>Two times at the same hour are ordered by their days.\<close>

lemma stamp_le_same_time:
  "time_of_day a = time_of_day b \<Longrightarrow> day_of a \<le> day_of b \<Longrightarrow> stamp a \<le> stamp b"
  unfolding stamp_def by (simp add: mult_right_mono)

text \<open>A moment far enough from the ends of the calendar, and an hour of the day.\<close>

definition timely :: "wall \<Rightarrow> int \<Rightarrow> bool" where
  "timely moment hour \<longleftrightarrow> valid_wall moment \<and> 0 \<le> hour \<and> hour \<le> 23 \<and>
     2 \<le> w_year moment \<and> w_year moment \<le> 9998"

lemma today:
  assumes "timely moment hour"
  shows "valid_wall moment" "valid_wall (at_hour hour moment)" "day_of (at_hour hour moment) = day_of moment"
    "time_of_day (at_hour hour moment) = hour * HOUR" "1 \<le> w_year (at_hour hour moment)"
  using assms at_hour_valid [of moment hour] by (simp_all add: timely_def)

lemma shifted:
  assumes "timely moment hour" and "0 \<le> k" and "k \<le> 365"
  shows "\<exists>c. add_days k (at_hour hour moment) = Inr c \<and> valid_wall c \<and> day_of c = day_of moment + k \<and>
           time_of_day c = hour * HOUR \<and> 1 \<le> w_year c"
proof -
  note t = today [OF assms(1)]
  have "day_of (at_hour hour moment) + k \<le> days_before_year 10000"
    using year_day_bound [of moment 9998] days_before_year_10000 assms t by (simp add: timely_def)
  from add_days_valid [OF t(2) assms(2) t(5) this] t obtain c where
    c: "add_days k (at_hour hour moment) = Inr c" "valid_wall c" "day_of c = day_of moment + k" "time_of_day c = hour * HOUR"
    by auto
  have "1 \<le> w_year c"
  proof (rule ccontr)
    assume "\<not> 1 \<le> w_year c"
    then have "day_of c \<le> days_before_year 1" using year_day_bound [OF c(2), of 0] by simp
    with c(3) assms(2) day_of_pos [OF t(2,5)] t(3) show False by (simp add: days_before_year_def)
  qed
  with c show ?thesis by blast
qed

lemma daily_first:
  assumes "timely moment hour"
  shows "\<exists>c. daily moment hour = Inr c \<and> first_after (\<lambda>w. time_of_day w = hour * HOUR) moment c"
proof (cases "stamp moment < stamp (at_hour hour moment)")
  case True
  note t = today [OF assms]
  have "stamp (at_hour hour moment) \<le> stamp w"
    if "valid_wall w" "time_of_day w = hour * HOUR" "stamp moment < stamp w" for w
    using that t by (intro stamp_le_same_time) (auto simp: stamp_less_iff)
  with True t show ?thesis by (simp add: daily_def wall_less_iff first_after_def)
next
  case False
  note t = today [OF assms]
  obtain c where c: "add_days 1 (at_hour hour moment) = Inr c" "valid_wall c" "day_of c = day_of moment + 1"
      "time_of_day c = hour * HOUR"
    using shifted [OF assms, of 1] by auto
  have "stamp c \<le> stamp w" if "valid_wall w" "time_of_day w = hour * HOUR" "stamp moment < stamp w" for w
    using that False t c by (intro stamp_le_same_time) (auto simp: stamp_less_iff)
  with c t(1) have "first_after (\<lambda>w. time_of_day w = hour * HOUR) moment c"
    by (simp add: first_after_def stamp_less_iff)
  with False c(1) t show ?thesis by (simp add: daily_def wall_less_iff)
qed

text \<open>The first day from a given one on that falls on a weekday.\<close>

lemma weekday_ahead:
  fixes n weekday :: int
  assumes "0 \<le> weekday" and "weekday \<le> 6"
  defines "ahead \<equiv> (weekday - (n + 6) mod 7) mod 7"
  shows "(n + ahead + 6) mod 7 = weekday"
    and "n \<le> l \<Longrightarrow> (l + 6) mod 7 = weekday \<Longrightarrow> n + ahead \<le> l"
    and "n + ahead < l \<Longrightarrow> (l + 6) mod 7 = weekday \<Longrightarrow> n + ahead + 7 \<le> l"
proof -
  have "(n + ahead + 6) mod 7 = (n + 6 + ahead) mod 7" by (simp add: ac_simps)
  also have "\<dots> = (n + 6 + (weekday - (n + 6) mod 7)) mod 7" unfolding ahead_def by (rule mod_add_right_eq)
  also have "\<dots> = (n + 6 + weekday - (n + 6) mod 7) mod 7" by (simp only: add_diff_eq)
  also have "\<dots> = (n + 6 + weekday - (n + 6)) mod 7" by (rule mod_diff_right_eq)
  finally have "(n + ahead + 6) mod 7 = weekday mod 7" by simp
  with assms(1,2) show "(n + ahead + 6) mod 7 = weekday" by simp
  have gap: "ahead = (l - n) mod 7" if "(l + 6) mod 7 = weekday"
    unfolding ahead_def that [symmetric] by (simp add: mod_simps)
  show "n + ahead \<le> l" if "n \<le> l" "(l + 6) mod 7 = weekday"
    using gap [OF that(2)] zmod_le_nonneg_dividend [of "l - n" 7] that(1) by simp
  show "n + ahead + 7 \<le> l" if "n + ahead < l" "(l + 6) mod 7 = weekday"
  proof -
    define q where "q = (l - n) div 7"
    have "q * 7 + ahead = l - n" unfolding q_def gap [OF that(2)] by (rule div_mult_mod_eq)
    moreover from this that(1) have "0 < q * 7" by linarith
    then have "1 \<le> q" by (simp add: zero_less_mult_iff)
    ultimately show ?thesis by linarith
  qed
qed

lemma weekly_first:
  assumes "timely moment hour" and wd: "0 \<le> weekday" "weekday \<le> 6"
  shows "\<exists>c. weekly moment hour weekday = Inr c \<and>
    first_after (\<lambda>w. time_of_day w = hour * HOUR \<and> weekday_of w = weekday) moment c"
proof -
  note t = today [OF assms(1)]
  define ahead where "ahead = (weekday - weekday_of (at_hour hour moment)) mod 7"
  have ahead: "ahead = (weekday - (day_of moment + 6) mod 7) mod 7" using t by (simp add: ahead_def weekday_of_def)
  have k: "0 \<le> ahead" "ahead < 7" by (simp_all add: ahead_def)
  obtain b where b: "add_days ahead (at_hour hour moment) = Inr b" "valid_wall b" "day_of b = day_of moment + ahead"
      "time_of_day b = hour * HOUR" "1 \<le> w_year b"
    using shifted [OF assms(1), of ahead] k by auto
  have wb: "weekday_of b = weekday" unfolding weekday_of_def b(3) ahead by (rule weekday_ahead(1) [OF wd])
  have least: "day_of moment \<le> day_of w \<Longrightarrow> weekday_of w = weekday \<Longrightarrow> day_of b \<le> day_of w" for w
    unfolding weekday_of_def b(3) ahead by (rule weekday_ahead(2) [OF wd])
  have after: "day_of b < day_of w \<Longrightarrow> weekday_of w = weekday \<Longrightarrow> day_of b + 7 \<le> day_of w" for w
    unfolding weekday_of_def b(3) ahead by (rule weekday_ahead(3) [OF wd])
  show ?thesis
  proof (cases "stamp moment < stamp b")
    case True
    have "stamp b \<le> stamp w"
      if "valid_wall w" "time_of_day w = hour * HOUR" "weekday_of w = weekday" "stamp moment < stamp w" for w
      using that t(1) b(4) least [of w] by (intro stamp_le_same_time) (auto simp: stamp_less_iff)
    with True b t(1) wb show ?thesis
      by (simp add: weekly_def Let_def wall_less_iff first_after_def ahead_def [symmetric])
  next
    case False
    have room: "day_of b + 7 \<le> days_before_year 10000"
      using year_day_bound [OF t(1), of 9998] assms(1) days_before_year_10000 b(3) k(2) by (simp add: timely_def)
    obtain c where c: "add_days 7 b = Inr c" "valid_wall c" "day_of c = day_of b + 7" "time_of_day c = hour * HOUR"
      using add_days_valid [OF b(2) _ b(5) room] b(4) by auto
    have wc: "weekday_of c = weekday" using wb unfolding weekday_of_def c(3) by presburger
    have "stamp c \<le> stamp w"
      if "valid_wall w" "time_of_day w = hour * HOUR" "weekday_of w = weekday" "stamp moment < stamp w" for w
    proof (rule stamp_le_same_time)
      have "day_of b < day_of w"
        using False that t(1) b least [of w] by (auto simp: stamp_less_iff)
      then show "day_of c \<le> day_of w" using after [of w] that(3) c(3) by simp
    qed (simp add: that c(4))
    moreover have "day_of moment < day_of c" using c(3) b(3) k by simp
    ultimately have "first_after (\<lambda>w. time_of_day w = hour * HOUR \<and> weekday_of w = weekday) moment c"
      using c(2,4) wc t(1) by (simp add: first_after_def stamp_less_iff)
    with False b(1,2) c(1) t(1) show ?thesis
      by (simp add: weekly_def Let_def wall_less_iff ahead_def [symmetric])
  qed
qed

text \<open>Months in a row.\<close>

definition month_index :: "wall \<Rightarrow> int" where
  "month_index w = w_year w * 12 + w_month w"

lemma month_index_less: "valid_wall a \<Longrightarrow> valid_wall b \<Longrightarrow> month_index a < month_index b \<Longrightarrow> day_of a < day_of b"
  unfolding day_of_def valid_wall_def month_index_def
  by (rule ord_month_less) (auto simp: valid_date_def)

lemma month_index_inject:
  "valid_wall a \<Longrightarrow> valid_wall b \<Longrightarrow> month_index a = month_index b \<Longrightarrow> w_year a = w_year b \<and> w_month a = w_month b"
proof -
  assume "valid_wall a" "valid_wall b" and eq: "month_index a = month_index b"
  then have "1 \<le> w_month a" "w_month a \<le> 12" "1 \<le> w_month b" "w_month b \<le> 12"
    by (simp_all add: valid_wall_def valid_date_def)
  with eq show ?thesis unfolding month_index_def by presburger
qed

lemma month_candidate_spec:
  assumes "timely moment hour" and "1 \<le> mday" and "1 \<le> month" "month \<le> 12" and "year \<le> 9999"
  shows "\<exists>c. month_candidate moment hour mday year month = Inr c \<and> valid_wall c \<and> month_index c = year * 12 + month \<and>
           time_of_day c = hour * HOUR \<and> w_day c = min mday (days_in_month (w_year c) (w_month c))"
proof -
  have "valid_wall (moment\<lparr>w_year := year, w_month := month, w_day := min mday (days_in_month year month)\<rparr>)"
    using assms days_in_month_bounds(1) [of year month] by (auto simp: timely_def valid_wall_def valid_date_def)
  from at_hour_valid [OF this, of hour] assms show ?thesis
    by (auto simp: month_candidate_def timely_def month_index_def at_hour_def)
qed

lemma monthly_first:
  assumes "timely moment hour" and mday: "1 \<le> mday"
  defines "P \<equiv> (\<lambda>w. time_of_day w = hour * HOUR \<and> w_day w = min mday (days_in_month (w_year w) (w_month w)))"
  shows "\<exists>c. monthly moment hour mday = Inr c \<and> first_after P moment c"
proof -
  note t = today [OF assms(1)]
  have ym: "1 \<le> w_month moment" "w_month moment \<le> 12" "w_year moment \<le> 9998"
    using assms(1) by (simp_all add: timely_def valid_wall_def valid_date_def)
  obtain c1 where c1: "month_candidate moment hour mday (w_year moment) (w_month moment) = Inr c1" "valid_wall c1"
      "month_index c1 = month_index moment" "P c1"
    using month_candidate_spec [OF assms(1) mday ym(1,2), of "w_year moment"] ym(3)
    by (auto simp: P_def month_index_def)
  obtain y m where ym2: "month_after (w_year moment, w_month moment) = (y, m)" by fastforce
  have m2: "1 \<le> m" "m \<le> 12" "y \<le> 9999" "y * 12 + m = month_index moment + 1"
    using ym2 ym by (auto simp: month_after_def month_index_def split: if_splits)
  obtain c2 where c2: "month_candidate moment hour mday y m = Inr c2" "valid_wall c2"
      "month_index c2 = month_index moment + 1" "P c2"
    using month_candidate_spec [OF assms(1) mday m2(1,2,3)] m2(4) by (auto simp: P_def)
  have same: "stamp a = stamp b" if "valid_wall a" "valid_wall b" "P a" "P b" "month_index a = month_index b" for a b
    using month_index_inject [OF that(1,2,5)] that(3,4) by (simp add: P_def stamp_def day_of_def)
  have later: "stamp a < stamp b" if "valid_wall a" "valid_wall b" "month_index a < month_index b" for a b
    using month_index_less [OF that] that by (simp add: stamp_less_iff)
  have not_before: "month_index moment \<le> month_index w" if "valid_wall w" "stamp moment < stamp w" for w
    using later [of w moment] that t(1) by force
  show ?thesis
  proof (cases "stamp moment < stamp c1")
    case True
    have "stamp c1 \<le> stamp w" if "valid_wall w" "P w" "stamp moment < stamp w" for w
      using not_before [OF that(1,3)] same [OF c1(2) that(1) c1(4) that(2)] later [OF c1(2) that(1)] c1(3)
      by (cases "month_index moment = month_index w") auto
    with True c1 t(1) show ?thesis
      by (simp add: monthly_def eval_nat_numeral wall_less_iff first_after_def)
  next
    case False
    have "stamp c2 \<le> stamp w" if "valid_wall w" "P w" "stamp moment < stamp w" for w
    proof -
      have "month_index moment \<noteq> month_index w"
        using same [OF c1(2) that(1) c1(4) that(2)] c1(3) False that(3) by auto
      with not_before [OF that(1,3)] have "month_index c2 \<le> month_index w" using c2(3) by simp
      with same [OF c2(2) that(1) c2(4) that(2)] later [OF c2(2) that(1)] show ?thesis
        by (cases "month_index c2 = month_index w") auto
    qed
    moreover have "stamp moment < stamp c2" using later [OF t(1) c2(2)] c2(3) by simp
    ultimately show ?thesis
      using False c1(1,2) c2 t(1) ym2
      by (simp add: monthly_def eval_nat_numeral wall_less_iff first_after_def)
  qed
qed

lemma candidate_first:
  assumes "timely moment hour" and "well_formed cadence hour weekday mday"
  shows "\<exists>c. candidate_of cadence hour weekday mday moment = Inr c \<and>
           first_after (occurrence cadence hour weekday mday) moment c"
proof -
  from assms(2) consider "cadence = ''daily''" | "cadence = ''weekly''" "0 \<le> weekday" "weekday \<le> 6"
    | "cadence = ''monthly''" "1 \<le> mday" "mday \<le> 31" by (auto simp: well_formed_def CADENCES_def)
  then show ?thesis
  proof cases
    case 1
    then have "occurrence cadence hour weekday mday = (\<lambda>w. time_of_day w = hour * HOUR)"
      by (simp add: fun_eq_iff occurrence_def)
    with daily_first [OF assms(1)] 1 show ?thesis by (simp add: candidate_of_def)
  next
    case 2
    then have "occurrence cadence hour weekday mday = (\<lambda>w. time_of_day w = hour * HOUR \<and> weekday_of w = weekday)"
      by (simp add: fun_eq_iff occurrence_def)
    with weekly_first [OF assms(1) 2(2,3)] 2 show ?thesis by (simp add: candidate_of_def)
  next
    case 3
    then have "occurrence cadence hour weekday mday =
        (\<lambda>w. time_of_day w = hour * HOUR \<and> w_day w = min mday (days_in_month (w_year w) (w_month w)))"
      by (simp add: fun_eq_iff occurrence_def)
    with monthly_first [OF assms(1) 3(2)] 3 show ?thesis by (simp add: candidate_of_def)
  qed
qed

subsection \<open>Instants\<close>

lemma next_run_first:
  assumes "db tz = Some z" and "well_formed cadence hour weekday mday" and "to_local z after = Inr moment"
    and "2 \<le> w_year moment" "w_year moment \<le> 9998"
  shows "\<exists>c. first_after (occurrence cadence hour weekday mday) moment c \<and>
           next_run db cadence hour weekday mday tz after = to_utc z c"
proof -
  have v: "valid_wall moment" using assms(3) wall_of_valid unfolding to_local_def by blast
  then have "timely moment hour" using assms(2,4,5) by (simp add: timely_def well_formed_def)
  from candidate_first [OF this assms(2)] assms show ?thesis
    by (auto simp: next_run_def well_formed_def zone_def)
qed

text \<open>An occurrence is never more than a year away, so the result stays inside the calendar.\<close>

lemma occurrence_soon:
  assumes "timely moment hour" and "well_formed cadence hour weekday mday"
  shows "\<exists>w. valid_wall w \<and> occurrence cadence hour weekday mday w \<and> stamp moment < stamp w \<and>
           day_of w \<le> days_before_year (w_year moment + 2)"
proof (cases "cadence = ''monthly''")
  case True
  have ym: "1 \<le> w_month moment" "w_month moment \<le> 12" "w_year moment + 1 \<le> 9999"
    using assms(1) by (simp_all add: timely_def valid_wall_def valid_date_def)
  have "1 \<le> mday" using True assms(2) by (simp add: well_formed_def)
  from month_candidate_spec [OF assms(1) this ym(1,2,3)] obtain c where
    c: "valid_wall c" "month_index c = (w_year moment + 1) * 12 + w_month moment" "time_of_day c = hour * HOUR"
      "w_day c = min mday (days_in_month (w_year c) (w_month c))" by blast
  have m: "month_index moment < month_index c" using c(2) by (simp add: month_index_def)
  have "w_year c \<le> w_year moment + 1"
    using c(1,2) ym(2) by (simp add: valid_wall_def valid_date_def month_index_def)
  from year_day_bound [OF c(1) this] have "day_of c \<le> days_before_year (w_year moment + 2)" by (simp add: add.assoc)
  moreover have "stamp moment < stamp c"
    using month_index_less [OF today(1) [OF assms(1)] c(1) m] today(1) [OF assms(1)] c(1) by (simp add: stamp_less_iff)
  moreover have "occurrence cadence hour weekday mday c" using c(3,4) True by (simp add: occurrence_def)
  ultimately show ?thesis using c(1) by blast
next
  case False
  define k where "k = 1 + (weekday - (day_of moment + 1 + 6) mod 7) mod 7"
  have k: "1 \<le> k" "k \<le> 7" unfolding k_def using pos_mod_bound [of 7] by (simp_all add: add1_zle_eq)
  obtain c where c: "valid_wall c" "day_of c = day_of moment + k" "time_of_day c = hour * HOUR"
    using shifted [OF assms(1), of k] k by auto
  have "weekday_of c = weekday" if "cadence = ''weekly''"
    using weekday_ahead(1) [of weekday "day_of moment + 1"] that assms(2) c(2)
    by (simp add: weekday_of_def k_def well_formed_def add.assoc)
  then have "occurrence cadence hour weekday mday c" using c(3) False by (simp add: occurrence_def)
  moreover have "stamp moment < stamp c" using today(1) [OF assms(1)] c k by (simp add: stamp_less_iff)
  moreover have "day_of c \<le> days_before_year (w_year moment + 2)"
    using year_day_bound [OF today(1) [OF assms(1)] order.refl] c(2) k(2) days_before_year_Suc [of "w_year moment + 1"]
      days_in_year_bounds(1) [of "w_year moment + 1"] by (simp add: add.assoc)
  ultimately show ?thesis using c(1) by blast
qed

definition offsets_ok :: "tzinfo \<Rightarrow> bool" where
  "offsets_ok z \<longleftrightarrow> (\<forall>n later. \<bar>tz_wall_offset z n later\<bar> < DAY)"

lemma to_utc_returns:
  assumes "valid_wall c" and "offsets_ok z" and "3 \<le> day_of c" and "day_of c + 2 \<le> days_before_year 10000"
  shows "\<exists>t. to_utc z c = Inr t"
proof -
  let ?off = "tz_wall_offset z (stamp c) (w_fold c)"
  have off: "- DAY < ?off" "?off < DAY" using assms(2) unfolding offsets_ok_def by (metis abs_less_iff minus_less_iff)+
  note t = time_of_day_bounds [OF assms(1)]
  have "3 * DAY \<le> day_of c * DAY" using assms(3) DAY_pos by (intro mult_right_mono) linarith+
  then have lo: "DAY \<le> stamp c - ?off" using off t unfolding stamp_def by linarith
  have "stamp c - ?off < (day_of c + 2) * DAY" using off t unfolding stamp_def distrib_right by linarith
  also have "\<dots> \<le> days_before_year 10000 * DAY" using assms(4) DAY_pos by (intro mult_right_mono) linarith+
  finally have "(stamp c - ?off) div DAY \<le> days_before_year 10000 * DAY div DAY"
    by (intro zdiv_mono1) simp_all
  also have "\<dots> = days_before_year 10000" using DAY_pos by (intro nonzero_mult_div_cancel_right) linarith
  finally have "\<exists>w. wall_of (stamp c - ?off) False = Inr w" by (intro wall_of_in_range lo)
  then show ?thesis by (auto simp: to_utc_def Let_def)
qed

text \<open>The years in which no schedule runs into the ends of the calendar.\<close>

definition ordinary :: "tzinfo \<Rightarrow> int \<Rightarrow> bool" where
  "ordinary z t \<longleftrightarrow> offsets_ok z \<and>
     (case to_local z t of Inl _ \<Rightarrow> False | Inr moment \<Rightarrow> 2 \<le> w_year moment \<and> w_year moment \<le> 9997)"

lemma next_run_returns:
  assumes "db tz = Some z" and "well_formed cadence hour weekday mday" and "ordinary z after"
  shows "\<exists>moment c t. to_local z after = Inr moment \<and> first_after (occurrence cadence hour weekday mday) moment c \<and>
           to_utc z c = Inr t \<and> next_run db cadence hour weekday mday tz after = Inr t"
proof -
  from assms(3) obtain moment where m: "to_local z after = Inr moment" "2 \<le> w_year moment" "w_year moment \<le> 9997"
    "offsets_ok z" by (auto simp: ordinary_def split: sum.splits)
  have v: "valid_wall moment" using m(1) wall_of_valid unfolding to_local_def by blast
  then have timely: "timely moment hour" using assms(2) m by (simp add: timely_def well_formed_def)
  have y: "w_year moment \<le> 9998" using m(3) by simp
  from next_run_first [where db = db and tz = tz, OF assms(1,2) m(1,2) y] obtain c where
    c: "first_after (occurrence cadence hour weekday mday) moment c"
      "next_run db cadence hour weekday mday tz after = to_utc z c" by blast
  have vc: "valid_wall c" "stamp moment < stamp c" using c(1) by (simp_all add: first_after_def)
  from occurrence_soon [OF timely assms(2)] c(1) obtain w where
    w: "valid_wall w" "stamp c \<le> stamp w" "day_of w \<le> days_before_year (w_year moment + 2)"
    by (auto simp: first_after_def)
  have "day_of c \<le> day_of w" using day_less_stamp_less [OF w(1) vc(1)] w(2) by linarith
  moreover have "days_before_year (w_year moment + 2) \<le> days_before_year 9999"
    using m(3) by (intro days_before_year_mono) simp
  ultimately have hi: "day_of c + 2 \<le> days_before_year 10000" using w(3) days_before_year_10000 by linarith
  have "day_of moment \<le> day_of c" using day_less_stamp_less [OF vc(1) v] vc(2) by linarith
  moreover have "days_before_year 2 < day_of moment"
    using ord_in_year(1) [of "w_year moment" "w_month moment" "w_day moment"] days_before_year_mono [OF m(2)] v
    by (simp add: valid_wall_def day_of_def)
  moreover have "days_before_year 2 = 365" by (simp add: days_before_year_def)
  ultimately have "3 \<le> day_of c" by linarith
  from to_utc_returns [OF vc(1) m(4) this hi] c m(1) show ?thesis by auto
qed

text \<open>A zone that keeps one offset, as UTC and, since 2022, Asia/Tehran do.\<close>

definition fixed_offset :: "tzinfo \<Rightarrow> int \<Rightarrow> bool" where
  "fixed_offset z off \<longleftrightarrow> (\<forall>t. tz_offset z t = off) \<and> (\<forall>n later. tz_wall_offset z n later = off)"

lemma next_run_strictly_after:
  assumes "db tz = Some z" and "fixed_offset z off" and "well_formed cadence hour weekday mday" and "ordinary z after"
  shows "\<exists>t. next_run db cadence hour weekday mday tz after = Inr t \<and> after < t"
proof -
  from next_run_returns [where db = db and tz = tz, OF assms(1,3,4)] obtain moment c t where
    c: "to_local z after = Inr moment" "first_after (occurrence cadence hour weekday mday) moment c"
      "to_utc z c = Inr t" "next_run db cadence hour weekday mday tz after = Inr t" by blast
  have "stamp moment = after + off"
    using wall_of_valid assms(2) c(1) unfolding to_local_def fixed_offset_def by force
  moreover have "t = stamp c - off"
    using c(3) assms(2) by (auto simp: to_utc_def Let_def fixed_offset_def)
  moreover have "stamp moment < stamp c" using c(2) by (simp add: first_after_def)
  ultimately show ?thesis using c(4) by auto
qed

text \<open>C7: the next run of a schedule is the first wall clock time in its zone, after the given moment,
  that the schedule names: the hour on the next day, the next such weekday, or the day of the month,
  which in a shorter month is its last day; the search always returns and never skips one.\<close>

theorem next_run_is_next_occurrence:
  assumes "db tz = Some z" and "well_formed cadence hour weekday day_of_month" and "ordinary z after"
  shows "\<exists>moment c t. to_local z after = Inr moment \<and> valid_wall c \<and>
           occurrence cadence hour weekday day_of_month c \<and> stamp moment < stamp c \<and>
           (\<forall>w. valid_wall w \<longrightarrow> occurrence cadence hour weekday day_of_month w \<longrightarrow>
              stamp moment < stamp w \<longrightarrow> stamp c \<le> stamp w) \<and>
           to_utc z c = Inr t \<and> next_run db cadence hour weekday day_of_month tz after = Inr t"
  using next_run_returns [where db = db and tz = tz, OF assms] unfolding first_after_def by blast

definition utc_zone :: tzinfo where
  "utc_zone = \<lparr>tz_offset = (\<lambda>_. 0), tz_fold = (\<lambda>_. False), tz_wall_offset = (\<lambda>_ _. 0)\<rparr>"

text \<open>30 January 2024, 10:00.\<close>

definition demo_moment :: wall where
  "demo_moment = \<lparr>w_year = 2024, w_month = 1, w_day = 30, w_hour = 10, w_minute = 0, w_second = 0,
     w_micro = 0, w_fold = False\<rparr>"

lemma demo_local: "to_local utc_zone (stamp demo_moment) = Inr demo_moment"
  by code_simp

lemma demo_ordinary: "ordinary utc_zone (stamp demo_moment)"
  unfolding ordinary_def demo_local by (simp add: offsets_ok_def utc_zone_def demo_moment_def)

theorem next_run_is_next_occurrence_witness:
  "\<exists>c t. occurrence ''monthly'' 9 0 31 c \<and> stamp demo_moment < stamp c \<and>
     next_run (\<lambda>_. Some utc_zone) ''monthly'' 9 0 31 ''UTC'' (stamp demo_moment) = Inr t"
proof -
  have "well_formed ''monthly'' 9 0 31" by (simp add: well_formed_def CADENCES_def)
  from next_run_is_next_occurrence [where db = "\<lambda>_. Some utc_zone" and tz = "''UTC''", OF refl this demo_ordinary]
  show ?thesis using demo_local by auto
qed

text \<open>
  A zone whose clock is turned back by two hours, as that of Antarctica/Troll is: from the offset of two
  hours to none, at 01:00 UTC on 29 October 2023.
\<close>

definition turn :: int where
  "turn = ymd2ord 2023 10 29 * DAY + HOUR"

definition troll :: tzinfo where
  "troll = \<lparr>tz_offset = (\<lambda>t. if t < turn then 2 * HOUR else 0),
     tz_fold = (\<lambda>t. turn \<le> t \<and> t < turn + 2 * HOUR),
     tz_wall_offset = (\<lambda>n later. if n < turn \<or> n < turn + 2 * HOUR \<and> \<not> later then 2 * HOUR else 0)\<rparr>"

text \<open>Adding days forgets which of the two times a clock that is turned back shows: half an hour after
  the turn, the next weekly run at two o'clock of the same day is an instant that has already passed,
  although the documentation says the result is always strictly after the given moment.\<close>

lemma next_run_can_lie_in_the_past:
  "next_run (\<lambda>_. Some troll) ''weekly'' 2 6 1 ''Antarctica/Troll'' (turn + 1800000000) = Inr (turn - HOUR)"
  by code_simp

end
