(* ===== verification/Schedules.thy ===== *)
theory Schedules
  imports Next_Run Job_Store Contracts Systems
begin

text \<open>
  \<^verbatim>\<open>ScheduleStore\<close> of \<^verbatim>\<open>src/agents/orchestrator/schedules.py\<close> and the tick of \<^verbatim>\<open>scheduler.py\<close>: schedules as
  rows of a table with the checks of migration \<^verbatim>\<open>0011_schedules.sql\<close>, and the pass that turns every due
  schedule into a staged request and moves it on, in one transaction. Times are instants of
  \<^verbatim>\<open>Civil_Time\<close>; the generated identifiers are parameters.
\<close>

record schedule =
  sc_id :: string
  sc_tenant_id :: "string option"
  sc_project_id :: "string option"
  sc_goal :: string
  sc_inputs :: dict
  sc_cadence :: string
  sc_hour :: int
  sc_weekday :: int
  sc_day_of_month :: int
  sc_tz :: string
  sc_active :: bool
  sc_next_run_at :: int
  sc_last_run_at :: "int option"
  sc_runs :: nat
  sc_created_at :: int
  sc_last_error :: "string option"

definition schedule_to_dict :: "(int \<Rightarrow> string) \<Rightarrow> schedule \<Rightarrow> dict" where
  "schedule_to_dict isof s =
     [(''id'', JStr (sc_id s)), (''goal'', JStr (sc_goal s)), (''inputs'', JObj (sc_inputs s)),
      (''cadence'', JStr (sc_cadence s)), (''hour'', JInt (sc_hour s)), (''weekday'', JInt (sc_weekday s)),
      (''day_of_month'', JInt (sc_day_of_month s)), (''timezone'', JStr (sc_tz s)),
      (''active'', JBool (sc_active s)), (''next_run_at'', JStr (isof (sc_next_run_at s))),
      (''last_run_at'', opt_json (map_option isof (sc_last_run_at s))), (''runs'', JInt (int (sc_runs s))),
      (''created_at'', JStr (isof (sc_created_at s)))]"

definition catch_up :: "tzdb \<Rightarrow> schedule \<Rightarrow> int \<Rightarrow> int py" where
  "catch_up db s now =
     next_run db (sc_cadence s) (sc_hour s) (sc_weekday s) (sc_day_of_month s) (sc_tz s) now"

definition workflow_request :: "string \<Rightarrow> schedule \<Rightarrow> dict" where
  "workflow_request new_id s =
     [(''workflow_id'', JStr new_id), (''goal'', JStr (sc_goal s)), (''inputs'', JObj (sc_inputs s))]"

subsection \<open>The table\<close>

record sched_store =
  ss_rows :: "schedule list"
  ss_outbox :: outbox
  ss_tenants :: "string list"
  ss_projects :: "string list"

text \<open>\<^verbatim>\<open>_schedule(row)\<close>.\<close>

definition schedule_of :: "schedule \<Rightarrow> schedule" where
  "schedule_of row = row\<lparr>sc_tenant_id := present_text (sc_tenant_id row), sc_project_id := present_text (sc_project_id row)\<rparr>"

definition visible :: "string \<Rightarrow> string option \<Rightarrow> schedule \<Rightarrow> bool" where
  "visible sid tenant_id row \<longleftrightarrow> sc_id row = sid \<and> (tenant_id = None \<or> sc_tenant_id row = tenant_id)"

definition sched_get :: "string \<Rightarrow> string option \<Rightarrow> sched_store \<Rightarrow> schedule option" where
  "sched_get sid tenant_id s = map_option schedule_of (first_where (visible sid tenant_id) (ss_rows s))"

text \<open>The CHECK constraints of the table, which hold for every cadence.\<close>

definition row_checks :: "schedule \<Rightarrow> bool" where
  "row_checks r \<longleftrightarrow> sc_cadence r \<in> set CADENCES \<and> 0 \<le> sc_hour r \<and> sc_hour r \<le> 23 \<and>
     0 \<le> sc_weekday r \<and> sc_weekday r \<le> 6 \<and> 1 \<le> sc_day_of_month r \<and> sc_day_of_month r \<le> 31"

definition sched_create ::
  "tzdb \<Rightarrow> int \<Rightarrow> string \<Rightarrow> string \<Rightarrow> dict \<Rightarrow> string \<Rightarrow> int \<Rightarrow> int \<Rightarrow> int \<Rightarrow> string \<Rightarrow> string option \<Rightarrow>
     string option \<Rightarrow> sched_store \<Rightarrow> schedule option py \<times> sched_store" where
  "sched_create db now new_id goal inputs cadence hour weekday day_of_month tz tenant_id project_id s =
     (case next_run db cadence hour weekday day_of_month tz now of
        Inl e \<Rightarrow> (Inl e, s)
      | Inr first \<Rightarrow>
          (let row = \<lparr>sc_id = new_id, sc_tenant_id = tenant_id, sc_project_id = project_id, sc_goal = goal,
                 sc_inputs = inputs, sc_cadence = cadence, sc_hour = hour, sc_weekday = weekday,
                 sc_day_of_month = day_of_month, sc_tz = tz, sc_active = True, sc_next_run_at = first,
                 sc_last_run_at = None, sc_runs = 0, sc_created_at = now, sc_last_error = None\<rparr>
           in if \<not> row_checks row then (Inl CheckViolation, s)
              else if new_id \<in> sc_id ` set (ss_rows s) then (Inl UniqueViolation, s)
              else if \<not> (set_option tenant_id \<subseteq> set (ss_tenants s) \<and> set_option project_id \<subseteq> set (ss_projects s))
              then (Inl (UnknownTenant ''unknown tenant_id or project_id''), s)
              else (let s' = s\<lparr>ss_rows := ss_rows s @ [row]\<rparr> in (Inr (sched_get new_id tenant_id s'), s'))))"

definition owned_by :: "string option \<Rightarrow> sched_store \<Rightarrow> schedule list" where
  "owned_by tenant_id s =
     map schedule_of (sort_key sc_created_at (filter (\<lambda>r. sc_tenant_id r = tenant_id) (ss_rows s)))"

definition sched_delete :: "string \<Rightarrow> string option \<Rightarrow> sched_store \<Rightarrow> bool \<times> sched_store" where
  "sched_delete sid tenant_id s =
     (list_ex (visible sid tenant_id) (ss_rows s),
      s\<lparr>ss_rows := filter (\<lambda>r. \<not> visible sid tenant_id r) (ss_rows s)\<rparr>)"

definition set_active :: "string \<Rightarrow> bool \<Rightarrow> string option \<Rightarrow> sched_store \<Rightarrow> bool \<times> sched_store" where
  "set_active sid active tenant_id s =
     (list_ex (visible sid tenant_id) (ss_rows s),
      s\<lparr>ss_rows := update_where (visible sid tenant_id) (\<lambda>r. r\<lparr>sc_active := active\<rparr>) (ss_rows s)\<rparr>)"

subsection \<open>Firing\<close>

definition due :: "int \<Rightarrow> schedule \<Rightarrow> bool" where
  "due now r \<longleftrightarrow> sc_active r \<and> sc_next_run_at r \<le> now"

text \<open>\<^verbatim>\<open>WHERE active AND next_run_at <= now ORDER BY next_run_at FOR UPDATE SKIP LOCKED LIMIT limit\<close>.\<close>

definition claim_due :: "string list \<Rightarrow> int \<Rightarrow> nat \<Rightarrow> sched_store \<Rightarrow> schedule list" where
  "claim_due locked now limit s =
     take limit (sort_key sc_next_run_at (filter (\<lambda>r. due now r \<and> sc_id r \<notin> set locked) (ss_rows s)))"

definition deactivate :: "string \<Rightarrow> sched_store \<Rightarrow> sched_store" where
  "deactivate sid s =
     s\<lparr>ss_rows := update_where (\<lambda>r. sc_id r = sid)
          (\<lambda>r. r\<lparr>sc_active := False, sc_last_error := Some ''inputs no longer valid for workflow.requested''\<rparr>)
          (ss_rows s)\<rparr>"

definition move_on :: "string \<Rightarrow> int \<Rightarrow> int \<Rightarrow> sched_store \<Rightarrow> sched_store" where
  "move_on sid next now s =
     s\<lparr>ss_rows := update_where (\<lambda>r. sc_id r = sid)
          (\<lambda>r. r\<lparr>sc_next_run_at := next, sc_last_run_at := Some now, sc_runs := Suc (sc_runs r),
                 sc_last_error := None\<rparr>) (ss_rows s)\<rparr>"

definition request_event :: "string \<Rightarrow> string \<Rightarrow> dict \<Rightarrow> pending_event" where
  "request_event event_id workflow_id payload =
     \<lparr>pe_type = ''workflow.requested'', pe_payload = payload, pe_producer = ''scheduler'',
      pe_event_id = event_id, pe_correlation_id = Some workflow_id, pe_causation_id = None\<rparr>"

definition stage_request :: "string \<Rightarrow> string \<Rightarrow> schedule \<Rightarrow> sched_store \<Rightarrow> sched_store" where
  "stage_request event_id workflow_id sched s =
     s\<lparr>ss_outbox := stage (request_event event_id workflow_id (workflow_request workflow_id sched))
          \<lparr>sj_job_id = sc_id sched, sj_tenant_id = sc_tenant_id sched, sj_project_id = sc_project_id sched\<rparr>
          (ss_outbox s)\<rparr>"

text \<open>The loop over the claimed rows; \<open>ids i\<close> are the two identifiers drawn for the \<open>i\<close>-th row.\<close>

fun fire_rows ::
  "tzdb \<Rightarrow> contracts \<Rightarrow> int \<Rightarrow> (nat \<Rightarrow> string \<times> string) \<Rightarrow> nat \<Rightarrow> schedule list \<Rightarrow> sched_store \<Rightarrow>
     (dict list \<times> sched_store) py" where
  "fire_rows db C now ids i [] s = Inr ([], s)"
| "fire_rows db C now ids i (row # rows) s =
     (let sched = schedule_of row; (workflow_id, event_id) = ids i;
          payload = workflow_request workflow_id sched
      in case validate_event C ''workflow.requested'' payload of
           Inl (ContractError _) \<Rightarrow> fire_rows db C now ids (Suc i) rows (deactivate (sc_id sched) s)
         | Inl e \<Rightarrow> Inl e
         | Inr _ \<Rightarrow>
             bindE (catch_up db sched now) (\<lambda>next.
             bindE (fire_rows db C now ids (Suc i) rows
                      (move_on (sc_id sched) next now (stage_request event_id workflow_id sched s))) (\<lambda>(fired, s').
               Inr (((''schedule_id'', JStr (sc_id sched)) # payload) # fired, s'))))"

definition fire_due ::
  "tzdb \<Rightarrow> contracts \<Rightarrow> (nat \<Rightarrow> string \<times> string) \<Rightarrow> string list \<Rightarrow> int \<Rightarrow> nat \<Rightarrow> sched_store \<Rightarrow>
     dict list py \<times> sched_store" where
  "fire_due db C ids locked now limit s =
     (case fire_rows db C now ids 0 (claim_due locked now limit s) s of
        Inl e \<Rightarrow> (Inl e, s)
      | Inr (fired, s') \<Rightarrow> (Inr fired, s'))"

definition tick ::
  "tzdb \<Rightarrow> contracts \<Rightarrow> (nat \<Rightarrow> string \<times> string) \<Rightarrow> string list \<Rightarrow> int \<Rightarrow> nat \<Rightarrow> sched_store \<Rightarrow>
     nat py \<times> sched_store" where
  "tick db C ids locked now batch s =
     (case fire_due db C ids locked now batch s of (fired, s') \<Rightarrow> (bindE fired (\<lambda>rows. Inr (length rows)), s'))"

subsection \<open>What a pass does\<close>

definition sched_inv :: "sched_store \<Rightarrow> bool" where
  "sched_inv s \<longleftrightarrow> distinct (map sc_id (ss_rows s)) \<and> (\<forall>r\<in>set (ss_rows s). row_checks r)"

text \<open>The zone of a schedule is known and keeps its offset.\<close>

definition steady :: "tzdb \<Rightarrow> int \<Rightarrow> schedule \<Rightarrow> bool" where
  "steady db now r \<longleftrightarrow> (\<exists>z off. db (sc_tz r) = Some z \<and> fixed_offset z off \<and> ordinary z now)"

text \<open>The validator accepts or reports a violation; the schema itself is readable.\<close>

definition decides :: "contracts \<Rightarrow> bool" where
  "decides C \<longleftrightarrow> (\<forall>p. validate_event C ''workflow.requested'' p = Inr () \<or>
     (\<exists>m. validate_event C ''workflow.requested'' p = Inl (ContractError m)))"

definition timing :: "schedule \<Rightarrow> string \<times> string \<times> int \<times> int \<times> int \<times> string" where
  "timing r = (sc_id r, sc_cadence r, sc_hour r, sc_weekday r, sc_day_of_month r, sc_tz r)"

definition moved :: "int \<Rightarrow> string set \<Rightarrow> schedule \<Rightarrow> schedule \<Rightarrow> bool" where
  "moved now I r r' \<longleftrightarrow> timing r' = timing r \<and> (if sc_id r \<in> I then \<not> due now r' else r' = r)"

lemma timing_keeps: "timing r' = timing r \<Longrightarrow> sc_id r' = sc_id r \<and> row_checks r' = row_checks r \<and> steady db now r' = steady db now r"
  by (simp add: timing_def row_checks_def steady_def)

lemma catch_up_later:
  assumes "steady db now r" and "row_checks r"
  shows "\<exists>t. catch_up db (schedule_of r) now = Inr t \<and> now < t"
proof -
  from assms(1) obtain z off where z: "db (sc_tz r) = Some z" "fixed_offset z off" "ordinary z now"
    by (auto simp: steady_def)
  have "well_formed (sc_cadence r) (sc_hour r) (sc_weekday r) (sc_day_of_month r)"
    using assms(2) by (simp add: row_checks_def well_formed_def)
  from next_run_strictly_after [where db = db and tz = "sc_tz r", OF z(1,2) this z(3)] show ?thesis
    by (simp add: catch_up_def schedule_of_def)
qed

lemma moved_deactivate: "list_all2 (moved now {sid}) (ss_rows s) (ss_rows (deactivate sid s))"
  by (auto simp: deactivate_def update_where_def list.rel_map moved_def timing_def due_def intro!: list.rel_refl_strong)

lemma moved_move_on: "now < t \<Longrightarrow> list_all2 (moved now {sid}) (ss_rows s) (ss_rows (move_on sid t now (stage_request e w sch s)))"
  by (auto simp: move_on_def stage_request_def update_where_def list.rel_map moved_def timing_def due_def
      intro!: list.rel_refl_strong)

lemma moved_trans: "moved now I a b \<Longrightarrow> moved now J b c \<Longrightarrow> moved now (I \<union> J) a c"
  by (auto simp: moved_def timing_def split: if_splits)

lemma fire_rows_moves:
  assumes "decides C" and "\<forall>row\<in>set rows. steady db now row \<and> row_checks row"
  shows "\<exists>fired s'. fire_rows db C now ids i rows s = Inr (fired, s') \<and>
           list_all2 (moved now (sc_id ` set rows)) (ss_rows s) (ss_rows s')"
  using assms(2)
proof (induction rows arbitrary: i s)
  case Nil
  show ?case by (auto simp: moved_def intro: list.rel_refl_strong)
next
  case (Cons row rows)
  obtain w e where ids: "ids i = (w, e)" by fastforce
  have id: "sc_id (schedule_of row) = sc_id row" by (simp add: schedule_of_def)
  let ?p = "workflow_request w (schedule_of row)"
  have join: "list_all2 (moved now (sc_id ` set (row # rows))) (ss_rows s) xs"
    if "list_all2 (moved now {sc_id row}) (ss_rows s) ys" "list_all2 (moved now (sc_id ` set rows)) ys xs" for xs ys
    using list_all2_trans [OF _ that, of "moved now (sc_id ` set (row # rows))"]
      moved_trans [of now "{sc_id row}" _ _ "sc_id ` set rows"] by simp
  from assms(1) consider "validate_event C ''workflow.requested'' ?p = Inr ()"
    | m where "validate_event C ''workflow.requested'' ?p = Inl (ContractError m)" by (auto simp: decides_def)
  then show ?case
  proof cases
    case 1
    obtain t where t: "catch_up db (schedule_of row) now = Inr t" "now < t"
      using catch_up_later [of db now row] Cons.prems by auto
    let ?s = "move_on (sc_id row) t now (stage_request e w (schedule_of row) s)"
    obtain fired s' where f: "fire_rows db C now ids (Suc i) rows ?s = Inr (fired, s')"
      "list_all2 (moved now (sc_id ` set rows)) (ss_rows ?s) (ss_rows s')" using Cons by fastforce
    with 1 ids t(1) id join [OF moved_move_on [OF t(2)] f(2)] show ?thesis
      by (simp del: bindE_Inr_iff add: Let_def)
  next
    case (2 m)
    obtain fired s' where f: "fire_rows db C now ids (Suc i) rows (deactivate (sc_id row) s) = Inr (fired, s')"
      "list_all2 (moved now (sc_id ` set rows)) (ss_rows (deactivate (sc_id row) s)) (ss_rows s')"
      using Cons by fastforce
    with 2 ids id join [OF moved_deactivate f(2)] show ?thesis by (simp add: Let_def)
  qed
qed

lemma claim_due_rows: "set (claim_due locked now limit s) \<subseteq> {r \<in> set (ss_rows s). due now r \<and> sc_id r \<notin> set locked}"
  by (auto simp: claim_due_def dest!: in_set_takeD)

definition pass_ok :: "tzdb \<Rightarrow> contracts \<Rightarrow> int \<Rightarrow> sched_store \<Rightarrow> bool" where
  "pass_ok db C now s \<longleftrightarrow> decides C \<and> sched_inv s \<and> (\<forall>r\<in>set (ss_rows s). steady db now r)"

lemma fire_due_moves:
  assumes "pass_ok db C now s"
  shows "\<exists>fired s'. fire_due db C ids locked now limit s = (Inr fired, s') \<and>
           fire_rows db C now ids 0 (claim_due locked now limit s) s = Inr (fired, s') \<and>
           list_all2 (moved now (sc_id ` set (claim_due locked now limit s))) (ss_rows s) (ss_rows s')"
proof -
  have "\<forall>row\<in>set (claim_due locked now limit s). steady db now row \<and> row_checks row"
    using claim_due_rows [of locked now limit s] assms by (auto simp: pass_ok_def sched_inv_def)
  from fire_rows_moves [OF _ this] assms obtain fired s' where
    f: "fire_rows db C now ids 0 (claim_due locked now limit s) s = Inr (fired, s')"
      "list_all2 (moved now (sc_id ` set (claim_due locked now limit s))) (ss_rows s) (ss_rows s')"
    unfolding pass_ok_def by blast
  then show ?thesis by (simp add: fire_due_def)
qed

lemma moved_due:
  "list_all2 (moved now I) xs ys \<Longrightarrow> filter (due now) ys = filter (\<lambda>r. due now r \<and> sc_id r \<notin> I) xs"
  by (induction rule: list_all2_induct) (auto simp: moved_def split: if_splits)

lemma moved_sets:
  "list_all2 (moved now I) xs ys \<Longrightarrow>
     (\<forall>r\<in>set ys. sc_id r \<in> I \<longrightarrow> \<not> due now r) \<and> (\<forall>r\<in>set xs. sc_id r \<notin> I \<longrightarrow> r \<in> set ys)"
  by (induction rule: list_all2_induct) (auto simp: moved_def timing_def split: if_splits)

lemma moved_map: "list_all2 (moved now I) xs ys \<Longrightarrow> map timing ys = map timing xs"
  by (induction rule: list_all2_induct) (auto simp: moved_def)

lemma pass_ok_timing:
  assumes "map timing (ss_rows s') = map timing (ss_rows s)" and "pass_ok db C now s"
  shows "pass_ok db C now s'"
proof -
  have ids: "map sc_id xs = map fst (map timing xs)" for xs by (simp add: timing_def comp_def)
  have "map sc_id (ss_rows s') = map sc_id (ss_rows s)" unfolding ids assms(1) ..
  moreover have "\<exists>r\<in>set (ss_rows s). timing r' = timing r" if "r' \<in> set (ss_rows s')" for r'
    using assms(1) that by (metis (no_types, opaque_lifting) image_iff list.set_map)
  then have "row_checks r' \<and> steady db now r'" if "r' \<in> set (ss_rows s')" for r'
    using that assms(2) timing_keeps [of r'] unfolding pass_ok_def sched_inv_def by metis
  ultimately show ?thesis using assms(2) by (simp add: pass_ok_def sched_inv_def)
qed

definition pass :: "tzdb \<Rightarrow> contracts \<Rightarrow> (nat \<Rightarrow> string \<times> string) \<Rightarrow> int \<Rightarrow> nat \<Rightarrow> sched_store \<Rightarrow> sched_store" where
  "pass db C ids now batch s = snd (tick db C ids [] now batch s)"

definition due_count :: "int \<Rightarrow> sched_store \<Rightarrow> nat" where
  "due_count now s = length (filter (due now) (ss_rows s))"

lemma pass_effect:
  assumes "pass_ok db C now s"
  shows "pass_ok db C now (pass db C ids now batch s)"
    and "due_count now (pass db C ids now batch s) =
           length (filter (\<lambda>r. sc_id r \<notin> sc_id ` set (claim_due [] now batch s)) (filter (due now) (ss_rows s)))"
proof -
  obtain fired s' where f: "fire_due db C ids [] now batch s = (Inr fired, s')"
    "list_all2 (moved now (sc_id ` set (claim_due [] now batch s))) (ss_rows s) (ss_rows s')"
    using fire_due_moves [OF assms] by blast
  have p: "pass db C ids now batch s = s'" by (simp add: pass_def tick_def f(1))
  show "pass_ok db C now (pass db C ids now batch s)"
    unfolding p using moved_map [OF f(2)] assms by (rule pass_ok_timing)
  show "due_count now (pass db C ids now batch s) =
      length (filter (\<lambda>r. sc_id r \<notin> sc_id ` set (claim_due [] now batch s)) (filter (due now) (ss_rows s)))"
    by (simp add: p due_count_def moved_due [OF f(2)] conj_commute)
qed

interpretation scheduler: draining_loop "pass db C ids now (Suc b)" "due_count now" "pass_ok db C now" for db C ids now b
proof unfold_locales
  fix s assume ok: "pass_ok db C now s"
  show "pass_ok db C now (pass db C ids now (Suc b) s)" by (rule pass_effect [OF ok])
  show "due_count now (pass db C ids now (Suc b) s) = 0" if "due_count now s = 0"
    unfolding pass_effect(2) [OF ok] using that by (simp add: due_count_def)
  show "due_count now (pass db C ids now (Suc b) s) < due_count now s" if "due_count now s > 0"
  proof -
    let ?d = "sort_key sc_next_run_at (filter (due now) (ss_rows s))"
    have "?d \<noteq> []" using that by (metis due_count_def length_0_conv length_sort less_numeral_extra(3))
    then have "hd ?d \<in> set (claim_due [] now (Suc b) s)" "hd ?d \<in> set (filter (due now) (ss_rows s))"
      using hd_in_set [of ?d] by (simp_all add: claim_due_def take_Suc)
    then show ?thesis
      unfolding pass_effect(2) [OF ok] unfolding due_count_def by (intro length_filter_less) auto
  qed
qed

text \<open>The requests a pass stages are those of the rows it reports as fired, in their order.\<close>

lemma fire_rows_stages:
  assumes "fire_rows db C now ids i rows s = Inr (fired, s')"
    and "\<forall>j\<ge>i. snd (ids j) \<notin> ob_event_id ` set (ob_rows (ss_outbox s))" and "inj (snd \<circ> ids)"
  shows "\<exists>new. ob_rows (ss_outbox s') = ob_rows (ss_outbox s) @ new \<and> map ob_payload new = map tl fired \<and>
           (\<forall>r\<in>set new. ob_event_type r = ''workflow.requested'')"
  using assms(1,2)
proof (induction rows arbitrary: i s fired)
  case Nil
  then show ?case by simp
next
  case (Cons row rows)
  obtain w e where ids: "ids i = (w, e)" by fastforce
  let ?sch = "schedule_of row"
  show ?case
  proof (cases "validate_event C ''workflow.requested'' (workflow_request w ?sch)")
    case (Inr u)
    with Cons.prems(1) ids obtain t f1 where
      f: "fire_rows db C now ids (Suc i) rows (move_on (sc_id ?sch) t now (stage_request e w ?sch s)) = Inr (f1, s')"
        "fired = ((''schedule_id'', JStr (sc_id ?sch)) # workflow_request w ?sch) # f1"
      by (auto simp: Let_def)
    let ?s = "move_on (sc_id ?sch) t now (stage_request e w ?sch s)"
    let ?new = "row_of (ob_next (ss_outbox s)) (request_event e w (workflow_request w ?sch))
       \<lparr>sj_job_id = sc_id ?sch, sj_tenant_id = sc_tenant_id ?sch, sj_project_id = sc_project_id ?sch\<rparr>"
    have fresh: "e \<notin> ob_event_id ` set (ob_rows (ss_outbox s))" using Cons.prems(2) ids by (metis order.refl snd_conv)
    then have rows: "ob_rows (ss_outbox ?s) = ob_rows (ss_outbox s) @ [?new]"
      by (simp add: move_on_def stage_request_def stage_def request_event_def)
    have "snd (ids j) \<notin> ob_event_id ` set (ob_rows (ss_outbox ?s))" if "Suc i \<le> j" for j
    proof -
      have "snd (ids j) \<noteq> snd (ids i)" using injD [OF assms(3), of j i] that by auto
      then show ?thesis using Cons.prems(2) that ids by (simp add: rows row_of_def request_event_def)
    qed
    with Cons.IH [OF f(1)] obtain new where
      n: "ob_rows (ss_outbox s') = ob_rows (ss_outbox ?s) @ new" "map ob_payload new = map tl f1"
        "\<forall>r\<in>set new. ob_event_type r = ''workflow.requested''" by blast
    show ?thesis
      by (rule exI [of _ "?new # new"]) (use n f(2) rows in \<open>simp add: row_of_def request_event_def\<close>)
  next
    case (Inl x)
    with Cons.prems(1) ids have "fire_rows db C now ids (Suc i) rows (deactivate (sc_id ?sch) s) = Inr (fired, s')"
      by (auto simp: Let_def split: exn.splits)
    moreover have "ss_outbox (deactivate (sc_id ?sch) s) = ss_outbox s" by (simp add: deactivate_def)
    ultimately show ?thesis using Cons.IH [of "Suc i" "deactivate (sc_id ?sch) s" fired] Cons.prems(2) by simp
  qed
qed

text \<open>What the contract accepts is fired, one request for each claimed row.\<close>

lemma fire_rows_all:
  assumes "fire_rows db C now ids i rows s = Inr (fired, s')"
    and "\<forall>row\<in>set rows. \<forall>w. validate_event C ''workflow.requested'' (workflow_request w (schedule_of row)) = Inr ()"
  shows "map (\<lambda>d. dget d ''schedule_id'') fired = map (JStr \<circ> sc_id) rows"
  using assms
proof (induction rows arbitrary: i s fired)
  case (Cons row rows)
  obtain w e where "ids i = (w, e)" by fastforce
  with Cons.prems obtain f1 sx where
    f: "fire_rows db C now ids (Suc i) rows sx = Inr (f1, s')"
      "fired = ((''schedule_id'', JStr (sc_id (schedule_of row))) # workflow_request w (schedule_of row)) # f1"
    by (auto simp: Let_def)
  from Cons.IH [OF f(1)] Cons.prems(2) f(2) show ?case by (simp add: schedule_of_def)
qed simp

subsection \<open>Properties\<close>


definition demo_schedule :: schedule where
  "demo_schedule = \<lparr>sc_id = ''s'', sc_tenant_id = Some ''a'', sc_project_id = None, sc_goal = ''site_audit'',
     sc_inputs = [(''url'', JStr ''https://a.com'')], sc_cadence = ''monthly'', sc_hour = 9, sc_weekday = 0,
     sc_day_of_month = 31, sc_tz = ''UTC'', sc_active = True, sc_next_run_at = 0, sc_last_run_at = None,
     sc_runs = 0, sc_created_at = 0, sc_last_error = None\<rparr>"

definition demo_schedules :: sched_store where
  "demo_schedules = \<lparr>ss_rows = [demo_schedule], ss_outbox = empty_outbox, ss_tenants = [''a''], ss_projects = []\<rparr>"

definition demo_ids :: "nat \<Rightarrow> string \<times> string" where
  "demo_ids n = (CHR ''w'' # replicate n CHR ''x'', CHR ''e'' # replicate n CHR ''x'')"

lemma demo_pass:
  "sched_inv demo_schedules" "\<forall>r\<in>set (ss_rows demo_schedules). steady (\<lambda>_. Some utc_zone) (stamp demo_moment) r"
  "decides open_contracts"
proof -
  show "sched_inv demo_schedules"
    by (simp add: sched_inv_def demo_schedules_def demo_schedule_def row_checks_def CADENCES_def)
  have "fixed_offset utc_zone 0" by (simp add: fixed_offset_def utc_zone_def)
  then show "\<forall>r\<in>set (ss_rows demo_schedules). steady (\<lambda>_. Some utc_zone) (stamp demo_moment) r"
    using demo_ordinary by (auto simp: steady_def)
  show "decides open_contracts" by (simp add: decides_def open_contracts_accept)
qed




end
