(* ===== verification/Py_Text.thy ===== *)
theory Py_Text
  imports Py_Prelude
begin

text \<open>
  Texts as lists of code points: to and from UTF-8, and the part of \<^verbatim>\<open>str\<close> that looks at single characters
  (stripping, splitting, joining, finding).
\<close>

type_synonym chars = "int list"

fun decode :: "int list \<Rightarrow> chars" where
  "decode [] = []"
| "decode (a # bs) =
     (if a < 128 then a # decode bs
      else if a < 224 then ((a mod 32) * 64 + hd (bs @ [0]) mod 64) # decode (drop 1 bs)
      else if a < 240 then ((a mod 16) * 4096 + hd (bs @ [0]) mod 64 * 64 + hd (drop 1 bs @ [0]) mod 64) # decode (drop 2 bs)
      else ((a mod 8) * 262144 + hd (bs @ [0]) mod 64 * 4096 + hd (drop 1 bs @ [0]) mod 64 * 64 +
              hd (drop 2 bs @ [0]) mod 64) # decode (drop 3 bs))"

definition code_points :: "string \<Rightarrow> chars" where
  "code_points s = decode (map of_char s)"

definition encode_char :: "int \<Rightarrow> int list" where
  "encode_char c =
     (if c < 128 then [c]
      else if c < 2048 then [192 + c div 64, 128 + c mod 64]
      else if c < 65536 then [224 + c div 4096, 128 + c div 64 mod 64, 128 + c mod 64]
      else [240 + c div 262144, 128 + c div 4096 mod 64, 128 + c div 64 mod 64, 128 + c mod 64])"

definition encode :: "chars \<Rightarrow> string" where
  "encode w = map char_of (concat (map encode_char w))"

lemma encode_empty [simp]: "encode t = [] \<longleftrightarrow> t = []"
proof -
  have "encode_char c \<noteq> []" for c by (simp add: encode_char_def)
  then show ?thesis by (cases t) (simp_all add: encode_def)
qed

text \<open>The characters \<^verbatim>\<open>str.strip\<close> and \<^verbatim>\<open>str.split\<close> take for white space.\<close>

definition is_white :: "int \<Rightarrow> bool" where
  "is_white c \<longleftrightarrow> 9 \<le> c \<and> c \<le> 13 \<or> 28 \<le> c \<and> c \<le> 32 \<or> 0x2000 \<le> c \<and> c \<le> 0x200A \<or>
     c \<in> {0x85, 0xA0, 0x1680, 0x2028, 0x2029, 0x202F, 0x205F, 0x3000}"

definition strip_where :: "(int \<Rightarrow> bool) \<Rightarrow> chars \<Rightarrow> chars" where
  "strip_where p t = rev (dropWhile p (rev (dropWhile p t)))"

definition strip_white :: "chars \<Rightarrow> chars" where
  "strip_white t = strip_where is_white t"

fun split_where :: "(int \<Rightarrow> bool) \<Rightarrow> chars \<Rightarrow> chars \<Rightarrow> chars list" where
  "split_where p cur [] = (if cur = [] then [] else [rev cur])"
| "split_where p cur (c # cs) =
     (if p c then (if cur = [] then split_where p [] cs else rev cur # split_where p [] cs)
      else split_where p (c # cur) cs)"

fun join_chars :: "chars list \<Rightarrow> chars" where
  "join_chars [] = []"
| "join_chars [w] = w"
| "join_chars (w # v # ws) = w @ 32 # join_chars (v # ws)"

text \<open>\<^verbatim>\<open>t.rsplit(pattern, 1)[0]\<close>: what precedes the last occurrence, or all of it.\<close>

definition matches_at :: "chars \<Rightarrow> chars \<Rightarrow> nat \<Rightarrow> bool" where
  "matches_at pattern t i \<longleftrightarrow> take (length pattern) (drop i t) = pattern"

definition before_last :: "chars \<Rightarrow> chars \<Rightarrow> chars" where
  "before_last pattern t =
     (case filter (matches_at pattern t) (rev [0..<length t]) of [] \<Rightarrow> t | i # _ \<Rightarrow> take i t)"

text \<open>A value a configuration takes as an integer or as text.\<close>

fun as_int :: "json \<Rightarrow> int py" where
  "as_int (JInt n) = Inr n"
| "as_int (JBool b) = Inr (if b then 1 else 0)"
| "as_int _ = Inl TypeError"

fun as_chars :: "json \<Rightarrow> chars py" where
  "as_chars (JStr s) = Inr (code_points s)"
| "as_chars _ = Inl TypeError"

section \<open>Counting\<close>

text \<open>
  \<^verbatim>\<open>collections.Counter\<close> and the ordered idioms around it: counting in the order of first occurrence,
  the most common entries, duplicates dropped with the order kept.
\<close>

text \<open>\<^verbatim>\<open>list(dict.fromkeys(xs))\<close>.\<close>

fun dedupe :: "'a list \<Rightarrow> 'a list" where
  "dedupe [] = []"
| "dedupe (x # xs) = x # filter (\<lambda>y. y \<noteq> x) (dedupe xs)"

definition counter :: "'a list \<Rightarrow> ('a \<times> nat) list" where
  "counter xs = map (\<lambda>x. (x, count_list xs x)) (dedupe xs)"

text \<open>Largest count first, equal counts in the order of first occurrence.\<close>

definition most_common :: "nat \<Rightarrow> ('a \<times> nat) list \<Rightarrow> ('a \<times> nat) list" where
  "most_common n c = take n (sort_key (\<lambda>e. - int (snd e)) c)"

lemma set_dedupe [simp]: "set (dedupe xs) = set xs"
  by (induction xs) auto

lemma distinct_dedupe [simp]: "distinct (dedupe xs)"
  by (induction xs) auto

lemma dedupe_distinct: "distinct xs \<Longrightarrow> dedupe xs = xs"
  by (induction xs) (auto simp: filter_id_conv)

lemma counter_keys [simp]: "map fst (counter xs) = dedupe xs"
  by (simp add: counter_def comp_def)

lemma in_counter: "(x, n) \<in> set (counter xs) \<longleftrightarrow> x \<in> set xs \<and> n = count_list xs x"
  by (auto simp: counter_def)

lemma most_common_subset: "set (most_common n c) \<subseteq> set c"
  by (auto simp: most_common_def dest: in_set_takeD)

lemma most_common_length: "length (most_common n c) \<le> n"
  by (simp add: most_common_def)

text \<open>What is listed has at least the count of what is left out.\<close>

lemma most_common_largest:
  assumes "e \<in> set (most_common n c)" and "f \<in> set c" and "f \<notin> set (most_common n c)"
  shows "snd f \<le> snd e"
proof -
  let ?s = "sort_key (\<lambda>e. - int (snd e)) c"
  have s: "sorted (map (\<lambda>e. - int (snd e)) ?s)" by simp
  have "f \<in> set (drop n ?s)"
    using assms(2,3) unfolding most_common_def
    by (metis append_take_drop_id set_append set_sort UnE)
  then obtain j where j: "j < length ?s - n" "f = ?s ! (n + j)"
    by (auto simp: in_set_conv_nth)
  from assms(1) obtain i where i: "i < n" "i < length ?s" "e = ?s ! i"
    by (auto simp: most_common_def in_set_conv_nth)
  have "map (\<lambda>e. - int (snd e)) ?s ! i \<le> map (\<lambda>e. - int (snd e)) ?s ! (n + j)"
    using s i(1) j(1) by (intro sorted_nth_mono) auto
  with i j show ?thesis by simp
qed

end
