(* ===== verification/Serp.thy ===== *)
theory Serp
  imports Job_Service Trends Py_Text
begin

text \<open>
  The rank checker, \<^verbatim>\<open>src/services/serp\<close>: what a page of search results means for a site
  (\<^verbatim>\<open>analyze.py\<close>), the check of a list of keywords and the service around it (\<^verbatim>\<open>api.py\<close>, \<^verbatim>\<open>worker.py\<close>).
  The search provider is a parameter. Letter case is that of ASCII text.
\<close>

subsection \<open>Results and rankings\<close>

record result =
  rs_position :: int
  rs_url :: string
  rs_domain :: string
  rs_title :: string
  rs_snippet :: string

definition result_to_dict :: "result \<Rightarrow> json" where
  "result_to_dict r = JObj
     [(''position'', JInt (rs_position r)), (''url'', JStr (rs_url r)), (''domain'', JStr (rs_domain r)),
      (''title'', JStr (rs_title r)), (''snippet'', JStr (rs_snippet r))]"

record ranking =
  rk_keyword :: string
  rk_position :: "int option"
  rk_url :: "string option"
  rk_competitors_above :: "string list"
  rk_results :: "json list"
  rk_error :: "string option"

definition CTR_BY_POSITION :: "(int \<times> rat) list" where
  "CTR_BY_POSITION =
     [(1, 28 / 100), (2, 15 / 100), (3, 11 / 100), (4, 8 / 100), (5, 6 / 100),
      (6, 5 / 100), (7, 4 / 100), (8, 3 / 100), (9, 3 / 100), (10, 2 / 100)]"

definition ctr :: "int \<Rightarrow> rat \<Rightarrow> rat" where
  "ctr position def = (case map_of CTR_BY_POSITION position of None \<Rightarrow> def | Some c \<Rightarrow> c)"

text \<open>The products are never half way between two integers, so rounding floats or rationals is one.\<close>

definition opportunity :: "int option \<Rightarrow> int" where
  "opportunity position =
     (case position of
        None \<Rightarrow> 100
      | Some p \<Rightarrow>
          if p = 1 then 0
          else (let gain = ctr 1 (28 / 100) - ctr p (1 / 100)
                in max 0 (min 100 (round_half_even (gain * 100 / (28 / 100) * (9 / 10))))))"

definition ends_with :: "string \<Rightarrow> string \<Rightarrow> bool" where
  "ends_with suffix s \<longleftrightarrow> starts_with (rev suffix) (rev s)"

definition same_site_domain :: "string \<Rightarrow> string \<Rightarrow> bool" where
  "same_site_domain candidate target \<longleftrightarrow> candidate = target \<or> ends_with (CHR ''.'' # target) candidate"

definition rank :: "string \<Rightarrow> result list \<Rightarrow> string option \<Rightarrow> ranking" where
  "rank keyword results target_domain =
     (let target = drop_www (lower (case target_domain of None \<Rightarrow> [] | Some d \<Rightarrow> d));
          ordered = sort_key rs_position results;
          mine = first_where (\<lambda>r. target \<noteq> [] \<and> same_site_domain (rs_domain r) target) ordered;
          above = (case mine of None \<Rightarrow> []
            | Some m \<Rightarrow> map rs_domain (filter (\<lambda>r. rs_position r < rs_position m) ordered))
      in \<lparr>rk_keyword = keyword, rk_position = map_option rs_position mine, rk_url = map_option rs_url mine,
          rk_competitors_above = dedupe above, rk_results = map result_to_dict ordered, rk_error = None\<rparr>)"

fun opt_int :: "int option \<Rightarrow> json" where
  "opt_int None = JNull"
| "opt_int (Some i) = JInt i"

definition ranking_to_dict :: "ranking \<Rightarrow> json" where
  "ranking_to_dict r = JObj
     [(''keyword'', JStr (rk_keyword r)), (''position'', opt_int (rk_position r)),
      (''url'', opt_json (rk_url r)),
      (''competitors_above'', JList (map JStr (rk_competitors_above r))),
      (''opportunity'', JInt (opportunity (rk_position r))), (''results'', JList (rk_results r)),
      (''error'', opt_json (rk_error r))]"

subsection \<open>The report\<close>

definition best :: "ranking list \<Rightarrow> json" where
  "best ranked =
     (case sort_key (\<lambda>r. the (rk_position r)) ranked of
        [] \<Rightarrow> JNull
      | r # _ \<Rightarrow> JObj [(''keyword'', JStr (rk_keyword r)), (''position'', opt_int (rk_position r)),
                       (''url'', opt_json (rk_url r))])"

lemma round_half_even_between:
  assumes "of_int a \<le> (x :: rat)" and "x \<le> of_int b"
  shows "a \<le> round_half_even x \<and> round_half_even x \<le> b"
proof -
  have "a \<le> \<lfloor>x\<rfloor>" using assms(1) by (simp add: le_floor_iff)
  moreover have "\<lfloor>x\<rfloor> \<le> b" using assms(2) by linarith
  moreover have "\<lfloor>x\<rfloor> + 1 \<le> b" if "of_int \<lfloor>x\<rfloor> < x" using assms(2) that by linarith
  ultimately show ?thesis unfolding round_half_even_def by (auto simp: Let_def split: if_splits)
qed

definition round1 :: "rat \<Rightarrow> rat" where
  "round1 x = of_int (round_half_even (x * 10)) / 10"

definition average_position :: "ranking list \<Rightarrow> json" where
  "average_position ranked =
     (if ranked = [] then JNull
      else JFloat (round1 (of_int (sum_list (map (the \<circ> rk_position) ranked)) / of_nat (length ranked))))"

definition rivals :: "string option \<Rightarrow> ranking list \<Rightarrow> (string \<times> nat) list" where
  "rivals target_domain rankings =
     counter (filter (\<lambda>d. \<not> (case target_domain of None \<Rightarrow> False
          | Some t \<Rightarrow> t \<noteq> [] \<and> same_site_domain d (lower t)))
       (concat (map rk_competitors_above rankings)))"

definition opportunities :: "ranking list \<Rightarrow> ranking list" where
  "opportunities rankings =
     take 25 (sort_key (\<lambda>r. (- opportunity (rk_position r), rk_keyword r))
       (filter (\<lambda>r. rk_error r = None) rankings))"

definition opportunity_to_dict :: "ranking \<Rightarrow> json" where
  "opportunity_to_dict r = JObj
     [(''keyword'', JStr (rk_keyword r)), (''position'', opt_int (rk_position r)),
      (''opportunity'', JInt (opportunity (rk_position r)))]"

definition serp_summarise :: "ranking list \<Rightarrow> string option \<Rightarrow> dict" where
  "serp_summarise rankings target_domain =
     (let ranked = filter (\<lambda>r. rk_position r \<noteq> None) rankings;
          missing = filter (\<lambda>r. rk_position r = None \<and> rk_error r = None) rankings
      in [(''target_domain'', opt_json target_domain),
          (''keywords_checked'', JInt (int (length rankings))),
          (''keywords_ranked'', JInt (int (length ranked))),
          (''keywords_missing'', JInt (int (length missing))),
          (''average_position'', average_position ranked),
          (''best'', best ranked),
          (''top_competitors'', JList (map (\<lambda>(d, n). JObj [(''domain'', JStr d), (''outranks_on'', JInt (int n))])
             (most_common 10 (rivals target_domain rankings)))),
          (''opportunities'', JList (map opportunity_to_dict (opportunities rankings))),
          (''failures'', JList (map (\<lambda>r. JObj [(''keyword'', JStr (rk_keyword r)), (''error'', opt_json (rk_error r))])
             (filter (\<lambda>r. rk_error r \<noteq> None) rankings)))])"

subsection \<open>The service\<close>

text \<open>One keyword after another; a lookup that fails is recorded and the rest go on.\<close>

definition check_keyword ::
  "(string \<Rightarrow> json \<Rightarrow> json \<Rightarrow> result list py) \<Rightarrow> string \<Rightarrow> json \<Rightarrow> json \<Rightarrow> string \<Rightarrow> ranking" where
  "check_keyword fetch domain lang country keyword =
     (case fetch keyword lang country of
        Inr results \<Rightarrow> rank keyword results (Some domain)
      | Inl e \<Rightarrow> \<lparr>rk_keyword = keyword, rk_position = None, rk_url = None, rk_competitors_above = [],
                 rk_results = [], rk_error = Some (exn_text e)\<rparr>)"

definition check_keywords ::
  "(string \<Rightarrow> json \<Rightarrow> json \<Rightarrow> result list py) \<Rightarrow> string list \<Rightarrow> string \<Rightarrow> json \<Rightarrow> json \<Rightarrow> ranking list" where
  "check_keywords fetch keywords domain lang country = map (check_keyword fetch domain lang country) keywords"

definition checked_payload :: "string \<Rightarrow> json \<Rightarrow> dict \<Rightarrow> string \<Rightarrow> string option \<Rightarrow> dict py" where
  "checked_payload check_id domain rep status error =
     bindE (jtake 10 (dget_default rep ''top_competitors'' (JList []))) (\<lambda>top.
     bindE (bindE (jtake 25 (dget_default rep ''opportunities'' (JList []))) as_list) (\<lambda>rows.
     bindE (mapE (\<lambda>row. bindE (as_dict row) (\<lambda>o1.
              bindE (ditem o1 ''keyword'') (\<lambda>k. bindE (ditem o1 ''position'') (\<lambda>p.
              bindE (ditem o1 ''opportunity'') (\<lambda>v.
                Inr (JObj [(''keyword'', k), (''position'', p), (''opportunity'', v)])))))) rows) (\<lambda>opps.
       Inr [(''check_id'', JStr check_id), (''target_domain'', domain), (''status'', JStr status),
            (''error'', opt_json error),
            (''keywords_checked'', dget_default rep ''keywords_checked'' (JInt 0)),
            (''keywords_ranked'', dget_default rep ''keywords_ranked'' (JInt 0)),
            (''average_position'', dget rep ''average_position''), (''best'', dget rep ''best''),
            (''top_competitors'', top), (''opportunities'', JList opps),
            (''result_url'', JStr (''/v1/checks/'' @ check_id))])))"

text \<open>The work of \<^verbatim>\<open>run_check\<close>; \<open>provider\<close> finds the lookup function of a name or raises.\<close>

definition serp_work ::
  "(json \<Rightarrow> (string \<Rightarrow> json \<Rightarrow> json \<Rightarrow> result list py) py) \<Rightarrow> json \<Rightarrow> string option \<Rightarrow> dict \<Rightarrow> dict py" where
  "serp_work provider default_name tenant_id request =
     bindE (provider (py_or (dget request ''provider'') default_name)) (\<lambda>fetch.
     bindE (bindE (ditem request ''target_domain'') read_text) (\<lambda>domain.
     bindE (bindE (ditem request ''keywords'') as_list) (\<lambda>ks.
     bindE (mapE read_text ks) (\<lambda>keywords.
       Inr (serp_summarise (check_keywords fetch keywords domain
              (dget_default request ''lang'' (JStr ''fa''))
              (dget_default request ''country'' (JStr ''IR''))) (Some domain))))))"

definition serp_service ::
  "(json \<Rightarrow> (string \<Rightarrow> json \<Rightarrow> json \<Rightarrow> result list py) py) \<Rightarrow> json \<Rightarrow> service" where
  "serp_service provider default_name =
     \<lparr>sv_name = ''serp-service'', sv_request = ''serp.check_requested'', sv_id_field = ''check_id'',
      sv_early = (\<lambda>_. Inr ()),
      sv_subject = (\<lambda>payload. ditem payload ''target_domain''),
      sv_begin = (\<lambda>request. bindE (ditem request ''target_domain'') (\<lambda>_.
                    bindE (ditem request ''keywords'') (\<lambda>_. Inr ()))),
      sv_work = serp_work provider default_name,
      sv_outgoing = (\<lambda>job request rep status error.
         bindE (ditem request ''target_domain'') (\<lambda>domain.
         bindE (checked_payload job domain rep status error) (\<lambda>payload.
           Inr [(''serp.checked'', payload)])))\<rparr>"

end
