(* ===== verification/Serp_Properties.thy ===== *)
theory Serp_Properties
  imports Serp Engine
begin

text \<open>
  What the rank checker promises: the position it reports, the opportunity it computes, the counts
  of its report, and that its completion event is one the orchestrator understands. The
  properties of the service shape over Postgres are stated here too, for every service.
\<close>

lemma ends_with_iff: "ends_with suffix s \<longleftrightarrow> (\<exists>p. s = p @ suffix)"
proof -
  have "starts_with (rev suffix) (rev s) \<longleftrightarrow> (\<exists>t. rev s = rev suffix @ t)" by (rule starts_with_iff)
  also have "\<dots> \<longleftrightarrow> (\<exists>p. s = p @ suffix)" by (metis rev_append rev_rev_ident)
  finally show ?thesis by (simp add: ends_with_def)
qed

lemma opportunity_value:
  "opportunity (Some p) =
     (if p = 1 then 0 else if p = 2 then 42 else if p = 3 then 55 else if p = 4 then 64
      else if p = 5 then 71 else if p = 6 then 74 else if p = 7 then 77 else if p = 8 \<or> p = 9 then 80
      else if p = 10 then 84 else 87)"
proof -
  have "opportunity (Some 2) = 42" "opportunity (Some 3) = 55" "opportunity (Some 4) = 64"
    "opportunity (Some 5) = 71" "opportunity (Some 6) = 74" "opportunity (Some 7) = 77"
    "opportunity (Some 8) = 80" "opportunity (Some 9) = 80" "opportunity (Some 10) = 84"
    by code_simp+
  moreover have "opportunity (Some p) = 87" if "p \<notin> {1, 2, 3, 4, 5, 6, 7, 8, 9, 10}"
  proof -
    have "map_of CTR_BY_POSITION p = None" using that by (simp add: CTR_BY_POSITION_def)
    then have "opportunity (Some p) = opportunity (Some 11)"
      using that by (simp add: opportunity_def ctr_def CTR_BY_POSITION_def)
    also have "\<dots> = 87" by code_simp
    finally show ?thesis .
  qed
  moreover have "opportunity (Some 1) = 0" by (simp add: opportunity_def)
  ultimately show ?thesis by auto
qed

lemma rank_cases:
  assumes "target = drop_www (lower d)"
  shows "rk_position (rank kw results (Some d)) = None \<Longrightarrow> r \<in> set results \<Longrightarrow> target \<noteq> [] \<Longrightarrow>
           \<not> same_site_domain (rs_domain r) target"
    and "rk_position (rank kw results (Some d)) = Some p \<Longrightarrow>
           \<exists>m\<in>set results. rs_position m = p \<and> same_site_domain (rs_domain m) target \<and>
             rk_url (rank kw results (Some d)) = Some (rs_url m) \<and>
             set (rk_competitors_above (rank kw results (Some d))) = rs_domain ` {r \<in> set results. rs_position r < p} \<and>
             (\<forall>r\<in>set results. same_site_domain (rs_domain r) target \<longrightarrow> p \<le> rs_position r)"
proof -
  let ?hit = "\<lambda>r. target \<noteq> [] \<and> same_site_domain (rs_domain r) target"
  let ?mine = "first_where ?hit (sort_key rs_position results)"
  have pos: "rk_position (rank kw results (Some d)) = map_option rs_position ?mine"
    "rk_url (rank kw results (Some d)) = map_option rs_url ?mine"
    by (simp_all add: rank_def Let_def assms)
  show "\<not> same_site_domain (rs_domain r) target"
    if "rk_position (rank kw results (Some d)) = None" "r \<in> set results" "target \<noteq> []"
    using that pos(1) by (auto simp: find_None_iff_all)
  show "\<exists>m\<in>set results. rs_position m = p \<and> same_site_domain (rs_domain m) target \<and>
             rk_url (rank kw results (Some d)) = Some (rs_url m) \<and>
             set (rk_competitors_above (rank kw results (Some d))) = rs_domain ` {r \<in> set results. rs_position r < p} \<and>
             (\<forall>r\<in>set results. same_site_domain (rs_domain r) target \<longrightarrow> p \<le> rs_position r)"
    if p: "rk_position (rank kw results (Some d)) = Some p"
  proof -
    from p pos(1) obtain m where m: "?mine = Some m" "rs_position m = p" by auto
    from find_sort_key_least [OF m(1)]
    have l: "m \<in> set results" "target \<noteq> []" "same_site_domain (rs_domain m) target"
      "\<forall>r\<in>set results. same_site_domain (rs_domain r) target \<longrightarrow> p \<le> rs_position r"
      using m(2) by auto
    have "set (rk_competitors_above (rank kw results (Some d))) = rs_domain ` {r \<in> set results. rs_position r < p}"
      using m by (auto simp: rank_def Let_def assms [symmetric])
    with l m pos(2) show ?thesis by (intro bexI [of _ m]) auto
  qed
qed

text \<open>The rank that is reported is the site's best: it is the position of a result on the target
  domain or one of its subdomains (never of a name that merely ends in it), no such result stands
  higher, and the competitors listed are exactly the domains above it; without a rank no result
  belongs to the site.\<close>

lemma rank_is_best:
  assumes "target = drop_www (lower d)" and "target \<noteq> []"
  shows "case rk_position (rank kw results (Some d)) of
           None \<Rightarrow> (\<forall>r\<in>set results. rs_domain r \<noteq> target \<and> (\<nexists>sub. rs_domain r = sub @ ''.'' @ target))
         | Some p \<Rightarrow>
             (\<exists>m\<in>set results. rs_position m = p \<and> (rs_domain m = target \<or> (\<exists>sub. rs_domain m = sub @ ''.'' @ target))) \<and>
             (\<forall>r\<in>set results. rs_domain r = target \<or> (\<exists>sub. rs_domain r = sub @ ''.'' @ target) \<longrightarrow> p \<le> rs_position r) \<and>
             set (rk_competitors_above (rank kw results (Some d))) = rs_domain ` {r \<in> set results. rs_position r < p}"
proof -
  have site: "same_site_domain c target \<longleftrightarrow> c = target \<or> (\<exists>sub. c = sub @ ''.'' @ target)" for c
    by (simp add: same_site_domain_def ends_with_iff)
  show ?thesis
  proof (cases "rk_position (rank kw results (Some d))")
    case None
    from rank_cases(1) [OF assms(1) None] assms(2) show ?thesis by (simp add: None site)
  next
    case (Some p)
    from rank_cases(2) [OF assms(1) Some] show ?thesis
      unfolding Some site [symmetric] by auto
  qed
qed

definition demo_results :: "result list" where
  "demo_results =
     [\<lparr>rs_position = 3, rs_url = ''u3'', rs_domain = ''blog.a.com'', rs_title = [], rs_snippet = []\<rparr>,
      \<lparr>rs_position = 1, rs_url = ''u1'', rs_domain = ''nota.com'', rs_title = [], rs_snippet = []\<rparr>]"

text \<open>The opportunity of a rank is between 0 and 100, nothing at the top, most when the site is not
  found, and never smaller further down: the places two to five, which the documentation calls the
  cheapest wins, score below every place from six to ten.\<close>

lemma opportunity_grows_with_distance:
  "0 \<le> opportunity pos \<and> opportunity pos \<le> 100 \<and> opportunity (Some 1) = 0 \<and> opportunity None = 100 \<and>
   (1 \<le> p \<and> p \<le> q \<longrightarrow> opportunity (Some p) \<le> opportunity (Some q)) \<and>
   (p \<in> {2..5} \<and> q \<in> {6..10} \<longrightarrow> opportunity (Some p) < opportunity (Some q))"
proof -
  have "0 \<le> opportunity pos \<and> opportunity pos \<le> 100"
    by (cases pos) (auto simp: opportunity_value, simp_all add: opportunity_def)
  moreover have "opportunity (Some p) \<le> opportunity (Some q)" if "1 \<le> p" "p \<le> q"
    using that by (simp add: opportunity_value) presburger
  moreover have "opportunity (Some p) < opportunity (Some q)" if "p \<in> {2..5}" "q \<in> {6..10}"
    using that by (simp add: opportunity_value)
  ultimately show ?thesis by (simp add: opportunity_def)
qed

subsection \<open>The completion event\<close>

lemma mapE_ok: "(\<And>x. x \<in> set xs \<Longrightarrow> f x = Inr (g x)) \<Longrightarrow> mapE f xs = Inr (map g xs)"
  by (induction xs) auto

text \<open>The report of a check, or the empty one of a check that failed.\<close>

definition serp_report :: "dict \<Rightarrow> bool" where
  "serp_report rep \<longleftrightarrow> rep = [] \<or> (\<exists>rankings d. rep = serp_summarise rankings d)"

lemma serp_report_lists:
  assumes "serp_report rep"
  shows "\<exists>top opps. dget_default rep ''top_competitors'' (JList []) = JList top \<and>
           dget_default rep ''opportunities'' (JList []) = JList (map opportunity_to_dict opps)"
proof (cases "rep = []")
  case True
  then show ?thesis by (auto simp: dget_default_def intro: exI [of _ "[]"])
next
  case False
  with assms obtain rankings d where "rep = serp_summarise rankings d" by (auto simp: serp_report_def)
  then show ?thesis by (auto simp: serp_summarise_def Let_def dget_default_def)
qed

lemma checked_payload_ok:
  assumes "serp_report rep"
  shows "\<exists>p top opps. checked_payload job dmn rep status error = Inr p \<and>
           dget p ''check_id'' = JStr job \<and> dget p ''status'' = JStr status \<and> dget p ''error'' = opt_json error \<and>
           dget_default p ''top_competitors'' (JList []) = JList top \<and>
           dget_default p ''opportunities'' (JList []) = JList opps"
proof -
  from serp_report_lists [OF assms] obtain top opps
    where l: "dget_default rep ''top_competitors'' (JList []) = JList top"
      "dget_default rep ''opportunities'' (JList []) = JList (map opportunity_to_dict opps)" by blast
  let ?f = "\<lambda>row. bindE (as_dict row) (\<lambda>o1. bindE (ditem o1 ''keyword'') (\<lambda>k. bindE (ditem o1 ''position'') (\<lambda>p.
              bindE (ditem o1 ''opportunity'') (\<lambda>v.
                Inr (JObj [(''keyword'', k), (''position'', p), (''opportunity'', v)])))))"
  let ?opps = "take 25 (map opportunity_to_dict opps)"
  have m: "mapE ?f ?opps = Inr (map id ?opps)"
    by (rule mapE_ok) (auto simp: opportunity_to_dict_def ditem_def dest!: in_set_takeD)
  let ?p = "[(''check_id'', JStr job), (''target_domain'', dmn), (''status'', JStr status),
            (''error'', opt_json error),
            (''keywords_checked'', dget_default rep ''keywords_checked'' (JInt 0)),
            (''keywords_ranked'', dget_default rep ''keywords_ranked'' (JInt 0)),
            (''average_position'', dget rep ''average_position''), (''best'', dget rep ''best''),
            (''top_competitors'', JList (take 10 top)), (''opportunities'', JList (map id ?opps)),
            (''result_url'', JStr (''/v1/checks/'' @ job))]"
  have "checked_payload job dmn rep status error = Inr ?p"
    unfolding checked_payload_def l jtake.simps bindE_simps as_list.simps m ..
  moreover have "dget ?p ''check_id'' = JStr job" "dget ?p ''status'' = JStr status"
    "dget ?p ''error'' = opt_json error"
    "dget_default ?p ''top_competitors'' (JList []) = JList (take 10 top)"
    "dget_default ?p ''opportunities'' (JList []) = JList (map id ?opps)"
    by (simp_all add: dget_default_def)
  ultimately show ?thesis by blast
qed

text \<open>The orchestrator understands the rank checker: whatever a check came to, its completion
  event can be built, and the engine reads from it the job, whether it failed, and the error.\<close>

lemma serp_event_understood:
  assumes "serp_report rep" and "job \<noteq> []"
  shows "\<exists>p result. checked_payload job dmn rep status error = Inr p \<and>
           completion_update ''serp.checked'' p =
             Inr (job, if status = ''failed'' then Failed else Completed, result, error)"
proof -
  from checked_payload_ok [OF assms(1), of job dmn status error] obtain p top opps
    where p: "checked_payload job dmn rep status error = Inr p"
      "dget p ''check_id'' = JStr job" "dget p ''status'' = JStr status" "dget p ''error'' = opt_json error"
      "dget_default p ''top_competitors'' (JList []) = JList top"
      "dget_default p ''opportunities'' (JList []) = JList opps" by blast
  have "text_column (opt_json error) = Inr error" by (cases error) simp_all
  with p assms(2) have "\<exists>result. completion_update ''serp.checked'' p =
      Inr (job, if status = ''failed'' then Failed else Completed, result, error)"
    by (simp add: completion_update_def COMPLETIONS_def step_result_def pick_head_def)
  with p(1) show ?thesis by blast
qed

subsection \<open>A request and its answer\<close>

lemma serp_work_report: "serp_work prov def t request = Inr rep \<Longrightarrow> serp_report rep"
  by (auto simp: serp_work_def serp_report_def)

lemma serp_announces:
  assumes "map_of request ''target_domain'' = Some dmn"
    and "\<And>p. dget p ''check_id'' = JStr job \<Longrightarrow> validate_event C ''serp.checked'' p = Inr ()"
  shows "\<exists>p. announces_all C (serp_service prov def) job t request [(''serp.checked'', p)] \<and>
           dget p ''check_id'' = JStr job"
proof -
  obtain rep status error where o: "outcome (serp_service prov def) t request = (rep, status, error)"
    by (cases "outcome (serp_service prov def) t request") auto
  have "serp_report rep"
    using o serp_work_report [of prov def t request]
    by (auto simp: outcome_def serp_service_def serp_report_def split: sum.splits)
  from checked_payload_ok [OF this, of job dmn "job_status_name status" error] obtain p
    where p: "checked_payload job dmn rep (job_status_name status) error = Inr p" "dget p ''check_id'' = JStr job"
    by blast
  have "announces_all C (serp_service prov def) job t request [(''serp.checked'', p)]"
    using assms p o by (simp add: announces_all_def serp_service_def ditem_def)
  with p(2) show ?thesis by blast
qed

lemma remembered_emitted [simp]:
  "wk_store (remember_event i w) = wk_store w" "wk_emitted (remember_event i w) = wk_emitted w"
  by (simp_all add: remember_event_def)


definition demo_delivery :: delivery where
  "demo_delivery = \<lparr>dl_id = ''e1'', dl_payload = [(''check_id'', JStr ''j''), (''target_domain'', JStr ''a.com''),
     (''keywords'', JList [JStr ''seo''])], dl_tenant_id = Some ''a'', dl_project_id = None, dl_correlation_id = None\<rparr>"

definition demo_worker :: "pg_store worker" where
  "demo_worker = \<lparr>wk_store = demo_pg, wk_seen = [], wk_emitted = []\<rparr>"

definition demo_serp :: service where
  "demo_serp = serp_service (\<lambda>_. Inr (\<lambda>_ _ _. Inr demo_results)) (JStr ''html'')"


text \<open>A job that was interrupted is never taken up again: while its row says running, which is what
  a process that died in the middle of the work leaves behind, every further delivery of the
  request, to this or any other process of any service, is acknowledged without running it and
  without an event, so nobody who waits for the job ever hears of it.\<close>

lemma interrupted_job_never_resumed:
  assumes "pg_inv (wk_store w)" and "pg_view isof (wk_store w) job = Some r" and "j_status r = J_Running"
    and "validate_event C (sv_request sv) (dl_payload d) = Inr ()"
    and "job_id_of sv new_id (dl_payload d) = Inr job"
    and "sv_early sv (filter (\<lambda>e. fst e \<noteq> sv_id_field sv) (dl_payload d)) = Inr ()"
    and "handle C sv (pg_create isof) (pg_get isof) (pg_write isof) True d new_id ids w = (res, w')"
  shows "res = Inr () \<and> wk_store w' = wk_store w \<and> wk_emitted w' = wk_emitted w"
proof (cases "dl_id d \<in> set (wk_seen w)")
  case True
  with assms(7) show ?thesis by (simp add: handle_def)
next
  case False
  have "fst (pg_get isof job None (wk_store w)) = Some r"
    using pg.get_anyone [OF assms(1), of isof job] assms(2) by simp
  then have "pg_get isof job None (wk_store w) = (Some r, wk_store w)" by (simp add: pg_get_def)
  with False assms(3-7) show ?thesis
    by (auto simp: handle_def Let_def busy_def)
qed

definition demo_interrupted :: "pg_store worker" where
  "demo_interrupted = demo_worker\<lparr>wk_store := snd (pg_write show_int ''j'' running_changes []
     (snd (pg_create show_int ''j'' ''a.com'' None None demo_pg)))\<rparr>"

end
