(* ===== verification/Persian_Text.thy ===== *)
theory Persian_Text
  imports Py_Text
begin

text \<open>
  \<^verbatim>\<open>src/shared/text.py\<close>: one spelling per word. A text is the list of its code points. The Unicode tables behind \<^verbatim>\<open>unicodedata.normalize\<close>, \<^verbatim>\<open>str.casefold\<close> and the class
  \<^verbatim>\<open>\w\<close> and \<^verbatim>\<open>str.isdigit\<close> are a parameter.
\<close>

record unicode =
  nfkc :: "chars \<Rightarrow> chars"
  fold_case :: "chars \<Rightarrow> chars"
  is_word :: "int \<Rightarrow> bool"
  digit_char :: "int \<Rightarrow> bool"

text \<open>The table, in its order: what is replaced, and by what.\<close>

definition FOLD :: "(int \<times> chars) list" where
  "FOLD = [(0x64A, [0x6CC]), (0x649, [0x6CC]), (0x643, [0x6A9]), (0x6C0, [0x647]), (0x200C, [0x20]),
           (0x200F, []), (0x200E, []), (0x640, [])]"

definition replace_char :: "int \<Rightarrow> chars \<Rightarrow> chars \<Rightarrow> chars" where
  "replace_char source target t = concat (map (\<lambda>c. if c = source then target else [c]) t)"

definition fold_table :: "chars \<Rightarrow> chars" where
  "fold_table t = foldl (\<lambda>u (source, target). replace_char source target u) t FOLD"

definition DIACRITICS :: "int \<Rightarrow> bool" where
  "DIACRITICS c \<longleftrightarrow> 0x64B \<le> c \<and> c \<le> 0x652 \<or> c = 0x670"

definition PUNCTUATION :: "int \<Rightarrow> bool" where
  "PUNCTUATION c \<longleftrightarrow> c \<in> {0x60C, 0x60D, 0x61B, 0x61E, 0x61F, 0x6D4, 0x6DD} \<or> 0x66A \<le> c \<and> c \<le> 0x66D"

definition NON_WORD :: "unicode \<Rightarrow> int \<Rightarrow> bool" where
  "NON_WORD U c \<longleftrightarrow> \<not> (is_word U c \<or> 0x600 \<le> c \<and> c \<le> 0x6FF)"

definition STOPWORDS :: "chars list" where
  "STOPWORDS = [[1608], [1583, 1585], [1576, 1607], [1575, 1586], [1576, 1575], [1576, 1585, 1575, 1740],
    [1585, 1575], [1705, 1607], [1575, 1740, 1606], [1570, 1606], [1575, 1587, 1578],
    [1607, 1575, 1740], [1607, 1575], [116, 104, 101], [97], [97, 110], [111, 102], [102,
    111, 114], [97, 110, 100], [105, 110], [111, 110], [116, 111]]"

text \<open>\<^verbatim>\<open>re.sub("[...]+", " ", t)\<close>: a run of matching characters becomes one space.\<close>

fun sub_runs :: "(int \<Rightarrow> bool) \<Rightarrow> bool \<Rightarrow> chars \<Rightarrow> chars" where
  "sub_runs p inside [] = []"
| "sub_runs p inside (c # cs) =
     (if p c then (if inside then sub_runs p True cs else 32 # sub_runs p True cs) else c # sub_runs p False cs)"

definition strip_spaces :: "chars \<Rightarrow> chars" where
  "strip_spaces t = rev (dropWhile (\<lambda>c. c = 32) (rev (dropWhile (\<lambda>c. c = 32) t)))"

definition normalise :: "unicode \<Rightarrow> chars \<Rightarrow> chars" where
  "normalise U t =
     (if t = [] then []
      else fold_case U (strip_spaces (sub_runs (NON_WORD U) False
             (map (\<lambda>c. if PUNCTUATION c then 32 else c) (filter (\<lambda>c. \<not> DIACRITICS c) (fold_table (nfkc U t)))))))"

text \<open>\<^verbatim>\<open>t.split()\<close>; the only white space \<^verbatim>\<open>normalise\<close> leaves is the plain space.\<close>

fun split_spaces :: "chars \<Rightarrow> chars \<Rightarrow> chars list" where
  "split_spaces cur [] = (if cur = [] then [] else [rev cur])"
| "split_spaces cur (c # cs) =
     (if c = 32 then (if cur = [] then split_spaces [] cs else rev cur # split_spaces [] cs)
      else split_spaces (c # cur) cs)"

definition words_of :: "unicode \<Rightarrow> chars \<Rightarrow> chars list" where
  "words_of U t = filter (\<lambda>w. w \<noteq> [] \<and> w \<notin> set STOPWORDS) (split_spaces [] (normalise U t))"

definition words :: "unicode \<Rightarrow> string \<Rightarrow> chars list" where
  "words U t = words_of U (code_points t)"

definition plain_unicode :: unicode where
  "plain_unicode = \<lparr>nfkc = (\<lambda>t. t), fold_case = map (\<lambda>c. if 65 \<le> c \<and> c \<le> 90 then c + 32 else c),
     is_word = (\<lambda>c. 48 \<le> c \<and> c \<le> 57 \<or> 65 \<le> c \<and> c \<le> 90 \<or> 97 \<le> c \<and> c \<le> 122 \<or> c = 95),
     digit_char = (\<lambda>c. 48 \<le> c \<and> c \<le> 57)\<rparr>"

subsection \<open>One spelling per word\<close>

text \<open>
  Each character is replaced on its own, so the table acts like a function on characters that leaves
  what it produces alone: applying it again changes nothing.
\<close>

lemma fold_table_append: "fold_table (a @ b) = fold_table a @ fold_table b"
  by (simp add: fold_table_def FOLD_def replace_char_def)

lemma fold_table_single: "fold_table [c] = (case map_of FOLD c of None \<Rightarrow> [c] | Some t \<Rightarrow> t)"
  by (simp add: fold_table_def FOLD_def replace_char_def)

lemma fold_table_idem: "fold_table (fold_table t) = fold_table t"
proof (induction t)
  case (Cons c t)
  have "fold_table (fold_table [c]) = fold_table [c]"
    unfolding fold_table_single by (simp add: FOLD_def fold_table_def replace_char_def)
  with Cons fold_table_append [of "[c]" t] show ?case by (simp add: fold_table_append)
qed (simp add: fold_table_def FOLD_def replace_char_def)

end
