(* ===== verification/Upstream.thy ===== *)
theory Upstream
  imports Py_Prelude
begin

text \<open>
  \<^verbatim>\<open>src/shared/upstream.py\<close>: reading a finished report from a sibling service. The HTTP client is a
  parameter: for a URL and a tenant it gives the reason why the service cannot be reached, or a status
  and the JSON body, if the body is JSON.
\<close>

type_synonym http = "string \<Rightarrow> string option \<Rightarrow> string + int \<times> json option"

definition rstrip_slash :: "string \<Rightarrow> string" where
  "rstrip_slash s = rev (dropWhile (\<lambda>c. c = CHR ''/'') (rev s))"

text \<open>\<^verbatim>\<open>{"tenant_id": tenant_id} if tenant_id else {}\<close>.\<close>

definition tenant_param :: "string option \<Rightarrow> string option" where
  "tenant_param tenant_id = (if tenant_id = Some [] then None else tenant_id)"

definition fetch_body :: "http \<Rightarrow> string \<Rightarrow> string \<Rightarrow> string option \<Rightarrow> json py" where
  "fetch_body get base_url path tenant_id =
     (let url = rstrip_slash base_url @ path in
      case get url (tenant_param tenant_id) of
        Inl reason \<Rightarrow> Inl (ReportUnavailable (url @ '' unreachable: '' @ reason))
      | Inr (status, body) \<Rightarrow>
          if status = 404 then Inl (UnknownRecord (path @ '' not found''))
          else if 400 \<le> status then Inl (ReportUnavailable (url @ '' returned '' @ show_int status))
          else (case body of None \<Rightarrow> Inl (ReportUnavailable (url @ '' did not return JSON'')) | Some b \<Rightarrow> Inr b))"

text \<open>With the default key the report inside the body; a job without one is still running.\<close>

definition fetch_report :: "http \<Rightarrow> string \<Rightarrow> string \<Rightarrow> string option \<Rightarrow> json py" where
  "fetch_report get base_url path tenant_id =
     bindE (fetch_body get base_url path tenant_id) (\<lambda>body.
     bindE (jget body ''report'') (\<lambda>found.
       if truthy found then Inr found else Inl (ReportUnavailable (path @ '' has no report yet''))))"

text \<open>Only a missing record is final: every other failure of the transport is worth a retry.\<close>

definition retryable :: "exn \<Rightarrow> bool" where
  "retryable e \<longleftrightarrow> (\<exists>m. e = ReportUnavailable m)"

lemma fetch_body_errors:
  assumes "fetch_body get base_url path tenant_id = Inl e"
  shows "retryable e \<or> (\<exists>body. get (rstrip_slash base_url @ path) (tenant_param tenant_id) = Inr (404, body)) \<and>
           e = UnknownRecord (path @ '' not found'')"
  using assms by (auto simp: fetch_body_def Let_def retryable_def split: sum.splits if_splits option.splits)

lemma fetch_report_truthy: "fetch_report get base_url path tenant_id = Inr rep \<Longrightarrow> truthy rep"
  by (auto simp: fetch_report_def split: if_splits)

end
