(* ===== verification/Content.thy ===== *)
theory Content
  imports Serp Persian_Text Upstream
begin

text \<open>
  The content service, \<^verbatim>\<open>src/services/content\<close>: which researched keywords the site has a page for and
  which pages compete for one keyword (\<^verbatim>\<open>analyze.py\<close>), with the service around it (\<^verbatim>\<open>source.py\<close>, \<^verbatim>\<open>api.py\<close>,
  \<^verbatim>\<open>worker.py\<close>).
\<close>

subsection \<open>Reading the two reports\<close>

record page =
  pg_url :: string
  pg_title :: json
  pg_description :: json
  pg_headings :: "string list"
  pg_words :: int
  pg_indexable :: bool

text \<open>\<^verbatim>\<open>" ".join(parts)\<close>, where a title or description that is no text raises.\<close>

definition text_or_empty :: "json \<Rightarrow> string py" where
  "text_or_empty j = (if truthy j then read_text j else Inr [])"

fun join_spaces :: "string list \<Rightarrow> string" where
  "join_spaces [] = []"
| "join_spaces [s] = s"
| "join_spaces (s # t # rest) = s @ CHR '' '' # join_spaces (t # rest)"

definition declared :: "page \<Rightarrow> string py" where
  "declared p =
     bindE (text_or_empty (pg_title p)) (\<lambda>title.
     bindE (text_or_empty (pg_description p)) (\<lambda>description.
       Inr (join_spaces ([title, title, description] @ pg_headings p))))"

definition heading_text :: "runtime \<Rightarrow> json \<Rightarrow> string list" where
  "heading_text R h = (case h of JObj d \<Rightarrow> [py_str R (py_or (dget d ''text'') (JStr []))] | _ \<Rightarrow> [])"

definition build_page :: "runtime \<Rightarrow> dict \<Rightarrow> page py" where
  "build_page R row =
     bindE (as_list (py_or (dget row ''headings'') (JList []))) (\<lambda>hs.
     bindE (py_int (py_or (dget row ''words'') (JInt 0))) (\<lambda>n.
       Inr \<lparr>pg_url = py_str R (dget row ''url''), pg_title = dget row ''title'', pg_description = dget row ''description'',
            pg_headings = concat (map (heading_text R) hs), pg_words = n, pg_indexable = truthy (dget row ''indexable'')\<rparr>))"

definition build_pages :: "runtime \<Rightarrow> dict \<Rightarrow> page list py" where
  "build_pages R rep =
     bindE (as_list (py_or (dget rep ''pages'') (JList []))) (\<lambda>rows.
     bindE (mapE (\<lambda>row. bindE (as_dict row) (\<lambda>d.
              if truthy (dget d ''url'') then bindE (build_page R d) (\<lambda>p. Inr [p]) else Inr [])) rows) (\<lambda>out.
       Inr (concat out)))"

record keyword =
  kw_keyword :: string
  kw_demand :: int
  kw_intent :: string

fun build_keyword :: "runtime \<Rightarrow> json \<Rightarrow> keyword list py" where
  "build_keyword R (JStr s) = Inr [\<lparr>kw_keyword = s, kw_demand = 0, kw_intent = ''unknown''\<rparr>]"
| "build_keyword R (JObj d) =
     (if truthy (dget d ''keyword'') then
        bindE (py_int (py_or (dget d ''demand'') (JInt 0))) (\<lambda>n.
          Inr [\<lparr>kw_keyword = py_str R (dget d ''keyword''), kw_demand = n,
                kw_intent = py_str R (py_or (dget d ''intent'') (JStr ''unknown''))\<rparr>])
      else Inr [])"
| "build_keyword R _ = Inr []"

definition build_keywords :: "runtime \<Rightarrow> dict \<Rightarrow> keyword list py" where
  "build_keywords R research =
     bindE (as_list (py_or (dget research ''keywords'') (py_or (dget research ''top_keywords'') (JList [])))) (\<lambda>rows.
     bindE (mapE (build_keyword R) rows) (\<lambda>out. Inr (concat out)))"

subsection \<open>Matching\<close>

definition MATCH_RATIO :: rat where "MATCH_RATIO = 67 / 100"

definition targets :: "unicode \<Rightarrow> page \<Rightarrow> string \<Rightarrow> bool py" where
  "targets U p keyword =
     (let terms = words U keyword in
      if terms = [] then Inr False
      else bindE (declared p) (\<lambda>t.
        let hits = length (filter (\<lambda>w. w \<in> set (words U t)) terms)
        in Inr (MATCH_RATIO \<le> of_nat hits / of_nat (length terms))))"

fun filterE :: "('a \<Rightarrow> bool py) \<Rightarrow> 'a list \<Rightarrow> 'a list py" where
  "filterE p [] = Inr []"
| "filterE p (x # xs) = bindE (p x) (\<lambda>b. bindE (filterE p xs) (\<lambda>ys. Inr (if b then x # ys else ys)))"

text \<open>\<^verbatim>\<open>match\<close>: a dictionary, so a keyword that occurs twice has one entry.\<close>

fun match_pages :: "unicode \<Rightarrow> page list \<Rightarrow> keyword list \<Rightarrow> (string \<times> page list) list \<Rightarrow> (string \<times> page list) list py" where
  "match_pages U indexable [] found = Inr found"
| "match_pages U indexable (row # rows) found =
     bindE (filterE (\<lambda>p. targets U p (kw_keyword row)) indexable) (\<lambda>ps.
       match_pages U indexable rows (assoc_set (kw_keyword row) ps found))"

definition match :: "unicode \<Rightarrow> page list \<Rightarrow> keyword list \<Rightarrow> (string \<times> page list) list py" where
  "match U site keywords = match_pages U (filter pg_indexable site) keywords []"

subsection \<open>Findings\<close>

text \<open>\<^verbatim>\<open>{row["keyword"]: row for row in keywords}\<close>: the last row of a keyword counts.\<close>

definition by_keyword :: "keyword list \<Rightarrow> string \<Rightarrow> keyword option" where
  "by_keyword keywords = map_of (rev (map (\<lambda>r. (kw_keyword r, r)) keywords))"

definition gap_row :: "keyword list \<Rightarrow> string \<Rightarrow> keyword" where
  "gap_row keywords k =
     \<lparr>kw_keyword = k,
      kw_demand = (case by_keyword keywords k of None \<Rightarrow> 0 | Some r \<Rightarrow> kw_demand r),
      kw_intent = (case by_keyword keywords k of None \<Rightarrow> ''unknown'' | Some r \<Rightarrow> kw_intent r)\<rparr>"

definition gaps :: "(string \<times> page list) list \<Rightarrow> keyword list \<Rightarrow> keyword list" where
  "gaps matched keywords =
     take 25 (sort_key (\<lambda>r. (- kw_demand r, kw_keyword r))
       (map (gap_row keywords) (map fst (filter (\<lambda>e. snd e = []) matched))))"

definition keyword_to_dict :: "keyword \<Rightarrow> json" where
  "keyword_to_dict r = JObj [(''keyword'', JStr (kw_keyword r)), (''demand'', JInt (kw_demand r)), (''intent'', JStr (kw_intent r))]"

definition page_to_dict :: "page \<Rightarrow> json" where
  "page_to_dict p = JObj [(''url'', JStr (pg_url p)), (''title'', pg_title p), (''words'', JInt (pg_words p))]"

definition clashes :: "(string \<times> page list) list \<Rightarrow> (string \<times> page list) list" where
  "clashes matched =
     take 25 (sort_key (\<lambda>e. (- int (length (snd e)), fst e)) (filter (\<lambda>e. 1 < length (snd e)) matched))"

definition clash_to_dict :: "string \<times> page list \<Rightarrow> json" where
  "clash_to_dict e = JObj [(''keyword'', JStr (fst e)),
     (''pages'', JList (map page_to_dict (take 5 (sort_key (\<lambda>p. - pg_words p) (snd e))))),
     (''count'', JInt (int (length (snd e))))]"

definition untargeted :: "page list \<Rightarrow> (string \<times> page list) list \<Rightarrow> page list" where
  "untargeted site matched =
     (let claimed = pg_url ` set (concat (map snd matched))
      in take 25 (filter (\<lambda>p. pg_indexable p \<and> pg_url p \<notin> claimed) site))"

definition coverage :: "nat \<Rightarrow> nat \<Rightarrow> rat" where
  "coverage covered keywords = (if keywords = 0 then 0 else round1 (of_nat covered / of_nat keywords * 100))"

definition fa_method :: string where
"fa_method = utf8 [216, 170, 216, 183, 216, 168, 219, 140, 217, 130, 32, 216, 168, 216, 177,
    32, 216, 167, 216, 179, 216, 167, 216, 179, 32, 218, 134, 219, 140, 216, 178, 219, 140,
    32, 216, 167, 216, 179, 216, 170, 32, 218, 169, 217, 135, 32, 216, 181, 217, 129, 216,
    173, 217, 135, 32, 216, 175, 216, 177, 216, 168, 216, 167, 216, 177, 217, 135, 226, 128,
    140, 219, 140, 32, 216, 174, 217, 136, 216, 175, 216, 180, 32, 216, 167, 216, 185, 217,
    132, 216, 167, 217, 133, 32, 217, 133, 219, 140, 226, 128, 140, 218, 169, 217, 134, 216,
    175, 58, 32, 216, 185, 217, 134, 217, 136, 216, 167, 217, 134, 216, 140, 32, 216, 170,
    217, 136, 216, 182, 219, 140, 216, 173, 32, 217, 133, 216, 170, 216, 167, 32, 217, 136,
    32, 216, 170, 219, 140, 216, 170, 216, 177, 217, 135, 216, 167, 46, 32, 217, 133, 216,
    170, 217, 134, 32, 216, 168, 216, 175, 217, 134, 217, 135, 32, 216, 168, 216, 177, 216,
    177, 216, 179, 219, 140, 32, 217, 134, 217, 133, 219, 140, 226, 128, 140, 216, 180, 217,
    136, 216, 175, 216, 140, 32, 217, 190, 216, 179, 32, 217, 133, 217, 133, 218, 169, 217,
    134, 32, 216, 167, 216, 179, 216, 170, 32, 216, 181, 217, 129, 216, 173, 217, 135, 226,
    128, 140, 216, 167, 219, 140, 32, 217, 133, 217, 136, 216, 182, 217, 136, 216, 185, 219,
    140, 32, 216, 177, 216, 167, 32, 217, 190, 217, 136, 216, 180, 216, 180, 32, 216, 175,
    216, 167, 216, 175, 217, 135, 32, 216, 168, 216, 167, 216, 180, 216, 175, 32, 217, 136,
    32, 216, 167, 219, 140, 217, 134, 216, 172, 216, 167, 32, 216, 180, 218, 169, 216, 167,
    217, 129, 32, 216, 180, 217, 133, 216, 177, 216, 175, 217, 135, 32, 216, 180, 217, 136,
    216, 175, 46]"

definition content_summarise :: "runtime \<Rightarrow> unicode \<Rightarrow> dict \<Rightarrow> dict \<Rightarrow> dict py" where
  "content_summarise R U rep research =
     bindE (build_pages R rep) (\<lambda>pages.
     bindE (build_keywords R research) (\<lambda>keywords.
     bindE (match U pages keywords) (\<lambda>matched.
       let covered = filter (\<lambda>e. snd e \<noteq> []) matched
       in Inr [(''pages'', JInt (int (length pages))),
            (''indexable_pages'', JInt (int (length (filter pg_indexable pages)))),
            (''keywords'', JInt (int (length keywords))),
            (''covered'', JInt (int (length covered))),
            (''coverage'', JFloat (coverage (length covered) (length keywords))),
            (''gaps'', JList (map keyword_to_dict (gaps matched keywords))),
            (''cannibalisation'', JList (map clash_to_dict (clashes matched))),
            (''untargeted_pages'', JList (map page_to_dict (untargeted pages matched))),
            (''method'', JStr fa_method)])))"

subsection \<open>The service\<close>

record upstream =
  up_http :: http
  crawl_service_url :: string
  keyword_service_url :: string

definition fetch_crawl :: "upstream \<Rightarrow> string \<Rightarrow> string option \<Rightarrow> json py" where
  "fetch_crawl up crawl_id tenant_id =
     fetch_report (up_http up) (rstrip_slash (crawl_service_url up)) (''/v1/crawls/'' @ crawl_id) tenant_id"

definition fetch_research :: "upstream \<Rightarrow> string \<Rightarrow> string option \<Rightarrow> json py" where
  "fetch_research up research_id tenant_id =
     fetch_report (up_http up) (rstrip_slash (keyword_service_url up)) (''/v1/research/'' @ research_id) tenant_id"

definition content_work :: "runtime \<Rightarrow> unicode \<Rightarrow> upstream \<Rightarrow> string option \<Rightarrow> dict \<Rightarrow> dict py" where
  "content_work R U up tenant_id request =
     bindE (fetch_crawl up (py_str R (dget request ''crawl_id'')) tenant_id) (\<lambda>crawl.
     bindE (fetch_research up (py_str R (dget request ''research_id'')) tenant_id) (\<lambda>research.
     bindE (as_dict crawl) (\<lambda>rep. bindE (as_dict research) (\<lambda>res. content_summarise R U rep res))))"

definition analyzed_payload :: "string \<Rightarrow> json \<Rightarrow> json \<Rightarrow> dict \<Rightarrow> string \<Rightarrow> string option \<Rightarrow> dict py" where
  "analyzed_payload analysis_id crawl_id research_id rep status error =
     bindE (jlen (py_or (dget rep ''gaps'') (JList []))) (\<lambda>n.
     bindE (jlen (py_or (dget rep ''cannibalisation'') (JList []))) (\<lambda>m.
     bindE (bindE (jtake 10 (py_or (dget rep ''gaps'') (JList []))) as_list) (\<lambda>rows.
     bindE (mapE (\<lambda>row. bindE (as_dict row) (\<lambda>d. bindE (ditem d ''keyword'') (\<lambda>k.
              Inr (JObj [(''keyword'', k), (''demand'', dget_default d ''demand'' (JInt 0))])))) rows) (\<lambda>top.
       Inr [(''analysis_id'', JStr analysis_id), (''crawl_id'', crawl_id), (''research_id'', research_id),
            (''status'', JStr status), (''error'', opt_json error),
            (''pages'', dget_default rep ''pages'' (JInt 0)),
            (''keywords'', dget_default rep ''keywords'' (JInt 0)),
            (''covered'', dget_default rep ''covered'' (JInt 0)),
            (''coverage'', dget_default rep ''coverage'' (JInt 0)),
            (''gap_count'', JInt n), (''cannibalisation_count'', JInt m), (''top_gaps'', JList top),
            (''result_url'', JStr (''/v1/content-analyses/'' @ analysis_id))]))))"

definition content_service :: "runtime \<Rightarrow> unicode \<Rightarrow> upstream \<Rightarrow> service" where
  "content_service R U up =
     \<lparr>sv_name = ''content-service'', sv_request = ''content.analysis_requested'', sv_id_field = ''analysis_id'',
      sv_early = (\<lambda>payload. bindE (ditem payload ''crawl_id'') (\<lambda>_. bindE (ditem payload ''research_id'') (\<lambda>_. Inr ()))),
      sv_subject = (\<lambda>payload. ditem payload ''crawl_id''),
      sv_begin = (\<lambda>_. Inr ()),
      sv_work = content_work R U up,
      sv_outgoing = (\<lambda>job request rep status error.
         bindE (analyzed_payload job (dget request ''crawl_id'') (dget request ''research_id'') rep status error) (\<lambda>payload.
           Inr [(''content.analyzed'', payload)]))\<rparr>"

end
