(* ===== verification/Content_Properties.thy ===== *)
theory Content_Properties
  imports Content
begin

text \<open>What the coverage analysis guarantees, and where its percentage misleads.\<close>

lemma filterE_Inr:
  "filterE p xs = Inr ys \<Longrightarrow> (\<forall>x\<in>set xs. \<exists>b. p x = Inr b) \<and> set ys = {x \<in> set xs. p x = Inr True}"
  by (induction xs arbitrary: ys) (fastforce split: if_splits)+

text \<open>The dictionary has one entry for each keyword, with the indexable pages that target it.\<close>

definition entry_ok :: "unicode \<Rightarrow> page list \<Rightarrow> string \<times> page list \<Rightarrow> bool" where
  "entry_ok U indexable e \<longleftrightarrow> filterE (\<lambda>p. targets U p (fst e)) indexable = Inr (snd e)"

lemma match_pages_entries:
  assumes "match_pages U indexable rows found = Inr matched"
    and "distinct (map fst found)" and "\<forall>e\<in>set found. entry_ok U indexable e"
  shows "distinct (map fst matched) \<and> (\<forall>e\<in>set matched. entry_ok U indexable e) \<and>
           fst ` set matched = fst ` set found \<union> kw_keyword ` set rows"
  using assms
proof (induction U indexable rows found rule: match_pages.induct)
  case (2 U indexable row rows found)
  from "2.prems"(1) obtain ps where ps: "filterE (\<lambda>p. targets U p (kw_keyword row)) indexable = Inr ps"
    "match_pages U indexable rows (assoc_set (kw_keyword row) ps found) = Inr matched" by auto
  let ?found = "assoc_set (kw_keyword row) ps found"
  have k: "map fst ?found = (if kw_keyword row \<in> fst ` set found then map fst found else map fst found @ [kw_keyword row])"
    by (rule assoc_set_keys)
  have "distinct (map fst ?found)" using k "2.prems"(2) by auto
  moreover have "\<forall>e\<in>set ?found. entry_ok U indexable e"
    using assoc_set_entries "2.prems"(3) ps(1) by (fastforce simp: entry_ok_def)
  moreover have "fst ` set ?found = insert (kw_keyword row) (fst ` set found)"
    using arg_cong [OF k, of set] by (auto simp: split: if_splits)
  ultimately show ?case using "2.IH" [OF ps(2)] by auto
qed simp

lemma match_entries:
  assumes "match U site keywords = Inr matched"
  shows "distinct (map fst matched)" "fst ` set matched = kw_keyword ` set keywords"
    "e \<in> set matched \<Longrightarrow> set (snd e) = {p \<in> set site. pg_indexable p \<and> targets U p (fst e) = Inr True}"
    "e \<in> set matched \<Longrightarrow> p \<in> set site \<Longrightarrow> pg_indexable p \<Longrightarrow> \<exists>b. targets U p (fst e) = Inr b"
proof -
  have m: "distinct (map fst matched)" "\<forall>e\<in>set matched. entry_ok U (filter pg_indexable site) e"
    "fst ` set matched = kw_keyword ` set keywords"
    using match_pages_entries [OF assms [unfolded match_def]] by simp_all
  then show "distinct (map fst matched)" "fst ` set matched = kw_keyword ` set keywords" by simp_all
  fix e assume "e \<in> set matched"
  with m(2) have "filterE (\<lambda>p. targets U p (fst e)) (filter pg_indexable site) = Inr (snd e)"
    by (simp add: entry_ok_def)
  from filterE_Inr [OF this] show "set (snd e) = {p \<in> set site. pg_indexable p \<and> targets U p (fst e) = Inr True}"
    and "p \<in> set site \<Longrightarrow> pg_indexable p \<Longrightarrow> \<exists>b. targets U p (fst e) = Inr b" by auto
qed

text \<open>No page of the site is about the keyword.\<close>

definition uncovered :: "unicode \<Rightarrow> page list \<Rightarrow> string \<Rightarrow> bool" where
  "uncovered U site k \<longleftrightarrow> (\<forall>p\<in>set site. pg_indexable p \<longrightarrow> targets U p k = Inr False)"

lemma entry_uncovered:
  assumes "match U site keywords = Inr matched" and "e \<in> set matched"
  shows "snd e = [] \<longleftrightarrow> uncovered U site (fst e)"
proof -
  note m = match_entries(3) [OF assms] match_entries(4) [OF assms]
  have "snd e = [] \<longleftrightarrow> set (snd e) = {}" by simp
  also have "\<dots> \<longleftrightarrow> uncovered U site (fst e)"
    unfolding m(1) uncovered_def using m(2) by fastforce
  finally show ?thesis .
qed

lemma gaps_subset: "r \<in> set (gaps matched keywords) \<Longrightarrow> \<exists>e\<in>set matched. snd e = [] \<and> kw_keyword r = fst e"
  unfolding gaps_def by (drule in_set_takeD) (auto simp: gap_row_def)

lemma gaps_all:
  "length (filter (\<lambda>e. snd e = []) matched) \<le> 25 \<Longrightarrow> e \<in> set matched \<Longrightarrow> snd e = [] \<Longrightarrow>
     fst e \<in> kw_keyword ` set (gaps matched keywords)"
  by (force simp: gaps_def gap_row_def image_image)

lemma coverage_bounds: "c \<le> n \<Longrightarrow> 0 \<le> coverage c n \<and> coverage c n \<le> 100"
proof -
  assume c: "c \<le> n"
  show ?thesis
  proof (cases "n = 0")
    case False
    with c have "of_int 0 \<le> (of_nat c / of_nat n * 100 * 10 :: rat)" "of_nat c / of_nat n * 100 * 10 \<le> (of_int 1000 :: rat)"
      by (simp_all add: divide_le_eq)
    from round_half_even_between [OF this] False show ?thesis
      by (simp add: coverage_def round1_def)
  qed (simp add: coverage_def)
qed

text \<open>The coverage report says of each researched keyword what the site does about it. Every keyword has
  exactly one entry; a keyword listed as a gap is one no indexable page targets, and when there are at
  most twenty-five such keywords all of them are listed; a keyword listed as contested is targeted by
  every one of at least two indexable pages; and the percentage lies between 0 and 100.\<close>

lemma coverage_report_sound:
  assumes "match U site keywords = Inr matched"
  shows "distinct (map fst matched) \<and> fst ` set matched = kw_keyword ` set keywords \<and>
    (\<forall>r\<in>set (gaps matched keywords). kw_keyword r \<in> kw_keyword ` set keywords \<and> uncovered U site (kw_keyword r)) \<and>
    (length (filter (\<lambda>e. snd e = []) matched) \<le> 25 \<longrightarrow>
       (\<forall>k\<in>kw_keyword ` set keywords. uncovered U site k \<longrightarrow> k \<in> kw_keyword ` set (gaps matched keywords))) \<and>
    (\<forall>e\<in>set (clashes matched). 2 \<le> length (snd e) \<and>
       set (snd e) = {p \<in> set site. pg_indexable p \<and> targets U p (fst e) = Inr True}) \<and>
    0 \<le> coverage (length (filter (\<lambda>e. snd e \<noteq> []) matched)) (length keywords) \<and>
    coverage (length (filter (\<lambda>e. snd e \<noteq> []) matched)) (length keywords) \<le> 100"
proof -
  note m = match_entries [OF assms]
  have gap: "kw_keyword r \<in> kw_keyword ` set keywords \<and> uncovered U site (kw_keyword r)"
    if r: "r \<in> set (gaps matched keywords)" for r
  proof -
    from gaps_subset [OF r] obtain e where e: "e \<in> set matched" "snd e = []" "kw_keyword r = fst e" by blast
    from e(1) have "fst e \<in> fst ` set matched" by (rule imageI)
    with entry_uncovered [OF assms e(1)] e m(2) show ?thesis by simp
  qed
  have all: "k \<in> kw_keyword ` set (gaps matched keywords)"
    if few: "length (filter (\<lambda>e. snd e = []) matched) \<le> 25" and k: "k \<in> kw_keyword ` set keywords" "uncovered U site k" for k
  proof -
    from k(1) m(2) obtain e where "e \<in> set matched" "fst e = k" by (metis imageE)
    with gaps_all [OF few, of e] entry_uncovered [OF assms, of e] k(2) show ?thesis by auto
  qed
  have clash: "2 \<le> length (snd e) \<and> set (snd e) = {p \<in> set site. pg_indexable p \<and> targets U p (fst e) = Inr True}"
    if "e \<in> set (clashes matched)" for e
  proof -
    have "e \<in> set matched" "1 < length (snd e)" using that by (auto simp: clashes_def dest!: in_set_takeD)
    with m(3) show ?thesis by simp
  qed
  have "length (filter (\<lambda>e. snd e \<noteq> []) matched) \<le> length matched" by (rule length_filter_le)
  also have "length matched = card (kw_keyword ` set keywords)"
    using distinct_card [OF m(1)] m(2) by simp
  also have "\<dots> \<le> length keywords" by (metis List.card_length card_image_le finite_set order_trans)
  finally have "length (filter (\<lambda>e. snd e \<noteq> []) matched) \<le> length keywords" .
  from coverage_bounds [OF this] show ?thesis using m(1,2) gap all clash by blast
qed

definition demo_page :: page where
  "demo_page = \<lparr>pg_url = ''https://a.com/shoes'', pg_title = JStr ''Running shoes'', pg_description = JNull,
     pg_headings = [], pg_words = 300, pg_indexable = True\<rparr>"

definition demo_keyword :: "string \<Rightarrow> keyword" where
  "demo_keyword k = \<lparr>kw_keyword = k, kw_demand = 5, kw_intent = ''unknown''\<rparr>"

text \<open>A keyword that the research lists twice is matched once but counted twice: a site that covers every
  keyword it was asked about, with no gap to report, is given a coverage of fifty percent.\<close>

lemma repeated_keyword_halves_coverage:
  "\<exists>matched. match plain_unicode [demo_page] [demo_keyword ''shoes'', demo_keyword ''shoes''] = Inr matched \<and>
     gaps matched [demo_keyword ''shoes'', demo_keyword ''shoes''] = [] \<and>
     coverage (length (filter (\<lambda>e. snd e \<noteq> []) matched)) (length [demo_keyword ''shoes'', demo_keyword ''shoes'']) = 50"
proof -
  have "match plain_unicode [demo_page] [demo_keyword ''shoes'', demo_keyword ''shoes''] = Inr [(''shoes'', [demo_page])]"
    by code_simp
  moreover have "gaps [(''shoes'', [demo_page])] [demo_keyword ''shoes'', demo_keyword ''shoes''] = []"
    by (simp add: gaps_def)
  moreover have "coverage 1 2 = 50" by (simp add: coverage_def round1_def round_half_even_def)
  ultimately show ?thesis by (simp add: numeral_2_eq_2)
qed

end
