(* ===== verification/Link_Graph.thy ===== *)
theory Link_Graph
  imports Serp Upstream
begin

text \<open>
  \<^verbatim>\<open>src/services/internal_links\<close>: what a site's own links say about it. The graph of a crawl report and
  every finding drawn from it (\<^verbatim>\<open>analyze.py\<close>), and the service around it
  (\<^verbatim>\<open>source.py\<close>, \<^verbatim>\<open>api.py\<close>, \<^verbatim>\<open>worker.py\<close>). Floats are exact rationals; the order in which Python
  walks a set of texts is the parameter \<open>order\<close>.
\<close>

subsection \<open>Addresses\<close>

definition normalise_url :: "string \<Rightarrow> string py" where
  "normalise_url url =
     bindE (urldefrag (strip url)) (\<lambda>clean.
     bindE (urlsplit5 clean) (\<lambda>parts.
       (let path = (if su_path parts = [] then ''/'' else su_path parts);
            path1 = (if 1 < length path \<and> last path = CHR ''/'' then butlast path else path)
        in Inr (urlunsplit \<lparr>su_scheme = lower (su_scheme parts), su_netloc = lower (su_netloc parts),
                 su_path = path1, su_query = su_query parts, su_fragment = []\<rparr>))))"

subsection \<open>The graph\<close>

record site_page =
  sp_url :: string
  sp_title :: json
  sp_status :: int
  sp_indexable :: bool
  sp_depth :: int
  sp_words :: int

definition reachable :: "site_page \<Rightarrow> bool" where
  "reachable p \<longleftrightarrow> 200 \<le> sp_status p \<and> sp_status p < 300"

record edge =
  e_source :: string
  e_target :: string
  e_anchor :: string
  e_nofollow :: bool

record graph =
  g_pages :: "(string \<times> site_page) list"
  g_edges :: "edge list"

definition urls :: "graph \<Rightarrow> string list" where
  "urls g = map fst (g_pages g)"

definition int_or_zero :: "dict \<Rightarrow> string \<Rightarrow> int py" where
  "int_or_zero d k = py_int (py_or (dget d k) (JInt 0))"

definition text_at :: "runtime \<Rightarrow> dict \<Rightarrow> string \<Rightarrow> string" where
  "text_at R d k = py_str R (py_or (dget d k) (JStr []))"

definition page_of :: "runtime \<Rightarrow> json \<Rightarrow> site_page list py" where
  "page_of R row =
     bindE (as_dict row) (\<lambda>d.
     bindE (normalise_url (text_at R d ''url'')) (\<lambda>url.
       if url = [] then Inr []
       else bindE (int_or_zero d ''status'') (\<lambda>status.
            bindE (int_or_zero d ''depth'') (\<lambda>depth.
            bindE (int_or_zero d ''words'') (\<lambda>n.
              Inr [\<lparr>sp_url = url, sp_title = dget d ''title'', sp_status = status,
                    sp_indexable = truthy (dget d ''indexable''), sp_depth = depth, sp_words = n\<rparr>])))))"

definition edge_of :: "runtime \<Rightarrow> json \<Rightarrow> edge list py" where
  "edge_of R row =
     bindE (as_dict row) (\<lambda>d.
     bindE (normalise_url (text_at R d ''from'')) (\<lambda>source.
     bindE (normalise_url (text_at R d ''to'')) (\<lambda>target.
       if source = [] \<or> target = [] \<or> source = target then Inr []
       else bindE (jstrip (py_or (dget d ''anchor'') (JStr []))) (\<lambda>anchor.
         Inr [\<lparr>e_source = source, e_target = target, e_anchor = anchor, e_nofollow = truthy (dget d ''nofollow'')\<rparr>]))))"

definition build :: "runtime \<Rightarrow> dict \<Rightarrow> graph py" where
  "build R rep =
     bindE (as_list (py_or (dget rep ''pages'') (JList []))) (\<lambda>rows.
     bindE (mapE (page_of R) rows) (\<lambda>ps.
     bindE (as_dict (py_or (dget rep ''links'') (JObj []))) (\<lambda>links.
     bindE (as_list (py_or (dget links ''edges'') (JList []))) (\<lambda>erows.
     bindE (mapE (edge_of R) erows) (\<lambda>es.
       Inr \<lparr>g_pages = foldl (\<lambda>d p. assoc_set (sp_url p) p d) [] (concat ps), g_edges = concat es\<rparr>)))))"

subsection \<open>Authority\<close>

definition DAMPING :: rat where "DAMPING = 85 / 100"
definition ITERATIONS :: nat where "ITERATIONS = 40"
definition CONVERGENCE :: rat where "CONVERGENCE = 1 / 1000000000"

text \<open>\<^verbatim>\<open>outgoing[edge.source].append(edge.target)\<close>, for the edges between crawled pages.\<close>

fun append_to :: "string \<Rightarrow> string \<Rightarrow> (string \<times> string list) list \<Rightarrow> (string \<times> string list) list" where
  "append_to k v [] = [(k, [v])]"
| "append_to k v ((k', vs) # d) = (if k' = k then (k', vs @ [v]) # d else (k', vs) # append_to k v d)"

definition outgoing :: "graph \<Rightarrow> (string \<times> string list) list" where
  "outgoing g = foldl (\<lambda>d e. append_to (e_source e) (e_target e) d) []
     (filter (\<lambda>e. e_target e \<in> set (urls g)) (g_edges g))"

type_synonym ranks = "(string \<times> rat) list"

definition rank_of :: "ranks \<Rightarrow> string \<Rightarrow> rat" where
  "rank_of r u = (case map_of r u of None \<Rightarrow> 0 | Some v \<Rightarrow> v)"

definition add_rank :: "string \<Rightarrow> rat \<Rightarrow> ranks \<Rightarrow> ranks" where
  "add_rank u x r = map (\<lambda>(k, v). (k, if k = u then v + x else v)) r"

definition give :: "ranks \<Rightarrow> ranks \<Rightarrow> string \<times> string list \<Rightarrow> ranks" where
  "give r nextrank st =
     (if fst st \<in> fst ` set r
      then foldl (\<lambda>n t. add_rank t (DAMPING * rank_of r (fst st) / of_nat (length (snd st))) n) nextrank (snd st)
      else nextrank)"

definition spread :: "graph \<Rightarrow> ranks \<Rightarrow> ranks" where
  "spread g r =
     (let us = urls g; out = outgoing g; n = of_nat (length us);
          leaked = sum_list (map (rank_of r) (filter (\<lambda>u. map_of out u = None) us));
          base = (1 - DAMPING) / n + DAMPING * leaked / n
      in foldl (give r) (map (\<lambda>u. (u, base)) us) out)"

definition change_total :: "graph \<Rightarrow> ranks \<Rightarrow> ranks \<Rightarrow> rat" where
  "change_total g r r' = sum_list (map (\<lambda>u. \<bar>rank_of r' u - rank_of r u\<bar>) (urls g))"

fun rank_loop :: "nat \<Rightarrow> graph \<Rightarrow> ranks \<Rightarrow> ranks" where
  "rank_loop 0 g r = r"
| "rank_loop (Suc k) g r =
     (let r' = spread g r in if change_total g r r' < CONVERGENCE then r' else rank_loop k g r')"

definition page_rank :: "graph \<Rightarrow> ranks" where
  "page_rank g = rank_loop ITERATIONS g (map (\<lambda>u. (u, 1 / of_nat (length (urls g)))) (urls g))"

definition authority :: "graph \<Rightarrow> ranks" where
  "authority g =
     (if urls g = [] then []
      else (let r = page_rank g; m = Max (set (map snd r)); top = (if m = 0 then 1 else m)
            in map (\<lambda>(u, v). (u, round1 (v / top * 100))) r))"

subsection \<open>Findings\<close>

definition inlink_count :: "graph \<Rightarrow> string \<Rightarrow> nat" where
  "inlink_count g u = count_list (map snd (dedupe (map (\<lambda>e. (e_source e, e_target e)) (g_edges g)))) u"

definition start_of :: "json \<Rightarrow> string option py" where
  "start_of start_url = 
     (if truthy start_url then bindE (bindE (jstrip start_url) normalise_url) (\<lambda>s. Inr (Some s)) else Inr None)"

definition orphans :: "graph \<Rightarrow> string option \<Rightarrow> string list" where
  "orphans g start = sort (map fst (filter (\<lambda>(u, p). sp_indexable p \<and> inlink_count g u = 0 \<and> Some u \<noteq> start) (g_pages g)))"

definition dead_ends :: "graph \<Rightarrow> string list" where
  "dead_ends g = sort (map fst (filter (\<lambda>(u, p). sp_indexable p \<and> u \<notin> e_source ` set (g_edges g)) (g_pages g)))"

definition targets_where :: "(site_page \<Rightarrow> bool) \<Rightarrow> graph \<Rightarrow> string list" where
  "targets_where P g =
     filter (\<lambda>u. case map_of (g_pages g) u of None \<Rightarrow> False | Some p \<Rightarrow> P p) (map e_target (g_edges g))"

definition broken_targets :: "graph \<Rightarrow> (string \<times> nat) list" where
  "broken_targets g = most_common 50 (counter (targets_where (\<lambda>p. \<not> reachable p) g))"

definition links_to_noindex :: "graph \<Rightarrow> (string \<times> nat) list" where
  "links_to_noindex g = most_common 25 (counter (targets_where (\<lambda>p. reachable p \<and> \<not> sp_indexable p) g))"

definition GENERIC_ANCHORS :: "string list" where
  "GENERIC_ANCHORS = [utf8 [216, 167, 219, 140, 217, 134, 216, 172, 216, 167],
     utf8 [218, 169, 217, 132, 219, 140, 218, 169, 32, 218, 169, 217, 134, 219, 140, 216, 175],
     utf8 [218, 169, 217, 132, 219, 140, 218, 169],
     utf8 [216, 168, 219, 140, 216, 180, 216, 170, 216, 177],
     utf8 [216, 167, 216, 175, 216, 167, 217, 133, 217, 135, 32, 217, 133, 216, 183, 217, 132, 216, 168],
     utf8 [216, 167, 216, 175, 216, 167, 217, 133, 217, 135],
     utf8 [217, 132, 219, 140, 217, 134, 218, 169],
     utf8 [216, 167, 219, 140, 217, 134, 32, 217, 132, 219, 140, 217, 134, 218, 169],
     utf8 [216, 168, 219, 140, 216, 180, 216, 170, 216, 177, 32, 216, 168, 216, 174, 217, 136, 216, 167,
    217, 134, 219, 140, 216, 175],
     utf8 [217, 133, 216, 180, 216, 167, 217, 135, 216, 175, 217, 135],
     utf8 [216, 172, 216, 178, 216, 166, 219, 140, 216, 167, 216, 170],
     utf8 [216, 167, 216, 183, 217, 132, 216, 167, 216, 185, 216, 167, 216, 170, 32, 216, 168, 219, 140,
    216, 180, 216, 170, 216, 177],
     utf8 [216, 175, 216, 167, 217, 134, 217, 132, 217, 136, 216, 175],
     ''click here'',
     ''here'',
     ''read more'',
     ''more'',
     ''link'',
     ''this'',
     ''learn more'',
     ''details'',
     ''download'',
     ''continue'',
     ''see more'']"

record profile =
  pf_url :: string
  pf_variants :: "(string \<times> nat) list"
  pf_generic :: nat
  pf_empty :: nat
  pf_total :: nat

definition anchor_profile :: "graph \<Rightarrow> string \<Rightarrow> profile" where
  "anchor_profile g u =
     (let to_page = filter (\<lambda>e. e_target e = u) (g_edges g);
          anchors = filter (\<lambda>a. a \<noteq> []) (map e_anchor to_page);
          counted = counter anchors;
          empty = length (filter (\<lambda>e. e_anchor e = []) to_page)
      in \<lparr>pf_url = u, pf_variants = most_common 10 counted,
          pf_generic = sum_list (map snd (filter (\<lambda>(a, _). lower (strip a) \<in> set GENERIC_ANCHORS) counted)),
          pf_empty = empty, pf_total = length anchors + empty\<rparr>)"

definition undescribed :: "(string list \<Rightarrow> string list) \<Rightarrow> graph \<Rightarrow> profile list" where
  "undescribed order g =
     take 25 (sort_key (\<lambda>p. - int (pf_total p))
       (filter (\<lambda>p. 2 \<le> pf_total p \<and> int (pf_total p) - int (pf_generic p) - int (pf_empty p) = 0)
         (map (anchor_profile g) (order (dedupe (filter (\<lambda>u. u \<in> set (urls g)) (map e_target (g_edges g))))))))"

text \<open>\<^verbatim>\<open>sorted(xs)[len(xs) // 2]\<close>.\<close>

definition middle :: "'a::linorder list \<Rightarrow> 'a" where
  "middle xs = sort xs ! (length xs div 2)"

definition median_words :: "graph \<Rightarrow> int" where
  "median_words g =
     (let ws = map sp_words (filter (\<lambda>p. sp_indexable p \<and> sp_words p \<noteq> 0) (map snd (g_pages g)))
      in middle (if ws = [] then [0] else ws))"

definition median_score :: "ranks \<Rightarrow> rat" where
  "median_score ranking = middle (if ranking = [] then [0] else map snd ranking)"

definition is_overlooked :: "graph \<Rightarrow> ranks \<Rightarrow> string option \<Rightarrow> string \<times> site_page \<Rightarrow> bool" where
  "is_overlooked g ranking start up \<longleftrightarrow>
     sp_indexable (snd up) \<and> reachable (snd up) \<and> Some (fst up) \<noteq> start \<and>
     median_words g \<le> sp_words (snd up) \<and> inlink_count g (fst up) \<le> 2 \<and>
     rank_of ranking (fst up) \<le> median_score ranking"

definition overlooked :: "graph \<Rightarrow> ranks \<Rightarrow> string option \<Rightarrow> (string \<times> site_page) list" where
  "overlooked g ranking start =
     take 15 (sort_key (\<lambda>up. (rank_of ranking (fst up), - sp_words (snd up)))
       (filter (is_overlooked g ranking start) (g_pages g)))"

definition hubs :: "graph \<Rightarrow> ranks \<Rightarrow> (string \<times> site_page) list" where
  "hubs g ranking =
     take 10 (sort_key (\<lambda>up. - rank_of ranking (fst up)) (filter (\<lambda>up. sp_indexable (snd up)) (g_pages g)))"

subsection \<open>The report\<close>

definition count_row :: "string \<times> nat \<Rightarrow> json" where
  "count_row e = JObj [(''url'', JStr (fst e)), (''linked_from'', JInt (int (snd e)))]"

definition broken_row :: "graph \<Rightarrow> string \<times> nat \<Rightarrow> json" where
  "broken_row g e = JObj [(''url'', JStr (fst e)),
     (''status'', JInt (case map_of (g_pages g) (fst e) of None \<Rightarrow> 0 | Some p \<Rightarrow> sp_status p)),
     (''linked_from'', JInt (int (snd e)))]"

definition profile_to_dict :: "profile \<Rightarrow> json" where
  "profile_to_dict p = JObj [(''url'', JStr (pf_url p)),
     (''variants'', JList (map (\<lambda>(a, n). JObj [(''anchor'', JStr a), (''count'', JInt (int n))]) (pf_variants p))),
     (''generic'', JInt (int (pf_generic p))), (''empty'', JInt (int (pf_empty p))), (''total'', JInt (int (pf_total p)))]"

definition overlooked_row :: "graph \<Rightarrow> ranks \<Rightarrow> string \<times> site_page \<Rightarrow> json" where
  "overlooked_row g ranking up = JObj [(''url'', JStr (fst up)), (''title'', sp_title (snd up)),
     (''words'', JInt (sp_words (snd up))), (''inlinks'', JInt (int (inlink_count g (fst up)))),
     (''depth'', JInt (sp_depth (snd up))), (''authority'', JFloat (rank_of ranking (fst up)))]"

definition hub_row :: "graph \<Rightarrow> ranks \<Rightarrow> string \<times> site_page \<Rightarrow> json" where
  "hub_row g ranking up = JObj [(''url'', JStr (fst up)), (''title'', sp_title (snd up)),
     (''authority'', JFloat (rank_of ranking (fst up))),
     (''outgoing'', JInt (int (count_list (map e_source (g_edges g)) (fst up))))]"

text \<open>\<^verbatim>\<open>dict(sorted(Counter(depths).items()))\<close>; the keys are written as JSON writes them.\<close>

definition depth_histogram :: "int list \<Rightarrow> dict" where
  "depth_histogram depths = map (\<lambda>(d, n). (show_int d, JInt (int n))) (sort_key fst (counter depths))"

definition average_inlinks :: "graph \<Rightarrow> json" where
  "average_inlinks g =
     (let counts = map (inlink_count g) (map fst (filter (\<lambda>(u, p). sp_indexable p) (g_pages g)))
      in if counts = [] then JInt 0
         else JFloat (round1 (of_nat (sum_list counts) / of_nat (length counts))))"

definition links_summarise :: "runtime \<Rightarrow> (string list \<Rightarrow> string list) \<Rightarrow> dict \<Rightarrow> dict py" where
  "links_summarise R order rep =
     bindE (build R rep) (\<lambda>g.
     bindE (start_of (dget rep ''start_url'')) (\<lambda>start.
     bindE (as_dict (py_or (dget rep ''links'') (JObj []))) (\<lambda>links.
       let ranking = authority g; indexable = filter sp_indexable (map snd (g_pages g)); depths = map sp_depth indexable
       in Inr [(''pages'', JInt (int (length (g_pages g)))),
            (''indexable_pages'', JInt (int (length indexable))),
            (''internal_links'', JInt (int (length (g_edges g)))),
            (''truncated'', JBool (truthy (dget links ''truncated''))),
            (''average_inlinks'', average_inlinks g),
            (''max_depth'', JInt (if depths = [] then 0 else Max (set depths))),
            (''depth_histogram'', JObj (depth_histogram depths)),
            (''orphans'', JList (map JStr (orphans g start))),
            (''dead_ends'', JList (map JStr (dead_ends g))),
            (''broken_targets'', JList (map (broken_row g) (broken_targets g))),
            (''links_to_noindex'', JList (map count_row (links_to_noindex g))),
            (''undescribed'', JList (map profile_to_dict (undescribed order g))),
            (''hubs'', JList (map (hub_row g ranking) (hubs g ranking))),
            (''overlooked'', JList (map (overlooked_row g ranking) (overlooked g ranking start))),
            (''nofollow_internal'', JInt (int (length (filter e_nofollow (g_edges g)))))])))"

subsection \<open>The service\<close>

definition links_work ::
  "runtime \<Rightarrow> (string list \<Rightarrow> string list) \<Rightarrow> http \<Rightarrow> string \<Rightarrow> string option \<Rightarrow> dict \<Rightarrow> dict py" where
  "links_work R order get crawl_url tenant_id request =
     bindE (fetch_report get (rstrip_slash crawl_url) (''/v1/crawls/'' @ py_str R (dget request ''crawl_id'')) tenant_id) (\<lambda>found.
     bindE (as_dict found) (links_summarise R order))"

definition length_of :: "dict \<Rightarrow> string \<Rightarrow> int py" where
  "length_of rep k = jlen (py_or (dget rep k) (JList []))"

definition links_payload :: "string \<Rightarrow> json \<Rightarrow> dict \<Rightarrow> string \<Rightarrow> string option \<Rightarrow> dict py" where
  "links_payload analysis_id crawl_id rep status error =
     bindE (length_of rep ''orphans'') (\<lambda>orphan_count.
     bindE (length_of rep ''dead_ends'') (\<lambda>dead_end_count.
     bindE (length_of rep ''broken_targets'') (\<lambda>broken_count.
     bindE (bindE (jtake 10 (py_or (dget rep ''overlooked'') (JList []))) as_list) (\<lambda>rows.
     bindE (mapE (\<lambda>row. bindE (as_dict row) (\<lambda>d.
              bindE (ditem d ''url'') (\<lambda>u. bindE (ditem d ''inlinks'') (\<lambda>n. bindE (ditem d ''authority'') (\<lambda>a.
                Inr (JObj [(''url'', u), (''inlinks'', n), (''authority'', a)])))))) rows) (\<lambda>top.
       Inr [(''analysis_id'', JStr analysis_id), (''crawl_id'', crawl_id), (''status'', JStr status),
            (''error'', opt_json error),
            (''pages'', dget_default rep ''pages'' (JInt 0)),
            (''internal_links'', dget_default rep ''internal_links'' (JInt 0)),
            (''orphan_count'', JInt orphan_count), (''dead_end_count'', JInt dead_end_count),
            (''broken_target_count'', JInt broken_count),
            (''max_depth'', dget_default rep ''max_depth'' (JInt 0)),
            (''average_inlinks'', dget_default rep ''average_inlinks'' (JInt 0)),
            (''top_opportunities'', JList top),
            (''result_url'', JStr (''/v1/link-analyses/'' @ analysis_id))])))))"

definition links_service :: "runtime \<Rightarrow> (string list \<Rightarrow> string list) \<Rightarrow> http \<Rightarrow> string \<Rightarrow> service" where
  "links_service R order get crawl_url =
     \<lparr>sv_name = ''internal-links-service'', sv_request = ''links.analysis_requested'', sv_id_field = ''analysis_id'',
      sv_early = (\<lambda>payload. bindE (ditem payload ''crawl_id'') (\<lambda>_. Inr ())),
      sv_subject = (\<lambda>payload. ditem payload ''crawl_id''),
      sv_begin = (\<lambda>_. Inr ()),
      sv_work = links_work R order get crawl_url,
      sv_outgoing = (\<lambda>job request rep status error.
         bindE (links_payload job (dget request ''crawl_id'') rep status error) (\<lambda>payload.
           Inr [(''links.analyzed'', payload)]))\<rparr>"

end
