(* ===== verification/Link_Properties.thy ===== *)
theory Link_Properties
  imports Link_Graph
begin

text \<open>
  What the link analysis guarantees: the authority of the pages is a probability distribution that the
  iteration keeps, and the counts behind its findings are counts of linking pages.
\<close>

subsection \<open>Mass\<close>

definition mass :: "ranks \<Rightarrow> rat" where
  "mass r = sum_list (map snd r)"

lemma add_rank_keys [simp]: "map fst (add_rank u x r) = map fst r"
  by (induction r) (auto simp: add_rank_def)

lemma add_rank_mass:
  assumes "distinct (map fst r)" and "u \<in> set (map fst r)"
  shows "mass (add_rank u x r) = mass r + x"
  using assms
proof (induction r)
  case (Cons p r)
  have same: "add_rank u x r = r" if "u \<notin> fst ` set r"
    using that by (force simp: add_rank_def intro!: map_idI)
  have step: "add_rank u x (p # r) = (fst p, if fst p = u then snd p + x else snd p) # add_rank u x r"
    by (cases p) (simp add: add_rank_def)
  show ?case
  proof (cases "fst p = u")
    case True
    with Cons.prems have "u \<notin> fst ` set r" by auto
    with same True show ?thesis by (simp add: step mass_def)
  next
    case False
    with Cons show ?thesis by (simp add: step mass_def)
  qed
qed simp

lemma add_rank_lower: "0 \<le> x \<Longrightarrow> \<forall>v\<in>snd ` set r. b \<le> v \<Longrightarrow> \<forall>v\<in>snd ` set (add_rank u x r). b \<le> v"
  by (fastforce simp: add_rank_def)

lemma add_ranks:
  assumes "distinct (map fst n)" and "set ts \<subseteq> set (map fst n)" and "0 \<le> x" and "\<forall>v\<in>snd ` set n. b \<le> v"
  defines "n' \<equiv> foldl (\<lambda>n t. add_rank t x n) n ts"
  shows "map fst n' = map fst n" "mass n' = mass n + of_nat (length ts) * x" "\<forall>v\<in>snd ` set n'. b \<le> v"
proof -
  have "map fst (foldl (\<lambda>n t. add_rank t x n) n ts) = map fst n \<and>
      mass (foldl (\<lambda>n t. add_rank t x n) n ts) = mass n + of_nat (length ts) * x \<and>
      (\<forall>v\<in>snd ` set (foldl (\<lambda>n t. add_rank t x n) n ts). b \<le> v)"
    using assms(1,2,4)
  proof (induction ts arbitrary: n)
    case (Cons t ts)
    have "distinct (map fst (add_rank t x n))" "set ts \<subseteq> set (map fst (add_rank t x n))"
      unfolding add_rank_keys using Cons.prems by auto
    from Cons.IH [OF this add_rank_lower [OF assms(3) Cons.prems(3)]] Cons.prems(1,2)
    show ?case by (simp add: add_rank_mass algebra_simps del: set_map)
  qed simp
  then show "map fst n' = map fst n" "mass n' = mass n + of_nat (length ts) * x" "\<forall>v\<in>snd ` set n'. b \<le> v"
    by (simp_all add: n'_def)
qed

text \<open>A page hands on its share, whole, to the pages it links to.\<close>

definition source_ok :: "string list \<Rightarrow> string \<times> string list \<Rightarrow> bool" where
  "source_ok us st \<longleftrightarrow> snd st \<noteq> [] \<and> set (snd st) \<subseteq> set us"

lemma DAMPING_pos: "0 < DAMPING" "DAMPING < 1"
  by (simp_all add: DAMPING_def)

lemma give_spec:
  assumes "distinct (map fst n)" and "source_ok (map fst n) st" and "\<forall>v\<in>snd ` set n. b \<le> v" and "0 \<le> rank_of r (fst st)"
  shows "map fst (give r n st) = map fst n"
    "mass (give r n st) = mass n + (if fst st \<in> fst ` set r then DAMPING * rank_of r (fst st) else 0)"
    "\<forall>v\<in>snd ` set (give r n st). b \<le> v"
proof -
  let ?x = "DAMPING * rank_of r (fst st) / of_nat (length (snd st))"
  have x: "0 \<le> ?x" using assms(4) DAMPING_pos by simp
  have len: "of_nat (length (snd st)) * ?x = DAMPING * rank_of r (fst st)"
    using assms(2) by (simp add: source_ok_def)
  have ts: "set (snd st) \<subseteq> set (map fst n)" using assms(2) by (simp add: source_ok_def)
  note a = add_ranks [OF assms(1) ts x assms(3)]
  show "map fst (give r n st) = map fst n" "\<forall>v\<in>snd ` set (give r n st). b \<le> v"
    "mass (give r n st) = mass n + (if fst st \<in> fst ` set r then DAMPING * rank_of r (fst st) else 0)"
    using a assms(3) unfolding len by (simp_all add: give_def)
qed

lemma give_all:
  assumes "distinct (map fst n)" and "\<forall>st\<in>set out. source_ok (map fst n) st \<and> 0 \<le> rank_of r (fst st)"
    and "\<forall>v\<in>snd ` set n. b \<le> v"
  shows "map fst (foldl (give r) n out) = map fst n \<and>
    mass (foldl (give r) n out) =
      mass n + DAMPING * sum_list (map (rank_of r \<circ> fst) (filter (\<lambda>st. fst st \<in> fst ` set r) out)) \<and>
    (\<forall>v\<in>snd ` set (foldl (give r) n out). b \<le> v)"
  using assms
proof (induction out arbitrary: n)
  case (Cons st out)
  have st: "source_ok (map fst n) st" "0 \<le> rank_of r (fst st)" using Cons.prems(2) by simp_all
  note g = give_spec [OF Cons.prems(1) st(1) Cons.prems(3) st(2)]
  have "distinct (map fst (give r n st))" "\<forall>st'\<in>set out. source_ok (map fst (give r n st)) st' \<and> 0 \<le> rank_of r (fst st')"
    unfolding g(1) using Cons.prems by auto
  from Cons.IH [OF this g(3)] show ?case
    unfolding foldl_Cons g(1,2) by (simp add: algebra_simps)
qed simp

subsection \<open>The iteration\<close>

lemma append_to_keys:
  "map fst (append_to k v d) = (if k \<in> fst ` set d then map fst d else map fst d @ [k])"
  by (induction k v d rule: append_to.induct) auto

lemma append_to_entries: "e \<in> set (append_to k v d) \<Longrightarrow> e \<in> set d \<or> (\<exists>vs. e = (k, vs @ [v]) \<and> (vs = [] \<or> (k, vs) \<in> set d))"
  by (induction k v d rule: append_to.induct) (auto split: if_splits)

lemma outgoing_ok: "distinct (map fst (outgoing g)) \<and> (\<forall>st\<in>set (outgoing g). source_ok (urls g) st)"
proof -
  have "distinct (map fst (foldl (\<lambda>d e. append_to (e_source e) (e_target e) d) d es)) \<and>
      (\<forall>st\<in>set (foldl (\<lambda>d e. append_to (e_source e) (e_target e) d) d es). source_ok us st)"
    if "\<forall>e\<in>set es. e_target e \<in> set us" "distinct (map fst d)" "\<forall>st\<in>set d. source_ok us st" for us d es
    using that
  proof (induction es arbitrary: d)
    case (Cons e es)
    have "distinct (map fst (append_to (e_source e) (e_target e) d))"
      using Cons.prems(2) by (auto simp: append_to_keys)
    moreover have "\<forall>st\<in>set (append_to (e_source e) (e_target e) d). source_ok us st"
    proof
      fix st assume "st \<in> set (append_to (e_source e) (e_target e) d)"
      from append_to_entries [OF this] Cons.prems(1,3) show "source_ok us st"
        by (auto simp: source_ok_def) (metis snd_conv subsetD)
    qed
    ultimately show ?case
      unfolding foldl_Cons using Cons.prems(1) by (intro Cons.IH) simp_all
  qed simp
  from this [of "filter (\<lambda>e. e_target e \<in> set (urls g)) (g_edges g)" "urls g" "[]"] show ?thesis
    by (simp add: outgoing_def)
qed

text \<open>A distribution over the pages, none of which is below what damping leaves to every page.\<close>

definition distribution :: "graph \<Rightarrow> ranks \<Rightarrow> bool" where
  "distribution g r \<longleftrightarrow> map fst r = urls g \<and> mass r = 1 \<and>
     (\<forall>v\<in>snd ` set r. (1 - DAMPING) / of_nat (length (urls g)) \<le> v)"

lemma rank_of_entry: "distinct (map fst r) \<Longrightarrow> (u, v) \<in> set r \<Longrightarrow> rank_of r u = v"
  by (simp add: rank_of_def map_of_is_SomeI)

lemma mass_as_sum: "distinct (map fst r) \<Longrightarrow> mass r = sum (rank_of r) (set (map fst r))"
proof -
  assume d: "distinct (map fst r)"
  have "map snd r = map (rank_of r) (map fst r)"
    using rank_of_entry [OF d] by (auto simp: comp_def)
  then have "mass r = sum_list (map (rank_of r) (map fst r))" by (simp only: mass_def)
  also have "\<dots> = sum (rank_of r) (set (map fst r))" by (rule sum_list_distinct_conv_sum_set [OF d])
  finally show ?thesis .
qed

lemma spread_distribution:
  assumes "distinct (urls g)" and "urls g \<noteq> []" and "distribution g r"
  shows "distribution g (spread g r)"
proof -
  let ?n = "of_nat (length (urls g)) :: rat" and ?out = "outgoing g"
  have keys: "map fst r = urls g" and one: "mass r = 1" using assms(3) by (simp_all add: distribution_def)
  have n: "0 < ?n" using assms(2) by simp
  have pos: "0 \<le> rank_of r u" for u
  proof (cases "map_of r u")
    case (Some v)
    then have "v \<in> snd ` set r" by (metis imageI map_of_SomeD snd_conv)
    then have "(1 - DAMPING) / ?n \<le> v" using assms(3) unfolding distribution_def by blast
    moreover have "0 \<le> (1 - DAMPING) / ?n" using DAMPING_pos n by simp
    ultimately show ?thesis using Some by (simp add: rank_of_def)
  qed (simp add: rank_of_def)
  define leaked where "leaked = sum_list (map (rank_of r) (filter (\<lambda>u. map_of ?out u = None) (urls g)))"
  define base where "base = (1 - DAMPING) / ?n + DAMPING * leaked / ?n"
  have l0: "0 \<le> leaked" unfolding leaked_def by (rule sum_list_nonneg) (use pos in auto)
  have low: "(1 - DAMPING) / ?n \<le> base" using l0 DAMPING_pos n by (simp add: base_def)
  let ?start = "map (\<lambda>u. (u, base)) (urls g)"
  have skeys: "map fst ?start = urls g" by (simp add: comp_def)
  have smass: "mass ?start = ?n * base" by (simp add: mass_def comp_def sum_list_triv)
  have give: "map fst (foldl (give r) ?start ?out) = urls g \<and>
    mass (foldl (give r) ?start ?out) =
      ?n * base + DAMPING * sum_list (map (rank_of r \<circ> fst) (filter (\<lambda>st. fst st \<in> fst ` set r) ?out)) \<and>
    (\<forall>v\<in>snd ` set (foldl (give r) ?start ?out). (1 - DAMPING) / ?n \<le> v)"
    using give_all [of ?start ?out r "(1 - DAMPING) / ?n"] outgoing_ok [of g] assms(1) pos low
    unfolding skeys smass by auto
  have "sum_list (map (rank_of r \<circ> fst) (filter (\<lambda>st. fst st \<in> fst ` set r) ?out)) =
      sum_list (map (rank_of r) (filter (\<lambda>u. u \<in> set (urls g)) (map fst ?out)))"
    using keys by (simp add: filter_map comp_def flip: set_map)
  also have "\<dots> = sum (rank_of r) (set (urls g) \<inter> {u. map_of ?out u \<noteq> None})"
    using outgoing_ok [of g]
    by (subst sum_list_distinct_conv_sum_set) (auto simp: map_of_eq_None_iff intro!: sum.cong)
  finally have given: "sum_list (map (rank_of r \<circ> fst) (filter (\<lambda>st. fst st \<in> fst ` set r) ?out)) =
      sum (rank_of r) (set (urls g) \<inter> {u. map_of ?out u \<noteq> None})" .
  have "leaked = sum (rank_of r) (set (urls g) \<inter> {u. map_of ?out u = None})"
    unfolding leaked_def using assms(1) by (subst sum_list_distinct_conv_sum_set) (auto intro!: sum.cong)
  with given have "leaked + sum_list (map (rank_of r \<circ> fst) (filter (\<lambda>st. fst st \<in> fst ` set r) ?out)) =
      sum (rank_of r) (set (urls g) \<inter> {u. map_of ?out u = None}) + sum (rank_of r) (set (urls g) \<inter> {u. map_of ?out u \<noteq> None})"
    by simp
  also have "\<dots> = sum (rank_of r) (set (urls g))"
    by (subst sum.union_disjoint [symmetric]) (auto intro!: sum.cong)
  also have "\<dots> = 1" using mass_as_sum [of r] one keys assms(1) by simp
  finally have split: "leaked + sum_list (map (rank_of r \<circ> fst) (filter (\<lambda>st. fst st \<in> fst ` set r) ?out)) = 1" .
  have "?n * base = 1 - DAMPING + DAMPING * leaked" using n by (simp add: base_def distrib_left)
  with give split have "mass (foldl (give r) ?start ?out) = 1 - DAMPING + DAMPING * 1"
    unfolding split [symmetric] by (simp add: distrib_left)
  with give show ?thesis
    by (simp add: distribution_def spread_def Let_def leaked_def [symmetric] base_def [symmetric])
qed

lemma rank_loop_distribution:
  "distinct (urls g) \<Longrightarrow> urls g \<noteq> [] \<Longrightarrow> distribution g r \<Longrightarrow> distribution g (rank_loop k g r)"
  by (induction k g r rule: rank_loop.induct) (simp_all add: Let_def spread_distribution)

lemma page_rank_distribution:
  assumes "distinct (urls g)" and "urls g \<noteq> []"
  shows "distribution g (page_rank g)"
  unfolding page_rank_def
proof (rule rank_loop_distribution [OF assms])
  have n: "0 < (of_nat (length (urls g)) :: rat)" using assms(2) by simp
  then show "distribution g (map (\<lambda>u. (u, 1 / of_nat (length (urls g)))) (urls g))"
    using DAMPING_pos by (auto simp: distribution_def mass_def comp_def sum_list_triv divide_right_mono)
qed

subsection \<open>The graph of a report\<close>

lemma build_pages_distinct: "build R rep = Inr g \<Longrightarrow> distinct (urls g)"
proof -
  assume "build R rep = Inr g"
  then obtain ps where "g_pages g = foldl (\<lambda>d p. assoc_set (sp_url p) p d) [] ps" by (auto simp: build_def)
  moreover have "distinct (map fst d) \<Longrightarrow> distinct (map fst (foldl (\<lambda>d p. assoc_set (sp_url p) p d) d ps))" for d
    by (induction ps arbitrary: d) (simp_all add: assoc_set_keys)
  ultimately show ?thesis by (simp add: urls_def)
qed

text \<open>C21: the authority of the pages of a crawl is a probability distribution. However many rounds the
  iteration runs, every crawled page has exactly one rank, the ranks add up to one, so that no authority
  is lost at pages without links or invented by repeated ones, and no page falls below the share that
  damping gives to all; the scores reported lie between 0 and 100 and the best page has exactly 100.\<close>

theorem authority_is_distribution:
  assumes "build R rep = Inr g" and "urls g \<noteq> []"
  shows "map fst (page_rank g) = urls g \<and> sum_list (map snd (page_rank g)) = 1 \<and>
    (\<forall>v\<in>snd ` set (page_rank g). (1 - DAMPING) / of_nat (length (urls g)) \<le> v) \<and>
    map fst (authority g) = urls g \<and> (\<forall>a\<in>snd ` set (authority g). 0 \<le> a \<and> a \<le> 100) \<and> 100 \<in> snd ` set (authority g)"
proof -
  note d = build_pages_distinct [OF assms(1)]
  from page_rank_distribution [OF d assms(2)] have pr: "map fst (page_rank g) = urls g" "mass (page_rank g) = 1"
    "\<forall>v\<in>snd ` set (page_rank g). (1 - DAMPING) / of_nat (length (urls g)) \<le> v"
    by (simp_all add: distribution_def)
  let ?V = "snd ` set (page_rank g)" and ?top = "Max (snd ` set (page_rank g))"
  have ne: "page_rank g \<noteq> []" using pr(1) assms(2) by auto
  have top_in: "?top \<in> ?V" using ne by (intro Max_in) simp_all
  have low: "0 < (1 - DAMPING) / (of_nat (length (urls g)) :: rat)" using assms(2) DAMPING_pos by simp
  then have top: "0 < ?top" using pr(3) top_in by fastforce
  have auth: "authority g = map (\<lambda>(u, v). (u, round1 (v / ?top * 100))) (page_rank g)"
    using assms(2) top by (simp add: authority_def Let_def)
  have bounds: "0 \<le> round1 (v / ?top * 100) \<and> round1 (v / ?top * 100) \<le> 100" if v: "v \<in> ?V" for v
  proof -
    have "0 < v" using pr(3) v low by fastforce
    moreover have "v \<le> ?top" using v by simp
    ultimately have "of_int 0 \<le> v / ?top * 100 * 10" "v / ?top * 100 * 10 \<le> of_int 1000"
      using top by (simp_all add: divide_le_eq)
    from round_half_even_between [OF this] show ?thesis by (simp add: round1_def)
  qed
  have hundred: "round1 (?top / ?top * 100) = 100" using top by (simp add: round1_def round_half_even_def)
  have "snd ` set (authority g) = (\<lambda>v. round1 (v / ?top * 100)) ` ?V"
    unfolding auth by (force simp: image_iff)
  note scores = this
  have "\<forall>a\<in>snd ` set (authority g). 0 \<le> a \<and> a \<le> 100" unfolding scores using bounds by blast
  moreover have "100 \<in> snd ` set (authority g)"
    unfolding scores by (rule image_eqI [OF _ top_in]) (rule hundred [symmetric])
  moreover have "map fst (authority g) = urls g" unfolding auth pr(1) [symmetric] by (simp add: comp_def case_prod_beta)
  ultimately show ?thesis using pr by (simp add: mass_def)
qed

definition demo_report :: dict where
  "demo_report = [(''pages'', JList [JObj [(''url'', JStr ''http://a.com/''), (''status'', JInt 200), (''indexable'', JBool True)]])]"

theorem authority_is_distribution_witness:
  "\<exists>g. build plain_runtime demo_report = Inr g \<and> sum_list (map snd (page_rank g)) = 1"
proof -
  define r where "r = build plain_runtime demo_report"
  have "case r of Inl _ \<Rightarrow> False | Inr g \<Rightarrow> urls g \<noteq> []" unfolding r_def by code_simp
  then obtain g where g: "build plain_runtime demo_report = Inr g" "urls g \<noteq> []"
    unfolding r_def [symmetric] by (cases r) simp_all
  from authority_is_distribution [OF g] g(1) show ?thesis by blast
qed

text \<open>The number of distinct pages that link to an address.\<close>

lemma inlink_count_pages: "inlink_count g u = card {e_source e | e. e \<in> set (g_edges g) \<and> e_target e = u}"
proof -
  let ?pairs = "dedupe (map (\<lambda>e. (e_source e, e_target e)) (g_edges g))"
  have "count_list (map snd ps) u = length (filter (\<lambda>p. snd p = u) ps)" for ps :: "(string \<times> string) list"
    by (induction ps) auto
  then have "inlink_count g u = length (filter (\<lambda>p. snd p = u) ?pairs)" by (simp add: inlink_count_def)
  also have "\<dots> = card (set (filter (\<lambda>p. snd p = u) ?pairs))"
    by (rule distinct_card [symmetric]) simp
  also have "\<dots> = card ((\<lambda>s. (s, u)) ` {e_source e | e. e \<in> set (g_edges g) \<and> e_target e = u})"
    by (rule arg_cong [of _ _ card]) (auto simp: image_iff)
  also have "\<dots> = card {e_source e | e. e \<in> set (g_edges g) \<and> e_target e = u}"
    by (rule card_image) (simp add: inj_on_def)
  finally show ?thesis .
qed

text \<open>The page findings mean what they say. An orphan is an indexable page, other than the start page,
  that no page links to, and every such page is listed; a dead end is an indexable page without any
  link; and a page called overlooked is indexable, answered, is not the start page, has at most two
  linking pages, however often each links to it, and no more authority than the middle of the site.\<close>

lemma link_findings_exact:
  "(u \<in> set (orphans g start) \<longleftrightarrow>
      (\<exists>p. (u, p) \<in> set (g_pages g) \<and> sp_indexable p \<and> Some u \<noteq> start \<and> (\<forall>e\<in>set (g_edges g). e_target e \<noteq> u))) \<and>
   (u \<in> set (dead_ends g) \<longleftrightarrow>
      (\<exists>p. (u, p) \<in> set (g_pages g) \<and> sp_indexable p \<and> (\<forall>e\<in>set (g_edges g). e_source e \<noteq> u))) \<and>
   (\<forall>up\<in>set (overlooked g ranking start). up \<in> set (g_pages g) \<and> sp_indexable (snd up) \<and> reachable (snd up) \<and>
      Some (fst up) \<noteq> start \<and> card {e_source e | e. e \<in> set (g_edges g) \<and> e_target e = fst up} \<le> 2 \<and>
      rank_of ranking (fst up) \<le> median_score ranking)"
proof (intro conjI ballI)
  have fin: "finite {e_source e | e. e \<in> set (g_edges g) \<and> e_target e = u}" by simp
  have "inlink_count g u = 0 \<longleftrightarrow> (\<forall>e\<in>set (g_edges g). e_target e \<noteq> u)"
    unfolding inlink_count_pages using card_eq_0_iff fin by auto
  then show "u \<in> set (orphans g start) \<longleftrightarrow>
      (\<exists>p. (u, p) \<in> set (g_pages g) \<and> sp_indexable p \<and> Some u \<noteq> start \<and> (\<forall>e\<in>set (g_edges g). e_target e \<noteq> u))"
    by (force simp: orphans_def)
  show "u \<in> set (dead_ends g) \<longleftrightarrow>
      (\<exists>p. (u, p) \<in> set (g_pages g) \<and> sp_indexable p \<and> (\<forall>e\<in>set (g_edges g). e_source e \<noteq> u))"
    by (force simp: dead_ends_def)
  fix up assume "up \<in> set (overlooked g ranking start)"
  then have "up \<in> set (g_pages g)" "is_overlooked g ranking start up"
    by (auto simp: overlooked_def dest!: in_set_takeD)
  then show "up \<in> set (g_pages g)" "sp_indexable (snd up)" "reachable (snd up)" "Some (fst up) \<noteq> start"
    "card {e_source e | e. e \<in> set (g_edges g) \<and> e_target e = fst up} \<le> 2"
    "rank_of ranking (fst up) \<le> median_score ranking"
    by (simp_all add: is_overlooked_def flip: inlink_count_pages)
qed

text \<open>An address is never normalised to the empty text, so the checks for an empty address never apply:
  a row of the crawl report without a url, and both ends of a link without one, become the page \<^verbatim>\<open>/\<close>.\<close>

lemma blank_address_becomes_root:
  "normalise_url url \<noteq> Inr [] \<and> normalise_url [] = Inr ''/''"
proof
  show "normalise_url [] = Inr ''/''" by code_simp
  have "urlunsplit u \<noteq> []" if "su_path u \<noteq> []" for u
    using that by (auto simp: urlunsplit_def Let_def)
  moreover have "butlast p \<noteq> []" if "1 < length p" for p :: string using that by (cases p) auto
  ultimately show "normalise_url url \<noteq> Inr []" by (auto simp: normalise_url_def Let_def)
qed

end
