(* ===== verification/Seo_Limits.thy ===== *)
theory Seo_Limits
  imports Py_Prelude
begin

text \<open>\<^verbatim>\<open>src/shared/seo.py\<close>: the limits the audit rules, the optimizer and the competitor service share.\<close>

definition TITLE_MIN :: int where "TITLE_MIN = 25"

definition TITLE_MAX :: int where "TITLE_MAX = 60"

definition DESC_MIN :: int where "DESC_MIN = 70"

definition DESC_MAX :: int where "DESC_MAX = 160"

definition THIN_WORDS :: int where "THIN_WORDS = 300"

end
