(* ===== verification/Competitor.thy ===== *)
theory Competitor
  imports Content Seo_Limits
begin

text \<open>
  The comparison of sites, \<^verbatim>\<open>src/services/competitor/analyze.py\<close>: habits of a site as rates and medians, the
  verdict on each habit against the middle of the competitors, and the themes several competitors write
  about. A site with fewer than \<open>MIN_SAMPLE\<close> indexable pages takes no part in a verdict.
\<close>

subsection \<open>Constants\<close>

definition MIN_SAMPLE :: nat where "MIN_SAMPLE = 5"
definition RATE_MARGIN :: rat where "RATE_MARGIN = 10"
definition LENGTH_MARGIN :: rat where "LENGTH_MARGIN = 3 / 2"
definition MIN_COMPETITORS :: nat where "MIN_COMPETITORS = 2"
definition MIN_TERM_LENGTH :: nat where "MIN_TERM_LENGTH = 3"

definition fa_titled :: string where
"fa_titled = utf8 [216, 181, 217, 129, 216, 173, 217, 135, 226, 128, 140, 217, 135, 216,
    167, 219, 140, 32, 216, 175, 216, 167, 216, 177, 216, 167, 219, 140, 32, 216, 185, 217,
    134, 217, 136, 216, 167, 217, 134]"

definition fa_title_in_range :: string where
"fa_title_in_range = utf8 [216, 185, 217, 134, 217, 136, 216, 167, 217, 134, 32, 216, 168,
    216, 167, 32, 216, 183, 217, 136, 217, 132, 32, 217, 133, 217, 134, 216, 167, 216, 179,
    216, 168]"

definition fa_described :: string where
"fa_described = utf8 [216, 181, 217, 129, 216, 173, 217, 135, 226, 128, 140, 217, 135, 216,
    167, 219, 140, 32, 216, 175, 216, 167, 216, 177, 216, 167, 219, 140, 32, 216, 170, 217,
    136, 216, 182, 219, 140, 216, 173, 32, 217, 133, 216, 170, 216, 167]"

definition fa_has_h1 :: string where
"fa_has_h1 = utf8 [216, 181, 217, 129, 216, 173, 217, 135, 226, 128, 140, 217, 135, 216,
    167, 219, 140, 32, 216, 175, 216, 167, 216, 177, 216, 167, 219, 140, 32, 72, 49]"

definition fa_thin :: string where
"fa_thin = utf8 [216, 181, 217, 129, 216, 173, 217, 135, 226, 128, 140, 217, 135, 216, 167,
    219, 140, 32, 218, 169, 217, 133, 226, 128, 140, 217, 133, 216, 173, 216, 170, 217, 136,
    216, 167]"

definition fa_comparison_method :: string where
"fa_comparison_method = utf8 [217, 133, 217, 130, 216, 167, 219, 140, 216, 179, 217, 135,
    32, 217, 129, 217, 130, 216, 183, 32, 216, 177, 217, 136, 219, 140, 32, 217, 134, 216,
    177, 216, 174, 226, 128, 140, 217, 135, 216, 167, 32, 217, 136, 32, 217, 133, 219, 140,
    216, 167, 217, 134, 217, 135, 226, 128, 140, 217, 135, 216, 167, 216, 179, 216, 170,
    216, 140, 32, 217, 134, 217, 135, 32, 216, 170, 216, 185, 216, 175, 216, 167, 216, 175,
    32, 216, 181, 217, 129, 216, 173, 217, 135, 226, 128, 140, 217, 135, 216, 167, 32, 226,
    128, 148, 32, 217, 135, 216, 177, 32, 216, 174, 216, 178, 216, 180, 32, 216, 179, 217,
    130, 217, 129, 32, 216, 175, 216, 167, 216, 177, 216, 175, 32, 217, 136, 32, 216, 180,
    217, 133, 216, 177, 216, 175, 217, 134, 32, 216, 181, 217, 129, 216, 173, 217, 135, 226,
    128, 140, 217, 135, 216, 167, 32, 216, 167, 217, 134, 216, 175, 216, 167, 216, 178, 217,
    135, 226, 128, 140, 219, 140, 32, 216, 179, 217, 130, 217, 129, 32, 216, 177, 216, 167,
    32, 217, 133, 219, 140, 226, 128, 140, 216, 179, 217, 134, 216, 172, 216, 175, 32, 217,
    134, 217, 135, 32, 216, 167, 217, 134, 216, 175, 216, 167, 216, 178, 217, 135, 226, 128,
    140, 219, 140, 32, 216, 179, 216, 167, 219, 140, 216, 170, 46, 32, 216, 179, 216, 167,
    219, 140, 216, 170, 219, 140, 32, 216, 168, 216, 167, 32, 218, 169, 217, 133, 216, 170,
    216, 177, 32, 216, 167, 216, 178, 32, 53, 32, 216, 181, 217, 129, 216, 173, 217, 135,
    226, 128, 140, 219, 140, 32, 216, 167, 219, 140, 217, 134, 216, 175, 218, 169, 216, 179,
    226, 128, 140, 217, 190, 216, 176, 219, 140, 216, 177, 32, 216, 175, 216, 177, 32, 216,
    175, 216, 167, 217, 136, 216, 177, 219, 140, 226, 128, 140, 217, 135, 216, 167, 32, 216,
    180, 216, 177, 218, 169, 216, 170, 32, 216, 175, 216, 167, 216, 175, 217, 135, 32, 217,
    134, 217, 133, 219, 140, 226, 128, 140, 216, 180, 217, 136, 216, 175, 216, 140, 32, 217,
    136, 32, 219, 140, 218, 169, 32, 216, 185, 216, 168, 216, 167, 216, 177, 216, 170, 32,
    217, 136, 217, 130, 216, 170, 219, 140, 32, 194, 171, 217, 133, 217, 136, 216, 182, 217,
    136, 216, 185, 194, 187, 32, 216, 167, 216, 179, 216, 170, 32, 218, 169, 217, 135, 32,
    216, 175, 216, 179, 216, 170, 226, 128, 140, 218, 169, 217, 133, 32, 50, 32, 216, 177,
    217, 130, 219, 140, 216, 168, 32, 216, 177, 217, 136, 219, 140, 216, 180, 32, 217, 134,
    217, 136, 216, 180, 216, 170, 217, 135, 32, 216, 168, 216, 167, 216, 180, 217, 134, 216,
    175, 46]"

subsection \<open>Sites\<close>

record site_entry =
  cp_url :: string
  cp_title :: json
  cp_description :: json
  cp_headings :: "dict list"
  cp_words :: int
  cp_indexable :: bool

record site =
  st_label :: string
  st_pages :: "site_entry list"

definition is_h1 :: "runtime \<Rightarrow> dict \<Rightarrow> bool" where
  "is_h1 R h \<longleftrightarrow> py_str R (dget h ''level'') \<in> {''1'', ''h1'', ''H1''}"

text \<open>The first heading of the first level decides, also when it is blank.\<close>

definition h1 :: "runtime \<Rightarrow> site_entry \<Rightarrow> string option" where
  "h1 R p =
     (case first_where (is_h1 R) (cp_headings p) of
        None \<Rightarrow> None
      | Some h \<Rightarrow> (let t = strip (py_str R (py_or (dget h ''text'') (JStr []))) in if t = [] then None else Some t))"

definition declared_text :: "runtime \<Rightarrow> site_entry \<Rightarrow> string py" where
  "declared_text R p =
     bindE (text_or_empty (cp_title p)) (\<lambda>title.
     bindE (text_or_empty (cp_description p)) (\<lambda>description.
       Inr (join_spaces ([title, description] @ map (\<lambda>h. py_str R (py_or (dget h ''text'') (JStr []))) (cp_headings p)))))"

definition indexable_pages :: "site \<Rightarrow> site_entry list" where
  "indexable_pages s = filter cp_indexable (st_pages s)"

definition site_label :: "runtime \<Rightarrow> dict \<Rightarrow> string py" where
  "site_label R rep =
     (let url = py_str R (py_or (dget rep ''start_url'') (JStr [])) in
      bindE (urlsplit url) (\<lambda>u.
        let host = lower (netloc u) in
        Inr (if starts_with ''www.'' host then drop 4 host
             else if host \<noteq> [] then host else if url \<noteq> [] then url else ''unknown'')))"

fun heading_dicts :: "json list \<Rightarrow> dict list" where
  "heading_dicts [] = []"
| "heading_dicts (JObj d # hs) = d # heading_dicts hs"
| "heading_dicts (_ # hs) = heading_dicts hs"

definition site_row :: "runtime \<Rightarrow> dict \<Rightarrow> site_entry py" where
  "site_row R row =
     bindE (as_list (py_or (dget row ''headings'') (JList []))) (\<lambda>hs.
     bindE (py_int (py_or (dget row ''words'') (JInt 0))) (\<lambda>n.
       Inr \<lparr>cp_url = py_str R (dget row ''url''), cp_title = dget row ''title'', cp_description = dget row ''description'',
            cp_headings = heading_dicts hs, cp_words = n,
            cp_indexable = truthy (dget_default row ''indexable'' (JBool True))\<rparr>))"

definition build_site :: "runtime \<Rightarrow> dict \<Rightarrow> site py" where
  "build_site R rep =
     bindE (as_list (py_or (dget rep ''pages'') (JList []))) (\<lambda>rows.
     bindE (mapE (\<lambda>row. bindE (as_dict row) (\<lambda>d.
              if truthy (dget d ''url'') then bindE (site_row R d) (\<lambda>p. Inr [p]) else Inr [])) rows) (\<lambda>pages.
     bindE (site_label R rep) (\<lambda>label. Inr \<lparr>st_label = label, st_pages = concat pages\<rparr>)))"

subsection \<open>The profile of a site\<close>

text \<open>\<^verbatim>\<open>statistics.median\<close> of a list that is not empty, and \<^verbatim>\<open>int\<close> of the result.\<close>

definition median :: "rat list \<Rightarrow> rat" where
  "median xs =
     (let ys = sort xs; n = length ys in
      if odd n then ys ! (n div 2) else (ys ! (n div 2 - 1) + ys ! (n div 2)) / 2)"

definition to_int :: "rat \<Rightarrow> int" where
  "to_int r = (if r < 0 then - \<lfloor>- r\<rfloor> else \<lfloor>r\<rfloor>)"

definition rate :: "('a \<Rightarrow> bool py) \<Rightarrow> 'a list \<Rightarrow> rat py" where
  "rate p xs =
     (if xs = [] then Inr 0
      else bindE (filterE p xs) (\<lambda>hits. Inr (round1 (100 * of_nat (length hits) / of_nat (length xs)))))"

text \<open>\<^verbatim>\<open>bool((x or "").strip())\<close> and \<^verbatim>\<open>len(x or "")\<close>, which counts characters.\<close>

definition not_blank :: "json \<Rightarrow> bool py" where
  "not_blank j = bindE (jstrip (py_or j (JStr []))) (\<lambda>t. Inr (t \<noteq> []))"

definition char_count :: "json \<Rightarrow> int py" where
  "char_count j =
     (case py_or j (JStr []) of JStr s \<Rightarrow> Inr (int (length (code_points s))) | v \<Rightarrow> jlen v)"

definition title_fits :: "site_entry \<Rightarrow> bool py" where
  "title_fits p = bindE (char_count (cp_title p)) (\<lambda>n. Inr (TITLE_MIN \<le> n \<and> n \<le> TITLE_MAX))"

record site_profile =
  sf_label :: string
  sf_sampled :: nat
  sf_titled :: rat
  sf_title_in_range :: rat
  sf_described :: rat
  sf_has_h1 :: rat
  sf_median_words :: int
  sf_thin :: rat
  sf_median_headings :: int

definition comparable :: "site_profile \<Rightarrow> bool" where
  "comparable p \<longleftrightarrow> MIN_SAMPLE \<le> sf_sampled p"

definition int_median :: "int list \<Rightarrow> int" where
  "int_median ns = (if ns = [] then 0 else to_int (median (map of_int ns)))"

definition profile_site :: "runtime \<Rightarrow> site \<Rightarrow> site_profile py" where
  "profile_site R s =
     (let ps = indexable_pages s in
      bindE (rate (\<lambda>p. not_blank (cp_title p)) ps) (\<lambda>titled.
      bindE (rate title_fits ps) (\<lambda>in_range.
      bindE (rate (\<lambda>p. not_blank (cp_description p)) ps) (\<lambda>described.
      bindE (rate (\<lambda>p. Inr (h1 R p \<noteq> None)) ps) (\<lambda>has_h1.
      bindE (rate (\<lambda>p. Inr (cp_words p < THIN_WORDS)) ps) (\<lambda>thin.
        Inr \<lparr>sf_label = st_label s, sf_sampled = length ps, sf_titled = titled, sf_title_in_range = in_range,
             sf_described = described, sf_has_h1 = has_h1, sf_median_words = int_median (map cp_words ps),
             sf_thin = thin, sf_median_headings = int_median (map (\<lambda>p. int (length (cp_headings p))) ps)\<rparr>))))))"

definition profile_dict :: "site_profile \<Rightarrow> json" where
  "profile_dict p = JObj [(''label'', JStr (sf_label p)), (''sampled'', JInt (int (sf_sampled p))),
     (''comparable'', JBool (comparable p)), (''titled'', JFloat (sf_titled p)),
     (''title_in_range'', JFloat (sf_title_in_range p)), (''described'', JFloat (sf_described p)),
     (''has_h1'', JFloat (sf_has_h1 p)), (''median_words'', JInt (sf_median_words p)),
     (''thin'', JFloat (sf_thin p)), (''median_headings'', JInt (sf_median_headings p))]"

subsection \<open>Verdicts\<close>

datatype verdict = Level | Ahead | Behind

fun verdict_name :: "verdict \<Rightarrow> string" where
  "verdict_name Level = ''level''"
| "verdict_name Ahead = ''ahead''"
| "verdict_name Behind = ''behind''"

record habit =
  hb_key :: string
  hb_higher :: bool
  hb_label :: string
  hb_value :: "site_profile \<Rightarrow> rat"

definition HABITS :: "habit list" where
  "HABITS =
     [\<lparr>hb_key = ''titled'', hb_higher = True, hb_label = fa_titled, hb_value = sf_titled\<rparr>,
      \<lparr>hb_key = ''title_in_range'', hb_higher = True, hb_label = fa_title_in_range, hb_value = sf_title_in_range\<rparr>,
      \<lparr>hb_key = ''described'', hb_higher = True, hb_label = fa_described, hb_value = sf_described\<rparr>,
      \<lparr>hb_key = ''has_h1'', hb_higher = True, hb_label = fa_has_h1, hb_value = sf_has_h1\<rparr>,
      \<lparr>hb_key = ''thin'', hb_higher = False, hb_label = fa_thin, hb_value = sf_thin\<rparr>]"

record verdict_row =
  vr_habit :: habit
  vr_yours :: rat
  vr_theirs :: rat
  vr_difference :: rat
  vr_verdict :: verdict

definition judge_habit :: "site_profile \<Rightarrow> site_profile list \<Rightarrow> habit \<Rightarrow> verdict_row" where
  "judge_habit mine against h =
     (let theirs = round1 (median (map (hb_value h) against));
          gap = round1 (hb_value h mine - theirs);
          better = (if hb_higher h then 0 < gap else gap < 0)
      in \<lparr>vr_habit = h, vr_yours = hb_value h mine, vr_theirs = theirs, vr_difference = gap,
          vr_verdict = (if \<bar>gap\<bar> < RATE_MARGIN then Level else if better then Ahead else Behind)\<rparr>)"

definition rate_verdicts :: "site_profile \<Rightarrow> site_profile list \<Rightarrow> verdict_row list" where
  "rate_verdicts mine others =
     (let against = filter comparable others in
      if against = [] then [] else map (judge_habit mine against) HABITS)"

definition verdict_dict :: "verdict_row \<Rightarrow> json" where
  "verdict_dict v = JObj [(''metric'', JStr (hb_key (vr_habit v))), (''label_fa'', JStr (hb_label (vr_habit v))),
     (''yours'', JFloat (vr_yours v)), (''competitor_median'', JFloat (vr_theirs v)),
     (''difference'', JFloat (vr_difference v)), (''verdict'', JStr (verdict_name (vr_verdict v)))]"

definition length_verdict :: "site_profile \<Rightarrow> site_profile list \<Rightarrow> (int \<times> rat \<times> verdict) option" where
  "length_verdict mine others =
     (let against = filter (\<lambda>p. comparable p \<and> 0 < sf_median_words p) others in
      if against = [] \<or> sf_median_words mine = 0 then None
      else
        (let theirs = int_median (map sf_median_words against);
             ratio = of_int theirs / of_int (sf_median_words mine)
         in Some (theirs, round2 ratio,
              if LENGTH_MARGIN \<le> ratio then Behind else if ratio \<le> 1 / LENGTH_MARGIN then Ahead else Level)))"

definition length_dict :: "site_profile \<Rightarrow> (int \<times> rat \<times> verdict) option \<Rightarrow> json" where
  "length_dict mine v =
     (case v of
        None \<Rightarrow> JNull
      | Some (theirs, ratio, verdict) \<Rightarrow>
          JObj [(''yours'', JInt (sf_median_words mine)), (''competitor_median'', JInt theirs),
                (''ratio'', JFloat ratio), (''verdict'', JStr (verdict_name verdict))])"

subsection \<open>Themes\<close>

text \<open>
  The terms of a page, each once. Python iterates over a set here; the order does not reach the report,
  whose rows are sorted by a key that ends with the term.
\<close>

definition page_terms :: "runtime \<Rightarrow> unicode \<Rightarrow> site_entry \<Rightarrow> chars list py" where
  "page_terms R U p =
     bindE (declared_text R p) (\<lambda>t. Inr (dedupe (filter (\<lambda>w. MIN_TERM_LENGTH \<le> length w) (words U t))))"

definition site_terms :: "runtime \<Rightarrow> unicode \<Rightarrow> site \<Rightarrow> (chars \<times> nat) list py" where
  "site_terms R U s = bindE (mapE (page_terms R U) (indexable_pages s)) (\<lambda>ts. Inr (counter (concat ts)))"

record theme =
  th_term :: chars
  th_competitors :: nat
  th_pages :: nat

definition count_of :: "(chars \<times> nat) list \<Rightarrow> chars \<Rightarrow> nat" where
  "count_of c w = (case map_of c w of None \<Rightarrow> 0 | Some n \<Rightarrow> n)"

definition usable :: "site list \<Rightarrow> site list" where
  "usable sites = filter (\<lambda>s. MIN_SAMPLE \<le> length (indexable_pages s)) sites"

definition ordered_themes :: "nat \<Rightarrow> theme list \<Rightarrow> theme list" where
  "ordered_themes limit rows = take limit (sort_key (\<lambda>r. (- int (th_competitors r), - int (th_pages r), th_term r)) rows)"

text \<open>How many sites use a term, and on how many pages together, given the counters of the sites.\<close>

definition missing_themes :: "(chars \<times> nat) list \<Rightarrow> (chars \<times> nat) list list \<Rightarrow> theme list" where
  "missing_themes ours counts =
     ordered_themes 25 (map (\<lambda>(w, n). \<lparr>th_term = w, th_competitors = n, th_pages = sum_list (map (\<lambda>c. count_of c w) counts)\<rparr>)
       (filter (\<lambda>(w, n). MIN_COMPETITORS \<le> n \<and> w \<notin> fst ` set ours) (counter (concat (map (map fst) counts)))))"

definition common_themes :: "(chars \<times> nat) list \<Rightarrow> (chars \<times> nat) list list \<Rightarrow> theme list" where
  "common_themes ours counts =
     ordered_themes 15 (map (\<lambda>(w, n). \<lparr>th_term = w, th_competitors = n, th_pages = count_of ours w\<rparr>)
       (filter (\<lambda>(w, n). MIN_COMPETITORS \<le> n \<and> w \<in> fst ` set ours) (counter (concat (map (map fst) counts)))))"

definition themes :: "runtime \<Rightarrow> unicode \<Rightarrow> site \<Rightarrow> site list \<Rightarrow> theme list py" where
  "themes R U mine others =
     bindE (site_terms R U mine) (\<lambda>ours.
     bindE (mapE (site_terms R U) (usable others)) (\<lambda>counts. Inr (missing_themes ours counts)))"

definition shared_themes :: "runtime \<Rightarrow> unicode \<Rightarrow> site \<Rightarrow> site list \<Rightarrow> theme list py" where
  "shared_themes R U mine others =
     bindE (site_terms R U mine) (\<lambda>ours.
     bindE (mapE (site_terms R U) (usable others)) (\<lambda>counts. Inr (common_themes ours counts)))"

definition theme_dict :: "string \<Rightarrow> theme \<Rightarrow> json" where
  "theme_dict pages_key r = JObj [(''term'', JStr (encode (th_term r))), (''competitors'', JInt (int (th_competitors r))),
     (pages_key, JInt (int (th_pages r)))]"

subsection \<open>The report\<close>

definition metrics_with :: "verdict \<Rightarrow> verdict_row list \<Rightarrow> json" where
  "metrics_with v rows = JList (map (\<lambda>r. JStr (hb_key (vr_habit r))) (filter (\<lambda>r. vr_verdict r = v) rows))"

definition comparison_report :: "site_profile \<Rightarrow> site_profile list \<Rightarrow> theme list \<Rightarrow> theme list \<Rightarrow> dict" where
  "comparison_report mine theirs missing common =
     (let verdicts = rate_verdicts mine theirs in
      [(''you'', profile_dict mine), (''competitors'', JList (map profile_dict theirs)),
       (''ignored'', JList (map (\<lambda>p. JStr (sf_label p)) (filter (\<lambda>p. \<not> comparable p) theirs))),
       (''compared_against'', JInt (int (length (filter comparable theirs)))),
       (''verdicts'', JList (map verdict_dict verdicts)),
       (''behind_on'', metrics_with Behind verdicts), (''ahead_on'', metrics_with Ahead verdicts),
       (''content_length'', length_dict mine (length_verdict mine theirs)),
       (''missing_themes'', JList (map (theme_dict ''their_pages'') missing)),
       (''shared_themes'', JList (map (theme_dict ''your_pages'') common)),
       (''method'', JStr fa_comparison_method)])"

definition compare_sites :: "runtime \<Rightarrow> unicode \<Rightarrow> json \<Rightarrow> json list \<Rightarrow> dict py" where
  "compare_sites R U mine_report competitor_reports =
     (if competitor_reports = [] then Inl (NoComparison ''a comparison needs at least one competitor crawl'')
      else
        bindE (bindE (as_dict mine_report) (build_site R)) (\<lambda>mine.
        bindE (mapE (\<lambda>rep. bindE (as_dict rep) (build_site R)) competitor_reports) (\<lambda>others.
        bindE (profile_site R mine) (\<lambda>my_profile.
        bindE (mapE (profile_site R) others) (\<lambda>their_profiles.
        bindE (themes R U mine others) (\<lambda>missing.
        bindE (shared_themes R U mine others) (\<lambda>common.
          Inr (comparison_report my_profile their_profiles missing common))))))))"

end
