(* ===== verification/Competitor_Properties.thy ===== *)
theory Competitor_Properties
  imports Competitor
begin

text \<open>
  What the comparison of sites promises: the themes it lists are exactly those several competitors write
  about, and a site with too few pages does not move any verdict.
\<close>

subsection \<open>Terms\<close>

definition writes_about :: "runtime \<Rightarrow> unicode \<Rightarrow> chars \<Rightarrow> site_entry \<Rightarrow> bool" where
  "writes_about R U w p \<longleftrightarrow>
     (case declared_text R p of Inl _ \<Rightarrow> False | Inr t \<Rightarrow> MIN_TERM_LENGTH \<le> length w \<and> w \<in> set (words U t))"

definition pages_about :: "runtime \<Rightarrow> unicode \<Rightarrow> chars \<Rightarrow> site \<Rightarrow> nat" where
  "pages_about R U w s = length (filter (writes_about R U w) (indexable_pages s))"

lemma page_terms_spec:
  assumes "page_terms R U p = Inr ts"
  shows "distinct ts" and "w \<in> set ts \<longleftrightarrow> writes_about R U w p"
  using assms by (auto simp: page_terms_def writes_about_def)

lemma count_concat_distinct:
  assumes "\<forall>ts\<in>set tss. distinct ts"
  shows "count_list (concat tss) w = length (filter (\<lambda>ts. w \<in> set ts) tss)"
  using assms
proof (induction tss)
  case (Cons ts tss)
  have "count_list ts w = (if w \<in> set ts then 1 else 0)"
    using Cons.prems by (induction ts) auto
  with Cons show ?case by simp
qed simp

lemma mapE_filter_length:
  assumes "mapE f xs = Inr ys" and "\<And>x y. x \<in> set xs \<Longrightarrow> f x = Inr y \<Longrightarrow> Q y \<longleftrightarrow> P x"
  shows "length (filter Q ys) = length (filter P xs)"
  using assms
proof (induction xs arbitrary: ys)
  case (Cons x xs)
  from Cons.prems(1) obtain y zs where y: "f x = Inr y" "mapE f xs = Inr zs" "ys = y # zs" by auto
  have "length (filter Q zs) = length (filter P xs)" by (rule Cons.IH [OF y(2)]) (simp add: Cons.prems(2))
  moreover have "Q y \<longleftrightarrow> P x" by (rule Cons.prems(2) [OF _ y(1)]) simp
  ultimately show ?case by (simp add: y(3))
qed simp

lemma mapE_sum:
  assumes "mapE f xs = Inr ys" and "\<And>x y. f x = Inr y \<Longrightarrow> h y = g x"
  shows "sum_list (map h ys) = sum_list (map g xs)"
  using assms(1) by (induction xs arbitrary: ys) (auto simp: assms(2))

lemma mapE_set: "mapE f xs = Inr ys \<Longrightarrow> y \<in> set ys \<longleftrightarrow> (\<exists>x\<in>set xs. f x = Inr y)"
  by (induction xs arbitrary: ys) auto

text \<open>The counter of a site counts, for each term, the indexable pages that use it.\<close>

lemma site_terms_spec:
  assumes "site_terms R U s = Inr c"
  shows "count_of c w = pages_about R U w s"
    and "w \<in> fst ` set c \<longleftrightarrow> 0 < pages_about R U w s" and "distinct (map fst c)"
proof -
  from assms obtain tss where t: "mapE (page_terms R U) (indexable_pages s) = Inr tss" "c = counter (concat tss)"
    by (auto simp: site_terms_def)
  have d: "\<forall>ts\<in>set tss. distinct ts" using mapE_set [OF t(1)] page_terms_spec(1) by blast
  have n: "count_list (concat tss) w = pages_about R U w s"
    unfolding count_concat_distinct [OF d] pages_about_def
    by (rule mapE_filter_length [OF t(1)]) (rule page_terms_spec(2))
  show "distinct (map fst c)" unfolding t(2) by simp
  have mem: "w \<in> fst ` set c \<longleftrightarrow> w \<in> set (concat tss)"
    unfolding t(2) by (simp add: counter_def image_image)
  have pos: "0 < count_list (concat tss) w \<longleftrightarrow> w \<in> set (concat tss)"
    by (metis count_list_0_iff gr0I less_not_refl)
  with mem n show "w \<in> fst ` set c \<longleftrightarrow> 0 < pages_about R U w s" by simp
  have "map_of (counter (concat tss)) w = (if w \<in> set (concat tss) then Some (count_list (concat tss) w) else None)"
  proof (cases "w \<in> set (concat tss)")
    case True
    then have "(w, count_list (concat tss) w) \<in> set (counter (concat tss))" by (simp add: in_counter)
    moreover have "distinct (map fst (counter (concat tss)))" by simp
    ultimately show ?thesis using True by (simp only: map_of_is_SomeI if_True)
  next
    case False
    then show ?thesis by (simp add: map_of_eq_None_iff counter_def image_image)
  qed
  with n pos show "count_of c w = pages_about R U w s"
    unfolding t(2) count_of_def by (auto split: if_splits)
qed

lemma in_set_take_sorted: "x \<in> set (take n (sort_key k xs)) \<Longrightarrow> x \<in> set xs"
  by (auto dest: in_set_takeD)

lemma sorted_fst: "sorted ps \<Longrightarrow> sorted (map fst ps)" for ps :: "('a::linorder \<times> 'b::linorder) list"
  by (induction ps) (auto simp: less_eq_prod_def)

text \<open>How many usable competitors have a page about a term.\<close>

definition users_of :: "runtime \<Rightarrow> unicode \<Rightarrow> chars \<Rightarrow> site list \<Rightarrow> nat" where
  "users_of R U w others = length (filter (\<lambda>s. 0 < pages_about R U w s) (usable others))"

lemma coverage_spec:
  assumes "mapE (site_terms R U) (usable others) = Inr counts"
  shows "count_list (concat (map (map fst) counts)) w = users_of R U w others"
    and "sum_list (map (\<lambda>c. count_of c w) counts) = sum_list (map (pages_about R U w) (usable others))"
proof -
  have "\<forall>ts\<in>set (map (map fst) counts). distinct ts"
    using mapE_set [OF assms] site_terms_spec(3) by fastforce
  from count_concat_distinct [OF this]
  have "count_list (concat (map (map fst) counts)) w = length (filter (\<lambda>c. w \<in> fst ` set c) counts)"
    by (simp add: filter_map comp_def)
  also have "\<dots> = users_of R U w others"
    unfolding users_of_def by (rule mapE_filter_length [OF assms]) (rule site_terms_spec(2))
  finally show "count_list (concat (map (map fst) counts)) w = users_of R U w others" .
  show "sum_list (map (\<lambda>c. count_of c w) counts) = sum_list (map (pages_about R U w) (usable others))"
    by (rule mapE_sum [OF assms]) (rule site_terms_spec(1))
qed


definition demo_site :: "string \<Rightarrow> string \<Rightarrow> site" where
  "demo_site label title = \<lparr>st_label = label, st_pages = replicate 5
     \<lparr>cp_url = ''u'', cp_title = JStr title, cp_description = JNull, cp_headings = [], cp_words = 100, cp_indexable = True\<rparr>\<rparr>"


subsection \<open>Small samples\<close>

text \<open>The reports of the competitors that have enough indexable pages to be judged against.\<close>

definition enough :: "runtime \<Rightarrow> json \<Rightarrow> bool" where
  "enough R rep =
     (case bindE (as_dict rep) (build_site R) of
        Inl _ \<Rightarrow> False | Inr s \<Rightarrow> MIN_SAMPLE \<le> length (indexable_pages s))"

lemma mapE_keep:
  assumes "mapE f xs = Inr ys" and "\<And>x y. x \<in> set xs \<Longrightarrow> f x = Inr y \<Longrightarrow> Q y \<longleftrightarrow> P x"
  shows "mapE f (filter P xs) = Inr (filter Q ys)"
  using assms
proof (induction xs arbitrary: ys)
  case (Cons x xs)
  from Cons.prems(1) obtain y zs where y: "f x = Inr y" "mapE f xs = Inr zs" "ys = y # zs" by auto
  have "mapE f (filter P xs) = Inr (filter Q zs)" by (rule Cons.IH [OF y(2)]) (simp add: Cons.prems(2))
  moreover have "Q y \<longleftrightarrow> P x" by (rule Cons.prems(2) [OF _ y(1)]) simp
  ultimately show ?case using y by simp
qed simp

lemma profile_sampled: "profile_site R s = Inr p \<Longrightarrow> sf_sampled p = length (indexable_pages s)"
  by (auto simp: profile_site_def Let_def)

lemma usable_idem [simp]: "usable (usable others) = usable others"
  by (simp add: usable_def)

text \<open>A competitor whose crawl has too few indexable pages changes nothing but the list of those left out.
  The comparison with the other competitors alone comes to the same verdicts, the same lists of habits and
  themes, the same judgement on length and the same number of competitors compared against.\<close>

lemma small_samples_do_not_count:
  assumes "compare_sites R U mine reports = Inr rep" and "filter (enough R) reports \<noteq> []"
  shows "\<exists>rep'. compare_sites R U mine (filter (enough R) reports) = Inr rep' \<and> dget rep' ''ignored'' = JList [] \<and>
           (\<forall>k\<in>{''you'', ''compared_against'', ''verdicts'', ''behind_on'', ''ahead_on'', ''content_length'', ''missing_themes'',
                  ''shared_themes''}. dget rep' k = dget rep k)"
proof -
  have "reports \<noteq> []" using assms(2) by auto
  with assms(1) obtain site others p ps missing common where
    s: "bindE (as_dict mine) (build_site R) = Inr site"
    and others: "mapE (\<lambda>r. bindE (as_dict r) (build_site R)) reports = Inr others"
    and p: "profile_site R site = Inr p" and ps: "mapE (profile_site R) others = Inr ps"
    and t: "themes R U site others = Inr missing" "shared_themes R U site others = Inr common"
    by (auto simp: compare_sites_def Let_def)
  have sites: "mapE (\<lambda>r. bindE (as_dict r) (build_site R)) (filter (enough R) reports) = Inr (usable others)"
    unfolding usable_def by (rule mapE_keep [OF others]) (simp add: enough_def del: bindE_Inr_iff)
  have profiles: "mapE (profile_site R) (usable others) = Inr (filter comparable ps)"
    unfolding usable_def by (rule mapE_keep [OF ps]) (simp add: comparable_def profile_sampled)
  have themes: "themes R U site (usable others) = Inr missing" "shared_themes R U site (usable others) = Inr common"
    using t by (simp_all add: themes_def shared_themes_def)
  have verdicts: "rate_verdicts p (filter comparable ps) = rate_verdicts p ps"
    "length_verdict p (filter comparable ps) = length_verdict p ps"
    by (simp_all add: rate_verdicts_def length_verdict_def conj_commute cong: conj_cong)
  have "compare_sites R U mine (filter (enough R) reports) = Inr (comparison_report p (filter comparable ps) missing common)"
    unfolding compare_sites_def using assms(2)
    by (simp add: s sites p profiles themes del: bindE_Inr_iff)
  moreover have "rep = comparison_report p ps missing common"
    using assms(1) \<open>reports \<noteq> []\<close> by (simp add: compare_sites_def s others p ps t)
  moreover have "dget (comparison_report p (filter comparable ps) missing common) ''ignored'' = JList []"
    by (simp add: comparison_report_def Let_def filter_empty_conv)
  ultimately show ?thesis
    by (auto simp: comparison_report_def Let_def verdicts simp del: bindE_Inr_iff)
qed

definition demo_crawl :: "nat \<Rightarrow> string \<Rightarrow> json" where
  "demo_crawl n title = JObj [(''start_url'', JStr ''https://a.com/''),
     (''pages'', JList (replicate n (JObj [(''url'', JStr ''u''), (''title'', JStr title)])))]"

end
