(* ===== verification/Llm.thy ===== *)
theory Llm
  imports Trend_Texts
begin

text \<open>
  \<^verbatim>\<open>src/shared/llm/client.py\<close>: the one place that calls the language model. The SDK is a parameter: what its
  streaming call returns for a prompt, or the text of the exception it raises; \<^verbatim>\<open>json.loads\<close> likewise.
  \<^verbatim>\<open>AIUnavailable\<close> is the left summand.
\<close>

record response =
  rs_stop_reason :: "string option"
  rs_content :: "(string \<times> string) list"  \<comment> \<open>the type and the text of each block\<close>

record sdk =
  sdk_key :: "string option"
  sdk_installed :: bool
  sdk_send :: "string \<Rightarrow> string + response"
  sdk_loads :: "string \<Rightarrow> json option"

definition fa_no_key :: string where
"fa_no_key = utf8 [217, 133, 216, 170, 216, 186, 219, 140, 216, 177, 32, 217, 133, 216, 173,
    219, 140, 216, 183, 219, 140, 32, 65, 78, 84, 72, 82, 79, 80, 73, 67, 95, 65, 80, 73,
    95, 75, 69, 89, 32, 216, 170, 217, 134, 216, 184, 219, 140, 217, 133, 32, 217, 134, 216,
    180, 216, 175, 217, 135, 32, 216, 167, 216, 179, 216, 170, 46]"

definition fa_no_package :: string where
"fa_no_package = utf8 [217, 190, 218, 169, 219, 140, 216, 172, 32, 97, 110, 116, 104, 114,
    111, 112, 105, 99, 32, 217, 134, 216, 181, 216, 168, 32, 217, 134, 219, 140, 216, 179,
    216, 170, 58, 32, 112, 105, 112, 32, 105, 110, 115, 116, 97, 108, 108, 32, 97, 110, 116,
    104, 114, 111, 112, 105, 99]"

definition fa_refusal :: string where
"fa_refusal = utf8 [217, 133, 216, 175, 217, 132, 32, 216, 168, 217, 135, 32, 216, 167, 219,
    140, 217, 134, 32, 216, 175, 216, 177, 216, 174, 217, 136, 216, 167, 216, 179, 216, 170,
    32, 217, 190, 216, 167, 216, 179, 216, 174, 32, 217, 134, 216, 175, 216, 167, 216, 175,
    46]"

definition fa_max_tokens :: string where
"fa_max_tokens = utf8 [217, 190, 216, 167, 216, 179, 216, 174, 32, 217, 133, 216, 175, 217,
    132, 32, 216, 168, 217, 135, 32, 216, 179, 217, 130, 217, 129, 32, 216, 170, 217, 136,
    218, 169, 217, 134, 32, 216, 177, 216, 179, 219, 140, 216, 175, 32, 217, 136, 32, 217,
    134, 216, 167, 217, 130, 216, 181, 32, 217, 133, 216, 167, 217, 134, 216, 175, 46]"

definition fa_empty_answer :: string where
"fa_empty_answer = utf8 [217, 190, 216, 167, 216, 179, 216, 174, 32, 217, 133, 216, 175,
    217, 132, 32, 216, 174, 216, 167, 217, 132, 219, 140, 32, 216, 168, 217, 136, 216, 175,
    46]"

definition fa_not_json :: string where
"fa_not_json = utf8 [217, 190, 216, 167, 216, 179, 216, 174, 32, 217, 133, 216, 175, 217,
    132, 32, 217, 130, 216, 167, 216, 168, 217, 132, 32, 216, 170, 216, 172, 216, 178, 219,
    140, 217, 135, 32, 217, 134, 216, 168, 217, 136, 216, 175, 46]"

definition fa_not_object :: string where
"fa_not_object = utf8 [217, 190, 216, 167, 216, 179, 216, 174, 32, 217, 133, 216, 175, 217,
    132, 32, 219, 140, 218, 169, 32, 216, 180, 219, 140, 216, 161, 32, 74, 83, 79, 78, 32,
    217, 134, 216, 168, 217, 136, 216, 175, 32, 40]"

definition api_key :: "sdk \<Rightarrow> string option" where
  "api_key A = (if sdk_key A = Some [] then None else sdk_key A)"

definition is_available :: "sdk \<Rightarrow> bool" where
  "is_available A \<longleftrightarrow> api_key A \<noteq> None \<and> sdk_installed A"

definition type_name :: "json \<Rightarrow> string" where
  "type_name j = (case j of JNull \<Rightarrow> ''NoneType'' | JBool _ \<Rightarrow> ''bool'' | JInt _ \<Rightarrow> ''int'' | JFloat _ \<Rightarrow> ''float''
     | JStr _ \<Rightarrow> ''str'' | JList _ \<Rightarrow> ''list'' | JObj _ \<Rightarrow> ''dict'')"

definition parse :: "(string \<Rightarrow> json option) \<Rightarrow> response \<Rightarrow> string + dict" where
  "parse loads response =
     (if rs_stop_reason response = Some ''refusal'' then Inl fa_refusal
      else if rs_stop_reason response = Some ''max_tokens'' then Inl fa_max_tokens
      else
        (let text = (case first_where (\<lambda>b. fst b = ''text'') (rs_content response) of None \<Rightarrow> [] | Some b \<Rightarrow> snd b) in
         if strip text = [] then Inl fa_empty_answer
         else (case loads text of
                 None \<Rightarrow> Inl fa_not_json
               | Some (JObj d) \<Rightarrow> Inr d
               | Some j \<Rightarrow> Inl (fa_not_object @ type_name j @ '').''))))"

definition ask :: "sdk \<Rightarrow> string \<Rightarrow> string + dict" where
  "ask A prompt =
     (if api_key A = None then Inl fa_no_key
      else if \<not> sdk_installed A then Inl fa_no_package
      else bindE (sdk_send A prompt) (parse (sdk_loads A)))"

text \<open>What comes back is an object or a reason, never anything else; a reason always when there is no key.\<close>

lemma ask_answers: "ask A prompt = Inr d \<Longrightarrow> is_available A \<and> (\<exists>r. sdk_send A prompt = Inr r \<and>
   rs_stop_reason r \<notin> {Some ''refusal'', Some ''max_tokens''} \<and> (\<exists>text. sdk_loads A text = Some (JObj d)))"
  by (auto simp: ask_def is_available_def parse_def Let_def split: if_splits option.splits json.splits)

end
