(* ===== verification/Optimizer.thy ===== *)
theory Optimizer
  imports Competitor Link_Graph Llm Url
begin

text \<open>
  The optimizer service: what to change on a page (\<^verbatim>\<open>src/services/optimizer/analyze.py\<close>) and the copy a
  language model writes for it (\<^verbatim>\<open>rewrite.py\<close>). Texts whose length matters are lists of code points.
\<close>

subsection \<open>Pages\<close>

definition BRAND_SEPARATORS :: chars where
  "BRAND_SEPARATORS = [0x7C, 0x2D, 0x2013, 0x2014, 0xBB, 0xB7, 0x3A]"

record opt_page =
  op_url :: string
  op_title :: chars
  op_description :: chars
  op_h1 :: chars
  op_headings :: "chars list"
  op_words :: int
  op_indexable :: bool

text \<open>\<^verbatim>\<open>re.split(r"[/\-_.]+", path)\<close> without empty words and numbers.\<close>

definition slug_words :: "unicode \<Rightarrow> opt_page \<Rightarrow> chars list py" where
  "slug_words U p =
     bindE (urlsplit5 (op_url p)) (\<lambda>u.
       Inr (filter (\<lambda>w. \<not> list_all (digit_char U) w)
              (split_where (\<lambda>c. c \<in> {0x2F, 0x2D, 0x5F, 0x2E}) [] (code_points (unquote (su_path u))))))"

definition stripped_text :: "json \<Rightarrow> chars py" where
  "stripped_text j = (case py_or j (JStr []) of JStr s \<Rightarrow> Inr (strip_white (code_points s)) | _ \<Rightarrow> Inl AttributeError)"

definition heading_chars :: "runtime \<Rightarrow> dict \<Rightarrow> chars" where
  "heading_chars R h = strip_white (code_points (py_str R (py_or (dget h ''text'') (JStr []))))"

text \<open>\<^verbatim>\<open>h.get("level") == 1\<close>.\<close>

fun equals_one :: "json \<Rightarrow> bool" where
  "equals_one (JInt i) = (i = 1)"
| "equals_one (JFloat r) = (r = 1)"
| "equals_one (JBool b) = b"
| "equals_one _ = False"

definition opt_build_page :: "runtime \<Rightarrow> dict \<Rightarrow> opt_page py" where
  "opt_build_page R row =
     bindE (as_list (py_or (dget row ''headings'') (JList []))) (\<lambda>hs.
     bindE (stripped_text (dget row ''title'')) (\<lambda>title.
     bindE (stripped_text (dget row ''description'')) (\<lambda>description.
     bindE (py_int (py_or (dget row ''words'') (JInt 0))) (\<lambda>n.
       Inr \<lparr>op_url = py_str R (dget row ''url''), op_title = title, op_description = description,
            op_h1 = (case first_where (\<lambda>h. equals_one (dget h ''level'')) (heading_dicts hs) of
                       None \<Rightarrow> [] | Some h \<Rightarrow> heading_chars R h),
            op_headings = filter (\<lambda>h. h \<noteq> []) (map (heading_chars R) (heading_dicts hs)),
            op_words = n, op_indexable = truthy (dget row ''indexable'')\<rparr>))))"

definition opt_build_pages :: "runtime \<Rightarrow> dict \<Rightarrow> opt_page list py" where
  "opt_build_pages R rep =
     bindE (as_list (py_or (dget rep ''pages'') (JList []))) (\<lambda>rows.
     bindE (mapE (\<lambda>row. bindE (as_dict row) (\<lambda>d.
              if truthy (dget d ''url'') then bindE (opt_build_page R d) (\<lambda>p. Inr [p]) else Inr [])) rows) (\<lambda>out.
       Inr (concat out)))"

subsection \<open>Matching\<close>

definition keyword_score :: "unicode \<Rightarrow> chars list \<Rightarrow> keyword \<Rightarrow> rat \<times> nat \<times> int" where
  "keyword_score U present row =
     (let terms = words U (kw_keyword row)
      in (of_nat (length (filter (\<lambda>w. w \<in> set present) terms)) / of_nat (length terms), length terms, kw_demand row))"

text \<open>\<^verbatim>\<open>max(xs, key=...)\<close>: the first of the largest.\<close>

definition first_max :: "('a \<Rightarrow> 'k::linorder) \<Rightarrow> 'a list \<Rightarrow> 'a option" where
  "first_max key xs =
     (case xs of [] \<Rightarrow> None | x # rest \<Rightarrow> Some (foldl (\<lambda>best y. if key best < key y then y else best) x rest))"

definition keyword_for :: "unicode \<Rightarrow> opt_page \<Rightarrow> keyword list \<Rightarrow> keyword option" where
  "keyword_for U p keywords =
     (let present = words_of U (join_chars ([op_title p, op_h1 p, op_description p] @ op_headings p)) in
      if present = [] then None
      else first_max (keyword_score U present)
             (filter (\<lambda>row. words U (kw_keyword row) \<noteq> [] \<and> 1 / 2 \<le> fst (keyword_score U present row)) keywords))"

definition covers :: "unicode \<Rightarrow> chars \<Rightarrow> string \<Rightarrow> bool" where
  "covers U t keyword =
     (let terms = words U keyword; present = split_spaces [] (normalise U t)
      in terms \<noteq> [] \<and> 67 / 100 \<le> (of_nat (length (filter (\<lambda>w. w \<in> set present) terms)) / of_nat (length terms) :: rat))"

subsection \<open>Fixes\<close>


definition trimmed_end :: "chars \<Rightarrow> chars" where
  "trimmed_end t = rev (dropWhile (\<lambda>c. c \<in> {0x20, 0x60C, 0x2D, 0x7C, 0x2013, 0x2014, 0x3A}) (rev t))"

definition brand_head :: "chars \<Rightarrow> int \<Rightarrow> chars" where
  "brand_head title separator = strip_white (before_last [32, separator, 32] title)"

definition trim_title :: "chars \<Rightarrow> nat \<Rightarrow> chars" where
  "trim_title raw limit =
     (let title = join_chars (split_where is_white [] raw) in
      if length title \<le> limit then title
      else
        (case first_where (\<lambda>head. head \<noteq> [] \<and> head \<noteq> title \<and> length head \<le> limit) (map (brand_head title) BRAND_SEPARATORS) of
           Some head \<Rightarrow> head
         | None \<Rightarrow>
             (let cut = take limit title
              in trimmed_end (if 32 \<in> set cut then before_last [32] cut else cut))))"

record page_fix =
  fx_field :: string
  fx_problem :: string
  fx_current :: chars
  fx_candidate :: "chars option"
  fx_keyword :: "string option"
  fx_min_length :: "int option"
  fx_max_length :: "int option"
  fx_why :: string
  fx_written_by :: "string option"

definition fa_title_missing :: string where
"fa_title_missing = utf8 [216, 181, 217, 129, 216, 173, 217, 135, 32, 216, 167, 216, 181,
    217, 132, 216, 167, 217, 139, 32, 216, 185, 217, 134, 217, 136, 216, 167, 217, 134, 32,
    217, 134, 216, 175, 216, 167, 216, 177, 216, 175, 46]"

definition fa_title_too_long_a :: string where
"fa_title_too_long_a = utf8 [216, 185, 217, 134, 217, 136, 216, 167, 217, 134, 32]"

definition fa_title_too_long_b :: string where
"fa_title_too_long_b = utf8 [32, 218, 169, 216, 167, 216, 177, 216, 167, 218, 169, 216, 170,
    216, 177, 32, 216, 167, 216, 179, 216, 170, 32, 217, 136, 32, 216, 175, 216, 177, 32,
    217, 134, 216, 170, 216, 167, 219, 140, 216, 172, 32, 216, 168, 216, 177, 219, 140, 216,
    175, 217, 135, 32, 217, 133, 219, 140, 226, 128, 140, 216, 180, 217, 136, 216, 175, 46]"

definition fa_title_missing_keyword_a :: string where
"fa_title_missing_keyword_a = utf8 [216, 185, 216, 168, 216, 167, 216, 177, 216, 170, 32,
    217, 135, 216, 175, 217, 129, 32, 194, 171]"

definition fa_title_missing_keyword_b :: string where
"fa_title_missing_keyword_b = utf8 [194, 187, 32, 216, 175, 216, 177, 32, 216, 185, 217,
    134, 217, 136, 216, 167, 217, 134, 32, 217, 134, 219, 140, 216, 179, 216, 170, 46]"

definition fa_title_too_short_a :: string where
"fa_title_too_short_a = utf8 [216, 185, 217, 134, 217, 136, 216, 167, 217, 134, 32, 217,
    129, 217, 130, 216, 183, 32]"

definition fa_title_too_short_b :: string where
"fa_title_too_short_b = utf8 [32, 218, 169, 216, 167, 216, 177, 216, 167, 218, 169, 216,
    170, 216, 177, 32, 216, 167, 216, 179, 216, 170, 32, 217, 136, 32, 216, 172, 216, 167,
    219, 140, 32, 216, 167, 216, 179, 216, 170, 217, 129, 216, 167, 216, 175, 217, 135, 226,
    128, 140, 217, 134, 216, 180, 216, 175, 217, 135, 32, 216, 175, 216, 167, 216, 177, 216,
    175, 46]"

definition fa_description_missing :: string where
"fa_description_missing = utf8 [216, 170, 217, 136, 216, 182, 219, 140, 216, 173, 32, 217,
    133, 216, 170, 216, 167, 32, 217, 134, 216, 175, 216, 167, 216, 177, 216, 175, 216, 140,
    32, 217, 190, 216, 179, 32, 218, 175, 217, 136, 218, 175, 217, 132, 32, 216, 174, 217,
    136, 216, 175, 216, 180, 32, 217, 133, 216, 170, 217, 134, 219, 140, 32, 216, 167, 216,
    178, 32, 216, 181, 217, 129, 216, 173, 217, 135, 32, 216, 168, 216, 177, 217, 133, 219,
    140, 226, 128, 140, 216, 175, 216, 167, 216, 177, 216, 175, 46]"

definition fa_description_too_long_a :: string where
"fa_description_too_long_a = utf8 [216, 170, 217, 136, 216, 182, 219, 140, 216, 173, 32]"

definition fa_description_too_long_b :: string where
"fa_description_too_long_b = utf8 [32, 218, 169, 216, 167, 216, 177, 216, 167, 218, 169,
    216, 170, 216, 177, 32, 216, 167, 216, 179, 216, 170, 32, 217, 136, 32, 216, 168, 216,
    177, 219, 140, 216, 175, 217, 135, 32, 217, 133, 219, 140, 226, 128, 140, 216, 180, 217,
    136, 216, 175, 46]"

definition fa_description_too_short_a :: string where
"fa_description_too_short_a = utf8 [216, 170, 217, 136, 216, 182, 219, 140, 216, 173, 32,
    217, 129, 217, 130, 216, 183, 32]"

definition fa_description_too_short_b :: string where
"fa_description_too_short_b = utf8 [32, 218, 169, 216, 167, 216, 177, 216, 167, 218, 169,
    216, 170, 216, 177, 32, 216, 167, 216, 179, 216, 170, 46]"

definition fa_description_missing_keyword_a :: string where
"fa_description_missing_keyword_a = utf8 [216, 185, 216, 168, 216, 167, 216, 177, 216, 170,
    32, 217, 135, 216, 175, 217, 129, 32, 194, 171]"

definition fa_description_missing_keyword_b :: string where
"fa_description_missing_keyword_b = utf8 [194, 187, 32, 216, 175, 216, 177, 32, 216, 170,
    217, 136, 216, 182, 219, 140, 216, 173, 32, 217, 134, 219, 140, 216, 179, 216, 170, 46]"

definition fa_h1_missing :: string where
"fa_h1_missing = utf8 [216, 181, 217, 129, 216, 173, 217, 135, 32, 216, 170, 219, 140, 216,
    170, 216, 177, 32, 72, 49, 32, 217, 134, 216, 175, 216, 167, 216, 177, 216, 175, 46]"

definition fa_h1_missing_keyword_a :: string where
"fa_h1_missing_keyword_a = utf8 [216, 185, 216, 168, 216, 167, 216, 177, 216, 170, 32, 217,
    135, 216, 175, 217, 129, 32, 194, 171]"

definition fa_h1_missing_keyword_b :: string where
"fa_h1_missing_keyword_b = utf8 [194, 187, 32, 216, 175, 216, 177, 32, 72, 49, 32, 217, 134,
    219, 140, 216, 179, 216, 170, 46]"

definition limits_of :: "string \<Rightarrow> int option \<times> int option" where
  "limits_of name =
     (if name = ''title'' then (Some TITLE_MIN, Some TITLE_MAX)
      else if name = ''description'' then (Some DESC_MIN, Some DESC_MAX) else (None, None))"

definition mk_fix :: "string \<Rightarrow> string \<Rightarrow> chars \<Rightarrow> chars option \<Rightarrow> string option \<Rightarrow> string \<Rightarrow> page_fix" where
  "mk_fix name problem current candidate keyword why =
     \<lparr>fx_field = name, fx_problem = problem, fx_current = current, fx_candidate = candidate, fx_keyword = keyword,
      fx_min_length = fst (limits_of name), fx_max_length = snd (limits_of name), fx_why = why, fx_written_by = None\<rparr>"

definition chars_or_none :: "chars \<Rightarrow> chars option" where
  "chars_or_none t = (if t = [] then None else Some t)"

definition wants :: "string option \<Rightarrow> string option" where
  "wants keyword = (if keyword = Some [] then None else keyword)"

definition lacks :: "unicode \<Rightarrow> chars \<Rightarrow> string option \<Rightarrow> bool" where
  "lacks U t keyword \<longleftrightarrow> (case wants keyword of None \<Rightarrow> False | Some k \<Rightarrow> \<not> covers U t k)"

definition last_three :: "'a list \<Rightarrow> 'a list" where
  "last_three xs = drop (length xs - 3) xs"

definition title_fix :: "unicode \<Rightarrow> opt_page \<Rightarrow> string option \<Rightarrow> page_fix option py" where
  "title_fix U p keyword =
     (let title = op_title p; n = int (length title); k = (case keyword of None \<Rightarrow> [] | Some w \<Rightarrow> w) in
      if title = [] then
        bindE (if op_h1 p \<noteq> [] then Inr (op_h1 p) else bindE (slug_words U p) (\<lambda>ws. Inr (join_chars (last_three ws)))) (\<lambda>candidate.
          Inr (Some (mk_fix ''title'' ''missing'' title (chars_or_none (trim_title candidate (nat TITLE_MAX))) keyword fa_title_missing)))
      else if TITLE_MAX < n then
        Inr (Some (mk_fix ''title'' ''too_long'' title (Some (trim_title title (nat TITLE_MAX))) keyword
               (fa_title_too_long_a @ show_int n @ fa_title_too_long_b)))
      else if lacks U title keyword then
        Inr (Some (mk_fix ''title'' ''missing_keyword'' title None keyword
               (fa_title_missing_keyword_a @ k @ fa_title_missing_keyword_b)))
      else if n < TITLE_MIN then
        Inr (Some (mk_fix ''title'' ''too_short'' title None keyword
               (fa_title_too_short_a @ show_int n @ fa_title_too_short_b)))
      else Inr None)"

definition description_fix :: "unicode \<Rightarrow> opt_page \<Rightarrow> string option \<Rightarrow> page_fix option" where
  "description_fix U p keyword =
     (let t = op_description p; n = int (length t); k = (case keyword of None \<Rightarrow> [] | Some w \<Rightarrow> w) in
      if t = [] then Some (mk_fix ''description'' ''missing'' t None keyword fa_description_missing)
      else if DESC_MAX < n then
        Some (mk_fix ''description'' ''too_long'' t None keyword (fa_description_too_long_a @ show_int n @ fa_description_too_long_b))
      else if n < DESC_MIN then
        Some (mk_fix ''description'' ''too_short'' t None keyword (fa_description_too_short_a @ show_int n @ fa_description_too_short_b))
      else if lacks U t keyword then
        Some (mk_fix ''description'' ''missing_keyword'' t None keyword
                (fa_description_missing_keyword_a @ k @ fa_description_missing_keyword_b))
      else None)"

definition h1_fix :: "unicode \<Rightarrow> opt_page \<Rightarrow> string option \<Rightarrow> page_fix option" where
  "h1_fix U p keyword =
     (let k = (case keyword of None \<Rightarrow> [] | Some w \<Rightarrow> w) in
      if op_h1 p = [] then Some (mk_fix ''h1'' ''missing'' [] (chars_or_none (op_title p)) keyword fa_h1_missing)
      else if lacks U (op_h1 p) keyword then
        Some (mk_fix ''h1'' ''missing_keyword'' (op_h1 p) None keyword (fa_h1_missing_keyword_a @ k @ fa_h1_missing_keyword_b))
      else None)"

subsection \<open>Plans\<close>

record rewrite_plan =
  pl_url :: string
  pl_keyword :: "string option"
  pl_demand :: int
  pl_words :: int
  pl_fixes :: "page_fix list"
  pl_source :: string
  pl_note :: "string option"

fun the_fixes :: "page_fix option list \<Rightarrow> page_fix list" where
  "the_fixes [] = []"
| "the_fixes (None # fs) = the_fixes fs"
| "the_fixes (Some f # fs) = f # the_fixes fs"

definition page_plan :: "unicode \<Rightarrow> keyword list \<Rightarrow> opt_page \<Rightarrow> rewrite_plan option py" where
  "page_plan U keywords p =
     (let row = keyword_for U p keywords; keyword = map_option kw_keyword row in
      bindE (title_fix U p keyword) (\<lambda>t.
        let fixes = the_fixes [t, description_fix U p keyword, h1_fix U p keyword] in
        Inr (if fixes = [] then None
             else Some \<lparr>pl_url = op_url p, pl_keyword = keyword,
                        pl_demand = (case row of None \<Rightarrow> 0 | Some r \<Rightarrow> kw_demand r), pl_words = op_words p,
                        pl_fixes = fixes, pl_source = ''rules'', pl_note = None\<rparr>)))"

definition rank_plans :: "rewrite_plan list \<Rightarrow> rewrite_plan list" where
  "rank_plans plans = sort_key (\<lambda>p. (- pl_demand p, - int (length (pl_fixes p)), pl_url p)) plans"

record opt_report =
  or_pages :: nat
  or_plans :: "rewrite_plan list"
  or_problems :: "(string \<times> nat) list"
  or_limit :: int

definition propose :: "runtime \<Rightarrow> unicode \<Rightarrow> dict \<Rightarrow> dict \<Rightarrow> int \<Rightarrow> opt_report py" where
  "propose R U rep research limit =
     bindE (opt_build_pages R rep) (\<lambda>all.
     bindE (build_keywords R research) (\<lambda>keywords.
       let ps = filter op_indexable all in
       bindE (mapE (page_plan U keywords) ps) (\<lambda>made.
         let plans = rank_plans (List.map_filter id made)
         in Inr \<lparr>or_pages = length ps, or_plans = plans,
                 or_problems = sort_key fst (counter (map fx_problem (concat (map pl_fixes plans)))),
                 or_limit = limit\<rparr>)))"

subsection \<open>Rewriting\<close>

definition fa_rewrite_no_key :: string where
"fa_rewrite_no_key = utf8 [65, 78, 84, 72, 82, 79, 80, 73, 67, 95, 65, 80, 73, 95, 75, 69,
    89, 32, 216, 170, 217, 134, 216, 184, 219, 140, 217, 133, 32, 217, 134, 216, 180, 216,
    175, 217, 135, 216, 155, 32, 217, 129, 217, 130, 216, 183, 32, 216, 175, 216, 179, 216,
    170, 217, 136, 216, 177, 216, 167, 217, 132, 216, 185, 217, 133, 217, 132, 32, 217, 134,
    217, 136, 216, 180, 216, 170, 217, 135, 32, 216, 180, 216, 175, 46]"

definition fa_rewrite_failed :: string where
"fa_rewrite_failed = utf8 [216, 168, 216, 167, 216, 178, 217, 134, 217, 136, 219, 140, 216,
    179, 219, 140, 32, 216, 168, 216, 167, 32, 217, 133, 216, 175, 217, 132, 32, 216, 167,
    217, 134, 216, 172, 216, 167, 217, 133, 32, 217, 134, 216, 180, 216, 175, 58, 32]"

definition fa_prompt_before :: string where
"fa_prompt_before = utf8 [216, 168, 216, 177, 216, 167, 219, 140, 32, 217, 135, 216, 177,
    32, 217, 133, 217, 136, 216, 177, 216, 175, 32, 216, 178, 219, 140, 216, 177, 32, 219,
    140, 218, 169, 32, 217, 133, 216, 170, 217, 134, 32, 216, 172, 216, 167, 219, 140, 218,
    175, 216, 178, 219, 140, 217, 134, 32, 216, 168, 217, 134, 217, 136, 219, 140, 216, 179,
    46, 10, 10]"

definition fa_prompt_after :: string where
"fa_prompt_after = utf8 [10, 10, 217, 130, 217, 136, 216, 167, 216, 185, 216, 175, 219, 140,
    32, 218, 169, 217, 135, 32, 217, 190, 216, 167, 216, 179, 216, 174, 32, 216, 168, 216,
    167, 32, 216, 162, 217, 134, 226, 128, 140, 217, 135, 216, 167, 32, 216, 179, 217, 134,
    216, 172, 219, 140, 216, 175, 217, 135, 32, 217, 133, 219, 140, 226, 128, 140, 216, 180,
    217, 136, 216, 175, 58, 10, 45, 32, 216, 183, 217, 136, 217, 132, 32, 217, 133, 216,
    170, 217, 134, 32, 216, 168, 216, 167, 219, 140, 216, 175, 32, 216, 175, 216, 167, 216,
    174, 217, 132, 32, 216, 168, 216, 167, 216, 178, 217, 135, 226, 128, 140, 219, 140, 32,
    109, 105, 110, 95, 108, 101, 110, 103, 116, 104, 32, 217, 136, 32, 109, 97, 120, 95,
    108, 101, 110, 103, 116, 104, 32, 216, 168, 216, 167, 216, 180, 216, 175, 46, 10, 45,
    32, 216, 167, 218, 175, 216, 177, 32, 116, 97, 114, 103, 101, 116, 95, 107, 101, 121,
    119, 111, 114, 100, 32, 216, 175, 216, 167, 216, 175, 217, 135, 32, 216, 180, 216, 175,
    217, 135, 216, 140, 32, 216, 168, 216, 167, 219, 140, 216, 175, 32, 216, 175, 216, 177,
    32, 217, 133, 216, 170, 217, 134, 32, 216, 168, 219, 140, 216, 167, 219, 140, 216, 175,
    32, 226, 128, 148, 32, 216, 168, 217, 135, 226, 128, 140, 216, 181, 217, 136, 216, 177,
    216, 170, 32, 216, 183, 216, 168, 219, 140, 216, 185, 219, 140, 216, 140, 32, 217, 134,
    217, 135, 32, 218, 134, 216, 179, 216, 168, 216, 167, 217, 134, 216, 175, 217, 135, 46,
    10, 45, 32, 217, 133, 216, 170, 217, 134, 32, 216, 168, 216, 167, 219, 140, 216, 175,
    32, 216, 175, 216, 177, 216, 168, 216, 167, 216, 177, 217, 135, 226, 128, 140, 219, 140,
    32, 217, 135, 217, 133, 216, 167, 217, 134, 32, 216, 181, 217, 129, 216, 173, 217, 135,
    32, 216, 168, 216, 167, 216, 180, 216, 175, 216, 155, 32, 218, 134, 219, 140, 216, 178,
    219, 140, 32, 218, 169, 217, 135, 32, 216, 175, 216, 177, 32, 216, 175, 216, 167, 216,
    175, 217, 135, 226, 128, 140, 217, 135, 216, 167, 32, 217, 134, 219, 140, 216, 179, 216,
    170, 32, 216, 167, 216, 178, 32, 216, 174, 217, 136, 216, 175, 216, 170, 32, 217, 134,
    216, 179, 216, 167, 216, 178, 46, 10, 45, 32, 216, 168, 216, 177, 216, 167, 219, 140,
    32, 217, 135, 216, 177, 32, 217, 133, 217, 136, 216, 177, 216, 175, 32, 219, 140, 218,
    169, 32, 216, 172, 217, 133, 217, 132, 217, 135, 32, 216, 168, 217, 134, 217, 136, 219,
    140, 216, 179, 32, 218, 169, 217, 135, 32, 218, 134, 216, 177, 216, 167, 32, 216, 167,
    219, 140, 217, 134, 32, 216, 168, 217, 135, 216, 170, 216, 177, 32, 216, 167, 216, 178,
    32, 217, 129, 216, 185, 217, 132, 219, 140, 32, 216, 167, 216, 179, 216, 170, 46, 10,
    45, 32, 217, 135, 216, 177, 32, 217, 133, 217, 136, 216, 177, 216, 175, 219, 140, 32,
    218, 169, 217, 135, 32, 217, 134, 217, 133, 219, 140, 226, 128, 140, 216, 170, 217, 136,
    216, 167, 217, 134, 219, 140, 32, 216, 168, 216, 167, 32, 216, 167, 219, 140, 217, 134,
    32, 217, 130, 217, 136, 216, 167, 216, 185, 216, 175, 32, 216, 168, 217, 134, 217, 136,
    219, 140, 216, 179, 219, 140, 32, 216, 177, 216, 167, 32, 216, 167, 216, 181, 217, 132,
    216, 167, 217, 139, 32, 216, 168, 216, 177, 217, 134, 218, 175, 216, 177, 216, 175, 216,
    167, 217, 134, 46]"

definition accepts :: "unicode \<Rightarrow> page_fix \<Rightarrow> chars \<Rightarrow> bool" where
  "accepts U f t \<longleftrightarrow>
     t \<noteq> [] \<and>
     (case fx_max_length f of None \<Rightarrow> True | Some n \<Rightarrow> n = 0 \<or> int (length t) \<le> n) \<and>
     (case fx_min_length f of None \<Rightarrow> True | Some n \<Rightarrow> n = 0 \<or> n \<le> int (length t)) \<and>
     (case wants (fx_keyword f) of None \<Rightarrow> True | Some k \<Rightarrow> covers U t k)"

text \<open>The answers by page and field; the last one for a pair counts.\<close>

definition answers_by_key :: "runtime \<Rightarrow> json list \<Rightarrow> (string \<times> string) \<Rightarrow> dict option" where
  "answers_by_key R rows =
     map_of (rev (map (\<lambda>d. ((py_str R (dget d ''url''), py_str R (dget d ''field'')), d)) (heading_dicts rows)))"

definition apply_fix :: "runtime \<Rightarrow> unicode \<Rightarrow> (string \<times> string \<Rightarrow> dict option) \<Rightarrow> string \<Rightarrow> page_fix \<Rightarrow> page_fix" where
  "apply_fix R U answers url f =
     (case answers (url, fx_field f) of
        None \<Rightarrow> f
      | Some d \<Rightarrow>
          (let t = strip_white (code_points (py_str R (py_or (dget d ''text'') (JStr [])))) in
           if accepts U f t
           then f\<lparr>fx_candidate := Some t, fx_written_by := Some ''ai'',
                  fx_why := encode (strip_white (code_points (fx_why f @ '' '' @ py_str R (dget_default d ''why_fa'' (JStr [])))))\<rparr>
           else f))"

definition apply_rewrites :: "runtime \<Rightarrow> unicode \<Rightarrow> json list \<Rightarrow> rewrite_plan \<Rightarrow> rewrite_plan" where
  "apply_rewrites R U rows p =
     (let fixes = map (apply_fix R U (answers_by_key R rows) (pl_url p)) (pl_fixes p)
      in p\<lparr>pl_fixes := fixes, pl_source := (if list_ex (\<lambda>f. fx_written_by f = Some ''ai'') fixes then ''ai'' else ''rules'')\<rparr>)"

definition noted :: "string \<Rightarrow> rewrite_plan list \<Rightarrow> rewrite_plan list" where
  "noted note plans = map (\<lambda>p. p\<lparr>pl_note := Some note\<rparr>) plans"

text \<open>\<^verbatim>\<open>json.dumps(..., ensure_ascii=False, indent=2)\<close> for a list of flat objects of texts, numbers and nulls.\<close>

definition hex_digit :: "nat \<Rightarrow> char" where
  "hex_digit n = (if n < 10 then char_of (n + 48) else char_of (n + 87))"

definition escape_char :: "char \<Rightarrow> string" where
  "escape_char c = (let n = (of_char c :: nat) in
     if n = 34 then [CHR 0x5C, c] else if n = 92 then [c, c]
     else if n = 10 then [CHR 0x5C, CHR ''n''] else if n = 13 then [CHR 0x5C, CHR ''r'']
     else if n = 9 then [CHR 0x5C, CHR ''t''] else if n = 8 then [CHR 0x5C, CHR ''b'']
     else if n = 12 then [CHR 0x5C, CHR ''f'']
     else if n < 32 then CHR 0x5C # ''u00'' @ [hex_digit (n div 16), hex_digit (n mod 16)] else [c])"

fun dumps_scalar :: "json \<Rightarrow> string" where
  "dumps_scalar (JStr s) = CHR 0x22 # concat (map escape_char s) @ [CHR 0x22]"
| "dumps_scalar (JInt i) = show_int i"
| "dumps_scalar _ = ''null''"

fun join_with :: "string \<Rightarrow> string list \<Rightarrow> string" where
  "join_with sep [] = []"
| "join_with sep [s] = s"
| "join_with sep (s # t # ss) = s @ sep @ join_with sep (t # ss)"

definition newline :: "nat \<Rightarrow> string" where
  "newline n = CHR 0x0A # replicate n (CHR '' '')"

definition dumps_object :: "dict \<Rightarrow> string" where
  "dumps_object d = ''{'' @ newline 4 @
     join_with ('','' @ newline 4) (map (\<lambda>(k, v). dumps_scalar (JStr k) @ '': '' @ dumps_scalar v) d) @ newline 2 @ ''}''"

definition dumps_list :: "dict list \<Rightarrow> string" where
  "dumps_list ds =
     (if ds = [] then ''[]'' else ''['' @ newline 2 @ join_with ('','' @ newline 2) (map dumps_object ds) @ newline 0 @ '']'')"

definition opt_number :: "int option \<Rightarrow> json" where
  "opt_number n = (case n of None \<Rightarrow> JNull | Some i \<Rightarrow> JInt i)"

definition brief_of :: "string \<Rightarrow> page_fix \<Rightarrow> dict" where
  "brief_of url f = [(''url'', JStr url), (''field'', JStr (fx_field f)), (''problem'', JStr (fx_problem f)),
     (''current'', JStr (encode (fx_current f))), (''target_keyword'', opt_json (fx_keyword f)),
     (''min_length'', opt_number (fx_min_length f)), (''max_length'', opt_number (fx_max_length f))]"

definition rewrite_prompt :: "rewrite_plan list \<Rightarrow> string" where
  "rewrite_prompt plans =
     fa_prompt_before @ dumps_list (concat (map (\<lambda>p. map (brief_of (pl_url p)) (pl_fixes p)) plans)) @ fa_prompt_after"

definition rewrite :: "runtime \<Rightarrow> unicode \<Rightarrow> sdk \<Rightarrow> rewrite_plan list \<Rightarrow> rewrite_plan list py" where
  "rewrite R U A plans =
     (if plans = [] then Inr plans
      else if \<not> is_available A then Inr (noted fa_rewrite_no_key plans)
      else (case ask A (rewrite_prompt plans) of
              Inl reason \<Rightarrow> Inr (noted (fa_rewrite_failed @ reason) plans)
            | Inr answer \<Rightarrow>
                bindE (as_list (py_or (dget answer ''rewrites'') (JList []))) (\<lambda>rows.
                  Inr (map (apply_rewrites R U rows) plans))))"

subsection \<open>The report\<close>

definition fix_dict :: "page_fix \<Rightarrow> json" where
  "fix_dict f = JObj ([(''field'', JStr (fx_field f)), (''problem'', JStr (fx_problem f)), (''current'', JStr (encode (fx_current f))),
     (''candidate'', case fx_candidate f of None \<Rightarrow> JNull | Some t \<Rightarrow> JStr (encode t)), (''keyword'', opt_json (fx_keyword f)),
     (''min_length'', opt_number (fx_min_length f)), (''max_length'', opt_number (fx_max_length f)), (''why_fa'', JStr (fx_why f))]
     @ (case fx_written_by f of None \<Rightarrow> [] | Some w \<Rightarrow> [(''written_by'', JStr w)]))"

definition plan_dict :: "rewrite_plan \<Rightarrow> json" where
  "plan_dict p = JObj ([(''url'', JStr (pl_url p)), (''keyword'', opt_json (pl_keyword p)), (''demand'', JInt (pl_demand p)),
     (''words'', JInt (pl_words p)), (''fixes'', JList (map fix_dict (pl_fixes p))), (''source'', JStr (pl_source p))]
     @ (case pl_note p of None \<Rightarrow> [] | Some n \<Rightarrow> [(''note'', JStr n)]))"

definition optimizer_report :: "opt_report \<Rightarrow> rewrite_plan list \<Rightarrow> dict" where
  "optimizer_report r plans =
     [(''pages_examined'', JInt (int (or_pages r))), (''pages_with_fixes'', JInt (int (length (or_plans r)))),
      (''fixes'', JInt (int (sum_list (map (length \<circ> pl_fixes) (or_plans r))))),
      (''by_problem'', JObj (map (\<lambda>(k, n). (k, JInt (int n))) (or_problems r))),
      (''plans'', JList (map plan_dict plans)), (''limit'', JInt (or_limit r)),
      (''written_by'', JStr (if list_ex (\<lambda>p. pl_source p = ''ai'') plans then ''ai'' else ''rules''))]"

end
