(* ===== verification/Optimizer_Properties.thy ===== *)
theory Optimizer_Properties
  imports Optimizer
begin

text \<open>
  What the optimizer promises: a plan is made exactly for the pages that break a rule, a trimmed title is a
  beginning of the title that fits, and what the language model writes is used only where it meets the
  brief.
\<close>

subsection \<open>Trimming\<close>

definition begins :: "chars \<Rightarrow> chars \<Rightarrow> bool" where
  "begins p t \<longleftrightarrow> (\<exists>rest. t = p @ rest)"

lemma begins_refl [simp]: "begins t t" by (simp add: begins_def)

lemma begins_trans: "begins a b \<Longrightarrow> begins b c \<Longrightarrow> begins a c"
  by (auto simp: begins_def)

lemma begins_take [simp]: "begins (take n t) t"
  unfolding begins_def by (metis append_take_drop_id)

lemma begins_length: "begins a b \<Longrightarrow> length a \<le> length b"
  by (auto simp: begins_def)

lemma begins_drop_end: "begins (rev (dropWhile p (rev t))) t"
proof -
  have "t = rev (dropWhile p (rev t)) @ rev (takeWhile p (rev t))"
    by (metis rev_append rev_rev_ident takeWhile_dropWhile_id)
  then show ?thesis unfolding begins_def by blast
qed

lemma begins_before_last: "begins (before_last pattern t) t"
  by (simp add: before_last_def split: list.splits)

lemma begins_strip_white:
  assumes "t = [] \<or> \<not> is_white (hd t)"
  shows "begins (strip_white t) t"
proof -
  have "dropWhile is_white t = t" using assms by (cases t) auto
  then show ?thesis by (simp add: strip_white_def strip_where_def begins_drop_end)
qed

text \<open>The words of a split text are not blank, so the joined text does not begin with a space.\<close>

lemma split_where_words:
  assumes "\<forall>c\<in>set cur. \<not> p c"
  shows "\<forall>w\<in>set (split_where p cur t). w \<noteq> [] \<and> (\<forall>c\<in>set w. \<not> p c)"
  using assms
proof (induction t arbitrary: cur)
  case (Cons c t)
  show ?case
  proof (cases "p c")
    case True
    with Cons.IH [of "[]"] Cons.prems show ?thesis by simp
  next
    case False
    with Cons.IH [of "c # cur"] Cons.prems show ?thesis by simp
  qed
qed simp

lemma join_chars_head: "ws \<noteq> [] \<Longrightarrow> hd ws \<noteq> [] \<Longrightarrow> join_chars ws \<noteq> [] \<and> hd (join_chars ws) = hd (hd ws)"
  by (cases ws rule: join_chars.cases) auto

lemma joined_head: "t = join_chars (split_where is_white [] raw) \<Longrightarrow> t = [] \<or> \<not> is_white (hd t)"
proof (cases "split_where is_white [] raw = []")
  case False
  assume t: "t = join_chars (split_where is_white [] raw)"
  have "hd (split_where is_white [] raw) \<in> set (split_where is_white [] raw)" using False by simp
  with split_where_words [of "[]" is_white raw] have "hd (split_where is_white [] raw) \<noteq> []"
    "\<forall>c\<in>set (hd (split_where is_white [] raw)). \<not> is_white c" by auto
  with join_chars_head [OF False] t show ?thesis by (metis hd_in_set)
qed simp

lemma begins_head: "begins p t \<Longrightarrow> t = [] \<or> \<not> is_white (hd t) \<Longrightarrow> p = [] \<or> \<not> is_white (hd p)"
  by (auto simp: begins_def)

text \<open>A title is only ever shortened from its end. Whatever the title, the trimmed one is no longer than
  the limit, it is the beginning of the title with its white space tidied, and a title that already fits
  is left as it is.\<close>

lemma trimmed_title_fits:
  "length (trim_title raw limit) \<le> limit \<and>
   begins (trim_title raw limit) (join_chars (split_where is_white [] raw)) \<and>
   (length (join_chars (split_where is_white [] raw)) \<le> limit \<longrightarrow>
      trim_title raw limit = join_chars (split_where is_white [] raw))"
proof -
  define title where "title = join_chars (split_where is_white [] raw)"
  note head = joined_head [OF title_def]
  have brand: "begins (brand_head title s) title" for s
    unfolding brand_head_def
    by (rule begins_trans [OF begins_strip_white begins_before_last])
      (rule begins_head [OF begins_before_last head])
  let ?fits = "\<lambda>head. head \<noteq> [] \<and> head \<noteq> title \<and> length head \<le> limit"
  let ?heads = "map (brand_head title) BRAND_SEPARATORS"
  show ?thesis
  proof (cases "length title \<le> limit")
    case True
    then show ?thesis by (simp add: trim_title_def title_def [symmetric] Let_def)
  next
    case False
    show ?thesis
    proof (cases "first_where ?fits ?heads")
      case (Some h)
      from find_SomeD [OF Some] brand have "begins h title" "length h \<le> limit" by auto
      with False Some show ?thesis by (simp add: trim_title_def title_def [symmetric] Let_def)
    next
      case None
      let ?cut = "take limit title"
      let ?r = "trimmed_end (if 32 \<in> set ?cut then before_last [32] ?cut else ?cut)"
      have "begins ?r ?cut"
        unfolding trimmed_end_def by (rule begins_trans [OF begins_drop_end]) (simp add: begins_before_last)
      then have "begins ?r title" by (rule begins_trans) simp
      moreover have "length ?r \<le> limit" using begins_length [OF \<open>begins ?r ?cut\<close>] by simp
      moreover have "trim_title raw limit = ?r"
        using False None by (simp add: trim_title_def title_def [symmetric] Let_def)
      ultimately show ?thesis using False by (simp add: title_def [symmetric])
    qed
  qed
qed

subsection \<open>Plans\<close>

lemma the_fixes_Nil: "the_fixes fs = [] \<longleftrightarrow> (\<forall>f\<in>set fs. f = None)"
  by (induction fs rule: the_fixes.induct) auto

definition in_order :: "unicode \<Rightarrow> opt_page \<Rightarrow> string option \<Rightarrow> bool" where
  "in_order U p keyword \<longleftrightarrow>
     25 \<le> length (op_title p) \<and> length (op_title p) \<le> 60 \<and>
     70 \<le> length (op_description p) \<and> length (op_description p) \<le> 160 \<and> op_h1 p \<noteq> [] \<and>
     (\<forall>k. keyword = Some k \<and> k \<noteq> [] \<longrightarrow>
        covers U (op_title p) k \<and> covers U (op_description p) k \<and> covers U (op_h1 p) k)"

lemma lacks_iff: "lacks U t keyword \<longleftrightarrow> (\<exists>k. keyword = Some k \<and> k \<noteq> [] \<and> \<not> covers U t k)"
  by (cases keyword) (auto simp: lacks_def wants_def)

text \<open>A page gets a plan exactly when something about it is wrong: no plan is made for a page if and only
  if its title has 25 to 60 characters, its description 70 to 160, it has a first heading, and all three
  carry the keyword the page is closest to, when there is one.\<close>

lemma plan_exactly_when_needed:
  assumes "page_plan U keywords p = Inr made"
  shows "made = None \<longleftrightarrow> in_order U p (map_option kw_keyword (keyword_for U p keywords))"
proof -
  define k where "k = map_option kw_keyword (keyword_for U p keywords)"
  from assms obtain t where t: "title_fix U p k = Inr t"
    and plan: "made = None \<longleftrightarrow> the_fixes [t, description_fix U p k, h1_fix U p k] = []"
    by (auto simp: page_plan_def Let_def k_def split: if_splits)
  have title: "t = None \<longleftrightarrow> 25 \<le> length (op_title p) \<and> length (op_title p) \<le> 60 \<and> \<not> lacks U (op_title p) k"
    using t by (auto simp: title_fix_def Let_def TITLE_MIN_def TITLE_MAX_def split: if_splits)
  have description: "description_fix U p k = None \<longleftrightarrow>
      70 \<le> length (op_description p) \<and> length (op_description p) \<le> 160 \<and> \<not> lacks U (op_description p) k"
    by (auto simp: description_fix_def Let_def DESC_MIN_def DESC_MAX_def)
  have h1: "h1_fix U p k = None \<longleftrightarrow> op_h1 p \<noteq> [] \<and> \<not> lacks U (op_h1 p) k"
    by (auto simp: h1_fix_def Let_def)
  show ?thesis
    unfolding plan the_fixes_Nil k_def [symmetric] in_order_def
    using title description h1 by (auto simp: lacks_iff)
qed

definition demo_opt_page :: opt_page where
  "demo_opt_page = \<lparr>op_url = ''u'', op_title = replicate 30 97, op_description = replicate 80 97, op_h1 = [97], op_headings = [],
     op_words = 100, op_indexable = True\<rparr>"

subsection \<open>Rewriting\<close>

text \<open>What a rewrite may do to a fix: nothing, or put in a text that meets its brief.\<close>

definition rewritten :: "unicode \<Rightarrow> page_fix \<Rightarrow> page_fix \<Rightarrow> bool" where
  "rewritten U f f' \<longleftrightarrow>
     f' = f \<or>
     (\<exists>t why. f' = f\<lparr>fx_candidate := Some t, fx_written_by := Some ''ai'', fx_why := why\<rparr> \<and> t \<noteq> [] \<and>
        (\<forall>n. fx_max_length f = Some n \<and> n \<noteq> 0 \<longrightarrow> int (length t) \<le> n) \<and>
        (\<forall>n. fx_min_length f = Some n \<longrightarrow> n \<le> int (length t)) \<and>
        (\<forall>k. fx_keyword f = Some k \<and> k \<noteq> [] \<longrightarrow> covers U t k))"

lemma apply_fix_rewritten: "rewritten U f (apply_fix R U answers url f)"
proof (cases "answers (url, fx_field f)")
  case (Some d)
  let ?t = "strip_white (code_points (py_str R (py_or (dget d ''text'') (JStr []))))"
  show ?thesis
  proof (cases "accepts U f ?t")
    case True
    then have "?t \<noteq> []" "\<forall>n. fx_max_length f = Some n \<and> n \<noteq> 0 \<longrightarrow> int (length ?t) \<le> n"
      "\<forall>n. fx_min_length f = Some n \<longrightarrow> n \<le> int (length ?t)" "\<forall>k. fx_keyword f = Some k \<and> k \<noteq> [] \<longrightarrow> covers U ?t k"
      by (auto simp: accepts_def wants_def split: option.splits if_splits)
    then show ?thesis unfolding rewritten_def apply_fix_def Let_def Some option.case if_P [OF True] by blast
  qed (simp add: rewritten_def apply_fix_def Some Let_def)
qed (simp add: rewritten_def apply_fix_def)

text \<open>C23: nothing the language model writes is taken on trust. Whatever it answers, the plans are the same
  plans for the same pages, and a fix is either untouched or carries a text that is not empty, keeps the
  length window of its brief and covers its keyword; without a model nothing but a note is added.\<close>

theorem ai_copy_meets_brief:
  assumes "rewrite R U A plans = Inr plans'"
  shows "list_all2 (\<lambda>p p'. pl_url p' = pl_url p \<and> pl_keyword p' = pl_keyword p \<and> pl_demand p' = pl_demand p \<and>
             list_all2 (rewritten U) (pl_fixes p) (pl_fixes p')) plans plans' \<and>
         (\<not> is_available A \<longrightarrow> map pl_fixes plans' = map pl_fixes plans)"
proof -
  have keep: "rewritten U f f" for f by (simp add: rewritten_def)
  have noted: "list_all2 (\<lambda>p p'. pl_url p' = pl_url p \<and> pl_keyword p' = pl_keyword p \<and> pl_demand p' = pl_demand p \<and>
             list_all2 (rewritten U) (pl_fixes p) (pl_fixes p')) ps (noted msg ps)" for msg ps
    by (simp add: noted_def list_all2_map2 list_all2_same keep)
  from assms consider "plans' = plans" | msg where "plans' = noted msg plans"
    | rows where "plans' = map (apply_rewrites R U rows) plans" "is_available A"
    by (auto simp: rewrite_def split: if_splits sum.splits)
  then show ?thesis
  proof cases
    case 1
    then show ?thesis by (simp add: list_all2_same keep)
  next
    case 2
    with noted show ?thesis by (simp add: noted_def comp_def)
  next
    case 3
    then show ?thesis by (simp add: list_all2_map2 list_all2_same apply_rewrites_def Let_def apply_fix_rewritten)
  qed
qed

definition demo_sdk :: sdk where
  "demo_sdk = \<lparr>sdk_key = Some ''k'', sdk_installed = True,
     sdk_send = (\<lambda>_. Inr \<lparr>rs_stop_reason = None, rs_content = [(''text'', ''x'')]\<rparr>),
     sdk_loads = (\<lambda>_. Some (JObj [(''rewrites'', JList [JObj [(''url'', JStr ''u''), (''field'', JStr ''h1''), (''text'', JStr ''Shoes'')]])]))\<rparr>"

definition demo_plan :: rewrite_plan where
  "demo_plan = \<lparr>pl_url = ''u'', pl_keyword = None, pl_demand = 0, pl_words = 0,
     pl_fixes = [mk_fix ''h1'' ''missing'' [] None None []], pl_source = ''rules'', pl_note = None\<rparr>"

theorem ai_copy_meets_brief_witness:
  "\<exists>p. rewrite plain_runtime plain_unicode demo_sdk [demo_plan] = Inr [p] \<and>
     list_all2 (rewritten plain_unicode) (pl_fixes demo_plan) (pl_fixes p) \<and> pl_source p = ''ai''"
proof -
  let ?p = "apply_rewrites plain_runtime plain_unicode
    [JObj [(''url'', JStr ''u''), (''field'', JStr ''h1''), (''text'', JStr ''Shoes'')]] demo_plan"
  have "ask demo_sdk prompt = Inr [(''rewrites'', JList [JObj [(''url'', JStr ''u''), (''field'', JStr ''h1''), (''text'', JStr ''Shoes'')]])]" for prompt
    by (simp add: ask_def demo_sdk_def api_key_def parse_def strip_def is_space_def)
  then have r: "rewrite plain_runtime plain_unicode demo_sdk [demo_plan] = Inr [?p]"
    by (simp add: rewrite_def is_available_def api_key_def demo_sdk_def py_or_def)
  moreover have "pl_source ?p = ''ai''" by code_simp
  ultimately show ?thesis using ai_copy_meets_brief [OF r] by simp
qed

text \<open>The candidate the rules themselves derive from a long title need not meet the brief it comes with:
  dropping the brand can leave less than the least length.\<close>

lemma rule_candidate_can_fail_brief:
  assumes "op_title p = replicate 5 97 @ [32, 124, 32] @ replicate 60 98"
  shows "\<exists>f. title_fix U p None = Inr (Some f) \<and> fx_candidate f = Some (replicate 5 97) \<and> \<not> accepts U f (replicate 5 97)"
proof -
  have t: "trim_title (replicate 5 97 @ [32, 124, 32] @ replicate 60 98) 60 = replicate 5 97" by code_simp
  show ?thesis using assms t
    by (simp add: title_fix_def Let_def TITLE_MAX_def TITLE_MIN_def mk_fix_def limits_of_def accepts_def)
qed

end
