(* ===== verification/Service_Http.thy ===== *)
theory Service_Http
  imports Job_Service
begin

text \<open>
  What the services' HTTP interfaces have in common: the view a record class of \<^verbatim>\<open>services/*/store.py\<close> gives
  of a job, and the three routes of \<^verbatim>\<open>services/*/api.py\<close> that accept a job, show one and list the recent
  ones. A service differs in the names its class uses, in the figures of a report its summary shows and
  in what it checks of a request.
\<close>

subsection \<open>Record classes\<close>

record record_class =
  rc_id_key :: string
  rc_subject_key :: string
  rc_headline :: "dict \<Rightarrow> dict py"  \<comment> \<open>the entries of \<^verbatim>\<open>summary()\<close> that come from the report\<close>

definition report_of :: "job_record \<Rightarrow> dict" where
  "report_of r = (case j_result r of None \<Rightarrow> [] | Some d \<Rightarrow> d)"

definition rec_summary :: "record_class \<Rightarrow> job_record \<Rightarrow> dict py" where
  "rec_summary rc r =
     bindE (rc_headline rc (report_of r)) (\<lambda>extra.
       Inr ([(rc_id_key rc, JStr (j_id r)), (rc_subject_key rc, JStr (j_subject r)),
             (''status'', JStr (job_status_name (j_status r))), (''created_at'', JStr (j_created_at r)),
             (''updated_at'', JStr (j_updated_at r)), (''error'', opt_json (j_error r))] @ extra))"

definition rec_to_dict :: "record_class \<Rightarrow> job_record \<Rightarrow> dict py" where
  "rec_to_dict rc r = bindE (rec_summary rc r) (\<lambda>d. Inr (dset d ''report'' (opt_dict (j_result r))))"

text \<open>\<^verbatim>\<open>raw.get(key) or raw[old]\<close>.\<close>

definition get_or_item :: "dict \<Rightarrow> string \<Rightarrow> string \<Rightarrow> json py" where
  "get_or_item raw key old = (if truthy (dget raw key) then Inr (dget raw key) else ditem raw old)"

definition rec_from_dict :: "record_class \<Rightarrow> dict \<Rightarrow> job_record py" where
  "rec_from_dict rc raw =
     bindE (bindE (get_or_item raw ''job_id'' (rc_id_key rc)) read_text) (\<lambda>id.
     bindE (bindE (get_or_item raw ''subject'' (rc_subject_key rc)) read_text) (\<lambda>subject.
     bindE (read_status (dget_default raw ''status'' (JStr ''completed''))) (\<lambda>status.
     bindE (read_text (dget_default raw ''created_at'' (JStr []))) (\<lambda>created.
     bindE (read_text (dget_default raw ''updated_at'' (JStr []))) (\<lambda>updated.
     bindE (read_opt_text (dget raw ''error'')) (\<lambda>error.
     bindE (read_opt_dict (if ''result'' \<in> fst ` set raw then dget raw ''result'' else dget raw ''report'')) (\<lambda>result.
     bindE (read_opt_text (dget raw ''tenant_id'')) (\<lambda>tenant.
     bindE (read_opt_text (dget raw ''project_id'')) (\<lambda>project.
       Inr \<lparr>j_id = id, j_subject = subject, j_status = status, j_created_at = created,
            j_updated_at = updated, j_error = error, j_result = result,
            j_tenant_id = tenant, j_project_id = project\<rparr>)))))))))"

subsection \<open>Routes\<close>

datatype reply =
    Answer int json
  | HTTPException int string
  | Crash exn  \<comment> \<open>an exception no handler turns into an answer\<close>

definition reply_of :: "int \<Rightarrow> json py \<Rightarrow> reply" where
  "reply_of code j = (case j of Inl e \<Rightarrow> Crash e | Inr b \<Rightarrow> Answer code b)"

definition get_route ::
  "record_class \<Rightarrow> string \<Rightarrow> (string \<Rightarrow> string option \<Rightarrow> 's \<Rightarrow> job_record option \<times> 's) \<Rightarrow>
     string \<Rightarrow> string option \<Rightarrow> 's \<Rightarrow> reply \<times> 's" where
  "get_route rc what get job tenant_id s =
     (case get job tenant_id s of
        (None, s') \<Rightarrow> (HTTPException 404 (what @ '' not found''), s')
      | (Some r, s') \<Rightarrow> (reply_of 200 (bindE (rec_to_dict rc r) (\<lambda>d. Inr (JObj d))), s'))"

definition list_route ::
  "record_class \<Rightarrow> (nat \<Rightarrow> string option \<Rightarrow> 's \<Rightarrow> job_record list) \<Rightarrow> nat \<Rightarrow> string option \<Rightarrow> 's \<Rightarrow> reply" where
  "list_route rc recent limit tenant_id s =
     reply_of 200 (bindE (mapE (rec_summary rc) (recent limit tenant_id s)) (\<lambda>ds. Inr (JList (map JObj ds))))"

text \<open>The end of every accepting route: the job is stored, the run goes to the background with its request.\<close>

definition accept_route ::
  "string \<Rightarrow> string \<Rightarrow> (string \<Rightarrow> string \<Rightarrow> string option \<Rightarrow> string option \<Rightarrow> 's \<Rightarrow> job_record py \<times> 's) \<Rightarrow>
     string \<Rightarrow> string \<Rightarrow> string option \<Rightarrow> string option \<Rightarrow> dict \<Rightarrow> 's \<Rightarrow> reply \<times> dict option \<times> 's" where
  "accept_route id_key path create new_id subject tenant_id project_id request s =
     (case create new_id subject tenant_id project_id s of
        (Inl (UnknownTenant m), s') \<Rightarrow> (HTTPException 400 m, None, s')
      | (Inl e, s') \<Rightarrow> (Crash e, None, s')
      | (Inr _, s') \<Rightarrow>
          (Answer 202 (JObj [(id_key, JStr new_id), (''status'', JStr ''queued''), (''result_url'', JStr (path @ new_id))]),
           Some request, s'))"

subsection \<open>What the routes promise\<close>

text \<open>A record read back from its file is the record, when its id and its subject are not empty.\<close>

lemma rec_round_trip:
  assumes "j_id r \<noteq> []" and "j_subject r \<noteq> []"
  shows "rec_from_dict rc (to_storage r) = Inr r"
proof -
  have "read_opt_text (opt_json t) = Inr t" for t by (cases t) simp_all
  moreover have "read_opt_dict (opt_dict d) = Inr d" for d by (cases d) simp_all
  moreover have "read_status (JStr (job_status_name st)) = Inr st" for st
    by (cases st) (simp_all add: read_status_def)
  ultimately show ?thesis
    using assms unfolding rec_from_dict_def to_storage_def
    by (simp add: get_or_item_def dget_default_def del: bindE_Inr_iff)
qed

context job_store
begin

lemma get_route_foreign:
  assumes "inv s" and "\<And>r. view s j = Some r \<Longrightarrow> j_tenant_id r \<noteq> Some t"
  shows "fst (get_route rc what get j (Some t) s) = HTTPException 404 (what @ '' not found'')"
proof -
  obtain x s' where g: "get j (Some t) s = (x, s')" by fastforce
  have "x = None"
    using get_view [OF assms(1), of j "Some t"] g assms(2) by (auto simp: owned_def split: option.splits)
  with g show ?thesis by (simp add: get_route_def)
qed

lemma get_route_own:
  assumes "inv s" and "view s j = Some r" and "j_tenant_id r = Some t" and "rec_to_dict rc r = Inr d"
  shows "fst (get_route rc what get j (Some t) s) = Answer 200 (JObj d)"
proof -
  obtain x s' where g: "get j (Some t) s = (x, s')" by fastforce
  have "x = Some r"
    using get_view [OF assms(1), of j "Some t"] g assms(2,3) by (simp add: owned_def)
  with g assms(4) show ?thesis by (simp add: get_route_def reply_of_def)
qed

text \<open>An accepted job is there for its tenant, queued; a refused one left nothing behind.\<close>

lemma accept_route_stores:
  assumes "inv s" and "view s new_id = None"
    and "accept_route id_key path create new_id subject t p request s = (rep, task, s')"
  shows "(task = Some request \<and> view s' = (view s)(new_id \<mapsto> new_record (present s) new_id subject t p) \<and> inv s') \<or>
         (task = None \<and> s' = s)"
proof -
  obtain x s1 where c: "create new_id subject t p s = (x, s1)" by fastforce
  show ?thesis
  proof (cases x)
    case (Inl e)
    with c create_raises [OF assms(1)] have "s1 = s" by blast
    with assms(3) c Inl show ?thesis by (auto simp: accept_route_def split: exn.splits)
  next
    case (Inr r)
    with create_new [OF assms(1,2)] c assms(3) show ?thesis by (auto simp: accept_route_def)
  qed
qed

end

end
