(* ===== verification/Netguard.thy ===== *)
theory Netguard
  imports Url Trend_Texts "HOL-Library.Word"
begin

text \<open>
  \<^verbatim>\<open>src/shared/netguard.py\<close>: which addresses the platform refuses to fetch. Addresses are words of 32 and of
  128 bits; the networks are those of \<^verbatim>\<open>ipaddress\<close> in CPython 3.12. Name resolution is a parameter: for a host
  the reason why it has no address, or the texts of its addresses with the address each denotes.
\<close>

subsection \<open>Networks\<close>

type_synonym 'l network = "'l word \<times> nat"

definition in_network :: "'l::len word \<Rightarrow> 'l network \<Rightarrow> bool" where
  "in_network a n \<longleftrightarrow> drop_bit (LENGTH('l) - snd n) a = drop_bit (LENGTH('l) - snd n) (fst n)"

definition in_any :: "'l::len word \<Rightarrow> 'l network list \<Rightarrow> bool" where
  "in_any a ns \<longleftrightarrow> list_ex (in_network a) ns"

definition v4_private :: "32 network list" where
  "v4_private =
     [(0, 8), (0xa000000, 8), (0x7f000000, 8), (0xa9fe0000, 16), (0xac100000, 12), (0xc0000000, 24),
      (0xc00000aa, 31), (0xc0000200, 24), (0xc0a80000, 16), (0xc6120000, 15), (0xc6336400, 24),
      (0xcb007100, 24), (0xf0000000, 4), (0xffffffff, 32)]"

definition v4_public :: "32 network list" where
  "v4_public =
     [(0xc0000009, 32), (0xc000000a, 32)]"

definition v6_private :: "128 network list" where
  "v6_private =
     [(0x1, 128), (0, 128), (0xffff00000000, 96), (0x64ff9b000100000000000000000000, 48),
      (0x1000000000000000000000000000000, 64), (0x20010000000000000000000000000000, 23),
      (0x20010db8000000000000000000000000, 32), (0x20020000000000000000000000000000, 16),
      (0x3fff0000000000000000000000000000, 20), (0xfc000000000000000000000000000000, 7),
      (0xfe800000000000000000000000000000, 10)]"

definition v6_public :: "128 network list" where
  "v6_public =
     [(0x20010001000000000000000000000001, 128), (0x20010001000000000000000000000002, 128),
      (0x20010003000000000000000000000000, 32), (0x20010004011200000000000000000000, 48),
      (0x20010020000000000000000000000000, 28), (0x20010030000000000000000000000000, 28)]"

definition v6_reserved :: "128 network list" where
  "v6_reserved =
     [(0, 8), (0x1000000000000000000000000000000, 8), (0x2000000000000000000000000000000, 7),
      (0x4000000000000000000000000000000, 6), (0x8000000000000000000000000000000, 5),
      (0x10000000000000000000000000000000, 4), (0x40000000000000000000000000000000, 3),
      (0x60000000000000000000000000000000, 3), (0x80000000000000000000000000000000, 3),
      (0xa0000000000000000000000000000000, 3), (0xc0000000000000000000000000000000, 3),
      (0xe0000000000000000000000000000000, 4), (0xf0000000000000000000000000000000, 5),
      (0xf8000000000000000000000000000000, 6), (0xfe000000000000000000000000000000, 9)]"

datatype address = V4 "32 word" | V6 "128 word"

text \<open>\<^verbatim>\<open>ipv4_mapped\<close>: an address of the form \<^verbatim>\<open>::ffff:a.b.c.d\<close>.\<close>

definition mapped_v4 :: "128 word \<Rightarrow> 32 word option" where
  "mapped_v4 a = (if drop_bit 32 a = 0xFFFF then Some (ucast a) else None)"

definition v4_is_private :: "32 word \<Rightarrow> bool" where
  "v4_is_private a \<longleftrightarrow> in_any a v4_private \<and> \<not> in_any a v4_public"

fun is_private :: "address \<Rightarrow> bool" where
  "is_private (V4 a) = v4_is_private a"
| "is_private (V6 a) = (case mapped_v4 a of Some b \<Rightarrow> v4_is_private b | None \<Rightarrow> in_any a v6_private \<and> \<not> in_any a v6_public)"

fun is_loopback :: "address \<Rightarrow> bool" where
  "is_loopback (V4 a) = in_network a (0x7F000000, 8)"
| "is_loopback (V6 a) = (a = 1)"

fun is_link_local :: "address \<Rightarrow> bool" where
  "is_link_local (V4 a) = in_network a (0xA9FE0000, 16)"
| "is_link_local (V6 a) = in_network a (0xFE800000000000000000000000000000, 10)"

fun is_reserved :: "address \<Rightarrow> bool" where
  "is_reserved (V4 a) = in_network a (0xF0000000, 4)"
| "is_reserved (V6 a) = in_any a v6_reserved"

fun is_multicast :: "address \<Rightarrow> bool" where
  "is_multicast (V4 a) = in_network a (0xE0000000, 4)"
| "is_multicast (V6 a) = in_network a (0xFF000000000000000000000000000000, 8)"

fun is_unspecified :: "address \<Rightarrow> bool" where
  "is_unspecified (V4 a) = (a = 0)"
| "is_unspecified (V6 a) = (a = 0)"

text \<open>A text \<^verbatim>\<open>ip_address\<close> does not read is \<open>None\<close>, and is let through.\<close>

definition is_blocked_ip :: "address option \<Rightarrow> bool" where
  "is_blocked_ip ip =
     (case ip of
        None \<Rightarrow> False
      | Some a \<Rightarrow> is_private a \<or> is_loopback a \<or> is_link_local a \<or> is_reserved a \<or> is_multicast a \<or> is_unspecified a)"

subsection \<open>The guard\<close>

type_synonym resolver = "string \<Rightarrow> string + (string \<times> address option) list"

definition METADATA_HOSTS :: "string list" where
  "METADATA_HOSTS = [''169.254.169.254'', ''metadata.google.internal'', ''100.100.100.200'']"

definition ALLOWED_SCHEMES :: "string list" where
  "ALLOWED_SCHEMES = [''http'', ''https'']"

definition allow_private :: "string \<Rightarrow> bool" where
  "allow_private setting \<longleftrightarrow> lower (strip setting) \<in> {''1'', ''true'', ''yes'', ''on''}"

definition fa_unresolved_a :: string where
"fa_unresolved_a = utf8 [217, 134, 216, 167, 217, 133, 32, 216, 175, 216, 167, 217, 133,
    217, 134, 217, 135, 32, 194, 171]"

definition fa_unresolved_b :: string where
"fa_unresolved_b = utf8 [194, 187, 32, 217, 130, 216, 167, 216, 168, 217, 132, 32, 216, 170,
    216, 168, 216, 175, 219, 140, 217, 132, 32, 216, 168, 217, 135, 32, 216, 162, 219, 140,
    226, 128, 140, 217, 190, 219, 140, 32, 217, 134, 219, 140, 216, 179, 216, 170, 58, 32]"

definition fa_scheme_a :: string where
"fa_scheme_a = utf8 [217, 129, 217, 130, 216, 183, 32, 104, 116, 116, 112, 32, 217, 136, 32,
    104, 116, 116, 112, 115, 32, 217, 190, 216, 180, 216, 170, 219, 140, 216, 168, 216, 167,
    217, 134, 219, 140, 32, 217, 133, 219, 140, 226, 128, 140, 216, 180, 217, 136, 217, 134,
    216, 175, 32, 40, 216, 175, 216, 177, 219, 140, 216, 167, 217, 129, 216, 170, 32, 216,
    180, 216, 175, 58, 32, 194, 171]"

definition fa_scheme_b :: string where
"fa_scheme_b = utf8 [194, 187, 41]"

definition fa_nohost :: string where
"fa_nohost = utf8 [216, 162, 216, 175, 216, 177, 216, 179, 32, 217, 133, 219, 140, 216, 178,
    216, 168, 216, 167, 217, 134, 32, 217, 134, 216, 175, 216, 167, 216, 177, 216, 175, 46]"

definition fa_metadata_a :: string where
"fa_metadata_a = utf8 [216, 162, 216, 175, 216, 177, 216, 179, 32, 194, 171]"

definition fa_metadata_b :: string where
"fa_metadata_b = utf8 [194, 187, 32, 216, 168, 217, 135, 32, 216, 179, 216, 177, 217, 136,
    219, 140, 216, 179, 32, 109, 101, 116, 97, 100, 97, 116, 97, 32, 216, 179, 216, 177,
    217, 136, 216, 177, 32, 216, 167, 216, 180, 216, 167, 216, 177, 217, 135, 32, 217, 133,
    219, 140, 226, 128, 140, 218, 169, 217, 134, 216, 175, 32, 217, 136, 32, 216, 175, 216,
    177, 32, 217, 135, 219, 140, 218, 134, 32, 216, 173, 216, 167, 217, 132, 216, 170, 219,
    140, 32, 217, 133, 216, 172, 216, 167, 216, 178, 32, 217, 134, 219, 140, 216, 179, 216,
    170, 46]"

definition fa_private_a :: string where
"fa_private_a = utf8 [216, 162, 216, 175, 216, 177, 216, 179, 32, 194, 171]"

definition fa_private_b :: string where
"fa_private_b = utf8 [194, 187, 32, 216, 168, 217, 135, 32]"

definition fa_private_c :: string where
"fa_private_c = utf8 [32, 216, 175, 216, 177, 32, 216, 180, 216, 168, 218, 169, 217, 135,
    226, 128, 140, 219, 140, 32, 216, 175, 216, 167, 216, 174, 217, 132, 219, 140, 32, 216,
    167, 216, 180, 216, 167, 216, 177, 217, 135, 32, 217, 133, 219, 140, 226, 128, 140, 218,
    169, 217, 134, 216, 175, 32, 217, 136, 32, 217, 133, 216, 172, 216, 167, 216, 178, 32,
    217, 134, 219, 140, 216, 179, 216, 170, 46, 32, 216, 167, 218, 175, 216, 177, 32, 217,
    136, 216, 167, 217, 130, 216, 185, 216, 167, 217, 139, 32, 217, 133, 219, 140, 226, 128,
    140, 216, 174, 217, 136, 216, 167, 217, 135, 219, 140, 32, 219, 140, 218, 169, 32, 216,
    179, 216, 167, 219, 140, 216, 170, 32, 217, 132, 217, 136, 218, 169, 216, 167, 217, 132,
    32, 216, 177, 216, 167, 32, 216, 168, 216, 177, 216, 177, 216, 179, 219, 140, 32, 218,
    169, 217, 134, 219, 140, 216, 140, 32, 217, 133, 216, 170, 216, 186, 219, 140, 216, 177,
    32, 83, 69, 79, 95, 65, 71, 69, 78, 84, 95, 65, 76, 76, 79, 87, 95, 80, 82, 73, 86, 65,
    84, 69, 61, 49, 32, 216, 177, 216, 167, 32, 216, 170, 217, 134, 216, 184, 219, 140, 217,
    133, 32, 218, 169, 217, 134, 46]"

definition fa_dash :: string where
"fa_dash = utf8 [226, 128, 148]"

definition is_metadata_host :: "string \<Rightarrow> bool" where
  "is_metadata_host host \<longleftrightarrow> lower host \<in> set METADATA_HOSTS \<or> starts_with (rev ''.internal'') (rev (lower host))"

definition resolve :: "resolver \<Rightarrow> string \<Rightarrow> (string \<times> address option) list py" where
  "resolve dns host =
     (case dns host of
        Inl reason \<Rightarrow> Inl (TargetNotAllowed (fa_unresolved_a @ host @ fa_unresolved_b @ reason))
      | Inr found \<Rightarrow> Inr found)"

definition check_url :: "resolver \<Rightarrow> string \<Rightarrow> string \<Rightarrow> unit py" where
  "check_url dns setting url =
     bindE (urlsplit url) (\<lambda>u.
       let host = hostname u in
       if scheme u \<notin> set ALLOWED_SCHEMES then
         Inl (TargetNotAllowed (fa_scheme_a @ (if scheme u = [] then fa_dash else scheme u) @ fa_scheme_b))
       else if host = [] then Inl (TargetNotAllowed fa_nohost)
       else if is_metadata_host host then Inl (TargetNotAllowed (fa_metadata_a @ host @ fa_metadata_b))
       else if allow_private setting then Inr ()
       else
         bindE (resolve dns host) (\<lambda>found.
           (case first_where (\<lambda>f. is_blocked_ip (snd f)) found of
              None \<Rightarrow> Inr ()
            | Some f \<Rightarrow> Inl (TargetNotAllowed (fa_private_a @ host @ fa_private_b @ fst f @ fa_private_c)))))"

definition is_allowed :: "resolver \<Rightarrow> string \<Rightarrow> string \<Rightarrow> bool py" where
  "is_allowed dns setting url =
     (case check_url dns setting url of
        Inr _ \<Rightarrow> Inr True | Inl (TargetNotAllowed _) \<Rightarrow> Inr False | Inl e \<Rightarrow> Inl e)"

text \<open>\<^verbatim>\<open>str(exc)\<close>: what follows the name of the class in \<open>exn_text\<close>.\<close>

definition exn_message :: "exn \<Rightarrow> string" where
  "exn_message e = drop 2 (dropWhile (\<lambda>c. c \<noteq> CHR '':'') (exn_text e))"

subsection \<open>Properties\<close>

text \<open>The addresses of the machine itself, of its network and of the cloud it runs in.\<close>

definition internal_v4 :: "32 word \<Rightarrow> bool" where
  "internal_v4 a \<longleftrightarrow> in_any a [(0x7F000000, 8), (0x0A000000, 8), (0xAC100000, 12), (0xC0A80000, 16), (0xA9FE0000, 16), (0, 8)]"

lemma internal_blocked: "internal_v4 a \<Longrightarrow> is_blocked_ip (Some (V4 a))"
  by (auto simp: internal_v4_def in_any_def is_blocked_ip_def v4_is_private_def v4_private_def v4_public_def in_network_def)

text \<open>An IPv4 address wrapped in an IPv6 one is refused whatever it is.\<close>

lemma mapped_blocked:
  assumes "mapped_v4 a = Some b"
  shows "is_blocked_ip (Some (V6 a))"
proof -
  have "drop_bit 32 a = 0xFFFF" using assms by (simp add: mapped_v4_def split: if_splits)
  then have "drop_bit 88 (drop_bit 32 a) = drop_bit 88 (0xFFFF :: 128 word)" by simp
  then have "drop_bit 120 a = 0" by simp
  then show ?thesis by (simp add: is_blocked_ip_def v6_reserved_def in_any_def in_network_def)
qed

text \<open>C24: an address the guard lets through is safe to fetch as far as the guard can see: it is an http
  address with a host that is not a metadata name, and, unless private targets were allowed, the name
  resolved and not one of its addresses, plain or wrapped in IPv6, lies on the machine itself, in a private
  or link-local network, or is multicast, reserved or unspecified.\<close>

theorem guard_blocks_internal:
  assumes "check_url dns setting url = Inr ()"
  shows "\<exists>u. urlsplit url = Inr u \<and> scheme u \<in> {''http'', ''https''} \<and> hostname u \<noteq> [] \<and> \<not> is_metadata_host (hostname u) \<and>
    (allow_private setting \<or>
      (\<exists>found. dns (hostname u) = Inr found \<and>
         (\<forall>f\<in>set found. \<not> is_blocked_ip (snd f) \<and> (\<forall>a. snd f = Some (V4 a) \<longrightarrow> \<not> internal_v4 a) \<and>
            (\<forall>a. snd f = Some (V6 a) \<longrightarrow> mapped_v4 a = None \<and> a \<noteq> 0 \<and> a \<noteq> 1))))"
proof -
  from assms obtain u where u: "urlsplit url = Inr u" by (auto simp: check_url_def)
  have c: "scheme u \<in> set ALLOWED_SCHEMES" "hostname u \<noteq> []" "\<not> is_metadata_host (hostname u)"
    using assms by (auto simp: check_url_def u Let_def split: if_splits)
  have r: "allow_private setting \<or> (\<exists>found. dns (hostname u) = Inr found \<and> (\<forall>f\<in>set found. \<not> is_blocked_ip (snd f)))"
    using assms c by (auto simp: check_url_def u Let_def resolve_def find_None_iff_all split: if_splits sum.splits option.splits)
  have safe: "(\<forall>a. snd f = Some (V4 a) \<longrightarrow> \<not> internal_v4 a) \<and>
      (\<forall>a. snd f = Some (V6 a) \<longrightarrow> mapped_v4 a = None \<and> a \<noteq> 0 \<and> a \<noteq> 1)" if "\<not> is_blocked_ip (snd f)" for f :: "string \<times> address option"
  proof (intro conjI allI impI)
    fix a assume "snd f = Some (V4 a)"
    with that internal_blocked show "\<not> internal_v4 a" by fastforce
  next
    fix a assume a: "snd f = Some (V6 a)"
    with that mapped_blocked show "mapped_v4 a = None" by (cases "mapped_v4 a") fastforce+
    from that a show "a \<noteq> 0" "a \<noteq> 1" by (auto simp: is_blocked_ip_def)
  qed
  have "scheme u \<in> {''http'', ''https''}" using c(1) by (auto simp: ALLOWED_SCHEMES_def)
  with u c(2,3) r safe show ?thesis by (metis (no_types, lifting))
qed

definition public_dns :: resolver where
  "public_dns host = Inr [(''93.184.216.34'', Some (V4 0x5DB8D822))]"

theorem guard_blocks_internal_witness:
  "\<exists>u. urlsplit ''https://example.com/a'' = Inr u \<and> hostname u = ''example.com'' \<and> \<not> is_metadata_host (hostname u)"
proof -
  have c: "check_url public_dns [] ''https://example.com/a'' = Inr ()" by code_simp
  have "case urlsplit ''https://example.com/a'' of Inl _ \<Rightarrow> False | Inr u \<Rightarrow> hostname u = ''example.com''" by code_simp
  with guard_blocks_internal [OF c] show ?thesis by auto
qed

text \<open>The guard knows the metadata service of one cloud by the name it is called by only: any other name
  that resolves to the same address is let through, because that address lies in no private network.\<close>

lemma metadata_reachable_by_name:
  assumes "dns ''rebind.example'' = Inr [(''100.100.100.200'', Some (V4 0x646464C8))]"
  shows "check_url dns [] ''http://rebind.example/latest/meta-data'' = Inr ()"
proof -
  have u: "case urlsplit ''http://rebind.example/latest/meta-data'' of Inl _ \<Rightarrow> False
      | Inr u \<Rightarrow> scheme u = ''http'' \<and> hostname u = ''rebind.example''" by code_simp
  have "\<not> is_blocked_ip (Some (V4 0x646464C8))" by code_simp
  moreover have "\<not> is_metadata_host ''rebind.example''" "\<not> allow_private []" by code_simp+
  moreover obtain v where "urlsplit ''http://rebind.example/latest/meta-data'' = Inr v" "scheme v = ''http''"
      "hostname v = ''rebind.example''" using u by (auto split: sum.splits)
  ultimately show ?thesis using assms by (simp add: check_url_def resolve_def ALLOWED_SCHEMES_def Let_def)
qed

end
