(* ===== verification/Services.thy ===== *)
theory Services
  imports Service_Http Serp Content Link_Graph Competitor Optimizer Netguard
begin

text \<open>
  The services of \<^verbatim>\<open>src/services\<close> as values of \<open>service\<close> and \<open>record_class\<close>, with their workers and their
  routes. The work of two of them is a parameter: the crawler and its rules, and the keyword engine.
\<close>

type_synonym 's creator = "string \<Rightarrow> string \<Rightarrow> string option \<Rightarrow> string option \<Rightarrow> 's \<Rightarrow> job_record py \<times> 's"
type_synonym 's getter = "string \<Rightarrow> string option \<Rightarrow> 's \<Rightarrow> job_record option \<times> 's"
type_synonym 's updater = "string \<Rightarrow> job_change list \<Rightarrow> pending_event list \<Rightarrow> 's \<Rightarrow> job_record py \<times> 's"
type_synonym 's lister = "nat \<Rightarrow> string option \<Rightarrow> 's \<Rightarrow> job_record list"

subsection \<open>Crawls\<close>

definition crawl_record :: record_class where
  "crawl_record = \<lparr>rc_id_key = ''crawl_id'', rc_subject_key = ''start_url'',
     rc_headline = (\<lambda>rep. bindE (jget (dget_default rep ''stats'' (JObj [])) ''total_issues'') (\<lambda>n.
       Inr [(''overall_score'', dget rep ''overall_score''), (''total_issues'', n)]))\<rparr>"

definition stat_names :: "string list" where
  "stat_names = [''pages_crawled'', ''indexable_pages'', ''errors'', ''redirects'', ''avg_words'', ''avg_load_ms'',
     ''total_issues'', ''critical_count'', ''high_count'']"

definition crawl_completed_payload :: "string \<Rightarrow> json \<Rightarrow> dict \<Rightarrow> string \<Rightarrow> string option \<Rightarrow> dict py" where
  "crawl_completed_payload crawl_id start_url rep status error =
     bindE (as_dict (dget_default rep ''stats'' (JObj []))) (\<lambda>stats.
     bindE (as_list (dget_default rep ''category_scores'' (JList []))) (\<lambda>rows.
     bindE (mapE (\<lambda>row. bindE (as_dict row) (\<lambda>c. bindE (ditem c ''category'') (\<lambda>k. bindE (ditem c ''score'') (\<lambda>v.
              bindE (ditem c ''issue_count'') (\<lambda>n.
                Inr (JObj [(''category'', k), (''score'', v), (''issue_count'', n)])))))) rows) (\<lambda>scores.
       Inr [(''crawl_id'', JStr crawl_id), (''start_url'', start_url), (''status'', JStr status), (''error'', opt_json error),
            (''overall_score'', dget_default rep ''overall_score'' (JInt 0)),
            (''grade'', dget_default rep ''grade'' (JStr [])),
            (''stats'', JObj (map (\<lambda>k. (k, dget_default stats k (JInt 0))) stat_names)),
            (''category_scores'', JList scores),
            (''result_url'', JStr (''/v1/crawls/'' @ crawl_id))])))"

text \<open>One \<^verbatim>\<open>page.updated\<close> for each indexable page; \<open>uuid5\<close> names a page by its address.\<close>

definition page_payload :: "(json \<Rightarrow> string py) \<Rightarrow> string \<Rightarrow> dict \<Rightarrow> dict py" where
  "page_payload uuid5 crawl_id page =
     bindE (ditem page ''url'') (\<lambda>url. bindE (uuid5 url) (\<lambda>page_id.
       Inr [(''page_id'', JStr page_id), (''crawl_id'', JStr crawl_id), (''url'', url), (''title'', dget page ''title''),
            (''content_hash'', dget_default page ''content_hash'' (JStr [])), (''previous_content_hash'', JNull),
            (''word_count'', dget_default page ''words'' (JInt 0)), (''status_code'', dget_default page ''status'' (JInt 0)),
            (''indexable'', JBool True)]))"

definition page_payloads :: "(json \<Rightarrow> string py) \<Rightarrow> string \<Rightarrow> dict \<Rightarrow> dict list py" where
  "page_payloads uuid5 crawl_id rep =
     bindE (as_list (dget_default rep ''pages'' (JList []))) (\<lambda>rows.
     bindE (mapE (\<lambda>row. bindE (as_dict row) (\<lambda>page.
              if truthy (dget page ''indexable'') then bindE (page_payload uuid5 crawl_id page) (\<lambda>p. Inr [p]) else Inr [])) rows)
       (\<lambda>out. Inr (concat out)))"

definition crawl_service :: "(json \<Rightarrow> string py) \<Rightarrow> (dict \<Rightarrow> dict py) \<Rightarrow> service" where
  "crawl_service uuid5 crawler =
     \<lparr>sv_name = ''crawl-service'', sv_request = ''crawl.requested'', sv_id_field = ''crawl_id'',
      sv_early = (\<lambda>_. Inr ()), sv_subject = (\<lambda>payload. ditem payload ''start_url''),
      sv_begin = (\<lambda>request. bindE (ditem request ''start_url'') (\<lambda>_. Inr ())),
      sv_work = (\<lambda>_. crawler),
      sv_outgoing = (\<lambda>job request rep status error.
         bindE (ditem request ''start_url'') (\<lambda>url.
         bindE (crawl_completed_payload job url rep status error) (\<lambda>done.
         bindE (if status = ''completed'' then page_payloads uuid5 job rep else Inr []) (\<lambda>pages.
           Inr ((''crawl.completed'', done) # map (\<lambda>p. (''page.updated'', p)) pages)))))\<rparr>"

definition run_crawl ::
  "contracts \<Rightarrow> (json \<Rightarrow> string py) \<Rightarrow> (dict \<Rightarrow> dict py) \<Rightarrow> 's updater \<Rightarrow> bool \<Rightarrow> string \<Rightarrow> dict \<Rightarrow> string option \<Rightarrow>
     string option \<Rightarrow> string option \<Rightarrow> (nat \<Rightarrow> string) \<Rightarrow> 's \<Rightarrow> job_record py \<times> (string \<times> dict) list \<times> 's" where
  "run_crawl C uuid5 crawler = run_job C (crawl_service uuid5 crawler)"

definition crawl_handle ::
  "contracts \<Rightarrow> (json \<Rightarrow> string py) \<Rightarrow> (dict \<Rightarrow> dict py) \<Rightarrow> 's creator \<Rightarrow> 's getter \<Rightarrow> 's updater \<Rightarrow> bool \<Rightarrow>
     delivery \<Rightarrow> string \<Rightarrow> (nat \<Rightarrow> string) \<Rightarrow> 's worker \<Rightarrow> unit py \<times> 's worker" where
  "crawl_handle C uuid5 crawler = handle C (crawl_service uuid5 crawler)"

definition get_crawl :: "'s getter \<Rightarrow> string \<Rightarrow> string option \<Rightarrow> 's \<Rightarrow> reply \<times> 's" where
  "get_crawl = get_route crawl_record ''crawl''"

definition list_crawls :: "'s lister \<Rightarrow> nat \<Rightarrow> string option \<Rightarrow> 's \<Rightarrow> reply" where
  "list_crawls = list_route crawl_record"

text \<open>
  The address is completed and checked before the job exists; \<open>check\<close> stands for \<^verbatim>\<open>normalize_url\<close> and the
  guard against private targets.
\<close>

definition create_crawl ::
  "(string \<Rightarrow> string py) \<Rightarrow> 's creator \<Rightarrow> string \<Rightarrow> string \<Rightarrow> string option \<Rightarrow> string option \<Rightarrow> dict \<Rightarrow> 's \<Rightarrow>
     reply \<times> dict option \<times> 's" where
  "create_crawl check create new_id start_url tenant_id project_id request s =
     (let url0 = strip start_url;
          url = (if starts_with ''http://'' url0 \<or> starts_with ''https://'' url0 then url0 else ''https://'' @ url0)
      in case check url of
           Inl (TargetNotAllowed m) \<Rightarrow> (HTTPException 400 m, None, s)
         | Inl e \<Rightarrow> (HTTPException 400 (''invalid url: '' @ exn_message e), None, s)
         | Inr clean \<Rightarrow>
             accept_route ''crawl_id'' ''/v1/crawls/'' create new_id clean tenant_id project_id
               (dset request ''start_url'' (JStr clean)) s)"

subsection \<open>Keyword research\<close>

definition research_record :: record_class where
  "research_record = \<lparr>rc_id_key = ''research_id'', rc_subject_key = ''seed'',
     rc_headline = (\<lambda>rep.
       bindE (if rep = [] then Inr JNull
              else bindE (jlen (dget_default rep ''clusters'' (JList []))) (\<lambda>n. Inr (JInt n))) (\<lambda>clusters.
         Inr [(''total'', dget rep ''total''), (''cluster_count'', clusters)]))\<rparr>"

definition researched_payload :: "string \<Rightarrow> json \<Rightarrow> dict \<Rightarrow> string \<Rightarrow> string option \<Rightarrow> dict py" where
  "researched_payload research_id seed rep status error =
     bindE (jlen (dget_default rep ''clusters'' (JList []))) (\<lambda>clusters.
     bindE (bindE (jtake 25 (dget_default rep ''keywords'' (JList []))) as_list) (\<lambda>rows.
     bindE (mapE (\<lambda>row. bindE (as_dict row) (\<lambda>k. bindE (ditem k ''keyword'') (\<lambda>w. bindE (ditem k ''demand'') (\<lambda>d.
              bindE (ditem k ''opportunity'') (\<lambda>opp. bindE (ditem k ''intent'') (\<lambda>i.
                Inr (JObj [(''keyword'', w), (''demand'', d), (''opportunity'', opp), (''intent'', i)]))))))) rows) (\<lambda>top.
       Inr [(''research_id'', JStr research_id), (''seed'', seed),
            (''lang'', dget_default rep ''lang'' (JStr [])), (''country'', dget_default rep ''country'' (JStr [])),
            (''status'', JStr status), (''error'', opt_json error),
            (''total'', dget_default rep ''total'' (JInt 0)), (''cluster_count'', JInt clusters),
            (''top_keywords'', JList top), (''result_url'', JStr (''/v1/research/'' @ research_id))])))"

definition keyword_service :: "(dict \<Rightarrow> dict py) \<Rightarrow> service" where
  "keyword_service research =
     \<lparr>sv_name = ''keyword-service'', sv_request = ''keyword.research_requested'', sv_id_field = ''research_id'',
      sv_early = (\<lambda>_. Inr ()), sv_subject = (\<lambda>payload. ditem payload ''seed''),
      sv_begin = (\<lambda>request. bindE (ditem request ''seed'') (\<lambda>_. Inr ())),
      sv_work = (\<lambda>_. research),
      sv_outgoing = (\<lambda>job request rep status error.
         bindE (ditem request ''seed'') (\<lambda>seed.
         bindE (researched_payload job seed rep status error) (\<lambda>payload. Inr [(''keyword.researched'', payload)])))\<rparr>"

definition run_research ::
  "contracts \<Rightarrow> (dict \<Rightarrow> dict py) \<Rightarrow> 's updater \<Rightarrow> bool \<Rightarrow> string \<Rightarrow> dict \<Rightarrow> string option \<Rightarrow> string option \<Rightarrow>
     string option \<Rightarrow> (nat \<Rightarrow> string) \<Rightarrow> 's \<Rightarrow> job_record py \<times> (string \<times> dict) list \<times> 's" where
  "run_research C research = run_job C (keyword_service research)"

definition keyword_handle ::
  "contracts \<Rightarrow> (dict \<Rightarrow> dict py) \<Rightarrow> 's creator \<Rightarrow> 's getter \<Rightarrow> 's updater \<Rightarrow> bool \<Rightarrow>
     delivery \<Rightarrow> string \<Rightarrow> (nat \<Rightarrow> string) \<Rightarrow> 's worker \<Rightarrow> unit py \<times> 's worker" where
  "keyword_handle C research = handle C (keyword_service research)"

definition get_research :: "'s getter \<Rightarrow> string \<Rightarrow> string option \<Rightarrow> 's \<Rightarrow> reply \<times> 's" where
  "get_research = get_route research_record ''research''"

definition list_research :: "'s lister \<Rightarrow> nat \<Rightarrow> string option \<Rightarrow> 's \<Rightarrow> reply" where
  "list_research = list_route research_record"

definition create_research ::
  "'s creator \<Rightarrow> string \<Rightarrow> string \<Rightarrow> string option \<Rightarrow> string option \<Rightarrow> dict \<Rightarrow> 's \<Rightarrow> reply \<times> dict option \<times> 's" where
  "create_research create new_id seed0 tenant_id project_id request s =
     (let seed = strip seed0 in
      if seed = [] then (HTTPException 422 ''seed must not be blank'', None, s)
      else accept_route ''research_id'' ''/v1/research/'' create new_id seed tenant_id project_id
             (dset request ''seed'' (JStr seed)) s)"

subsection \<open>Rank checks\<close>

definition check_record :: record_class where
  "check_record = \<lparr>rc_id_key = ''check_id'', rc_subject_key = ''target_domain'',
     rc_headline = (\<lambda>rep. Inr [(''keywords_checked'', dget rep ''keywords_checked''),
       (''keywords_ranked'', dget rep ''keywords_ranked''), (''average_position'', dget rep ''average_position'')])\<rparr>"

definition provider_domain :: "string \<Rightarrow> string py" where
  "provider_domain url = bindE (urlsplit url) (\<lambda>u. Inr (drop_www (lower (hostname u))))"

definition create_check ::
  "'s creator \<Rightarrow> string \<Rightarrow> string \<Rightarrow> string list \<Rightarrow> string option \<Rightarrow> string option \<Rightarrow> dict \<Rightarrow> 's \<Rightarrow>
     reply \<times> dict option \<times> 's" where
  "create_check create new_id target_domain keywords tenant_id project_id request s =
     (case provider_domain (if contains ''//'' target_domain then target_domain else ''//'' @ target_domain) of
        Inl e \<Rightarrow> (Crash e, None, s)
      | Inr host \<Rightarrow>
          (let domain = (if host = [] then lower (strip target_domain) else host);
               ks = filter (\<lambda>k. k \<noteq> []) (map strip keywords)
           in if ks = [] then (HTTPException 422 ''keywords must not be blank'', None, s)
              else accept_route ''check_id'' ''/v1/checks/'' create new_id domain tenant_id project_id
                     (dset (dset request ''target_domain'' (JStr domain)) ''keywords'' (JList (map JStr ks))) s))"

definition get_check :: "'s getter \<Rightarrow> string \<Rightarrow> string option \<Rightarrow> 's \<Rightarrow> reply \<times> 's" where
  "get_check = get_route check_record ''check''"

definition list_checks :: "'s lister \<Rightarrow> nat \<Rightarrow> string option \<Rightarrow> 's \<Rightarrow> reply" where
  "list_checks = list_route check_record"

subsection \<open>Content coverage\<close>

definition content_record :: record_class where
  "content_record = \<lparr>rc_id_key = ''analysis_id'', rc_subject_key = ''crawl_id'',
     rc_headline = (\<lambda>rep. bindE (length_of rep ''gaps'') (\<lambda>n.
       Inr [(''keywords'', dget rep ''keywords''), (''covered'', dget rep ''covered''), (''coverage'', dget rep ''coverage''),
            (''gaps'', JInt n)]))\<rparr>"

definition run_content_analysis ::
  "contracts \<Rightarrow> runtime \<Rightarrow> unicode \<Rightarrow> upstream \<Rightarrow> 's updater \<Rightarrow> bool \<Rightarrow> string \<Rightarrow> dict \<Rightarrow> string option \<Rightarrow> string option \<Rightarrow>
     string option \<Rightarrow> (nat \<Rightarrow> string) \<Rightarrow> 's \<Rightarrow> job_record py \<times> (string \<times> dict) list \<times> 's" where
  "run_content_analysis C R U up = run_job C (content_service R U up)"

definition content_handle ::
  "contracts \<Rightarrow> runtime \<Rightarrow> unicode \<Rightarrow> upstream \<Rightarrow> 's creator \<Rightarrow> 's getter \<Rightarrow> 's updater \<Rightarrow> bool \<Rightarrow>
     delivery \<Rightarrow> string \<Rightarrow> (nat \<Rightarrow> string) \<Rightarrow> 's worker \<Rightarrow> unit py \<times> 's worker" where
  "content_handle C R U up = handle C (content_service R U up)"

definition create_content_analysis ::
  "'s creator \<Rightarrow> string \<Rightarrow> string \<Rightarrow> string \<Rightarrow> string option \<Rightarrow> string option \<Rightarrow> 's \<Rightarrow> reply \<times> dict option \<times> 's" where
  "create_content_analysis create new_id crawl_id research_id tenant_id project_id =
     accept_route ''analysis_id'' ''/v1/content-analyses/'' create new_id crawl_id tenant_id project_id
       [(''crawl_id'', JStr crawl_id), (''research_id'', JStr research_id)]"

definition get_content_analysis :: "'s getter \<Rightarrow> string \<Rightarrow> string option \<Rightarrow> 's \<Rightarrow> reply \<times> 's" where
  "get_content_analysis = get_route content_record ''analysis''"

definition list_content_analyses :: "'s lister \<Rightarrow> nat \<Rightarrow> string option \<Rightarrow> 's \<Rightarrow> reply" where
  "list_content_analyses = list_route content_record"

subsection \<open>Internal links\<close>

definition links_record :: record_class where
  "links_record = \<lparr>rc_id_key = ''analysis_id'', rc_subject_key = ''crawl_id'',
     rc_headline = (\<lambda>rep. bindE (length_of rep ''orphans'') (\<lambda>n.
       Inr [(''pages'', dget rep ''pages''), (''internal_links'', dget rep ''internal_links''), (''orphans'', JInt n)]))\<rparr>"

definition run_link_analysis ::
  "contracts \<Rightarrow> runtime \<Rightarrow> (string list \<Rightarrow> string list) \<Rightarrow> http \<Rightarrow> string \<Rightarrow> 's updater \<Rightarrow> bool \<Rightarrow> string \<Rightarrow> dict \<Rightarrow>
     string option \<Rightarrow> string option \<Rightarrow> string option \<Rightarrow> (nat \<Rightarrow> string) \<Rightarrow> 's \<Rightarrow>
     job_record py \<times> (string \<times> dict) list \<times> 's" where
  "run_link_analysis C R order http crawl_url = run_job C (links_service R order http crawl_url)"

definition links_handle ::
  "contracts \<Rightarrow> runtime \<Rightarrow> (string list \<Rightarrow> string list) \<Rightarrow> http \<Rightarrow> string \<Rightarrow> 's creator \<Rightarrow> 's getter \<Rightarrow> 's updater \<Rightarrow> bool \<Rightarrow>
     delivery \<Rightarrow> string \<Rightarrow> (nat \<Rightarrow> string) \<Rightarrow> 's worker \<Rightarrow> unit py \<times> 's worker" where
  "links_handle C R order http crawl_url = handle C (links_service R order http crawl_url)"

definition create_link_analysis ::
  "'s creator \<Rightarrow> string \<Rightarrow> string \<Rightarrow> string option \<Rightarrow> string option \<Rightarrow> 's \<Rightarrow> reply \<times> dict option \<times> 's" where
  "create_link_analysis create new_id crawl_id tenant_id project_id =
     accept_route ''analysis_id'' ''/v1/link-analyses/'' create new_id crawl_id tenant_id project_id
       [(''crawl_id'', JStr crawl_id)]"

definition get_link_analysis :: "'s getter \<Rightarrow> string \<Rightarrow> string option \<Rightarrow> 's \<Rightarrow> reply \<times> 's" where
  "get_link_analysis = get_route links_record ''analysis''"

definition list_link_analyses :: "'s lister \<Rightarrow> nat \<Rightarrow> string option \<Rightarrow> 's \<Rightarrow> reply" where
  "list_link_analyses = list_route links_record"

subsection \<open>Competitors\<close>

definition MAX_COMPARED :: nat where "MAX_COMPARED = 8"

definition comparison_record :: record_class where
  "comparison_record = \<lparr>rc_id_key = ''comparison_id'', rc_subject_key = ''crawl_id'',
     rc_headline = (\<lambda>rep. bindE (length_of rep ''behind_on'') (\<lambda>b. bindE (length_of rep ''missing_themes'') (\<lambda>m.
       Inr [(''compared_against'', dget rep ''compared_against''), (''behind_on'', JInt b), (''missing_themes'', JInt m)])))\<rparr>"

text \<open>\<^verbatim>\<open>_distinct\<close>: empty ids are dropped, duplicates too, the order stays.\<close>

definition distinct_ids :: "string list \<Rightarrow> string list" where
  "distinct_ids ids = dedupe (filter (\<lambda>i. i \<noteq> []) ids)"

definition competitor_ids :: "dict \<Rightarrow> string list py" where
  "competitor_ids payload =
     bindE (bindE (ditem payload ''competitor_crawl_ids'') as_list) (\<lambda>rows.
     bindE (mapE read_text rows) (\<lambda>ids. Inr (distinct_ids ids)))"

text \<open>A rival whose crawl is unknown is set aside; any other failure ends the comparison.\<close>

fun fetch_rivals :: "upstream \<Rightarrow> string option \<Rightarrow> string list \<Rightarrow> (json list \<times> json list) py" where
  "fetch_rivals up tenant_id [] = Inr ([], [])"
| "fetch_rivals up tenant_id (i # ids) =
     (case fetch_crawl up i tenant_id of
        Inr rep \<Rightarrow> bindE (fetch_rivals up tenant_id ids) (\<lambda>(theirs, gone). Inr (rep # theirs, gone))
      | Inl (UnknownRecord m) \<Rightarrow>
          bindE (fetch_rivals up tenant_id ids) (\<lambda>(theirs, gone).
            Inr (theirs, JObj [(''crawl_id'', JStr i), (''error'', JStr m)] # gone))
      | Inl e \<Rightarrow> Inl e)"

definition comparison_work ::
  "runtime \<Rightarrow> unicode \<Rightarrow> upstream \<Rightarrow> string option \<Rightarrow> dict \<Rightarrow> dict py" where
  "comparison_work R U up tenant_id request =
     bindE (competitor_ids request) (\<lambda>ids.
     bindE (fetch_crawl up (py_str R (dget request ''crawl_id'')) tenant_id) (\<lambda>mine.
     bindE (fetch_rivals up tenant_id ids) (\<lambda>(theirs, gone).
     bindE (compare_sites R U mine theirs) (\<lambda>rep. Inr (dset rep ''unavailable'' (JList gone))))))"

definition compared_payload ::
  "string \<Rightarrow> json \<Rightarrow> string list \<Rightarrow> dict \<Rightarrow> string \<Rightarrow> string option \<Rightarrow> dict py" where
  "compared_payload comparison_id crawl_id ids rep status error =
     bindE (length_of rep ''missing_themes'') (\<lambda>n.
     bindE (bindE (jtake 10 (py_or (dget rep ''missing_themes'') (JList []))) as_list) (\<lambda>rows.
     bindE (mapE (\<lambda>row. bindE (as_dict row) (\<lambda>d. ditem d ''term'')) rows) (\<lambda>top.
       Inr [(''comparison_id'', JStr comparison_id), (''crawl_id'', crawl_id),
            (''competitor_crawl_ids'', JList (map JStr (take MAX_COMPARED ids))),
            (''status'', JStr status), (''error'', opt_json error),
            (''compared_against'', dget_default rep ''compared_against'' (JInt 0)),
            (''behind_on'', py_or (dget rep ''behind_on'') (JList [])),
            (''ahead_on'', py_or (dget rep ''ahead_on'') (JList [])),
            (''missing_theme_count'', JInt n), (''top_missing_themes'', JList top),
            (''result_url'', JStr (''/v1/comparisons/'' @ comparison_id))])))"

definition competitor_service :: "runtime \<Rightarrow> unicode \<Rightarrow> upstream \<Rightarrow> service" where
  "competitor_service R U up =
     \<lparr>sv_name = ''competitor-service'', sv_request = ''competitor.comparison_requested'', sv_id_field = ''comparison_id'',
      sv_early = (\<lambda>payload. bindE (ditem payload ''crawl_id'') (\<lambda>_. bindE (competitor_ids payload) (\<lambda>_. Inr ()))),
      sv_subject = (\<lambda>payload. ditem payload ''crawl_id''),
      sv_begin = (\<lambda>_. Inr ()),
      sv_work = comparison_work R U up,
      sv_outgoing = (\<lambda>job request rep status error.
         bindE (competitor_ids request) (\<lambda>ids.
         bindE (compared_payload job (dget request ''crawl_id'') ids rep status error) (\<lambda>payload.
           Inr [(''competitor.compared'', payload)])))\<rparr>"

definition run_comparison ::
  "contracts \<Rightarrow> runtime \<Rightarrow> unicode \<Rightarrow> upstream \<Rightarrow> 's updater \<Rightarrow> bool \<Rightarrow> string \<Rightarrow> dict \<Rightarrow>
     string option \<Rightarrow> string option \<Rightarrow> string option \<Rightarrow> (nat \<Rightarrow> string) \<Rightarrow> 's \<Rightarrow>
     job_record py \<times> (string \<times> dict) list \<times> 's" where
  "run_comparison C R U up = run_job C (competitor_service R U up)"

definition competitor_handle ::
  "contracts \<Rightarrow> runtime \<Rightarrow> unicode \<Rightarrow> upstream \<Rightarrow> 's creator \<Rightarrow> 's getter \<Rightarrow> 's updater \<Rightarrow> bool \<Rightarrow>
     delivery \<Rightarrow> string \<Rightarrow> (nat \<Rightarrow> string) \<Rightarrow> 's worker \<Rightarrow> unit py \<times> 's worker" where
  "competitor_handle C R U up = handle C (competitor_service R U up)"

definition create_comparison ::
  "'s creator \<Rightarrow> string \<Rightarrow> string \<Rightarrow> string list \<Rightarrow> string option \<Rightarrow> string option \<Rightarrow> 's \<Rightarrow> reply \<times> dict option \<times> 's" where
  "create_comparison create new_id crawl_id rival_ids tenant_id project_id s =
     (let ids = distinct_ids rival_ids in
      if crawl_id \<in> set ids then (HTTPException 422 ''a site cannot be its own competitor'', None, s)
      else accept_route ''comparison_id'' ''/v1/comparisons/'' create new_id crawl_id tenant_id project_id
             [(''crawl_id'', JStr crawl_id), (''competitor_crawl_ids'', JList (map JStr ids))] s)"

definition get_comparison :: "'s getter \<Rightarrow> string \<Rightarrow> string option \<Rightarrow> 's \<Rightarrow> reply \<times> 's" where
  "get_comparison = get_route comparison_record ''comparison''"

definition list_comparisons :: "'s lister \<Rightarrow> nat \<Rightarrow> string option \<Rightarrow> 's \<Rightarrow> reply" where
  "list_comparisons = list_route comparison_record"

subsection \<open>Rewrites\<close>

definition DEFAULT_PAGES :: int where "DEFAULT_PAGES = 5"

definition plan_record :: record_class where
  "plan_record = \<lparr>rc_id_key = ''plan_id'', rc_subject_key = ''crawl_id'',
     rc_headline = (\<lambda>rep. Inr [(''pages_with_fixes'', dget rep ''pages_with_fixes''), (''fixes'', dget rep ''fixes''),
       (''written_by'', dget rep ''written_by'')])\<rparr>"

text \<open>A plan can do without the keyword study: one that is missing or not ready is taken as empty.\<close>

definition optional_research :: "runtime \<Rightarrow> upstream \<Rightarrow> json \<Rightarrow> string option \<Rightarrow> json py" where
  "optional_research R up research_id tenant_id =
     (if \<not> truthy research_id then Inr (JObj [])
      else (case fetch_research up (py_str R research_id) tenant_id of
              Inr res \<Rightarrow> Inr res
            | Inl (ReportUnavailable _) \<Rightarrow> Inr (JObj [])
            | Inl (UnknownRecord _) \<Rightarrow> Inr (JObj [])
            | Inl e \<Rightarrow> Inl e))"

definition plan_work :: "runtime \<Rightarrow> unicode \<Rightarrow> sdk \<Rightarrow> upstream \<Rightarrow> string option \<Rightarrow> dict \<Rightarrow> dict py" where
  "plan_work R U A up tenant_id request =
     bindE (py_int (py_or (dget request ''pages'') (JInt DEFAULT_PAGES))) (\<lambda>limit.
     bindE (fetch_crawl up (py_str R (dget request ''crawl_id'')) tenant_id) (\<lambda>crawl.
     bindE (optional_research R up (dget request ''research_id'') tenant_id) (\<lambda>research.
     bindE (as_dict crawl) (\<lambda>rep. bindE (as_dict research) (\<lambda>res.
     bindE (propose R U rep res limit) (\<lambda>r.
     bindE (rewrite R U A (slice_to limit (or_plans r))) (\<lambda>plans. Inr (optimizer_report r plans))))))))"

definition planned_payload :: "string \<Rightarrow> json \<Rightarrow> dict \<Rightarrow> string \<Rightarrow> string option \<Rightarrow> dict py" where
  "planned_payload plan_id crawl_id rep status error =
     bindE (bindE (jtake 10 (py_or (dget rep ''plans'') (JList []))) as_list) (\<lambda>rows.
     bindE (mapE (\<lambda>row. bindE (as_dict row) (\<lambda>d. bindE (ditem d ''url'') (\<lambda>u. bindE (bindE (ditem d ''fixes'') jlen) (\<lambda>n.
              Inr (JObj [(''url'', u), (''fixes'', JInt n)]))))) rows) (\<lambda>top.
       Inr [(''plan_id'', JStr plan_id), (''crawl_id'', crawl_id), (''status'', JStr status), (''error'', opt_json error),
            (''pages_examined'', dget_default rep ''pages_examined'' (JInt 0)),
            (''pages_with_fixes'', dget_default rep ''pages_with_fixes'' (JInt 0)),
            (''fixes'', dget_default rep ''fixes'' (JInt 0)),
            (''written_by'', dget_default rep ''written_by'' (JStr ''rules'')),
            (''pages'', JList top), (''result_url'', JStr (''/v1/optimizer-plans/'' @ plan_id))]))"

definition optimizer_service ::
  "runtime \<Rightarrow> unicode \<Rightarrow> sdk \<Rightarrow> upstream \<Rightarrow> service" where
  "optimizer_service R U A up =
     \<lparr>sv_name = ''optimizer-service'', sv_request = ''optimizer.plan_requested'', sv_id_field = ''plan_id'',
      sv_early = (\<lambda>payload. bindE (ditem payload ''crawl_id'') (\<lambda>_.
         bindE (py_int (py_or (dget payload ''pages'') (JInt DEFAULT_PAGES))) (\<lambda>_. Inr ()))),
      sv_subject = (\<lambda>payload. ditem payload ''crawl_id''),
      sv_begin = (\<lambda>_. Inr ()),
      sv_work = plan_work R U A up,
      sv_outgoing = (\<lambda>job request rep status error.
         bindE (planned_payload job (dget request ''crawl_id'') rep status error) (\<lambda>payload.
           Inr [(''optimizer.planned'', payload)]))\<rparr>"

definition run_plan ::
  "contracts \<Rightarrow> runtime \<Rightarrow> unicode \<Rightarrow> sdk \<Rightarrow> upstream \<Rightarrow> 's updater \<Rightarrow> bool \<Rightarrow>
     string \<Rightarrow> dict \<Rightarrow> string option \<Rightarrow> string option \<Rightarrow> string option \<Rightarrow> (nat \<Rightarrow> string) \<Rightarrow> 's \<Rightarrow>
     job_record py \<times> (string \<times> dict) list \<times> 's" where
  "run_plan C R U A up = run_job C (optimizer_service R U A up)"

definition optimizer_handle ::
  "contracts \<Rightarrow> runtime \<Rightarrow> unicode \<Rightarrow> sdk \<Rightarrow> upstream \<Rightarrow> 's creator \<Rightarrow> 's getter \<Rightarrow>
     's updater \<Rightarrow> bool \<Rightarrow> delivery \<Rightarrow> string \<Rightarrow> (nat \<Rightarrow> string) \<Rightarrow> 's worker \<Rightarrow> unit py \<times> 's worker" where
  "optimizer_handle C R U A up = handle C (optimizer_service R U A up)"

definition create_plan ::
  "'s creator \<Rightarrow> string \<Rightarrow> string \<Rightarrow> string option \<Rightarrow> int \<Rightarrow> string option \<Rightarrow> string option \<Rightarrow> 's \<Rightarrow>
     reply \<times> dict option \<times> 's" where
  "create_plan create new_id crawl_id research_id limit tenant_id project_id =
     accept_route ''plan_id'' ''/v1/optimizer-plans/'' create new_id crawl_id tenant_id project_id
       [(''crawl_id'', JStr crawl_id), (''research_id'', opt_json research_id), (''pages'', JInt limit)]"

definition get_plan :: "'s getter \<Rightarrow> string \<Rightarrow> string option \<Rightarrow> 's \<Rightarrow> reply \<times> 's" where
  "get_plan = get_route plan_record ''plan''"

definition list_plans :: "'s lister \<Rightarrow> nat \<Rightarrow> string option \<Rightarrow> 's \<Rightarrow> reply" where
  "list_plans = list_route plan_record"

end
