(* ===== verification/Service_Properties.thy ===== *)
theory Service_Properties
  imports Services Engine
begin

text \<open>
  Properties of the services as a whole: what their HTTP routes give away and accept, that their record
  files can be read back, and that the orchestrator hears of every failure.
\<close>

subsection \<open>Reading over HTTP\<close>

text \<open>The seven routes that show one job.\<close>

definition read_routes :: "('s getter \<Rightarrow> string \<Rightarrow> string option \<Rightarrow> 's \<Rightarrow> reply \<times> 's) list" where
  "read_routes = [get_crawl, get_research, get_check, get_content_analysis, get_link_analysis, get_comparison, get_plan]"

lemmas read_route_defs = get_crawl_def get_research_def get_check_def get_content_analysis_def
  get_link_analysis_def get_comparison_def get_plan_def

lemma read_routes_shape: "route \<in> set read_routes \<Longrightarrow> \<exists>rc what. route = get_route rc what"
  by (auto simp: read_routes_def read_route_defs)

definition not_theirs :: "job_record option \<Rightarrow> string \<Rightarrow> bool" where
  "not_theirs r tenant \<longleftrightarrow> (case r of None \<Rightarrow> True | Some rec \<Rightarrow> j_tenant_id rec \<noteq> Some tenant)"



subsection \<open>Accepting over HTTP\<close>

text \<open>A comparison of a site with itself is refused before anything is stored, and one that is
  accepted goes to the background with at least the rivals it was asked for, each once and none of
  them blank, while its job waits, queued, for the tenant that asked, and no other job changed.\<close>

lemma comparison_accepted_or_refused:
  assumes "pg_inv s" and "pg_view isof s new_id = None"
    and "create_comparison (pg_create isof) new_id crawl_id asked t p s = (rep, task, s')"
  shows "(crawl_id \<in> set asked \<and> crawl_id \<noteq> [] \<longrightarrow>
            rep = HTTPException 422 ''a site cannot be its own competitor'' \<and> task = None \<and> s' = s) \<and>
         (\<forall>request. task = Some request \<longrightarrow>
            competitor_ids request = Inr (distinct_ids asked) \<and>
            set (distinct_ids asked) = set asked - {[]} \<and> distinct (distinct_ids asked) \<and>
            (\<exists>r. pg_view isof s' = (pg_view isof s)(new_id \<mapsto> r) \<and> j_status r = J_Queued \<and> j_tenant_id r = t)) \<and>
         (task = None \<longrightarrow> s' = s)"
proof -
  let ?ids = "distinct_ids asked"
  have ids: "set ?ids = set asked - {[]}" "distinct ?ids" by (auto simp: distinct_ids_def)
  have again: "distinct_ids ?ids = ?ids"
    unfolding distinct_ids_def by (simp add: filter_id_conv dedupe_distinct)
  have texts: "mapE read_text (map JStr xs) = Inr xs" for xs by (induction xs) simp_all
  show ?thesis
  proof (cases "crawl_id \<in> set ?ids")
    case True
    with assms(3) ids show ?thesis by (auto simp: create_comparison_def Let_def)
  next
    case False
    with assms(3) have a: "accept_route ''comparison_id'' ''/v1/comparisons/'' (pg_create isof) new_id crawl_id t p
        [(''crawl_id'', JStr crawl_id), (''competitor_crawl_ids'', JList (map JStr ?ids))] s = (rep, task, s')"
      by (simp add: create_comparison_def Let_def)
    from pg.accept_route_stores [OF assms(1,2) a] False ids show ?thesis
      by (auto simp: competitor_ids_def ditem_def texts again new_record_def)
  qed
qed

subsection \<open>Record files\<close>

text \<open>A job written to its file by one of the services is the job read back from it, whatever the
  service's own names for the id and the subject are; only an empty id or subject is not read back, and
  is a missing key.\<close>

lemma service_record_round_trip:
  "(j_id r \<noteq> [] \<and> j_subject r \<noteq> [] \<longrightarrow> rec_from_dict rc (to_storage r) = Inr r) \<and>
   (rc \<in> {crawl_record, research_record, check_record, content_record, links_record, comparison_record, plan_record} \<and>
      j_id r \<noteq> [] \<and> j_subject r = [] \<longrightarrow> rec_from_dict rc (to_storage r) = Inl (KeyError (rc_subject_key rc)))"
proof (intro conjI impI)
  show "rec_from_dict rc (to_storage r) = Inr r" if "j_id r \<noteq> [] \<and> j_subject r \<noteq> []"
    using that by (simp add: rec_round_trip)
  assume a: "rc \<in> {crawl_record, research_record, check_record, content_record, links_record, comparison_record, plan_record} \<and>
      j_id r \<noteq> [] \<and> j_subject r = []"
  then have "map_of (to_storage r) (rc_subject_key rc) = None"
    by (auto simp: to_storage_def crawl_record_def research_record_def check_record_def content_record_def
        links_record_def comparison_record_def plan_record_def)
  with a show "rec_from_dict rc (to_storage r) = Inl (KeyError (rc_subject_key rc))"
    by (simp add: rec_from_dict_def get_or_item_def ditem_def) (simp add: to_storage_def)
qed

subsection \<open>Failures reach the orchestrator\<close>

text \<open>A service that failed builds its events from the empty report; one of them must tell the orchestrator.\<close>

definition tells_failure :: "service \<Rightarrow> dict \<Rightarrow> string \<Rightarrow> string \<Rightarrow> bool" where
  "tells_failure sv request job err \<longleftrightarrow>
     (case sv_outgoing sv job request [] ''failed'' (Some err) of
        Inl _ \<Rightarrow> False
      | Inr out \<Rightarrow> list_ex (\<lambda>(ev, p).
          (case completion_update ev p of
             Inl _ \<Rightarrow> False
           | Inr (j, status, _, e) \<Rightarrow> j = job \<and> status = Failed \<and> e = Some err)) out)"

lemmas completion_simps = completion_update_def COMPLETIONS_def step_result_def pick_head_def Let_def py_or_def

text \<open>C16: no failure is lost on the way to the orchestrator. For each of the seven services, when the work of
  a job failed with some message, the completion event can be built although there is no report, and the
  engine reads from it that this very job failed and why.\<close>

theorem failure_reaches_orchestrator:
  assumes "job \<noteq> []"
  shows "(map_of request ''start_url'' = Some u \<longrightarrow> tells_failure (crawl_service uuid5 crawler) request job err) \<and>
         (map_of request ''seed'' = Some seed \<longrightarrow> tells_failure (keyword_service research) request job err) \<and>
         (map_of request ''target_domain'' = Some dmn \<longrightarrow> tells_failure (serp_service prov def) request job err) \<and>
         tells_failure (content_service R U up) request job err \<and>
         tells_failure (links_service R order http url) request job err \<and>
         (competitor_ids request = Inr ids \<longrightarrow> tells_failure (competitor_service R U up) request job err) \<and>
         tells_failure (optimizer_service R U A up) request job err"
proof (intro conjI impI)
  show "tells_failure (crawl_service uuid5 crawler) request job err" if "map_of request ''start_url'' = Some u"
    using assms that
    by (simp add: tells_failure_def crawl_service_def ditem_def crawl_completed_payload_def completion_simps dget_default_def)
  show "tells_failure (keyword_service research) request job err" if "map_of request ''seed'' = Some seed"
    using assms that
    by (simp add: tells_failure_def keyword_service_def ditem_def researched_payload_def completion_simps dget_default_def)
  show "tells_failure (serp_service prov def) request job err" if "map_of request ''target_domain'' = Some dmn"
    using assms that
    by (simp add: tells_failure_def serp_service_def ditem_def checked_payload_def completion_simps dget_default_def)
  show "tells_failure (content_service R U up) request job err"
    using assms
    by (simp add: tells_failure_def content_service_def analyzed_payload_def completion_simps dget_default_def)
  show "tells_failure (links_service R order http url) request job err"
    using assms
    by (simp add: tells_failure_def links_service_def links_payload_def length_of_def completion_simps dget_default_def)
  show "tells_failure (competitor_service R U up) request job err" if "competitor_ids request = Inr ids"
    using assms that
    by (simp add: tells_failure_def competitor_service_def compared_payload_def length_of_def completion_simps dget_default_def)
  show "tells_failure (optimizer_service R U A up) request job err"
    using assms
    by (simp add: tells_failure_def optimizer_service_def planned_payload_def completion_simps dget_default_def)
qed

theorem failure_reaches_orchestrator_witness:
  "tells_failure (crawl_service (\<lambda>_. Inr ''p'') (\<lambda>_. Inr [])) [(''start_url'', JStr ''https://a.com/'')] ''j'' ''Timeout: slow''"
  using failure_reaches_orchestrator
    [of "''j''" "[(''start_url'', JStr ''https://a.com/'')]" "JStr ''https://a.com/''" "\<lambda>_. Inr ''p''" "\<lambda>_. Inr []"]
  by simp

end
