(* ===== verification/Notifications.thy ===== *)
theory Notifications
  imports Netguard Service_Http Upstream Optimizer
begin

text \<open>
  The notifications service, \<^verbatim>\<open>src/services/notifications\<close>: what is sent for an event (\<^verbatim>\<open>deliver.py\<close>), the two
  transports (\<^verbatim>\<open>channels.py\<close>), the channels and deliveries in Postgres (\<^verbatim>\<open>store.py\<close>), the worker and the routes.
  The network, the mail server, HMAC and \<^verbatim>\<open>json.dumps\<close> are fields of \<open>transport\<close>.
\<close>

subsection \<open>Channels and deliveries\<close>

record channel =
  ch_id :: string
  ch_tenant_id :: "string option"
  ch_project_id :: "string option"
  ch_kind :: string
  ch_target :: string
  ch_events :: "string list"
  ch_active :: bool
  ch_secret :: "string option"
  ch_created_at :: int

definition channel_to_dict :: "(int \<Rightarrow> string) \<Rightarrow> bool \<Rightarrow> channel \<Rightarrow> dict" where
  "channel_to_dict isof reveal_secret c =
     [(''id'', JStr (ch_id c)), (''kind'', JStr (ch_kind c)), (''target'', JStr (ch_target c)),
      (''events'', JList (map JStr (ch_events c))), (''active'', JBool (ch_active c)),
      (''secret'', if reveal_secret then opt_json (ch_secret c) else JNull),
      (''has_secret'', JBool (truthy (opt_json (ch_secret c)))), (''created_at'', JStr (isof (ch_created_at c)))]"

datatype delivery_status = Sending | Sent | Send_Failed

fun delivery_status_name :: "delivery_status \<Rightarrow> string" where
  "delivery_status_name Sending = ''sending''"
| "delivery_status_name Sent = ''sent''"
| "delivery_status_name Send_Failed = ''failed''"

record delivery_row =
  dv_id :: string
  dv_channel_id :: string
  dv_event_id :: string
  dv_event_type :: string
  dv_status :: delivery_status
  dv_http_status :: "int option"
  dv_error :: "string option"
  dv_attempts :: nat
  dv_created_at :: int

record note_db =
  nd_channels :: "channel list"
  nd_deliveries :: "delivery_row list"
  nd_tenants :: "string list"
  nd_projects :: "string list"
  nd_now :: int

definition of_pair :: "string \<Rightarrow> string \<Rightarrow> delivery_row \<Rightarrow> bool" where
  "of_pair channel_id event_id r \<longleftrightarrow> dv_channel_id r = channel_id \<and> dv_event_id r = event_id"

definition visible_channel :: "string \<Rightarrow> string option \<Rightarrow> channel \<Rightarrow> bool" where
  "visible_channel channel_id tenant_id c \<longleftrightarrow>
     ch_id c = channel_id \<and> (case tenant_id of None \<Rightarrow> True | Some t \<Rightarrow> ch_tenant_id c = Some t)"

definition get_channel :: "string \<Rightarrow> string option \<Rightarrow> note_db \<Rightarrow> channel option" where
  "get_channel channel_id tenant_id db = first_where (visible_channel channel_id tenant_id) (nd_channels db)"

definition add_channel ::
  "string \<Rightarrow> string \<Rightarrow> string \<Rightarrow> string option \<Rightarrow> string option \<Rightarrow> string list \<Rightarrow> string option \<Rightarrow> note_db \<Rightarrow>
     channel option py \<times> note_db" where
  "add_channel new_id kind target tenant_id project_id events secret db =
     (if set_option tenant_id \<subseteq> set (nd_tenants db) \<and> set_option project_id \<subseteq> set (nd_projects db) then
        (if new_id \<in> ch_id ` set (nd_channels db) then (Inl UniqueViolation, db)
         else if kind \<notin> {''webhook'', ''email''} then (Inl CheckViolation, db)
         else
           (let db' = db\<lparr>nd_channels := nd_channels db @
                  [\<lparr>ch_id = new_id, ch_tenant_id = tenant_id, ch_project_id = project_id, ch_kind = kind, ch_target = target,
                    ch_events = events, ch_active = True, ch_secret = secret, ch_created_at = nd_now db\<rparr>]\<rparr>
            in (Inr (get_channel new_id tenant_id db'), db')))
      else (Inl (UnknownTenant ''unknown tenant_id or project_id''), db))"

text \<open>\<^verbatim>\<open>IS NOT DISTINCT FROM\<close>: the channels of nobody for no tenant.\<close>

definition channels_for :: "string option \<Rightarrow> note_db \<Rightarrow> channel list" where
  "channels_for tenant_id db = sort_key ch_created_at (filter (\<lambda>c. ch_tenant_id c = tenant_id) (nd_channels db))"

text \<open>The deliveries of a deleted channel go with it.\<close>

definition delete_channel :: "string \<Rightarrow> string option \<Rightarrow> note_db \<Rightarrow> bool \<times> note_db" where
  "delete_channel channel_id tenant_id db =
     (if list_ex (visible_channel channel_id tenant_id) (nd_channels db)
      then (True, db\<lparr>nd_channels := filter (\<lambda>c. \<not> visible_channel channel_id tenant_id c) (nd_channels db),
                     nd_deliveries := filter (\<lambda>r. dv_channel_id r \<noteq> channel_id) (nd_deliveries db)\<rparr>)
      else (False, db))"

definition claim :: "string \<Rightarrow> string \<Rightarrow> string \<Rightarrow> string \<Rightarrow> note_db \<Rightarrow> bool py \<times> note_db" where
  "claim new_id channel_id event_id event_type db =
     (if list_ex (of_pair channel_id event_id) (nd_deliveries db) then (Inr False, db)
      else if channel_id \<notin> ch_id ` set (nd_channels db) then (Inl ForeignKeyViolation, db)
      else (Inr True, db\<lparr>nd_deliveries := nd_deliveries db @
              [\<lparr>dv_id = new_id, dv_channel_id = channel_id, dv_event_id = event_id, dv_event_type = event_type,
                dv_status = Sending, dv_http_status = None, dv_error = None, dv_attempts = 0, dv_created_at = nd_now db\<rparr>]\<rparr>))"

definition finish_delivery :: "string \<Rightarrow> string \<Rightarrow> bool \<Rightarrow> int option \<Rightarrow> string option \<Rightarrow> note_db \<Rightarrow> note_db" where
  "finish_delivery channel_id event_id ok status error db =
     db\<lparr>nd_deliveries := update_where (of_pair channel_id event_id)
          (\<lambda>r. r\<lparr>dv_status := (if ok then Sent else Send_Failed), dv_http_status := status, dv_error := error,
                 dv_attempts := Suc (dv_attempts r)\<rparr>) (nd_deliveries db)\<rparr>"

definition release :: "string \<Rightarrow> string \<Rightarrow> note_db \<Rightarrow> note_db" where
  "release channel_id event_id db =
     db\<lparr>nd_deliveries := filter (\<lambda>r. \<not> of_pair channel_id event_id r) (nd_deliveries db)\<rparr>"

definition fa_subject_report :: string where
"fa_subject_report = utf8 [218, 175, 216, 178, 216, 167, 216, 177, 216, 180, 32, 216, 179,
    216, 166, 217, 136, 219, 140, 32, 216, 180, 217, 133, 216, 167, 32, 216, 162, 217, 133,
    216, 167, 216, 175, 217, 135, 32, 216, 167, 216, 179, 216, 170]"

definition fa_subject_score :: string where
"fa_subject_score = utf8 [216, 170, 216, 173, 217, 132, 219, 140, 217, 132, 32, 216, 179,
    216, 166, 217, 136, 32, 216, 170, 217, 133, 216, 167, 217, 133, 32, 216, 180, 216, 175,
    32, 226, 128, 148, 32, 216, 167, 217, 133, 216, 170, 219, 140, 216, 167, 216, 178, 32]"

definition fa_subject_plain :: string where
"fa_subject_plain = utf8 [216, 170, 216, 173, 217, 132, 219, 140, 217, 132, 32, 216, 179,
    216, 166, 217, 136, 32, 216, 170, 217, 133, 216, 167, 217, 133, 32, 216, 180, 216, 175]"

definition fa_text_score_a :: string where
"fa_text_score_a = utf8 [216, 167, 217, 133, 216, 170, 219, 140, 216, 167, 216, 178, 32,
    218, 169, 217, 132, 219, 140, 58, 32]"

definition fa_text_score_b :: string where
"fa_text_score_b = utf8 [32, 216, 167, 216, 178, 32, 219, 177, 219, 176, 219, 176]"

definition fa_text_issues :: string where
"fa_text_issues = utf8 [216, 170, 216, 185, 216, 175, 216, 167, 216, 175, 32, 216, 167, 219,
    140, 216, 177, 216, 167, 216, 175, 217, 135, 216, 167, 58, 32]"

definition fa_text_ai :: string where
"fa_text_ai = utf8 [216, 174, 217, 132, 216, 167, 216, 181, 217, 135, 58, 32, 217, 134, 217,
    136, 216, 180, 216, 170, 217, 135, 226, 128, 140, 219, 140, 32, 217, 133, 216, 175, 217,
    132]"

definition fa_text_rules :: string where
"fa_text_rules = utf8 [216, 174, 217, 132, 216, 167, 216, 181, 217, 135, 58, 32, 217, 130,
    216, 167, 217, 134, 217, 136, 217, 134, 226, 128, 140, 217, 133, 216, 173, 217, 136,
    216, 177]"

definition fa_text_link :: string where
"fa_text_link = utf8 [218, 175, 216, 178, 216, 167, 216, 177, 216, 180, 32, 218, 169, 216,
    167, 217, 133, 217, 132, 58, 32]"

definition fa_text_sign :: string where
"fa_text_sign = utf8 [226, 128, 148, 32, 216, 167, 219, 140, 216, 172, 217, 134, 216, 170,
    32, 216, 179, 216, 166, 217, 136]"

definition fa_ellipsis :: string where
"fa_ellipsis = utf8 [226, 128, 166]"

definition fa_test_title :: string where
"fa_test_title = utf8 [217, 190, 219, 140, 216, 167, 217, 133, 32, 216, 162, 216, 178, 217,
    133, 216, 167, 219, 140, 216, 180, 219, 140, 32, 216, 167, 216, 178, 32, 216, 167, 219,
    140, 216, 172, 217, 134, 216, 170, 32, 216, 179, 216, 166, 217, 136]"

text \<open>The first two characters of the name before an \<^verbatim>\<open>@\<close>, else what precedes the query.\<close>

definition mask :: "string \<Rightarrow> string" where
  "mask target =
     (if CHR ''@'' \<in> set target then
        encode (take 2 (code_points (fst (partition_at (CHR ''@'') target)))) @ fa_ellipsis @ ''@'' @
          snd (snd (partition_at (CHR ''@'') target))
      else takeWhile (\<lambda>c. c \<noteq> CHR ''?'') target)"

definition delivery_to_dict :: "(int \<Rightarrow> string) \<Rightarrow> delivery_row \<Rightarrow> channel \<Rightarrow> dict" where
  "delivery_to_dict isof d c =
     [(''id'', JStr (dv_id d)), (''channel_id'', JStr (dv_channel_id d)), (''kind'', JStr (ch_kind c)),
      (''target'', JStr (mask (ch_target c))), (''event_type'', JStr (dv_event_type d)), (''event_id'', JStr (dv_event_id d)),
      (''status'', JStr (delivery_status_name (dv_status d))), (''http_status'', opt_number (dv_http_status d)),
      (''error'', opt_json (dv_error d)), (''attempts'', JInt (int (dv_attempts d))), (''created_at'', JStr (isof (dv_created_at d)))]"

definition deliveries :: "(int \<Rightarrow> string) \<Rightarrow> string option \<Rightarrow> nat \<Rightarrow> note_db \<Rightarrow> dict list" where
  "deliveries isof tenant_id limit db =
     map (\<lambda>(d, c). delivery_to_dict isof d c)
       (take limit (sort_key (\<lambda>(d, c). - dv_created_at d)
         (concat (map (\<lambda>d. map (Pair d) (filter (\<lambda>c. ch_id c = dv_channel_id d \<and> ch_tenant_id c = tenant_id) (nd_channels db)))
            (nd_deliveries db)))))"

subsection \<open>What to send\<close>

definition SUBSCRIBABLE :: "string list" where
  "SUBSCRIBABLE = [''report.rendered'', ''workflow.completed'']"

definition RETRYABLE_STATUS :: "int list" where
  "RETRYABLE_STATUS = [408, 425, 429, 500, 502, 503, 504]"

definition wants_event :: "channel \<Rightarrow> string \<Rightarrow> bool" where
  "wants_event c event_type \<longleftrightarrow> ch_active c \<and> (ch_events c = [] \<or> event_type \<in> set (ch_events c))"

definition dedupe_key :: "string \<Rightarrow> string \<Rightarrow> string" where
  "dedupe_key channel_id event_id = channel_id @ '':'' @ event_id"

definition absolute :: "string \<Rightarrow> json \<Rightarrow> json py" where
  "absolute base_url path =
     (if \<not> truthy path then Inr JNull
      else if base_url = [] then Inr path
      else (case path of
              JStr p \<Rightarrow> Inr (JStr (if starts_with ''http://'' p \<or> starts_with ''https://'' p then p else rstrip_slash base_url @ p))
            | _ \<Rightarrow> Inl AttributeError))"

definition note_payload :: "string \<Rightarrow> string \<Rightarrow> dict \<Rightarrow> dict py" where
  "note_payload base_url event_type event =
     (let start = [(''event'', JStr event_type), (''workflow_id'', dget event ''workflow_id'')] in
      if event_type = ''report.rendered'' then
        bindE (absolute base_url (dget event ''document_url'')) (\<lambda>url.
          Inr (start @ [(''report_id'', dget event ''report_id''), (''title'', dget event ''title''), (''status'', dget event ''status''),
            (''summary_source'', dget event ''summary_source''), (''formats'', py_or (dget event ''formats'') (JList [])),
            (''document_url'', url)]))
      else
        (let headline = py_or (dget event ''headline'') (JObj []) in
         bindE (jget headline ''overall_score'') (\<lambda>score. bindE (jget headline ''total_issues'') (\<lambda>issues.
         bindE (absolute base_url (dget event ''result_url'')) (\<lambda>url.
           Inr (start @ [(''status'', dget event ''status''), (''goal'', dget event ''goal''), (''overall_score'', score),
             (''total_issues'', issues), (''result_url'', url)]))))))"

definition retryable_status :: "int option \<Rightarrow> bool" where
  "retryable_status status = (case status of None \<Rightarrow> True | Some n \<Rightarrow> n \<in> set RETRYABLE_STATUS)"

definition mail_subject :: "runtime \<Rightarrow> string \<Rightarrow> dict \<Rightarrow> json" where
  "mail_subject R event_type body =
     (if event_type = ''report.rendered'' then py_or (dget body ''title'') (JStr fa_subject_report)
      else if dget body ''overall_score'' \<noteq> JNull then JStr (fa_subject_score @ py_str R (dget body ''overall_score''))
      else JStr fa_subject_plain)"

text \<open>\<^verbatim>\<open>"\n".join(lines)\<close>; a title that is no text raises.\<close>

definition mail_text :: "runtime \<Rightarrow> string \<Rightarrow> dict \<Rightarrow> string py" where
  "mail_text R event_type body =
     bindE (read_text (mail_subject R event_type body)) (\<lambda>first.
       (let link = py_or (dget body ''document_url'') (dget body ''result_url'') in
        Inr (join_with [CHR 0x0A]
          ([first, []]
           @ (if dget body ''overall_score'' \<noteq> JNull
              then [fa_text_score_a @ py_str R (dget body ''overall_score'') @ fa_text_score_b] else [])
           @ (if dget body ''total_issues'' \<noteq> JNull then [fa_text_issues @ py_str R (dget body ''total_issues'')] else [])
           @ (if truthy (dget body ''summary_source'')
              then [if dget body ''summary_source'' = JStr ''ai'' then fa_text_ai else fa_text_rules] else [])
           @ (if truthy link then [[], fa_text_link @ py_str R link] else [])
           @ [[], fa_text_sign]))))"

subsection \<open>Transports\<close>

record transport =
  tp_dns :: resolver
  tp_allow_private :: string
  tp_dumps :: "json \<Rightarrow> string"
  tp_hmac :: "string \<Rightarrow> string \<Rightarrow> string"
  tp_post :: "string \<Rightarrow> string \<Rightarrow> (string \<times> string) list \<Rightarrow> string + int"
  tp_smtp_host :: "string option"
  tp_mail :: "string \<Rightarrow> string \<Rightarrow> string \<Rightarrow> string option"  \<comment> \<open>the exception, if any, for a target, a subject and a body\<close>

record send_result =
  sr_ok :: bool
  sr_status :: "int option"
  sr_error :: "string option"

definition signature :: "transport \<Rightarrow> string \<Rightarrow> string \<Rightarrow> string" where
  "signature T secret raw = ''sha256='' @ tp_hmac T secret raw"

definition USER_AGENT :: string where "USER_AGENT = ''SeoAgent-Notifications/1.0''"

definition send_webhook :: "transport \<Rightarrow> runtime \<Rightarrow> string \<Rightarrow> dict \<Rightarrow> string option \<Rightarrow> send_result" where
  "send_webhook T R target body secret =
     (case check_url (tp_dns T) (tp_allow_private T) target of
        Inl e \<Rightarrow> \<lparr>sr_ok = False, sr_status = None, sr_error = Some (''blocked target: '' @ exn_message e)\<rparr>
      | Inr _ \<Rightarrow>
          (let raw = tp_dumps T (JObj body);
               headers = [(''Content-Type'', ''application/json; charset=utf-8''), (''User-Agent'', USER_AGENT),
                          (''X-Seo-Event'', py_str R (dget_default body ''event'' (JStr [])))]
                 @ (case secret of None \<Rightarrow> [] | Some s \<Rightarrow> if s = [] then [] else [(''X-Seo-Signature'', signature T s raw)])
           in case tp_post T target raw headers of
                Inl e \<Rightarrow> \<lparr>sr_ok = False, sr_status = None, sr_error = Some e\<rparr>
              | Inr n \<Rightarrow> \<lparr>sr_ok = (n < 400), sr_status = Some n,
                            sr_error = (if n < 400 then None else Some (''HTTP '' @ show_int n))\<rparr>))"

text \<open>A header of a message takes a text without line breaks; anything else raises, outside of the guarded part.\<close>

definition header_text :: "json \<Rightarrow> string py" where
  "header_text j =
     bindE (read_text j) (\<lambda>s.
       if CHR 0x0A \<in> set s \<or> CHR 0x0D \<in> set s
       then Inl (ValueError ''Header values may not contain linefeed or carriage return characters'') else Inr s)"

definition send_email :: "transport \<Rightarrow> string \<Rightarrow> json \<Rightarrow> string \<Rightarrow> send_result py" where
  "send_email T target subj body =
     (if tp_smtp_host T = None \<or> tp_smtp_host T = Some []
      then Inr \<lparr>sr_ok = False, sr_status = None, sr_error = Some ''SMTP_HOST is not configured''\<rparr>
      else
        bindE (header_text (JStr target)) (\<lambda>recipient. bindE (header_text subj) (\<lambda>s.
          Inr (case tp_mail T recipient s body of
                 None \<Rightarrow> \<lparr>sr_ok = True, sr_status = None, sr_error = None\<rparr>
               | Some e \<Rightarrow> \<lparr>sr_ok = False, sr_status = None, sr_error = Some e\<rparr>))))"

definition send :: "transport \<Rightarrow> runtime \<Rightarrow> channel \<Rightarrow> string \<Rightarrow> dict \<Rightarrow> send_result py" where
  "send T R c event_type body =
     (if ch_kind c = ''webhook'' then Inr (send_webhook T R (ch_target c) body (ch_secret c))
      else if ch_kind c = ''email'' then
        bindE (mail_text R event_type body) (\<lambda>t. send_email T (ch_target c) (mail_subject R event_type body) t)
      else Inr \<lparr>sr_ok = False, sr_status = None, sr_error = Some (''unknown channel kind '' @ ch_kind c)\<rparr>)"

subsection \<open>The worker\<close>

record notifier =
  nt_transport :: transport
  nt_runtime :: runtime
  nt_base_url :: string

text \<open>
  One channel: claim, send, record the outcome, give the claim back when another attempt may help. The result
  says whether the transport took the message.
\<close>

definition notify_channel ::
  "notifier \<Rightarrow> string \<Rightarrow> string \<Rightarrow> string \<Rightarrow> dict \<Rightarrow> channel \<Rightarrow> note_db \<Rightarrow> bool py \<times> note_db" where
  "notify_channel N new_id event_id event_type body c db =
     (case claim new_id (ch_id c) event_id event_type db of
        (Inl e, db1) \<Rightarrow> (Inl e, db1)
      | (Inr False, db1) \<Rightarrow> (Inr False, db1)
      | (Inr True, db1) \<Rightarrow>
          (case send (nt_transport N) (nt_runtime N) c event_type body of
             Inl e \<Rightarrow> (Inl e, db1)
           | Inr r \<Rightarrow>
               if sr_ok r then (Inr True, finish_delivery (ch_id c) event_id True (sr_status r) None db1)
               else
                 (let db2 = finish_delivery (ch_id c) event_id False (sr_status r) (sr_error r) db1
                  in (Inr False, if retryable_status (sr_status r) then release (ch_id c) event_id db2 else db2))))"

fun notify_channels ::
  "notifier \<Rightarrow> (nat \<Rightarrow> string) \<Rightarrow> string \<Rightarrow> string \<Rightarrow> dict \<Rightarrow> channel list \<Rightarrow> note_db \<Rightarrow> string list py \<times> note_db" where
  "notify_channels N ids event_id event_type body [] db = (Inr [], db)"
| "notify_channels N ids event_id event_type body (c # cs) db =
     (case notify_channel N (ids (length cs)) event_id event_type body c db of
        (Inl e, db1) \<Rightarrow> (Inl e, db1)
      | (Inr took, db1) \<Rightarrow>
          (case notify_channels N ids event_id event_type body cs db1 of
             (Inl e, db2) \<Rightarrow> (Inl e, db2)
           | (Inr sent, db2) \<Rightarrow> (Inr (if took then ch_id c # sent else sent), db2)))"

text \<open>The handler; what it returns beside the database are the channels whose transport took the message.\<close>

definition notify_handle ::
  "notifier \<Rightarrow> (nat \<Rightarrow> string) \<Rightarrow> string \<Rightarrow> delivery \<Rightarrow> note_db \<Rightarrow> string list py \<times> note_db" where
  "notify_handle N ids event_type d db =
     (let subscribed = filter (\<lambda>c. wants_event c event_type) (channels_for (dl_tenant_id d) db) in
      if subscribed = [] then (Inr [], db)
      else (case note_payload (nt_base_url N) event_type (dl_payload d) of
              Inl e \<Rightarrow> (Inl e, db)
            | Inr body \<Rightarrow> notify_channels N ids (dl_id d) event_type body subscribed db))"

subsection \<open>Routes\<close>

definition create_channel ::
  "notifier \<Rightarrow> string \<Rightarrow> string \<Rightarrow> string \<Rightarrow> string \<Rightarrow> string list \<Rightarrow> string option \<Rightarrow> string option \<Rightarrow> note_db \<Rightarrow> reply \<times> note_db" where
  "create_channel N new_id token kind target events tenant_id project_id db =
     (let unknown = filter (\<lambda>e. e \<notin> set SUBSCRIBABLE) events;
          guard = check_url (tp_dns (nt_transport N)) (tp_allow_private (nt_transport N)) target
      in if unknown \<noteq> [] then (HTTPException 422 (''unknown events: '' @ repr_other (nt_runtime N) (JList (map JStr unknown))), db)
         else if kind = ''webhook'' \<and> guard \<noteq> Inr () then
           (HTTPException 422 (''target not allowed: '' @ (case guard of Inl e \<Rightarrow> exn_message e | Inr _ \<Rightarrow> [])), db)
         else if kind \<noteq> ''webhook'' \<and> CHR ''@'' \<notin> set target then
           (HTTPException 422 ''an email channel needs an email address'', db)
         else
           (case add_channel new_id kind target tenant_id project_id events (if kind = ''webhook'' then Some token else None) db of
              (Inl (UnknownTenant m), db') \<Rightarrow> (HTTPException 400 m, db')
            | (Inl e, db') \<Rightarrow> (Crash e, db')
            | (Inr None, db') \<Rightarrow> (Crash AttributeError, db')
            | (Inr (Some c), db') \<Rightarrow> (Answer 201 (JObj (channel_to_dict (isoformat (nt_runtime N)) True c)), db')))"

definition list_channels :: "notifier \<Rightarrow> string option \<Rightarrow> note_db \<Rightarrow> reply" where
  "list_channels N tenant_id db =
     Answer 200 (JList (map (\<lambda>c. JObj (channel_to_dict (isoformat (nt_runtime N)) False c)) (channels_for tenant_id db)))"

definition delete_channel_route :: "string \<Rightarrow> string option \<Rightarrow> note_db \<Rightarrow> reply \<times> note_db" where
  "delete_channel_route channel_id tenant_id db =
     (case delete_channel channel_id tenant_id db of
        (True, db') \<Rightarrow> (Answer 204 JNull, db')
      | (False, db') \<Rightarrow> (HTTPException 404 ''channel not found'', db'))"

definition test_event :: dict where
  "test_event = [(''report_id'', JStr ''00000000-0000-0000-0000-000000000000''),
     (''workflow_id'', JStr ''00000000-0000-0000-0000-000000000000''), (''title'', JStr fa_test_title),
     (''status'', JStr ''completed''), (''formats'', JList [JStr ''html'', JStr ''md'']),
     (''document_url'', JStr ''/v1/reports/00000000-0000-0000-0000-000000000000/document'')]"

definition test_channel :: "notifier \<Rightarrow> string \<Rightarrow> string option \<Rightarrow> note_db \<Rightarrow> reply" where
  "test_channel N channel_id tenant_id db =
     (case get_channel channel_id tenant_id db of
        None \<Rightarrow> HTTPException 404 ''channel not found''
      | Some c \<Rightarrow>
          reply_of 200 (bindE (note_payload (nt_base_url N) ''report.rendered'' test_event) (\<lambda>body.
            bindE (send (nt_transport N) (nt_runtime N) c ''report.rendered'' body) (\<lambda>r.
              Inr (JObj [(''ok'', JBool (sr_ok r)), (''status'', opt_number (sr_status r)), (''error'', opt_json (sr_error r))])))))"

definition list_deliveries :: "notifier \<Rightarrow> nat \<Rightarrow> string option \<Rightarrow> note_db \<Rightarrow> reply" where
  "list_deliveries N limit tenant_id db =
     Answer 200 (JList (map JObj (deliveries (isoformat (nt_runtime N)) tenant_id limit db)))"

end
