(* ===== verification/Notify_System.thy ===== *)
theory Notify_System
  imports Notifications Systems Bus
begin

text \<open>
  The notification workers as a state machine: any number of them, each anywhere between claiming a pair of
  channel and event and recording what came of it, with crashes at every point and channels that come and
  go. The database calls are those of the store; what is counted is how often a transport took a message.
\<close>

subsection \<open>The machine\<close>

datatype attempt =
    Claimed
  | Taken "int option"
  | Refused "int option" "string option"
  | Giving_Back

record note_system =
  nz_db :: note_db
  nz_tasks :: "((string \<times> string) \<times> attempt) list"
  nz_taken :: "(string \<times> string) list"

inductive note_step :: "note_system \<Rightarrow> note_system \<Rightarrow> bool" where
  claims: "claim i c e ty (nz_db S) = (Inr True, db) \<Longrightarrow>
     note_step S (S\<lparr>nz_db := db, nz_tasks := ((c, e), Claimed) # nz_tasks S\<rparr>)"
| taken: "nz_tasks S = ts @ (p, Claimed) # us \<Longrightarrow>
     note_step S (S\<lparr>nz_tasks := ts @ (p, Taken st) # us, nz_taken := p # nz_taken S\<rparr>)"
| refused: "nz_tasks S = ts @ (p, Claimed) # us \<Longrightarrow>
     note_step S (S\<lparr>nz_tasks := ts @ (p, Refused st err) # us\<rparr>)"
| records_success: "nz_tasks S = ts @ ((c, e), Taken st) # us \<Longrightarrow>
     note_step S (S\<lparr>nz_db := finish_delivery c e True st None (nz_db S), nz_tasks := ts @ us\<rparr>)"
| records_failure: "nz_tasks S = ts @ ((c, e), Refused st err) # us \<Longrightarrow>
     note_step S (S\<lparr>nz_db := finish_delivery c e False st err (nz_db S),
       nz_tasks := ts @ (if retryable_status st then [((c, e), Giving_Back)] else []) @ us\<rparr>)"
| gives_back: "nz_tasks S = ts @ ((c, e), Giving_Back) # us \<Longrightarrow>
     note_step S (S\<lparr>nz_db := release c e (nz_db S), nz_tasks := ts @ us\<rparr>)"
| crash: "nz_tasks S = ts @ t # us \<Longrightarrow> note_step S (S\<lparr>nz_tasks := ts @ us\<rparr>)"
| adds: "add_channel i kind target tenant_id project_id events secret (nz_db S) = (Inr r, db) \<Longrightarrow>
     i \<notin> fst ` (fst ` set (nz_tasks S) \<union> set (nz_taken S)) \<Longrightarrow> note_step S (S\<lparr>nz_db := db\<rparr>)"
| deletes: "note_step S (S\<lparr>nz_db := snd (delete_channel i tenant_id (nz_db S))\<rparr>)"

definition note_init :: "note_system \<Rightarrow> bool" where
  "note_init S \<longleftrightarrow> nz_tasks S = [] \<and> nz_taken S = [] \<and> nd_deliveries (nz_db S) = [] \<and>
     distinct (map ch_id (nd_channels (nz_db S)))"

subsection \<open>The invariant\<close>

definition has_row :: "note_db \<Rightarrow> string \<times> string \<Rightarrow> bool" where
  "has_row db p \<longleftrightarrow> (\<exists>r\<in>set (nd_deliveries db). (dv_channel_id r, dv_event_id r) = p)"

definition has_channel :: "note_db \<Rightarrow> string \<times> string \<Rightarrow> bool" where
  "has_channel db p \<longleftrightarrow> fst p \<in> ch_id ` set (nd_channels db)"

text \<open>
  A pair somebody works on or that was taken keeps its row as long as its channel exists; nobody works on a
  pair that was taken except to record it; no two work on one pair.
\<close>

definition note_inv :: "note_system \<Rightarrow> bool" where
  "note_inv S \<longleftrightarrow>
     distinct (map ch_id (nd_channels (nz_db S))) \<and> distinct (map fst (nz_tasks S)) \<and> distinct (nz_taken S) \<and>
     (\<forall>p\<in>fst ` set (nz_tasks S) \<union> set (nz_taken S). has_channel (nz_db S) p \<longrightarrow> has_row (nz_db S) p) \<and>
     (\<forall>t\<in>set (nz_tasks S). (\<forall>st. snd t \<noteq> Taken st) \<longrightarrow> fst t \<notin> set (nz_taken S))"

lemma has_row_finish [simp]: "has_row (finish_delivery c e ok st err db) p \<longleftrightarrow> has_row db p"
proof -
  define f where "f = (\<lambda>r. if of_pair c e r then r\<lparr>dv_status := (if ok then Sent else Send_Failed),
    dv_http_status := st, dv_error := err, dv_attempts := Suc (dv_attempts r)\<rparr> else r)"
  have keys: "(dv_channel_id (f r), dv_event_id (f r)) = (dv_channel_id r, dv_event_id r)" for r
    by (simp add: f_def)
  have "set (nd_deliveries (finish_delivery c e ok st err db)) = f ` set (nd_deliveries db)"
    by (simp add: finish_delivery_def set_update_where f_def)
  then show ?thesis by (simp add: has_row_def keys)
qed

lemma has_channel_finish [simp]:
  "has_channel (finish_delivery c e ok st err db) p \<longleftrightarrow> has_channel db p"
  "nd_channels (finish_delivery c e ok st err db) = nd_channels db"
  by (simp_all add: has_channel_def finish_delivery_def)

lemma has_row_release [simp]: "has_row (release c e db) p \<longleftrightarrow> has_row db p \<and> p \<noteq> (c, e)"
  by (cases p) (auto simp: has_row_def release_def of_pair_def)

lemma has_channel_release [simp]:
  "has_channel (release c e db) p \<longleftrightarrow> has_channel db p" "nd_channels (release c e db) = nd_channels db"
  by (simp_all add: has_channel_def release_def)

lemma claim_True:
  assumes "claim i c e ty db = (Inr True, db')"
  shows "\<not> has_row db (c, e)" and "has_channel db (c, e)" and "has_row db' p \<longleftrightarrow> has_row db p \<or> p = (c, e)"
    and "has_channel db' = has_channel db" and "nd_channels db' = nd_channels db"
  using assms by (auto simp: claim_def has_row_def has_channel_def of_pair_def list_ex_iff fun_eq_iff split: if_splits)

lemma add_channel_effect:
  assumes "add_channel i kind target t p events secret db = (Inr r, db')" and "distinct (map ch_id (nd_channels db))"
  shows "distinct (map ch_id (nd_channels db'))" and "has_row db' = has_row db"
    and "has_channel db' q \<Longrightarrow> has_channel db q \<or> fst q = i"
  using assms by (auto simp: add_channel_def Let_def has_row_def has_channel_def fun_eq_iff split: if_splits)

lemma delete_channel_effect:
  assumes "distinct (map ch_id (nd_channels db))"
  shows "distinct (map ch_id (nd_channels (snd (delete_channel i t db))))"
    and "has_channel (snd (delete_channel i t db)) p \<Longrightarrow>
           has_channel db p \<and> (has_row db p \<longrightarrow> has_row (snd (delete_channel i t db)) p)"
proof -
  show "distinct (map ch_id (nd_channels (snd (delete_channel i t db))))"
    using assms by (auto simp: delete_channel_def distinct_map_filter)
  assume p: "has_channel (snd (delete_channel i t db)) p"
  show "has_channel db p \<and> (has_row db p \<longrightarrow> has_row (snd (delete_channel i t db)) p)"
  proof (cases "list_ex (visible_channel i t) (nd_channels db)")
    case True
    then obtain c where c: "c \<in> set (nd_channels db)" "visible_channel i t c" by (auto simp: list_ex_iff)
    from p True obtain c' where c': "c' \<in> set (nd_channels db)" "\<not> visible_channel i t c'" "ch_id c' = fst p"
      by (auto simp: delete_channel_def has_channel_def)
    have "ch_id c' \<noteq> i"
      using c c' distinct_map_inj_on [OF assms c(1) c'(1)] by (auto simp: visible_channel_def)
    moreover have "fst p \<in> ch_id ` set (nd_channels db)" using c'(1,3) by (metis imageI)
    ultimately show ?thesis using c'(3) True by (auto simp: delete_channel_def has_channel_def has_row_def)
  next
    case False
    with p show ?thesis by (simp add: delete_channel_def)
  qed
qed

lemma in_fst_image: "(p, x) \<in> set ts \<Longrightarrow> p \<in> fst ` set ts"
  by force

lemma note_inv_step:
  assumes "note_step S T" and "note_inv S"
  shows "note_inv T"
  using assms
proof (induction rule: note_step.induct)
  case (claims i c e ty S db)
  note cl = claim_True [OF claims(1)]
  have "(c, e) \<notin> fst ` set (nz_tasks S) \<union> set (nz_taken S)"
    using claims(2) cl(1,2) unfolding note_inv_def by blast
  with claims(2) cl show ?case by (auto simp: note_inv_def)
next
  case (adds i kind target tenant_id project_id events secret S r db)
  have d: "distinct (map ch_id (nd_channels (nz_db S)))" using adds(3) by (simp add: note_inv_def)
  note ad = add_channel_effect [OF adds(1) d]
  have "has_row db p" if p: "p \<in> fst ` set (nz_tasks S) \<union> set (nz_taken S)" "has_channel db p" for p
  proof -
    have "fst p \<noteq> i" using p(1) adds(2) by blast
    with ad(3) [OF p(2)] have "has_channel (nz_db S) p" by blast
    with p(1) adds(3) have "has_row (nz_db S) p" unfolding note_inv_def by blast
    then show ?thesis by (simp add: ad(2))
  qed
  with adds(3) ad(1) show ?case by (simp add: note_inv_def)
next
  case (deletes S i tenant_id)
  have d: "distinct (map ch_id (nd_channels (nz_db S)))" using deletes by (simp add: note_inv_def)
  note del = delete_channel_effect [OF d]
  from deletes del show ?case unfolding note_inv_def by auto
qed (auto simp: note_inv_def dest: in_fst_image)

interpretation notify: invariant_system note_init note_step note_inv
proof unfold_locales
  show "note_inv S" if "note_init S" for S using that by (simp add: note_init_def note_inv_def)
  show "note_inv T" if "note_step S T" "note_inv S" for S T using that by (rule note_inv_step)
qed

subsection \<open>The handler is a run of the machine\<close>

lemma notify_channel_run:
  assumes "notify_channel N i e ty body c db = (res, db')"
  shows "\<exists>new. note_step\<^sup>*\<^sup>* \<lparr>nz_db = db, nz_tasks = ts, nz_taken = tk\<rparr> \<lparr>nz_db = db', nz_tasks = ts, nz_taken = new @ tk\<rparr> \<and>
           (\<forall>b. res = Inr b \<longrightarrow> new = (if b then [(ch_id c, e)] else []))"
proof -
  obtain x db1 where cl: "claim i (ch_id c) e ty db = (x, db1)" by fastforce
  show ?thesis
  proof (cases "x = Inr True")
    case False
    then have "db1 = db \<and> db' = db1 \<and> (\<forall>b. res = Inr b \<longrightarrow> \<not> b)"
      using assms cl by (auto simp: notify_channel_def claim_def split: sum.splits bool.splits if_splits)
    then show ?thesis by (intro exI [of _ "[]"]) auto
  next
    case True
    let ?S = "\<lambda>d t k. \<lparr>nz_db = d, nz_tasks = t @ ts, nz_taken = k @ tk\<rparr>"
    let ?p = "(ch_id c, e)"
    have start: "note_step (?S db [] []) (?S db1 [(?p, Claimed)] [])"
      using note_step.claims [of i "ch_id c" e ty "?S db [] []" db1] cl True by simp
    have crash: "note_step (?S d [t] k) (?S d [] k)" for d t k
      using note_step.crash [of "?S d [t] k" "[]" t ts] by simp
    have taken: "note_step (?S db1 [(?p, Claimed)] []) (?S db1 [(?p, Taken st)] [?p])" for st
      using note_step.taken [of "?S db1 [(?p, Claimed)] []" "[]" ?p ts st] by simp
    have refused: "note_step (?S db1 [(?p, Claimed)] []) (?S db1 [(?p, Refused st err)] [])" for st err
      using note_step.refused [of "?S db1 [(?p, Claimed)] []" "[]" ?p ts st err] by simp
    have success: "note_step (?S db1 [(?p, Taken st)] [?p]) (?S (finish_delivery (ch_id c) e True st None db1) [] [?p])" for st
      using note_step.records_success [of "?S db1 [(?p, Taken st)] [?p]" "[]" "ch_id c" e st ts] by simp
    have failure: "note_step (?S db1 [(?p, Refused st err)] [])
        (?S (finish_delivery (ch_id c) e False st err db1) (if retryable_status st then [(?p, Giving_Back)] else []) [])" for st err
      using note_step.records_failure [of "?S db1 [(?p, Refused st err)] []" "[]" "ch_id c" e st err ts] by simp
    have give_back: "note_step (?S d [(?p, Giving_Back)] []) (?S (release (ch_id c) e d) [] [])" for d
      using note_step.gives_back [of "?S d [(?p, Giving_Back)] []" "[]" "ch_id c" e ts] by simp
    consider (raise) err where "res = Inl err" "db' = db1"
      | (ok) st where "res = Inr True" "db' = finish_delivery (ch_id c) e True st None db1"
      | (kept) st err where "res = Inr False" "\<not> retryable_status st" "db' = finish_delivery (ch_id c) e False st err db1"
      | (freed) st err where "res = Inr False" "retryable_status st"
          "db' = release (ch_id c) e (finish_delivery (ch_id c) e False st err db1)"
      using assms cl True by (auto simp: notify_channel_def Let_def split: sum.splits if_splits)
    then show ?thesis
    proof cases
      case raise
      have "note_step\<^sup>*\<^sup>* (?S db [] []) (?S db1 [] [])"
        by (rule converse_rtranclp_into_rtranclp [of note_step, OF start]) (rule r_into_rtranclp [of note_step, OF crash])
      with raise show ?thesis by (intro exI [of _ "[]"]) simp
    next
      case (ok st)
      have "note_step\<^sup>*\<^sup>* (?S db [] []) (?S db' [] [?p])"
        unfolding ok(2) by (meson start taken success converse_rtranclp_into_rtranclp rtranclp.rtrancl_refl)
      with ok show ?thesis by (intro exI [of _ "[?p]"]) simp
    next
      case (kept st err)
      have "note_step\<^sup>*\<^sup>* (?S db [] []) (?S db' [] [])"
        using failure [of st err] unfolding kept(3) if_not_P [OF kept(2)]
        by (meson start refused converse_rtranclp_into_rtranclp rtranclp.rtrancl_refl)
      with kept show ?thesis by (intro exI [of _ "[]"]) simp
    next
      case (freed st err)
      have "note_step\<^sup>*\<^sup>* (?S db [] []) (?S db' [] [])"
        using failure [of st err] unfolding freed(3) if_P [OF freed(2)]
        by (meson start refused give_back converse_rtranclp_into_rtranclp rtranclp.rtrancl_refl)
      with freed show ?thesis by (intro exI [of _ "[]"]) simp
    qed
  qed
qed

lemma notify_channels_run:
  assumes "notify_channels N ids e ty body cs db = (res, db')"
  shows "\<exists>new. note_step\<^sup>*\<^sup>* \<lparr>nz_db = db, nz_tasks = ts, nz_taken = tk\<rparr> \<lparr>nz_db = db', nz_tasks = ts, nz_taken = new @ tk\<rparr> \<and>
           (\<forall>sent. res = Inr sent \<longrightarrow> new = map (\<lambda>c. (c, e)) (rev sent))"
  using assms
proof (induction cs arbitrary: db res db' tk)
  case Nil
  then show ?case by (intro exI [of _ "[]"]) auto
next
  case (Cons c cs)
  obtain r1 db1 where c: "notify_channel N (ids (length cs)) e ty body c db = (r1, db1)" by fastforce
  from notify_channel_run [OF c, of ts tk] obtain new1 where
    s1: "note_step\<^sup>*\<^sup>* \<lparr>nz_db = db, nz_tasks = ts, nz_taken = tk\<rparr> \<lparr>nz_db = db1, nz_tasks = ts, nz_taken = new1 @ tk\<rparr>"
    and n1: "\<forall>b. r1 = Inr b \<longrightarrow> new1 = (if b then [(ch_id c, e)] else [])" by blast
  show ?case
  proof (cases r1)
    case (Inl x)
    with Cons.prems c s1 show ?thesis by auto
  next
    case (Inr took)
    obtain r2 db2 where cs: "notify_channels N ids e ty body cs db1 = (r2, db2)" by fastforce
    from Cons.IH [OF cs, of "new1 @ tk"] obtain new2 where
      s2: "note_step\<^sup>*\<^sup>* \<lparr>nz_db = db1, nz_tasks = ts, nz_taken = new1 @ tk\<rparr> \<lparr>nz_db = db2, nz_tasks = ts, nz_taken = new2 @ new1 @ tk\<rparr>"
      and n2: "\<forall>sent. r2 = Inr sent \<longrightarrow> new2 = map (\<lambda>c. (c, e)) (rev sent)" by blast
    have "db' = db2" "\<forall>sent. res = Inr sent \<longrightarrow> (\<exists>sent2. r2 = Inr sent2 \<and> sent = (if took then ch_id c # sent2 else sent2))"
      using Cons.prems c cs Inr by (auto split: sum.splits)
    with rtranclp_trans [OF s1 s2] n1 n2 Inr show ?thesis
      by (intro exI [of _ "new2 @ new1"]) auto
  qed
qed

lemma notify_handle_run:
  assumes "notify_handle N ids ty d db = (res, db')"
  shows "\<exists>new. note_step\<^sup>*\<^sup>* \<lparr>nz_db = db, nz_tasks = ts, nz_taken = tk\<rparr> \<lparr>nz_db = db', nz_tasks = ts, nz_taken = new @ tk\<rparr> \<and>
           (\<forall>sent. res = Inr sent \<longrightarrow> new = map (\<lambda>c. (c, dl_id d)) (rev sent))"
proof -
  have idle: "db' = db \<Longrightarrow> (\<forall>sent. res = Inr sent \<longrightarrow> sent = []) \<Longrightarrow> ?thesis"
    by (intro exI [of _ "[]"]) auto
  from assms consider "db' = db" "\<forall>sent. res = Inr sent \<longrightarrow> sent = []"
    | body cs where "notify_channels N ids (dl_id d) ty body cs db = (res, db')"
    by (auto simp: notify_handle_def Let_def split: if_splits sum.splits)
  then show ?thesis
  proof cases
    case 1
    then show ?thesis by (rule idle)
  next
    case 2
    then show ?thesis by (rule notify_channels_run)
  qed
qed

subsection \<open>Properties\<close>

definition note_reachable :: "note_system \<Rightarrow> bool" where
  "note_reachable S \<longleftrightarrow> (\<exists>S0. note_init S0 \<and> note_step\<^sup>*\<^sup>* S0 S)"

lemma note_reachable_inv: "note_reachable S \<Longrightarrow> note_inv S"
  unfolding note_reachable_def by (blast intro: notify.inv_reachable)


definition demo_channel :: channel where
  "demo_channel = \<lparr>ch_id = ''c'', ch_tenant_id = None, ch_project_id = None, ch_kind = ''email'', ch_target = ''a@b.c'',
     ch_events = [], ch_active = True, ch_secret = None, ch_created_at = 0\<rparr>"

definition demo_note_db :: note_db where
  "demo_note_db = \<lparr>nd_channels = [demo_channel], nd_deliveries = [], nd_tenants = [], nd_projects = [], nd_now = 0\<rparr>"

definition demo_notifier :: "string option \<Rightarrow> notifier" where
  "demo_notifier failure = \<lparr>nt_transport = \<lparr>tp_dns = public_dns, tp_allow_private = [], tp_dumps = (\<lambda>_. []), tp_hmac = (\<lambda>_ _. []),
     tp_post = (\<lambda>_ _ _. Inr 200), tp_smtp_host = Some ''mail'', tp_mail = (\<lambda>_ _ _. failure)\<rparr>,
     nt_runtime = plain_runtime, nt_base_url = []\<rparr>"

definition demo_rendered :: delivery where
  "demo_rendered = \<lparr>dl_id = ''e'', dl_payload = [(''title'', JStr ''Report'')], dl_tenant_id = None, dl_project_id = None,
     dl_correlation_id = None\<rparr>"

lemma demo_notify:
  "notify_handle (demo_notifier failure) ids ''report.rendered'' demo_rendered demo_note_db =
     notify_channels (demo_notifier failure) ids ''e'' ''report.rendered''
       [(''event'', JStr ''report.rendered''), (''workflow_id'', JNull), (''report_id'', JNull), (''title'', JStr ''Report''),
        (''status'', JNull), (''summary_source'', JNull), (''formats'', JList []), (''document_url'', JNull)]
       [demo_channel] demo_note_db"
  by (simp add: notify_handle_def channels_for_def demo_note_db_def demo_channel_def demo_rendered_def wants_event_def
      note_payload_def absolute_def py_or_def demo_notifier_def)

lemma demo_sends:
  assumes "dget body ''title'' = JStr ''Report''"
  shows "send (nt_transport (demo_notifier failure)) R demo_channel ''report.rendered'' body =
    Inr (case failure of None \<Rightarrow> \<lparr>sr_ok = True, sr_status = None, sr_error = None\<rparr>
         | Some e \<Rightarrow> \<lparr>sr_ok = False, sr_status = None, sr_error = Some e\<rparr>)"
  using assms
  by (simp add: send_def demo_channel_def mail_text_def mail_subject_def py_or_def send_email_def demo_notifier_def header_text_def Let_def)


text \<open>The handler as the consumer calls it.\<close>

definition consumer_handler ::
  "notifier \<Rightarrow> (nat \<Rightarrow> string) \<Rightarrow> string \<Rightarrow> delivery \<Rightarrow> envelope \<Rightarrow> note_db \<Rightarrow> unit py \<times> note_db" where
  "consumer_handler N ids ty d envelope db =
     (case notify_handle N ids ty d db of (Inl e, db') \<Rightarrow> (Inl e, db') | (Inr _, db') \<Rightarrow> (Inr (), db'))"

text \<open>A failure that is worth another attempt never gets one. When the only channel's transport fails with
  an answer that calls for a retry, the claim is given back, the handler returns, and the consumer acknowledges
  the message: the event is gone from the queue, nobody was told, and the deliveries show nothing of it.\<close>

lemma retryable_failure_never_retried:
  assumes "filter (\<lambda>c. wants_event c ty) (channels_for (dl_tenant_id d) db) = [c]"
    and "note_payload (nt_base_url N) ty (dl_payload d) = Inr body"
    and "\<not> has_row db (ch_id c, dl_id d)"
    and "send (nt_transport N) (nt_runtime N) c ty body = Inr r" and "\<not> sr_ok r" and "retryable_status (sr_status r)"
    and "from_bytes loads message = Inr envelope"
  shows "notify_handle N ids ty d db = (Inr [], db) \<and>
         on_message loads (consumer_handler N ids ty d) message db = (Ack, db)"
proof -
  have "c \<in> set (filter (\<lambda>c. wants_event c ty) (channels_for (dl_tenant_id d) db))" using assms(1) by simp
  then have c: "ch_id c \<in> ch_id ` set (nd_channels db)" by (auto simp: channels_for_def)
  have free: "filter (\<lambda>r. \<not> of_pair (ch_id c) (dl_id d) r) (nd_deliveries db) = nd_deliveries db"
    using assms(3) by (auto simp: filter_id_conv has_row_def of_pair_def)
  have none: "\<not> list_ex (of_pair (ch_id c) (dl_id d)) (nd_deliveries db)"
    using assms(3) by (auto simp: list_ex_iff has_row_def of_pair_def)
  have undone: "release (ch_id c) (dl_id d) (finish_delivery (ch_id c) (dl_id d) False st err (db\<lparr>nd_deliveries := nd_deliveries db @ [x]\<rparr>)) = db"
    if "of_pair (ch_id c) (dl_id d) x" for st err x
  proof -
    have "update_where (of_pair (ch_id c) (dl_id d)) f (nd_deliveries db) = nd_deliveries db" for f
      using none by (intro update_where_id) (auto simp: list_ex_iff)
    with that free show ?thesis
      by (simp add: release_def finish_delivery_def update_where_def of_pair_def)
  qed
  have "notify_channel N (ids 0) (dl_id d) ty body c db = (Inr False, db)"
    using assms(4-6) c none undone by (auto simp: notify_channel_def claim_def Let_def of_pair_def)
  then have "notify_handle N ids ty d db = (Inr [], db)" using assms(1,2) by (simp add: notify_handle_def)
  with assms(7) show ?thesis by (simp add: on_message_def consumer_handler_def)
qed

end
