(* ===== verification/Py_Regex.thy ===== *)
theory Py_Regex
  imports Py_Text
begin

text \<open>
  The part of \<^verbatim>\<open>re\<close> the sources use, as the backtracking matcher it is: an expression, started at a place of
  the text, yields the places it can end at, in the order in which Python tries them. The tables of Unicode
  (case, letters, digits) are a parameter.
\<close>

record charset =
  cs_lower :: "chars \<Rightarrow> chars"
  cs_icase :: "int \<Rightarrow> int"
  cs_upper :: "int \<Rightarrow> bool"
  cs_word :: "int \<Rightarrow> bool"
  cs_digit :: "int \<Rightarrow> bool"

datatype regex =
    Eps
  | One "int \<Rightarrow> bool"
  | Seq regex regex
  | Alt regex regex
  | Many regex
  | Few regex
  | Here "chars \<Rightarrow> nat \<Rightarrow> bool"

text \<open>
  Rounds of a starred expression. A round must make progress, so a text that is left with \<open>k\<close> characters
  admits at most \<open>k\<close> of them.
\<close>

fun rounds :: "nat \<Rightarrow> (nat \<Rightarrow> nat list) \<Rightarrow> nat \<Rightarrow> nat list" where
  "rounds 0 m i = [i]"
| "rounds (Suc k) m i = concat (map (rounds k m) (filter (\<lambda>j. i < j) (m i))) @ [i]"

fun lazy_rounds :: "nat \<Rightarrow> (nat \<Rightarrow> nat list) \<Rightarrow> nat \<Rightarrow> nat list" where
  "lazy_rounds 0 m i = [i]"
| "lazy_rounds (Suc k) m i = i # concat (map (lazy_rounds k m) (filter (\<lambda>j. i < j) (m i)))"

primrec ends :: "chars \<Rightarrow> regex \<Rightarrow> nat \<Rightarrow> nat list" where
  "ends s Eps i = [i]"
| "ends s (One p) i = (if i < length s \<and> p (s ! i) then [Suc i] else [])"
| "ends s (Seq r q) i = concat (map (ends s q) (ends s r i))"
| "ends s (Alt r q) i = ends s r i @ ends s q i"
| "ends s (Many r) i = rounds (length s - i) (ends s r) i"
| "ends s (Few r) i = lazy_rounds (length s - i) (ends s r) i"
| "ends s (Here p) i = (if p s i then [i] else [])"

text \<open>\<^verbatim>\<open>re.match\<close>, \<^verbatim>\<open>re.search\<close> and \<^verbatim>\<open>re.findall\<close>, which goes on behind each match.\<close>

definition re_match :: "regex \<Rightarrow> chars \<Rightarrow> bool" where
  "re_match r s \<longleftrightarrow> ends s r 0 \<noteq> []"

definition re_search :: "regex \<Rightarrow> chars \<Rightarrow> bool" where
  "re_search r s \<longleftrightarrow> list_ex (\<lambda>i. ends s r i \<noteq> []) [0..<Suc (length s)]"

fun re_find :: "nat \<Rightarrow> regex \<Rightarrow> chars \<Rightarrow> nat \<Rightarrow> chars list" where
  "re_find 0 r s i = []"
| "re_find (Suc k) r s i =
     (if length s < i then []
      else case ends s r i of
             [] \<Rightarrow> re_find k r s (Suc i)
           | j # _ \<Rightarrow> take (j - i) (drop i s) # re_find k r s (if j = i then Suc i else j))"

definition re_findall :: "regex \<Rightarrow> chars \<Rightarrow> chars list" where
  "re_findall r s = re_find (Suc (length s)) r s 0"

text \<open>\<^verbatim>\<open>re.sub\<close> with an expression that does not match the empty text.\<close>

fun re_subst :: "nat \<Rightarrow> regex \<Rightarrow> chars \<Rightarrow> chars \<Rightarrow> nat \<Rightarrow> chars" where
  "re_subst 0 r new s i = []"
| "re_subst (Suc k) r new s i =
     (if length s \<le> i then []
      else case ends s r i of
             [] \<Rightarrow> s ! i # re_subst k r new s (Suc i)
           | j # _ \<Rightarrow> new @ re_subst k r new s (max j (Suc i)))"

definition re_sub :: "regex \<Rightarrow> chars \<Rightarrow> chars \<Rightarrow> chars" where
  "re_sub r new s = re_subst (length s) r new s 0"

text \<open>
  One group: where \<open>opening\<close>, the group and \<open>closing\<close> match in this order, the text of the group. \<open>first_group\<close> is
  \<^verbatim>\<open>re.search(...).group(1)\<close>, \<open>find_groups\<close> is \<^verbatim>\<open>re.findall\<close> of an expression with one group.
\<close>

definition group_at :: "chars \<Rightarrow> regex \<Rightarrow> regex \<Rightarrow> regex \<Rightarrow> nat \<Rightarrow> (chars \<times> nat) option" where
  "group_at s opening core closing i =
     (case concat (map (\<lambda>j. concat (map (\<lambda>k. map (\<lambda>l. (take (k - j) (drop j s), l)) (ends s closing k)) (ends s core j)))
             (ends s opening i)) of
        [] \<Rightarrow> None | g # _ \<Rightarrow> Some g)"

definition first_group :: "chars \<Rightarrow> regex \<Rightarrow> regex \<Rightarrow> regex \<Rightarrow> nat \<Rightarrow> chars option" where
  "first_group s opening core closing start =
     (case List.map_filter (group_at s opening core closing) [start..<Suc (length s)] of [] \<Rightarrow> None | g # _ \<Rightarrow> Some (fst g))"

fun find_groups :: "nat \<Rightarrow> regex \<Rightarrow> regex \<Rightarrow> regex \<Rightarrow> chars \<Rightarrow> nat \<Rightarrow> chars list" where
  "find_groups 0 opening core closing s i = []"
| "find_groups (Suc k) opening core closing s i =
     (if length s < i then []
      else case group_at s opening core closing i of
             None \<Rightarrow> find_groups k opening core closing s (Suc i)
           | Some (g, j) \<Rightarrow> g # find_groups k opening core closing s (if j = i then Suc i else j))"

subsection \<open>Building expressions\<close>

definition lit :: "string \<Rightarrow> chars" where
  "lit s = map of_char s"

definition seq :: "regex list \<Rightarrow> regex" where
  "seq rs = foldr Seq rs Eps"

fun alts :: "regex list \<Rightarrow> regex" where
  "alts [] = One (\<lambda>c. False)"
| "alts [r] = r"
| "alts (r # q # rs) = Alt r (alts (q # rs))"

definition maybe :: "regex \<Rightarrow> regex" where
  "maybe r = Alt r Eps"

definition some :: "regex \<Rightarrow> regex" where
  "some r = Seq r (Many r)"

text \<open>\<open>between m n r\<close> is \<^verbatim>\<open>r{m,n}\<close>.\<close>

fun upto_times :: "nat \<Rightarrow> regex \<Rightarrow> regex" where
  "upto_times 0 r = Eps"
| "upto_times (Suc k) r = maybe (Seq r (upto_times k r))"

definition between :: "nat \<Rightarrow> nat \<Rightarrow> regex \<Rightarrow> regex" where
  "between m n r = Seq (seq (replicate m r)) (upto_times (n - m) r)"

definition text_is :: "chars \<Rightarrow> regex" where
  "text_is s = seq (map (\<lambda>c. One (\<lambda>d. d = c)) s)"

text \<open>With \<^verbatim>\<open>re.I\<close>.\<close>

definition text_like :: "charset \<Rightarrow> chars \<Rightarrow> regex" where
  "text_like C s = seq (map (\<lambda>c. One (\<lambda>d. cs_icase C d = cs_icase C c)) s)"

definition one_of :: "chars \<Rightarrow> regex" where
  "one_of cs = One (\<lambda>c. c \<in> set cs)"

definition none_of :: "chars \<Rightarrow> regex" where
  "none_of cs = One (\<lambda>c. c \<notin> set cs)"

text \<open>A range of characters, plain and with \<^verbatim>\<open>re.I\<close>.\<close>

definition in_range :: "int \<Rightarrow> int \<Rightarrow> regex" where
  "in_range a b = One (\<lambda>c. a \<le> c \<and> c \<le> b)"

definition like_range :: "charset \<Rightarrow> int \<Rightarrow> int \<Rightarrow> regex" where
  "like_range C a b = One (\<lambda>c. \<exists>x\<in>{a..b}. cs_icase C c = cs_icase C x)"

definition any_char :: regex where
  "any_char = One (\<lambda>c. True)"

definition dot :: regex where
  "dot = One (\<lambda>c. c \<noteq> 10)"

definition spaces :: regex where
  "spaces = Many (One is_white)"

text \<open>\<^verbatim>\<open>^\<close>, \<^verbatim>\<open>$\<close> (also before a last line feed), \<^verbatim>\<open>$\<close> with \<^verbatim>\<open>re.M\<close>, \<^verbatim>\<open>\b\<close>.\<close>

definition at_start :: regex where
  "at_start = Here (\<lambda>s i. i = 0)"

definition at_end :: regex where
  "at_end = Here (\<lambda>s i. i = length s \<or> Suc i = length s \<and> s ! i = 10)"

definition at_line_end :: regex where
  "at_line_end = Here (\<lambda>s i. i = length s \<or> s ! i = 10)"

definition word_edge :: "charset \<Rightarrow> regex" where
  "word_edge C = Here (\<lambda>s i. (0 < i \<and> cs_word C (s ! (i - 1))) \<noteq> (i < length s \<and> cs_word C (s ! i)))"

subsection \<open>The matcher stays in the text\<close>

lemma rounds_bounds:
  assumes "\<And>i j. i \<le> n \<Longrightarrow> j \<in> set (m i) \<Longrightarrow> i \<le> j \<and> j \<le> n" and "i \<le> n" and "j \<in> set (rounds k m i)"
  shows "i \<le> j \<and> j \<le> n"
  using assms(2,3)
proof (induction k arbitrary: i)
  case (Suc k)
  then consider "j = i" | i' where "i' \<in> set (m i)" "j \<in> set (rounds k m i')" by auto
  then show ?case
  proof cases
    case 2
    with assms(1) [OF Suc.prems(1)] Suc.IH [of i'] show ?thesis by (meson order_trans)
  qed (use Suc.prems in simp)
qed simp

lemma lazy_rounds_set: "set (lazy_rounds k m i) = set (rounds k m i)"
  by (induction k arbitrary: i) auto

lemma ends_bounds: "i \<le> length s \<Longrightarrow> j \<in> set (ends s r i) \<Longrightarrow> i \<le> j \<and> j \<le> length s"
proof (induction r arbitrary: i j)
  case (Seq r q)
  from Seq.prems(2) obtain k where k: "k \<in> set (ends s r i)" "j \<in> set (ends s q k)" by auto
  from Seq.IH(1) [OF Seq.prems(1) k(1)] Seq.IH(2) [OF _ k(2)] show ?case by simp
next
  case (Alt r q)
  from Alt.prems(2) consider "j \<in> set (ends s r i)" | "j \<in> set (ends s q i)" by auto
  then show ?case using Alt.IH(1) [OF Alt.prems(1)] Alt.IH(2) [OF Alt.prems(1)] by cases blast+
next
  case (One p)
  then show ?case by (simp split: if_splits)
next
  case (Here p)
  then show ?case by (simp split: if_splits)
next
  case (Many r)
  from rounds_bounds [of "length s" "ends s r", OF Many.IH Many.prems(1)] Many.prems(2) show ?case by simp
next
  case (Few r)
  from rounds_bounds [of "length s" "ends s r", OF Few.IH Few.prems(1)] Few.prems(2)
  show ?case by (simp add: lazy_rounds_set)
qed simp

text \<open>Greedy or lazy makes no difference to whether there is a match.\<close>

lemma lazy_star_same: "set (ends s (Few r) i) = set (ends s (Many r) i)"
  by (simp add: lazy_rounds_set)

lemma rounds_set: "set (rounds (Suc k) m i) = insert i (\<Union>j\<in>{j \<in> set (m i). i < j}. set (rounds k m j))"
  by auto

text \<open>The rounds are enough: one more finds no end that was not found.\<close>

lemma rounds_enough:
  assumes "\<And>i j. i \<le> n \<Longrightarrow> j \<in> set (m i) \<Longrightarrow> i \<le> j \<and> j \<le> n" and "i \<le> n" and "n - i \<le> k"
  shows "set (rounds (Suc k) m i) = set (rounds k m i)"
  using assms(2,3)
proof (induction k arbitrary: i)
  case 0
  then have "i = n" by simp
  then have "\<not> i < j" if "j \<in> set (m i)" for j using assms(1) [of i j] that by simp
  then have "filter (\<lambda>j. i < j) (m i) = []" by (simp add: filter_empty_conv)
  then show ?case by simp
next
  case (Suc k)
  have "set (rounds (Suc k) m j) = set (rounds k m j)" if "j \<in> set (m i)" "i < j" for j
    using Suc.IH [of j] assms(1) [OF Suc.prems(1) that(1)] Suc.prems(2) that(2) by simp
  then show ?case unfolding rounds_set [of "Suc k" m i] rounds_set [of k m i] by (intro arg_cong2 [of _ _ _ _ insert] refl SUP_cong) simp_all
qed

lemma many_unfold:
  assumes "i \<le> length s"
  shows "set (ends s (Many r) i) = insert i (\<Union>j\<in>{j \<in> set (ends s r i). i < j}. set (ends s (Many r) j))"
proof -
  have b: "\<And>i j. i \<le> length s \<Longrightarrow> j \<in> set (ends s r i) \<Longrightarrow> i \<le> j \<and> j \<le> length s" by (rule ends_bounds)
  have more: "set (rounds (k + d) (ends s r) i) = set (rounds k (ends s r) i)"
    if "i \<le> length s" "length s - i \<le> k" for k d i
    using that by (induction d) (simp_all add: rounds_enough [OF b] del: rounds.simps(2))
  have "set (ends s (Many r) i) = set (rounds (Suc (length s - i)) (ends s r) i)"
    using more [of i "length s - i" 1] assms by (simp del: rounds.simps(2))
  also have "\<dots> = insert i (\<Union>j\<in>{j \<in> set (ends s r i). i < j}. set (rounds (length s - i) (ends s r) j))"
    by (rule rounds_set)
  also have "\<dots> = insert i (\<Union>j\<in>{j \<in> set (ends s r i). i < j}. set (ends s (Many r) j))"
  proof (intro arg_cong2 [of _ _ _ _ insert] refl SUP_cong)
    fix j assume "j \<in> {j \<in> set (ends s r i). i < j}"
    then show "set (rounds (length s - i) (ends s r) j) = set (ends s (Many r) j)"
      using more [of j "length s - j" "j - i"] b [OF assms, of j] by (simp del: rounds.simps(2))
  qed
  finally show ?thesis .
qed

end
