(* ===== verification/Audit_Text.thy ===== *)
theory Audit_Text
  imports Py_Regex
begin

text \<open>
  The Persian texts of the audit engine, written in Latin letters: \<open>fa\<close> reads a text letter by letter from
  the table, and what stands between square brackets as it is (there a dollar sign is a double and a tilde a
  single quotation mark). What neither table knows stands for itself.
\<close>

definition letters :: "(char \<times> int) list" where
  "letters =
    [(CHR ''a'', 0x627), (CHR ''A'', 0x622), (CHR ''b'', 0x628), (CHR ''p'', 0x67e), (CHR ''t'', 0x62a),
     (CHR ''c'', 0x62b), (CHR ''j'', 0x62c), (CHR ''C'', 0x686), (CHR ''H'', 0x62d), (CHR ''x'', 0x62e),
     (CHR ''d'', 0x62f), (CHR ''D'', 0x630), (CHR ''r'', 0x631), (CHR ''z'', 0x632), (CHR ''J'', 0x698),
     (CHR ''s'', 0x633), (CHR ''S'', 0x634), (CHR ''e'', 0x635), (CHR ''E'', 0x636), (CHR ''T'', 0x637),
     (CHR ''Z'', 0x638), (CHR ''o'', 0x639), (CHR ''G'', 0x63a), (CHR ''f'', 0x641), (CHR ''q'', 0x642),
     (CHR ''k'', 0x6a9), (CHR ''g'', 0x6af), (CHR ''l'', 0x644), (CHR ''m'', 0x645), (CHR ''n'', 0x646),
     (CHR ''v'', 0x648), (CHR ''h'', 0x647), (CHR ''y'', 0x6cc), (CHR ''Y'', 0x626), (CHR ''V'', 0x624),
     (CHR ''I'', 0x623), (CHR ''i'', 0x650), (CHR ''N'', 0x64b), (CHR ''_'', 0x200c), (CHR ''<'', 0xab),
     (CHR ''>'', 0xbb), (CHR '','', 0x60c), (CHR '';'', 0x61b), (CHR ''?'', 0x61f), (CHR ''%'', 0x66a),
     (CHR ''~'', 0x2014), (CHR ''^'', 0x2192), (CHR ''{'', 0x2190), (CHR ''}'', 0x2194),
     (CHR ''*'', 0xd7), (CHR ''#'', 0x25a1), (CHR ''0'', 0x6f0), (CHR ''1'', 0x6f1), (CHR ''2'', 0x6f2),
     (CHR ''3'', 0x6f3), (CHR ''4'', 0x6f4), (CHR ''5'', 0x6f5), (CHR ''6'', 0x6f6), (CHR ''7'', 0x6f7),
     (CHR ''8'', 0x6f8), (CHR ''9'', 0x6f9)]"

definition quotes :: "(char \<times> int) list" where
  "quotes = [(CHR ''$'', 34), (CHR ''~'', 39)]"

definition letter :: "(char \<times> int) list \<Rightarrow> char \<Rightarrow> int" where
  "letter tab c = (case map_of tab c of None \<Rightarrow> of_char c | Some n \<Rightarrow> n)"

fun read_fa :: "bool \<Rightarrow> string \<Rightarrow> chars" where
  "read_fa latin [] = []"
| "read_fa False (c # cs) = (if c = CHR ''['' then read_fa True cs else letter letters c # read_fa False cs)"
| "read_fa True (c # cs) = (if c = CHR '']'' then read_fa False cs else letter quotes c # read_fa True cs)"

definition fa :: "string \<Rightarrow> chars" where
  "fa s = read_fa False s"

definition num :: "nat \<Rightarrow> chars" where
  "num n = lit (show_nat n)"

definition inum :: "int \<Rightarrow> chars" where
  "inum i = lit (show_int i)"

text \<open>\<^verbatim>\<open>sep.join(xs)\<close>, \<^verbatim>\<open>x or ""\<close> of an optional text, and the entries of a dictionary of texts.\<close>

fun joined :: "chars \<Rightarrow> chars list \<Rightarrow> chars" where
  "joined sep [] = []"
| "joined sep [x] = x"
| "joined sep (x # y # xs) = x @ sep @ joined sep (y # xs)"

definition given :: "chars option \<Rightarrow> chars" where
  "given x = (case x of None \<Rightarrow> [] | Some s \<Rightarrow> s)"

definition entry :: "(string \<times> chars) list \<Rightarrow> string \<Rightarrow> chars" where
  "entry d k = given (map_of d k)"

text \<open>\<^verbatim>\<open>defaultdict(list)\<close>, filled in order: the keys as they first occur, each with its values.\<close>

definition groups :: "('k \<times> 'v) list \<Rightarrow> ('k \<times> 'v list) list" where
  "groups kvs = map (\<lambda>k. (k, map snd (filter (\<lambda>kv. fst kv = k) kvs))) (dedupe (map fst kvs))"

definition repeated :: "('k \<times> 'v list) list \<Rightarrow> ('k \<times> 'v list) list" where
  "repeated = filter (\<lambda>g. 1 < length (snd g))"

text \<open>\<^verbatim>\<open>s.split(c, 1)[0]\<close> and \<^verbatim>\<open>s.split(c, 1)[1]\<close>, \<^verbatim>\<open>s.splitlines()\<close>, \<^verbatim>\<open>s.split(c)\<close>.\<close>

definition until :: "int \<Rightarrow> chars \<Rightarrow> chars" where
  "until c s = takeWhile (\<lambda>d. d \<noteq> c) s"

definition beyond :: "int \<Rightarrow> chars \<Rightarrow> chars" where
  "beyond c s = drop 1 (dropWhile (\<lambda>d. d \<noteq> c) s)"

definition line_break :: "int \<Rightarrow> bool" where
  "line_break c \<longleftrightarrow> 10 \<le> c \<and> c \<le> 13 \<or> 28 \<le> c \<and> c \<le> 30 \<or> c \<in> {0x85, 0x2028, 0x2029}"

fun lines_from :: "chars \<Rightarrow> chars \<Rightarrow> chars list" where
  "lines_from cur [] = (if cur = [] then [] else [rev cur])"
| "lines_from cur [c] = (if line_break c then [rev cur] else [rev (c # cur)])"
| "lines_from cur (c # d # cs) =
     (if c = 13 \<and> d = 10 then rev cur # lines_from [] cs
      else if line_break c then rev cur # lines_from [] (d # cs)
      else lines_from (c # cur) (d # cs))"

definition splitlines :: "chars \<Rightarrow> chars list" where
  "splitlines s = lines_from [] s"

fun split_at :: "int \<Rightarrow> chars \<Rightarrow> chars \<Rightarrow> chars list" where
  "split_at c cur [] = [rev cur]"
| "split_at c cur (d # ds) = (if d = c then rev cur # split_at c [] ds else split_at c (d # cur) ds)"

text \<open>\<^verbatim>\<open>round(x)\<close>: to the nearest integer, to the even one from half way.\<close>

definition round_even :: "'a::floor_ceiling \<Rightarrow> int" where
  "round_even x =
     (let f = \<lfloor>x\<rfloor>; d = x - of_int f in if d < 1 / 2 then f else if 1 / 2 < d then f + 1 else if even f then f else f + 1)"

text \<open>\<^verbatim>\<open>f"{x:.0f}"\<close> and, for what is not negative, \<^verbatim>\<open>f"{x:.1f}"\<close>.\<close>

definition no_decimals :: "rat \<Rightarrow> chars" where
  "no_decimals x = inum (round_even x)"

definition one_decimal :: "rat \<Rightarrow> chars" where
  "one_decimal x = (let n = round_even (x * 10) in inum (n div 10) @ lit ''.'' @ inum (n mod 10))"

lemma round_even_between:
  assumes "of_int a \<le> x" and "x \<le> of_int b"
  shows "a \<le> round_even x \<and> round_even x \<le> b"
proof -
  have a: "a \<le> \<lfloor>x\<rfloor>" using assms(1) by (simp add: le_floor_iff)
  have b: "\<lfloor>x\<rfloor> \<le> b" using assms(2) by (metis floor_mono floor_of_int)
  have "\<lfloor>x\<rfloor> < b" if "1 / 2 \<le> x - of_int \<lfloor>x\<rfloor>"
  proof (rule ccontr)
    assume "\<not> \<lfloor>x\<rfloor> < b"
    with b have "\<lfloor>x\<rfloor> = b" by simp
    with assms(2) have "x - of_int \<lfloor>x\<rfloor> \<le> 0" by simp
    with that have "(1::'a) / 2 \<le> 0" by (rule order_trans)
    then show False by simp
  qed
  with a b show ?thesis by (auto simp: round_even_def Let_def not_less)
qed

subsection \<open>Grouping\<close>

lemma groups_keys [simp]: "map fst (groups kvs) = dedupe (map fst kvs)"
  by (simp add: groups_def comp_def)

lemma in_groups: "(k, vs) \<in> set (groups kvs) \<longleftrightarrow> k \<in> fst ` set kvs \<and> vs = map snd (filter (\<lambda>kv. fst kv = k) kvs)"
  by (auto simp: groups_def)

text \<open>The repeated groups, laid end to end, hold exactly the values whose key occurs more than once.\<close>

lemma repeated_values:
  "v \<in> set (concat (map snd (repeated (groups kvs)))) \<longleftrightarrow>
     (\<exists>k. (k, v) \<in> set kvs \<and> 1 < count_list (map fst kvs) k)"
proof -
  have len: "length (map snd (filter (\<lambda>kv. fst kv = k) kvs)) = count_list (map fst kvs) k" for k
    by (induction kvs) auto
  show ?thesis
    unfolding repeated_def set_concat set_map using in_groups [of _ _ kvs] len
    by (auto simp: image_iff)
qed

end
