(* ===== verification/Audit_Model.thy ===== *)
theory Audit_Model
  imports Audit_Text Url Seo_Limits "HOL-Library.List_Lexorder" "HOL-Library.Product_Lexorder" "HOL-Library.Sublist"
begin

text \<open>
  The data of the audit engine, \<^verbatim>\<open>src/services/engine/seoagent/models.py\<close>, the frame its rules run in
  (\<^verbatim>\<open>rules/base.py\<close>) and the comparison of addresses of \<^verbatim>\<open>fetcher.py\<close>. Texts are lists of code points.
\<close>

subsection \<open>Severities and categories\<close>

datatype severity = S_Critical | S_High | S_Medium | S_Low | S_Info

fun severity_value :: "severity \<Rightarrow> string" where
  "severity_value S_Critical = ''critical''"
| "severity_value S_High = ''high''"
| "severity_value S_Medium = ''medium''"
| "severity_value S_Low = ''low''"
| "severity_value S_Info = ''info''"

fun SEVERITY_WEIGHT :: "severity \<Rightarrow> nat" where
  "SEVERITY_WEIGHT S_Critical = 30"
| "SEVERITY_WEIGHT S_High = 15"
| "SEVERITY_WEIGHT S_Medium = 7"
| "SEVERITY_WEIGHT S_Low = 3"
| "SEVERITY_WEIGHT S_Info = 0"

fun SEVERITY_ORDER :: "severity \<Rightarrow> nat" where
  "SEVERITY_ORDER S_Critical = 0"
| "SEVERITY_ORDER S_High = 1"
| "SEVERITY_ORDER S_Medium = 2"
| "SEVERITY_ORDER S_Low = 3"
| "SEVERITY_ORDER S_Info = 4"

fun SEVERITY_FA :: "severity \<Rightarrow> chars" where
  "SEVERITY_FA S_Critical = (fa ''bHrany'')"
| "SEVERITY_FA S_High = (fa ''zyad'')"
| "SEVERITY_FA S_Medium = (fa ''mtvsT'')"
| "SEVERITY_FA S_Low = (fa ''km'')"
| "SEVERITY_FA S_Info = (fa ''aTlaoy'')"

datatype category =
    C_Indexing | C_Content | C_Technical | C_Performance | C_Structured_Data
  | C_Links | C_Images | C_Eeat | C_International | C_Ai_Search

definition CATEGORIES :: "category list" where
  "CATEGORIES = [C_Indexing, C_Content, C_Technical, C_Performance, C_Structured_Data, C_Links, C_Images, C_Eeat,
     C_International, C_Ai_Search]"

fun category_value :: "category \<Rightarrow> string" where
  "category_value C_Indexing = ''indexing''"
| "category_value C_Content = ''content''"
| "category_value C_Technical = ''technical''"
| "category_value C_Performance = ''performance''"
| "category_value C_Structured_Data = ''structured_data''"
| "category_value C_Links = ''links''"
| "category_value C_Images = ''images''"
| "category_value C_Eeat = ''eeat''"
| "category_value C_International = ''international''"
| "category_value C_Ai_Search = ''ai_search''"

fun CATEGORY_FA :: "category \<Rightarrow> chars" where
  "CATEGORY_FA C_Indexing = (fa ''ayndks_Sdn v xzS'')"
| "CATEGORY_FA C_Content = (fa ''mHtva v klmat klydy'')"
| "CATEGORY_FA C_Technical = (fa ''fny'')"
| "CATEGORY_FA C_Performance = (fa ''srot v [Core Web Vitals]'')"
| "CATEGORY_FA C_Structured_Data = (fa ''dadh saxtaryafth'')"
| "CATEGORY_FA C_Links = (fa ''lynk_sazy'')"
| "CATEGORY_FA C_Images = (fa ''teavyr'')"
| "CATEGORY_FA C_Eeat = (fa ''aotbar v [E-E-A-T]'')"
| "CATEGORY_FA C_International = (fa ''Cndzbanh'')"
| "CATEGORY_FA C_Ai_Search = (fa ''jstjvy hvS menvoy'')"

fun CATEGORY_EN :: "category \<Rightarrow> string" where
  "CATEGORY_EN C_Indexing = ''Indexing & Crawling''"
| "CATEGORY_EN C_Content = ''Content & Keywords''"
| "CATEGORY_EN C_Technical = ''Technical''"
| "CATEGORY_EN C_Performance = ''Speed & Core Web Vitals''"
| "CATEGORY_EN C_Structured_Data = ''Structured Data''"
| "CATEGORY_EN C_Links = ''Linking''"
| "CATEGORY_EN C_Images = ''Images''"
| "CATEGORY_EN C_Eeat = ''Trust & E-E-A-T''"
| "CATEGORY_EN C_International = ''Internationalization''"
| "CATEGORY_EN C_Ai_Search = ''AI Search''"

subsection \<open>Pages\<close>

record image_ref =
  im_src :: chars
  im_alt :: "chars option"
  im_width :: "chars option"
  im_height :: "chars option"
  im_loading :: "chars option"
  im_first :: bool

record link_ref =
  lk_href :: chars
  lk_raw_href :: chars
  lk_anchor :: chars
  lk_rel :: chars
  lk_internal :: bool

record page_data =
  pd_url :: chars
  pd_final_url :: chars
  pd_status :: int
  pd_redirects :: "(int \<times> chars) list"
  pd_elapsed_ms :: int
  pd_content_type :: chars
  pd_headers :: "(string \<times> chars) list"
  pd_error :: "chars option"
  pd_depth :: int
  pd_html :: chars
  pd_byte_size :: int
  pd_title :: "chars option"
  pd_description :: "chars option"
  pd_robots :: chars
  pd_canonical :: "chars option"
  pd_viewport :: "chars option"
  pd_lang :: "chars option"
  pd_charset :: "chars option"
  pd_hreflang :: "(chars \<times> chars) list"
  pd_og :: "(string \<times> chars) list"
  pd_twitter :: "(string \<times> chars) list"
  pd_favicon :: "chars option"
  pd_headings :: "(int \<times> chars) list"
  pd_text :: chars
  pd_words :: int
  pd_images :: "image_ref list"
  pd_links :: "link_ref list"
  pd_jsonld :: "dict list"
  pd_microdata :: "chars list"
  pd_blocking_scripts :: int
  pd_blocking_styles :: int
  pd_inline_script_bytes :: int
  pd_inline_style_bytes :: int
  pd_external_scripts :: int
  pd_iframes :: int
  pd_inlinks :: int
  pd_content_hash :: chars

text \<open>What the engine takes from Python: tables of characters, \<^verbatim>\<open>hash\<close>, the order of a set, \<^verbatim>\<open>:g\<close>.\<close>

record audit_env =
  ae_chars :: charset
  ae_hash :: "chars \<Rightarrow> int"
  ae_order :: "chars list \<Rightarrow> chars list"
  ae_general :: "rat \<Rightarrow> chars"
  ae_str :: "json \<Rightarrow> chars"

abbreviation low :: "audit_env \<Rightarrow> chars \<Rightarrow> chars" where
  "low A \<equiv> cs_lower (ae_chars A)"

definition is_nofollow :: "audit_env \<Rightarrow> link_ref \<Rightarrow> bool" where
  "is_nofollow A l \<longleftrightarrow> sublist (lit ''nofollow'') (low A (lk_rel l))"

definition is_html :: "audit_env \<Rightarrow> page_data \<Rightarrow> bool" where
  "is_html A p \<longleftrightarrow> sublist (lit ''html'') (low A (pd_content_type p))"

definition is_ok :: "page_data \<Rightarrow> bool" where
  "is_ok p \<longleftrightarrow> 200 \<le> pd_status p \<and> pd_status p < 300 \<and> pd_error p = None"

definition h1s :: "page_data \<Rightarrow> chars list" where
  "h1s p = map snd (filter (\<lambda>h. fst h = 1) (pd_headings p))"

definition is_noindex :: "audit_env \<Rightarrow> page_data \<Rightarrow> bool" where
  "is_noindex A p \<longleftrightarrow> sublist (lit ''noindex'') (low A (pd_robots p)) \<or>
     sublist (lit ''noindex'') (low A (entry (pd_headers p) ''x-robots-tag''))"

definition is_indexable :: "audit_env \<Rightarrow> page_data \<Rightarrow> bool" where
  "is_indexable A p \<longleftrightarrow> is_ok p \<and> is_html A p \<and> \<not> is_noindex A p"

subsection \<open>Sites and issues\<close>

record issue =
  is_id :: chars
  is_title_en :: chars
  is_title_fa :: chars
  is_detail_fa :: chars
  is_fix_fa :: chars
  is_severity :: severity
  is_category :: category
  is_urls :: "chars list"
  is_evidence :: chars
  is_docs :: chars

definition affected_count :: "issue \<Rightarrow> nat" where
  "affected_count i = length (is_urls i)"

definition JText :: "chars \<Rightarrow> json" where
  "JText t = JStr (encode t)"

definition issue_to_dict :: "issue \<Rightarrow> dict" where
  "issue_to_dict i =
     [(''id'', JText (is_id i)), (''title_en'', JText (is_title_en i)), (''title_fa'', JText (is_title_fa i)),
      (''detail_fa'', JText (is_detail_fa i)), (''fix_fa'', JText (is_fix_fa i)),
      (''severity'', JStr (severity_value (is_severity i))), (''severity_fa'', JText (SEVERITY_FA (is_severity i))),
      (''category'', JStr (category_value (is_category i))), (''category_fa'', JText (CATEGORY_FA (is_category i))),
      (''category_en'', JStr (CATEGORY_EN (is_category i))), (''urls'', JList (map JText (take 50 (is_urls i)))),
      (''affected_count'', JInt (int (affected_count i))), (''evidence'', JText (is_evidence i)),
      (''docs'', JText (is_docs i))]"

record site_context =
  sc_start_url :: chars
  sc_origin :: chars
  sc_pages :: "page_data list"
  sc_robots_txt :: "chars option"
  sc_robots_status :: int
  sc_sitemap_urls :: "chars list"
  sc_sitemap_locs :: "chars list"
  sc_sitemap_errors :: "chars list"
  sc_llms_txt_found :: bool
  sc_security_txt_found :: bool
  sc_target_keywords :: "chars list"
  sc_psi :: "dict option"
  sc_notes :: "chars list"
  sc_external_checked :: int
  sc_broken_external :: "(chars \<times> chars \<times> int \<times> chars option) list"

definition html_pages :: "audit_env \<Rightarrow> site_context \<Rightarrow> page_data list" where
  "html_pages A ctx = filter (\<lambda>p. is_ok p \<and> is_html A p) (sc_pages ctx)"

definition pages_to_index :: "audit_env \<Rightarrow> site_context \<Rightarrow> page_data list" where
  "pages_to_index A ctx = filter (is_indexable A) (sc_pages ctx)"

text \<open>\<^verbatim>\<open>page_by_url\<close>: the first page with this address, asked for or final.\<close>

definition page_by_url :: "site_context \<Rightarrow> chars \<Rightarrow> page_data option" where
  "page_by_url ctx url = first_where (\<lambda>p. pd_url p = url \<or> pd_final_url p = url) (sc_pages ctx)"

subsection \<open>The frame of the rules\<close>

definition make_issue ::
  "chars \<Rightarrow> chars \<Rightarrow> chars \<Rightarrow> chars \<Rightarrow> chars \<Rightarrow> severity \<Rightarrow> category \<Rightarrow> chars list \<Rightarrow> chars \<Rightarrow> chars \<Rightarrow> issue" where
  "make_issue issue_id title_en title_fa detail_fa fix_fa severity category urls evidence docs =
     \<lparr>is_id = issue_id, is_title_en = title_en, is_title_fa = title_fa, is_detail_fa = detail_fa, is_fix_fa = fix_fa,
      is_severity = severity, is_category = category, is_urls = urls, is_evidence = evidence, is_docs = docs\<rparr>"

definition sample :: "nat \<Rightarrow> chars list \<Rightarrow> chars" where
  "sample limit urls = joined (fa '', '') (take limit urls)"

text \<open>
  A rule is a generator: the issues it yields before it returns or raises. \<^verbatim>\<open>issues.extend\<close> keeps those that
  came before an exception.
\<close>

type_synonym findings = "issue list \<times> exn option"

type_synonym rule = "audit_env \<Rightarrow> site_context \<Rightarrow> findings"

definition gives :: "issue list \<Rightarrow> findings" where
  "gives issues = (issues, None)"

definition first_of :: "'a py \<Rightarrow> ('a \<Rightarrow> findings) \<Rightarrow> findings" where
  "first_of r f = (case r of Inl e \<Rightarrow> ([], Some e) | Inr x \<Rightarrow> f x)"

definition and_then :: "findings \<Rightarrow> findings \<Rightarrow> findings" where
  "and_then r q = (case snd r of Some e \<Rightarrow> r | None \<Rightarrow> (fst r @ fst q, snd q))"

definition unless_empty :: "'a list \<Rightarrow> issue \<Rightarrow> issue list" where
  "unless_empty xs i = (if xs = [] then [] else [i])"

definition issue_key :: "issue \<Rightarrow> nat \<times> int \<times> chars" where
  "issue_key i = (SEVERITY_ORDER (is_severity i), - int (affected_count i), is_id i)"

text \<open>The name of an exception and its message come from the interpreter.\<close>

definition failure_note :: "(exn \<Rightarrow> chars) \<Rightarrow> chars \<Rightarrow> exn \<Rightarrow> chars" where
  "failure_note shown name e = (fa ''qanvn <'') @ name @ (fa ''> ba xTa mtvqf Sd: '') @ shown e"

fun run_rules ::
  "(exn \<Rightarrow> chars) \<Rightarrow> audit_env \<Rightarrow> (chars \<times> rule) list \<Rightarrow> site_context \<Rightarrow> issue list \<Rightarrow> issue list \<times> site_context" where
  "run_rules shown A [] ctx issues = (issues, ctx)"
| "run_rules shown A ((name, f) # registry) ctx issues =
     (case f A ctx of
        (found, None) \<Rightarrow> run_rules shown A registry ctx (issues @ found)
      | (found, Some e) \<Rightarrow>
          run_rules shown A registry (ctx\<lparr>sc_notes := sc_notes ctx @ [failure_note shown name e]\<rparr>) (issues @ found))"

definition run_all :: "(exn \<Rightarrow> chars) \<Rightarrow> audit_env \<Rightarrow> (chars \<times> rule) list \<Rightarrow> site_context \<Rightarrow> issue list \<times> site_context" where
  "run_all shown A registry ctx =
     (let (issues, ctx') = run_rules shown A registry ctx [] in (sort_key issue_key issues, ctx'))"

subsection \<open>Addresses\<close>

definition split_text :: "chars \<Rightarrow> split_url py" where
  "split_text url = urlsplit5 (encode url)"

definition path_of :: "split_url \<Rightarrow> chars" where
  "path_of u = code_points (fst (split_params (su_scheme u) (su_path u)))"

definition lowered :: "audit_env \<Rightarrow> string \<Rightarrow> string" where
  "lowered A s = encode (low A (code_points s))"

definition normalize_url :: "audit_env \<Rightarrow> chars \<Rightarrow> chars py" where
  "normalize_url A url =
     bindE (split_text (strip_white url)) (\<lambda>u.
       (let sch = (if su_scheme u = [] then ''https'' else lower (su_scheme u));
            host = lowered A (su_netloc u);
            netloc = (if suffix '':80'' host \<and> sch = ''http'' then take (length host - 3) host
                      else if suffix '':443'' host \<and> sch = ''https'' then take (length host - 4) host else host);
            (path0, params) = split_params (su_scheme u) (su_path u);
            path = (if path0 = [] then ''/'' else path0)
        in Inr (code_points (urlunsplit \<lparr>su_scheme = sch, su_netloc = netloc,
             su_path = (if params = [] then path else path @ CHR '';'' # params), su_query = su_query u, su_fragment = []\<rparr>))))"

definition without_www :: "string \<Rightarrow> string" where
  "without_www h = (if prefix ''www.'' h then drop 4 h else h)"

definition same_site :: "audit_env \<Rightarrow> chars \<Rightarrow> chars \<Rightarrow> bool \<Rightarrow> bool py" where
  "same_site A url origin follow_subdomains =
     bindE (split_text url) (\<lambda>u. bindE (split_text origin) (\<lambda>v.
       (let host = lowered A (su_netloc u); origin_host = lowered A (su_netloc v); base = without_www origin_host
        in Inr (if host = origin_host then True
                else if \<not> follow_subdomains then without_www host = without_www origin_host
                else host = base \<or> suffix (CHR ''.'' # base) host))))"

subsection \<open>Rules in general\<close>

lemma first_of_simps [simp]: "first_of (Inr x) f = f x" "first_of (Inl e) f = ([], Some e)"
  by (simp_all add: first_of_def)

lemma unless_empty_simps [simp]: "unless_empty [] i = []" "xs \<noteq> [] \<Longrightarrow> unless_empty xs i = [i]"
  by (simp_all add: unless_empty_def)

lemma in_unless_empty [simp]: "j \<in> set (unless_empty xs i) \<longleftrightarrow> xs \<noteq> [] \<and> j = i"
  by (simp add: unless_empty_def)

lemma make_issue_simps [simp]:
  "is_id (make_issue a b c d e s k us v w) = a" "is_severity (make_issue a b c d e s k us v w) = s"
  "is_category (make_issue a b c d e s k us v w) = k" "is_urls (make_issue a b c d e s k us v w) = us"
  by (simp_all add: make_issue_def)

text \<open>What a rule finds does not depend on the notes that earlier rules left.\<close>

lemma run_rules_collects:
  assumes "\<And>f ns. f \<in> snd ` set registry \<Longrightarrow> f A (ctx\<lparr>sc_notes := ns\<rparr>) = f A ctx"
  shows "run_rules shown A registry (ctx\<lparr>sc_notes := told\<rparr>) issues =
     (issues @ concat (map (\<lambda>r. fst (snd r A ctx)) registry),
      ctx\<lparr>sc_notes := told @
        concat (map (\<lambda>r. case snd (snd r A ctx) of None \<Rightarrow> [] | Some e \<Rightarrow> [failure_note shown (fst r) e]) registry)\<rparr>)"
  using assms
proof (induction registry arbitrary: issues told)
  case (Cons r registry)
  obtain name f where r: "r = (name, f)" by fastforce
  have f: "f A (ctx\<lparr>sc_notes := told\<rparr>) = f A ctx" by (rule Cons.prems) (simp add: r)
  have IH: "run_rules shown A registry (ctx\<lparr>sc_notes := told'\<rparr>) issues' =
     (issues' @ concat (map (\<lambda>r. fst (snd r A ctx)) registry),
      ctx\<lparr>sc_notes := told' @
        concat (map (\<lambda>r. case snd (snd r A ctx) of None \<Rightarrow> [] | Some e \<Rightarrow> [failure_note shown (fst r) e]) registry)\<rparr>)"
    for told' issues' by (rule Cons.IH) (rule Cons.prems, simp)
  show ?case by (simp add: r f IH split: prod.split option.split)
qed simp

end
