(* ===== verification/Robots.thy ===== *)
theory Robots
  imports Audit_Model
begin

text \<open>
  \<^verbatim>\<open>urllib.robotparser\<close> as the crawler uses it, and the agents it crawls as (\<^verbatim>\<open>config.py\<close>). A rule of an entry is
  a path, escaped, and whether it allows. Escapes that are not UTF-8 stay the bytes they are.
\<close>

subsection \<open>Reading the file\<close>

record robots_entry =
  re_agents :: "chars list"
  re_rules :: "(string \<times> bool) list"

record robots =
  rb_entries :: "robots_entry list"
  rb_default :: "robots_entry option"

definition no_entry :: robots_entry where
  "no_entry = \<lparr>re_agents = [], re_rules = []\<rparr>"

definition no_robots :: robots where
  "no_robots = \<lparr>rb_entries = [], rb_default = None\<rparr>"

definition add_entry :: "robots_entry \<Rightarrow> robots \<Rightarrow> robots" where
  "add_entry e rb =
     (if lit ''*'' \<in> set (re_agents e) then
        (case rb_default rb of None \<Rightarrow> rb\<lparr>rb_default := Some e\<rparr> | Some _ \<Rightarrow> rb)
      else rb\<lparr>rb_entries := rb_entries rb @ [e]\<rparr>)"

definition rule_line :: "string \<Rightarrow> bool \<Rightarrow> (string \<times> bool) py" where
  "rule_line path allowance =
     bindE (urlparse [] path) (\<lambda>u. Inr (quote (urlunparse u), allowance \<or> path = []))"

text \<open>
  One line. The state is 0 at the start of an entry, 1 after a line with an agent, 2 after one with a rule; a blank
  line ends the entry.
\<close>

definition blank_line :: "nat \<times> robots_entry \<times> robots \<Rightarrow> nat \<times> robots_entry \<times> robots" where
  "blank_line s =
     (case s of (state, e, rb) \<Rightarrow>
        if state = 1 then (0, no_entry, rb) else if state = 2 then (0, no_entry, add_entry e rb) else (state, e, rb))"

definition field_line ::
  "audit_env \<Rightarrow> chars \<Rightarrow> nat \<times> robots_entry \<times> robots \<Rightarrow> (nat \<times> robots_entry \<times> robots) py" where
  "field_line A line s =
     (case s of (state, e, rb) \<Rightarrow>
        let name = low A (strip_white (until 58 line)); value = unquote (encode (strip_white (beyond 58 line))) in
        if name = lit ''user-agent'' then
          (let (e', rb') = (if state = 2 then (no_entry, add_entry e rb) else (e, rb))
           in Inr (1, e'\<lparr>re_agents := re_agents e' @ [code_points value]\<rparr>, rb'))
        else if name \<in> {lit ''disallow'', lit ''allow''} then
          (if state = 0 then Inr (state, e, rb)
           else bindE (rule_line value (name = lit ''allow'')) (\<lambda>r. Inr (2, e\<lparr>re_rules := re_rules e @ [r]\<rparr>, rb)))
        else if name \<in> {lit ''crawl-delay'', lit ''request-rate''} then
          Inr (if state = 0 then state else 2, e, rb)
        else Inr (state, e, rb))"

definition robots_line ::
  "audit_env \<Rightarrow> chars \<Rightarrow> nat \<times> robots_entry \<times> robots \<Rightarrow> (nat \<times> robots_entry \<times> robots) py" where
  "robots_line A raw s =
     (let s' = (if raw = [] then blank_line s else s); line = strip_white (until 35 raw)
      in if line = [] \<or> 58 \<notin> set line then Inr s' else field_line A line s')"

fun robots_lines ::
  "audit_env \<Rightarrow> chars list \<Rightarrow> nat \<times> robots_entry \<times> robots \<Rightarrow> (nat \<times> robots_entry \<times> robots) py" where
  "robots_lines A [] s = Inr s"
| "robots_lines A (raw # rest) s = bindE (robots_line A raw s) (robots_lines A rest)"

definition parse_robots :: "audit_env \<Rightarrow> chars list \<Rightarrow> robots py" where
  "parse_robots A lines =
     bindE (robots_lines A lines (0, no_entry, no_robots)) (\<lambda>(state, e, rb).
       Inr (if state = 2 then add_entry e rb else rb))"

subsection \<open>Asking it\<close>

definition agent_token :: "audit_env \<Rightarrow> chars \<Rightarrow> chars" where
  "agent_token A useragent = low A (until 47 useragent)"

definition entry_applies :: "audit_env \<Rightarrow> chars \<Rightarrow> robots_entry \<Rightarrow> bool" where
  "entry_applies A useragent e \<longleftrightarrow>
     list_ex (\<lambda>agent. agent = lit ''*'' \<or> sublist (low A agent) (agent_token A useragent)) (re_agents e)"

definition entry_allows :: "string \<Rightarrow> robots_entry \<Rightarrow> bool" where
  "entry_allows filename e =
     (case first_where (\<lambda>r. fst r = ''*'' \<or> starts_with (fst r) filename) (re_rules e) of
        None \<Rightarrow> True | Some r \<Rightarrow> snd r)"

definition can_fetch :: "audit_env \<Rightarrow> robots \<Rightarrow> chars \<Rightarrow> chars \<Rightarrow> bool py" where
  "can_fetch A rb useragent url =
     bindE (urlparse [] (unquote (encode url))) (\<lambda>u.
       (let path = quote (urlunparse (u\<lparr>fu_scheme := [], fu_netloc := []\<rparr>));
            filename = (if path = [] then ''/'' else path)
        in Inr (case first_where (entry_applies A useragent) (rb_entries rb) of
                  Some e \<Rightarrow> entry_allows filename e
                | None \<Rightarrow> (case rb_default rb of Some e \<Rightarrow> entry_allows filename e | None \<Rightarrow> True))))"

subsection \<open>The agents of the crawler\<close>

definition UA_MOBILE :: chars where
  "UA_MOBILE = lit (''Mozilla/5.0 (Linux; Android 13; SM-S901B) AppleWebKit/537.36 (KHTML, like Gecko) '' @
     ''Chrome/125.0.0.0 Mobile Safari/537.36 SeoAgent/1.0 (+personal-seo-audit)'')"

definition UA_DESKTOP :: chars where
  "UA_DESKTOP = lit (''Mozilla/5.0 (Windows NT 10.0; Win64; x64) AppleWebKit/537.36 (KHTML, like Gecko) '' @
     ''Chrome/125.0.0.0 Safari/537.36 SeoAgent/1.0 (+personal-seo-audit)'')"

definition UA_GOOGLEBOT_MOBILE :: chars where
  "UA_GOOGLEBOT_MOBILE = lit (''Mozilla/5.0 (Linux; Android 6.0.1; Nexus 5X Build/MMB29P) AppleWebKit/537.36 '' @
     ''(KHTML, like Gecko) Chrome/125.0.0.0 Mobile Safari/537.36 '' @
     ''(compatible; Googlebot/2.1; +http://www.google.com/bot.html)'')"

definition USER_AGENTS :: "(string \<times> chars) list" where
  "USER_AGENTS = [(''mobile'', UA_MOBILE), (''desktop'', UA_DESKTOP), (''googlebot'', UA_GOOGLEBOT_MOBILE)]"

definition user_agent :: "string \<Rightarrow> chars" where
  "user_agent key = (case map_of USER_AGENTS key of None \<Rightarrow> UA_MOBILE | Some ua \<Rightarrow> ua)"

lemma user_agent_token: "until 47 (user_agent key) = lit ''Mozilla''"
  by (auto simp: user_agent_def USER_AGENTS_def UA_MOBILE_def UA_DESKTOP_def UA_GOOGLEBOT_MOBILE_def until_def lit_def)

end
