(* ===== verification/Fetcher.thy ===== *)
theory Fetcher
  imports Robots Netguard
begin

text \<open>
  The HTTP layer of the crawler, \<^verbatim>\<open>src/services/engine/seoagent/fetcher.py\<close>, and its configuration (\<^verbatim>\<open>config.py\<close>). The
  network is a world that every request may change and answers from, a parameter like the decoders of bytes
  and name resolution. The pause between requests (\<^verbatim>\<open>_throttle\<close>) only takes time and is left out.
\<close>

subsection \<open>Actions on the world\<close>

type_synonym ('w, 'a) action = "'w \<Rightarrow> 'a py \<times> 'w"

definition give :: "'a \<Rightarrow> ('w, 'a) action" where
  "give x w = (Inr x, w)"

definition bindW :: "('w, 'a) action \<Rightarrow> ('a \<Rightarrow> ('w, 'b) action) \<Rightarrow> ('w, 'b) action" where
  "bindW m f w = (case m w of (Inl e, w') \<Rightarrow> (Inl e, w') | (Inr x, w') \<Rightarrow> f x w')"

definition purely :: "'a py \<Rightarrow> ('w, 'a) action" where
  "purely r w = (r, w)"

fun mapW :: "('a \<Rightarrow> ('w, 'b) action) \<Rightarrow> 'a list \<Rightarrow> ('w, 'b list) action" where
  "mapW f [] = give []"
| "mapW f (x # xs) = bindW (f x) (\<lambda>y. bindW (mapW f xs) (\<lambda>ys. give (y # ys)))"

lemma bindW_Inr: "bindW m f w = (Inr y, w') \<longleftrightarrow> (\<exists>x w1. m w = (Inr x, w1) \<and> f x w1 = (Inr y, w'))"
  by (auto simp: bindW_def split: prod.splits sum.splits)

lemma give_Inr [simp]: "give x w = (Inr y, w') \<longleftrightarrow> y = x \<and> w' = w"
  by (auto simp: give_def)

lemma purely_Inr [simp]: "purely r w = (Inr y, w') \<longleftrightarrow> r = Inr y \<and> w' = w"
  by (auto simp: purely_def)

lemma mapW_all2: "mapW f xs w = (Inr ys, w') \<Longrightarrow> list_all2 (\<lambda>x y. \<exists>w w'. f x w = (Inr y, w')) xs ys"
  by (induction xs arbitrary: w ys) (auto simp: bindW_Inr)

subsection \<open>Configuration\<close>

record crawl_config =
  cf_start_url :: chars
  cf_max_pages :: int
  cf_max_depth :: int
  cf_timeout :: rat
  cf_workers :: int
  cf_user_agent_key :: string
  cf_respect_robots :: bool
  cf_follow_subdomains :: bool
  cf_check_external :: bool
  cf_max_external :: int
  cf_keywords :: "chars list"

definition config_for :: "chars \<Rightarrow> crawl_config" where
  "config_for url =
     \<lparr>cf_start_url = url, cf_max_pages = 50, cf_max_depth = 3, cf_timeout = 20, cf_workers = 4, cf_user_agent_key = ''mobile'',
      cf_respect_robots = True, cf_follow_subdomains = False, cf_check_external = True, cf_max_external = 40, cf_keywords = []\<rparr>"

subsection \<open>Answers\<close>

record response =
  rs_status :: int
  rs_url :: chars
  rs_history :: "(int \<times> chars) list"
  rs_headers :: "(chars \<times> chars) list"
  rs_body :: "chars + string"
  rs_text :: chars
  rs_guess :: "chars option"

datatype answer = Too_Many_Redirects | Timed_Out | Request_Exception chars | Answered response

record 'w net_env =
  ne_audit :: audit_env
  ne_send :: "string \<Rightarrow> chars \<Rightarrow> 'w \<Rightarrow> answer \<times> 'w"
  ne_elapsed :: "'w \<Rightarrow> 'w \<Rightarrow> int"
  ne_dns :: resolver
  ne_allow_private :: string
  ne_decode :: "string \<Rightarrow> chars \<Rightarrow> chars option"
  ne_replace :: "string \<Rightarrow> chars"

record fetch_result =
  fr_status :: int
  fr_final_url :: chars
  fr_chain :: "(int \<times> chars) list"
  fr_headers :: "(string \<times> chars) list"
  fr_text :: chars
  fr_bytes :: int
  fr_elapsed :: int
  fr_content_type :: chars
  fr_error :: "chars option"

definition MAX_BODY_BYTES :: int where
  "MAX_BODY_BYTES = 5000000"

text \<open>\<^verbatim>\<open>xs[:n]\<close> for a number that is not negative.\<close>

definition clip :: "int \<Rightarrow> 'a list \<Rightarrow> 'a list" where
  "clip n xs = (if int (length xs) \<le> n then xs else take (nat n) xs)"

text \<open>Header names are compared without their case, \<^verbatim>\<open>resp.headers.get(name, "")\<close>.\<close>

definition header_of :: "audit_env \<Rightarrow> response \<Rightarrow> string \<Rightarrow> chars" where
  "header_of A r name =
     (case first_where (\<lambda>h. low A (fst h) = low A (lit name)) (rs_headers r) of None \<Rightarrow> [] | Some h \<Rightarrow> snd h)"

definition text_after :: "chars \<Rightarrow> chars \<Rightarrow> chars option" where
  "text_after pattern t =
     map_option (\<lambda>i. drop (i + length pattern) t) (first_where (matches_at pattern t) [0..<length t])"

text \<open>Bytes know only the cases of ASCII.\<close>

definition ascii_lower :: "int \<Rightarrow> int" where
  "ascii_lower c = (if 65 \<le> c \<and> c \<le> 90 then c + 32 else c)"

definition byte_set :: charset where
  "byte_set = \<lparr>cs_lower = map ascii_lower, cs_icase = ascii_lower, cs_upper = (\<lambda>c. 65 \<le> c \<and> c \<le> 90),
     cs_word = (\<lambda>c. 48 \<le> c \<and> c \<le> 57 \<or> 65 \<le> c \<and> c \<le> 90 \<or> c = 95 \<or> 97 \<le> c \<and> c \<le> 122),
     cs_digit = (\<lambda>c. 48 \<le> c \<and> c \<le> 57)\<rparr>"

text \<open>\<^verbatim>\<open><meta[^>]+charset\s*=\s*["']?\s*([a-zA-Z0-9_\-]+)\<close>: what precedes the group, and the group.\<close>

definition META_CHARSET :: "regex \<times> regex" where
  "META_CHARSET =
     (let blank = Many (One (\<lambda>c. 9 \<le> c \<and> c \<le> 13 \<or> c = 32)) in
      (seq [text_like byte_set (lit ''<meta''), some (none_of (lit ''>'')), text_like byte_set (lit ''charset''), blank,
            text_is (lit ''=''), blank, maybe (one_of [34, 39]), blank],
       some (One (\<lambda>c. 48 \<le> c \<and> c \<le> 57 \<or> 65 \<le> c \<and> c \<le> 90 \<or> 97 \<le> c \<and> c \<le> 122 \<or> c = 95 \<or> c = 45))))"

definition declared_charset :: "string \<Rightarrow> chars option" where
  "declared_charset body =
     (let s = lit (clip 4096 body); (opening, core) = META_CHARSET
      in first_group s opening core Eps 0)"

definition header_charset :: "audit_env \<Rightarrow> chars \<Rightarrow> chars" where
  "header_charset A content_type =
     (case text_after (lit ''charset='') (low A content_type) of
        None \<Rightarrow> [] | Some t \<Rightarrow> strip_where (\<lambda>c. c \<in> {32, 34, 39}) (until 59 t))"

fun first_decoded :: "(chars \<Rightarrow> chars option) \<Rightarrow> chars list \<Rightarrow> chars option" where
  "first_decoded decode_as [] = None"
| "first_decoded decode_as (e # es) =
     (if e = [] then first_decoded decode_as es
      else case decode_as e of None \<Rightarrow> first_decoded decode_as es | Some t \<Rightarrow> Some t)"

definition decode_body :: "'w net_env \<Rightarrow> string \<Rightarrow> chars \<Rightarrow> chars option \<Rightarrow> chars" where
  "decode_body E body content_type guess =
     (let header = header_charset (ne_audit E) content_type;
          candidates = (if header = [] then [] else [header]) @
            (case declared_charset body of None \<Rightarrow> [] | Some c \<Rightarrow> [c]) @
            (if given guess = [] then [] else [given guess]) @ [lit ''utf-8'']
      in case first_decoded (ne_decode E body) candidates of None \<Rightarrow> ne_replace E body | Some t \<Rightarrow> t)"

definition error_result :: "chars \<Rightarrow> int \<Rightarrow> chars \<Rightarrow> fetch_result" where
  "error_result url elapsed message =
     \<lparr>fr_status = 0, fr_final_url = url, fr_chain = [], fr_headers = [], fr_text = [], fr_bytes = 0, fr_elapsed = elapsed,
      fr_content_type = [], fr_error = Some message\<rparr>"

definition read_response :: "'w net_env \<Rightarrow> string \<Rightarrow> chars \<Rightarrow> int \<Rightarrow> response \<Rightarrow> fetch_result" where
  "read_response E method url elapsed r =
     (let content_type = header_of (ne_audit E) r ''Content-Type'';
          kind = low (ne_audit E) content_type;
          good = (\<lambda>text size. \<lparr>fr_status = rs_status r, fr_final_url = rs_url r, fr_chain = rs_history r,
            fr_headers = map (\<lambda>(k, v). (encode (low (ne_audit E) k), v)) (rs_headers r), fr_text = text,
            fr_bytes = int size, fr_elapsed = elapsed, fr_content_type = content_type, fr_error = None\<rparr>)
      in if method = ''HEAD'' then good [] 0
         else case rs_body r of
                Inl reason \<Rightarrow> error_result url elapsed (lit ''read error: '' @ reason)
              | Inr whole \<Rightarrow>
                  (let body = clip MAX_BODY_BYTES whole in
                   good (if sublist (lit ''html'') kind \<or> sublist (lit ''xml'') kind \<or> content_type = []
                         then decode_body E body content_type (rs_guess r) else []) (length body)))"

definition guard_url :: "'w net_env \<Rightarrow> chars \<Rightarrow> unit py" where
  "guard_url E url = check_url (ne_dns E) (ne_allow_private E) (encode url)"

text \<open>\<^verbatim>\<open>fetch\<close>: only the refusal of the guard is caught, an address that cannot be split raises.\<close>

definition fetch :: "'w net_env \<Rightarrow> crawl_config \<Rightarrow> string \<Rightarrow> chars \<Rightarrow> ('w, fetch_result) action" where
  "fetch E cf method url w =
     (case guard_url E url of
        Inl (TargetNotAllowed m) \<Rightarrow> (Inr (error_result url (ne_elapsed E w w) (code_points m)), w)
      | Inl e \<Rightarrow> (Inl e, w)
      | Inr _ \<Rightarrow>
          (case ne_send E method url w of
             (Too_Many_Redirects, w') \<Rightarrow>
               (Inr (error_result url (ne_elapsed E w w') (lit ''redirect loop / too many redirects'')), w')
           | (Timed_Out, w') \<Rightarrow>
               (Inr (error_result url (ne_elapsed E w w')
                 (lit ''timeout after '' @ inum (round_even (cf_timeout cf)) @ lit ''s'')), w')
           | (Request_Exception m, w') \<Rightarrow> (Inr (error_result url (ne_elapsed E w w') m), w')
           | (Answered r, w') \<Rightarrow> (Inr (read_response E method url (ne_elapsed E w w') r), w')))"

definition failed_fetch :: "fetch_result \<Rightarrow> bool" where
  "failed_fetch r \<longleftrightarrow> given (fr_error r) \<noteq> []"

definition check_status :: "'w net_env \<Rightarrow> crawl_config \<Rightarrow> chars \<Rightarrow> ('w, int \<times> chars option) action" where
  "check_status E cf url =
     bindW (fetch E cf ''HEAD'' url) (\<lambda>r.
       bindW (if failed_fetch r \<or> fr_status r \<in> {405, 403, 0} then fetch E cf ''GET'' url else give r) (\<lambda>r'.
         give (fr_status r', fr_error r')))"

subsection \<open>robots.txt\<close>

record fetcher =
  ft_robots :: "robots option"
  ft_robots_txt :: "chars option"
  ft_robots_status :: int

definition new_fetcher :: fetcher where
  "new_fetcher = \<lparr>ft_robots = None, ft_robots_txt = None, ft_robots_status = 0\<rparr>"

text \<open>Only what the library of requests raises is caught; the file is asked for without the guard.\<close>

definition load_robots :: "'w net_env \<Rightarrow> chars \<Rightarrow> ('w, fetcher) action" where
  "load_robots E origin =
     bindW (purely (urljoin (encode origin) ''/robots.txt'')) (\<lambda>robots_url w.
       (case ne_send E ''GET'' (code_points robots_url) w of
          (Answered r, w') \<Rightarrow>
            (if rs_status r = 200 \<and> \<not> sublist (lit ''html'') (header_of (ne_audit E) r ''Content-Type'') then
               (let txt = clip 200000 (rs_text r) in
                bindW (purely (parse_robots (ne_audit E) (splitlines txt)))
                  (\<lambda>rb. give \<lparr>ft_robots = Some rb, ft_robots_txt = Some txt, ft_robots_status = 200\<rparr>) w')
             else (Inr (new_fetcher\<lparr>ft_robots_status := rs_status r\<rparr>), w'))
        | (_, w') \<Rightarrow> (Inr new_fetcher, w')))"

definition allowed :: "audit_env \<Rightarrow> crawl_config \<Rightarrow> fetcher \<Rightarrow> chars \<Rightarrow> bool" where
  "allowed A cf ft url \<longleftrightarrow>
     (if \<not> cf_respect_robots cf then True
      else case ft_robots ft of
             None \<Rightarrow> True
           | Some rb \<Rightarrow> (case can_fetch A rb (user_agent (cf_user_agent_key cf)) url of Inr b \<Rightarrow> b | Inl _ \<Rightarrow> True))"

definition robots_sitemaps :: "audit_env \<Rightarrow> fetcher \<Rightarrow> chars list" where
  "robots_sitemaps A ft =
     filter (\<lambda>v. v \<noteq> [])
       (map (\<lambda>line. strip_white (beyond 58 line))
         (filter (\<lambda>line. prefix (lit ''sitemap:'') (low A (strip_white line))) (splitlines (given (ft_robots_txt ft)))))"

definition registrable_origin :: "chars \<Rightarrow> chars py" where
  "registrable_origin url =
     bindE (urlsplit (encode url)) (\<lambda>u. Inr (code_points (scheme u @ ''://'' @ netloc u)))"

definition result_to_page :: "chars \<Rightarrow> fetch_result \<Rightarrow> int \<Rightarrow> page_data" where
  "result_to_page url r depth =
     \<lparr>pd_url = url, pd_final_url = fr_final_url r, pd_status = fr_status r, pd_redirects = fr_chain r, pd_elapsed_ms = fr_elapsed r,
      pd_content_type = fr_content_type r, pd_headers = fr_headers r, pd_error = fr_error r, pd_depth = depth,
      pd_html = fr_text r, pd_byte_size = fr_bytes r, pd_title = None, pd_description = None, pd_robots = [], pd_canonical = None,
      pd_viewport = None, pd_lang = None, pd_charset = None, pd_hreflang = [], pd_og = [], pd_twitter = [], pd_favicon = None,
      pd_headings = [], pd_text = [], pd_words = 0, pd_images = [], pd_links = [], pd_jsonld = [], pd_microdata = [],
      pd_blocking_scripts = 0, pd_blocking_styles = 0, pd_inline_script_bytes = 0, pd_inline_style_bytes = 0,
      pd_external_scripts = 0, pd_iframes = 0, pd_inlinks = 0, pd_content_hash = []\<rparr>"

text \<open>A machine that reads bytes as letters and changes no order.\<close>

definition ascii_env :: audit_env where
  "ascii_env = \<lparr>ae_chars = byte_set, ae_hash = (\<lambda>t. int (length t)), ae_order = (\<lambda>ts. ts),
     ae_general = (\<lambda>r. []), ae_str = (\<lambda>j. [])\<rparr>"

end
