(* ===== verification/Page_Parser.thy ===== *)
theory Page_Parser
  imports Fetcher
begin

text \<open>
  From HTML to the page the rules read, \<^verbatim>\<open>src/services/engine/seoagent/parser.py\<close>. The tree and the questions one
  can ask it are those of BeautifulSoup, a parameter with a type of nodes of its own: a whole document is a node
  too. Attributes are texts, except \<^verbatim>\<open>rel\<close>, which may be a list of tokens. \<^verbatim>\<open>json.loads\<close> (no value when it
  raises) and SHA-1 are parameters as well.
\<close>

datatype rel_value = Rel_Text chars | Rel_Tokens "chars list"

record 't soup_env =
  so_parse :: "chars \<Rightarrow> 't"
  so_find_all :: "string list \<Rightarrow> 't \<Rightarrow> 't list"
  so_every :: "'t \<Rightarrow> 't list"
  so_select :: "string \<Rightarrow> 't \<Rightarrow> 't list"
  so_name :: "'t \<Rightarrow> string"
  so_attr :: "'t \<Rightarrow> string \<Rightarrow> chars option"
  so_rel :: "'t \<Rightarrow> rel_value option"
  so_string :: "'t \<Rightarrow> chars option"
  so_text :: "'t \<Rightarrow> chars"
  so_spaced_text :: "'t \<Rightarrow> chars"
  so_in_head :: "'t \<Rightarrow> bool"
  so_without :: "string list \<Rightarrow> 't \<Rightarrow> 't"
  so_reparse :: "'t \<Rightarrow> 't"
  so_loads :: "chars \<Rightarrow> json option"
  so_sha1 :: "string \<Rightarrow> chars"

subsection \<open>Text\<close>

definition NON_CONTENT_TAGS :: "string list" where
  "NON_CONTENT_TAGS = [''script'', ''style'', ''noscript'', ''template'', ''svg'', ''iframe'']"

definition BOILERPLATE_TAGS :: "string list" where
  "BOILERPLATE_TAGS = [''nav'', ''header'', ''footer'', ''aside'', ''form'']"

definition WORD_RE :: regex where
  "WORD_RE = alts [
     some (One (\<lambda>c. 65 \<le> c \<and> c \<le> 90 \<or> 97 \<le> c \<and> c \<le> 122 \<or> 48 \<le> c \<and> c \<le> 57 \<or> c \<in> {0x27, 0x2019, 0x2D})),
     some (One (\<lambda>c. 0x600 \<le> c \<and> c \<le> 0x6FF \<or> 0x750 \<le> c \<and> c \<le> 0x77F)),
     One (\<lambda>c. 0x4E00 \<le> c \<and> c \<le> 0x9FFF)]"

definition count_words :: "chars \<Rightarrow> int" where
  "count_words t = int (length (re_findall WORD_RE t))"

definition clean_text :: "'t soup_env \<Rightarrow> 't \<Rightarrow> chars" where
  "clean_text S node = strip_white (re_sub (some (One is_white)) [32] (so_spaced_text S node))"

definition strip_noise :: "'t soup_env \<Rightarrow> 't \<Rightarrow> 't" where
  "strip_noise S soup = so_without S NON_CONTENT_TAGS soup"

definition CONTENT_SELECTORS :: "string list" where
  "CONTENT_SELECTORS = [''main'', ''article'', ''[role=main]'', ''#content'', ''.content'', ''#main'']"

fun best_node :: "'t soup_env \<Rightarrow> 't option \<times> int \<Rightarrow> 't list \<Rightarrow> 't option \<times> int" where
  "best_node S best [] = best"
| "best_node S (best, best_score) (node # nodes) =
     (let score = count_words (clean_text S node)
      in best_node S (if best_score < score then (Some node, score) else (best, best_score)) nodes)"

definition body_of :: "'t soup_env \<Rightarrow> 't \<Rightarrow> 't" where
  "body_of S soup = (case so_find_all S [''body''] soup of [] \<Rightarrow> soup | b # _ \<Rightarrow> b)"

definition extract_main_text :: "'t soup_env \<Rightarrow> 't \<Rightarrow> chars" where
  "extract_main_text S soup =
     (let body = body_of S soup;
          candidates = concat (map (\<lambda>selector. so_select S selector body) CONTENT_SELECTORS);
          whole = (let txt = clean_text S (so_without S BOILERPLATE_TAGS (so_reparse S body))
                   in if 30 \<le> count_words txt then txt else clean_text S body)
      in case best_node S (None, 0) candidates of
           (Some node, score) \<Rightarrow> if 50 \<le> score then clean_text S node else whole
         | (None, _) \<Rightarrow> whole)"

subsection \<open>Attributes\<close>

definition rel_tokens :: "'t soup_env \<Rightarrow> audit_env \<Rightarrow> 't \<Rightarrow> chars list" where
  "rel_tokens S A tag =
     (case so_rel S tag of
        None \<Rightarrow> []
      | Some (Rel_Text v) \<Rightarrow> map (low A) (split_where is_white [] v)
      | Some (Rel_Tokens ts) \<Rightarrow> map (low A) (filter (\<lambda>t. t \<noteq> []) ts))"

definition links_with_rel :: "'t soup_env \<Rightarrow> audit_env \<Rightarrow> 't \<Rightarrow> string \<Rightarrow> 't list" where
  "links_with_rel S A soup rel = filter (\<lambda>tag. lit rel \<in> set (rel_tokens S A tag)) (so_find_all S [''link''] soup)"

text \<open>Tags with a name and an attribute that an expression finds something in.\<close>

definition tags_where :: "'t soup_env \<Rightarrow> string \<Rightarrow> string \<Rightarrow> regex \<Rightarrow> 't \<Rightarrow> 't list" where
  "tags_where S name attr r soup =
     filter (\<lambda>tag. case so_attr S tag attr of None \<Rightarrow> False | Some v \<Rightarrow> re_search r v) (so_find_all S [name] soup)"

definition exactly :: "audit_env \<Rightarrow> string \<Rightarrow> regex" where
  "exactly A name = seq [at_start, text_like (ae_chars A) (lit name), at_end]"

definition meta_content :: "'t soup_env \<Rightarrow> audit_env \<Rightarrow> 't \<Rightarrow> string \<Rightarrow> chars option" where
  "meta_content S A soup name =
     (case tags_where S ''meta'' ''name'' (exactly A name) soup of
        [] \<Rightarrow> None | tag # _ \<Rightarrow> map_option strip_white (so_attr S tag ''content''))"

definition attr_given :: "'t soup_env \<Rightarrow> 't \<Rightarrow> string \<Rightarrow> chars" where
  "attr_given S tag name = given (so_attr S tag name)"

subsection \<open>JSON-LD\<close>

fun dicts_in :: "json list \<Rightarrow> dict list" where
  "dicts_in [] = []"
| "dicts_in (JObj d # xs) = d # dicts_in xs"
| "dicts_in (_ # xs) = dicts_in xs"

definition jsonld_blocks :: "'t soup_env \<Rightarrow> 't \<Rightarrow> dict list" where
  "jsonld_blocks S script =
     (let content = given (so_string S script);
          raw = strip_white (if content = [] then so_text S script else content)
      in if raw = [] then []
         else case so_loads S raw of
                None \<Rightarrow> [[(''__parse_error__'', JText (clip 300 raw))]]
              | Some (JList xs) \<Rightarrow> dicts_in xs
              | Some (JObj d) \<Rightarrow>
                  (case dget d ''@graph'' of
                     JList xs \<Rightarrow>
                       (let meta = filter (\<lambda>(k, v). k \<noteq> ''@graph'') d
                        in dicts_in xs @ (if 1 < length meta then [meta] else []))
                   | _ \<Rightarrow> [d])
              | Some _ \<Rightarrow> [])"

definition parse_jsonld :: "'t soup_env \<Rightarrow> audit_env \<Rightarrow> 't \<Rightarrow> dict list" where
  "parse_jsonld S A soup =
     concat (map (jsonld_blocks S)
       (tags_where S ''script'' ''type'' (text_like (ae_chars A) (lit ''application/ld+json'')) soup))"

subsection \<open>Tracking parameters\<close>

definition TRACKING_PARAMS :: "audit_env \<Rightarrow> regex" where
  "TRACKING_PARAMS A =
     (let C = ae_chars A; word = text_like C \<circ> lit in
      seq [at_start,
        alts [seq [word ''utm_'', some (Alt (like_range C 97 122) (One (\<lambda>c. c = 95)))], word ''gclid'', word ''fbclid'', word ''msclkid'',
          word ''yclid'', seq [word ''mc_'', some (Alt (like_range C 97 122) (One (\<lambda>c. c = 95)))], word ''ref'', word ''source''],
        at_end])"

definition strip_tracking_params :: "audit_env \<Rightarrow> chars \<Rightarrow> chars py" where
  "strip_tracking_params A url =
     bindE (urlparse [] (encode url)) (\<lambda>u.
       if fu_query u = [] then Inr url
       else
         (let kept = filter (\<lambda>pair. pair \<noteq> [] \<and> \<not> re_match (TRACKING_PARAMS A) (until 61 pair))
                (split_at 38 [] (code_points (fu_query u)))
          in Inr (code_points (urlunparse (u\<lparr>fu_query := encode (joined (lit ''&'') kept)\<rparr>)))))"

subsection \<open>The head of a page\<close>

definition join_url :: "chars \<Rightarrow> chars \<Rightarrow> chars py" where
  "join_url base url = bindE (urljoin (encode base) (encode url)) (\<lambda>s. Inr (code_points s))"

definition base_url_of :: "'t soup_env \<Rightarrow> 't \<Rightarrow> page_data \<Rightarrow> chars py" where
  "base_url_of S soup page =
     (let own = (if pd_final_url page = [] then pd_url page else pd_final_url page)
      in case List.map_filter (\<lambda>tag. so_attr S tag ''href'') (so_find_all S [''base''] soup) of
           [] \<Rightarrow> Inr own | href # _ \<Rightarrow> join_url own href)"

definition title_of :: "'t soup_env \<Rightarrow> 't \<Rightarrow> chars option" where
  "title_of S soup =
     (case so_find_all S [''title''] soup of
        [] \<Rightarrow> None
      | tag # _ \<Rightarrow> (case so_string S tag of None \<Rightarrow> None | Some s \<Rightarrow> if s = [] then None else Some (strip_white s)))"

definition robots_of :: "'t soup_env \<Rightarrow> audit_env \<Rightarrow> 't \<Rightarrow> chars" where
  "robots_of S A soup =
     (let robots = given (meta_content S A soup ''robots'')
      in if robots = [] then given (meta_content S A soup ''googlebot'') else robots)"

definition canonical_of :: "'t soup_env \<Rightarrow> audit_env \<Rightarrow> 't \<Rightarrow> chars \<Rightarrow> chars option py" where
  "canonical_of S A soup base =
     (case links_with_rel S A soup ''canonical'' of
        [] \<Rightarrow> Inr None
      | tag # _ \<Rightarrow>
          if attr_given S tag ''href'' = [] then Inr None
          else bindE (join_url base (strip_white (attr_given S tag ''href''))) (\<lambda>u. Inr (Some u)))"

definition lang_of :: "'t soup_env \<Rightarrow> 't \<Rightarrow> chars option" where
  "lang_of S soup =
     (case so_find_all S [''html''] soup of
        [] \<Rightarrow> None | tag # _ \<Rightarrow> if attr_given S tag ''lang'' = [] then None else Some (strip_white (attr_given S tag ''lang'')))"

definition charset_of :: "'t soup_env \<Rightarrow> 't \<Rightarrow> chars option" where
  "charset_of S soup =
     (case List.map_filter (\<lambda>tag. so_attr S tag ''charset'') (so_find_all S [''meta''] soup) of [] \<Rightarrow> None | c # _ \<Rightarrow> Some c)"

definition hreflang_of :: "'t soup_env \<Rightarrow> audit_env \<Rightarrow> 't \<Rightarrow> chars \<Rightarrow> (chars \<times> chars) list py" where
  "hreflang_of S A soup base =
     mapE (\<lambda>tag. bindE (join_url base (strip_white (attr_given S tag ''href''))) (\<lambda>u.
         Inr (strip_white (attr_given S tag ''hreflang''), u)))
       (filter (\<lambda>tag. attr_given S tag ''hreflang'' \<noteq> [] \<and> attr_given S tag ''href'' \<noteq> []) (links_with_rel S A soup ''alternate''))"

definition favicon_of :: "'t soup_env \<Rightarrow> audit_env \<Rightarrow> 't \<Rightarrow> chars \<Rightarrow> chars option py" where
  "favicon_of S A soup base =
     (case filter (\<lambda>tag. list_ex (sublist (lit ''icon'')) (rel_tokens S A tag) \<and> attr_given S tag ''href'' \<noteq> [])
             (so_find_all S [''link''] soup) of
        [] \<Rightarrow> Inr None | tag # _ \<Rightarrow> bindE (join_url base (attr_given S tag ''href'')) (\<lambda>u. Inr (Some u)))"

text \<open>A dictionary of texts filled from tags: a later tag with the same name overwrites an earlier one.\<close>

fun put_text :: "string \<Rightarrow> chars \<Rightarrow> (string \<times> chars) list \<Rightarrow> (string \<times> chars) list" where
  "put_text k v [] = [(k, v)]"
| "put_text k v ((k', v') # d) = (if k' = k then (k, v) # d else (k', v') # put_text k v d)"

definition card_of :: "'t soup_env \<Rightarrow> audit_env \<Rightarrow> 't \<Rightarrow> string \<Rightarrow> string \<Rightarrow> (string \<times> chars) list" where
  "card_of S A soup attr start =
     foldl (\<lambda>d tag. put_text (encode (low A (attr_given S tag attr))) (strip_white (attr_given S tag ''content'')) d) []
       (tags_where S ''meta'' attr (seq [at_start, text_like (ae_chars A) (lit start)]) soup)"

definition microdata_of :: "'t soup_env \<Rightarrow> 't \<Rightarrow> chars list" where
  "microdata_of S soup =
     map (\<lambda>t. rev (takeWhile (\<lambda>c. c \<noteq> 47) (rev t))) (List.map_filter (\<lambda>tag. so_attr S tag ''itemtype'') (so_every S soup))"

subsection \<open>Hints for performance\<close>

definition has_src :: "'t soup_env \<Rightarrow> 't \<Rightarrow> bool" where
  "has_src S script \<longleftrightarrow> attr_given S script ''src'' \<noteq> []"

definition blocks_rendering :: "'t soup_env \<Rightarrow> audit_env \<Rightarrow> 't \<Rightarrow> bool" where
  "blocks_rendering S A script \<longleftrightarrow>
     has_src S script \<and> so_in_head S script \<and> so_attr S script ''async'' = None \<and> so_attr S script ''defer'' = None \<and>
     low A (attr_given S script ''type'') \<noteq> lit ''module''"

definition blocking_style :: "'t soup_env \<Rightarrow> audit_env \<Rightarrow> 't \<Rightarrow> bool" where
  "blocking_style S A link \<longleftrightarrow>
     (let tokens = set (rel_tokens S A link) in
      lit ''stylesheet'' \<in> tokens \<and> lit ''preload'' \<notin> tokens \<and>
      low A (attr_given S link ''media'') \<in> {[], lit ''all'', lit ''screen''})"

definition total_text :: "'t soup_env \<Rightarrow> 't list \<Rightarrow> int" where
  "total_text S tags = sum_list (map (\<lambda>t. int (length (so_text S t))) tags)"

subsection \<open>The body of a page\<close>

definition or_none :: "chars \<Rightarrow> chars option" where
  "or_none t = (if t = [] then None else Some t)"

definition image_of :: "'t soup_env \<Rightarrow> chars \<Rightarrow> nat \<times> 't \<Rightarrow> image_ref py" where
  "image_of S base item =
     (case item of (index, img) \<Rightarrow>
        let src0 = attr_given S img ''src''; src = (if src0 = [] then attr_given S img ''data-src'' else src0) in
        bindE (if src = [] then Inr [] else join_url base src) (\<lambda>u.
          Inr \<lparr>im_src = u, im_alt = so_attr S img ''alt'', im_width = or_none (attr_given S img ''width''),
               im_height = or_none (attr_given S img ''height''), im_loading = or_none (attr_given S img ''loading''),
               im_first = (index < 3)\<rparr>))"

definition SKIPPED_SCHEMES :: "chars list" where
  "SKIPPED_SCHEMES = map lit [''javascript:'', ''mailto:'', ''tel:'', ''#'', ''sms:'', ''data:'']"

definition rel_shown :: "'t soup_env \<Rightarrow> 't \<Rightarrow> chars" where
  "rel_shown S tag =
     (case so_rel S tag of None \<Rightarrow> [] | Some (Rel_Tokens ts) \<Rightarrow> joined [32] ts | Some (Rel_Text t) \<Rightarrow> t)"

text \<open>One anchor: no link, a link, or an exception.\<close>

definition link_of :: "'t soup_env \<Rightarrow> audit_env \<Rightarrow> chars \<Rightarrow> bool \<Rightarrow> chars \<Rightarrow> 't \<times> chars \<Rightarrow> link_ref list py" where
  "link_of S A origin follow base item =
     (case item of (anchor, href) \<Rightarrow>
        let raw = strip_white href in
        if list_ex (\<lambda>p. prefix p raw) SKIPPED_SCHEMES then Inr []
        else
          bindE (join_url base raw) (\<lambda>absolute.
          bindE (urlparse [] (encode absolute)) (\<lambda>u.
            if fu_scheme u \<notin> {''http'', ''https''} then Inr []
            else
              bindE (same_site A absolute origin follow) (\<lambda>internal.
                Inr [\<lparr>lk_href = absolute, lk_raw_href = raw, lk_anchor = clip 200 (clean_text S anchor),
                      lk_rel = rel_shown S anchor, lk_internal = internal\<rparr>]))))"

definition anchors_of :: "'t soup_env \<Rightarrow> 't \<Rightarrow> ('t \<times> chars) list" where
  "anchors_of S soup = List.map_filter (\<lambda>a. map_option (Pair a) (so_attr S a ''href'')) (so_find_all S [''a''] soup)"

definition links_of :: "'t soup_env \<Rightarrow> audit_env \<Rightarrow> chars \<Rightarrow> bool \<Rightarrow> chars \<Rightarrow> 't \<Rightarrow> link_ref list py" where
  "links_of S A origin follow base soup =
     bindE (mapE (link_of S A origin follow base) (anchors_of S soup)) (\<lambda>links. Inr (concat links))"

definition heading_level :: "string \<Rightarrow> int" where
  "heading_level name = int (digits_value 0 (take 1 (drop 1 name)))"

definition headings_of :: "'t soup_env \<Rightarrow> 't \<Rightarrow> (int \<times> chars) list" where
  "headings_of S soup =
     map (\<lambda>tag. (heading_level (so_name S tag), clean_text S tag))
       (so_find_all S [''h1'', ''h2'', ''h3'', ''h4'', ''h5'', ''h6''] (strip_noise S soup))"

definition hash_of_text :: "'t soup_env \<Rightarrow> audit_env \<Rightarrow> chars \<Rightarrow> chars" where
  "hash_of_text S A t =
     so_sha1 S (encode (strip_white (re_sub (some (One (\<lambda>c. \<not> cs_word (ae_chars A) c))) [32] (low A t))))"

definition parse_page :: "'t soup_env \<Rightarrow> audit_env \<Rightarrow> chars \<Rightarrow> bool \<Rightarrow> page_data \<Rightarrow> page_data py" where
  "parse_page S A origin follow page =
     (if pd_html page = [] \<or> \<not> is_html A page then Inr page
      else
        let soup = so_parse S (pd_html page); scripts = so_find_all S [''script''] soup; txt = extract_main_text S (strip_noise S soup) in
        bindE (base_url_of S soup page) (\<lambda>base.
        bindE (canonical_of S A soup base) (\<lambda>canonical.
        bindE (hreflang_of S A soup base) (\<lambda>hreflang.
        bindE (favicon_of S A soup base) (\<lambda>favicon.
        bindE (mapE (image_of S base) (enumerate 0 (so_find_all S [''img''] soup))) (\<lambda>images.
        bindE (links_of S A origin follow base soup) (\<lambda>links.
          Inr (page\<lparr>
            pd_title := (case title_of S soup of None \<Rightarrow> pd_title page | Some t \<Rightarrow> Some t),
            pd_description := meta_content S A soup ''description'', pd_robots := robots_of S A soup, pd_canonical := canonical,
            pd_viewport := meta_content S A soup ''viewport'', pd_lang := lang_of S soup, pd_charset := charset_of S soup,
            pd_hreflang := hreflang, pd_og := card_of S A soup ''property'' ''og:'', pd_twitter := card_of S A soup ''name'' ''twitter:'',
            pd_favicon := favicon, pd_headings := headings_of S soup, pd_text := txt, pd_words := count_words txt,
            pd_images := images, pd_links := links, pd_jsonld := parse_jsonld S A soup, pd_microdata := microdata_of S soup,
            pd_blocking_scripts := int (length (filter (blocks_rendering S A) scripts)),
            pd_blocking_styles := int (length (filter (blocking_style S A) (so_find_all S [''link''] soup))),
            pd_inline_script_bytes := total_text S (filter (\<lambda>s. \<not> has_src S s) scripts),
            pd_inline_style_bytes := total_text S (so_find_all S [''style''] soup),
            pd_external_scripts := int (length (filter (has_src S) scripts)),
            pd_iframes := int (length (so_find_all S [''iframe''] soup)), pd_content_hash := hash_of_text S A txt\<rparr>))))))))"

end
