(* ===== verification/Crawler.thy ===== *)
theory Crawler
  imports Page_Parser "HOL-Library.While_Combinator"
begin

text \<open>
  The crawler, \<^verbatim>\<open>src/services/engine/seoagent/crawler.py\<close>. A batch of pages is fetched by a pool of threads; its requests
  reach the world one after the other here, and the results come back in the order of the batch as there.
  Reports of progress go nowhere.
\<close>

fun foldE :: "('s \<Rightarrow> 'a \<Rightarrow> 's py) \<Rightarrow> 's \<Rightarrow> 'a list \<Rightarrow> 's py" where
  "foldE f s [] = Inr s"
| "foldE f s (x # xs) = bindE (f s x) (\<lambda>s'. foldE f s' xs)"

lemma foldE_invariant:
  assumes "foldE f s xs = Inr s'" and "P s" and "\<And>s x s'. x \<in> set xs \<Longrightarrow> P s \<Longrightarrow> f s x = Inr s' \<Longrightarrow> P s'"
  shows "P s'"
  using assms by (induction xs arbitrary: s) auto

text \<open>\<^verbatim>\<open>xs[:n]\<close>, for a negative \<^verbatim>\<open>n\<close> too.\<close>

definition up_to :: "int \<Rightarrow> 'a list \<Rightarrow> 'a list" where
  "up_to n xs = take (nat (if n < 0 then int (length xs) + n else n)) xs"

definition SKIP_EXTENSIONS :: "string list" where
  "SKIP_EXTENSIONS = [
     ''.jpg'', ''.jpeg'', ''.png'', ''.gif'', ''.webp'', ''.avif'', ''.svg'', ''.ico'', ''.bmp'',
     ''.css'', ''.js'', ''.mjs'', ''.json'', ''.xml'', ''.txt'', ''.pdf'', ''.zip'', ''.rar'', ''.gz'',
     ''.mp4'', ''.mp3'', ''.wav'', ''.avi'', ''.mov'', ''.woff'', ''.woff2'', ''.ttf'', ''.eot'',
     ''.doc'', ''.docx'', ''.xls'', ''.xlsx'', ''.ppt'', ''.pptx'', ''.dmg'', ''.exe'', ''.apk'']"

definition is_crawlable :: "audit_env \<Rightarrow> chars \<Rightarrow> bool py" where
  "is_crawlable A url =
     bindE (urlparse [] (encode url)) (\<lambda>u.
       (let path = low A (code_points (fu_path u)) in Inr (\<not> list_ex (\<lambda>e. suffix (lit e) path) SKIP_EXTENSIONS)))"

subsection \<open>Sitemaps\<close>

record sitemap_state =
  sm_seen :: "chars list"
  sm_queue :: "chars list"
  sm_locs :: "chars list"
  sm_found :: "chars list"
  sm_errors :: "chars list"

definition SITEMAP_PATHS :: "string list" where
  "SITEMAP_PATHS = [''/sitemap.xml'', ''/sitemap_index.xml'', ''/sitemap-index.xml'', ''/wp-sitemap.xml'']"

text \<open>\<^verbatim>\<open><loc>\s*(.*?)\s*</loc>\<close> with \<^verbatim>\<open>re.I | re.S\<close>, every group without the white space around it.\<close>

definition locs_in :: "audit_env \<Rightarrow> chars \<Rightarrow> chars list" where
  "locs_in A body =
     map strip_white
       (find_groups (Suc (length body)) (Seq (text_like (ae_chars A) (lit ''<loc>'')) spaces) (Few any_char)
          (Seq spaces (text_like (ae_chars A) (lit ''</loc>''))) body 0)"

definition read_sitemap :: "audit_env \<Rightarrow> chars \<Rightarrow> fetch_result \<Rightarrow> sitemap_state \<Rightarrow> sitemap_state" where
  "read_sitemap A url r st =
     (let body = fr_text r; indexes = sublist (lit ''<sitemapindex'') body in
      if failed_fetch r \<or> fr_status r \<noteq> 200 then st
      else if \<not> sublist (lit ''<'') body then st
      else if sublist (lit ''html'') (low A (fr_content_type r)) \<and> \<not> sublist (lit ''<urlset'') body \<and> \<not> indexes then
        st\<lparr>sm_errors := sm_errors st @ [url @ (fa '' ^ [HTML ]bazgrdand, nh [XML]'')]\<rparr>
      else if indexes then st\<lparr>sm_found := sm_found st @ [url], sm_queue := sm_queue st @ locs_in A body\<rparr>
      else st\<lparr>sm_found := sm_found st @ [url], sm_locs := sm_locs st @ locs_in A body\<rparr>)"

definition sitemap_step :: "'w net_env \<Rightarrow> crawl_config \<Rightarrow> sitemap_state \<Rightarrow> ('w, sitemap_state) action" where
  "sitemap_step E cf st w =
     (case normalize_url (ne_audit E) (hd (sm_queue st)) of
        Inl e \<Rightarrow> (Inl e, w)
      | Inr url \<Rightarrow>
          (let popped = st\<lparr>sm_queue := tl (sm_queue st)\<rparr> in
           if url \<in> set (sm_seen st) then (Inr popped, w)
           else
             (case fetch E cf ''GET'' url w of
                (Inl e, w') \<Rightarrow> (Inl e, w')
              | (Inr r, w') \<Rightarrow> (Inr (read_sitemap (ne_audit E) url r (popped\<lparr>sm_seen := sm_seen st @ [url]\<rparr>)), w'))))"

definition sitemaps_left :: "sitemap_state \<Rightarrow> bool" where
  "sitemaps_left st \<longleftrightarrow> sm_queue st \<noteq> [] \<and> length (sm_seen st) < 25"

text \<open>Every round sees a new sitemap, of which there are at most 25, or shortens the queue.\<close>

lemma read_sitemap_seen [simp]: "sm_seen (read_sitemap A url r st) = sm_seen st"
  by (simp add: read_sitemap_def Let_def)

lemma sitemap_step_progress:
  assumes "sitemap_step E cf st w = (Inr st', w')" and "sitemaps_left st"
  shows "25 - length (sm_seen st') < 25 - length (sm_seen st) \<or>
    25 - length (sm_seen st') = 25 - length (sm_seen st) \<and> length (sm_queue st') < length (sm_queue st)"
  using assms by (auto simp: sitemap_step_def sitemaps_left_def Let_def split: sum.splits if_splits prod.splits)

function sitemap_loop :: "'w net_env \<Rightarrow> crawl_config \<Rightarrow> sitemap_state \<Rightarrow> ('w, sitemap_state) action" where
  "sitemap_loop E cf st w =
     (if \<not> sitemaps_left st then (Inr st, w)
      else case sitemap_step E cf st w of
             (Inl e, w') \<Rightarrow> (Inl e, w')
           | (Inr st', w') \<Rightarrow> sitemap_loop E cf st' w')"
  by pat_completeness auto
termination
  by (relation "measures [\<lambda>(E, cf, st, w). 25 - length (sm_seen st), \<lambda>(E, cf, st, w). length (sm_queue st)]")
    (auto dest!: sitemap_step_progress [OF sym])

declare sitemap_loop.simps [simp del]

definition discover_sitemaps :: "'w net_env \<Rightarrow> crawl_config \<Rightarrow> fetcher \<Rightarrow> site_context \<Rightarrow> ('w, site_context) action" where
  "discover_sitemaps E cf ft ctx =
     bindW (purely (mapE (\<lambda>path. join_url (sc_origin ctx) (lit path)) SITEMAP_PATHS)) (\<lambda>usual.
     bindW (sitemap_loop E cf \<lparr>sm_seen = [], sm_queue = robots_sitemaps (ne_audit E) ft @ usual, sm_locs = [], sm_found = [],
              sm_errors = []\<rparr>) (\<lambda>st.
       give (ctx\<lparr>sc_sitemap_urls := sm_found st, sc_sitemap_locs := dedupe (sm_locs st),
                 sc_sitemap_errors := sc_sitemap_errors ctx @ sm_errors st\<rparr>)))"

definition well_known :: "'w net_env \<Rightarrow> crawl_config \<Rightarrow> chars \<Rightarrow> string \<Rightarrow> ('w, bool) action" where
  "well_known E cf origin path =
     bindW (purely (join_url origin (lit path))) (\<lambda>url.
     bindW (fetch E cf ''GET'' url) (\<lambda>r.
       give (fr_status r = 200 \<and> \<not> failed_fetch r \<and> \<not> sublist (lit ''html'') (low (ne_audit E) (fr_content_type r)))))"

definition probe_wellknown :: "'w net_env \<Rightarrow> crawl_config \<Rightarrow> site_context \<Rightarrow> ('w, site_context) action" where
  "probe_wellknown E cf ctx =
     bindW (well_known E cf (sc_origin ctx) ''/llms.txt'') (\<lambda>llms.
     bindW (well_known E cf (sc_origin ctx) ''/.well-known/security.txt'') (\<lambda>security.
       give (ctx\<lparr>sc_llms_txt_found := llms, sc_security_txt_found := security\<rparr>)))"

subsection \<open>Pages\<close>

record crawl_state =
  cw_frontier :: "(chars \<times> int) list"
  cw_queued :: "chars list"
  cw_pages :: "page_data list"
  cw_blocked :: "chars list"

definition seed :: "audit_env \<Rightarrow> crawl_config \<Rightarrow> chars \<Rightarrow> crawl_state \<Rightarrow> chars \<Rightarrow> crawl_state py" where
  "seed A cf origin st loc =
     bindE (normalize_url A loc) (\<lambda>url.
       if url \<in> set (cw_queued st) then Inr st
       else bindE (same_site A url origin (cf_follow_subdomains cf)) (\<lambda>ours.
         Inr (if ours then st\<lparr>cw_queued := url # cw_queued st, cw_frontier := cw_frontier st @ [(url, 1)]\<rparr> else st)))"

definition initial_state :: "audit_env \<Rightarrow> crawl_config \<Rightarrow> site_context \<Rightarrow> crawl_state py" where
  "initial_state A cf ctx =
     foldE (seed A cf (sc_origin ctx))
       \<lparr>cw_frontier = [(sc_start_url ctx, 0)], cw_queued = [sc_start_url ctx], cw_pages = [], cw_blocked = []\<rparr>
       (up_to (cf_max_pages cf) (sc_sitemap_locs ctx))"

text \<open>The inner loop: the batch so far, the blocked addresses, the frontier.\<close>

fun take_batch ::
  "(chars \<Rightarrow> bool) \<Rightarrow> crawl_config \<Rightarrow> int \<Rightarrow> (chars \<times> int) list \<Rightarrow> (chars \<times> int) list \<Rightarrow> chars list \<Rightarrow>
   (chars \<times> int) list \<times> chars list \<times> (chars \<times> int) list" where
  "take_batch ok cf room [] batch blocked = (batch, blocked, [])"
| "take_batch ok cf room ((url, depth) # rest) batch blocked =
     (if \<not> (int (length batch) < cf_workers cf \<and> int (length batch) < room) then (batch, blocked, (url, depth) # rest)
      else if cf_max_depth cf < depth then take_batch ok cf room rest batch blocked
      else if \<not> ok url then take_batch ok cf room rest batch (blocked @ [url])
      else take_batch ok cf room rest (batch @ [(url, depth)]) blocked)"

definition enqueue :: "audit_env \<Rightarrow> int \<Rightarrow> crawl_state \<Rightarrow> link_ref \<Rightarrow> crawl_state py" where
  "enqueue A depth st link =
     (if \<not> lk_internal link then Inr st
      else
        bindE (is_crawlable A (lk_href link)) (\<lambda>crawlable.
          if \<not> crawlable then Inr st
          else
            bindE (normalize_url A (lk_href link)) (\<lambda>target.
              Inr (if target \<in> set (cw_queued st) then st
                   else st\<lparr>cw_queued := target # cw_queued st, cw_frontier := cw_frontier st @ [(target, depth + 1)]\<rparr>))))"

definition read_page :: "'t soup_env \<Rightarrow> audit_env \<Rightarrow> crawl_config \<Rightarrow> chars \<Rightarrow> chars \<times> int \<Rightarrow> fetch_result \<Rightarrow> page_data py" where
  "read_page S A cf origin item r =
     (let page = result_to_page (fst item) r (snd item)
      in if is_html A page \<and> pd_html page \<noteq> [] then parse_page S A origin (cf_follow_subdomains cf) page else Inr page)"

definition visit ::
  "'t soup_env \<Rightarrow> audit_env \<Rightarrow> crawl_config \<Rightarrow> chars \<Rightarrow> crawl_state \<Rightarrow> (chars \<times> int) \<times> fetch_result \<Rightarrow> crawl_state py" where
  "visit S A cf origin st visited =
     bindE (read_page S A cf origin (fst visited) (snd visited)) (\<lambda>page.
       (let depth = snd (fst visited); st' = st\<lparr>cw_pages := cw_pages st @ [page]\<rparr> in
        if cf_max_depth cf \<le> depth \<or> \<not> is_ok page then Inr st' else foldE (enqueue A depth) st' (pd_links page)))"

definition crawl_round ::
  "'w net_env \<Rightarrow> 't soup_env \<Rightarrow> crawl_config \<Rightarrow> fetcher \<Rightarrow> chars \<Rightarrow> crawl_state \<Rightarrow> ('w, crawl_state) action" where
  "crawl_round E S cf ft origin st =
     (case take_batch (allowed (ne_audit E) cf ft) cf (cf_max_pages cf - int (length (cw_pages st))) (cw_frontier st) [] (cw_blocked st) of
        (batch, blocked, frontier) \<Rightarrow>
          let st' = st\<lparr>cw_frontier := frontier, cw_blocked := blocked\<rparr> in
          if batch = [] then give st'
          else bindW (mapW (\<lambda>item. fetch E cf ''GET'' (fst item)) batch) (\<lambda>results.
            purely (foldE (visit S (ne_audit E) cf origin) st' (zip batch results))))"

definition more_to_crawl :: "crawl_config \<Rightarrow> crawl_state \<Rightarrow> bool" where
  "more_to_crawl cf st \<longleftrightarrow> cw_frontier st \<noteq> [] \<and> int (length (cw_pages st)) < cf_max_pages cf"

text \<open>The outer loop; a crawl that never ends is no result.\<close>

definition crawl_loop ::
  "'w net_env \<Rightarrow> 't soup_env \<Rightarrow> crawl_config \<Rightarrow> fetcher \<Rightarrow> chars \<Rightarrow> crawl_state \<Rightarrow> 'w \<Rightarrow> (crawl_state py \<times> 'w) option" where
  "crawl_loop E S cf ft origin st w =
     while_option (\<lambda>(r, w). case r of Inl e \<Rightarrow> False | Inr st \<Rightarrow> more_to_crawl cf st)
       (\<lambda>(r, w). case r of Inl e \<Rightarrow> (Inl e, w) | Inr st \<Rightarrow> crawl_round E S cf ft origin st w) (Inr st, w)"

subsection \<open>What follows\<close>

definition compute_inlinks :: "audit_env \<Rightarrow> site_context \<Rightarrow> site_context py" where
  "compute_inlinks A ctx =
     bindE (mapE (\<lambda>l. normalize_url A (lk_href l)) (filter lk_internal (concat (map pd_links (html_pages A ctx))))) (\<lambda>targets.
     bindE (mapE (\<lambda>p. bindE (normalize_url A (pd_url p)) (\<lambda>u. Inr (p\<lparr>pd_inlinks := int (count_list targets u)\<rparr>))) (sc_pages ctx)) (\<lambda>pages.
       Inr (ctx\<lparr>sc_pages := pages\<rparr>)))"

definition setdefault :: "'k \<Rightarrow> 'v \<Rightarrow> ('k \<times> 'v) list \<Rightarrow> ('k \<times> 'v) list" where
  "setdefault k v d = (if k \<in> fst ` set d then d else d @ [(k, v)])"

fun outbound_links :: "audit_env \<Rightarrow> int \<Rightarrow> chars \<Rightarrow> (chars \<times> chars) list \<Rightarrow> link_ref list \<Rightarrow> (chars \<times> chars) list py" where
  "outbound_links A limit source external [] = Inr external"
| "outbound_links A limit source external (l # ls) =
     (if lk_internal l then outbound_links A limit source external ls
      else
        bindE (normalize_url A (lk_href l)) (\<lambda>key.
          (let external' = setdefault key source external
           in if limit \<le> int (length external') then Inr external' else outbound_links A limit source external' ls)))"

fun outbound_pages :: "audit_env \<Rightarrow> int \<Rightarrow> (chars \<times> chars) list \<Rightarrow> page_data list \<Rightarrow> (chars \<times> chars) list py" where
  "outbound_pages A limit external [] = Inr external"
| "outbound_pages A limit external (p # ps) =
     bindE (outbound_links A limit (pd_url p) external (pd_links p)) (\<lambda>external'.
       if limit \<le> int (length external') then Inr external' else outbound_pages A limit external' ps)"

definition check_external_links :: "'w net_env \<Rightarrow> crawl_config \<Rightarrow> site_context \<Rightarrow> ('w, site_context) action" where
  "check_external_links E cf ctx =
     bindW (purely (outbound_pages (ne_audit E) (cf_max_external cf) [] (html_pages (ne_audit E) ctx))) (\<lambda>targets.
       if targets = [] then give ctx
       else
         bindW (mapW (\<lambda>t. check_status E cf (fst t)) targets) (\<lambda>statuses.
           give (ctx\<lparr>sc_external_checked := int (length targets),
                     sc_broken_external := map (\<lambda>((url, source), (status, error)). (url, source, status, error))
                       (filter (\<lambda>((url, source), (status, error)). given error \<noteq> [] \<or> 400 \<le> status \<or> status = 0)
                         (zip targets statuses))\<rparr>)))"

definition blocked_note :: "chars list \<Rightarrow> chars" where
  "blocked_note blocked = num (length blocked) @ (fa '' Adrs bh_xaTr [robots.txt ]xzS nSd (nmvnh: '') @ hd blocked @ (lit '')'')"

definition ceiling_note :: "crawl_config \<Rightarrow> (chars \<times> int) list \<Rightarrow> chars" where
  "ceiling_note cf frontier =
     (fa ''sqf '') @ inum (cf_max_pages cf) @ (fa '' efHh_ay pr Sd; Hdaql '') @ num (length frontier) @ (fa '' Adrs dygr baqy mandh ast.'')"

definition with_pages :: "crawl_config \<Rightarrow> site_context \<Rightarrow> crawl_state \<Rightarrow> site_context" where
  "with_pages cf ctx st =
     ctx\<lparr>sc_pages := cw_pages st,
         sc_notes := sc_notes ctx @ (if cw_blocked st = [] then [] else [blocked_note (cw_blocked st)]) @
           (if cw_frontier st = [] then [] else [ceiling_note cf (cw_frontier st)])\<rparr>"

definition finish_crawl :: "'w net_env \<Rightarrow> crawl_config \<Rightarrow> site_context \<Rightarrow> crawl_state \<Rightarrow> ('w, site_context) action" where
  "finish_crawl E cf ctx st =
     bindW (purely (compute_inlinks (ne_audit E) (with_pages cf ctx st))) (\<lambda>ctx'.
       if cf_check_external cf then check_external_links E cf ctx' else give ctx')"

definition new_site :: "crawl_config \<Rightarrow> chars \<Rightarrow> chars \<Rightarrow> site_context" where
  "new_site cf start origin =
     \<lparr>sc_start_url = start, sc_origin = origin, sc_pages = [], sc_robots_txt = None, sc_robots_status = 0, sc_sitemap_urls = [],
      sc_sitemap_locs = [], sc_sitemap_errors = [], sc_llms_txt_found = False, sc_security_txt_found = False,
      sc_target_keywords = cf_keywords cf, sc_psi = None, sc_notes = [], sc_external_checked = 0, sc_broken_external = []\<rparr>"

definition prepare_crawl :: "'w net_env \<Rightarrow> crawl_config \<Rightarrow> ('w, fetcher \<times> site_context \<times> crawl_state) action" where
  "prepare_crawl E cf =
     bindW (purely (normalize_url (ne_audit E) (cf_start_url cf))) (\<lambda>start.
     bindW (purely (registrable_origin start)) (\<lambda>origin.
     bindW (load_robots E origin) (\<lambda>ft.
     bindW (discover_sitemaps E cf ft ((new_site cf start origin)\<lparr>sc_robots_txt := ft_robots_txt ft,
              sc_robots_status := ft_robots_status ft\<rparr>)) (\<lambda>ctx.
     bindW (probe_wellknown E cf ctx) (\<lambda>ctx'.
     bindW (purely (initial_state (ne_audit E) cf ctx')) (\<lambda>st.
       give (ft, ctx', st)))))))"

definition crawl :: "'w net_env \<Rightarrow> 't soup_env \<Rightarrow> crawl_config \<Rightarrow> 'w \<Rightarrow> (site_context py \<times> 'w) option" where
  "crawl E S cf w =
     (case prepare_crawl E cf w of
        (Inl e, w1) \<Rightarrow> Some (Inl e, w1)
      | (Inr (ft, ctx, st), w1) \<Rightarrow>
          (case crawl_loop E S cf ft (sc_origin ctx) st w1 of
             None \<Rightarrow> None
           | Some (Inl e, w2) \<Rightarrow> Some (Inl e, w2)
           | Some (Inr st', w2) \<Rightarrow> Some (finish_crawl E cf ctx st' w2)))"

end
