(* ===== verification/Crawler_Facts.thy ===== *)
theory Crawler_Facts
  imports Crawler
begin

text \<open>What every state of a crawl satisfies, and that a round keeps it.\<close>

subsection \<open>The parts of a round\<close>

lemma take_batch_spec:
  assumes "take_batch ok cf room frontier batch blocked = (batch', blocked', frontier')"
  shows "\<exists>pre. frontier = pre @ frontier' \<and>
    batch' = batch @ filter (\<lambda>x. snd x \<le> cf_max_depth cf \<and> ok (fst x)) pre \<and>
    blocked' = blocked @ map fst (filter (\<lambda>x. snd x \<le> cf_max_depth cf \<and> \<not> ok (fst x)) pre) \<and>
    (int (length batch) \<le> max 0 room \<longrightarrow> int (length batch') \<le> max 0 room) \<and>
    (int (length batch) < cf_workers cf \<and> int (length batch) < room \<longrightarrow> frontier' \<noteq> [] \<longrightarrow> batch' \<noteq> [])"
  using assms
proof (induction ok cf room frontier batch blocked rule: take_batch.induct)
  case (2 ok cf room url depth rest batch blocked)
  show ?case
  proof (cases "int (length batch) < cf_workers cf \<and> int (length batch) < room")
    case False
    with "2.prems" have "batch' = batch" "blocked' = blocked" "frontier' = (url, depth) # rest" by auto
    with False show ?thesis by (intro exI [of _ "[]"]) auto
  next
    case True
    consider (deep) "cf_max_depth cf < depth" | (blocked) "\<not> cf_max_depth cf < depth" "\<not> ok url"
      | (taken) "\<not> cf_max_depth cf < depth" "ok url" by blast
    then show ?thesis
    proof cases
      case deep
      with True "2.prems" have "take_batch ok cf room rest batch blocked = (batch', blocked', frontier')" by simp
      with "2.IH"(1) [OF _ deep] True obtain pre where "rest = pre @ frontier'"
        "batch' = batch @ filter (\<lambda>x. snd x \<le> cf_max_depth cf \<and> ok (fst x)) pre"
        "blocked' = blocked @ map fst (filter (\<lambda>x. snd x \<le> cf_max_depth cf \<and> \<not> ok (fst x)) pre)"
        "int (length batch) \<le> max 0 room \<longrightarrow> int (length batch') \<le> max 0 room" "frontier' \<noteq> [] \<longrightarrow> batch' \<noteq> []" by blast
      with deep show ?thesis by (intro exI [of _ "(url, depth) # pre"]) simp
    next
      case blocked
      with True "2.prems" have "take_batch ok cf room rest batch (blocked @ [url]) = (batch', blocked', frontier')" by simp
      with "2.IH"(2) [OF _ blocked] True obtain pre where "rest = pre @ frontier'"
        "batch' = batch @ filter (\<lambda>x. snd x \<le> cf_max_depth cf \<and> ok (fst x)) pre"
        "blocked' = (blocked @ [url]) @ map fst (filter (\<lambda>x. snd x \<le> cf_max_depth cf \<and> \<not> ok (fst x)) pre)"
        "int (length batch) \<le> max 0 room \<longrightarrow> int (length batch') \<le> max 0 room" "frontier' \<noteq> [] \<longrightarrow> batch' \<noteq> []" by blast
      with blocked show ?thesis by (intro exI [of _ "(url, depth) # pre"]) simp
    next
      case taken
      with True "2.prems" have "take_batch ok cf room rest (batch @ [(url, depth)]) blocked = (batch', blocked', frontier')" by simp
      with "2.IH"(3) [OF _ taken(1)] taken(2) True obtain pre where "rest = pre @ frontier'"
        "batch' = (batch @ [(url, depth)]) @ filter (\<lambda>x. snd x \<le> cf_max_depth cf \<and> ok (fst x)) pre"
        "blocked' = blocked @ map fst (filter (\<lambda>x. snd x \<le> cf_max_depth cf \<and> \<not> ok (fst x)) pre)"
        "int (length (batch @ [(url, depth)])) \<le> max 0 room \<longrightarrow> int (length batch') \<le> max 0 room" by blast
      with taken True show ?thesis by (intro exI [of _ "(url, depth) # pre"]) auto
    qed
  qed
qed auto

text \<open>What the parser leaves alone, and what it says of links.\<close>

lemma parse_page_keeps:
  assumes "parse_page S A origin follow page = Inr page'"
  shows "pd_url page' = pd_url page" "pd_depth page' = pd_depth page" "pd_error page' = pd_error page"
    "pd_status page' = pd_status page"
  using assms by (auto simp: parse_page_def Let_def split: if_splits)

lemma concat_mapE: "mapE f xs = Inr yss \<Longrightarrow> y \<in> set (concat yss) \<Longrightarrow> \<exists>x\<in>set xs. \<exists>ys. f x = Inr ys \<and> y \<in> set ys"
proof (induction xs arbitrary: yss)
  case (Cons x xs)
  then show ?case by (simp, metis Un_iff UN_I set_concat list.set(2) insert_iff)
qed simp

lemma link_of_internal:
  assumes "link_of S A origin follow base a = Inr ls" and "l \<in> set ls" and "lk_internal l"
  shows "same_site A (lk_href l) origin follow = Inr True"
  using assms by (auto simp: link_of_def Let_def split: prod.splits if_splits)

lemma parse_page_links:
  assumes "parse_page S A origin follow page = Inr page'" and "l \<in> set (pd_links page')" and "l \<notin> set (pd_links page)" and "lk_internal l"
  shows "same_site A (lk_href l) origin follow = Inr True"
proof -
  from assms(1-3) obtain base links soup where "links_of S A origin follow base soup = Inr links" "l \<in> set links"
    by (auto simp: parse_page_def Let_def split: if_splits)
  then obtain lss where "mapE (link_of S A origin follow base) (anchors_of S soup) = Inr lss" "l \<in> set (concat lss)"
    by (auto simp: links_of_def)
  from concat_mapE [OF this] show ?thesis using link_of_internal assms(4) by blast
qed

lemma fresh_page [simp]:
  "pd_url (result_to_page url r depth) = url" "pd_depth (result_to_page url r depth) = depth"
  "pd_error (result_to_page url r depth) = fr_error r" "pd_links (result_to_page url r depth) = []"
  by (simp_all add: result_to_page_def)

lemma read_page_cases:
  assumes "read_page S A cf origin (url, depth) r = Inr page"
  shows "page = result_to_page url r depth \<or>
    parse_page S A origin (cf_follow_subdomains cf) (result_to_page url r depth) = Inr page"
  using assms by (auto simp: read_page_def Let_def split: if_splits)

lemma read_page_keeps:
  assumes "read_page S A cf origin (url, depth) r = Inr page"
  shows "pd_url page = url \<and> pd_depth page = depth \<and> pd_error page = fr_error r"
  using read_page_cases [OF assms] by (elim disjE) (simp_all add: parse_page_keeps)

lemma read_page_links:
  assumes "read_page S A cf origin (url, depth) r = Inr page" and "l \<in> set (pd_links page)" and "lk_internal l"
  shows "same_site A (lk_href l) origin (cf_follow_subdomains cf) = Inr True"
  using read_page_cases [OF assms(1)] assms(2,3) by (elim disjE) (simp_all add: parse_page_links)

text \<open>A result without an error is of an address the guard let through.\<close>

lemma fetch_guarded:
  assumes "fetch E cf method url w = (Inr r, w')" and "fr_error r = None"
  shows "guard_url E url = Inr ()"
proof (cases "guard_url E url")
  case (Inl e)
  with assms show ?thesis by (cases e) (auto simp: fetch_def error_result_def)
qed simp

subsection \<open>The invariant\<close>

text \<open>The start address, and what is linked to or listed as part of the site.\<close>

definition on_site :: "audit_env \<Rightarrow> crawl_config \<Rightarrow> chars \<Rightarrow> chars \<Rightarrow> chars \<Rightarrow> bool" where
  "on_site A cf start origin u \<longleftrightarrow>
     u = start \<or>
     (\<exists>raw. normalize_url A raw = Inr u \<and>
        (same_site A raw origin (cf_follow_subdomains cf) = Inr True \<or> same_site A u origin (cf_follow_subdomains cf) = Inr True))"

text \<open>The address \<open>t\<close>, wherever it is by now, is at most \<open>n\<close> clicks away.\<close>

definition depth_within :: "(chars \<times> int) list \<Rightarrow> crawl_state \<Rightarrow> chars \<Rightarrow> int \<Rightarrow> bool" where
  "depth_within todo st t n \<longleftrightarrow>
     (\<forall>x\<in>set (todo @ cw_frontier st). fst x = t \<longrightarrow> snd x \<le> n) \<and> (\<forall>p\<in>set (cw_pages st). pd_url p = t \<longrightarrow> pd_depth p \<le> n)"

definition link_followed :: "audit_env \<Rightarrow> (chars \<times> int) list \<Rightarrow> crawl_state \<Rightarrow> int \<Rightarrow> link_ref \<Rightarrow> bool" where
  "link_followed A todo st d l \<longleftrightarrow>
     (lk_internal l \<and> is_crawlable A (lk_href l) = Inr True \<longrightarrow>
       (\<exists>t. normalize_url A (lk_href l) = Inr t \<and> t \<in> set (cw_queued st) \<and> depth_within todo st t (d + 1)))"

definition addresses :: "(chars \<times> int) list \<Rightarrow> crawl_state \<Rightarrow> chars list" where
  "addresses todo st = map fst (todo @ cw_frontier st) @ map pd_url (cw_pages st) @ cw_blocked st"

definition known_inv :: "audit_env \<Rightarrow> crawl_config \<Rightarrow> chars \<Rightarrow> chars \<Rightarrow> (chars \<times> int) list \<Rightarrow> crawl_state \<Rightarrow> bool" where
  "known_inv A cf start origin todo st \<longleftrightarrow>
     start \<in> set (cw_queued st) \<and> distinct (addresses todo st) \<and> set (addresses todo st) \<subseteq> set (cw_queued st) \<and>
     (\<forall>u\<in>set (cw_queued st). on_site A cf start origin u)"

definition depth_inv :: "(chars \<times> int) list \<Rightarrow> crawl_state \<Rightarrow> bool" where
  "depth_inv todo st \<longleftrightarrow>
     sorted (map pd_depth (cw_pages st) @ map snd (todo @ cw_frontier st)) \<and>
     (\<forall>x\<in>set (todo @ cw_frontier st). 0 \<le> snd x \<and> (\<forall>y\<in>set (todo @ cw_frontier st). snd y \<le> snd x + 1))"

definition polite_inv :: "'w net_env \<Rightarrow> crawl_config \<Rightarrow> fetcher \<Rightarrow> (chars \<times> int) list \<Rightarrow> crawl_state \<Rightarrow> bool" where
  "polite_inv E cf ft todo st \<longleftrightarrow>
     (\<forall>x\<in>set todo. snd x \<le> cf_max_depth cf \<and> allowed (ne_audit E) cf ft (fst x)) \<and>
     (\<forall>p\<in>set (cw_pages st). 0 \<le> pd_depth p \<and> pd_depth p \<le> cf_max_depth cf \<and> allowed (ne_audit E) cf ft (pd_url p) \<and>
        (pd_error p = None \<longrightarrow> guard_url E (pd_url p) = Inr ())) \<and>
     (\<forall>u\<in>set (cw_blocked st). \<not> allowed (ne_audit E) cf ft u) \<and>
     int (length (cw_pages st) + length todo) \<le> max 0 (cf_max_pages cf)"

definition full_inv :: "audit_env \<Rightarrow> crawl_config \<Rightarrow> page_data list \<Rightarrow> (chars \<times> int) list \<Rightarrow> crawl_state \<Rightarrow> bool" where
  "full_inv A cf ps todo st \<longleftrightarrow>
     (1 \<le> cf_max_depth cf \<longrightarrow> (\<forall>x\<in>set (todo @ cw_frontier st). snd x \<le> cf_max_depth cf) \<and>
        set (cw_queued st) \<subseteq> set (addresses todo st)) \<and>
     (\<forall>p\<in>set ps. pd_depth p < cf_max_depth cf \<and> is_ok p \<longrightarrow> list_all (link_followed A todo st (pd_depth p)) (pd_links p))"

lemmas inv_defs = known_inv_def depth_inv_def polite_inv_def full_inv_def addresses_def

subsection \<open>Links\<close>

text \<open>While the links of a page at depth \<open>d\<close> are queued, the frontier holds only depths \<open>d\<close> and \<open>d + 1\<close>.\<close>

definition level :: "int \<Rightarrow> (chars \<times> int) list \<Rightarrow> crawl_state \<Rightarrow> bool" where
  "level d todo st \<longleftrightarrow>
     0 \<le> d \<and> (\<forall>p\<in>set (cw_pages st). pd_depth p \<le> d) \<and> (\<forall>x\<in>set (todo @ cw_frontier st). d \<le> snd x \<and> snd x \<le> d + 1)"

lemma enqueue_cases:
  assumes "enqueue A d st l = Inr st'"
  shows "(st' = st \<and> (lk_internal l \<and> is_crawlable A (lk_href l) = Inr True \<longrightarrow>
       (\<exists>t. normalize_url A (lk_href l) = Inr t \<and> t \<in> set (cw_queued st)))) \<or>
    (\<exists>t. st' = st\<lparr>cw_queued := t # cw_queued st, cw_frontier := cw_frontier st @ [(t, d + 1)]\<rparr> \<and>
       t \<notin> set (cw_queued st) \<and> lk_internal l \<and> normalize_url A (lk_href l) = Inr t)"
  using assms by (auto simp: enqueue_def split: if_splits)

lemma enqueue_pages: "enqueue A d st l = Inr st' \<Longrightarrow> cw_pages st' = cw_pages st \<and> cw_blocked st' = cw_blocked st"
  by (drule enqueue_cases) auto

lemma enqueue_queued: "enqueue A d st l = Inr st' \<Longrightarrow> set (cw_queued st) \<subseteq> set (cw_queued st')"
  by (drule enqueue_cases) auto

text \<open>A link that is queued now is queued at the next level at most, and this does not change later.\<close>

lemma enqueue_followed: "enqueue A d st l = Inr st' \<Longrightarrow> level d todo st \<Longrightarrow> link_followed A todo st' d l"
  by (drule enqueue_cases) (fastforce simp: link_followed_def level_def depth_within_def)

lemma followed_enqueue:
  assumes "enqueue A d st l = Inr st'" and "link_followed A todo st k m"
  shows "link_followed A todo st' k m"
  using enqueue_cases [OF assms(1)] assms(2) by (auto simp: link_followed_def depth_within_def)

lemma enqueue_level: "enqueue A d st l = Inr st' \<Longrightarrow> level d todo st \<Longrightarrow> level d todo st'"
  by (drule enqueue_cases) (auto simp: level_def)

lemma append_depth:
  assumes "level d todo st" and "depth_inv todo st"
  shows "depth_inv todo (st\<lparr>cw_queued := q, cw_frontier := cw_frontier st @ [(t, d + 1)]\<rparr>)"
proof -
  let ?st = "st\<lparr>cw_queued := q, cw_frontier := cw_frontier st @ [(t, d + 1)]\<rparr>"
  have "\<forall>n\<in>set (map pd_depth (cw_pages st) @ map snd (todo @ cw_frontier st)). n \<le> d + 1"
    using assms(1) by (force simp: level_def)
  with assms(2) have "sorted ((map pd_depth (cw_pages st) @ map snd (todo @ cw_frontier st)) @ [d + 1])"
    by (simp only: sorted_append depth_inv_def) simp
  moreover have "0 \<le> snd x \<and> snd y \<le> snd x + 1" if "x \<in> set (todo @ cw_frontier ?st)" "y \<in> set (todo @ cw_frontier ?st)" for x y
  proof -
    have bounds: "\<forall>x\<in>set (todo @ cw_frontier ?st). d \<le> snd x \<and> snd x \<le> d + 1" "0 \<le> d"
      using assms(1) by (auto simp: level_def)
    with that have "d \<le> snd x" "snd y \<le> d + 1" by blast+
    with bounds(2) show ?thesis by linarith
  qed
  ultimately show ?thesis unfolding depth_inv_def by simp
qed

lemma enqueue_depth:
  assumes "enqueue A d st l = Inr st'" and "level d todo st" and "depth_inv todo st"
  shows "depth_inv todo st'"
  using enqueue_cases [OF assms(1)] append_depth [OF assms(2,3)] assms(3) by auto

lemma enqueue_known:
  assumes "enqueue A d st l = Inr st'" and "known_inv A cf start origin todo st"
    and "lk_internal l \<Longrightarrow> same_site A (lk_href l) origin (cf_follow_subdomains cf) = Inr True"
  shows "known_inv A cf start origin todo st'"
  using enqueue_cases [OF assms(1)]
proof
  assume "\<exists>t. st' = st\<lparr>cw_queued := t # cw_queued st, cw_frontier := cw_frontier st @ [(t, d + 1)]\<rparr> \<and>
       t \<notin> set (cw_queued st) \<and> lk_internal l \<and> normalize_url A (lk_href l) = Inr t"
  then obtain t where st': "st' = st\<lparr>cw_queued := t # cw_queued st, cw_frontier := cw_frontier st @ [(t, d + 1)]\<rparr>"
    and t: "t \<notin> set (cw_queued st)" "lk_internal l" "normalize_url A (lk_href l) = Inr t" by blast
  have "t \<notin> set (addresses todo st)" using t(1) assms(2) by (auto simp: known_inv_def)
  moreover have "on_site A cf start origin t" using t(2,3) assms(3) by (auto simp: on_site_def)
  ultimately show ?thesis using assms(2) by (simp add: known_inv_def addresses_def st') blast
qed (use assms in simp)

lemma enqueue_full:
  assumes "enqueue A d st l = Inr st'" and "full_inv A cf ps todo st" and "d < cf_max_depth cf"
  shows "full_inv A cf ps todo st'"
proof -
  have "list_all (link_followed A todo st' k) ls" if "list_all (link_followed A todo st k) ls" for k ls
    using that followed_enqueue [OF assms(1)] by (simp add: list_all_iff)
  with enqueue_cases [OF assms(1)] assms(2,3) show ?thesis by (auto simp: full_inv_def addresses_def)
qed

lemma enqueue_all:
  assumes "foldE (enqueue A d) st ls = Inr st'" and "known_inv A cf start origin todo st" and "depth_inv todo st"
    and "full_inv A cf ps todo st" and "level d todo st" and "d < cf_max_depth cf"
    and "list_all (link_followed A todo st d) done_links"
    and "\<And>l. l \<in> set ls \<Longrightarrow> lk_internal l \<Longrightarrow> same_site A (lk_href l) origin (cf_follow_subdomains cf) = Inr True"
  shows "known_inv A cf start origin todo st' \<and> depth_inv todo st' \<and> full_inv A cf ps todo st' \<and>
    cw_pages st' = cw_pages st \<and> cw_blocked st' = cw_blocked st \<and>
    list_all (link_followed A todo st' d) (done_links @ ls)"
  using assms
proof (induction ls arbitrary: st done_links)
  case (Cons l ls)
  from Cons.prems(1) obtain st1 where st1: "enqueue A d st l = Inr st1" "foldE (enqueue A d) st1 ls = Inr st'" by auto
  have "known_inv A cf start origin todo st' \<and> depth_inv todo st' \<and> full_inv A cf ps todo st' \<and>
    cw_pages st' = cw_pages st1 \<and> cw_blocked st' = cw_blocked st1 \<and>
    list_all (link_followed A todo st' d) ((done_links @ [l]) @ ls)"
  proof (rule Cons.IH [OF st1(2)])
    show "known_inv A cf start origin todo st1" by (rule enqueue_known [OF st1(1) Cons.prems(2)]) (rule Cons.prems(8), auto)
    show "depth_inv todo st1" by (rule enqueue_depth [OF st1(1) Cons.prems(5,3)])
    show "full_inv A cf ps todo st1" by (rule enqueue_full [OF st1(1) Cons.prems(4,6)])
    show "level d todo st1" by (rule enqueue_level [OF st1(1) Cons.prems(5)])
    show "list_all (link_followed A todo st1 d) (done_links @ [l])"
      using Cons.prems(7) enqueue_followed [OF st1(1) Cons.prems(5)] followed_enqueue [OF st1(1)] by (simp add: list_all_iff)
  qed (use Cons.prems in auto)
  with enqueue_pages [OF st1(1)] show ?case by simp
qed simp

subsection \<open>A page\<close>

lemma sorted_heads:
  assumes "sorted (xs @ d # ys)"
  shows "\<forall>x\<in>set xs. x \<le> (d :: int)" and "\<forall>y\<in>set ys. d \<le> y"
  using assms by (auto simp: sorted_append)

lemma sorted_fewer: "sorted (xs @ map f ys @ zs) \<Longrightarrow> sorted (xs @ map f (filter P ys) @ zs)"
  by (auto simp: sorted_append intro: sorted_filter)

lemma visit_keeps:
  assumes "visit S (ne_audit E) cf origin st ((u, d), r) = Inr st'"
    and "known_inv (ne_audit E) cf start origin ((u, d) # todo) st" and "depth_inv ((u, d) # todo) st"
    and "polite_inv E cf ft ((u, d) # todo) st" and "full_inv (ne_audit E) cf (cw_pages st) ((u, d) # todo) st"
    and "fr_error r = None \<longrightarrow> guard_url E u = Inr ()"
  shows "known_inv (ne_audit E) cf start origin todo st' \<and> depth_inv todo st' \<and> polite_inv E cf ft todo st' \<and>
    full_inv (ne_audit E) cf (cw_pages st') todo st'"
proof -
  let ?A = "ne_audit E"
  from assms(1) obtain page where page: "read_page S ?A cf origin (u, d) r = Inr page"
    and st': "if cf_max_depth cf \<le> d \<or> \<not> is_ok page then st' = st\<lparr>cw_pages := cw_pages st @ [page]\<rparr>
      else foldE (enqueue ?A d) (st\<lparr>cw_pages := cw_pages st @ [page]\<rparr>) (pd_links page) = Inr st'"
    by (auto simp: visit_def Let_def split: if_splits)
  note p = read_page_keeps [OF page]
  let ?st = "st\<lparr>cw_pages := cw_pages st @ [page]\<rparr>"
  have known: "known_inv ?A cf start origin todo ?st" using assms(2) p by (auto simp: known_inv_def addresses_def)
  have sorted: "sorted (map pd_depth (cw_pages st) @ d # map snd (todo @ cw_frontier st))"
    and window: "\<forall>x\<in>set ((u, d) # todo @ cw_frontier st). 0 \<le> snd x \<and> (\<forall>y\<in>set ((u, d) # todo @ cw_frontier st). snd y \<le> snd x + 1)"
    using assms(3) by (simp_all add: depth_inv_def)
  have depth: "depth_inv todo ?st" using sorted window p by (simp add: depth_inv_def)
  have polite: "polite_inv E cf ft todo ?st" using assms(4,6) p window by (auto simp: polite_inv_def)
  have moved: "link_followed ?A todo ?st k m = link_followed ?A ((u, d) # todo) st k m" for k m
    using p by (auto simp: link_followed_def depth_within_def)
  have full: "full_inv ?A cf (cw_pages st) todo ?st"
    using assms(5) p moved by (auto simp: full_inv_def addresses_def list_all_iff)
  show ?thesis
  proof (cases "cf_max_depth cf \<le> d \<or> \<not> is_ok page")
    case True
    with st' full p have "full_inv ?A cf (cw_pages st') todo st'" by (auto simp: full_inv_def)
    with True st' known depth polite show ?thesis by simp
  next
    case False
    have level: "level d todo ?st"
      using sorted_heads [OF sorted] window p by (auto simp: level_def)
    have kept: "known_inv ?A cf start origin todo st' \<and> depth_inv todo st' \<and> full_inv ?A cf (cw_pages st) todo st' \<and>
      cw_pages st' = cw_pages ?st \<and> cw_blocked st' = cw_blocked ?st \<and>
      list_all (link_followed ?A todo st' d) ([] @ pd_links page)"
      by (rule enqueue_all [OF _ known depth full level]) (use False st' read_page_links [OF page] in auto)
    moreover have "full_inv ?A cf (cw_pages st') todo st'" using kept p by (auto simp: full_inv_def)
    moreover have "polite_inv E cf ft todo st'" using polite kept by (simp add: polite_inv_def)
    ultimately show ?thesis by blast
  qed
qed

definition crawl_inv ::
  "'w net_env \<Rightarrow> crawl_config \<Rightarrow> fetcher \<Rightarrow> chars \<Rightarrow> chars \<Rightarrow> (chars \<times> int) list \<Rightarrow> crawl_state \<Rightarrow> bool" where
  "crawl_inv E cf ft start origin todo st \<longleftrightarrow>
     known_inv (ne_audit E) cf start origin todo st \<and> depth_inv todo st \<and> polite_inv E cf ft todo st \<and>
     full_inv (ne_audit E) cf (cw_pages st) todo st"

lemma visits_keep:
  assumes "foldE (visit S (ne_audit E) cf origin) st (zip batch results) = Inr st'"
    and "list_all2 (\<lambda>x r. fr_error r = None \<longrightarrow> guard_url E (fst x) = Inr ()) batch results"
    and "crawl_inv E cf ft start origin batch st"
  shows "crawl_inv E cf ft start origin [] st'"
  using assms(2,1,3)
proof (induction arbitrary: st rule: list_all2_induct)
  case (Cons x batch r results)
  obtain u d where x: "x = (u, d)" by fastforce
  from Cons.prems(1) obtain st1 where st1: "visit S (ne_audit E) cf origin st ((u, d), r) = Inr st1"
    "foldE (visit S (ne_audit E) cf origin) st1 (zip batch results) = Inr st'" by (auto simp: x)
  have "crawl_inv E cf ft start origin batch st1"
    using visit_keeps [OF st1(1), of start batch ft] Cons.prems(2) Cons.hyps(1) by (simp add: crawl_inv_def x)
  then show ?case by (rule Cons.IH [OF st1(2)])
qed simp

subsection \<open>A round\<close>

lemma batch_keeps:
  assumes "take_batch (allowed (ne_audit E) cf ft) cf (cf_max_pages cf - int (length (cw_pages st))) (cw_frontier st) [] (cw_blocked st) =
      (batch, blocked, frontier)"
    and "crawl_inv E cf ft start origin [] st"
  shows "crawl_inv E cf ft start origin batch (st\<lparr>cw_frontier := frontier, cw_blocked := blocked\<rparr>)"
proof -
  let ?A = "ne_audit E"
  let ?st = "st\<lparr>cw_frontier := frontier, cw_blocked := blocked\<rparr>"
  let ?P = "\<lambda>x. snd x \<le> cf_max_depth cf \<and> allowed ?A cf ft (fst x)"
  let ?Q = "\<lambda>x. snd x \<le> cf_max_depth cf \<and> \<not> allowed ?A cf ft (fst x)"
  from take_batch_spec [OF assms(1)] obtain pre where pre: "cw_frontier st = pre @ frontier" "batch = filter ?P pre"
    "blocked = cw_blocked st @ map fst (filter ?Q pre)"
    "int (length batch) \<le> max 0 (cf_max_pages cf - int (length (cw_pages st)))" by auto
  have K: "known_inv ?A cf start origin [] st" and D: "depth_inv [] st" and P: "polite_inv E cf ft [] st"
    and F: "full_inv ?A cf (cw_pages st) [] st" using assms(2) by (simp_all add: crawl_inv_def)
  have sub: "set (addresses batch ?st) \<subseteq> set (addresses [] st)" by (auto simp: addresses_def pre)
  have "distinct (map fst (filter R pre))" for R
    using K by (auto simp: known_inv_def addresses_def pre intro: distinct_map_filter)
  moreover have "set (map fst (filter ?P pre)) \<inter> set (map fst (filter ?Q pre)) = {}" by auto
  ultimately have "distinct (addresses batch ?st)"
    using K by (auto simp: known_inv_def addresses_def pre)
  with K sub have "known_inv ?A cf start origin batch ?st" by (auto simp: known_inv_def)
  moreover have "depth_inv batch ?st"
  proof -
    have "sorted (map pd_depth (cw_pages st) @ map snd (filter ?P pre) @ map snd frontier)"
      using D by (intro sorted_fewer) (simp add: depth_inv_def pre)
    with D show ?thesis by (simp add: depth_inv_def pre) blast
  qed
  moreover have "polite_inv E cf ft batch ?st" using P pre(4) by (auto simp: polite_inv_def pre(2,3))
  moreover have "full_inv ?A cf (cw_pages ?st) batch ?st"
  proof -
    have "set (addresses [] st) \<subseteq> set (addresses batch ?st)" if "\<forall>x\<in>set (cw_frontier st). snd x \<le> cf_max_depth cf"
      using that by (force simp: addresses_def pre)
    moreover have "link_followed ?A batch ?st k m" if "link_followed ?A [] st k m" for k m
      using that by (auto simp: link_followed_def depth_within_def pre)
    moreover have "set (batch @ frontier) \<subseteq> set (cw_frontier st)" by (auto simp: pre)
    ultimately show ?thesis using F unfolding full_inv_def list_all_iff by simp blast
  qed
  ultimately show ?thesis by (simp add: crawl_inv_def)
qed

lemma round_keeps:
  assumes "crawl_round E S cf ft origin st w = (Inr st', w')" and "crawl_inv E cf ft start origin [] st"
  shows "crawl_inv E cf ft start origin [] st'"
proof -
  obtain batch blocked frontier where b: "take_batch (allowed (ne_audit E) cf ft) cf (cf_max_pages cf - int (length (cw_pages st)))
      (cw_frontier st) [] (cw_blocked st) = (batch, blocked, frontier)" by (metis surj_pair)
  note inv = batch_keeps [OF b assms(2)]
  show ?thesis
  proof (cases "batch = []")
    case True
    with assms(1) inv show ?thesis by (simp add: crawl_round_def b)
  next
    case False
    with assms(1) obtain results w1 where r: "mapW (\<lambda>item. fetch E cf ''GET'' (fst item)) batch w = (Inr results, w1)"
      "foldE (visit S (ne_audit E) cf origin) (st\<lparr>cw_frontier := frontier, cw_blocked := blocked\<rparr>) (zip batch results) = Inr st'"
      by (auto simp: crawl_round_def b bindW_Inr)
    have "list_all2 (\<lambda>x r. fr_error r = None \<longrightarrow> guard_url E (fst x) = Inr ()) batch results"
      using mapW_all2 [OF r(1)] by (rule list_all2_mono) (auto dest: fetch_guarded)
    from visits_keep [OF r(2) this inv] show ?thesis .
  qed
qed

subsection \<open>The loop\<close>

lemma seed_keeps:
  assumes "seed (ne_audit E) cf origin st loc = Inr st'" and "crawl_inv E cf ft start origin [] st" and "level 0 [] st"
  shows "crawl_inv E cf ft start origin [] st' \<and> level 0 [] st'"
proof (cases "st' = st")
  case False
  with assms(1) obtain u where u: "normalize_url (ne_audit E) loc = Inr u" "u \<notin> set (cw_queued st)"
    "same_site (ne_audit E) u origin (cf_follow_subdomains cf) = Inr True"
    "st' = st\<lparr>cw_queued := u # cw_queued st, cw_frontier := cw_frontier st @ [(u, 1)]\<rparr>"
    by (auto simp: seed_def split: if_splits)
  have new: "u \<notin> set (addresses [] st)" "on_site (ne_audit E) cf start origin u"
    using assms(2) u by (auto simp: crawl_inv_def known_inv_def on_site_def)
  have "known_inv (ne_audit E) cf start origin [] st'"
    using assms(2) new by (simp add: crawl_inv_def known_inv_def addresses_def u(4)) blast
  moreover have "depth_inv [] st'"
    using append_depth [OF assms(3), where q = "u # cw_queued st" and t = u] assms(2) by (simp add: crawl_inv_def u(4))
  moreover have "polite_inv E cf ft [] st'" using assms(2) by (simp add: crawl_inv_def polite_inv_def u(4))
  moreover have "full_inv (ne_audit E) cf (cw_pages st') [] st'"
  proof -
    have "link_followed (ne_audit E) [] st' k m" if "link_followed (ne_audit E) [] st k m" for k m
      using that u(2) by (auto simp: link_followed_def depth_within_def u(4))
    with assms(2) show ?thesis by (auto simp: crawl_inv_def full_inv_def addresses_def list_all_iff u(4))
  qed
  ultimately show ?thesis using assms(3) by (auto simp: crawl_inv_def level_def u(4))
qed (use assms in simp)

lemma initial_keeps:
  assumes "initial_state (ne_audit E) cf ctx = Inr st"
  shows "crawl_inv E cf ft (sc_start_url ctx) (sc_origin ctx) [] st"
proof -
  let ?P = "\<lambda>st. crawl_inv E cf ft (sc_start_url ctx) (sc_origin ctx) [] st \<and> level 0 [] st"
  have "?P st"
  proof (rule foldE_invariant [OF assms [unfolded initial_state_def]])
    show "?P \<lparr>cw_frontier = [(sc_start_url ctx, 0)], cw_queued = [sc_start_url ctx], cw_pages = [], cw_blocked = []\<rparr>"
      by (simp add: crawl_inv_def inv_defs level_def on_site_def)
  qed (use seed_keeps in blast)
  then show ?thesis ..
qed

lemma loop_keeps:
  fixes E :: "'w net_env" and w :: 'w
  assumes "crawl_loop E S cf ft origin st w = Some (Inr st', w')" and "crawl_inv E cf ft start origin [] st"
  shows "crawl_inv E cf ft start origin [] st' \<and> \<not> more_to_crawl cf st'"
proof -
  let ?P = "\<lambda>(r :: crawl_state py, w :: 'w). case r of Inl e \<Rightarrow> True | Inr st \<Rightarrow> crawl_inv E cf ft start origin [] st"
  have "?P (Inr st', w')"
    using assms(1) unfolding crawl_loop_def
  proof (rule while_option_rule [where P = ?P, rotated])
    fix s :: "crawl_state py \<times> 'w"
    assume "?P s" "case s of (r, w) \<Rightarrow> case r of Inl e \<Rightarrow> False | Inr st \<Rightarrow> more_to_crawl cf st"
    then obtain st w where s: "s = (Inr st, w)" "crawl_inv E cf ft start origin [] st" by (auto split: sum.splits)
    show "?P (case s of (r, w) \<Rightarrow> case r of Inl e \<Rightarrow> (Inl e, w) | Inr st \<Rightarrow> crawl_round E S cf ft origin st w)"
      using round_keeps [of E S cf ft origin st w] s by (auto split: prod.splits sum.splits)
  qed (use assms(2) in simp)
  moreover have "\<not> more_to_crawl cf st'"
    using while_option_stop [OF assms(1) [unfolded crawl_loop_def]] by simp
  ultimately show ?thesis by simp
qed

text \<open>A round fetches a page or shortens the frontier, if there is a worker at all.\<close>

lemma visits_add:
  assumes "foldE (visit S A cf origin) st (zip batch results) = Inr st'" and "length results = length batch"
  shows "length (cw_pages st') = length (cw_pages st) + length batch"
  using assms
proof (induction batch arbitrary: st results)
  case (Cons x batch)
  then obtain r rest where r: "results = r # rest" by (cases results) auto
  from Cons.prems(1) obtain st1 where st1: "visit S A cf origin st (x, r) = Inr st1"
    "foldE (visit S A cf origin) st1 (zip batch rest) = Inr st'" by (auto simp: r)
  have enq: "foldE (enqueue A d) st2 ls = Inr st3 \<Longrightarrow> cw_pages st3 = cw_pages st2" for d st2 ls st3
    by (induction ls arbitrary: st2) (auto dest: enqueue_pages)
  from st1(1) have "length (cw_pages st1) = Suc (length (cw_pages st))"
    by (auto simp: visit_def Let_def dest: enq split: if_splits)
  with Cons.IH [OF st1(2)] Cons.prems(2) r show ?case by simp
qed simp

lemma round_progress:
  assumes "crawl_round E S cf ft origin st w = (Inr st', w')" and "more_to_crawl cf st" and "0 < cf_workers cf"
  shows "length (cw_pages st) < length (cw_pages st') \<or>
    length (cw_pages st') = length (cw_pages st) \<and> length (cw_frontier st') < length (cw_frontier st)"
proof -
  obtain batch blocked frontier where b: "take_batch (allowed (ne_audit E) cf ft) cf (cf_max_pages cf - int (length (cw_pages st)))
      (cw_frontier st) [] (cw_blocked st) = (batch, blocked, frontier)" by (metis surj_pair)
  show ?thesis
  proof (cases "batch = []")
    case True
    with take_batch_spec [OF b] assms(2,3) have "frontier = []" by (auto simp: more_to_crawl_def)
    with True assms(1,2) show ?thesis by (auto simp: crawl_round_def b more_to_crawl_def)
  next
    case False
    with assms(1) obtain results w1 where r: "mapW (\<lambda>item. fetch E cf ''GET'' (fst item)) batch w = (Inr results, w1)"
      "foldE (visit S (ne_audit E) cf origin) (st\<lparr>cw_frontier := frontier, cw_blocked := blocked\<rparr>) (zip batch results) = Inr st'"
      by (auto simp: crawl_round_def b bindW_Inr)
    from list_all2_lengthD [OF mapW_all2 [OF r(1)]] visits_add [OF r(2)] False show ?thesis by auto
  qed
qed

lemma loop_returns:
  fixes E :: "'w net_env" and w :: 'w
  assumes "0 < cf_workers cf"
  shows "\<exists>r. crawl_loop E S cf ft origin st w = Some r"
proof -
  let ?left = "\<lambda>(r :: crawl_state py, w :: 'w). case r of Inl e \<Rightarrow> 0 | Inr st \<Rightarrow> Suc (nat (cf_max_pages cf - int (length (cw_pages st))))"
  let ?queue = "\<lambda>(r :: crawl_state py, w :: 'w). case r of Inl e \<Rightarrow> 0 | Inr st \<Rightarrow> length (cw_frontier st)"
  show ?thesis unfolding crawl_loop_def
  proof (rule wf_rel_while_option_Some [where R = "measures [?left, ?queue]" and P = "\<lambda>s. True"])
    fix s :: "crawl_state py \<times> 'w"
    assume "True \<and> (case s of (r, w) \<Rightarrow> case r of Inl e \<Rightarrow> False | Inr st \<Rightarrow> more_to_crawl cf st)"
    then obtain st w where s: "s = (Inr st, w)" "more_to_crawl cf st" by (auto split: sum.splits)
    obtain r w' where r: "crawl_round E S cf ft origin st w = (r, w')" by fastforce
    show "((case s of (r, w) \<Rightarrow> case r of Inl e \<Rightarrow> (Inl e, w) | Inr st \<Rightarrow> crawl_round E S cf ft origin st w), s)
        \<in> measures [?left, ?queue]"
    proof (cases r)
      case (Inr st')
      with round_progress [OF r [unfolded Inr] s(2) assms] s(2) show ?thesis by (auto simp: s(1) r more_to_crawl_def)
    qed (simp add: s(1) r)
  qed simp_all
qed

text \<open>Without workers a round changes nothing.\<close>

lemma loop_diverges:
  assumes "cf_workers cf \<le> 0" and "more_to_crawl cf st"
  shows "crawl_loop E S cf ft origin st w = None"
proof (cases "crawl_loop E S cf ft origin st w")
  case (Some t)
  have idle: "crawl_round E S cf ft origin st w = (Inr st, w)"
  proof -
    have "take_batch ok cf room frontier [] blocked = ([], blocked, frontier)" for ok room frontier blocked
      using assms(1) by (cases frontier) auto
    then show ?thesis by (simp add: crawl_round_def give_def)
  qed
  have "t = (Inr st, w)"
    by (rule while_option_rule [where P = "\<lambda>s. s = (Inr st, w)", OF _ Some [unfolded crawl_loop_def]]) (simp_all add: idle)
  with while_option_stop [OF Some [unfolded crawl_loop_def]] assms(2) show ?thesis by simp
qed

end
