(* ===== verification/Crawler_Properties.thy ===== *)
theory Crawler_Properties
  imports Crawler_Facts
begin

text \<open>
  What a crawl can be relied on for: it stays within its limits and on its site, goes through the site level by
  level, misses nothing it may fetch, and ends; and where it does not do what it means to.
\<close>

subsection \<open>The end of a crawl\<close>

definition same_page :: "page_data \<Rightarrow> page_data \<Rightarrow> bool" where
  "same_page p q \<longleftrightarrow> (\<exists>n. q = p\<lparr>pd_inlinks := n\<rparr>)"

lemma same_page_fields:
  assumes "same_page p q"
  shows "pd_url q = pd_url p" "pd_depth q = pd_depth p" "pd_error q = pd_error p" "pd_links q = pd_links p" "is_ok q = is_ok p"
  using assms by (auto simp: same_page_def is_ok_def)

lemma compute_inlinks_pages:
  assumes "compute_inlinks A ctx = Inr ctx'"
  shows "list_all2 same_page (sc_pages ctx) (sc_pages ctx')" "sc_robots_txt ctx' = sc_robots_txt ctx"
    "sc_start_url ctx' = sc_start_url ctx" "sc_origin ctx' = sc_origin ctx"
proof -
  have "list_all2 same_page ps qs"
    if "mapE (\<lambda>p. bindE (normalize_url A (pd_url p)) (\<lambda>u. Inr (p\<lparr>pd_inlinks := int (count_list ts u)\<rparr>))) ps = Inr qs" for ts ps qs
    using that by (induction ps arbitrary: qs) (auto simp: same_page_def)
  with assms show "list_all2 same_page (sc_pages ctx) (sc_pages ctx')" "sc_robots_txt ctx' = sc_robots_txt ctx"
    "sc_start_url ctx' = sc_start_url ctx" "sc_origin ctx' = sc_origin ctx"
    by (auto simp: compute_inlinks_def)
qed

lemma check_external_keeps:
  assumes "check_external_links E cf ctx w = (Inr ctx', w')"
  shows "sc_pages ctx' = sc_pages ctx \<and> sc_robots_txt ctx' = sc_robots_txt ctx \<and> sc_start_url ctx' = sc_start_url ctx \<and>
    sc_origin ctx' = sc_origin ctx"
  using assms by (auto simp: check_external_links_def bindW_Inr split: if_splits)

lemma finish_crawl_pages:
  assumes "finish_crawl E cf ctx st w = (Inr ctx', w')"
  shows "list_all2 same_page (cw_pages st) (sc_pages ctx') \<and> sc_robots_txt ctx' = sc_robots_txt ctx \<and>
    sc_start_url ctx' = sc_start_url ctx \<and> sc_origin ctx' = sc_origin ctx"
proof -
  from assms obtain ctx1 w1 where c: "compute_inlinks (ne_audit E) (with_pages cf ctx st) = Inr ctx1"
    "(if cf_check_external cf then check_external_links E cf ctx1 else give ctx1) w1 = (Inr ctx', w')"
    by (auto simp: finish_crawl_def bindW_Inr)
  have "sc_pages ctx' = sc_pages ctx1 \<and> sc_robots_txt ctx' = sc_robots_txt ctx1 \<and> sc_start_url ctx' = sc_start_url ctx1 \<and>
    sc_origin ctx' = sc_origin ctx1"
    using c(2) by (cases "cf_check_external cf") (simp_all add: check_external_keeps)
  with compute_inlinks_pages [OF c(1)] show ?thesis by (simp add: with_pages_def)
qed

lemma load_robots_reads:
  assumes "load_robots E origin w = (Inr ft, w')"
  shows "ft_robots ft = Option.bind (ft_robots_txt ft) (\<lambda>t. case parse_robots (ne_audit E) (splitlines t) of Inl _ \<Rightarrow> None | Inr rb \<Rightarrow> Some rb)"
proof -
  obtain url where u: "urljoin (encode origin) ''/robots.txt'' = Inr url"
    using assms by (auto simp: load_robots_def bindW_Inr)
  obtain a w1 where a: "ne_send E ''GET'' (code_points url) w = (a, w1)" by fastforce
  show ?thesis
    using assms by (cases a) (auto simp: load_robots_def bindW_def purely_def give_def u a new_fetcher_def Let_def split: if_splits sum.splits)
qed

lemma discover_keeps:
  assumes "discover_sitemaps E cf ft ctx w = (Inr ctx', w')"
  shows "sc_robots_txt ctx' = sc_robots_txt ctx \<and> sc_start_url ctx' = sc_start_url ctx \<and> sc_origin ctx' = sc_origin ctx"
  using assms by (auto simp: discover_sitemaps_def bindW_Inr)

lemma probe_keeps:
  assumes "probe_wellknown E cf ctx w = (Inr ctx', w')"
  shows "sc_robots_txt ctx' = sc_robots_txt ctx \<and> sc_start_url ctx' = sc_start_url ctx \<and> sc_origin ctx' = sc_origin ctx"
  using assms by (auto simp: probe_wellknown_def bindW_Inr)

text \<open>What the robots.txt of a site, as the crawler read it, says of an address.\<close>

definition robots_allow :: "audit_env \<Rightarrow> crawl_config \<Rightarrow> site_context \<Rightarrow> chars \<Rightarrow> bool" where
  "robots_allow A cf ctx url \<longleftrightarrow>
     allowed A cf
       \<lparr>ft_robots = Option.bind (sc_robots_txt ctx) (\<lambda>t. case parse_robots A (splitlines t) of Inl _ \<Rightarrow> None | Inr rb \<Rightarrow> Some rb),
        ft_robots_txt = sc_robots_txt ctx, ft_robots_status = sc_robots_status ctx\<rparr> url"

lemma prepare_crawl_facts:
  assumes "prepare_crawl E cf w = (Inr (ft, ctx, st), w')"
  shows "initial_state (ne_audit E) cf ctx = Inr st \<and> (\<forall>u. allowed (ne_audit E) cf ft u = robots_allow (ne_audit E) cf ctx u)"
proof -
  from assms obtain start origin w0 w1 ctx0 w2 where
    l: "load_robots E origin w0 = (Inr ft, w1)" and
    d: "discover_sitemaps E cf ft ((new_site cf start origin)\<lparr>sc_robots_txt := ft_robots_txt ft,
              sc_robots_status := ft_robots_status ft\<rparr>) w1 = (Inr ctx0, w2)" and
    p: "\<exists>w3. probe_wellknown E cf ctx0 w2 = (Inr ctx, w3)" and
    i: "initial_state (ne_audit E) cf ctx = Inr st"
    by (auto simp: prepare_crawl_def bindW_Inr)
  from discover_keeps [OF d] p probe_keeps have "sc_robots_txt ctx = ft_robots_txt ft" by force
  with i load_robots_reads [OF l] show ?thesis by (auto simp: robots_allow_def allowed_def)
qed

lemma crawl_facts:
  assumes "crawl E S cf w = Some (Inr ctx, w')"
  shows "\<exists>ft st. crawl_inv E cf ft (sc_start_url ctx) (sc_origin ctx) [] st \<and> \<not> more_to_crawl cf st \<and>
    list_all2 same_page (cw_pages st) (sc_pages ctx) \<and> (\<forall>u. allowed (ne_audit E) cf ft u = robots_allow (ne_audit E) cf ctx u)"
proof -
  from assms obtain ft ctx0 st0 w1 st w2 where
    p: "prepare_crawl E cf w = (Inr (ft, ctx0, st0), w1)" and
    l: "crawl_loop E S cf ft (sc_origin ctx0) st0 w1 = Some (Inr st, w2)" and
    f: "finish_crawl E cf ctx0 st w2 = (Inr ctx, w')"
    by (auto simp: crawl_def split: prod.splits sum.splits option.splits)
  note prep = prepare_crawl_facts [OF p] and fin = finish_crawl_pages [OF f]
  have "crawl_inv E cf ft (sc_start_url ctx0) (sc_origin ctx0) [] st0"
    by (rule initial_keeps) (use prep in blast)
  with loop_keeps [OF l] fin have "crawl_inv E cf ft (sc_start_url ctx) (sc_origin ctx) [] st \<and> \<not> more_to_crawl cf st" by simp
  moreover have "allowed (ne_audit E) cf ft u = robots_allow (ne_audit E) cf ctx u" for u
    using prep fin by (simp add: robots_allow_def allowed_def)
  ultimately show ?thesis using fin by blast
qed

lemma same_pages_map:
  assumes "list_all2 same_page ps qs" and "\<And>p q. same_page p q \<Longrightarrow> f q = f p"
  shows "map f qs = map f ps"
  using assms(1) by (induction rule: list_all2_induct) (simp_all add: assms(2))

lemma same_pages_back:
  assumes "list_all2 same_page ps qs" and "q \<in> set qs"
  shows "\<exists>p\<in>set ps. same_page p q"
  using assms by (induction rule: list_all2_induct) auto

subsection \<open>A small site\<close>

text \<open>A site of two pages that link to each other: the tree of a page is a number, 0 the document, 1 its only link.\<close>

definition demo_response :: "chars \<Rightarrow> response" where
  "demo_response url = \<lparr>rs_status = 200, rs_url = url, rs_history = [], rs_headers = [(lit ''content-type'', lit ''text/html'')],
     rs_body = Inr ''<a>'', rs_text = lit ''<a>'', rs_guess = None\<rparr>"

definition demo_net :: "nat net_env" where
  "demo_net = \<lparr>ne_audit = ascii_env, ne_send = (\<lambda>method url w. (Answered (demo_response url), Suc w)), ne_elapsed = (\<lambda>a b. 1),
     ne_dns = (\<lambda>host. Inr []), ne_allow_private = ''1'', ne_decode = (\<lambda>body e. Some (lit body)), ne_replace = lit\<rparr>"

definition demo_soup :: "chars \<Rightarrow> nat soup_env" where
  "demo_soup href = \<lparr>so_parse = (\<lambda>t. 0), so_find_all = (\<lambda>names n. if names = [''a''] \<and> n = 0 then [1] else []), so_every = (\<lambda>n. []),
     so_select = (\<lambda>s n. []), so_name = (\<lambda>n. []), so_attr = (\<lambda>n a. if n = 1 \<and> a = ''href'' then Some href else None),
     so_rel = (\<lambda>n. None), so_string = (\<lambda>n. None), so_text = (\<lambda>n. []), so_spaced_text = (\<lambda>n. []), so_in_head = (\<lambda>n. False),
     so_without = (\<lambda>names n. n), so_reparse = (\<lambda>n. n), so_loads = (\<lambda>t. None), so_sha1 = (\<lambda>b. [])\<rparr>"

definition demo_config :: crawl_config where
  "demo_config = config_for (lit ''http://a.ir'')"

lemma demo_crawl:
  "case crawl demo_net (demo_soup (lit ''/b'')) demo_config 0 of
     Some (Inr ctx, w) \<Rightarrow> map (\<lambda>p. (pd_url p, pd_depth p)) (sc_pages ctx) = [(lit ''http://a.ir/'', 0), (lit ''http://a.ir/b'', 1)]
   | _ \<Rightarrow> False"
  by code_simp

lemma demo_crawl_ends:
  "\<exists>ctx w. crawl demo_net (demo_soup (lit ''/b'')) demo_config 0 = Some (Inr ctx, w) \<and>
     map (\<lambda>p. (pd_url p, pd_depth p)) (sc_pages ctx) = [(lit ''http://a.ir/'', 0), (lit ''http://a.ir/b'', 1)]"
  using demo_crawl by (auto split: option.splits prod.splits sum.splits)

subsection \<open>Within its limits\<close>



text \<open>C30: a crawl that was not cut off has seen the site. If it has found fewer pages than it may, every crawlable
  internal link of every good page above the last level was followed, and found at most one level further down
  (so depths are click distances), unless robots.txt forbids it; and the start address was fetched itself,
  unless it is forbidden.\<close>

theorem crawl_misses_nothing:
  assumes "crawl E S cf w = Some (Inr ctx, w')" and "1 \<le> cf_max_depth cf" and "int (length (sc_pages ctx)) < cf_max_pages cf"
  shows "(robots_allow (ne_audit E) cf ctx (sc_start_url ctx) \<longrightarrow> sc_start_url ctx \<in> pd_url ` set (sc_pages ctx)) \<and>
    (\<forall>p\<in>set (sc_pages ctx). \<forall>l\<in>set (pd_links p).
       pd_depth p < cf_max_depth cf \<and> is_ok p \<and> lk_internal l \<and> is_crawlable (ne_audit E) (lk_href l) = Inr True \<longrightarrow>
       (\<exists>t. normalize_url (ne_audit E) (lk_href l) = Inr t \<and>
          (robots_allow (ne_audit E) cf ctx t \<longrightarrow> (\<exists>q\<in>set (sc_pages ctx). pd_url q = t \<and> pd_depth q \<le> pd_depth p + 1))))"
proof -
  let ?A = "ne_audit E"
  from crawl_facts [OF assms(1)] obtain ft st where
    inv: "known_inv ?A cf (sc_start_url ctx) (sc_origin ctx) [] st" "polite_inv E cf ft [] st" "full_inv ?A cf (cw_pages st) [] st"
    and over: "\<not> more_to_crawl cf st" and same: "list_all2 same_page (cw_pages st) (sc_pages ctx)"
    and ok: "\<forall>u. allowed ?A cf ft u = robots_allow ?A cf ctx u"
    by (auto simp: crawl_inv_def)
  have empty: "cw_frontier st = []" using over assms(3) list_all2_lengthD [OF same] by (simp add: more_to_crawl_def)
  have there: "\<exists>q\<in>set (sc_pages ctx). pd_url q = t \<and> (\<forall>n. depth_within [] st t n \<longrightarrow> pd_depth q \<le> n)"
    if "t \<in> set (cw_queued st)" "robots_allow ?A cf ctx t" for t
  proof -
    have "t \<in> set (addresses [] st)" using inv(3) assms(2) that(1) by (auto simp: full_inv_def)
    moreover have "t \<notin> set (cw_blocked st)" using inv(2) ok that(2) by (auto simp: polite_inv_def)
    ultimately obtain p where p: "p \<in> set (cw_pages st)" "pd_url p = t" by (auto simp: addresses_def empty)
    moreover obtain q where "q \<in> set (sc_pages ctx)" "same_page p q"
      using same p(1) by (induction rule: list_all2_induct) auto
    ultimately show ?thesis by (auto simp: depth_within_def same_page_fields intro!: bexI [of _ q])
  qed
  have "sc_start_url ctx \<in> set (cw_queued st)" using inv(1) by (simp add: known_inv_def)
  then have start: "robots_allow ?A cf ctx (sc_start_url ctx) \<longrightarrow> sc_start_url ctx \<in> pd_url ` set (sc_pages ctx)"
    using there by force
  have "\<exists>t. normalize_url ?A (lk_href l) = Inr t \<and>
      (robots_allow ?A cf ctx t \<longrightarrow> (\<exists>q\<in>set (sc_pages ctx). pd_url q = t \<and> pd_depth q \<le> pd_depth p + 1))"
    if p: "p \<in> set (sc_pages ctx)" and l: "l \<in> set (pd_links p)" "pd_depth p < cf_max_depth cf" "is_ok p" "lk_internal l"
      "is_crawlable ?A (lk_href l) = Inr True" for p l
  proof -
    obtain p' where p': "p' \<in> set (cw_pages st)" "same_page p' p" using same_pages_back [OF same p] by blast
    with inv(3) l have "link_followed ?A [] st (pd_depth p) l"
      by (auto simp: full_inv_def list_all_iff same_page_fields [OF p'(2)])
    with l obtain t where "normalize_url ?A (lk_href l) = Inr t" "t \<in> set (cw_queued st)" "depth_within [] st t (pd_depth p + 1)"
      by (auto simp: link_followed_def)
    with there show ?thesis by blast
  qed
  with start show ?thesis by blast
qed

theorem crawl_misses_nothing_witness:
  "\<exists>ctx w. crawl demo_net (demo_soup (lit ''/b'')) demo_config 0 = Some (Inr ctx, w) \<and>
     (robots_allow ascii_env demo_config ctx (sc_start_url ctx) \<longrightarrow> sc_start_url ctx \<in> pd_url ` set (sc_pages ctx))"
proof -
  obtain ctx w where c: "crawl demo_net (demo_soup (lit ''/b'')) demo_config 0 = Some (Inr ctx, w)"
    "map (\<lambda>p. (pd_url p, pd_depth p)) (sc_pages ctx) = [(lit ''http://a.ir/'', 0), (lit ''http://a.ir/b'', 1)]"
    using demo_crawl_ends by (elim exE conjE) (rule that)
  have "length (sc_pages ctx) = 2" using arg_cong [OF c(2), of length] by simp
  moreover have "cf_max_pages demo_config = 50" "cf_max_depth demo_config = 3" by (simp_all add: demo_config_def config_for_def)
  moreover have "ne_audit demo_net = ascii_env" by (simp add: demo_net_def)
  ultimately show ?thesis using crawl_misses_nothing [OF c(1)] c(1) by (intro exI [of _ ctx] exI [of _ w]) simp
qed

text \<open>C31: with at least one worker every crawl ends, whatever the servers answer and however large the site.\<close>

theorem crawl_terminates:
  assumes "0 < cf_workers cf"
  shows "\<exists>r w'. crawl E S cf w = Some (r, w')"
proof -
  obtain r w1 where p: "prepare_crawl E cf w = (r, w1)" by fastforce
  show ?thesis
  proof (cases r)
    case (Inr prepared)
    obtain ft ctx st where t: "prepared = (ft, ctx, st)" by (metis surj_pair)
    obtain r' w2 where "crawl_loop E S cf ft (sc_origin ctx) st w1 = Some (r', w2)"
      using loop_returns [OF assms, of E S ft "sc_origin ctx" st w1] by auto
    then show ?thesis using surj_pair [of "finish_crawl E cf ctx (projr r') w2"]
      by (cases r') (auto simp: crawl_def p Inr t)
  qed (simp add: crawl_def p)
qed

theorem crawl_terminates_witness: "\<exists>r w'. crawl demo_net (demo_soup []) demo_config 0 = Some (r, w')"
  by (rule crawl_terminates) (simp add: demo_config_def config_for_def)

text \<open>Without one it does not, as soon as there is anything to crawl.\<close>

lemma crawl_without_workers_hangs:
  assumes "prepare_crawl E cf w = (Inr (ft, ctx, st), w1)" and "cf_workers cf \<le> 0" and "0 < cf_max_pages cf"
  shows "crawl E S cf w = None"
proof -
  have "crawl_inv E cf ft (sc_start_url ctx) (sc_origin ctx) [] st \<and> cw_pages st = [] \<and> cw_frontier st \<noteq> []"
  proof (intro conjI)
    have i: "initial_state (ne_audit E) cf ctx = Inr st" using prepare_crawl_facts [OF assms(1)] by blast
    then show "crawl_inv E cf ft (sc_start_url ctx) (sc_origin ctx) [] st" by (rule initial_keeps)
    have "cw_pages st = [] \<and> cw_frontier st \<noteq> []"
      by (rule foldE_invariant [OF i [unfolded initial_state_def]]) (auto simp: seed_def split: if_splits)
    then show "cw_pages st = []" "cw_frontier st \<noteq> []" by blast+
  qed
  then have "more_to_crawl cf st" using assms(3) by (simp add: more_to_crawl_def)
  then show ?thesis by (simp add: crawl_def assms(1) loop_diverges [OF assms(2)])
qed

subsection \<open>Where it fails\<close>

text \<open>C32: one malformed link fails the page it stands on. If the address of an anchor cannot be split, \<open>parse_page\<close>
  raises, for whatever else the page holds; the crawler does not catch it, so the crawl ends there.\<close>

theorem malformed_link_fails_page:
  assumes "(a, href) \<in> set (anchors_of S (so_parse S (pd_html page)))" and "urlsplit (encode (strip_white href)) = Inl e"
    and "\<not> list_ex (\<lambda>p. prefix p (strip_white href)) SKIPPED_SCHEMES" and "strip_white href \<noteq> []"
    and "base_url_of S (so_parse S (pd_html page)) page = Inr base" and "base \<noteq> []" and "urlsplit (encode base) = Inr b"
    and "pd_html page \<noteq> []" and "is_html A page"
  shows "\<exists>e'. parse_page S A origin follow page = Inl e'"
proof (cases "parse_page S A origin follow page")
  case (Inr page')
  with assms(5,8,9) obtain links where "links_of S A origin follow base (so_parse S (pd_html page)) = Inr links"
    by (auto simp: parse_page_def Let_def)
  then obtain lss where "mapE (link_of S A origin follow base) (anchors_of S (so_parse S (pd_html page))) = Inr lss"
    by (auto simp: links_of_def)
  then have "\<exists>ls. link_of S A origin follow base (a, href) = Inr ls"
    using assms(1) mapE_nth by (metis in_set_conv_nth)
  then obtain u where "urljoin (encode base) (encode (strip_white href)) = Inr u"
    using assms(3) by (auto simp: link_of_def Let_def join_url_def)
  moreover have "urljoin (encode base) (encode (strip_white href)) = Inl e"
    by (rule urljoin_raises [OF assms(2) _ _ assms(7)]) (use assms(4,6) in simp_all)
  ultimately show ?thesis by simp
qed simp

theorem malformed_link_fails_page_witness:
  "\<exists>e. parse_page (demo_soup (lit ''http://[x'')) ascii_env (lit ''http://a.ir'') False
     (result_to_page (lit ''http://a.ir/'') (read_response demo_net ''GET'' (lit ''http://a.ir/'') 0 (demo_response (lit ''http://a.ir/''))) 0) = Inl e"
proof (rule malformed_link_fails_page)
  let ?page = "result_to_page (lit ''http://a.ir/'') (read_response demo_net ''GET'' (lit ''http://a.ir/'') 0 (demo_response (lit ''http://a.ir/''))) 0"
  let ?S = "demo_soup (lit ''http://[x'')"
  show "(1, lit ''http://[x'') \<in> set (anchors_of ?S (so_parse ?S (pd_html ?page)))"
    by (simp add: anchors_of_def demo_soup_def)
  show "urlsplit (encode (strip_white (lit ''http://[x''))) = Inl (ValueError ''Invalid IPv6 URL'')" by code_simp
  show "\<not> list_ex (\<lambda>p. prefix p (strip_white (lit ''http://[x''))) SKIPPED_SCHEMES" by code_simp
  show "strip_white (lit ''http://[x'') \<noteq> []" by code_simp
  show "base_url_of ?S (so_parse ?S (pd_html ?page)) ?page = Inr (lit ''http://a.ir/'')" by code_simp
  show "lit ''http://a.ir/'' \<noteq> []" by code_simp
  show "urlsplit (encode (lit ''http://a.ir/'')) = Inr \<lparr>scheme = ''http'', netloc = ''a.ir''\<rparr>" by code_simp
  show "pd_html ?page \<noteq> []" by code_simp
  show "is_html ascii_env ?page" by code_simp
qed

text \<open>Rules for the crawler by its own name are not obeyed. It calls itself by texts that begin with \<^verbatim>\<open>Mozilla/5.0\<close>,
  and the reader of robots.txt looks at what precedes the first slash: groups whose agents are all no part of
  that word, \<^verbatim>\<open>SeoAgent\<close> and \<^verbatim>\<open>Googlebot\<close> among them, never apply, and everything they forbid is fetched.\<close>

lemma own_name_rules_ignored:
  assumes "ft_robots ft = Some rb" and "rb_default rb = None"
    and "\<forall>e\<in>set (rb_entries rb). \<forall>agent\<in>set (re_agents e). agent \<noteq> lit ''*'' \<and> \<not> sublist (low A agent) (low A (lit ''Mozilla''))"
  shows "allowed A cf ft url"
proof -
  have "\<not> entry_applies A (user_agent key) e" if "e \<in> set (rb_entries rb)" for key e
    using assms(3) that by (auto simp: entry_applies_def agent_token_def user_agent_token list_ex_iff)
  then have "first_where (entry_applies A (user_agent key)) (rb_entries rb) = None" for key
    by (simp add: find_None_iff_all)
  then show ?thesis using assms(1,2) by (auto simp: allowed_def can_fetch_def split: sum.splits)
qed

definition keep_out :: "chars list" where
  "keep_out = [lit ''User-agent: SeoAgent'', lit ''User-agent: Googlebot'', lit ''Disallow: /'']"

end
