(* ===== verification/Rules_Ai_Search.thy ===== *)
theory Rules_Ai_Search
  imports Audit_Model
begin

text \<open>
  \<^verbatim>\<open>src/services/engine/seoagent/rules/ai_search.py\<close>: crawlers of language models, llms.txt, the shape of
  answers and pages that only a browser can show.
\<close>

subsection \<open>Crawlers\<close>

definition AI_CRAWLERS :: "chars list" where
  "AI_CRAWLERS = map lit [''gptbot'', ''chatgpt-user'', ''oai-searchbot'', ''claudebot'', ''anthropic-ai'',
     ''perplexitybot'', ''google-extended'', ''ccbot'', ''bytespider'', ''applebot-extended'']"

definition i_ai_crawlers_blocked :: "chars \<Rightarrow> chars \<Rightarrow> issue" where
  "i_ai_crawlers_blocked bots start_url = make_issue
     (lit ''ai-crawlers-blocked'')
     (lit ''AI crawlers are blocked'')
     (fa ''xzndh_hay hvS menvoy blak Sdh_and'')
     (fa ''dr [robots.txt ]ayn xzndh_ha kamlaN blak Sdh_and: '' @
       bots @
       fa ''. ayn yk temym ast nh lzvmaN yk xTa: jlvy astfadh az mHtvay tv bray AmvzS '' @
       fa ''mdl_ha ra my_gyrd, ama dr ovE saytt dr pasx_hay [ChatGPT], [Perplexity ]v '' @
       fa ''abzarhay mSabh hm dydh v arjao dadh nmy_Svd.'')
     (fa ''agr hdft dydh_Sdn ast, xzndh_hay <jstjv> ([OAI-SearchBot], [PerplexityBot], '' @
       fa ''[ChatGPT-User) ]ra baz bgDar v fqT xzndh_hay <AmvzS mdl> ([GPTBot], [CCBot], '' @
       fa ''[Google-Extended) ]ra bbnd. tvjh: bstn [Google-Extended ]rvy rtbh_y sayt dr '' @
       fa ''jstjvy momvly gvgl acry ndard.'')
     S_Info C_Ai_Search [start_url] [] (lit ''https://developers.google.com/search/docs/crawling-indexing/overview-google-crawlers'')"

definition i_ai_crawler_policy_undefined :: "chars \<Rightarrow> issue" where
  "i_ai_crawler_policy_undefined start_url = make_issue
     (lit ''ai-crawler-policy-undefined'')
     (lit ''No explicit AI crawler policy'')
     (fa ''syast mSxey bray xzndh_hay hvS menvoy toryf nSdh'')
     (fa ''dr [robots.txt ]hyC aSarh_ay bh xzndh_hay hvS menvoy ([GPTBot], [ClaudeBot], '' @
       fa ''[PerplexityBot], [Google-Extended ]v ...) nSdh ast. dr Halt pyS_frE hmh ajazh '' @
       fa ''darnd. ayn lzvmaN bd nyst, vly bhtr ast temym Agahanh baSd nh pyS_frE.'')
     (fa ''temym bgyr mHtvayt bray AmvzS mdl_ha astfadh Svd ya nh, v hman ra eryH dr '' @
       fa ''[robots.txt ]bnvys. agr my_xvahy dr ntayj hvS menvoy dydh Svy, xzndh_hay jstjv '' @
       fa ''ra HtmaN baz bgDar.'')
     S_Info C_Ai_Search [start_url] [] (lit ''https://platform.openai.com/docs/bots'')"

text \<open>The agents that a full disallow blocks; an empty line, also one with a comment, starts a new group.\<close>

fun blocked_agents :: "chars list \<Rightarrow> chars list \<Rightarrow> chars list" where
  "blocked_agents current [] = []"
| "blocked_agents current (raw # lines) =
     (let line = strip_white (until 35 raw) in
      if prefix (lit ''user-agent:'') line then blocked_agents (current @ [strip_white (beyond 58 line)]) lines
      else if prefix (lit ''disallow:'') line then
        (if strip_white (beyond 58 line) = lit ''/'' then filter (\<lambda>a. a \<in> set AI_CRAWLERS) current else []) @
        blocked_agents current lines
      else if line = [] then blocked_agents [] lines
      else blocked_agents current lines)"

definition check_ai_crawlers :: rule where
  "check_ai_crawlers A ctx =
     (case sc_robots_txt ctx of
        None \<Rightarrow> gives []
      | Some txt \<Rightarrow>
          (let lowered_txt = low A txt;
               mentioned = filter (\<lambda>b. sublist b lowered_txt) AI_CRAWLERS;
               blocked = blocked_agents [] (splitlines lowered_txt)
           in gives (
                if blocked \<noteq> [] then [i_ai_crawlers_blocked (joined (fa '', '') (sort (dedupe blocked))) (sc_start_url ctx)]
                else if mentioned = [] then [i_ai_crawler_policy_undefined (sc_start_url ctx)] else [])))"

definition i_no_llms_txt :: "chars \<Rightarrow> issue" where
  "i_no_llms_txt start_url = make_issue
     (lit ''no-llms-txt'')
     (lit ''No llms.txt'')
     (fa ''fayl [llms.txt ]vjvd ndard'')
     (fa ''fayl /[llms.txt ]vjvd ndard. ayn yk astandard nvZhvr (hnvz rsmy v alzamy nyst) '' @
       fa ''ast kh dr qalb [Markdown ]xlaeh_ay az sayt v mhm_tryn efHatS ra bray mdl_hay '' @
       fa ''zbany frahm my_knd ta bh_jay tHlyl [HTML ]SlvG, mstqym bh mHtvay aely brsnd.'')
     (fa ''yk fayl [llms.txt ]dr rySh_y sayt bsaz: yk tytr [H1 ]ba nam sayt, yk paragraf '' @
       fa ''tvEyH, v bod fhrst lynk_dar mhm_tryn efHat ba yk jmlh tvEyH bray hrkdam. '' @
       fa ''hzynh_aS km ast v agr astandard ja byftd az qbl Amadh_ay.'')
     S_Info C_Ai_Search [start_url] [] (lit ''https://llmstxt.org/'')"

definition check_llms_txt :: rule where
  "check_llms_txt A ctx = gives (if sc_llms_txt_found ctx then [] else [i_no_llms_txt (sc_start_url ctx)])"

subsection \<open>The shape of answers\<close>

definition QUESTION_MARKERS :: "charset \<Rightarrow> regex" where
  "QUESTION_MARKERS C =
     alts (map (text_like C) [(fa ''Cyst''), (fa ''Cgvnh''), (fa ''CTvr''), (fa ''Cra''), (fa ''kdam'')] @
       [seq [text_like C (fa ''Ch''), One is_white]] @
       map (text_like C) [(fa ''Aya''), (fa ''kja''), (fa ''Cnd''), lit ''?'', (fa ''?'')] @
       [seq [at_start, alts (map (\<lambda>s. text_like C (lit s)) [''what'', ''how'', ''why'', ''when'', ''where'', ''which'',
          ''who'', ''is'', ''are'', ''can'', ''does'', ''do'']), word_edge C]])"

definition i_no_question_headings :: "chars list \<Rightarrow> issue" where
  "i_no_question_headings no_questions = make_issue
     (lit ''no-question-headings'')
     (lit ''No question-style subheadings'')
     (fa ''zyrtytrha bh Skl sVal nvSth nSdh_and'')
     (num (length no_questions) @
       fa '' efHh hyC zyrtytry bh Skl sVal ndard. [AI Overviews ]gvgl v asnypt_hay vyJh, '' @
       fa ''pasx ra az pasaJy brmy_darnd kh dqyqaN zyr yk sVal Amdh baSd. zyrtytr sValy, '' @
       fa ''eryH_tryn rah bray gftn <pasx ayn sVal aynjast>.'')
     (fa ''bxSy az zyrtytrha ra bh Skl sVal vaqoy karbr bnvys (mclaN <sYv tknykal '' @
       fa ''Cyst?>) v blafaelh zyr An, dr dv ta sh jmlh, pasx kaml v mstql bdh. jzYyat ra '' @
       fa ''bod az An byavr.'')
     S_Medium C_Ai_Search no_questions (sample 4 no_questions) (lit ''https://developers.google.com/search/docs/appearance/featured-snippets'')"

definition i_buried_answer :: "chars list \<Rightarrow> issue" where
  "i_buried_answer buried_answer = make_issue
     (lit ''buried-answer'')
     (lit ''Answer buried under a long intro'')
     (fa ''pasx zyr mqdmh_y Tvlany dfn Sdh'')
     (num (length buried_answer) @
       fa '' efHh ba paragraf avl bsyar Tvlany Srvo my_Svd. hm karbr v hm systm_hay '' @
       fa ''astxraj pasx, abtday efHh ra my_xvannd; mqdmh_y Tvlany yony pasx aely qabl '' @
       fa ''astxraj nyst.'')
     (fa ''az algvy <avl pasx> astfadh kn: dr 40 ta 60 klmh_y avl mstqymaN jvab bdh, bod '' @
       fa ''tvEyH v zmynh ra aEafh kn.'')
     S_Medium C_Ai_Search buried_answer (sample 3 buried_answer) (lit ''https://developers.google.com/search/docs/appearance/featured-snippets'')"

definition i_no_lists_or_tables :: "chars list \<Rightarrow> issue" where
  "i_no_lists_or_tables no_lists = make_issue
     (lit ''no-lists-or-tables'')
     (lit ''Content without lists or tables'')
     (fa ''mHtva bdvn fhrst ya jdvl'')
     (num (length no_lists) @
       fa '' efHh_y Tvlany hyC fhrst ya jdvly ndard. asnypt_hay vyJh_y gvgl bh_Sdt bh smt '' @
       fa ''mHtvay fhrsty v jdvly grayS darnd, v mdl_hay zbany hm dadh_y saxt_yafth ra '' @
       fa ''raHt_tr v dqyq_tr nql my_knnd.'')
     (fa ''mraHl ra bh fhrst Smarh_dar, vyJgy_ha ra bh fhrst nqTh_ay v mqaysh_ha ra bh '' @
       fa ''jdvl tbdyl kn.'')
     S_Low C_Ai_Search no_lists (sample 3 no_lists) (lit ''https://developers.google.com/search/docs/appearance/featured-snippets'')"

definition lists_or_tables :: "charset \<Rightarrow> regex" where
  "lists_or_tables C = seq
     [text_like C (lit ''<''), alts (map (\<lambda>s. text_like C (lit s)) [''ul'', ''ol'', ''table'']), word_edge C]"

text \<open>The text between the first \<^verbatim>\<open><p ...>\<close> that is closed and the \<^verbatim>\<open></p>\<close> that closes it.\<close>

definition paragraph_open :: "charset \<Rightarrow> regex" where
  "paragraph_open C = seq [text_like C (lit ''<p''), Many (none_of (lit ''>'')), text_is (lit ''>'')]"

definition paragraph_rest :: "charset \<Rightarrow> regex" where
  "paragraph_rest C = Seq (Few any_char) (text_like C (lit ''</p>''))"

definition first_paragraph :: "charset \<Rightarrow> chars \<Rightarrow> chars option" where
  "first_paragraph C s =
     (case filter (\<lambda>i. ends s (Seq (paragraph_open C) (paragraph_rest C)) i \<noteq> []) [0..<length s] of
        [] \<Rightarrow> None
      | i # _ \<Rightarrow>
          (let a = hd (ends s (paragraph_open C) i); b = hd (ends s (paragraph_rest C) a) - 4
           in Some (take (b - a) (drop a s))))"

definition tag :: regex where
  "tag = seq [text_is (lit ''<''), some (none_of (lit ''>'')), text_is (lit ''>'')]"

definition paragraph_words :: "chars \<Rightarrow> nat" where
  "paragraph_words t = length (split_where is_white [] (re_sub tag (lit '' '') t))"

definition buried_entry :: "audit_env \<Rightarrow> page_data \<Rightarrow> chars list" where
  "buried_entry A p =
     (case first_paragraph (ae_chars A) (pd_html p) of
        None \<Rightarrow> []
      | Some t \<Rightarrow>
          if 120 < paragraph_words t then [pd_url p @ (fa '' (paragraf avl '') @ num (paragraph_words t) @ (fa '' klmh)'')] else [])"

definition check_answer_structure :: rule where
  "check_answer_structure A ctx =
     (let pages = filter (\<lambda>p. 400 \<le> pd_words p) (pages_to_index A ctx);
          headings = (\<lambda>p. map snd (filter (\<lambda>h. fst h \<in> {2, 3}) (pd_headings p)));
          no_questions = map pd_url (filter (\<lambda>p. headings p \<noteq> [] \<and>
            \<not> list_ex (re_search (QUESTION_MARKERS (ae_chars A))) (headings p)) pages);
          no_lists = map pd_url (filter (\<lambda>p. \<not> re_search (lists_or_tables (ae_chars A)) (pd_html p)) pages);
          buried_answer = concat (map (buried_entry A) pages)
      in gives (
           unless_empty no_questions (i_no_question_headings no_questions) @
           unless_empty buried_answer (i_buried_answer buried_answer) @
           (if no_lists \<noteq> [] \<and> (of_nat (length pages) * (3 / 5) :: rat) < of_nat (length no_lists)
            then [i_no_lists_or_tables no_lists] else [])))"

subsection \<open>Pages without text\<close>

definition i_client_side_rendered :: "chars list \<Rightarrow> issue" where
  "i_client_side_rendered empty_shells = make_issue
     (lit ''client-side-rendered'')
     (lit ''Content rendered only by JavaScript'')
     (fa ''mHtva fqT ba javaaskrypt rndr my_Svd'')
     (num (length empty_shells) @
       fa '' efHh dr [HTML ]avlyh tqrybaN hyC mtny ndard v mHtva bodaN ba javaaskrypt saxth '' @
       fa ''my_Svd. gvgl javaaskrypt ra ajra my_knd ama ba tIxyr v dr ef; dr mqabl, '' @
       fa ''xzndh_hay [ChatGPT ]v [Perplexity ]momvlaN javaaskrypt ajra nmy_knnd v efHh_y tv '' @
       fa ''ra xaly my_bynnd.'')
     (fa ''rndr smt srvr ([SSR) ]ya tvlyd aysta ([SSG) ]ra foal kn ta mHtvay aely dr hman '' @
       fa ''[HTML ]avlyh baSd. dr [Next.js ]v [Nuxt ]ayn Halt pyS_frE ast; bray aplykySn_hay '' @
       fa ''[React ]xale my_tvany az [prerendering ]astfadh kny.'')
     S_High C_Ai_Search empty_shells (sample 3 empty_shells) (lit ''https://developers.google.com/search/docs/crawling-indexing/javascript/javascript-seo-basics'')"

definition check_csr :: rule where
  "check_csr A ctx =
     (let empty_shells = map (\<lambda>p. pd_url p @ (lit '' ('') @ inum (pd_words p) @ (fa '' klmh dr [HTML ]avlyh)''))
            (filter (\<lambda>p. pd_words p < 50 \<and> 1 \<le> pd_external_scripts p \<and> 2000 < pd_byte_size p) (html_pages A ctx))
      in gives (unless_empty empty_shells (i_client_side_rendered empty_shells)))"

end
