(* ===== verification/Rules_Content.thy ===== *)
theory Rules_Content
  imports Audit_Model
begin

text \<open>
  \<^verbatim>\<open>src/services/engine/seoagent/rules/content.py\<close>: headings, depth, duplicates, the target keywords, stuffing
  and dates.
\<close>

definition THIN_CONTENT_WORDS :: int where "THIN_CONTENT_WORDS = 300"

definition SHALLOW_CONTENT_WORDS :: int where "SHALLOW_CONTENT_WORDS = 600"

definition DOCS_HELPFUL :: chars where
  "DOCS_HELPFUL = lit ''https://developers.google.com/search/docs/fundamentals/creating-helpful-content''"

definition DOCS_HEADINGS :: chars where
  "DOCS_HEADINGS = lit ''https://developers.google.com/search/docs/appearance/structured-data''"

subsection \<open>Headings\<close>

definition i_h1_missing :: "chars list \<Rightarrow> issue" where
  "i_h1_missing missing_h1 = make_issue
     (lit ''h1-missing'')
     (lit ''Missing H1 heading'')
     (fa ''tytr [H1 ]vjvd ndard'')
     (num (length missing_h1) @
       fa '' efHh hyC tg [H1 ]ndard. [H1 ]bh gvgl v bh karbr my_gvyd mvEvo aely efHh Cyst v '' @
       fa ''payh_y saxtar monayy efHh ast.'')
     (fa ''dr hr efHh dqyqaN yk [H1 ]bgDar kh mvEvo aely v klmh klydy hdf ra daSth baSd. '' @
       fa ''[H1 ]my_tvand kmy ba [<title> ]frq knd ta dv klmh klydy mrtbT ra pvSS bdhy.'')
     S_High C_Content missing_h1 (sample 5 missing_h1) DOCS_HEADINGS"

definition i_h1_multiple :: "chars list \<Rightarrow> issue" where
  "i_h1_multiple multiple_h1 = make_issue
     (lit ''h1-multiple'')
     (lit ''Multiple H1 headings'')
     (fa ''Cnd tytr [H1 ]dr yk efHh'')
     (num (length multiple_h1) @
       fa '' efHh byS az yk [H1 ]dard. gvgl ba Cnd [H1 ]mSkl fny ndard, ama dr oml mvEvo aely '' @
       fa ''efHh ra mbhm my_knd v momvlaN nSanh_y ayn ast kh qalb sayt az tg_hay tytr '' @
       fa ''bray astayl_dhy astfadh my_knd nh bray saxtar.'')
     (fa ''yk [H1 ]bray mvEvo aely ngh dar v bqyh ra bh [H2 ]tbdyl kn.'')
     S_Low C_Content multiple_h1 (sample 3 multiple_h1) DOCS_HEADINGS"

definition i_h1_empty :: "chars list \<Rightarrow> issue" where
  "i_h1_empty empty_h1 = make_issue
     (lit ''h1-empty'')
     (lit ''Empty H1'')
     (fa ''tytr [H1 ]xaly ast'')
     (num (length empty_h1) @
       fa '' efHh [H1 ]xaly ya tqrybaN xaly dard (momvlaN [H1 ]fqT Saml lvgv).'')
     (fa ''mtn vaqoy daxl [H1 ]bgDar. agr lvgv daxl [H1 ]ast, Hdaql mtn jaygzyn ([alt) ]'' @
       fa ''monadar bdh v bray onvan mHtva yk [H1 ]mtny jda dr nZr bgyr.'')
     S_Medium C_Content empty_h1 (sample 3 empty_h1) DOCS_HEADINGS"

definition i_heading_order :: "chars list \<Rightarrow> issue" where
  "i_heading_order broken_order = make_issue
     (lit ''heading-order'')
     (lit ''Skipped heading levels'')
     (fa ''trtyb tytrha prS dard'')
     (fa ''dr '' @
       num (length broken_order) @
       fa '' efHh sTH tytrha prS dard (mclaN bod az [H2 ]mstqym [H4 ]Amdh). ayn saxtar monayy '' @
       fa ''efHh ra bray gvgl v bray efHh_xvan_ha mbhm my_knd.'')
     (fa ''tytrha ra pSt sr hm v bdvn prS astfadh kn: [H1 ]^ [H2 ]^ [H3. ]bray bzrg/kvCk krdn '' @
       fa ''andazh_y mtn az [CSS ]astfadh kn, nh az tGyyr sTH tytr.'')
     S_Low C_Content broken_order (sample 3 broken_order) DOCS_HEADINGS"

definition i_no_subheadings :: "chars list \<Rightarrow> issue" where
  "i_no_subheadings no_subheads = make_issue
     (lit ''no-subheadings'')
     (lit ''Long content without subheadings'')
     (fa ''mHtvay Tvlany bdvn zyrtytr'')
     (num (length no_subheads) @
       fa '' efHh_y Tvlany hyC [H2 ]ndard. gvgl bray antxab pasx dr [AI Overviews ]v '' @
       fa ''asnypt_hay vyJh, mHtva ra bh <pasaJ> tqsym my_knd v zyrtytrha mrz ayn pasaJha '' @
       fa ''hstnd. bdvn An_ha Sans dydh_Sdn dr ayn bxS_ha km my_Svd.'')
     (fa ''mtn ra ba [H2 ]bh bxS_hay mvEvoy bSkn v hr zyrtytr ra bh Skl yk sVal ya yk '' @
       fa ''obart klydy mrtbT bnvys.'')
     S_Medium C_Ai_Search no_subheads (sample 3 no_subheads) DOCS_HELPFUL"

text \<open>The first step of the outline that skips a level.\<close>

fun first_jump :: "int list \<Rightarrow> (int \<times> int) option" where
  "first_jump (a # b # ls) = (if 1 < b - a then Some (a, b) else first_jump (b # ls))"
| "first_jump _ = None"

definition jump_entry :: "page_data \<Rightarrow> chars list" where
  "jump_entry p =
     (case first_jump (map fst (pd_headings p)) of
        None \<Rightarrow> [] | Some (a, b) \<Rightarrow> [pd_url p @ (lit '' (H'') @ inum a @ (fa '' ^ [H]'') @ inum b @ (lit '')'')])"

definition check_headings :: rule where
  "check_headings A ctx =
     (let pages = pages_to_index A ctx;
          missing_h1 = map pd_url (filter (\<lambda>p. h1s p = []) pages);
          multiple_h1 = map (\<lambda>p. pd_url p @ (lit '' ('') @ num (length (h1s p)) @ (fa '' ta [H1)]'')) (filter (\<lambda>p. 1 < length (h1s p)) pages);
          empty_h1 = map pd_url (filter (\<lambda>p. length (h1s p) = 1 \<and> length (strip_white (hd (h1s p))) < 3) pages);
          broken_order = concat (map jump_entry pages);
          no_subheads = map (\<lambda>p. pd_url p @ (lit '' ('') @ inum (pd_words p) @ (fa '' klmh, bdvn [H2)]''))
            (filter (\<lambda>p. SHALLOW_CONTENT_WORDS < pd_words p \<and> \<not> list_ex (\<lambda>h. fst h = 2) (pd_headings p)) pages)
      in gives (
           unless_empty missing_h1 (i_h1_missing missing_h1) @
           unless_empty multiple_h1 (i_h1_multiple multiple_h1) @
           unless_empty empty_h1 (i_h1_empty empty_h1) @
           unless_empty broken_order (i_heading_order broken_order) @
           unless_empty no_subheads (i_no_subheadings no_subheads)))"

subsection \<open>Depth and duplicates\<close>

definition i_thin_content :: "chars list \<Rightarrow> issue" where
  "i_thin_content thin = make_issue
     (lit ''thin-content'')
     (lit ''Thin content'')
     (fa ''mHtvay km_omq'')
     (num (length thin) @
       fa '' efHh kmtr az '' @
       inum THIN_CONTENT_WORDS @
       fa '' klmh mHtvay aely dard. systm <mHtvay mfyd> gvgl kh az sal 2024 daxl algvrytm '' @
       fa ''aely adGam Sdh, efHaty ra kh arzS afzvdh_y kafy ndarnd payyn my_Avrd ~ v '' @
       fa ''efHat km_arzS zyad, rtbh_y kl damnh ra hm payyn my_kSd.'')
     (fa ''bray hr efHh temym bgyr: ya mHtva ra omyq kn (tjrbh_y dst_avl, dadh, mcal, '' @
       fa ''tevyr axteaey, prsS_hay vaqoy karbr), ya efHh ra ba 301 bh efHh_y jamo_tr '' @
       fa ''adGam kn, ya agr erfaN karbrdy ast (mcl efHh tmas) ba [noindex ]az ayndks xarjS '' @
       fa ''kn.'')
     S_High C_Content thin (sample 5 thin) DOCS_HELPFUL"

definition i_shallow_content :: "chars list \<Rightarrow> issue" where
  "i_shallow_content shallow = make_issue
     (lit ''shallow-content'')
     (lit ''Content could be more comprehensive'')
     (fa ''mHtva my_tvand jamo_tr baSd'')
     (num (length shallow) @
       fa '' efHh byn '' @
       inum THIN_CONTENT_WORDS @
       fa '' ta '' @
       inum SHALLOW_CONTENT_WORDS @
       fa '' klmh dard. ayn Hjm bray mvEvoat sadh kafy ast, ama bray klmat klydy rqabty '' @
       fa ''momvlaN km ast.'')
     (fa ''ntayj efHh avl gvgl bray klmh klydy hdf ra bbyn v zyrmvEvo_hayy kh An_ha pvSS '' @
       fa ''dadh_and v tv ndadh_ay ra aEafh kn.'')
     S_Low C_Content shallow (sample 3 shallow) DOCS_HELPFUL"

definition with_words :: "page_data \<Rightarrow> chars" where
  "with_words p = pd_url p @ (lit '' ('') @ inum (pd_words p) @ (fa '' klmh)'')"

definition check_content_depth :: rule where
  "check_content_depth A ctx =
     (let pages = pages_to_index A ctx;
          thin = map with_words (filter (\<lambda>p. pd_words p < THIN_CONTENT_WORDS) pages);
          shallow = map with_words (filter (\<lambda>p. \<not> pd_words p < THIN_CONTENT_WORDS \<and> pd_words p < SHALLOW_CONTENT_WORDS) pages)
      in gives (
           unless_empty thin (i_thin_content thin) @
           unless_empty shallow (i_shallow_content shallow)))"

definition i_duplicate_content :: "'a list \<Rightarrow> chars list \<Rightarrow> chars list \<Rightarrow> issue" where
  "i_duplicate_content duplicates flat example = make_issue
     (lit ''duplicate-content'')
     (lit ''Duplicate page content'')
     (fa ''mHtvay kamlaN tkrary'')
     (num (length duplicates) @
       fa '' grvh az efHat mHtvay mtny yksan darnd (mjmvoaN '' @
       num (length flat) @
       fa '' efHh). gvgl fqT yky az An_ha ra ayndks my_knd v bqyh bvdjh_y xzS ra '' @
       fa ''my_svzannd.'')
     (fa ''nsxh_y aely ra antxab kn v bqyh ra ba [rel=canonical ]bh An aSarh bdh, ya agr '' @
       fa ''Adrs dygry lazm nyst ba rydayrkt 301 bh nsxh_y aely mntqlSan kn.'')
     S_High C_Indexing flat (fa ''mcal: '' @
       sample 3 example) (lit ''https://developers.google.com/search/docs/crawling-indexing/consolidate-duplicate-urls'')"

definition check_duplicate_content :: rule where
  "check_duplicate_content A ctx =
     (let duplicates = repeated (groups (map (\<lambda>p. (pd_content_hash p, pd_url p))
            (filter (\<lambda>p. 100 \<le> pd_words p \<and> pd_content_hash p \<noteq> []) (pages_to_index A ctx))));
          flat = concat (map snd duplicates)
      in gives (case duplicates of [] \<Rightarrow> [] | (h, example) # _ \<Rightarrow> [i_duplicate_content duplicates flat example]))"

subsection \<open>Target keywords\<close>

definition i_keyword_absent :: "chars \<Rightarrow> chars \<Rightarrow> 'a list \<Rightarrow> chars \<Rightarrow> issue" where
  "i_keyword_absent code keyword pages start_url = make_issue
     (lit ''keyword-absent-'' @
       code)
     (lit ''Target keyword not found: '' @
       keyword)
     (fa ''klmh klydy hdf dr sayt pyda nSd: <'' @
       keyword @
       fa ''>'')
     (fa ''hyC_kdam az '' @
       num (length pages) @
       fa '' efHh_y brrsy_Sdh obart <'' @
       keyword @
       fa ''> ra dr mtn aely ndarnd. bdvn vjvd obart hdf (ya mtradf_hay nzdyk An) dr '' @
       fa ''mHtva, rtbh grftn bray An omlaN mmkn nyst.'')
     (fa ''yk efHh_y axteaey bray <'' @
       keyword @
       fa ''> bsaz kh ayn obart dr onvan, [H1], paragraf avl v Adrs efHh byayd, v az efHat '' @
       fa ''mrtbT dygr ba hmyn ankrtkst bh An lynk bdh.'')
     S_High C_Content [start_url] [] DOCS_HELPFUL"

definition i_keyword_weak :: "chars \<Rightarrow> chars \<Rightarrow> chars list \<Rightarrow> issue" where
  "i_keyword_weak code keyword in_body = make_issue
     (lit ''keyword-weak-'' @
       code)
     (lit ''Target keyword not in title or H1: '' @
       keyword)
     (fa ''<'' @
       keyword @
       fa ''> dr hyC onvan ya [H1 ]nyst'')
     (fa ''obart <'' @
       keyword @
       fa ''> dr mtn '' @
       num (length in_body) @
       fa '' efHh Amdh, vly dr hyC [<title> ]ya [H1 ]nyst. ayn yony hyC efHh_ay bh_rvSny xvdS '' @
       fa ''ra bh_onvan pasx ayn jstjv morfy nkrdh ast.'')
     (fa ''efHh_ay kh byStryn artbaT ra ba <'' @
       keyword @
       fa ''> dard bh_onvan efHh_y hdf antxab kn v ayn obart ra dr abtday [<title> ]v daxl '' @
       fa ''[H1 ]An byavr.'')
     S_Medium C_Content (take 20 in_body) (sample 3 in_body) DOCS_HELPFUL"

definition i_keyword_cannibal :: "chars \<Rightarrow> chars \<Rightarrow> chars list \<Rightarrow> issue" where
  "i_keyword_cannibal code keyword in_title = make_issue
     (lit ''keyword-cannibal-'' @
       code)
     (lit ''Keyword cannibalisation: '' @
       keyword)
     (fa ''hm_nvo_xvary klmh klydy: <'' @
       keyword @
       fa ''>'')
     (num (length in_title) @
       fa '' efHh obart <'' @
       keyword @
       fa ''> ra dr [<title> ]xvd darnd. ayn efHat ba hm rqabt my_knnd, qdrt lynk_ha '' @
       fa ''byn_San tqsym my_Svd v gvgl mdam byn An_ha jabh_ja my_Svd.'')
     (fa ''yk efHh ra bh_onvan efHh_y aely ayn klmh klydy antxab kn, bqyh ra rvy '' @
       fa ''obart_hay blndtr v dqyq_tr baztoryf kn v az An_ha bh efHh_y aely lynk daxly '' @
       fa ''bdh.'')
     S_Medium C_Content in_title (sample 4 in_title) DOCS_HELPFUL"

definition keyword_issues :: "audit_env \<Rightarrow> chars \<Rightarrow> page_data list \<Rightarrow> chars \<Rightarrow> issue list" where
  "keyword_issues A start_url pages keyword =
     (let kw = low A (strip_white keyword) in
      if kw = [] then []
      else
        (let code = inum (\<bar>ae_hash A kw\<bar> mod 1000000);
             in_title = map pd_url (filter (\<lambda>p. sublist kw (low A (given (pd_title p)))) pages);
             in_h1 = map pd_url (filter (\<lambda>p. list_ex (\<lambda>h. sublist kw (low A h)) (h1s p)) pages);
             in_body = map pd_url (filter (\<lambda>p. sublist kw (low A (pd_text p))) pages)
         in if in_body = [] then [i_keyword_absent code keyword pages start_url]
            else (if in_title = [] \<and> in_h1 = [] then [i_keyword_weak code keyword in_body] else []) @
                 (if 1 < length in_title then [i_keyword_cannibal code keyword in_title] else [])))"

definition check_keyword_usage :: rule where
  "check_keyword_usage A ctx =
     (let pages = pages_to_index A ctx in
      if pages = [] then gives []
      else gives (concat (map (keyword_issues A (sc_start_url ctx) pages) (take 10 (sc_target_keywords ctx)))))"

definition i_keyword_stuffing :: "chars list \<Rightarrow> issue" where
  "i_keyword_stuffing offenders = make_issue
     (lit ''keyword-stuffing'')
     (lit ''Possible keyword stuffing'')
     (fa ''aHtmal anbaSt klmh klydy'')
     (fa ''dr '' @
       num (length offenders) @
       fa '' efHh yk obart byS az 6% kl klmat ra tSkyl my_dhd. tkrar GyrTbyoy klmh klydy '' @
       fa ''dr syast_hay aspm gvgl eraHtaN Dkr Sdh v my_tvand mnjr bh aqdam dsty ([manual ]'' @
       fa ''[action) ]Svd.'')
     (fa ''mtn ra Tbyoy baznvysy kn v bh_jay tkrar oyn obart, az mtradf_ha, aeTlaHat '' @
       fa ''mrtbT v mvjvdyt_hay hm_xanvadh astfadh kn. gvgl sal_hast mona ra my_fhmd v '' @
       fa ''nyazy bh tkrar oyny nyst.'')
     S_High C_Content offenders (sample 3 offenders) (lit ''https://developers.google.com/search/docs/essentials/spam-policies'')"

definition word_run :: "charset \<Rightarrow> regex" where
  "word_run C =
     (let w = One (\<lambda>c. cs_word C c \<or> 0x600 \<le> c \<and> c \<le> 0x6FF \<or> c = 39) in Seq (seq (replicate 3 w)) (Many w))"

definition stopish :: "charset \<Rightarrow> regex" where
  "stopish C = seq [at_start, some (One (\<lambda>c. \<not> cs_word C c \<or> cs_digit C c \<or> c = 95)), at_end]"

definition stuffed_entry :: "audit_env \<Rightarrow> page_data \<Rightarrow> chars list" where
  "stuffed_entry A p =
     (if pd_words p < 150 then []
      else
        (let ws = re_findall (word_run (ae_chars A)) (low A (pd_text p)) in
         if length ws < 80 then []
         else case most_common 1 (counter ws) of
                [] \<Rightarrow> []
              | (term, hits) # _ \<Rightarrow>
                  (let density = (of_nat hits / of_nat (length ws) :: rat) in
                   if \<not> re_match (stopish (ae_chars A)) term \<and> 6 / 100 < density \<and> 15 \<le> hits
                   then [pd_url p @ (fa '' (<'') @ term @ (fa ''> '') @ one_decimal (density * 100) @ (fa ''% az mtn)'')] else [])))"

definition check_keyword_stuffing :: rule where
  "check_keyword_stuffing A ctx =
     (let offenders = concat (map (stuffed_entry A) (pages_to_index A ctx))
      in gives (unless_empty offenders (i_keyword_stuffing offenders)))"

subsection \<open>Dates\<close>

definition i_no_publish_date :: "chars list \<Rightarrow> issue" where
  "i_no_publish_date undated = make_issue
     (lit ''no-publish-date'')
     (lit ''Articles without a visible date'')
     (fa ''mqalat bdvn taryx antSar'')
     (num (length undated) @
       fa '' efHh_y mHtvayy hyC taryx antSar ya bh_rvzrsany maSyn_xvany ndard. gvgl bray '' @
       fa ''mvEvoaty kh tazgy ahmyt dard (axbar, qymt, nsxh_y nrm_afzar, qvanyn) bh taryx '' @
       fa ''ngah my_knd, v nbvdi taryx yky az sygnal_hay Eof aotmad ast.'')
     (fa ''taryx antSar ra hm bh_evrt mtny bray karbr nmayS bdh v hm dr dadh '' @
       fa ''saxtaryafth_y [Article ]ba fyldhay [datePublished ]v [dateModified ]qrar bdh. taryx '' @
       fa ''ra fqT vqty bh_rvz kn kh vaqoaN mHtva ra tGyyr dadh_ay.'')
     S_Medium C_Eeat undated (sample 4 undated) (lit ''https://developers.google.com/search/docs/appearance/publication-dates'')"

definition check_freshness :: rule where
  "check_freshness A ctx =
     (let undated = map pd_url (filter (\<lambda>p. 400 \<le> pd_words p \<and>
            \<not> sublist (lit ''<time'') (low A (pd_html p)) \<and>
            \<not> list_ex (\<lambda>k. sublist (lit k) (low A (pd_html p))) [''article:published_time'', ''datepublished'', ''datemodified''])
            (pages_to_index A ctx))
      in gives (unless_empty undated (i_no_publish_date undated)))"

end
