(* ===== verification/Rules_Eeat.thy ===== *)
theory Rules_Eeat
  imports Audit_Model
begin

text \<open>
  \<^verbatim>\<open>src/services/engine/seoagent/rules/eeat.py\<close>: trust pages, authors, citations, social profiles and
  security.txt.
\<close>

definition DOCS_EEAT :: chars where
  "DOCS_EEAT = lit ''https://developers.google.com/search/docs/fundamentals/creating-helpful-content''"

subsection \<open>Trust pages\<close>

text \<open>Words with an optional dash, underscore or space between them.\<close>

definition spelled :: "charset \<Rightarrow> chars list \<Rightarrow> regex" where
  "spelled C ws =
     (case map (text_like C) ws of
        [] \<Rightarrow> Eps | r # rs \<Rightarrow> Seq r (seq (map (\<lambda>q. Seq (maybe (one_of (lit ''-_ ''))) q) rs)))"

definition TRUST_PAGE_PATTERNS :: "charset \<Rightarrow> (string \<times> regex \<times> chars \<times> chars) list" where
  "TRUST_PAGE_PATTERNS C =
     [(''about'',
       alts [spelled C [(fa ''drbarh''), (fa ''ma'')], spelled C [(fa ''drbarh'')], spelled C [lit ''about'', lit ''us''], spelled C [lit ''about''],
             spelled C [lit ''who'', lit ''we'', lit ''are''], spelled C [(fa ''morfy'')]],
       fa ''efHh_y <drbarh ma>'',
       fa ''yk efHh_y <drbarh ma> bnvys kh bgvyd Ch ksy pSt ayn sayt ast, Ch sabqh_ay '' @
       fa ''dard, v Cra dr ayn Hvzh elaHyt dard. asm vaqoy, oks vaqoy v sabqh_y mSxe '' @
       fa ''bnvys.''),
      (''contact'',
       alts [spelled C [(fa ''tmas'')], spelled C [(fa ''artbaT''), (fa ''ba''), (fa ''ma'')], spelled C [lit ''contact''], spelled C [(fa ''pStybany'')],
             spelled C [lit ''support'']],
       fa ''efHh_y <tmas ba ma>'',
       fa ''yk efHh_y tmas ba rah artbaTy vaqoy bgDar: Adrs fyzyky, tlfn, aymyl v frm '' @
       fa ''tmas. bray sayt_hay frvSgahy v maly ayn efHh az ngah gvgl alzamy ast.''),
      (''privacy'',
       alts [spelled C [(fa ''Hrym''), (fa ''xevey'')], spelled C [lit ''privacy''], spelled C [lit ''policy''], spelled C [(fa ''qvanyn'')],
             spelled C [lit ''terms''], spelled C [(fa ''SrayT'')]],
       fa ''efHh_y <Hrym xevey> ya <qvanyn>'',
       fa ''efHh_y Hrym xevey v SrayT astfadh aEafh kn v az fvtr bh An_ha lynk bdh.'')]"

definition i_missing_page :: "chars \<Rightarrow> chars \<Rightarrow> chars \<Rightarrow> severity \<Rightarrow> chars \<Rightarrow> issue" where
  "i_missing_page key label remedy severity start_url = make_issue
     (lit ''missing-'' @
       key @
       lit ''-page'')
     (lit ''No '' @
       key @
       lit '' page found'')
     (label @
       fa '' pyda nSd'')
     (fa ''dr xzS sayt hyC lynky bh '' @
       label @
       fa '' pyda nSd. gvgl dr dstvraloml arzyaban kyfyt eraHtaN my_gvyd nbvdi aTlaoat '' @
       fa ''drbarh_y eaHb sayt v rah tmas, nSanh_y sayt km_aotmad ast ~ v bray sayt_hay '' @
       fa ''Hvzh_y pvl v slamt ([YMYL) ]ayn mvrd toyyn_knndh ast.'')
     remedy
     severity C_Eeat [start_url] [] DOCS_EEAT"

text \<open>Every address and every internal link seen in the crawl.\<close>

definition haystack :: "audit_env \<Rightarrow> site_context \<Rightarrow> chars" where
  "haystack A ctx =
     joined (lit '' '') (map pd_url (sc_pages ctx)) @
     concat (map (\<lambda>p. lit '' '' @ joined (lit '' '')
                        (map (\<lambda>l. lk_href l @ lit '' '' @ lk_anchor l) (filter lk_internal (pd_links p)))) (html_pages A ctx))"

definition check_trust_pages :: rule where
  "check_trust_pages A ctx =
     gives (
       if html_pages A ctx = [] then []
       else concat (map (\<lambda>(key, pattern, label, remedy).
              if re_search pattern (haystack A ctx) then []
              else [i_missing_page (lit key) label remedy (if key \<in> {''about'', ''contact''} then S_Medium else S_Low)
                      (sc_start_url ctx)])
            (TRUST_PAGE_PATTERNS (ae_chars A))))"

subsection \<open>Authors and citations\<close>

definition AUTHOR_MARKERS :: "charset \<Rightarrow> regex" where
  "AUTHOR_MARKERS C =
     (let word = text_like C; quote = one_of [34, 39]; gap = some (One is_white) in
      alts [seq [word (lit ''rel=''), quote, word (lit ''author'')],
            seq [word (lit ''itemprop=''), quote, word (lit ''author'')],
            seq [word (lit ''class=''), quote, Many (none_of [34, 39]), word (lit ''author'')],
            seq [word (fa ''[$author$]''), spaces, word (lit '':'')],
            word (fa ''nvysndh''),
            seq [word (fa ''nvSth''), maybe (one_of [0x200C, 32]), word (fa ''y'')],
            seq [word (lit ''written''), gap, word (lit ''by'')],
            seq [word (lit ''by''), gap, like_range C 65 90, some (like_range C 97 122)]])"

definition i_no_author_byline :: "chars list \<Rightarrow> 'a list \<Rightarrow> issue" where
  "i_no_author_byline without_author content_pages = make_issue
     (lit ''no-author-byline'')
     (lit ''Content without an author byline'')
     (fa ''mHtva bdvn nam nvysndh'')
     (num (length without_author) @
       fa '' efHh_y mHtvayy az '' @
       num (length content_pages) @
       fa '' efHh hyC nSanh_ay az nvysndh ndard. Hrf [E ]avl dr [E-E-A-T ]yony <tjrbh>: gvgl '' @
       fa ''my_xvahd bdand Ch ksy ayn ra nvSth v Ch tjrbh_y dst_avly daSth. mHtvay by_nam '' @
       fa ''az ngah gvgl bh mHtvay anbvh tvlydSdh Sbyh ast.'')
     (fa ''zyr onvan hr mqalh nam nvysndh ra ba lynk bh efHh_y prvfayl av bgDar. efHh_y '' @
       fa ''prvfayl bayd sabqh, txee v rah artbaTy daSth baSd. hmyn ra dr dadh '' @
       fa ''saxtaryafth_y [Article ]hm ba fyld [author ]az nvo [Person ]tkrar kn.'')
     S_Medium C_Eeat without_author (sample 4 without_author) DOCS_EEAT"

definition check_authorship :: rule where
  "check_authorship A ctx =
     (let content_pages = filter (\<lambda>p. 500 \<le> pd_words p) (pages_to_index A ctx);
          without_author = map pd_url (filter (\<lambda>p. \<not> re_search (AUTHOR_MARKERS (ae_chars A)) (pd_html p)) content_pages)
      in gives (
           if length content_pages < 2 then []
           else if (max 2 (of_nat (length content_pages) * (1 / 2)) :: rat) \<le> of_nat (length without_author)
           then [i_no_author_byline without_author content_pages] else []))"

definition i_no_external_citations :: "chars list \<Rightarrow> issue" where
  "i_no_external_citations uncited = make_issue
     (lit ''no-external-citations'')
     (lit ''Long content with no outbound citations'')
     (fa ''mHtvay Tvlany bdvn arjao bh mnbo'')
     (num (length uncited) @
       fa '' efHh_y Tvlany hyC lynk xarjy ndard. arjao bh mnabo motbr yky az rvSn_tryn '' @
       fa ''sygnal_hay aotbar ([Authoritativeness) ]ast v brxlaf tevr rayj, lynk xrvjy bh '' @
       fa ''mnbo xvb bh rtbh_y tv Asyb nmy_znd.'')
     (fa ''adoahay Amary v fny ra bh mnbo aely (mTaloh, mstndat rsmy, nhad motbr) lynk '' @
       fa ''bdh. dv ta Char arjao motbr dr hr mqalh_y blnd kafy ast.'')
     S_Low C_Eeat uncited (sample 3 uncited) DOCS_EEAT"

definition check_citations :: rule where
  "check_citations A ctx =
     (let long_pages = filter (\<lambda>p. 700 \<le> pd_words p) (pages_to_index A ctx);
          uncited = map pd_url (filter (\<lambda>p. list_all lk_internal (pd_links p)) long_pages)
      in gives (
           if length long_pages < 2 then []
           else if (max 2 (of_nat (length long_pages) * (3 / 5)) :: rat) \<le> of_nat (length uncited)
           then [i_no_external_citations uncited] else []))"

subsection \<open>Profiles and security.txt\<close>

definition i_no_social_profiles :: "chars \<Rightarrow> issue" where
  "i_no_social_profiles start_url = make_issue
     (lit ''no-social-profiles'')
     (lit ''No links to social profiles'')
     (fa ''lynky bh Sbkh_hay ajtmaoy vjvd ndard'')
     (fa ''hyC lynky bh prvfayl_hay Sbkh_hay ajtmaoy pyda nSd. ayn prvfayl_ha bxSy az '' @
       fa ''hvyt qabl tIyyd brnd hstnd v gvgl az An_ha (bh_xeve az Tryq fyld [sameAs ]dr '' @
       fa ''nSanh_gDary [Organization) ]bray ateal sayt bh mvjvdyt brnd astfadh my_knd.'')
     (fa ''lynk Sbkh_hay ajtmaoy foal ra dr fvtr bgDar v hman Adrs_ha ra dr Arayh_y '' @
       fa ''[sameAs ]daxl nSanh_gDary [Organization ]tkrar kn.'')
     S_Low C_Eeat [start_url] [] DOCS_EEAT"

definition social_domains :: "string list" where
  "social_domains = [''instagram.com'', ''linkedin.com'', ''twitter.com'', ''x.com'', ''t.me'', ''telegram'',
     ''youtube.com'', ''facebook.com'', ''aparat.com'', ''github.com'', ''virgool.io'']"

definition social_link :: "audit_env \<Rightarrow> link_ref \<Rightarrow> bool" where
  "social_link A l \<longleftrightarrow> \<not> lk_internal l \<and> list_ex (\<lambda>d. sublist (lit d) (low A (lk_href l))) social_domains"

definition check_social_profiles :: rule where
  "check_social_profiles A ctx =
     gives (
       if html_pages A ctx = [] \<or> list_ex (\<lambda>p. list_ex (social_link A) (pd_links p)) (html_pages A ctx) then []
       else [i_no_social_profiles (sc_start_url ctx)])"

definition i_no_security_txt :: "chars \<Rightarrow> issue" where
  "i_no_security_txt start_url = make_issue
     (lit ''no-security-txt'')
     (lit ''No security.txt'')
     (fa ''fayl [security.txt ]vjvd ndard'')
     (fa ''fayl /.[well-known/security.txt ]vjvd ndard. ayn yk astandard kvCk ([RFC 9116) ]'' @
       fa ''ast kh rah gzarS Asyb_pDyry amnyty ra mSxe my_knd; yky az nSanh_hay blvG v '' @
       fa ''aotmad yk sayt ast.'')
     (fa ''yk fayl sadh dr /.[well-known/security.txt ]bgDar kh Saml [Contact ]v [Expires ]'' @
       fa ''baSd.'')
     S_Info C_Eeat [start_url] [] (lit ''https://securitytxt.org/'')"

definition check_security_txt :: rule where
  "check_security_txt A ctx = gives (if sc_security_txt_found ctx then [] else [i_no_security_txt (sc_start_url ctx)])"

end
