(* ===== verification/Rules_Images.thy ===== *)
theory Rules_Images
  imports Audit_Model
begin

text \<open>
  \<^verbatim>\<open>src/services/engine/seoagent/rules/images.py\<close>: alternative texts, layout shift, lazy loading, formats and
  names of images.
\<close>

definition MODERN_FORMATS :: "chars list" where
  "MODERN_FORMATS = map lit [''.webp'', ''.avif'', ''.svg'']"

definition LEGACY_FORMATS :: "chars list" where
  "LEGACY_FORMATS = map lit [''.jpg'', ''.jpeg'', ''.png'', ''.gif'', ''.bmp'']"

definition DOCS_IMAGES :: chars where
  "DOCS_IMAGES = lit ''https://developers.google.com/search/docs/appearance/google-images''"

subsection \<open>Alternative texts\<close>

definition i_image_alt_missing :: "chars list \<Rightarrow> issue" where
  "i_image_alt_missing missing = make_issue
     (lit ''image-alt-missing'')
     (lit ''Images without alt text'')
     (fa ''teavyr bdvn mtn jaygzyn ([alt)]'')
     (fa ''dr '' @
       num (length missing) @
       fa '' efHh teavyry bdvn vyJgy [alt ]vjvd dard. [alt ]hm bray rtbh_grftn dr jstjvy '' @
       fa ''teavyr gvgl lazm ast, hm bray karbran efHh_xvan, v hm bh gvgl kmk my_knd '' @
       fa ''mvEvo efHh ra bhtr bfhmd.'')
     (fa ''bray hr tevyr monadar yk [alt ]tveyfy bnvys kh vaqoaN mHtvay tevyr ra tvEyH '' @
       fa ''bdhd (nh fqT klmh klydy). bray teavyr erfaN tzYyny [`alt=$$` ]xaly bgDar ta '' @
       fa ''efHh_xvan rdSan knd.'')
     S_Medium C_Images missing (sample 4 missing) DOCS_IMAGES"

definition i_image_alt_too_long :: "chars list \<Rightarrow> issue" where
  "i_image_alt_too_long stuffed = make_issue
     (lit ''image-alt-too-long'')
     (lit ''Alt text too long'')
     (fa ''mtn jaygzyn byS az Hd blnd'')
     (num (length stuffed) @
       fa '' efHh tevyry ba [alt ]blndtr az 125 karaktr dard. [alt ]xyly blnd momvlaN yony '' @
       fa ''daxlS klmh klydy Cpandh Sdh kh medaq aspm ast.'')
     (fa ''[alt ]ra bh yk jmlh_y kvtah v tveyfy kvtah kn. agr tvEyH mfel lazm ast, An ra '' @
       fa ''dr kpSn tevyr ya mtn aTraf byavr.'')
     S_Low C_Images stuffed (sample 3 stuffed) DOCS_IMAGES"

definition alt_missing_entry :: "page_data \<Rightarrow> chars list" where
  "alt_missing_entry p =
     (let n = length (filter (\<lambda>i. im_alt i = None) (pd_images p)) in
      if n = 0 then []
      else [pd_url p @ (lit '' ('') @ num n @ (fa '' az '') @ num (length (pd_images p)) @ (fa '' tevyr)'')])"

definition alt_stuffed_entry :: "page_data \<Rightarrow> chars list" where
  "alt_stuffed_entry p =
     (case filter (\<lambda>i. 125 < length (given (im_alt i))) (pd_images p) of
        [] \<Rightarrow> [] | i # _ \<Rightarrow> [pd_url p @ (lit '' ('') @ num (length (given (im_alt i))) @ (fa '' karaktr [alt)]'')])"

definition check_alt_text :: rule where
  "check_alt_text A ctx =
     (let missing = concat (map alt_missing_entry (html_pages A ctx));
          stuffed = concat (map alt_stuffed_entry (html_pages A ctx))
      in gives (
           unless_empty missing (i_image_alt_missing missing) @
           unless_empty stuffed (i_image_alt_too_long stuffed)))"

subsection \<open>Layout shift and lazy loading\<close>

definition i_image_no_dimensions :: "chars list \<Rightarrow> issue" where
  "i_image_no_dimensions offenders = make_issue
     (lit ''image-no-dimensions'')
     (lit ''Images without width/height'')
     (fa ''teavyr bdvn toyyn orE v artfao'')
     (fa ''dr '' @
       num (length offenders) @
       fa '' efHh teavyry bdvn vyJgy [width ]v [height ]vjvd dard. mrvrgr ta vqty tevyr '' @
       fa ''danlvd nSdh nmy_dand Cqdr ja bgyrd, ps bod az bargDary mHtva jabh_ja my_Svd. '' @
       fa ''ayn mstqym_tryn dlyl bd Sdn moyar [CLS ]ast kh yky az sh [Core Web Vital ]ast.'')
     (fa ''rvy hr tg [img ]mqadyr [width ]v [height ]vaqoy ra bnvys v dr [CSS `height: auto` ]'' @
       fa ''bgDar ta nsbt tevyr HfZ Svd. mrvrgr az ayn dv odd fEay lazm ra az qbl rzrv '' @
       fa ''my_knd.'')
     S_Medium C_Performance offenders (sample 4 offenders) (lit ''https://web.dev/articles/cls'')"

definition undimensioned :: "audit_env \<Rightarrow> page_data \<Rightarrow> image_ref list" where
  "undimensioned A p =
     filter (\<lambda>i. im_src i \<noteq> [] \<and> (given (im_width i) = [] \<or> given (im_height i) = []) \<and>
                 \<not> suffix (lit ''.svg'') (low A (im_src i))) (pd_images p)"

definition check_layout_shift :: rule where
  "check_layout_shift A ctx =
     (let offenders = map (\<lambda>p. pd_url p @ (lit '' ('') @ num (length (undimensioned A p)) @ (fa '' tevyr bdvn aboad)''))
            (filter (\<lambda>p. undimensioned A p \<noteq> []) (html_pages A ctx))
      in gives (unless_empty offenders (i_image_no_dimensions offenders)))"

definition i_lcp_image_lazy :: "chars list \<Rightarrow> issue" where
  "i_lcp_image_lazy lcp_lazy = make_issue
     (lit ''lcp-image-lazy'')
     (lit ''Above-the-fold image is lazy-loaded'')
     (fa ''tevyr balay efHh [lazy ]bargDary my_Svd'')
     (num (length lcp_lazy) @
       fa '' efHh tevyr abtday efHh ra ba [loading=$lazy$ ]bargDary my_knd. ayn tevyr '' @
       fa ''momvlaN hman oner [LCP ]ast v [lazy ]krdnS omlaN bargDary_aS ra oqb my_andazd v '' @
       fa ''[LCP ]ra bdtr my_knd ~ yony dqyqaN broks Cyzy kh my_xvasty.'')
     (fa ''bray tevyr aely balay efHh az [`loading=$eager$` ]v [`fetchpriority=$high$` ]'' @
       fa ''astfadh kn v [lazy ]ra fqT bray teavyr payyn_tr az tay efHh bgDar.'')
     S_Medium C_Performance lcp_lazy (sample 3 lcp_lazy) (lit ''https://web.dev/articles/lcp'')"

definition i_no_lazy_loading :: "chars list \<Rightarrow> issue" where
  "i_no_lazy_loading no_lazy = make_issue
     (lit ''no-lazy-loading'')
     (lit ''Below-the-fold images not lazy-loaded'')
     (fa ''teavyr payyn efHh bdvn [lazy loading]'')
     (num (length no_lazy) @
       fa '' efHh teavyr zyady dard kh hmh hm_zman bargDary my_Svnd. ayn phnay band ra '' @
       fa ''hdr my_dhd v bargDary mHtvay aely ra knd my_knd.'')
     (fa ''bh teavyr payyn_tr az tay efHh [`loading=$lazy$` ]aEafh kn.'')
     S_Low C_Performance no_lazy (sample 3 no_lazy) (lit ''https://web.dev/articles/browser-level-image-lazy-loading'')"

definition lcp_lazy_entry :: "audit_env \<Rightarrow> page_data \<Rightarrow> chars list" where
  "lcp_lazy_entry A p =
     (case filter (\<lambda>i. im_first i \<and> low A (given (im_loading i)) = lit ''lazy'') (pd_images p) of
        [] \<Rightarrow> [] | i # _ \<Rightarrow> [pd_url p @ (lit '' ('') @ take 80 (im_src i) @ (lit '')'')])"

definition below_fold :: "page_data \<Rightarrow> image_ref list" where
  "below_fold p = filter (\<lambda>i. given (im_loading i) = []) (drop 3 (pd_images p))"

definition check_lazy_loading :: rule where
  "check_lazy_loading A ctx =
     (let lcp_lazy = concat (map (lcp_lazy_entry A) (html_pages A ctx));
          no_lazy = map (\<lambda>p. pd_url p @ (lit '' ('') @ num (length (below_fold p)) @ (fa '' tevyr bdvn [lazy loading)]''))
            (filter (\<lambda>p. 5 \<le> length (below_fold p)) (html_pages A ctx))
      in gives (
           unless_empty lcp_lazy (i_lcp_image_lazy lcp_lazy) @
           unless_empty no_lazy (i_no_lazy_loading no_lazy)))"

subsection \<open>Formats and names\<close>

definition i_legacy_image_format :: "chars list \<Rightarrow> issue" where
  "i_legacy_image_format legacy_pages = make_issue
     (lit ''legacy-image-format'')
     (lit ''No modern image formats'')
     (fa ''astfadh nkrdn az frmt_hay mdrn tevyr'')
     (num (length legacy_pages) @
       fa '' efHh fqT az [jpg/png ]astfadh my_knd v hyC nsxh_y [WebP ]ya [AVIF ]araYh nmy_dhd. '' @
       fa ''ayn frmt_ha momvlaN 25 ta 50 dred Hjm kmtry ba kyfyt yksan darnd v kahS Hjm '' @
       fa ''teavyr bzrg_tryn brd mmkn rvy [LCP ]ast.'')
     (fa ''teavyr ra bh [WebP (]ya [AVIF) ]tbdyl kn v ba tg [<picture> ]nsxh_y jaygzyn [jpg ]ra '' @
       fa ''hm bray mrvrgrhay qdymy ngh dar. hmrahS az [srcset ]bray teavyr ryspansyv '' @
       fa ''astfadh kn.'')
     S_Medium C_Performance legacy_pages (sample 3 legacy_pages) (lit ''https://developer.chrome.com/docs/lighthouse/performance/uses-webp-images'')"

definition i_image_filename :: "chars list \<Rightarrow> issue" where
  "i_image_filename bad_filenames = make_issue
     (lit ''image-filename'')
     (lit ''Non-descriptive image filenames'')
     (fa ''nam fayl teavyr by_monast'')
     (num (length bad_filenames) @
       fa '' efHh tevyry ba nam fayl by_mona mcl [IMG_1234.jpg ]dard. gvgl nam fayl ra '' @
       fa ''bh_onvan yky az sygnal_hay fhm mHtvay tevyr astfadh my_knd.'')
     (fa ''nam fayl_ha ra tveyfy v ba xT tyrh bnvys: [`kafsh-varzeshi-mardane.webp` ]'' @
       fa ''bh_jay [`IMG_1234.jpg`.]'')
     S_Low C_Images bad_filenames (sample 3 bad_filenames) DOCS_IMAGES"

definition has_format :: "audit_env \<Rightarrow> chars list \<Rightarrow> image_ref \<Rightarrow> bool" where
  "has_format A formats i \<longleftrightarrow> list_ex (\<lambda>f. suffix f (until 63 (low A (im_src i)))) formats"

definition legacy_entry :: "audit_env \<Rightarrow> page_data \<Rightarrow> chars list" where
  "legacy_entry A p =
     (let legacy = filter (has_format A LEGACY_FORMATS) (pd_images p);
          modern_present = list_ex (has_format A MODERN_FORMATS) (pd_images p);
          html = low A (pd_html p);
          has_picture = (sublist (lit ''<picture'') html \<or> sublist (lit ''srcset'') html)
      in if 3 \<le> length legacy \<and> \<not> modern_present \<and> \<not> has_picture
         then [pd_url p @ (lit '' ('') @ num (length legacy) @ (fa '' tevyr [jpg/png)]'')] else [])"

definition meaningless_name :: "charset \<Rightarrow> regex" where
  "meaningless_name C = seq
     [at_start, alts (map (\<lambda>s. text_like C (lit s)) [''img'', ''image'', ''photo'', ''dsc'', ''screenshot'', ''untitled'']),
      maybe (one_of (lit ''-_ '')), Many (One (cs_digit C)), text_is (lit ''.''), some (One (cs_word C)), at_end]"

text \<open>The addresses after the first offending name are not looked at.\<close>

fun bad_filename :: "charset \<Rightarrow> image_ref list \<Rightarrow> chars option py" where
  "bad_filename C [] = Inr None"
| "bad_filename C (i # is) =
     bindE (split_text (im_src i)) (\<lambda>u.
       (let name = rev (takeWhile (\<lambda>c. c \<noteq> 47) (rev (path_of u)))
        in if re_match (meaningless_name C) name then Inr (Some name) else bad_filename C is))"

definition check_formats :: rule where
  "check_formats A ctx =
     first_of (mapE (\<lambda>p. bindE (bad_filename (ae_chars A) (pd_images p)) (\<lambda>n. Inr (p, n))) (html_pages A ctx)) (\<lambda>named.
       (let legacy_pages = concat (map (legacy_entry A) (html_pages A ctx));
            bad_filenames = concat (map (\<lambda>(p, n). case n of None \<Rightarrow> [] | Some name \<Rightarrow> [pd_url p @ (lit '' ('') @ name @ (lit '')'')]) named)
        in gives (
             unless_empty legacy_pages (i_legacy_image_format legacy_pages) @
             unless_empty bad_filenames (i_image_filename bad_filenames))))"

end
