(* ===== verification/Rules_Technical.thy ===== *)
theory Rules_Technical
  imports Audit_Model
begin

text \<open>
  \<^verbatim>\<open>src/services/engine/seoagent/rules/technical.py\<close>: status codes, redirects, HTTPS, robots.txt, sitemaps,
  viewport, addresses, language and compression.
\<close>

definition DOCS_ROBOTS :: chars where
  "DOCS_ROBOTS = lit ''https://developers.google.com/search/docs/crawling-indexing/robots/intro''"

definition DOCS_SITEMAP :: chars where
  "DOCS_SITEMAP = lit ''https://developers.google.com/search/docs/crawling-indexing/sitemaps/build-sitemap''"

definition DOCS_HTTPS :: chars where
  "DOCS_HTTPS = lit ''https://developers.google.com/search/docs/crawling-indexing/https''"

definition MAX_URL_LENGTH :: int where "MAX_URL_LENGTH = 115"

subsection \<open>Status codes and redirects\<close>

definition i_server_error :: "chars list \<Rightarrow> issue" where
  "i_server_error server_errors = make_issue
     (lit ''server-error'')
     (lit ''Server errors (5xx)'')
     (fa ''xTay srvr ([5xx)]'')
     (num (length server_errors) @
       fa '' Adrs ba xTay srvr pasx dad. gvgl efHat 5[xx ]ra az ayndks xarj my_knd v agr '' @
       fa ''adamh_dar baSd srot xzS kl sayt ra km my_knd.'')
     (fa ''lag srvr ra bray ayn Adrs_ha brrsy kn. ta vqt rfo mSkl, agr qToy mvqty ast kd '' @
       fa ''503 ba hdr [Retry-After ]brgrdan ta gvgl bodaN dvbarh tlaS knd.'')
     S_Critical C_Technical server_errors (sample 5 server_errors) (lit ''https://developers.google.com/search/docs/crawling-indexing/http-network-errors'')"

definition i_broken_internal_links :: "chars list \<Rightarrow> issue" where
  "i_broken_internal_links not_found = make_issue
     (lit ''broken-internal-links'')
     (lit ''Internal links to 404 pages'')
     (fa ''lynk daxly bh efHat 404'')
     (num (length not_found) @
       fa '' Adrs daxly kh az efHat sayt bh An_ha lynk dadh Sdh, 404 brmy_grdand. ayn hm '' @
       fa ''tjrbh_y karbr ra xrab my_knd v hm aotbar lynk daxly ra hdr my_dhd.'')
     (fa ''lynk_ha ra bh Adrs drst aelaH kn. agr efHh vaqoaN HDf Sdh v jaygzyn mrtbT '' @
       fa ''dard, ba 301 bh jaygzyn mntqlS kn; agr jaygzyny ndard 410 brgrdan v lynk_ha '' @
       fa ''ra HDf kn.'')
     S_High C_Links not_found (sample 5 not_found) (lit ''https://developers.google.com/search/docs/crawling-indexing/http-network-errors'')"

definition i_forbidden_pages :: "chars list \<Rightarrow> issue" where
  "i_forbidden_pages forbidden = make_issue
     (lit ''forbidden-pages'')
     (lit ''Pages returning 401/403'')
     (fa ''efHat ba pasx 401 ya 403'')
     (num (length forbidden) @
       fa '' Adrs dstrsy ra rd krd. agr ayn efHat bayd omvmy baSnd, gvgl hm mcl ma '' @
       fa ''nmy_tvand An_ha ra bbynd v ayndks nmy_Svnd.'')
     (fa ''tnZymat dstrsy srvr, fayrval ya [CDN ]ra brrsy kn. agr blak_krdn rbat_ha omdy '' @
       fa ''ast, mTmYn Sv [Googlebot ]dr lyst mjaz ast.'')
     S_High C_Indexing forbidden (sample 4 forbidden) DOCS_ROBOTS"

definition i_unreachable_pages :: "chars list \<Rightarrow> issue" where
  "i_unreachable_pages unreachable = make_issue
     (lit ''unreachable-pages'')
     (lit ''Unreachable URLs'')
     (fa ''Adrs_hay Gyrqabl dstrs'')
     (num (length unreachable) @
       fa '' Adrs aelaN pasx ndad (taym_avt, xTay [DNS ]ya xTay [TLS). ]ayn momvlaN yony srvr '' @
       fa ''knd ast ya gvahy [SSL ]mSkl dard.'')
     (fa ''paydary srvr v aotbar gvahy [SSL ]ra brrsy kn. taym_avt_hay mkrr baoc aft Sdyd '' @
       fa ''nrx xzS my_Svd.'')
     S_Critical C_Technical unreachable (sample 4 unreachable) []"

datatype answer_class = Unreachable | Server_Error | Not_Found | Forbidden | Answered

definition class_of_answer :: "page_data \<Rightarrow> answer_class" where
  "class_of_answer p =
     (if given (pd_error p) \<noteq> [] then Unreachable
      else if 500 \<le> pd_status p then Server_Error
      else if pd_status p \<in> {404, 410} then Not_Found
      else if pd_status p \<in> {401, 403} then Forbidden else Answered)"

definition with_status :: "page_data \<Rightarrow> chars" where
  "with_status p = pd_url p @ (lit '' ('') @ inum (pd_status p) @ (lit '')'')"

definition with_error :: "page_data \<Rightarrow> chars" where
  "with_error p = pd_url p @ (lit '' ('') @ given (pd_error p) @ (lit '')'')"

definition check_status_codes :: rule where
  "check_status_codes A ctx =
     (let of_class = (\<lambda>c. filter (\<lambda>p. class_of_answer p = c) (sc_pages ctx));
          server_errors = map with_status (of_class Server_Error);
          not_found = map with_status (of_class Not_Found);
          forbidden = map with_status (of_class Forbidden);
          unreachable = map with_error (of_class Unreachable)
      in gives (
           unless_empty server_errors (i_server_error server_errors) @
           unless_empty not_found (i_broken_internal_links not_found) @
           unless_empty forbidden (i_forbidden_pages forbidden) @
           unless_empty unreachable (i_unreachable_pages unreachable)))"

definition i_redirect_chain :: "chars list \<Rightarrow> issue" where
  "i_redirect_chain hops = make_issue
     (lit ''redirect-chain'')
     (lit ''Redirect chains'')
     (fa ''znjyrh_y rydayrkt'')
     (num (length hops) @
       fa '' Adrs byS az yk bar rydayrkt my_Svd. hr prS aEafh hm zman bargDary ra zyad '' @
       fa ''my_knd v hm bvdjh_y xzS ra merf my_knd.'')
     (fa ''rydayrkt_ha ra txt kn: hr Adrs qdymy bayd mstqym v ba yk prS bh mqed nhayy '' @
       fa ''brvd.'')
     S_Medium C_Technical hops (sample 4 hops) (lit ''https://developers.google.com/search/docs/crawling-indexing/301-redirects'')"

definition i_temporary_redirect :: "chars list \<Rightarrow> issue" where
  "i_temporary_redirect temporary = make_issue
     (lit ''temporary-redirect'')
     (lit ''Temporary (302/307) redirects'')
     (fa ''rydayrkt mvqt (302/307)'')
     (num (length temporary) @
       fa '' Adrs ba rydayrkt mvqt mntql my_Svd. rydayrkt mvqt bh gvgl my_gvyd Adrs aely '' @
       fa ''hman qdymy ast, ps aotbar lynk bh_Tvr kaml bh mqed jdyd mntql nmy_Svd.'')
     (fa ''agr antqal daYmy ast rydayrkt ra bh 301 tGyyr bdh. 302 ra fqT bray Halt_hay '' @
       fa ''vaqoaN mvqt (tst [A/B], efHh_y dr dst tomyr) ngh dar.'')
     S_Medium C_Technical temporary (sample 4 temporary) (lit ''https://developers.google.com/search/docs/crawling-indexing/301-redirects'')"

definition chain_entry :: "page_data \<Rightarrow> chars" where
  "chain_entry p =
     pd_url p @ (lit '' ('') @ num (length (pd_redirects p)) @ (fa '' prS: '') @ joined (fa '' ^ '') (map (\<lambda>r. inum (fst r)) (pd_redirects p)) @ (lit '')'')"

definition temporary_entry :: "page_data \<Rightarrow> chars" where
  "temporary_entry p = pd_url p @ (lit '' ('') @ (case pd_redirects p of [] \<Rightarrow> [] | r # _ \<Rightarrow> inum (fst r)) @ (lit '')'')"

definition check_redirects :: rule where
  "check_redirects A ctx =
     (let hops = map chain_entry (filter (\<lambda>p. 1 < length (pd_redirects p)) (sc_pages ctx));
          temporary = map temporary_entry (filter (\<lambda>p. list_ex (\<lambda>r. fst r \<in> {302, 307}) (pd_redirects p)) (sc_pages ctx))
      in gives (
           unless_empty hops (i_redirect_chain hops) @
           unless_empty temporary (i_temporary_redirect temporary)))"

subsection \<open>HTTPS\<close>

definition LOCAL_HOSTS :: "string list" where
  "LOCAL_HOSTS = [''localhost'', ''127.0.0.1'', ''0.0.0.0'', ''::1'', ''.local'', ''.test'', ''.localhost'']"

definition is_local :: "chars \<Rightarrow> bool py" where
  "is_local origin =
     bindE (urlsplit (encode origin)) (\<lambda>u.
       (let host = hostname u in
        Inr (prefix ''192.168.'' host \<or> prefix ''10.'' host \<or> list_ex (\<lambda>h. suffix h host) LOCAL_HOSTS \<or>
             host \<in> set LOCAL_HOSTS)))"

definition i_no_https :: "chars \<Rightarrow> issue" where
  "i_no_https start_url = make_issue
     (lit ''no-https'')
     (lit ''Site is not served over HTTPS'')
     (fa ''sayt rvy [HTTPS ]nyst'')
     (fa ''sayt ba prvtkl [http ]srv my_Svd. [HTTPS ]az sal 2014 yk sygnal rtbh_bndy '' @
       fa ''tIyydSdh ast v mrvrgrha sayt [http ]ra <naamn> olamt my_znnd kh mstqymaN nrx '' @
       fa ''tbdyl ra xrab my_knd.'')
     (fa ''yk gvahy [SSL ]neb kn ([Let~s Encrypt ]raygan ast) v kl trafyk [http ]ra ba 301 bh '' @
       fa ''[https ]mntql kn. bod hdr [HSTS ]ra foal kn.'')
     S_Critical C_Technical [start_url] [] DOCS_HTTPS"

definition i_mixed_content :: "chars list \<Rightarrow> issue" where
  "i_mixed_content mixed = make_issue
     (lit ''mixed-content'')
     (lit ''Mixed content on HTTPS pages'')
     (fa ''mHtvay trkyby rvy efHat [HTTPS]'')
     (num (length mixed) @
       fa '' efHh_y [https ]mnaboy ra az [http ]bargDary my_knd. mrvrgr ayn mnabo ra blak ya '' @
       fa ''ba hSdar bargDary my_knd v qfl amnyty az nvar Adrs HDf my_Svd.'')
     (fa ''hmh_y Adrs_hay mnabo ra bh [https ]tGyyr bdh. agr mnbo xarjy [https ]ndard, '' @
       fa ''jaygzynS kn ya fayl ra rvy srvr xvdt myzbany kn.'')
     S_High C_Technical mixed (sample 4 mixed) DOCS_HTTPS"

definition i_no_hsts :: "chars \<Rightarrow> issue" where
  "i_no_hsts start_url = make_issue
     (lit ''no-hsts'')
     (lit ''HSTS header not set'')
     (fa ''hdr [HSTS ]tnZym nSdh'')
     (fa ''hdr [Strict-Transport-Security ]vjvd ndard. bdvn An, avlyn drxvast karbr '' @
       fa ''my_tvand rvy [http ]anjam Svd v dr morE Hmlh_y mrd myany qrar bgyrd.'')
     (fa ''hdr [`Strict-Transport-Security: max-age=31536000; includeSubDomains` ]ra rvy '' @
       fa ''srvr foal kn. avl ba [max-age ]kvtah tst kn ta mTmYn Svy hmh_y zyrdamnh_ha '' @
       fa ''[https ]darnd.'')
     S_Low C_Technical [start_url] [] DOCS_HTTPS"

definition insecure_source :: regex where
  "insecure_source = seq
     [alts [text_is (lit ''src''), text_is (lit ''href'')], text_is (lit ''=''), one_of [34, 39],
      text_is (lit ''http://''), some (none_of [34, 39])]"

definition insecure :: "page_data \<Rightarrow> chars list" where
  "insecure p =
     filter (\<lambda>u. \<not> sublist (lit ''http://localhost'') u \<and> \<not> sublist (lit ''schema.org'') u)
       (re_findall insecure_source (pd_html p))"

definition check_https :: rule where
  "check_https A ctx =
     first_of (is_local (sc_origin ctx)) (\<lambda>local.
       if local then gives []
       else first_of (urlsplit (encode (sc_origin ctx))) (\<lambda>u.
         if scheme u \<noteq> ''https'' then gives [i_no_https (sc_start_url ctx)]
         else
           (let mixed = map (\<lambda>p. pd_url p @ (lit '' ('') @ num (length (insecure p)) @ (fa '' mnbo [http)]''))
                          (filter (\<lambda>p. insecure p \<noteq> []) (html_pages A ctx))
            in gives (
                 unless_empty mixed (i_mixed_content mixed) @
                 (case sc_pages ctx of
                    [] \<Rightarrow> []
                  | homepage # _ \<Rightarrow>
                      if pd_headers homepage \<noteq> [] \<and> ''strict-transport-security'' \<notin> fst ` set (pd_headers homepage)
                      then [i_no_hsts (sc_start_url ctx)] else [])))))"

subsection \<open>robots.txt\<close>

definition i_robots_missing :: "chars \<Rightarrow> chars \<Rightarrow> issue" where
  "i_robots_missing status start_url = make_issue
     (lit ''robots-missing'')
     (lit ''No robots.txt'')
     (fa ''fayl [robots.txt ]vjvd ndard'')
     (fa ''drxvast /[robots.txt ]ba kd '' @
       status @
       fa '' pasx dad. nbvdi ayn fayl xTay bHrany nyst (gvgl frE my_knd hmh_Cyz mjaz '' @
       fa ''ast), ama jay aolam sayt_mp v kntrl xzS ra az dst my_dhy.'')
     (fa ''yk fayl [robots.txt ]dr rySh_y damnh bsaz, Adrs sayt_mp ra daxlS aolam kn v '' @
       fa ''msyrhay by_arzS (sbd xryd, jstjvy daxly, efHat vrvd) ra [Disallow ]kn.'')
     S_Low C_Indexing [start_url] [] DOCS_ROBOTS"

definition i_robots_blocks_site :: "chars \<Rightarrow> issue" where
  "i_robots_blocks_site start_url = make_issue
     (lit ''robots-blocks-site'')
     (lit ''robots.txt blocks the entire site'')
     (fa ''[robots.txt ]kl sayt ra blak krdh'')
     (fa ''dr [robots.txt ]dstvr [`Disallow: /` ]bray hmh_y rbat_ha ya bray [Googlebot ]vjvd '' @
       fa ''dard. ayn yony gvgl ajazh_y xzS hyC efHh_ay ra ndard v sayt omlaN az ntayj '' @
       fa ''jstjv HDf my_Svd. ayn momvlaN baqy_mandh_y tnZymat mHyT tst ast kh aStbahaN '' @
       fa ''rvy sayt aely rfth.'')
     (fa ''fvraN xT [`Disallow: /` ]ra HDf kn. bod dr srC knsvl abzar [robots.txt Tester ]ra '' @
       fa ''ajra kn v drxvast ayndks mjdd bdh.'')
     S_Critical C_Indexing [start_url] [] DOCS_ROBOTS"

definition i_robots_no_sitemap :: "chars \<Rightarrow> issue" where
  "i_robots_no_sitemap start_url = make_issue
     (lit ''robots-no-sitemap'')
     (lit ''robots.txt does not declare a sitemap'')
     (fa ''sayt_mp dr [robots.txt ]aolam nSdh'')
     (fa ''fayl [robots.txt ]vjvd dard vly xT [Sitemap: ]ndard. ayn sadh_tryn rah bray morfy '' @
       fa ''sayt_mp bh hmh_y mvtvrhay jstjv (nh fqT gvgl) ast.'')
     (fa ''xT [`Sitemap: https://]damnh_at/[sitemap.xml` ]ra bh anthay [robots.txt ]aEafh kn.'')
     S_Low C_Indexing [start_url] [] DOCS_SITEMAP"

definition i_robots_blocks_assets :: "chars \<Rightarrow> issue" where
  "i_robots_blocks_assets start_url = make_issue
     (lit ''robots-blocks-assets'')
     (lit ''robots.txt may block CSS/JS'')
     (fa ''aHtmal blak Sdn fayl_hay [CSS/JS]'')
     (fa ''bh nZr my_rsd [robots.txt ]msyr fayl_hay astayl ya askrypt ra [Disallow ]krdh '' @
       fa ''ast. gvgl efHh ra mcl mrvrgr rndr my_knd; agr bh [CSS ]v [JS ]dstrsy ndaSth baSd '' @
       fa ''efHh ra Sksth my_bynd, mvbayl_frndly bvdn ra tSxye nmy_dhd v mmkn ast mHtvay '' @
       fa ''aely ra nbynd.'')
     (fa ''dstrsy bh fayl_hay [CSS], [JS ]v teavyr ra baz bgDar. ba abzar <[URL Inspection]> '' @
       fa ''dr srC knsvl bbyn gvgl efHh ra CTvr rndr my_knd.'')
     S_High C_Indexing [start_url] [] DOCS_ROBOTS"

text \<open>
  The loop over the lines, with the agents collected so far. Blank and comment lines and \<^verbatim>\<open>allow\<close> change
  nothing; a line that is none of these starts over; a new group of agents does not.
\<close>

definition value_of :: "chars \<Rightarrow> chars" where
  "value_of line = strip_white (beyond 58 line)"

fun blocks_site :: "chars list \<Rightarrow> chars list \<Rightarrow> bool" where
  "blocks_site agents [] = False"
| "blocks_site agents (raw # lines) =
     (let line = strip_white (until 35 raw) in
      if line = [] then blocks_site agents lines
      else if prefix (lit ''user-agent:'') line then blocks_site (agents @ [value_of line]) lines
      else if prefix (lit ''disallow:'') line then
        value_of line = lit ''/'' \<and> (\<exists>a\<in>set agents. a = lit ''*'' \<or> a = lit ''googlebot'') \<or> blocks_site agents lines
      else if prefix (lit ''allow:'') line then blocks_site agents lines
      else blocks_site [] lines)"

definition disallows_asset_type :: "charset \<Rightarrow> regex" where
  "disallows_asset_type C = seq
     [text_is (lit ''disallow:''), spaces, maybe (text_is (lit ''/'')), Many dot, text_is (lit ''.''),
      alts [text_is (lit ''css''), text_is (lit ''js'')], word_edge C]"

definition disallows_asset_path :: regex where
  "disallows_asset_path = seq
     [text_is (lit ''disallow:''), spaces, text_is (lit ''/''),
      alts (map (\<lambda>s. text_is (lit s)) [''wp-content'', ''assets'', ''static'', ''dist'']),
      maybe (text_is (lit ''/'')), spaces, at_line_end]"

definition check_robots :: rule where
  "check_robots A ctx =
     (case sc_robots_txt ctx of
        None \<Rightarrow>
          gives [i_robots_missing (if sc_robots_status ctx \<noteq> 0 then inum (sc_robots_status ctx) else (fa ''xTa'')) (sc_start_url ctx)]
      | Some txt \<Rightarrow>
          (let lowered_txt = low A txt in
           gives (
             (if blocks_site [] (splitlines lowered_txt) then [i_robots_blocks_site (sc_start_url ctx)] else []) @
             (if \<not> sublist (lit ''sitemap:'') lowered_txt then [i_robots_no_sitemap (sc_start_url ctx)] else []) @
             (if re_search (disallows_asset_type (ae_chars A)) lowered_txt \<or> re_search disallows_asset_path lowered_txt
              then [i_robots_blocks_assets (sc_start_url ctx)] else []))))"

subsection \<open>Sitemaps\<close>

definition i_sitemap_missing :: "chars \<Rightarrow> issue" where
  "i_sitemap_missing start_url = make_issue
     (lit ''sitemap-missing'')
     (lit ''No XML sitemap found'')
     (fa ''sayt_mp [XML ]pyda nSd'')
     (fa ''hyC sayt_mp motbry dr msyrhay mtdavl v dr [robots.txt ]pyda nSd. sayt_mp bray '' @
       fa ''sayt_hay bzrg, sayt_hay jdyd v efHaty kh lynk daxly kmy darnd nqS toyyn_knndh '' @
       fa ''dr srot kSf efHat dard.'')
     (fa ''yk [sitemap.xml ]bsaz kh fqT Adrs_hay qabl ayndks v nhayy (bdvn rydayrkt, bdvn '' @
       fa ''[noindex) ]ra Saml Svd, dr [robots.txt ]aolamS kn v dr srC knsvl cbtS kn.'')
     S_Medium C_Indexing [start_url] [] DOCS_SITEMAP"

definition i_sitemap_invalid :: "chars \<Rightarrow> chars list \<Rightarrow> issue" where
  "i_sitemap_invalid first_errors sitemap_errors = make_issue
     (lit ''sitemap-invalid'')
     (lit ''Invalid sitemap response'')
     (fa ''pasx namotbr sayt_mp'')
     (fa ''yky az Adrs_hay sayt_mp bh_jay [XML ]efHh_y [HTML ]brgrdand: '' @
       first_errors)
     (fa ''mTmYn Sv sayt_mp ba [Content-Type ]brabr [application/xml ]srv my_Svd v AdrsS dr '' @
       fa ''[robots.txt ]drst ast.'')
     S_Medium C_Indexing (take 10 sitemap_errors) [] DOCS_SITEMAP"

definition i_sitemap_bad_entries :: "chars list \<Rightarrow> issue" where
  "i_sitemap_bad_entries bad_entries = make_issue
     (lit ''sitemap-bad-entries'')
     (lit ''Sitemap contains non-indexable URLs'')
     (fa ''sayt_mp Adrs_hay Gyrqabl ayndks dard'')
     (num (length bad_entries) @
       fa '' Adrs daxl sayt_mp ya xTa my_dhd, ya rydayrkt my_Svd, ya [noindex ]ast. sayt_mp '' @
       fa ''bh gvgl my_gvyd <ayn_ha efHat mhm mn hstnd>; Adrs_hay by_arzS daxlS aotmad bh '' @
       fa ''kl sayt_mp ra km my_knd.'')
     (fa ''sayt_mp ra Tvry baztvlyd kn kh fqT Adrs_hay nhayy ba kd 200 v qabl ayndks '' @
       fa ''daxlS baSd. ayn kar ra bh fraynd xvdkar tvlyd sayt_mp bspar, nh bh_rvzrsany '' @
       fa ''dsty.'')
     S_Medium C_Indexing bad_entries (sample 4 bad_entries) DOCS_SITEMAP"

definition i_sitemap_incomplete :: "chars list \<Rightarrow> issue" where
  "i_sitemap_incomplete orphaned_from_sitemap = make_issue
     (lit ''sitemap-incomplete'')
     (lit ''Indexable pages missing from sitemap'')
     (fa ''efHat qabl ayndks dr sayt_mp nystnd'')
     (num (length orphaned_from_sitemap) @
       fa '' efHh_y qabl ayndks kh ba xzS pyda Sdnd dr sayt_mp nyamdh_and.'')
     (fa ''fraynd tvlyd sayt_mp ra brrsy kn; bayd hmh_y efHat qabl ayndks ra bh_evrt '' @
       fa ''xvdkar pvSS bdhd.'')
     S_Low C_Indexing orphaned_from_sitemap (sample 4 orphaned_from_sitemap) DOCS_SITEMAP"

definition i_sitemap_mismatch :: "chars \<Rightarrow> chars list \<Rightarrow> issue" where
  "i_sitemap_mismatch start_url entries = make_issue
     (lit ''sitemap-mismatch'')
     (lit ''Sitemap URLs do not match crawled URLs'')
     (fa ''Adrs_hay sayt_mp ba Adrs_hay vaqoy sayt hm_xvany ndard'')
     (fa ''hyC_kdam az Adrs_hay daxl sayt_mp ba Adrs_hayy kh dr xzS pyda Sd yky nyst. '' @
       fa ''momvlaN yony sayt_mp Adrs_ha ra ba prvtkl, damnh ya aslS anthayy mtfavt lyst '' @
       fa ''my_knd.'')
     (fa ''Adrs_hay daxl sayt_mp ra dqyqaN brabr ba nsxh_y [canonical ]efHat bnvys (hman '' @
       fa ''prvtkl, hman [www ]ya bdvn [www], hman aslS anthayy).'')
     S_Medium C_Indexing [start_url] (fa ''nmvnh sayt_mp: '' @
       sample 2 entries) DOCS_SITEMAP"

text \<open>The three ways a page of the sitemap can be of no use.\<close>

definition bad_entry :: "audit_env \<Rightarrow> page_data \<Rightarrow> chars option" where
  "bad_entry A p =
     (if given (pd_error p) \<noteq> [] \<or> 400 \<le> pd_status p then
        Some (pd_url p @ (lit '' ('') @ (if pd_status p \<noteq> 0 then inum (pd_status p)
                                 else case pd_error p of None \<Rightarrow> lit ''None'' | Some e \<Rightarrow> e) @ (lit '')''))
      else if pd_redirects p \<noteq> [] then Some (pd_url p @ (fa '' (rydayrkt my_Svd)''))
      else if is_noindex A p then Some (pd_url p @ (lit '' (noindex)''))
      else None)"

definition check_sitemap :: rule where
  "check_sitemap A ctx =
     (if sc_sitemap_urls ctx = [] then gives [i_sitemap_missing (sc_start_url ctx)]
      else and_then
        (gives (unless_empty (sc_sitemap_errors ctx)
           (i_sitemap_invalid (joined (fa ''; '') (take 3 (sc_sitemap_errors ctx))) (sc_sitemap_errors ctx))))
        (first_of (mapE (\<lambda>p. bindE (normalize_url A (pd_url p)) (\<lambda>u. Inr (p, u))) (sc_pages ctx)) (\<lambda>crawled.
         first_of (mapE (normalize_url A) (sc_sitemap_locs ctx)) (\<lambda>sitemap.
           (let bad_entries = concat (map (\<lambda>(p, u). if u \<notin> set sitemap then []
                                                    else case bad_entry A p of None \<Rightarrow> [] | Some e \<Rightarrow> [e]) crawled);
                indexable = filter (\<lambda>(p, u). is_indexable A p) crawled;
                orphaned = map (\<lambda>(p, u). pd_url p) (filter (\<lambda>(p, u). u \<notin> set sitemap) indexable)
            in gives (
                 unless_empty bad_entries (i_sitemap_bad_entries bad_entries) @
                 (if sitemap \<noteq> [] \<and> (max 2 (of_nat (length indexable) * (1 / 5)) :: rat) < of_nat (length orphaned)
                  then [i_sitemap_incomplete orphaned] else []) @
                 (if crawled \<noteq> [] \<and> list_all (\<lambda>(p, u). u \<notin> set sitemap) crawled \<and> sitemap \<noteq> []
                  then [i_sitemap_mismatch (sc_start_url ctx) (ae_order A (dedupe sitemap))] else [])))))))"

subsection \<open>Viewport\<close>

definition i_viewport_missing :: "chars list \<Rightarrow> issue" where
  "i_viewport_missing missing_viewport = make_issue
     (lit ''viewport-missing'')
     (lit ''Missing viewport meta tag'')
     (fa ''tg [viewport ]vjvd ndard'')
     (num (length missing_viewport) @
       fa '' efHh tg [viewport ]ndard. gvgl az jvlay 2024 fqT ba [Googlebot ]mvbayl ayndks '' @
       fa ''my_knd; efHh_y bdvn [viewport ]rvy mvbayl zvm_Sdh v Gyrqabl astfadh rndr my_Svd.'')
     (fa ''tg [`<meta name=$viewport$ content=$width=device-width, initial-scale=1$>` ]ra '' @
       fa ''bh [head ]hmh_y efHat aEafh kn.'')
     S_Critical C_Technical missing_viewport (sample 4 missing_viewport) (lit ''https://developers.google.com/search/docs/crawling-indexing/mobile/mobile-sites-mobile-first-indexing'')"

definition i_viewport_invalid :: "chars list \<Rightarrow> issue" where
  "i_viewport_invalid bad_viewport = make_issue
     (lit ''viewport-invalid'')
     (lit ''Viewport configured incorrectly'')
     (fa ''tnZymat [viewport ]aStbah ast'')
     (num (length bad_viewport) @
       fa '' efHh [viewport ]dard ama drst tnZym nSdh (nbvd [width=device-width ]ya Gyrfoal '' @
       fa ''krdn bzrg_nmayy). Gyrfoal_krdn zvm mSkl dstrs_pDyry ast.'')
     (fa ''mqdar ra bh [`width=device-width, initial-scale=1` ]tGyyr bdh v '' @
       fa ''[user-scalable=no ]ra brdar.'')
     S_Medium C_Technical bad_viewport (sample 3 bad_viewport) (lit ''https://developers.google.com/search/docs/crawling-indexing/mobile/mobile-sites-mobile-first-indexing'')"

definition no_zoom :: "charset \<Rightarrow> regex" where
  "no_zoom C = seq [text_is (lit ''maximum-scale=1''), maybe (text_is (lit ''.0'')), word_edge C]"

definition bad_viewport :: "audit_env \<Rightarrow> page_data \<Rightarrow> chars option" where
  "bad_viewport A p =
     (let viewport = low A (given (pd_viewport p)) in
      if viewport = [] then None
      else if \<not> sublist (lit ''width=device-width'') viewport then Some (pd_url p @ (lit '' ('') @ given (pd_viewport p) @ (lit '')''))
      else if sublist (lit ''user-scalable=no'') viewport \<or> re_search (no_zoom (ae_chars A)) viewport
      then Some (pd_url p @ (fa '' (bzrg_nmayy Gyrfoal ast)''))
      else None)"

definition check_mobile :: rule where
  "check_mobile A ctx =
     (let missing_viewport = map pd_url (filter (\<lambda>p. low A (given (pd_viewport p)) = []) (html_pages A ctx));
          bad = concat (map (\<lambda>p. case bad_viewport A p of None \<Rightarrow> [] | Some e \<Rightarrow> [e]) (html_pages A ctx))
      in gives (
           unless_empty missing_viewport (i_viewport_missing missing_viewport) @
           unless_empty bad (i_viewport_invalid bad)))"

subsection \<open>Addresses\<close>

definition i_url_too_long :: "chars list \<Rightarrow> issue" where
  "i_url_too_long too_long = make_issue
     (lit ''url-too-long'')
     (lit ''Overly long URLs'')
     (fa ''Adrs_hay xyly blnd'')
     (num (length too_long) @
       fa '' Adrs blndtr az '' @
       inum MAX_URL_LENGTH @
       fa '' karaktr ast. Adrs blnd dr ntayj jstjv brydh my_Svd, aStrak_gDary_aS sxt ast '' @
       fa ''v momvlaN nSanh_y saxtar dsth_bndy byS_azHd tvdrtv ast.'')
     (fa ''Adrs_ha ra kvtah v xvana kn: sh ta pnj klmh_y klydy, bdvn klmat aEafh, Hdakcr '' @
       fa ''dv sTH omq.'')
     S_Low C_Technical too_long (sample 3 too_long) (lit ''https://developers.google.com/search/docs/crawling-indexing/url-structure'')"

definition i_url_underscores :: "chars list \<Rightarrow> issue" where
  "i_url_underscores underscores = make_issue
     (lit ''url-underscores'')
     (lit ''Underscores in URLs'')
     (fa ''Andrlayn dr Adrs efHat'')
     (num (length underscores) @
       fa '' Adrs az [_ ]bh_onvan jdaknndh astfadh my_knd. gvgl eraHtaN xT tyrh (-) ra '' @
       fa ''tveyh my_knd Cvn klmat ra jda my_bynd, dr Haly kh Andrlayn An_ha ra bh hm '' @
       fa ''my_Csband.'')
     (fa ''bray efHat jdyd az xT tyrh astfadh kn. Adrs_hay qdymy ra fqT dr evrty tGyyr '' @
       fa ''bdh kh ba 301 drst rydayrkt kny ~ vgrnh svd tGyyr kmtr az ryskS ast.'')
     S_Low C_Technical underscores (sample 3 underscores) (lit ''https://developers.google.com/search/docs/crawling-indexing/url-structure'')"

definition i_url_uppercase :: "chars list \<Rightarrow> issue" where
  "i_url_uppercase uppercase = make_issue
     (lit ''url-uppercase'')
     (lit ''Uppercase letters in URLs'')
     (fa ''Hrvf bzrg dr Adrs efHat'')
     (num (length uppercase) @
       fa '' Adrs Hrf bzrg dard. srvrhay lynvksy bh bzrg v kvCk bvdn Hrvf Hsas_and, ps '' @
       fa ''/[Page ]v /[page ]my_tvannd dv efHh_y jda ba mHtvay yksan baSnd.'')
     (fa ''hmh_y Adrs_ha ra kvCk kn v yk qanvn rydayrkt bgDar kh nsxh_hay bzrg_Hrf ra ba '' @
       fa ''301 bh nsxh_y kvCk bbrd.'')
     S_Low C_Technical uppercase (sample 3 uppercase) (lit ''https://developers.google.com/search/docs/crawling-indexing/url-structure'')"

definition i_url_parameters :: "chars list \<Rightarrow> issue" where
  "i_url_parameters ugly = make_issue
     (lit ''url-parameters'')
     (lit ''URLs with many query parameters'')
     (fa ''Adrs_hay paramtry'')
     (num (length ugly) @
       fa '' Adrs sh paramtr ya byStr dard. Adrs_hay paramtry by_nhayt trkyb tvlyd '' @
       fa ''my_knnd v my_tvannd bvdjh_y xzS ra kamlaN bsvzannd (tlh_y xzS).'')
     (fa ''bray efHat mhm Adrs tmyz v cabt bsaz. trkyb_hay fyltr ra ba [canonical ]bh '' @
       fa ''nsxh_y aely aSarh bdh v trkyb_hay by_arzS ra dr [robots.txt ]bbnd.'')
     S_Medium C_Indexing ugly (sample 3 ugly) (lit ''https://developers.google.com/search/docs/crawling-indexing/url-structure'')"

definition check_urls :: rule where
  "check_urls A ctx =
     first_of (mapE (\<lambda>p. bindE (split_text (pd_url p)) (\<lambda>u. Inr (p, path_of u, code_points (su_query u)))) (pages_to_index A ctx)) (\<lambda>parsed.
       (let too_long = map (\<lambda>(p, path, query). pd_url p @ (lit '' ('') @ num (length (pd_url p)) @ (fa '' karaktr)''))
                         (filter (\<lambda>(p, path, query). MAX_URL_LENGTH < int (length (pd_url p))) parsed);
            ugly = map (\<lambda>(p, path, query). pd_url p)
                     (filter (\<lambda>(p, path, query). query \<noteq> [] \<and> 3 \<le> length (split_at 38 [] query)) parsed);
            uppercase = map (\<lambda>(p, path, query). pd_url p)
                          (filter (\<lambda>(p, path, query). list_ex (cs_upper (ae_chars A)) path) parsed);
            underscores = map (\<lambda>(p, path, query). pd_url p) (filter (\<lambda>(p, path, query). 95 \<in> set path) parsed)
        in gives (
             unless_empty too_long (i_url_too_long too_long) @
             unless_empty underscores (i_url_underscores underscores) @
             unless_empty uppercase (i_url_uppercase uppercase) @
             unless_empty ugly (i_url_parameters ugly))))"

subsection \<open>Language, encoding, compression\<close>

definition i_html_lang_missing :: "chars list \<Rightarrow> issue" where
  "i_html_lang_missing missing_lang = make_issue
     (lit ''html-lang-missing'')
     (lit ''Missing lang attribute'')
     (fa ''vyJgy [lang ]dr tg [html ]nyst'')
     (num (length missing_lang) @
       fa '' efHh vyJgy [lang ]rvy tg [<html> ]ndard. ayn vyJgy bh gvgl v bh efHh_xvan_ha '' @
       fa ''my_gvyd efHh bh Ch zbany ast ~ bray sayt farsy kh klmat anglysy hm dard, '' @
       fa ''tSxye xvdkar zban hmySh drst kar nmy_knd.'')
     (fa ''bray sayt farsy bnvys [`<html lang=$fa$ dir=$rtl$>`.]'')
     S_Medium C_International missing_lang (sample 4 missing_lang) (lit ''https://developers.google.com/search/docs/specialty/international/localized-versions'')"

definition i_charset_missing :: "chars list \<Rightarrow> issue" where
  "i_charset_missing missing_charset = make_issue
     (lit ''charset-missing'')
     (lit ''Character encoding not declared'')
     (fa ''ankvdyng karaktrha aolam nSdh'')
     (num (length missing_charset) @
       fa '' efHh ankvdyng ra nh dr tg [meta ]v nh dr hdr [HTTP ]aolam nkrdh. bray mtn farsy '' @
       fa ''ayn yony rysk jdy nmayS karaktrhay drhm (###).'')
     (fa ''dr abtday [<head> ]bnvys [`<meta charset=$utf-8$>` ]~ bayd dr 1024 bayt avl efHh '' @
       fa ''baSd.'')
     S_Medium C_Technical missing_charset (sample 3 missing_charset) []"

definition check_lang :: rule where
  "check_lang A ctx =
     (let missing_lang = map pd_url (filter (\<lambda>p. given (pd_lang p) = []) (html_pages A ctx));
          missing_charset = map pd_url (filter (\<lambda>p. given (pd_charset p) = [] \<and>
            \<not> sublist (lit ''charset'') (low A (entry (pd_headers p) ''content-type''))) (html_pages A ctx))
      in gives (
           unless_empty missing_lang (i_html_lang_missing missing_lang) @
           unless_empty missing_charset (i_charset_missing missing_charset)))"

definition i_no_compression :: "chars list \<Rightarrow> issue" where
  "i_no_compression uncompressed = make_issue
     (lit ''no-compression'')
     (lit ''HTML served without compression'')
     (fa ''[HTML ]bdvn fSrdh_sazy srv my_Svd'')
     (num (length uncompressed) @
       fa '' efHh_y Hjym bdvn [gzip ]ya [brotli ]frstadh my_Svd. fSrdh_sazy momvlaN Hjm [HTML ]'' @
       fa ''ra 70 ta 80 dred km my_knd v mstqymaN rvy [LCP ]acr my_gDard.'')
     (fa ''rvy srvr ya [CDN ]fSrdh_sazy [brotli (]ya Hdaql [gzip) ]ra bray [text/html], [CSS ]v [JS ]'' @
       fa ''foal kn.'')
     S_Medium C_Performance uncompressed (sample 3 uncompressed) (lit ''https://developer.chrome.com/docs/lighthouse/performance/uses-text-compression'')"

definition check_compression :: rule where
  "check_compression A ctx =
     (let uncompressed = map (\<lambda>p. pd_url p @ (lit '' ('') @ inum (pd_byte_size p div 1024) @ (fa '' kylvbayt, bdvn fSrdh_sazy)''))
            (filter (\<lambda>p. low A (entry (pd_headers p) ''content-encoding'') = [] \<and> 50000 < pd_byte_size p) (html_pages A ctx))
      in gives (unless_empty uncompressed (i_no_compression uncompressed)))"

end
