(* ===== verification/Rules_Indexing.thy ===== *)
theory Rules_Indexing
  imports Rules_Technical
begin

text \<open>
  \<^verbatim>\<open>src/services/engine/seoagent/rules/indexing.py\<close>: noindex directives, soft 404s and the crawl budget.
\<close>

subsection \<open>noindex\<close>

definition i_site_wide_noindex :: "chars list \<Rightarrow> issue" where
  "i_site_wide_noindex noindexed = make_issue
     (lit ''site-wide-noindex'')
     (lit ''Entire site is set to noindex'')
     (fa ''kl sayt rvy [noindex ]tnZym Sdh'')
     (fa ''hmh_y efHat brrsy_Sdh dstvr [noindex ]darnd. ayn yony sayt bh_Tvr kaml az ntayj '' @
       fa ''jstjv HDf my_Svd. tqrybaN hmySh baqy_mandh_y mHyT tvsoh ya tnZym <mno '' @
       fa ''mvtvrhay jstjv> dr pySxvan vrdprs ast.'')
     (fa ''dr vrdprs: tnZymat { xvandn { tyk <az mvtvrhay jstjv bxvahyd ayn sayt ra '' @
       fa ''ayndks nknnd> ra brdar. dr Gyr ayn evrt tg [meta robots ]v hdr [X-Robots-Tag ]ra '' @
       fa ''dr srvr brrsy kn.'')
     S_Critical C_Indexing noindexed (sample 4 noindexed) (lit ''https://developers.google.com/search/docs/crawling-indexing/block-indexing'')"

definition i_noindex_pages :: "chars list \<Rightarrow> issue" where
  "i_noindex_pages noindexed = make_issue
     (lit ''noindex-pages'')
     (lit ''Pages excluded with noindex'')
     (fa ''efHat xarj_Sdh az ayndks'')
     (num (length noindexed) @
       fa '' efHh dstvr [noindex ]dard. agr omdy ast (efHat vrvd, sbd xryd, ntayj jstjvy '' @
       fa ''daxly) kamlaN drst ast; fqT mTmYn Sv efHh_y mhmy aStbahy daxl ayn fhrst '' @
       fa ''nyftadh.'')
     (fa ''fhrst ra mrvr kn. nkth_y mhm: efHh_ay kh [noindex ]ast ra dr [robots.txt ]blak '' @
       fa ''nkn ~ agr gvgl ntvand efHh ra bxzd, tg [noindex ]ra hm nmy_bynd v mmkn ast '' @
       fa ''hmCnan ayndksS knd.'')
     S_Info C_Indexing noindexed (sample 5 noindexed) (lit ''https://developers.google.com/search/docs/crawling-indexing/block-indexing'')"

definition check_noindex :: rule where
  "check_noindex A ctx =
     (let noindexed = map pd_url (filter (is_noindex A) (html_pages A ctx)) in
      gives (
        if noindexed = [] then []
        else if length noindexed = length (html_pages A ctx) then [i_site_wide_noindex noindexed]
        else [i_noindex_pages noindexed]))"

definition i_noindex_blocked_by_robots :: "chars list \<Rightarrow> issue" where
  "i_noindex_blocked_by_robots conflicts = make_issue
     (lit ''noindex-blocked-by-robots'')
     (lit ''noindex pages are also blocked in robots.txt'')
     (fa ''efHat [noindex ]dr [robots.txt ]hm blak Sdh_and'')
     (num (length conflicts) @
       fa '' efHh hm tg [noindex ]dard v hm msyrS dr [robots.txt ]bsth ast. ayn trkyb kar '' @
       fa ''nmy_knd: gvgl vqty ajazh_y xzS ndard, aelaN tg [noindex ]ra nmy_bynd v mmkn ast '' @
       fa ''Adrs ra bdvn tvEyHat ayndks knd.'')
     (fa ''bray xarj krdn efHh az ayndks, fqT [noindex ]bgDar v msyr ra dr [robots.txt ]baz '' @
       fa ''kn. [robots.txt ]ra bray erfh_jvyy dr bvdjh_y xzS astfadh kn, nh bray HDf az '' @
       fa ''ayndks.'')
     S_High C_Indexing conflicts (sample 4 conflicts) (lit ''https://developers.google.com/search/docs/crawling-indexing/block-indexing'')"

definition disallowed_paths :: "audit_env \<Rightarrow> chars \<Rightarrow> chars list" where
  "disallowed_paths A txt =
     filter (\<lambda>v. v \<noteq> [] \<and> v \<noteq> lit ''/'')
       (map value_of (filter (prefix (lit ''disallow:'')) (map (\<lambda>raw. strip_white (until 35 raw)) (splitlines (low A txt)))))"

definition check_conflicting_directives :: rule where
  "check_conflicting_directives A ctx =
     (if given (sc_robots_txt ctx) = [] then gives []
      else
        first_of (mapE (\<lambda>p. bindE (split_text (pd_url p)) (\<lambda>u. Inr (p, path_of u))) (filter (is_noindex A) (html_pages A ctx))) (\<lambda>paths.
          (let conflicts = map (\<lambda>(p, path). pd_url p)
                 (filter (\<lambda>(p, path). list_ex (\<lambda>d. prefix d path) (disallowed_paths A (given (sc_robots_txt ctx)))) paths)
           in gives (unless_empty conflicts (i_noindex_blocked_by_robots conflicts)))))"

subsection \<open>Soft 404s\<close>

definition SOFT_404_MARKERS :: "charset \<Rightarrow> regex" where
  "SOFT_404_MARKERS C =
     (let word = text_like C; gap = some (One is_white) in
      alts [seq [word (fa ''efHh''), spaces, maybe (seq [word (fa ''mvrd nZr''), spaces]), alts [word (fa ''pyda''), word (fa ''yaft'')], spaces, word (fa ''nSd'')],
            word (fa ''404''), seq [word (lit ''404''), word_edge C],
            seq [word (lit ''page''), gap, word (lit ''not''), gap, word (lit ''found'')],
            word (fa ''Cnyn efHh_ay vjvd ndard''),
            seq [word (lit ''nothing''), gap, word (lit ''found'')],
            seq [word (lit ''no''), gap, word (lit ''results''), gap, word (lit ''found'')]])"

definition i_soft_404 :: "chars list \<Rightarrow> issue" where
  "i_soft_404 suspects = make_issue
     (lit ''soft-404'')
     (lit ''Possible soft 404 pages'')
     (fa ''aHtmal vjvd efHat [soft 404]'')
     (num (length suspects) @
       fa '' efHh ba kd 200 pasx my_dhd vly mHtvayS my_gvyd Cyzy pyda nSd. gvgl bh ayn '' @
       fa ''Halt <[soft 404]> my_gvyd: bvdjh_y xzS ra my_svzand v dr gzarS pvSS srC knsvl '' @
       fa ''bh_onvan xTa cbt my_Svd.'')
     (fa ''efHat namvjvd bayd vaqoaN kd 404 (ya 410 bray HDf daYmy) brgrdannd. efHh_y '' @
       fa ''404 ra TraHy_Sdh v mfyd bsaz (jstjv, lynk bh dsth_hay aely) vly HtmaN ba kd '' @
       fa ''404.'')
     S_Medium C_Indexing suspects (sample 4 suspects) (lit ''https://developers.google.com/search/docs/crawling-indexing/http-network-errors'')"

definition soft_404 :: "audit_env \<Rightarrow> page_data \<Rightarrow> bool" where
  "soft_404 A p \<longleftrightarrow> pd_status p = 200 \<and> \<not> 250 < pd_words p \<and>
     re_search (SOFT_404_MARKERS (ae_chars A)) (given (pd_title p) @ lit '' '' @ joined (lit '' '') (h1s p))"

definition check_soft_404 :: rule where
  "check_soft_404 A ctx =
     (let suspects = map (\<lambda>p. pd_url p @ (fa '' (<'') @ take 50 (given (pd_title p)) @ (fa ''>)'')) (filter (soft_404 A) (html_pages A ctx))
      in gives (unless_empty suspects (i_soft_404 suspects)))"

subsection \<open>The crawl budget\<close>

definition i_crawl_budget_waste :: "chars list \<Rightarrow> chars \<Rightarrow> chars \<Rightarrow> issue" where
  "i_crawl_budget_waste wasted crawled_total percent = make_issue
     (lit ''crawl-budget-waste'')
     (lit ''High share of non-indexable crawled URLs'')
     (fa ''shm balay Adrs_hay by_arzS dr xzS'')
     (num (length wasted) @
       fa '' Adrs az '' @
       crawled_total @
       fa '' Adrs xzydh_Sdh ('' @
       percent @
       fa ''%) qabl ayndks nyst: ya rydayrkt my_Svd, ya [noindex ]ast, ya xTa my_dhd. gvgl '' @
       fa ''bray hr sayt bvdjh_y xzS mHdvdy dard; erf Sdn An rvy Adrs_hay by_arzS yony '' @
       fa ''efHat jdyd v mhm dyrtr kSf my_Svnd.'')
     (fa ''lynk_hay daxly ra mstqymaN bh Adrs nhayy bdh (nh bh Adrsy kh rydayrkt '' @
       fa ''my_Svd), msyrhay by_arzS (fyltrha, jstjvy daxly, efHat Cap) ra dr [robots.txt ]'' @
       fa ''bbnd v lynk_hay xrab ra aelaH kn.'')
     S_Medium C_Indexing wasted (sample 5 wasted) (lit ''https://developers.google.com/search/docs/crawling-indexing/large-site-managing-crawl-budget'')"

definition wasted_page :: "audit_env \<Rightarrow> page_data \<Rightarrow> bool" where
  "wasted_page A p \<longleftrightarrow> pd_redirects p \<noteq> [] \<or> is_html A p \<and> is_noindex A p \<or> 400 \<le> pd_status p"

definition check_crawl_waste :: rule where
  "check_crawl_waste A ctx =
     (let total = length (sc_pages ctx);
          wasted = map pd_url (filter (wasted_page A) (sc_pages ctx));
          ratio = (of_nat (length wasted) / of_nat total :: rat)
      in gives (
           if total < 10 then []
           else if 1 / 4 < ratio then [i_crawl_budget_waste wasted (num total) (no_decimals (ratio * 100))] else []))"

end
