(* ===== verification/Rules_International.thy ===== *)
theory Rules_International
  imports Audit_Model
begin

text \<open>
  \<^verbatim>\<open>src/services/engine/seoagent/rules/international.py\<close>: hreflang clusters and the direction of Persian pages.
\<close>

definition DOCS_HREFLANG :: chars where
  "DOCS_HREFLANG = lit ''https://developers.google.com/search/docs/specialty/international/localized-versions''"

subsection \<open>hreflang\<close>

definition HREFLANG_RE :: "charset \<Rightarrow> regex" where
  "HREFLANG_RE C =
     (let small = in_range 97 122; letter = One (\<lambda>c. 65 \<le> c \<and> c \<le> 90 \<or> 97 \<le> c \<and> c \<le> 122); dash = text_is (lit ''-'') in
      seq [at_start, between 2 3 small, maybe (Seq dash (seq (replicate 4 letter))),
           maybe (alts [Seq dash (seq (replicate 2 letter)), Seq dash (seq (replicate 3 (One (cs_digit C))))]), at_end])"

definition i_hreflang_invalid_code :: "chars list \<Rightarrow> issue" where
  "i_hreflang_invalid_code invalid = make_issue
     (lit ''hreflang-invalid-code'')
     (lit ''Invalid hreflang codes'')
     (fa ''kd [hreflang ]namotbr ast'')
     (num (length invalid) @
       fa '' mqdar [hreflang ]frmt drsty ndard. frmt drst kd zban [ISO 639-1 ]ast kh my_tvand '' @
       fa ''ba kd kSvr [ISO 3166-1 ]trkyb Svd ~ mcl [fa], [fa-IR ]ya [en-US. ]nkth_y rayj: '' @
       fa ''<[fa-FA]> ya <[en-UK]> GlT ast (drstSan [fa-IR ]v [en-GB ]ast).'')
     (fa ''kdha ra ba astandard tTbyq bdh. kd zban hmySh avl my_Ayd v kd kSvr bh_tnhayy '' @
       fa ''mjaz nyst.'')
     S_High C_International invalid (sample 4 invalid) DOCS_HREFLANG"

definition i_hreflang_no_self :: "chars list \<Rightarrow> issue" where
  "i_hreflang_no_self no_self = make_issue
     (lit ''hreflang-no-self'')
     (lit ''hreflang missing self-reference'')
     (fa ''[hreflang ]bh xvdS aSarh nmy_knd'')
     (num (length no_self) @
       fa '' efHh dr fhrst [hreflang ]xvd, xvdS ra Dkr nkrdh ast. gvgl eraHtaN my_gvyd hr '' @
       fa ''efHh bayd yk [hreflang ]xvdarjao daSth baSd, vgrnh kl mjmvoh nadydh grfth '' @
       fa ''my_Svd.'')
     (fa ''bh fhrst [hreflang ]hr efHh, xvd An efHh ra ba kd zban xvdS aEafh kn.'')
     S_High C_International no_self (sample 4 no_self) DOCS_HREFLANG"

definition i_hreflang_not_reciprocal :: "chars list \<Rightarrow> issue" where
  "i_hreflang_not_reciprocal unreciprocated = make_issue
     (lit ''hreflang-not-reciprocal'')
     (lit ''hreflang links are not reciprocal'')
     (fa ''lynk_hay [hreflang ]dvTrfh nystnd'')
     (num (length unreciprocated) @
       fa '' rabTh_y [hreflang ]yk_Trfh ast: efHh_y [A ]bh [B ]aSarh my_knd vly [B ]bh [A ]'' @
       fa ''brnmy_grdd. gvgl rabTh_hay yk_Trfh ra kamlaN nadydh my_gyrd.'')
     (fa ''hmh_y nsxh_hay zbany bayd fhrst [hreflang ]yksan v kamly daSth baSnd kh hmh_y '' @
       fa ''nsxh_ha az jmlh xvdSan ra pvSS bdhd.'')
     S_High C_International unreciprocated (sample 4 unreciprocated) DOCS_HREFLANG"

definition i_hreflang_no_x_default :: "chars list \<Rightarrow> issue" where
  "i_hreflang_no_x_default no_default = make_issue
     (lit ''hreflang-no-x-default'')
     (lit ''No x-default hreflang'')
     (fa ''mqdar [x-default ]toryf nSdh'')
     (fa ''hyC efHh_ay [hreflang ]ba mqdar [x-default ]ndard. ayn mqdar bh gvgl my_gvyd bray '' @
       fa ''karbrany kh hyC_kdam az zban_hay toryf_Sdh ba An_ha mTabqt ndard, kdam nsxh '' @
       fa ''ra nSan bdhd.'')
     (fa ''yk vrvdy [`<link rel=$alternate$ hreflang=$x-default$ href=$...$>` ]aEafh kn kh '' @
       fa ''momvlaN bh nsxh_y anglysy ya bh efHh_y antxab zban aSarh my_knd.'')
     S_Medium C_International no_default (sample 3 no_default) DOCS_HREFLANG"

definition own_address :: "audit_env \<Rightarrow> page_data \<Rightarrow> chars py" where
  "own_address A p = normalize_url A (if pd_final_url p = [] then pd_url p else pd_final_url p)"

definition alternates :: "audit_env \<Rightarrow> page_data \<Rightarrow> chars list py" where
  "alternates A p = mapE (\<lambda>h. normalize_url A (snd h)) (pd_hreflang p)"

text \<open>A page with what the rule needs of it; a dictionary keeps the last page of an address.\<close>

record cluster_page =
  cl_page :: page_data
  cl_current :: chars
  cl_targets :: "chars list"

definition cluster_page_of :: "audit_env \<Rightarrow> page_data \<Rightarrow> cluster_page py" where
  "cluster_page_of A p =
     bindE (own_address A p) (\<lambda>current. bindE (alternates A p) (\<lambda>targets.
       Inr \<lparr>cl_page = p, cl_current = current, cl_targets = targets\<rparr>))"

definition at_address :: "cluster_page list \<Rightarrow> chars \<Rightarrow> cluster_page option" where
  "at_address site u = map_of (rev (map (\<lambda>c. (cl_current c, c)) site)) u"

definition invalid_code :: "audit_env \<Rightarrow> chars \<Rightarrow> bool" where
  "invalid_code A code \<longleftrightarrow> low A code \<noteq> lit ''x-default'' \<and> \<not> re_match (HREFLANG_RE (ae_chars A)) code"

text \<open>The alternates that exist, have alternates themselves and do not point back.\<close>

definition one_way :: "cluster_page list \<Rightarrow> cluster_page \<Rightarrow> chars list" where
  "one_way site c =
     map (\<lambda>(h, u). pd_url (cl_page c) @ (fa '' } '') @ snd h)
       (filter (\<lambda>(h, u). case at_address site u of
                   None \<Rightarrow> False
                 | Some t \<Rightarrow> pd_hreflang (cl_page t) \<noteq> [] \<and> cl_current c \<notin> set (cl_targets t))
          (zip (pd_hreflang (cl_page c)) (cl_targets c)))"

definition check_hreflang :: rule where
  "check_hreflang A ctx =
     (if list_all (\<lambda>p. pd_hreflang p = []) (html_pages A ctx) then gives []
      else first_of (mapE (cluster_page_of A) (html_pages A ctx)) (\<lambda>site.
        (let with_alternates = filter (\<lambda>c. pd_hreflang (cl_page c) \<noteq> []) site;
             invalid = concat (map (\<lambda>c. map (\<lambda>h. pd_url (cl_page c) @ (fa '' ^ kd <'') @ fst h @ (fa ''>''))
                         (filter (\<lambda>h. invalid_code A (fst h)) (pd_hreflang (cl_page c)))) with_alternates);
             no_self = map (\<lambda>c. pd_url (cl_page c)) (filter (\<lambda>c. cl_current c \<notin> set (cl_targets c)) with_alternates);
             no_default = map (\<lambda>c. pd_url (cl_page c))
                (filter (\<lambda>c. \<not> list_ex (\<lambda>h. low A (fst h) = lit ''x-default'') (pd_hreflang (cl_page c))) with_alternates);
             unreciprocated = concat (map (one_way site) with_alternates)
         in gives (
              unless_empty invalid (i_hreflang_invalid_code invalid) @
              unless_empty no_self (i_hreflang_no_self no_self) @
              unless_empty unreciprocated (i_hreflang_not_reciprocal unreciprocated) @
              (if no_default \<noteq> [] \<and> length no_default = length with_alternates then [i_hreflang_no_x_default no_default] else [])))))"

subsection \<open>Direction\<close>

definition i_missing_rtl_direction :: "chars list \<Rightarrow> issue" where
  "i_missing_rtl_direction offenders = make_issue
     (lit ''missing-rtl-direction'')
     (lit ''Persian content without dir=rtl'')
     (fa ''mHtvay farsy bdvn tnZym jht rast_bh_Cp'')
     (num (length offenders) @
       fa '' efHh mHtvay farsy dard vly rvy tg [<html> ]vyJgy [dir=$rtl$ ]ndard. bdvn An, '' @
       fa ''olaYm ngarSy v aodad v mtn anglysy daxl jmlh jabh_ja nmayS dadh my_Svnd kh hm '' @
       fa ''xvanayy ra xrab my_knd v hm nrx prS ra bala my_brd.'')
     (fa ''rvy tg [html ]bnvys [`<html lang=$fa$ dir=$rtl$>`. ]bray blvk_hay kd ya mtn '' @
       fa ''anglysy daxl efHh my_tvany bh_evrt mvEoy [`dir=$ltr$` ]bgDary.'')
     S_Medium C_International offenders (sample 4 offenders) DOCS_HREFLANG"

definition is_persian :: "int \<Rightarrow> bool" where
  "is_persian c \<longleftrightarrow> 0x600 \<le> c \<and> c \<le> 0x6FF"

definition declares_rtl :: "chars \<Rightarrow> bool" where
  "declares_rtl html_head \<longleftrightarrow> sublist (fa ''[dir=$rtl$]'') html_head \<or> sublist (fa ''[dir=~rtl~]'') html_head \<or>
     sublist (lit ''direction:rtl'') (filter (\<lambda>c. c \<noteq> 32) html_head)"

definition check_rtl :: rule where
  "check_rtl A ctx =
     (let offenders = map pd_url (filter (\<lambda>p. list_ex is_persian (take 2000 (pd_text p)) \<and>
            \<not> declares_rtl (low A (take 3000 (pd_html p)))) (html_pages A ctx))
      in gives (unless_empty offenders (i_missing_rtl_direction offenders)))"

end
