(* ===== verification/Rules_Links.thy ===== *)
theory Rules_Links
  imports Audit_Model
begin

text \<open>
  \<^verbatim>\<open>src/services/engine/seoagent/rules/links.py\<close>: orphans, depth, anchor texts and outbound links.
\<close>

definition DOCS_LINKS :: chars where
  "DOCS_LINKS = lit ''https://developers.google.com/search/docs/crawling-indexing/links-crawlable''"

subsection \<open>Orphans and depth\<close>

definition i_orphan_pages :: "chars list \<Rightarrow> issue" where
  "i_orphan_pages orphans = make_issue
     (lit ''orphan-pages'')
     (lit ''Orphan pages (no internal links)'')
     (fa ''efHat ytym (bdvn lynk daxly)'')
     (num (length orphans) @
       fa '' efHh hyC lynk daxly az bqyh_y sayt dryaft nmy_knd. ayn efHat fqT az Tryq '' @
       fa ''sayt_mp kSf my_Svnd, hyC aotbary az efHat dygr nmy_gyrnd v gvgl An_ha ra '' @
       fa ''km_ahmyt tlqy my_knd.'')
     (fa ''az efHat mrtbT v prbazdyd bh ayn efHat lynk bdh, ba ankrtkst tveyfy kh klmh '' @
       fa ''klydy efHh_y mqed dr An baSd. Hdaql 3 lynk daxly bray hr efHh_y mhm hdf bgyr.'')
     S_High C_Links orphans (sample 5 orphans) DOCS_LINKS"

definition i_weak_internal_linking :: "chars list \<Rightarrow> issue" where
  "i_weak_internal_linking weak = make_issue
     (lit ''weak-internal-linking'')
     (lit ''Weak internal linking'')
     (fa ''lynk_sazy daxly Eoyf'')
     (num (length weak) @
       fa '' efHh fqT yk lynk daxly dard. saxtar lynk daxly msTH v Eoyf baoc my_Svd '' @
       fa ''aotbar damnh byn efHat pxS nSvd v efHat omyq_tr hyC_vqt rtbh ngyrnd.'')
     (fa ''yk saxtar mvEvoy ([topic cluster) ]bsaz: yk efHh_y jamo mrkzy kh bh hmh_y efHat '' @
       fa ''zyrmvEvo lynk my_dhd v hmh_y An_ha hm bh efHh_y mrkzy brmy_grdnd.'')
     S_Medium C_Links weak (sample 4 weak) DOCS_LINKS"

definition weak_entry :: "page_data \<Rightarrow> chars" where
  "weak_entry p = pd_url p @ (lit '' ('') @ inum (pd_inlinks p) @ (fa '' lynk vrvdy)'')"

definition check_orphans :: rule where
  "check_orphans A ctx =
     (let pages = pages_to_index A ctx in
      if length pages < 3 then gives []
      else
        (let orphans = map pd_url (filter (\<lambda>p. pd_inlinks p = 0 \<and> pd_url p \<noteq> sc_start_url ctx) pages);
             weak = map weak_entry (filter (\<lambda>p. 0 < pd_inlinks p \<and> pd_inlinks p \<le> 1 \<and> pd_url p \<noteq> sc_start_url ctx) pages)
         in gives (
              unless_empty orphans (i_orphan_pages orphans) @
              (if weak \<noteq> [] \<and> (of_nat (length pages) * (3 / 10) :: rat) < of_nat (length weak)
               then [i_weak_internal_linking weak] else []))))"

definition i_deep_pages :: "chars list \<Rightarrow> issue" where
  "i_deep_pages deep = make_issue
     (lit ''deep-pages'')
     (lit ''Pages buried too deep'')
     (fa ''efHat xyly omyq'')
     (num (length deep) @
       fa '' efHh ba 4 klyk ya byStr az efHh_y aely qabl dstrsy ast. hrCh omq klyk byStr '' @
       fa ''baSd, gvgl efHh ra km_ahmyt_tr my_bynd v dyrtr my_xzd.'')
     (fa ''efHat mhm ra Hdakcr dr 3 klyk az efHh_y aely qrar bdh: az mnv, az efHat '' @
       fa ''dsth_bndy, ya az bxS <mTalb mrtbT> bh An_ha lynk bdh.'')
     S_Medium C_Links deep (sample 4 deep) DOCS_LINKS"

definition check_depth :: rule where
  "check_depth A ctx =
     (let deep = map (\<lambda>p. pd_url p @ (fa '' (omq '') @ inum (pd_depth p) @ (lit '')'')) (filter (\<lambda>p. 4 \<le> pd_depth p) (pages_to_index A ctx))
      in gives (unless_empty deep (i_deep_pages deep)))"

subsection \<open>Anchor texts\<close>

definition GENERIC_ANCHORS :: "chars list" where
  "GENERIC_ANCHORS =
     [(fa ''aynja''), (fa ''klyk knyd''), (fa ''klyk''), (fa ''byStr''), (fa ''adamh mTlb''), (fa ''adamh''), (fa ''lynk''), (fa ''ayn lynk''),
      (fa ''byStr bxvanyd''), (fa ''mSahdh''), (fa ''jzYyat''), (fa ''aTlaoat byStr''), (fa ''danlvd''), (lit ''click here''), (lit ''here''),
      (lit ''read more''), (lit ''more''), (lit ''link''), (lit ''this''), (lit ''learn more''), (lit ''details''), (lit ''download''), (lit ''continue''),
      (lit ''see more'')]"

definition i_generic_anchor_text :: "chars \<Rightarrow> chars \<Rightarrow> chars \<Rightarrow> chars \<Rightarrow> issue" where
  "i_generic_anchor_text generic_total total_internal percent listing = make_issue
     (lit ''generic-anchor-text'')
     (lit ''Generic anchor text'')
     (fa ''ankrtkst omvmy v by_mona'')
     (generic_total @
       fa '' lynk daxly az '' @
       total_internal @
       fa '' lynk ('' @
       percent @
       fa ''%) ankrtkst omvmy darnd: '' @
       listing @
       fa ''. ankrtkst yky az qvy_tryn sygnal_ha bray fhmydn mvEvo efHh_y mqed ast v '' @
       fa ''<aynja klyk knyd> hyC aTlaoaty bh gvgl nmy_dhd.'')
     (fa ''ankrtkst ra tveyfy bnvys: bh_jay <bray aTlaoat byStr aynja klyk knyd> bnvys '' @
       fa ''<rahnmay kaml antxab klmh klydy>. obart bayd mvEvo efHh_y mqed ra bgvyd.'')
     S_Medium C_Links [] listing DOCS_LINKS"

definition i_empty_anchor_text :: "chars list \<Rightarrow> issue" where
  "i_empty_anchor_text empty_links = make_issue
     (lit ''empty-anchor-text'')
     (lit ''Links with no anchor text'')
     (fa ''lynk_hay bdvn mtn'')
     (num (length empty_links) @
       fa '' lynk daxly hyC mtny ndard (momvlaN lynk rvy tevyr ya Aykvn). gvgl dr ayn '' @
       fa ''Halt az [alt ]tevyr astfadh my_knd; agr [alt ]hm nbaSd lynk hyC sygnal monayy '' @
       fa ''nmy_dhd.'')
     (fa ''bh lynk_hay tevyry [alt ]tveyfy bdh, ya bray lynk_hay Aykvny az [aria-label ]'' @
       fa ''astfadh kn.'')
     S_Low C_Links empty_links (sample 3 empty_links) DOCS_LINKS"

text \<open>The internal links of the site with their page and their anchor, stripped and in lower case.\<close>

definition internal_anchors :: "audit_env \<Rightarrow> site_context \<Rightarrow> (page_data \<times> link_ref \<times> chars) list" where
  "internal_anchors A ctx =
     concat (map (\<lambda>p. map (\<lambda>l. (p, l, low A (strip_white (lk_anchor l)))) (filter lk_internal (pd_links p))) (html_pages A ctx))"

definition check_anchors :: rule where
  "check_anchors A ctx =
     (let anchors = internal_anchors A ctx;
          total_internal = length anchors;
          empty_links = map (\<lambda>(p, l, a). pd_url p @ (fa '' ^ '') @ lk_href l) (filter (\<lambda>(p, l, a). a = []) anchors);
          generic = counter (filter (\<lambda>a. a \<noteq> [] \<and> a \<in> set GENERIC_ANCHORS) (map (\<lambda>(p, l, a). a) anchors));
          generic_total = sum_list (map snd generic);
          ratio = (of_nat generic_total / of_nat total_internal :: rat);
          listing = joined (fa '', '') (map (\<lambda>(a, n). (fa ''<'') @ a @ (fa ''> ('') @ num n @ (fa '' bar)'')) (most_common 4 generic))
      in gives (
           (if generic_total \<noteq> 0 \<and> total_internal \<noteq> 0 \<and> 1 / 10 < ratio
            then [i_generic_anchor_text (num generic_total) (num total_internal) (no_decimals (ratio * 100)) listing] else []) @
           unless_empty empty_links (i_empty_anchor_text empty_links)))"

subsection \<open>Links that are none\<close>

definition i_js_navigation :: "chars list \<Rightarrow> issue" where
  "i_js_navigation offenders = make_issue
     (lit ''js-navigation'')
     (lit ''Navigation via JavaScript onclick'')
     (fa ''pymayS ba [onclick ]bh_jay lynk vaqoy'')
     (num (length offenders) @
       fa '' efHh bray rftn bh efHh_y dygr az [onclick ]astfadh my_knd nh az tg [<a href>. ]'' @
       fa ''gvgl fqT lynk_hayy ra dnbal my_knd kh tg [a ]ba vyJgy [href ]daSth baSnd; bqyh '' @
       fa ''aelaN kSf nmy_Svnd.'')
     (fa ''hmh_y msyrhay pymayS ra ba [`<a href=$/]Adrs-vaqoy[$>` ]bnvys. agr rftar '' @
       fa ''javaaskrypty lazm ast, An ra rvy hman tg [a ]aEafh kn vly [href ]motbr ra ngh dar.'')
     S_High C_Links offenders (sample 3 offenders) DOCS_LINKS"

definition js_navigation :: "charset \<Rightarrow> regex" where
  "js_navigation C = seq
     [text_like C (lit ''<''), alts (map (\<lambda>s. text_like C (lit s)) [''a'', ''span'', ''div'', ''button'']),
      Many (none_of (lit ''>'')), word_edge C, text_like C (lit ''onclick''), spaces, text_like C (lit ''=''), spaces,
      one_of [34, 39], Many (none_of [34, 39]), alts (map (\<lambda>s. text_like C (lit s)) [''location'', ''href''])]"

definition check_js_links :: rule where
  "check_js_links A ctx =
     (let hits = (\<lambda>p. length (re_findall (js_navigation (ae_chars A)) (pd_html p)));
          offenders = map (\<lambda>p. pd_url p @ (lit '' ('') @ num (hits p) @ (fa '' mvrd)'')) (filter (\<lambda>p. 0 < hits p) (html_pages A ctx))
      in gives (unless_empty offenders (i_js_navigation offenders)))"

subsection \<open>Outbound links\<close>

definition i_broken_external_links :: "chars list \<Rightarrow> chars \<Rightarrow> issue" where
  "i_broken_external_links items external_checked = make_issue
     (lit ''broken-external-links'')
     (lit ''Broken outbound links'')
     (fa ''lynk_hay xrvjy xrab'')
     (num (length items) @
       fa '' lynk xarjy az '' @
       external_checked @
       fa '' lynk brrsy_Sdh kar nmy_knd. lynk xrab sygnal mHtvay rhaSdh v bh_rvznSdh ast '' @
       fa ''~ dqyqaN Cyzy kh arzyaby [E-E-A-T ]bh An Hsas ast.'')
     (fa ''lynk_ha ra bh_rvz kn ya HDfSan kn. agr mnbo aely az byn rfth, bh nsxh_y ArSyv '' @
       fa ''([web.archive.org) ]lynk bdh ya mnbo motbr jaygzyn pyda kn.'')
     S_Medium C_Links items (sample 4 items) []"

definition i_unsafe_target_blank :: "chars list \<Rightarrow> issue" where
  "i_unsafe_target_blank unsafe = make_issue
     (lit ''unsafe-target-blank'')
     (fa ''[target=$_blank$ without rel=noopener]'')
     (fa ''lynk xrvjy bdvn [rel=noopener]'')
     (num (length unsafe) @
       fa '' efHh lynk xarjy dard kh dr tb jdyd baz my_Svd vly [rel=$noopener$ ]ndard. '' @
       fa ''efHh_y mqed my_tvand az Tryq [window.opener ]bh efHh_y tv dstrsy pyda knd.'')
     (fa ''bh ayn lynk_ha [`rel=$noopener noreferrer$` ]aEafh kn.'')
     S_Low C_Links unsafe (sample 3 unsafe) []"

definition broken_entry :: "chars \<times> chars \<times> int \<times> chars option \<Rightarrow> chars" where
  "broken_entry b =
     (case b of (url, source, status, error) \<Rightarrow>
        url @ (lit '' ('') @ (if status \<noteq> 0 then inum status else case error of None \<Rightarrow> lit ''None'' | Some e \<Rightarrow> e) @ (fa '') ~ dr '') @ source)"

definition unsafe_link :: "audit_env \<Rightarrow> page_data \<Rightarrow> link_ref \<Rightarrow> bool" where
  "unsafe_link A p l \<longleftrightarrow> \<not> lk_internal l \<and> sublist (fa ''[target=$_blank$]'') (pd_html p) \<and> \<not> sublist (lit ''noopener'') (low A (lk_rel l))"

definition check_external :: rule where
  "check_external A ctx =
     (let items = map broken_entry (sc_broken_external ctx);
          unsafe = concat (map (\<lambda>p. case filter (unsafe_link A p) (pd_links p) of
                                       [] \<Rightarrow> [] | l # _ \<Rightarrow> [pd_url p @ (fa '' ^ '') @ lk_href l]) (html_pages A ctx))
      in gives (
           unless_empty items (i_broken_external_links items (inum (sc_external_checked ctx))) @
           (if 2 < length unsafe then [i_unsafe_target_blank unsafe] else [])))"

end
