(* ===== verification/Rules_Meta.thy ===== *)
theory Rules_Meta
  imports Audit_Model
begin

text \<open>
  \<^verbatim>\<open>src/services/engine/seoagent/rules/meta.py\<close>: titles, descriptions, canonical addresses and social cards.
\<close>

definition DOCS_TITLE :: chars where
  "DOCS_TITLE = lit ''https://developers.google.com/search/docs/appearance/title-link''"

definition DOCS_SNIPPET :: chars where
  "DOCS_SNIPPET = lit ''https://developers.google.com/search/docs/appearance/snippet''"

definition DOCS_CANONICAL :: chars where
  "DOCS_CANONICAL = lit ''https://developers.google.com/search/docs/crawling-indexing/consolidate-duplicate-urls''"

subsection \<open>Titles\<close>

definition i_title_missing :: "chars list \<Rightarrow> issue" where
  "i_title_missing missing = make_issue
     (lit ''title-missing'')
     (lit ''Missing <title> tag'')
     (fa ''tg onvan vjvd ndard'')
     (num (length missing) @
       fa '' efHh_y qabl ayndks hyC tg [<title> ]ndard. onvan mhm_tryn sygnal rvy efHh bray '' @
       fa ''fhmydn mvEvo efHh ast v hman Cyzy ast kh dr ntayj jstjv bh_onvan tytr Aby '' @
       fa ''nmayS dadh my_Svd.'')
     (fa ''bray hr efHh yk onvan ykta byn 25 ta 60 karaktr bnvys kh klmh klydy aely dr '' @
       fa ''abtday An baSd v nam brnd dr antha byayd. mcal: <AmvzS sYv tknykal [| ]'' @
       fa ''nam_brnd>.'')
     S_Critical C_Content missing (sample 5 missing) DOCS_TITLE"

definition i_title_too_short :: "chars list \<Rightarrow> issue" where
  "i_title_too_short short = make_issue
     (lit ''title-too-short'')
     (lit ''Title too short'')
     (fa ''onvan byS az Hd kvtah ast'')
     (num (length short) @
       fa '' efHh onvany kvtah_tr az '' @
       inum TITLE_MIN @
       fa '' karaktr dard. onvan kvtah fEay arzSmnd ntayj jstjv ra hdr my_dhd v klmat '' @
       fa ''klydy mrtbT ra az dst my_dhd.'')
     (fa ''onvan ra Tvry baznvysy kn kh hm klmh klydy aely v hm yk mzyt ya mSxeh_y '' @
       fa ''mtmayzknndh (sal, <rahnmay kaml>, <raygan>, qymt v ...) dr An byayd.'')
     S_Medium C_Content short (sample 3 short) DOCS_TITLE"

definition i_title_too_long :: "chars list \<Rightarrow> issue" where
  "i_title_too_long long = make_issue
     (lit ''title-too-long'')
     (lit ''Title too long'')
     (fa ''onvan byS az Hd blnd ast'')
     (num (length long) @
       fa '' efHh onvany blndtr az '' @
       inum TITLE_MAX @
       fa '' karaktr dard. gvgl onvan ra br asas orE pyksly my_brd v anthay An ba <...> '' @
       fa ''HDf my_Svd; dr ayn Halt pyam aely tv bh karbr nmy_rsd.'')
     (fa ''mhm_tryn klmat ra bh abtday onvan mntql kn v bxS_hay tkrary (mcl nam brnd dr '' @
       fa ''hmh_y efHat) ra kvtah kn ta zyr 60 karaktr bmand.'')
     S_Low C_Content long (sample 3 long) DOCS_TITLE"

definition i_title_duplicate :: "'a list \<Rightarrow> chars list \<Rightarrow> chars \<Rightarrow> chars \<Rightarrow> issue" where
  "i_title_duplicate dupes flat first occurrences = make_issue
     (lit ''title-duplicate'')
     (lit ''Duplicate titles'')
     (fa ''onvan_hay tkrary'')
     (num (length dupes) @
       fa '' onvan rvy mjmvoaN '' @
       num (length flat) @
       fa '' efHh tkrar Sdh ast. vqty Cnd efHh onvan yksan darnd gvgl An_ha ra rqyb hm '' @
       fa ''my_bynd v mmkn ast fqT yky ra ayndks knd.'')
     (fa ''bray hr efHh onvan ykta bnvys. agr efHat vaqoaN mHtvay yksany darnd (mcl '' @
       fa ''efHat efHh_bndy ya fyltrSdh), tg [canonical ]An_ha ra bh nsxh_y aely aSarh bdh.'')
     S_High C_Content flat (fa ''mcal: <'' @
       first @
       fa ''> rvy '' @
       occurrences @
       fa '' efHh'') DOCS_TITLE"

text \<open>The pages whose field is empty, and the others with their text.\<close>

definition lacking :: "(page_data \<Rightarrow> chars option) \<Rightarrow> page_data list \<Rightarrow> page_data list" where
  "lacking field pages = filter (\<lambda>p. strip_white (given (field p)) = []) pages"

definition having :: "(page_data \<Rightarrow> chars option) \<Rightarrow> page_data list \<Rightarrow> (page_data \<times> chars) list" where
  "having field pages = filter (\<lambda>(p, t). t \<noteq> []) (map (\<lambda>p. (p, strip_white (given (field p)))) pages)"

definition shorter_than :: "int \<Rightarrow> (page_data \<times> chars) list \<Rightarrow> (page_data \<times> chars) list" where
  "shorter_than n pts = filter (\<lambda>(p, t). int (length t) < n) pts"

definition longer_than :: "int \<Rightarrow> int \<Rightarrow> (page_data \<times> chars) list \<Rightarrow> (page_data \<times> chars) list" where
  "longer_than n m pts = filter (\<lambda>(p, t). \<not> int (length t) < n \<and> m < int (length t)) pts"

definition by_text :: "audit_env \<Rightarrow> (page_data \<times> chars) list \<Rightarrow> (chars \<times> chars list) list" where
  "by_text A pts = groups (map (\<lambda>(p, t). (low A t, pd_url p)) pts)"

definition with_length :: "page_data \<times> chars \<Rightarrow> chars" where
  "with_length pt = pd_url (fst pt) @ (lit '' ('') @ num (length (snd pt)) @ (fa '' karaktr)'')"

definition with_length_and_text :: "page_data \<times> chars \<Rightarrow> chars" where
  "with_length_and_text pt = pd_url (fst pt) @ (lit '' ('') @ num (length (snd pt)) @ (fa '' karaktr: <'') @ snd pt @ (fa ''>)'')"

definition check_titles :: rule where
  "check_titles A ctx =
     (let pages = pages_to_index A ctx;
          missing = map pd_url (lacking pd_title pages);
          titled = having pd_title pages;
          short = map with_length_and_text (shorter_than TITLE_MIN titled);
          long = map with_length (longer_than TITLE_MIN TITLE_MAX titled);
          dupes = repeated (by_text A titled);
          flat = concat (map snd dupes)
      in gives (
           unless_empty missing (i_title_missing missing) @
           unless_empty short (i_title_too_short short) @
           unless_empty long (i_title_too_long long) @
           (case dupes of [] \<Rightarrow> []
            | (first, urls) # _ \<Rightarrow> [i_title_duplicate dupes flat first (num (length urls))])))"

subsection \<open>Descriptions\<close>

definition i_meta_description_missing :: "chars list \<Rightarrow> issue" where
  "i_meta_description_missing missing = make_issue
     (lit ''meta-description-missing'')
     (lit ''Missing meta description'')
     (fa ''mta dyskrypSn vjvd ndard'')
     (num (length missing) @
       fa '' efHh mta dyskrypSn ndard. mta dyskrypSn faktvr rtbh_bndy mstqym nyst, ama '' @
       fa ''asnypt zyr onvan ra my_sazd v mstqymaN rvy nrx klyk ([CTR) ]acr my_gDard. bdvn '' @
       fa ''An gvgl xvdS tkh_ay az mtn efHh ra brmy_dard kh momvlaN jDab nyst.'')
     (fa ''bray hr efHh yk tvEyH 70 ta 160 karaktry bnvys kh bh sVal karbr jvab bdhd v '' @
       fa ''yk fraxvan bh aqdam daSth baSd. klmh klydy ra Tbyoy dr An byavr (dr ntayj '' @
       fa ''prrng my_Svd).'')
     S_Medium C_Content missing (sample 5 missing) DOCS_SNIPPET"

definition i_meta_description_short :: "chars list \<Rightarrow> issue" where
  "i_meta_description_short too_short = make_issue
     (lit ''meta-description-short'')
     (lit ''Meta description too short'')
     (fa ''mta dyskrypSn kvtah ast'')
     (num (length too_short) @
       fa '' efHh tvEyHy kvtah_tr az '' @
       inum DESC_MIN @
       fa '' karaktr dard v az fEay asnypt kaml astfadh nmy_knd.'')
     (fa ''tvEyH ra ta Hdvd 150 karaktr gstrS bdh: msYlh_y karbr, rah_Hl tv, v yk dlyl '' @
       fa ''bray klyk.'')
     S_Low C_Content too_short (sample 3 too_short) DOCS_SNIPPET"

definition i_meta_description_long :: "chars list \<Rightarrow> issue" where
  "i_meta_description_long too_long = make_issue
     (lit ''meta-description-long'')
     (lit ''Meta description too long'')
     (fa ''mta dyskrypSn blnd ast'')
     (num (length too_long) @
       fa '' efHh tvEyHy blndtr az '' @
       inum DESC_MAX @
       fa '' karaktr dard kh dr ntayj brydh my_Svd.'')
     (fa ''pyam aely v fraxvan bh aqdam ra bh 120 karaktr avl mntql kn.'')
     S_Low C_Content too_long (sample 3 too_long) DOCS_SNIPPET"

definition i_meta_description_duplicate :: "'a list \<Rightarrow> chars list \<Rightarrow> issue" where
  "i_meta_description_duplicate dupes flat = make_issue
     (lit ''meta-description-duplicate'')
     (lit ''Duplicate meta descriptions'')
     (fa ''mta dyskrypSn tkrary'')
     (num (length dupes) @
       fa '' tvEyH rvy '' @
       num (length flat) @
       fa '' efHh tkrar Sdh ast. ayn momvlaN nSanh_y qalb pyS_frE [CMS ]ast v yony hyC_kdam '' @
       fa ''az efHat pyam axteaey xvdSan ra ndarnd.'')
     (fa ''tvEyH hr efHh ra jdaganh bnvys, ya agr todad efHat zyad ast az yk algvy pvya '' @
       fa ''astfadh kn kh fyldhay vaqoy hman efHh (onvan, dsth, qymt) ra daxl xvdS byavrd.'')
     S_Low C_Content flat (sample 4 flat) DOCS_SNIPPET"

definition check_descriptions :: rule where
  "check_descriptions A ctx =
     (let pages = pages_to_index A ctx;
          missing = map pd_url (lacking pd_description pages);
          described = having pd_description pages;
          too_short = map with_length (shorter_than DESC_MIN described);
          too_long = map with_length (longer_than DESC_MIN DESC_MAX described);
          dupes = repeated (by_text A described);
          flat = concat (map snd dupes)
      in gives (
           unless_empty missing (i_meta_description_missing missing) @
           unless_empty too_short (i_meta_description_short too_short) @
           unless_empty too_long (i_meta_description_long too_long) @
           unless_empty dupes (i_meta_description_duplicate dupes flat)))"

subsection \<open>Canonical addresses\<close>

definition i_canonical_missing :: "chars list \<Rightarrow> issue" where
  "i_canonical_missing missing = make_issue
     (lit ''canonical-missing'')
     (lit ''Missing canonical tag'')
     (fa ''tg [canonical ]toryf nSdh'')
     (num (length missing) @
       fa '' efHh tg [rel=canonical ]ndard. bdvn An, agr hman mHtva az Cnd Adrs dr dstrs '' @
       fa ''baSd (ba /, bdvn /, ba paramtr [UTM], [http ]v [https) ]gvgl xvdS bayd Hds bznd '' @
       fa ''kdam nsxh aely ast v mmkn ast aStbah antxab knd.'')
     (fa ''dr [<head> ]hr efHh yk [<link rel=$canonical$ href=$]Adrs-mTlq-hman-efHh[$> ]bgDar. '' @
       fa ''HtmaN Adrs mTlq v ba prvtkl kaml baSd, nh nsby.'')
     S_Medium C_Indexing missing (sample 5 missing) DOCS_CANONICAL"

definition i_canonical_external :: "chars list \<Rightarrow> issue" where
  "i_canonical_external external = make_issue
     (lit ''canonical-external'')
     (lit ''Canonical points to another domain'')
     (fa ''[canonical ]bh damnh_y dygry aSarh my_knd'')
     (num (length external) @
       fa '' efHh [canonical ]xvd ra bh damnh_y dygry dadh ast. ayn yony bh gvgl my_gvyy '' @
       fa ''<ayn efHh ra ayndks nkn, nsxh_y aely jay dygry ast> ~ kh agr omdy nbaSd kl '' @
       fa ''efHh ra az ntayj HDf my_knd.'')
     (fa ''agr mHtva mal xvdt ast [canonical ]ra bh Adrs hmyn damnh aelaH kn. agr mHtvay '' @
       fa ''baznSrSdh ast, ayn tnZym drst ast v nyazy bh tGyyr ndard.'')
     S_Critical C_Indexing external (sample 3 external) DOCS_CANONICAL"

definition i_canonical_to_noindex :: "chars list \<Rightarrow> issue" where
  "i_canonical_to_noindex non_indexable_target = make_issue
     (lit ''canonical-to-noindex'')
     (lit ''Canonical points to a noindex page'')
     (fa ''[canonical ]bh efHh_y [noindex ]aSarh dard'')
     (num (length non_indexable_target) @
       fa '' efHh [canonical ]xvd ra bh efHh_ay dadh kh xvdS [noindex ]ast. ayn sygnal mtnaqE '' @
       fa ''ast: gvgl nmy_dand kdam nsxh ra ngh dard v momvlaN hr dv ra knar my_gDard.'')
     (fa ''ya [noindex ]ra az efHh_y mqed brdar, ya [canonical ]ra bh yk efHh_y qabl ayndks '' @
       fa ''tGyyr bdh.'')
     S_High C_Indexing non_indexable_target (sample 3 non_indexable_target) DOCS_CANONICAL"

definition i_canonical_mismatch :: "chars list \<Rightarrow> issue" where
  "i_canonical_mismatch mismatched = make_issue
     (lit ''canonical-mismatch'')
     (lit ''Canonical differs from page URL'')
     (fa ''[canonical ]ba Adrs xvd efHh frq dard'')
     (num (length mismatched) @
       fa '' efHh [canonical ]xvd ra bh Adrs dygry dadh_and. agr ayn efHat vaqoaN nsxh_y '' @
       fa ''tkrary hstnd mSkly nyst, ama agr mHtvay ykta darnd az ayndks xarj my_Svnd.'')
     (fa ''fhrst ra mrvr kn: hr efHh_ay kh mHtvay mstql dard bayd [canonical ]bh xvdS bdhd.'')
     S_Medium C_Indexing mismatched (sample 3 mismatched) DOCS_CANONICAL"

definition final_or_own :: "page_data \<Rightarrow> chars" where
  "final_or_own p = (if pd_final_url p = [] then pd_url p else pd_final_url p)"

datatype canonical_fate =
    Canonical_Missing
  | Canonical_External
  | Canonical_Same
  | Canonical_Other
  | Canonical_Noindex

definition fate_of_canonical :: "audit_env \<Rightarrow> chars \<Rightarrow> chars list \<Rightarrow> page_data \<Rightarrow> canonical_fate py" where
  "fate_of_canonical A origin noindex_urls p =
     (if given (pd_canonical p) = [] then Inr Canonical_Missing
      else bindE (normalize_url A (given (pd_canonical p))) (\<lambda>canonical.
           bindE (normalize_url A (final_or_own p)) (\<lambda>current.
           bindE (same_site A canonical origin True) (\<lambda>own.
             Inr (if \<not> own then Canonical_External
                  else if canonical = current then Canonical_Same
                  else if canonical \<in> set noindex_urls then Canonical_Noindex else Canonical_Other)))))"

definition points_to :: "page_data \<Rightarrow> chars" where
  "points_to p = pd_url p @ (fa '' ^ '') @ given (pd_canonical p)"

definition with_fate :: "canonical_fate set \<Rightarrow> (page_data \<times> canonical_fate) list \<Rightarrow> page_data list" where
  "with_fate fs pfs = map fst (filter (\<lambda>pf. snd pf \<in> fs) pfs)"

definition check_canonicals :: rule where
  "check_canonicals A ctx =
     first_of (mapE (\<lambda>p. normalize_url A (pd_url p)) (filter (is_noindex A) (html_pages A ctx))) (\<lambda>noindex_urls.
     first_of (mapE (\<lambda>p. bindE (fate_of_canonical A (sc_origin ctx) noindex_urls p) (\<lambda>f. Inr (p, f))) (pages_to_index A ctx)) (\<lambda>fates.
       (let missing = map pd_url (with_fate {Canonical_Missing} fates);
            external = map points_to (with_fate {Canonical_External} fates);
            mismatched = map points_to (with_fate {Canonical_Other, Canonical_Noindex} fates);
            non_indexable_target = map points_to (with_fate {Canonical_Noindex} fates)
        in gives (
             unless_empty missing (i_canonical_missing missing) @
             unless_empty external (i_canonical_external external) @
             (if non_indexable_target \<noteq> [] then [i_canonical_to_noindex non_indexable_target]
              else unless_empty mismatched (i_canonical_mismatch mismatched))))))"

subsection \<open>Social cards\<close>

definition i_og_missing :: "chars list \<Rightarrow> issue" where
  "i_og_missing missing_og = make_issue
     (lit ''og-missing'')
     (lit ''Missing Open Graph tags'')
     (fa ''tg_hay [Open Graph ]vjvd ndard'')
     (num (length missing_og) @
       fa '' efHh tg_hay [og: ]ndard. vqty lynk efHh dr tlgram, vatsap, lynkdyn ya ayks bh '' @
       fa ''aStrak gDaSth my_Svd, pyS_nmayS bdvn onvan v tevyr nmayS dadh my_Svd v nrx '' @
       fa ''klyk bh_Sdt aft my_knd. aStrak_gDary ajtmaoy bh_Tvr Gyrmstqym rvy lynk_sazy v '' @
       fa ''brndsazy acr dard.'')
     (fa ''bh [<head> ]aEafh kn: [og:title], [og:description], [og:image (]1200*630 pyksl), '' @
       fa ''[og:url ]v [og:type. ]bray ayks hm [twitter:card=summary_large_image ]bgDar.'')
     S_Low C_Content missing_og (sample 5 missing_og) (lit ''https://ogp.me/'')"

definition i_og_image_missing :: "chars list \<Rightarrow> issue" where
  "i_og_image_missing missing_image = make_issue
     (lit ''og-image-missing'')
     (lit ''Open Graph image missing'')
     (fa ''tevyr [Open Graph ]toryf nSdh'')
     (num (length missing_image) @
       fa '' efHh tg [og:image ]ndard v hngam aStrak_gDary bdvn tevyr dydh my_Svd.'')
     (fa ''yk tevyr 1200*630 pyksl ba Adrs mTlq dr [og:image ]qrar bdh.'')
     S_Low C_Content missing_image (sample 3 missing_image) (lit ''https://ogp.me/'')"

definition check_social :: rule where
  "check_social A ctx =
     (let bare = (\<lambda>p. entry (pd_og p) ''og:title'' = [] \<and> entry (pd_og p) ''og:description'' = []);
          missing_og = map pd_url (filter bare (pages_to_index A ctx));
          missing_image = map pd_url (filter (\<lambda>p. \<not> bare p \<and> entry (pd_og p) ''og:image'' = []) (pages_to_index A ctx))
      in gives (
           unless_empty missing_og (i_og_missing missing_og) @
           unless_empty missing_image (i_og_image_missing missing_image)))"

end
