(* ===== verification/Rules_Performance.thy ===== *)
theory Rules_Performance
  imports Audit_Model
begin

text \<open>
  \<^verbatim>\<open>src/services/engine/seoagent/rules/performance.py\<close>: field data of PageSpeed Insights, page weight, blocking
  resources and caching.
\<close>

definition HEAVY_PAGE_BYTES :: int where "HEAVY_PAGE_BYTES = 500000"

definition SLOW_RESPONSE_MS :: int where "SLOW_RESPONSE_MS = 800"

definition MANY_SCRIPTS :: int where "MANY_SCRIPTS = 15"

definition DOCS_CWV :: chars where
  "DOCS_CWV = lit ''https://web.dev/articles/vitals''"

subsection \<open>Field data\<close>

definition i_cwv :: "chars \<Rightarrow> chars \<Rightarrow> chars \<Rightarrow> chars \<Rightarrow> chars \<Rightarrow> chars \<Rightarrow> chars \<Rightarrow> chars \<Rightarrow> chars \<Rightarrow> severity \<Rightarrow> chars \<Rightarrow> issue" where
  "i_cwv slug short status label_fa status_fa value unit threshold remedy severity start_url = make_issue
     (lit ''cwv-'' @
       slug)
     (lit ''Core Web Vital '' @
       short @
       lit '' is '' @
       status)
     (fa ''moyar '' @
       short @
       lit '' ('' @
       label_fa @
       fa '') vEoyt '' @
       status_fa @
       fa '' dard'')
     (fa ''dadh_y vaqoy karbran gvgl ([CrUX) ]bray ayn Adrs mqdar '' @
       value @
       unit @
       fa '' ra nSan my_dhd; Hd <xvb> '' @
       threshold @
       unit @
       fa '' ast. [Core Web Vitals ]bxSy az sygnal_hay tjrbh_y efHh ast v dr rqabt_hay '' @
       fa ''nzdyk toyyn_knndh my_Svd.'')
     remedy
     severity C_Performance [start_url] (fa ''mqdar edk 75 karbran: '' @
       value @
       unit) DOCS_CWV"

definition i_psi :: "chars \<Rightarrow> chars \<Rightarrow> chars \<Rightarrow> chars \<Rightarrow> issue" where
  "i_psi ident title savings start_url = make_issue
     (lit ''psi-'' @
       ident)
     (lit ''PageSpeed opportunity: '' @
       title)
     (fa ''fret bhbvd srot: '' @
       title)
     (fa ''layt_havs txmyn my_znd rfo ayn mvrd Hdvd '' @
       savings @
       fa '' myly_canyh az zman bargDary km my_knd.'')
     (fa ''jzYyat v fhrst fayl_hay dxyl ra dr gzarS [PageSpeed Insights ]hmyn Adrs bbyn.'')
     S_Low C_Performance [start_url] [] (lit ''https://pagespeed.web.dev/'')"

definition remedies :: "(string \<times> chars) list" where
  "remedies =
     [(''LCP'', fa ''bzrg_tryn oner balay efHh (momvlaN tevyr Saxe ya tytr) ra sryo_tr kn: tevyr '' @
        fa ''ra ba [fetchpriority=$high$ ]v bdvn [lazy ]bargDary kn, fvnt_ha ra [preload ]kn, v '' @
        fa ''zman pasx srvr ([TTFB) ]ra ba kS krdn payyn byavr.''),
      (''INP'', fa ''javaaskrypt sngyn ra bSkn: karhay Tvlany ra bh tkh_hay kvCk tqsym kn, '' @
        fa ''askrypt_hay Sxe calc (Ct Anlayn, tblyGat, Analytyks) ra ba [defer ]ya bod az '' @
        fa ''toaml karbr bargDary kn, v az hndlrhay sngyn rvy rvydadhay prtkrar prhyz kn.''),
      (''CLS'', fa ''bray teavyr v vydyvha [width ]v [height ]bgDar, bray tblyGat v vyjt_ha fEay cabt '' @
        fa ''rzrv kn, v fvnt_ha ra ba [font-display: swap ]v [preload ]bargDary kn ta mtn '' @
        fa ''jabh_ja nSvd.''),
      (''FCP'', fa ''mnabo msdvdknndh_y rndr ra HDf kn, [CSS ]bHrany ra [inline ]kn v bqyh ra ba tIxyr '' @
        fa ''bargDary kn.''),
      (''TTFB'', fa ''pasx srvr ra ba kS efHh, [CDN ]v bhynh_sazy kvYry_hay dytabys sryo_tr kn.'')]"

definition other_remedy :: chars where
  "other_remedy = (fa ''gzarS [PageSpeed Insights ]hmyn Adrs ra bray fhrst dqyq aqdamat bbyn.'')"

text \<open>\<^verbatim>\<open>data[key]\<close>, \<^verbatim>\<open>f"{x}"\<close> and \<^verbatim>\<open>f"{x:g}"\<close> of a value that was JSON.\<close>

definition item_of :: "json \<Rightarrow> string \<Rightarrow> json py" where
  "item_of j k = (case j of JObj d \<Rightarrow> ditem d k | _ \<Rightarrow> Inl TypeError)"

definition general :: "audit_env \<Rightarrow> json \<Rightarrow> chars py" where
  "general A j =
     (case j of
        JInt i \<Rightarrow> Inr (ae_general A (of_int i))
      | JFloat r \<Rightarrow> Inr (ae_general A r)
      | JBool b \<Rightarrow> Inr (ae_general A (if b then 1 else 0))
      | JStr s \<Rightarrow> Inl (ValueError ''Unknown format code'')
      | _ \<Rightarrow> Inl TypeError)"

definition severity_for :: "json \<Rightarrow> severity py" where
  "severity_for status =
     (case status of
        JList xs \<Rightarrow> Inl TypeError
      | JObj d \<Rightarrow> Inl TypeError
      | _ \<Rightarrow> Inr (if status = JStr ''poor'' then S_High else S_Medium))"

definition vital_issue :: "audit_env \<Rightarrow> chars \<Rightarrow> string \<Rightarrow> json \<Rightarrow> issue list py" where
  "vital_issue A start_url short data =
     bindE (item_of data ''status'') (\<lambda>status.
     if status = JStr ''good'' then Inr []
     else
       bindE (item_of data ''unit'') (\<lambda>u.
       bindE (item_of data ''good_threshold'') (\<lambda>threshold.
       bindE (item_of data ''label_fa'') (\<lambda>label_fa.
       bindE (item_of data ''value'') (\<lambda>v.
       bindE (general A v) (\<lambda>value.
       bindE (general A threshold) (\<lambda>limit.
       bindE (severity_for status) (\<lambda>severity.
         (let name = code_points short;
              status_fa = (if status = JStr ''poor'' then (fa ''Eoyf'') else (fa ''nyazmnd bhbvd''));
              unit = (if truthy u then lit '' '' @ ae_str A u else []);
              remedy = (case map_of remedies short of None \<Rightarrow> other_remedy | Some r \<Rightarrow> r)
          in Inr [i_cwv (low A name) name (ae_str A status) (ae_str A label_fa) status_fa value unit limit remedy severity start_url])))))))))"

definition opportunity_issue :: "audit_env \<Rightarrow> chars \<Rightarrow> json \<Rightarrow> issue list py" where
  "opportunity_issue A start_url j =
     bindE (item_of j ''id'') (\<lambda>ident.
     bindE (item_of j ''title'') (\<lambda>title.
     bindE (item_of j ''savings_ms'') (\<lambda>savings.
       Inr [i_psi (ae_str A ident) (ae_str A title) (ae_str A savings) start_url])))"

text \<open>Issues one at a time; the first exception ends the rule and keeps those before it.\<close>

fun each_in_turn :: "('a \<Rightarrow> issue list py) \<Rightarrow> 'a list \<Rightarrow> findings" where
  "each_in_turn f [] = gives []"
| "each_in_turn f (x # xs) = and_then (first_of (f x) gives) (each_in_turn f xs)"

definition first_four :: "json \<Rightarrow> json list py" where
  "first_four j =
     (case j of JList xs \<Rightarrow> Inr (take 4 xs) | JStr [] \<Rightarrow> Inr [] | _ \<Rightarrow> Inl TypeError)"

definition check_field_data :: rule where
  "check_field_data A ctx =
     (case sc_psi ctx of
        None \<Rightarrow> gives []
      | Some psi \<Rightarrow>
          if psi = [] \<or> truthy (dget psi ''error'') \<or> \<not> truthy (dget psi ''field'') then gives []
          else
            (case dget psi ''field'' of
               JObj d \<Rightarrow>
                 and_then (each_in_turn (\<lambda>(short, data). vital_issue A (sc_start_url ctx) short data) d)
                   (first_of (first_four (dget_default psi ''opportunities'' (JList [])))
                      (each_in_turn (opportunity_issue A (sc_start_url ctx))))
             | _ \<Rightarrow> ([], Some AttributeError)))"

subsection \<open>Page weight\<close>

definition i_heavy_html :: "chars list \<Rightarrow> issue" where
  "i_heavy_html heavy = make_issue
     (lit ''heavy-html'')
     (lit ''Very large HTML documents'')
     (fa ''snd [HTML ]byS az Hd sngyn'')
     (num (length heavy) @
       fa '' efHh byS az '' @
       inum (HEAVY_PAGE_BYTES div 1024) @
       fa '' kylvbayt [HTML ]xam dard. [HTML ]sngyn yony mrvrgr dyrtr Srvo bh rndr my_knd v '' @
       fa ''[LCP ]bdtr my_Svd. momvlaN dlylS dadh_y drvn_xTy zyad ya [DOM ]bsyar bzrg ast.'')
     (fa ''dadh_hay drvn_xTy v [CSS/JS ]tzryq_Sdh ra bh fayl_hay jda ba qablyt kS mntql '' @
       fa ''kn, v agr fhrst blndy rndr my_Svd az efHh_bndy ya bargDary tdryjy astfadh kn.'')
     S_Medium C_Performance heavy (sample 3 heavy) DOCS_CWV"

definition i_slow_response :: "chars list \<Rightarrow> issue" where
  "i_slow_response slow = make_issue
     (lit ''slow-response'')
     (lit ''Slow server response (TTFB)'')
     (fa ''pasx knd srvr'')
     (num (length slow) @
       fa '' efHh byS az '' @
       inum SLOW_RESPONSE_MS @
       fa '' myly_canyh Tvl kSyd ta pasx bdhd. zman pasx srvr kf zman bargDary ast: hr '' @
       fa ''myly_canyh aynja mstqymaN bh [LCP ]aEafh my_Svd. gvgl [TTFB ]zyr 800 myly_canyh '' @
       fa ''ra tveyh my_knd.'')
     (fa ''kS efHh dr smt srvr ra foal kn, az [CDN ]astfadh kn, kvYry_hay knd dytabys ra '' @
       fa ''bhynh kn v agr srvr dr xarj az ayran ast srot msyr Sbkh ra hm bsnj.'')
     S_High C_Performance slow (sample 4 slow) (lit ''https://web.dev/articles/ttfb'')"

definition i_too_many_scripts :: "chars list \<Rightarrow> issue" where
  "i_too_many_scripts script_heavy = make_issue
     (lit ''too-many-scripts'')
     (lit ''Too many external scripts'')
     (fa ''todad zyad askrypt xarjy'')
     (num (length script_heavy) @
       fa '' efHh byS az '' @
       inum MANY_SCRIPTS @
       fa '' fayl askrypt xarjy bargDary my_knd. hr askrypt Sxe calc hm zman bargDary ra '' @
       fa ''zyad my_knd v hm rSth_y aely ra mSGvl my_knd kh mstqymaN moyar [INP ]ra xrab '' @
       fa ''my_knd.'')
     (fa ''fhrst askrypt_ha ra mrvr kn v hrCh vaqoaN lazm nyst HDf kn. bqyh ra ba [defer ]'' @
       fa ''bargDary kn v abzarhay sngyn (Ct, nqSh, vydyv) ra fqT bod az toaml karbr lvd '' @
       fa ''kn.'')
     S_Medium C_Performance script_heavy (sample 3 script_heavy) (lit ''https://web.dev/articles/inp'')"

definition i_large_inline_script :: "chars list \<Rightarrow> issue" where
  "i_large_inline_script inline_heavy = make_issue
     (lit ''large-inline-script'')
     (lit ''Large inline scripts'')
     (fa ''askrypt drvn_xTy Hjym'')
     (num (length inline_heavy) @
       fa '' efHh askrypt drvn_xTy bsyar bzrgy dard. askrypt drvn_xTy qabl kS Sdn nyst, '' @
       fa ''ps dr hr bazdyd dvbarh danlvd my_Svd.'')
     (fa ''ayn kdha ra bh fayl .[js ]jda mntql kn ta mrvrgr btvand kSSan knd.'')
     S_Low C_Performance inline_heavy (sample 3 inline_heavy) DOCS_CWV"

definition check_page_weight :: rule where
  "check_page_weight A ctx =
     (let pages = html_pages A ctx;
          heavy = map (\<lambda>p. pd_url p @ (lit '' ('') @ inum (pd_byte_size p div 1024) @ (fa '' kylvbayt [HTML)]''))
            (filter (\<lambda>p. HEAVY_PAGE_BYTES < pd_byte_size p) pages);
          slow = map (\<lambda>p. pd_url p @ (lit '' ('') @ inum (pd_elapsed_ms p) @ (fa '' myly_canyh)''))
            (filter (\<lambda>p. SLOW_RESPONSE_MS < pd_elapsed_ms p) pages);
          script_heavy = map (\<lambda>p. pd_url p @ (lit '' ('') @ inum (pd_external_scripts p) @ (fa '' askrypt xarjy)''))
            (filter (\<lambda>p. MANY_SCRIPTS < pd_external_scripts p) pages);
          inline_heavy = map (\<lambda>p. pd_url p @ (lit '' ('') @ inum (pd_inline_script_bytes p div 1024) @ (fa '' kylvbayt askrypt drvn_xTy)''))
            (filter (\<lambda>p. 100000 < pd_inline_script_bytes p) pages)
      in gives (
           unless_empty heavy (i_heavy_html heavy) @
           unless_empty slow (i_slow_response slow) @
           unless_empty script_heavy (i_too_many_scripts script_heavy) @
           unless_empty inline_heavy (i_large_inline_script inline_heavy)))"

subsection \<open>Blocking resources and caching\<close>

definition i_render_blocking_resources :: "chars list \<Rightarrow> issue" where
  "i_render_blocking_resources offenders = make_issue
     (lit ''render-blocking-resources'')
     (lit ''Render-blocking resources in <head>'')
     (fa ''mnabo msdvdknndh_y rndr dr [head]'')
     (num (length offenders) @
       fa '' efHh Cnd fayl [CSS/JS ]msdvdknndh dr [head ]dard. mrvrgr ta danlvd v ajray kaml '' @
       fa ''ayn fayl_ha hyC Cyzy rvy efHh nSan nmy_dhd, yony [FCP ]v [LCP ]hr dv oqb my_aftnd.'')
     (fa ''bh tg_hay [script ]dr [head ]vyJgy [`defer` (]ya [`async` ]bray askrypt_hay mstql) '' @
       fa ''aEafh kn. bray [CSS], astayl_hay bHrany balay efHh ra [inline ]kn v bqyh ra ba '' @
       fa ''[`<link rel=$preload$ as=$style$ onload=$this.rel=~stylesheet~$>` ]ba tIxyr '' @
       fa ''bargDary kn.'')
     S_Medium C_Performance offenders (sample 3 offenders) (lit ''https://developer.chrome.com/docs/lighthouse/performance/render-blocking-resources'')"

definition check_render_blocking :: rule where
  "check_render_blocking A ctx =
     (let offenders = map (\<lambda>p. pd_url p @ (lit '' ('') @ inum (pd_blocking_scripts p) @ (fa '' askrypt + '') @ inum (pd_blocking_styles p) @ (fa '' astayl)''))
            (filter (\<lambda>p. 4 \<le> pd_blocking_scripts p + pd_blocking_styles p) (html_pages A ctx))
      in gives (unless_empty offenders (i_render_blocking_resources offenders)))"

definition i_no_cache_headers :: "chars \<Rightarrow> chars \<Rightarrow> issue" where
  "i_no_cache_headers start_url current = make_issue
     (lit ''no-cache-headers'')
     (lit ''No caching headers'')
     (fa ''hdr kS tnZym nSdh'')
     (fa ''pasx srvr hdr [Cache-Control ]monadary ndard. bdvn An, mrvrgr v [CDN ]nmy_dannd '' @
       fa ''Ch Cyzy ra Cqdr ngh darnd v bazdydhay body hman karbr hm knd xvahd bvd.'')
     (fa ''bray fayl_hay cabt (tevyr, [CSS], [JS ]ba nam hS_dar) hdr [`Cache-Control: public, ]'' @
       fa ''[max-age=31536000, immutable` ]v bray [HTML ]mqdar kvtah_tr hmrah ba [ETag ]tnZym '' @
       fa ''kn.'')
     S_Low C_Performance [start_url] (fa ''mqdar foly: '' @
       current) (lit ''https://web.dev/articles/http-cache'')"

definition check_caching :: rule where
  "check_caching A ctx =
     (case sc_pages ctx of
        [] \<Rightarrow> gives []
      | homepage # _ \<Rightarrow>
          (let cache_control = low A (entry (pd_headers homepage) ''cache-control'') in
           gives (
             if pd_headers homepage = [] then []
             else if cache_control = [] \<or> sublist (lit ''no-store'') cache_control
             then [i_no_cache_headers (sc_start_url ctx) (if cache_control = [] then (fa ''ndard'') else cache_control)]
             else [])))"

end
