(* ===== verification/Rules_Structured.thy ===== *)
theory Rules_Structured
  imports Audit_Model
begin

text \<open>
  \<^verbatim>\<open>src/services/engine/seoagent/rules/structured.py\<close>: presence, validity and coverage of structured data.
\<close>

definition DOCS_SD :: chars where
  "DOCS_SD = lit ''https://developers.google.com/search/docs/appearance/structured-data/search-gallery''"

definition REQUIRED_FIELDS :: "(string \<times> string list) list" where
  "REQUIRED_FIELDS =
     [(''Article'', [''headline'']),
      (''NewsArticle'', [''headline'']),
      (''BlogPosting'', [''headline'']),
      (''Product'', [''name'']),
      (''Recipe'', [''name'', ''image'']),
      (''Event'', [''name'', ''startDate'', ''location'']),
      (''JobPosting'', [''title'', ''datePosted'', ''hiringOrganization'']),
      (''LocalBusiness'', [''name'', ''address'']),
      (''Organization'', [''name'']),
      (''BreadcrumbList'', [''itemListElement'']),
      (''VideoObject'', [''name'', ''thumbnailUrl'', ''uploadDate'']),
      (''SoftwareApplication'', [''name'']),
      (''Course'', [''name''])]"

definition DEPRECATED_TYPES :: "(string \<times> chars) list" where
  "DEPRECATED_TYPES =
     [(''FAQPage'', fa ''az avt 2023 gvgl ntayj Gny [FAQ ]ra fqT bray sayt_hay dvlty v slamt motbr nSan '' @
        fa ''my_dhd''),
      (''HowTo'', fa ''ntayj Gny [HowTo ]az sal 2023 knar gDaSth Sd'')]"

text \<open>The types a block names.\<close>

fun text_items :: "json list \<Rightarrow> string list" where
  "text_items [] = []"
| "text_items (JStr s # js) = s # text_items js"
| "text_items (_ # js) = text_items js"

definition block_types :: "dict \<Rightarrow> string list" where
  "block_types block =
     (case dget block ''@type'' of JStr s \<Rightarrow> [s] | JList js \<Rightarrow> text_items js | _ \<Rightarrow> [])"

subsection \<open>Presence\<close>

definition i_no_structured_data :: "chars \<Rightarrow> issue" where
  "i_no_structured_data start_url = make_issue
     (lit ''no-structured-data'')
     (lit ''No structured data at all'')
     (fa ''hyC dadh saxtaryafth_ay vjvd ndard'')
     (fa ''hyC_kdam az efHat [JSON-LD ]ya [microdata ]ndarnd. dadh saxtaryafth bh gvgl '' @
       fa ''my_gvyd mHtvay efHh dqyqaN Ch Cyzy ast (mqalh, mHevl, ksb_vkar mHly) v SrT '' @
       fa ''lazm bray nmayS ntayj Gny, starh_y amtyaz, qymt v brdkramb dr ntayj ast. bray '' @
       fa ''mvtvrhay jstjvy mbtny br hvS menvoy hm mhm_tryn rah antqal dadh_y eryH ast.'')
     (fa ''ba [JSON-LD ]Srvo kn (frmt pySnhady xvd gvgl): dr efHh_y aely [Organization ]ya '' @
       fa ''[LocalBusiness], dr mqalat [Article], dr efHat mHevl [Product ]v dr hmh_y efHat '' @
       fa ''[BreadcrumbList. ]xrvjy ra ba abzar [Rich Results Test ]gvgl tst kn.'')
     S_High C_Structured_Data [start_url] [] DOCS_SD"

definition i_structured_data_partial :: "chars list \<Rightarrow> 'a list \<Rightarrow> issue" where
  "i_structured_data_partial without pages = make_issue
     (lit ''structured-data-partial'')
     (lit ''Structured data missing on many pages'')
     (fa ''dadh saxtaryafth rvy bsyary az efHat nyst'')
     (num (length without) @
       fa '' efHh az '' @
       num (length pages) @
       fa '' efHh hyC dadh saxtaryafth_ay ndard.'')
     (fa ''nSanh_gDary ra dr sTH qalb sayt pyadh kn ta hmh_y efHat hm_nvo bh_evrt xvdkar '' @
       fa ''pvSS dadh Svnd.'')
     S_Medium C_Structured_Data without (sample 4 without) DOCS_SD"

definition check_presence :: rule where
  "check_presence A ctx =
     (let pages = pages_to_index A ctx;
          without = map pd_url (filter (\<lambda>p. pd_jsonld p = [] \<and> pd_microdata p = []) pages)
      in gives (
           if pages = [] then []
           else if length without = length pages then [i_no_structured_data (sc_start_url ctx)]
           else if without \<noteq> [] \<and> (of_nat (length pages) * (1 / 2) :: rat) < of_nat (length without)
           then [i_structured_data_partial without pages] else []))"

subsection \<open>Validity\<close>

definition i_jsonld_invalid :: "chars list \<Rightarrow> issue" where
  "i_jsonld_invalid broken = make_issue
     (lit ''jsonld-invalid'')
     (lit ''Invalid JSON-LD syntax'')
     (fa ''kd [JSON-LD ]xrab ast'')
     (num (length broken) @
       fa '' blvk [JSON-LD ]qabl tjzyh nyst (momvlaN kama ya kvtySn aEafh). gvgl blvk xrab '' @
       fa ''ra kamlaN nadydh my_gyrd, yony angar aelaN dadh saxtaryafth ndary.'')
     (fa ''kd ra ba [Rich Results Test ]gvgl ya [validator.schema.org ]tst kn. agr dadh ra '' @
       fa ''bh_evrt rSth_ay dr qalb my_sazy, HtmaN mqadyr ra [json-encode ]kn nh dsty.'')
     S_High C_Structured_Data broken (sample 3 broken) (lit ''https://search.google.com/test/rich-results'')"

definition i_schema_missing_required :: "chars list \<Rightarrow> issue" where
  "i_schema_missing_required missing_fields = make_issue
     (lit ''schema-missing-required'')
     (lit ''Structured data missing required properties'')
     (fa ''fyldhay ajbary dadh saxtaryafth pr nSdh'')
     (num (length missing_fields) @
       fa '' mvrd nSanh_gDary fyld ajbary xvd ra ndard. bdvn fyldhay ajbary, gvgl '' @
       fa ''nSanh_gDary ra namotbr my_dand v ntyjh_y Gny nmayS nmy_dhd.'')
     (fa ''fyldhay gzarS_Sdh ra kaml kn. fhrst dqyq fyldhay hr nvo dr mstndat ntayj Gny '' @
       fa ''gvgl Amdh ast.'')
     S_Medium C_Structured_Data missing_fields (sample 4 missing_fields) DOCS_SD"

definition i_schema_no_type :: "chars list \<Rightarrow> issue" where
  "i_schema_no_type no_type = make_issue
     (lit ''schema-no-type'')
     (lit ''JSON-LD block without @type'')
     (fa ''blvk [JSON-LD ]bdvn [@type]'')
     (num (length no_type) @
       fa '' blvk [JSON-LD ]vyJgy [@type ]ndard v bray gvgl by_monast.'')
     (fa ''bh hr blvk [JSON-LD ]yk [@type ]motbr az [schema.org ]v hmCnyn [@context ]brabr '' @
       fa ''[https://schema.org ]bdh.'')
     S_Medium C_Structured_Data no_type (sample 3 no_type) DOCS_SD"

definition i_schema_deprecated_type :: "chars list \<Rightarrow> chars \<Rightarrow> issue" where
  "i_schema_deprecated_type deprecated reasons = make_issue
     (lit ''schema-deprecated-type'')
     (lit ''Structured data type no longer produces rich results'')
     (fa ''nvo nSanh_gDary dygr ntyjh_y Gny nmy_dhd'')
     (num (length deprecated) @
       fa '' efHh az nvoy astfadh my_knd kh gvgl dygr brayS ntyjh_y Gny nmayS nmy_dhd. '' @
       reasons @
       fa ''. ayn nSanh_gDary Erry ndard vly antZar ntyjh_y Gny az An ndaSth baS.'')
     (fa ''nghS dar (bray drk monayy v mvtvrhay dygr mfyd ast) ama bray brd dr ntayj, '' @
       fa ''rvy anvaoy srmayh_gDary kn kh hnvz foal_and: [Product], [Review], [Breadcrumb], '' @
       fa ''[Article], [Video], [Event], [JobPosting ]v [LocalBusiness.]'')
     S_Info C_Structured_Data deprecated (sample 3 deprecated) DOCS_SD"

text \<open>What is wrong with a block: it could not be read, has no type, or has types that are out of use or
  lack fields.\<close>

datatype block_fault =
    Block_Broken chars
  | Block_Untyped
  | Block_Deprecated string
  | Block_Lacks string string

definition sliced :: "audit_env \<Rightarrow> json \<Rightarrow> chars py" where
  "sliced A j =
     (case j of
        JStr s \<Rightarrow> Inr (take 80 (code_points s))
      | JList js \<Rightarrow> Inr (ae_str A (JList (take 80 js)))
      | _ \<Rightarrow> Inl TypeError)"

definition type_faults :: "dict \<Rightarrow> string \<Rightarrow> block_fault list" where
  "type_faults block type_name =
     (if type_name \<in> fst ` set DEPRECATED_TYPES then [Block_Deprecated type_name] else []) @
     map (Block_Lacks type_name)
       (filter (\<lambda>field_name. \<not> truthy (dget block field_name))
          (case map_of REQUIRED_FIELDS type_name of None \<Rightarrow> [] | Some fs \<Rightarrow> fs))"

definition block_faults :: "audit_env \<Rightarrow> dict \<Rightarrow> block_fault list py" where
  "block_faults A block =
     (if ''__parse_error__'' \<in> fst ` set block
      then bindE (sliced A (dget block ''__parse_error__'')) (\<lambda>t. Inr [Block_Broken t])
      else if block_types block = [] then Inr [Block_Untyped]
      else Inr (concat (map (type_faults block) (block_types block))))"

definition page_faults :: "audit_env \<Rightarrow> page_data \<Rightarrow> (page_data \<times> block_fault) list py" where
  "page_faults A p = bindE (mapE (block_faults A) (pd_jsonld p)) (\<lambda>fs. Inr (map (Pair p) (concat fs)))"

definition check_validity :: rule where
  "check_validity A ctx =
     first_of (mapE (page_faults A) (html_pages A ctx)) (\<lambda>faults.
       (let all = concat faults;
            broken = concat (map (\<lambda>(p, f). case f of Block_Broken t \<Rightarrow> [pd_url p @ (fa '' ~ '') @ t] | _ \<Rightarrow> []) all);
            missing_fields = concat (map (\<lambda>(p, f). case f of
                 Block_Lacks t k \<Rightarrow> [pd_url p @ (fa '' ~ '') @ code_points t @ (fa '' faqd <'') @ code_points k @ (fa ''>'')] | _ \<Rightarrow> []) all);
            no_type = concat (map (\<lambda>(p, f). case f of Block_Untyped \<Rightarrow> [pd_url p] | _ \<Rightarrow> []) all);
            deprecated = concat (map (\<lambda>(p, f). case f of
                 Block_Deprecated t \<Rightarrow> [pd_url p @ (lit '' ('') @ code_points t @ (lit '')'')] | _ \<Rightarrow> []) all);
            reasons = joined (fa ''; '') (map (\<lambda>(t, why). lit t @ (lit '': '') @ why) DEPRECATED_TYPES)
        in gives (
             unless_empty broken (i_jsonld_invalid broken) @
             unless_empty missing_fields (i_schema_missing_required missing_fields) @
             unless_empty no_type (i_schema_no_type no_type) @
             unless_empty deprecated (i_schema_deprecated_type deprecated reasons))))"

subsection \<open>Coverage\<close>

definition i_no_organization_schema :: "chars \<Rightarrow> chars \<Rightarrow> issue" where
  "i_no_organization_schema start_url kinds = make_issue
     (lit ''no-organization-schema'')
     (lit ''No Organization/LocalBusiness schema'')
     (fa ''nSanh_gDary [Organization ]ya [LocalBusiness ]ndard'')
     (fa ''hyC nSanh_gDary_ay bray morfy xvd ksb_vkar vjvd ndard. ayn nSanh_gDary hvyt '' @
       fa ''naSr ra bray gvgl toryf my_knd, payh_y nmayS pnl danS ([Knowledge Panel) ]ast v '' @
       fa ''yky az sygnal_hay mstqym aotmad dr arzyaby [E-E-A-T.]'')
     (fa ''dr efHh_y aely yk blvk [Organization ]bgDar ba [name], [url], [logo], [sameAs (]lynk '' @
       fa ''Sbkh_hay ajtmaoy) v [contactPoint. ]agr ksb_vkar mHl fyzyky dard az '' @
       fa ''[LocalBusiness ]ba [address], [telephone ]v [openingHours ]astfadh kn.'')
     S_Medium C_Eeat [start_url] (fa ''anvao mvjvd: '' @
       kinds) DOCS_SD"

definition i_no_breadcrumb_schema :: "chars \<Rightarrow> issue" where
  "i_no_breadcrumb_schema start_url = make_issue
     (lit ''no-breadcrumb-schema'')
     (lit ''No BreadcrumbList schema'')
     (fa ''nSanh_gDary brdkramb ndard'')
     (fa ''nSanh_gDary [BreadcrumbList ]vjvd ndard. brdkramb baoc my_Svd gvgl bh_jay Adrs '' @
       fa ''xam, msyr dsth_bndy ra dr ntayj nSan bdhd v saxtar sayt ra bhtr bfhmd.'')
     (fa ''dr efHat daxly [BreadcrumbList ]ba [itemListElement ]mrtb_Sdh aEafh kn v hmzman '' @
       fa ''brdkramb ra bh_evrt bery hm bh karbr nSan bdh.'')
     S_Low C_Structured_Data [start_url] [] (lit ''https://developers.google.com/search/docs/appearance/structured-data/breadcrumb'')"

definition present_types :: "page_data list \<Rightarrow> chars list" where
  "present_types pages =
     dedupe (concat (map (\<lambda>p. map code_points (concat (map block_types (pd_jsonld p))) @ pd_microdata p) pages))"

definition org_types :: "chars list" where
  "org_types = map lit [''Organization'', ''LocalBusiness'', ''Corporation'', ''Person'', ''OnlineStore'', ''Store'']"

definition check_recommended_types :: rule where
  "check_recommended_types A ctx =
     (let pages = pages_to_index A ctx; present = present_types pages in
      gives (
        if pages = [] \<or> present = [] then []
        else
          (if list_all (\<lambda>t. t \<notin> set org_types) present
           then [i_no_organization_schema (sc_start_url ctx) (joined (fa '', '') (take 8 (sort present)))] else []) @
          (if lit ''BreadcrumbList'' \<notin> set present \<and> 3 < length pages
           then [i_no_breadcrumb_schema (sc_start_url ctx)] else [])))"

end
