(* ===== verification/Audit_Report.thy ===== *)
theory Audit_Report
  imports Audit_Model Complex_Main
begin

text \<open>
  \<^verbatim>\<open>src/services/engine/seoagent/report.py\<close>: from a crawl and its issues to a scored report. Penalties are
  real numbers, with the square root of the mathematics; the clock and the suggestions of the language model
  are parameters.
\<close>

subsection \<open>Scores\<close>

fun CATEGORY_WEIGHT :: "category \<Rightarrow> real" where
  "CATEGORY_WEIGHT C_Indexing = 14 / 10"
| "CATEGORY_WEIGHT C_Content = 14 / 10"
| "CATEGORY_WEIGHT C_Technical = 12 / 10"
| "CATEGORY_WEIGHT C_Performance = 12 / 10"
| "CATEGORY_WEIGHT C_Links = 1"
| "CATEGORY_WEIGHT C_Structured_Data = 8 / 10"
| "CATEGORY_WEIGHT C_Images = 7 / 10"
| "CATEGORY_WEIGHT C_Eeat = 1"
| "CATEGORY_WEIGHT C_Ai_Search = 7 / 10"
| "CATEGORY_WEIGHT C_International = 5 / 10"

definition MAX_EDGES :: nat where "MAX_EDGES = 50000"

definition MAX_HEADINGS :: nat where "MAX_HEADINGS = 20"

definition grade_for :: "int \<Rightarrow> chars" where
  "grade_for score =
     (if 90 \<le> score then (fa ''oaly'') else if 75 \<le> score then (fa ''xvb'') else if 60 \<le> score then (fa ''qabl qbvl'')
      else if 40 \<le> score then (fa ''Eoyf'') else (fa ''bHrany''))"

record category_score =
  cg_category :: category
  cg_score :: int
  cg_issue_count :: nat
  cg_penalty :: real

definition category_score_to_dict :: "category_score \<Rightarrow> dict" where
  "category_score_to_dict c =
     [(''category'', JStr (category_value (cg_category c))), (''label_fa'', JText (CATEGORY_FA (cg_category c))),
      (''label_en'', JStr (CATEGORY_EN (cg_category c))), (''score'', JInt (cg_score c)),
      (''issue_count'', JInt (int (cg_issue_count c))), (''grade'', JText (grade_for (cg_score c)))]"

definition penalty :: "issue \<Rightarrow> nat \<Rightarrow> real" where
  "penalty i page_count =
     (let base = SEVERITY_WEIGHT (is_severity i) in
      if base = 0 then 0
      else
        (let affected = max 1 (affected_count i);
             breadth = min 1 (of_nat affected / of_nat (max 1 page_count))
         in of_nat base * (55 / 100 + 45 / 100 * sqrt breadth)))"

definition penalty_of :: "nat \<Rightarrow> issue list \<Rightarrow> category \<Rightarrow> real" where
  "penalty_of page_count issues c = sum_list (map (\<lambda>i. penalty i page_count) (filter (\<lambda>i. is_category i = c) issues))"

definition count_of_category :: "issue list \<Rightarrow> category \<Rightarrow> nat" where
  "count_of_category issues c = length (filter (\<lambda>i. is_category i = c \<and> is_severity i \<noteq> S_Info) issues)"

definition active_categories :: "audit_env \<Rightarrow> site_context \<Rightarrow> issue list \<Rightarrow> category set" where
  "active_categories A ctx issues =
     {C_Indexing, C_Content, C_Technical, C_Performance, C_Links, C_Structured_Data, C_Eeat, C_Ai_Search} \<union>
     (if list_ex (\<lambda>p. pd_images p \<noteq> []) (html_pages A ctx) then {C_Images} else {}) \<union>
     (if list_ex (\<lambda>p. pd_hreflang p \<noteq> []) (html_pages A ctx) \<or> list_ex (\<lambda>i. is_category i = C_International) issues
      then {C_International} else {})"

definition score_category :: "nat \<Rightarrow> issue list \<Rightarrow> category \<Rightarrow> category_score" where
  "score_category page_count issues c =
     \<lparr>cg_category = c, cg_score = max 0 (min 100 (round_even (100 - penalty_of page_count issues c))),
      cg_issue_count = count_of_category issues c, cg_penalty = penalty_of page_count issues c\<rparr>"

definition scores_by_category :: "audit_env \<Rightarrow> site_context \<Rightarrow> issue list \<Rightarrow> category_score list" where
  "scores_by_category A ctx issues =
     map (score_category (max 1 (length (html_pages A ctx))) issues)
       (filter (\<lambda>c. c \<in> active_categories A ctx issues) CATEGORIES)"

definition weighted_mean :: "category_score list \<Rightarrow> int" where
  "weighted_mean scores =
     (if scores = [] then 100
      else round_even (sum_list (map (\<lambda>c. of_int (cg_score c) * CATEGORY_WEIGHT (cg_category c)) scores) /
                       sum_list (map (\<lambda>c. CATEGORY_WEIGHT (cg_category c)) scores)))"

definition overall_score :: "category_score list \<Rightarrow> issue list \<Rightarrow> int" where
  "overall_score scores issues =
     (let overall = weighted_mean scores in
      if list_ex (\<lambda>i. is_severity i = S_Critical) issues then min overall 45 else overall)"

subsection \<open>The report\<close>

record report =
  rp_site :: site_context
  rp_issues :: "issue list"
  rp_overall :: int
  rp_categories :: "category_score list"
  rp_generated_at :: chars
  rp_suggestions :: json

definition build_report :: "audit_env \<Rightarrow> chars \<Rightarrow> site_context \<Rightarrow> issue list \<Rightarrow> json \<Rightarrow> report" where
  "build_report A now ctx issues suggestions =
     (let scores = scores_by_category A ctx issues in
      \<lparr>rp_site = ctx, rp_issues = issues, rp_overall = overall_score scores issues,
       rp_categories = sort_key cg_score scores, rp_generated_at = now, rp_suggestions = suggestions\<rparr>)"

definition by_severity :: "report \<Rightarrow> severity \<Rightarrow> issue list" where
  "by_severity r s = filter (\<lambda>i. is_severity i = s) (rp_issues r)"

definition by_category :: "report \<Rightarrow> category \<Rightarrow> issue list" where
  "by_category r c = filter (\<lambda>i. is_category i = c) (rp_issues r)"

definition cheap :: "chars list" where
  "cheap = map lit
     [''title-missing'', ''title-too-long'', ''title-too-short'', ''meta-description-missing'', ''h1-missing'',
      ''image-alt-missing'', ''viewport-missing'', ''canonical-missing'', ''robots-no-sitemap'', ''html-lang-missing'',
      ''og-missing'', ''image-no-dimensions'', ''no-lazy-loading'', ''sitemap-missing'', ''charset-missing'',
      ''missing-rtl-direction'', ''no-breadcrumb-schema'', ''empty-anchor-text'', ''url-uppercase'', ''no-hsts'']"

definition quick_wins :: "nat \<Rightarrow> report \<Rightarrow> issue list" where
  "quick_wins limit r =
     take limit (sort_key (\<lambda>i. (SEVERITY_ORDER (is_severity i), - int (affected_count i)))
       (filter (\<lambda>i. is_id i \<in> set cheap \<or> is_severity i \<in> {S_Critical, S_High}) (rp_issues r)))"

text \<open>\<^verbatim>\<open>int(a / b)\<close>.\<close>

definition quotient :: "int \<Rightarrow> int \<Rightarrow> int" where
  "quotient a b = (if a < 0 then - ((- a) div b) else a div b)"

definition stats :: "audit_env \<Rightarrow> report \<Rightarrow> dict" where
  "stats A r =
     (let site = rp_site r; pages = sc_pages site; indexable = pages_to_index A site;
          words = (if indexable = [] then [0] else map pd_words indexable)
      in [(''pages_crawled'', JInt (int (length pages))), (''html_pages'', JInt (int (length (html_pages A site)))),
          (''indexable_pages'', JInt (int (length indexable))),
          (''errors'', JInt (int (length (filter (\<lambda>p. given (pd_error p) \<noteq> [] \<or> 400 \<le> pd_status p) pages)))),
          (''redirects'', JInt (int (length (filter (\<lambda>p. pd_redirects p \<noteq> []) pages)))),
          (''avg_words'', JInt (quotient (sum_list words) (int (length words)))),
          (''avg_load_ms'', JInt (if pages = [] then 0 else quotient (sum_list (map pd_elapsed_ms pages)) (int (length pages)))),
          (''sitemap_urls'', JInt (int (length (sc_sitemap_locs site)))), (''has_robots'', JBool (sc_robots_txt site \<noteq> None)),
          (''total_issues'', JInt (int (length (rp_issues r)))),
          (''critical_count'', JInt (int (length (by_severity r S_Critical)))),
          (''high_count'', JInt (int (length (by_severity r S_High)))),
          (''external_checked'', JInt (sc_external_checked site))])"

text \<open>The internal links, up to a limit; the report says when some were left out.\<close>

definition edge_dict :: "audit_env \<Rightarrow> page_data \<Rightarrow> link_ref \<Rightarrow> dict" where
  "edge_dict A p l =
     [(''from'', JText (pd_url p)), (''to'', JText (lk_href l)), (''anchor'', JText (take 120 (lk_anchor l))),
      (''nofollow'', JBool (is_nofollow A l))]"

fun collect_edges :: "audit_env \<Rightarrow> nat \<Rightarrow> (page_data \<times> link_ref) list \<Rightarrow> dict list \<Rightarrow> dict list \<times> bool" where
  "collect_edges A limit [] edges = (edges, False)"
| "collect_edges A limit ((p, l) # rest) edges =
     (if \<not> lk_internal l then collect_edges A limit rest edges
      else if limit \<le> length edges then (edges, True)
      else collect_edges A limit rest (edges @ [edge_dict A p l]))"

definition all_links :: "site_context \<Rightarrow> (page_data \<times> link_ref) list" where
  "all_links site = concat (map (\<lambda>p. map (Pair p) (pd_links p)) (sc_pages site))"

definition internal_edges :: "audit_env \<Rightarrow> nat \<Rightarrow> report \<Rightarrow> dict" where
  "internal_edges A limit r =
     (let (edges, truncated) = collect_edges A limit (all_links (rp_site r)) []
      in [(''edges'', JList (map JObj edges)), (''truncated'', JBool truncated), (''limit'', JInt (int limit))])"

definition opt_text :: "chars option \<Rightarrow> json" where
  "opt_text t = (case t of None \<Rightarrow> JNull | Some s \<Rightarrow> JText s)"

definition report_page :: "audit_env \<Rightarrow> page_data \<Rightarrow> dict" where
  "report_page A p =
     [(''url'', JText (pd_url p)), (''status'', JInt (pd_status p)), (''title'', opt_text (pd_title p)),
      (''words'', JInt (pd_words p)), (''inlinks'', JInt (pd_inlinks p)), (''depth'', JInt (pd_depth p)),
      (''indexable'', JBool (is_indexable A p)), (''load_ms'', JInt (pd_elapsed_ms p)),
      (''content_hash'', JText (pd_content_hash p)), (''description'', opt_text (pd_description p)),
      (''headings'', JList (map (\<lambda>(level, t). JObj [(''level'', JInt level), (''text'', JText t)])
         (take MAX_HEADINGS (pd_headings p))))]"

definition report_to_dict :: "audit_env \<Rightarrow> report \<Rightarrow> dict" where
  "report_to_dict A r =
     [(''start_url'', JText (sc_start_url (rp_site r))), (''generated_at'', JText (rp_generated_at r)),
      (''overall_score'', JInt (rp_overall r)), (''grade'', JText (grade_for (rp_overall r))),
      (''stats'', JObj (stats A r)), (''category_scores'', JList (map (JObj \<circ> category_score_to_dict) (rp_categories r))),
      (''issues'', JList (map (JObj \<circ> issue_to_dict) (rp_issues r))),
      (''quick_wins'', JList (map (JObj \<circ> issue_to_dict) (quick_wins 8 r))),
      (''critical'', JList (map (JObj \<circ> issue_to_dict) (by_severity r S_Critical))),
      (''pages'', JList (map (JObj \<circ> report_page A) (sc_pages (rp_site r)))),
      (''links'', JObj (internal_edges A MAX_EDGES r)),
      (''psi'', (case sc_psi (rp_site r) of None \<Rightarrow> JNull | Some d \<Rightarrow> JObj d)),
      (''notes'', JList (map JText (sc_notes (rp_site r)))), (''ai_suggestions'', rp_suggestions r)]"

subsection \<open>Penalties and scores\<close>

lemma CATEGORY_WEIGHT_pos [simp]: "0 < CATEGORY_WEIGHT c"
  by (cases c) simp_all

lemma penalty_nonneg [simp]: "0 \<le> penalty i n"
  by (simp add: penalty_def Let_def)

lemma penalty_of_append: "penalty_of n (is @ js) c = penalty_of n is c + penalty_of n js c"
  by (simp add: penalty_of_def)

lemma penalty_of_nonneg [simp]: "0 \<le> penalty_of n is c"
  by (auto simp: penalty_of_def intro!: sum_list_nonneg)

text \<open>An issue costs at least 55 and at most 100 per cent of its weight.\<close>

lemma penalty_bounds:
  "55 / 100 * of_nat (SEVERITY_WEIGHT (is_severity i)) \<le> penalty i n \<and> penalty i n \<le> of_nat (SEVERITY_WEIGHT (is_severity i))"
proof -
  define b where "b = (min 1 (of_nat (max 1 (affected_count i)) / of_nat (max 1 n)) :: real)"
  have "0 \<le> sqrt b" "sqrt b \<le> 1" by (simp_all add: b_def)
  then have "55 / 100 \<le> 55 / 100 + 45 / 100 * sqrt b" "55 / 100 + 45 / 100 * sqrt b \<le> (1 :: real)" by linarith+
  then have "w * (55 / 100) \<le> w * (55 / 100 + 45 / 100 * sqrt b)" "w * (55 / 100 + 45 / 100 * sqrt b) \<le> w * 1" if "0 \<le> w" for w
    using that by (simp_all only: mult_left_mono)
  from this [of "of_nat (SEVERITY_WEIGHT (is_severity i))"] show ?thesis
    by (simp add: penalty_def b_def Let_def mult.commute)
qed

lemma round_even_mono:
  assumes "x \<le> y"
  shows "round_even x \<le> round_even y"
proof (cases "\<lfloor>x\<rfloor> = \<lfloor>y\<rfloor>")
  case True
  with assms show ?thesis by (auto simp: round_even_def Let_def)
next
  case False
  with floor_mono [OF assms] have "\<lfloor>x\<rfloor> + 1 \<le> \<lfloor>y\<rfloor>" by simp
  moreover have "round_even x \<le> \<lfloor>x\<rfloor> + 1" "\<lfloor>y\<rfloor> \<le> round_even y" by (auto simp: round_even_def Let_def)
  ultimately show ?thesis by simp
qed

lemma score_in_range: "0 \<le> cg_score (score_category n is c) \<and> cg_score (score_category n is c) \<le> 100"
  by (simp add: score_category_def)

lemma weighted_mean_in_range:
  assumes "\<forall>c\<in>set scores. 0 \<le> cg_score c \<and> cg_score c \<le> 100"
  shows "0 \<le> weighted_mean scores \<and> weighted_mean scores \<le> 100"
proof (cases "scores = []")
  case False
  let ?w = "sum_list (map (\<lambda>c. CATEGORY_WEIGHT (cg_category c)) scores)"
  let ?s = "sum_list (map (\<lambda>c. of_int (cg_score c) * CATEGORY_WEIGHT (cg_category c)) scores)"
  have w: "0 < ?w" using False by (cases scores) (auto intro!: add_pos_nonneg sum_list_nonneg simp: less_imp_le)
  have "0 \<le> ?s" using assms by (intro sum_list_nonneg) (auto intro!: mult_nonneg_nonneg simp: less_imp_le)
  moreover have "?s \<le> sum_list (map (\<lambda>c. 100 * CATEGORY_WEIGHT (cg_category c)) scores)"
    using assms by (intro sum_list_mono mult_right_mono) (auto simp: less_imp_le)
  then have "?s \<le> 100 * ?w" by (simp add: sum_list_const_mult)
  ultimately have "of_int 0 \<le> ?s / ?w" "?s / ?w \<le> of_int 100" using w by (simp_all add: divide_le_eq)
  from round_even_between [OF this] False show ?thesis by (simp add: weighted_mean_def)
qed (simp add: weighted_mean_def)

text \<open>The loop over the links takes the first of the internal ones and says whether it left any out.\<close>

lemma collect_edges_exact:
  assumes "length edges \<le> limit"
  shows "collect_edges A limit links edges =
    (let inner = map (\<lambda>(p, l). edge_dict A p l) (filter (\<lambda>(p, l). lk_internal l) links)
     in (edges @ take (limit - length edges) inner, limit < length edges + length inner))"
  using assms by (induction A limit links edges rule: collect_edges.induct) (auto simp: Let_def take_Cons' Suc_diff_le)

end
