(* ===== verification/Site_Audit.thy ===== *)
theory Site_Audit
  imports Rules_Ai_Search Rules_Content Rules_Eeat Rules_Images Rules_Indexing Rules_International Rules_Links
    Rules_Meta Rules_Performance Rules_Structured Rules_Technical Audit_Report
begin

text \<open>
  The audit as a whole: the rules in the order in which \<^verbatim>\<open>rules/__init__.py\<close> imports their modules, run and
  scored as \<^verbatim>\<open>web/app.py\<close> does it.
\<close>

definition all_rules :: "(chars \<times> rule) list" where
  "all_rules =
     [(lit ''ai-crawler-policy'', check_ai_crawlers),
      (lit ''llms-txt'', check_llms_txt),
      (lit ''answer-structure'', check_answer_structure),
      (lit ''client-side-rendering'', check_csr),
      (lit ''headings'', check_headings),
      (lit ''content-depth'', check_content_depth),
      (lit ''duplicate-content'', check_duplicate_content),
      (lit ''keyword-usage'', check_keyword_usage),
      (lit ''keyword-stuffing'', check_keyword_stuffing),
      (lit ''content-freshness'', check_freshness),
      (lit ''trust-pages'', check_trust_pages),
      (lit ''authorship'', check_authorship),
      (lit ''citations'', check_citations),
      (lit ''social-proof'', check_social_profiles),
      (lit ''security-txt'', check_security_txt),
      (lit ''image-alt'', check_alt_text),
      (lit ''image-cls'', check_layout_shift),
      (lit ''image-lazy-loading'', check_lazy_loading),
      (lit ''image-format'', check_formats),
      (lit ''noindex'', check_noindex),
      (lit ''noindex-plus-robots-block'', check_conflicting_directives),
      (lit ''soft-404'', check_soft_404),
      (lit ''crawl-budget'', check_crawl_waste),
      (lit ''hreflang'', check_hreflang),
      (lit ''rtl-direction'', check_rtl),
      (lit ''orphan-pages'', check_orphans),
      (lit ''click-depth'', check_depth),
      (lit ''anchor-text'', check_anchors),
      (lit ''javascript-links'', check_js_links),
      (lit ''external-links'', check_external),
      (lit ''title'', check_titles),
      (lit ''meta-description'', check_descriptions),
      (lit ''canonical'', check_canonicals),
      (lit ''social-cards'', check_social),
      (lit ''core-web-vitals'', check_field_data),
      (lit ''page-weight'', check_page_weight),
      (lit ''render-blocking'', check_render_blocking),
      (lit ''caching-headers'', check_caching),
      (lit ''structured-data-presence'', check_presence),
      (lit ''structured-data-validity'', check_validity),
      (lit ''structured-data-coverage'', check_recommended_types),
      (lit ''status-codes'', check_status_codes),
      (lit ''redirects'', check_redirects),
      (lit ''https'', check_https),
      (lit ''robots-txt'', check_robots),
      (lit ''sitemap'', check_sitemap),
      (lit ''mobile'', check_mobile),
      (lit ''url-structure'', check_urls),
      (lit ''lang-charset'', check_lang),
      (lit ''compression'', check_compression)]"

definition audit :: "(exn \<Rightarrow> chars) \<Rightarrow> audit_env \<Rightarrow> chars \<Rightarrow> site_context \<Rightarrow> report" where
  "audit shown A now ctx =
     (let (issues, ctx') = run_all shown A all_rules ctx in build_report A now ctx' issues JNull)"

subsection \<open>No rule looks at the notes\<close>

lemma notes_invisible:
  "sc_start_url (ctx\<lparr>sc_notes := ns\<rparr>) = sc_start_url ctx"
  "sc_origin (ctx\<lparr>sc_notes := ns\<rparr>) = sc_origin ctx"
  "sc_pages (ctx\<lparr>sc_notes := ns\<rparr>) = sc_pages ctx"
  "sc_robots_txt (ctx\<lparr>sc_notes := ns\<rparr>) = sc_robots_txt ctx"
  "sc_robots_status (ctx\<lparr>sc_notes := ns\<rparr>) = sc_robots_status ctx"
  "sc_sitemap_urls (ctx\<lparr>sc_notes := ns\<rparr>) = sc_sitemap_urls ctx"
  "sc_sitemap_locs (ctx\<lparr>sc_notes := ns\<rparr>) = sc_sitemap_locs ctx"
  "sc_sitemap_errors (ctx\<lparr>sc_notes := ns\<rparr>) = sc_sitemap_errors ctx"
  "sc_llms_txt_found (ctx\<lparr>sc_notes := ns\<rparr>) = sc_llms_txt_found ctx"
  "sc_security_txt_found (ctx\<lparr>sc_notes := ns\<rparr>) = sc_security_txt_found ctx"
  "sc_target_keywords (ctx\<lparr>sc_notes := ns\<rparr>) = sc_target_keywords ctx"
  "sc_psi (ctx\<lparr>sc_notes := ns\<rparr>) = sc_psi ctx"
  "sc_external_checked (ctx\<lparr>sc_notes := ns\<rparr>) = sc_external_checked ctx"
  "sc_broken_external (ctx\<lparr>sc_notes := ns\<rparr>) = sc_broken_external ctx"
  "html_pages A (ctx\<lparr>sc_notes := ns\<rparr>) = html_pages A ctx"
  "pages_to_index A (ctx\<lparr>sc_notes := ns\<rparr>) = pages_to_index A ctx"
  "internal_anchors A (ctx\<lparr>sc_notes := ns\<rparr>) = internal_anchors A ctx"
  "haystack A (ctx\<lparr>sc_notes := ns\<rparr>) = haystack A ctx"
  by (simp_all add: html_pages_def pages_to_index_def internal_anchors_def haystack_def)

lemma notes_ignored_ai_search:
  "check_ai_crawlers A (ctx\<lparr>sc_notes := ns\<rparr>) = check_ai_crawlers A ctx"
  "check_llms_txt A (ctx\<lparr>sc_notes := ns\<rparr>) = check_llms_txt A ctx"
  "check_answer_structure A (ctx\<lparr>sc_notes := ns\<rparr>) = check_answer_structure A ctx"
  "check_csr A (ctx\<lparr>sc_notes := ns\<rparr>) = check_csr A ctx"
  unfolding check_ai_crawlers_def check_llms_txt_def check_answer_structure_def check_csr_def notes_invisible by (rule refl)+

lemma notes_ignored_content:
  "check_headings A (ctx\<lparr>sc_notes := ns\<rparr>) = check_headings A ctx"
  "check_content_depth A (ctx\<lparr>sc_notes := ns\<rparr>) = check_content_depth A ctx"
  "check_duplicate_content A (ctx\<lparr>sc_notes := ns\<rparr>) = check_duplicate_content A ctx"
  "check_keyword_usage A (ctx\<lparr>sc_notes := ns\<rparr>) = check_keyword_usage A ctx"
  "check_keyword_stuffing A (ctx\<lparr>sc_notes := ns\<rparr>) = check_keyword_stuffing A ctx"
  "check_freshness A (ctx\<lparr>sc_notes := ns\<rparr>) = check_freshness A ctx"
  unfolding check_headings_def check_content_depth_def check_duplicate_content_def check_keyword_usage_def check_keyword_stuffing_def check_freshness_def notes_invisible by (rule refl)+

lemma notes_ignored_eeat:
  "check_trust_pages A (ctx\<lparr>sc_notes := ns\<rparr>) = check_trust_pages A ctx"
  "check_authorship A (ctx\<lparr>sc_notes := ns\<rparr>) = check_authorship A ctx"
  "check_citations A (ctx\<lparr>sc_notes := ns\<rparr>) = check_citations A ctx"
  "check_social_profiles A (ctx\<lparr>sc_notes := ns\<rparr>) = check_social_profiles A ctx"
  "check_security_txt A (ctx\<lparr>sc_notes := ns\<rparr>) = check_security_txt A ctx"
  unfolding check_trust_pages_def check_authorship_def check_citations_def check_social_profiles_def check_security_txt_def notes_invisible by (rule refl)+

lemma notes_ignored_images:
  "check_alt_text A (ctx\<lparr>sc_notes := ns\<rparr>) = check_alt_text A ctx"
  "check_layout_shift A (ctx\<lparr>sc_notes := ns\<rparr>) = check_layout_shift A ctx"
  "check_lazy_loading A (ctx\<lparr>sc_notes := ns\<rparr>) = check_lazy_loading A ctx"
  "check_formats A (ctx\<lparr>sc_notes := ns\<rparr>) = check_formats A ctx"
  unfolding check_alt_text_def check_layout_shift_def check_lazy_loading_def check_formats_def notes_invisible by (rule refl)+

lemma notes_ignored_indexing:
  "check_noindex A (ctx\<lparr>sc_notes := ns\<rparr>) = check_noindex A ctx"
  "check_conflicting_directives A (ctx\<lparr>sc_notes := ns\<rparr>) = check_conflicting_directives A ctx"
  "check_soft_404 A (ctx\<lparr>sc_notes := ns\<rparr>) = check_soft_404 A ctx"
  "check_crawl_waste A (ctx\<lparr>sc_notes := ns\<rparr>) = check_crawl_waste A ctx"
  unfolding check_noindex_def check_conflicting_directives_def check_soft_404_def check_crawl_waste_def notes_invisible by (rule refl)+

lemma notes_ignored_international:
  "check_hreflang A (ctx\<lparr>sc_notes := ns\<rparr>) = check_hreflang A ctx"
  "check_rtl A (ctx\<lparr>sc_notes := ns\<rparr>) = check_rtl A ctx"
  unfolding check_hreflang_def check_rtl_def notes_invisible by (rule refl)+

lemma notes_ignored_links:
  "check_orphans A (ctx\<lparr>sc_notes := ns\<rparr>) = check_orphans A ctx"
  "check_depth A (ctx\<lparr>sc_notes := ns\<rparr>) = check_depth A ctx"
  "check_anchors A (ctx\<lparr>sc_notes := ns\<rparr>) = check_anchors A ctx"
  "check_js_links A (ctx\<lparr>sc_notes := ns\<rparr>) = check_js_links A ctx"
  "check_external A (ctx\<lparr>sc_notes := ns\<rparr>) = check_external A ctx"
  unfolding check_orphans_def check_depth_def check_anchors_def check_js_links_def check_external_def notes_invisible by (rule refl)+

lemma notes_ignored_meta:
  "check_titles A (ctx\<lparr>sc_notes := ns\<rparr>) = check_titles A ctx"
  "check_descriptions A (ctx\<lparr>sc_notes := ns\<rparr>) = check_descriptions A ctx"
  "check_canonicals A (ctx\<lparr>sc_notes := ns\<rparr>) = check_canonicals A ctx"
  "check_social A (ctx\<lparr>sc_notes := ns\<rparr>) = check_social A ctx"
  unfolding check_titles_def check_descriptions_def check_canonicals_def check_social_def notes_invisible by (rule refl)+

lemma notes_ignored_performance:
  "check_field_data A (ctx\<lparr>sc_notes := ns\<rparr>) = check_field_data A ctx"
  "check_page_weight A (ctx\<lparr>sc_notes := ns\<rparr>) = check_page_weight A ctx"
  "check_render_blocking A (ctx\<lparr>sc_notes := ns\<rparr>) = check_render_blocking A ctx"
  "check_caching A (ctx\<lparr>sc_notes := ns\<rparr>) = check_caching A ctx"
  unfolding check_field_data_def check_page_weight_def check_render_blocking_def check_caching_def notes_invisible by (rule refl)+

lemma notes_ignored_structured:
  "check_presence A (ctx\<lparr>sc_notes := ns\<rparr>) = check_presence A ctx"
  "check_validity A (ctx\<lparr>sc_notes := ns\<rparr>) = check_validity A ctx"
  "check_recommended_types A (ctx\<lparr>sc_notes := ns\<rparr>) = check_recommended_types A ctx"
  unfolding check_presence_def check_validity_def check_recommended_types_def notes_invisible by (rule refl)+

lemma notes_ignored_technical:
  "check_status_codes A (ctx\<lparr>sc_notes := ns\<rparr>) = check_status_codes A ctx"
  "check_redirects A (ctx\<lparr>sc_notes := ns\<rparr>) = check_redirects A ctx"
  "check_https A (ctx\<lparr>sc_notes := ns\<rparr>) = check_https A ctx"
  "check_robots A (ctx\<lparr>sc_notes := ns\<rparr>) = check_robots A ctx"
  "check_sitemap A (ctx\<lparr>sc_notes := ns\<rparr>) = check_sitemap A ctx"
  "check_mobile A (ctx\<lparr>sc_notes := ns\<rparr>) = check_mobile A ctx"
  "check_urls A (ctx\<lparr>sc_notes := ns\<rparr>) = check_urls A ctx"
  "check_lang A (ctx\<lparr>sc_notes := ns\<rparr>) = check_lang A ctx"
  "check_compression A (ctx\<lparr>sc_notes := ns\<rparr>) = check_compression A ctx"
  unfolding check_status_codes_def check_redirects_def check_https_def check_robots_def check_sitemap_def check_mobile_def check_urls_def check_lang_def check_compression_def notes_invisible by (rule refl)+

lemmas notes_ignored =
  notes_ignored_ai_search notes_ignored_content notes_ignored_eeat notes_ignored_images
  notes_ignored_indexing notes_ignored_international notes_ignored_links notes_ignored_meta
  notes_ignored_performance notes_ignored_structured notes_ignored_technical

lemma rules_ignore_notes:
  assumes "f \<in> snd ` set all_rules"
  shows "f A (ctx\<lparr>sc_notes := ns\<rparr>) = f A ctx"
  using assms unfolding all_rules_def by (auto simp: notes_ignored)

end
