(* ===== verification/Audit_Properties.thy ===== *)
theory Audit_Properties
  imports Site_Audit Optimizer "HOL-Library.Multiset"
begin

text \<open>
  What the audit promises: it loses no finding, its scores are in range, its verdicts on titles are exact and
  are the ones the optimizer works by, and its report can be read by the services; and where its reading of
  robots.txt goes wrong.
\<close>

subsection \<open>The audit as a whole\<close>

lemma run_all_collects:
  "run_all shown A all_rules ctx =
     (sort_key issue_key (concat (map (\<lambda>r. fst (snd r A ctx)) all_rules)),
      ctx\<lparr>sc_notes := sc_notes ctx @
        concat (map (\<lambda>r. case snd (snd r A ctx) of None \<Rightarrow> [] | Some e \<Rightarrow> [failure_note shown (fst r) e]) all_rules)\<rparr>)"
proof -
  have c: "ctx\<lparr>sc_notes := sc_notes ctx\<rparr> = ctx" by simp
  have "run_rules shown A all_rules (ctx\<lparr>sc_notes := sc_notes ctx\<rparr>) [] =
     ([] @ concat (map (\<lambda>r. fst (snd r A ctx)) all_rules),
      ctx\<lparr>sc_notes := sc_notes ctx @
        concat (map (\<lambda>r. case snd (snd r A ctx) of None \<Rightarrow> [] | Some e \<Rightarrow> [failure_note shown (fst r) e]) all_rules)\<rparr>)"
    by (rule run_rules_collects) (rule rules_ignore_notes)
  then show ?thesis unfolding run_all_def c by simp
qed

text \<open>C26: a rule that fails costs the audit only what that rule would still have found. The report holds
  exactly the issues that every rule yields on its own (before it raises, if it does), each as often as it
  was found, in the order of severity, breadth and name; and the notes name each rule that raised.\<close>

theorem audit_keeps_every_finding:
  "mset (rp_issues (audit shown A now ctx)) = mset (concat (map (\<lambda>r. fst (snd r A ctx)) all_rules)) \<and>
   sorted (map issue_key (rp_issues (audit shown A now ctx))) \<and>
   sc_notes (rp_site (audit shown A now ctx)) = sc_notes ctx @
     concat (map (\<lambda>r. case snd (snd r A ctx) of None \<Rightarrow> [] | Some e \<Rightarrow> [failure_note shown (fst r) e]) all_rules)"
  by (simp add: audit_def run_all_collects build_report_def Let_def)

lemma found_by_rule:
  assumes "(name, f) \<in> set all_rules" and "i \<in> set (fst (f A ctx))"
  shows "i \<in> set (rp_issues (audit shown A now ctx))"
proof -
  from assms have "i \<in> set (concat (map (\<lambda>r. fst (snd r A ctx)) all_rules))"
    by (auto intro!: bexI [of _ "(name, f)"])
  then show ?thesis by (simp add: audit_def run_all_collects build_report_def Let_def)
qed

lemma build_report_simps [simp]:
  "rp_issues (build_report A now ctx issues s) = issues" "rp_site (build_report A now ctx issues s) = ctx"
  "rp_overall (build_report A now ctx issues s) = overall_score (scores_by_category A ctx issues) issues"
  "set (rp_categories (build_report A now ctx issues s)) = set (scores_by_category A ctx issues)"
  by (simp_all add: build_report_def Let_def)

text \<open>C27: every score of a report lies between 0 and 100, and a report with a critical issue has an overall
  score of at most 45.\<close>

theorem audit_scores_in_range:
  "list_all (\<lambda>c. 0 \<le> cg_score c \<and> cg_score c \<le> 100) (rp_categories (build_report A now ctx issues s)) \<and>
   0 \<le> rp_overall (build_report A now ctx issues s) \<and> rp_overall (build_report A now ctx issues s) \<le> 100 \<and>
   (by_severity (build_report A now ctx issues s) S_Critical = [] \<or> rp_overall (build_report A now ctx issues s) \<le> 45)"
proof -
  have r: "\<forall>c\<in>set (scores_by_category A ctx issues). 0 \<le> cg_score c \<and> cg_score c \<le> 100"
    by (auto simp: scores_by_category_def score_in_range)
  from weighted_mean_in_range [OF r] r show ?thesis
    by (auto simp: list_all_iff overall_score_def Let_def by_severity_def filter_empty_conv list_ex_iff)
qed

lemma score_category_anti: "cg_score (score_category n (issues @ extra) c) \<le> cg_score (score_category n issues c)"
proof -
  have "round_even (100 - penalty_of n (issues @ extra) c) \<le> round_even (100 - penalty_of n issues c)"
    by (rule round_even_mono) (simp add: penalty_of_append)
  then show ?thesis by (auto simp: score_category_def)
qed

text \<open>A category never looks better for having more found in it: with any further issues it is still
  scored, its score is no higher and its count of issues no lower.\<close>

lemma extra_issues_never_raise_a_category:
  assumes "c \<in> set (rp_categories (build_report A now ctx issues s))"
  shows "\<exists>c'\<in>set (rp_categories (build_report A now ctx (issues @ extra) s)).
           cg_category c' = cg_category c \<and> cg_score c' \<le> cg_score c \<and> cg_issue_count c \<le> cg_issue_count c'"
proof -
  let ?n = "max 1 (length (html_pages A ctx))"
  from assms obtain k where k: "k \<in> set CATEGORIES" "k \<in> active_categories A ctx issues" "c = score_category ?n issues k"
    by (auto simp: scores_by_category_def)
  have "k \<in> active_categories A ctx (issues @ extra)"
    using k(2) by (auto simp: active_categories_def list_ex_iff split: if_splits)
  then have "score_category ?n (issues @ extra) k \<in> set (scores_by_category A ctx (issues @ extra))"
    using k(1) by (simp add: scores_by_category_def)
  moreover have "cg_issue_count c \<le> cg_issue_count (score_category ?n (issues @ extra) k)"
    by (simp add: k(3) score_category_def count_of_category_def)
  ultimately show ?thesis
    using score_category_anti [of ?n issues extra k] by (intro bexI) (simp_all add: k(3) score_category_def)
qed

definition ascii_chars :: charset where
  "ascii_chars = \<lparr>cs_lower = map (\<lambda>c. if 65 \<le> c \<and> c \<le> 90 then c + 32 else c),
     cs_icase = (\<lambda>c. if 65 \<le> c \<and> c \<le> 90 then c + 32 else c), cs_upper = (\<lambda>c. 65 \<le> c \<and> c \<le> 90),
     cs_word = (\<lambda>c. 48 \<le> c \<and> c \<le> 57 \<or> 65 \<le> c \<and> c \<le> 90 \<or> c = 95 \<or> 97 \<le> c), cs_digit = (\<lambda>c. 48 \<le> c \<and> c \<le> 57)\<rparr>"

definition plain_env :: audit_env where
  "plain_env = \<lparr>ae_chars = ascii_chars, ae_hash = (\<lambda>t. int (length t)), ae_order = (\<lambda>ts. ts),
     ae_general = (\<lambda>r. []), ae_str = (\<lambda>j. [])\<rparr>"

definition empty_site :: site_context where
  "empty_site = \<lparr>sc_start_url = lit ''http://a.ir/'', sc_origin = lit ''http://a.ir'', sc_pages = [], sc_robots_txt = None,
     sc_robots_status = 404, sc_sitemap_urls = [], sc_sitemap_locs = [], sc_sitemap_errors = [],
     sc_llms_txt_found = False, sc_security_txt_found = False, sc_target_keywords = [], sc_psi = None, sc_notes = [],
     sc_external_checked = 0, sc_broken_external = []\<rparr>"

definition demo_issue :: "severity \<Rightarrow> category \<Rightarrow> issue" where
  "demo_issue s k = make_issue (lit ''x'') [] [] [] [] s k [] [] []"

lemma empty_site_pages [simp]: "html_pages plain_env empty_site = []"
  by (simp add: html_pages_def empty_site_def)

lemma demo_penalty: "penalty (demo_issue s k) (Suc 0) = of_nat (SEVERITY_WEIGHT s)"
  by (simp add: penalty_def demo_issue_def affected_count_def Let_def)

text \<open>The overall score, though, can rise when something new is found wrong: an issue of the category
  for languages brings that category into the average, and its good score lifts a bad site.\<close>

lemma new_issue_can_raise_overall_score:
  "\<exists>issues. rp_overall (build_report plain_env now empty_site issues JNull) = 0 \<and>
     rp_overall (build_report plain_env now empty_site (issues @ [demo_issue S_Low C_International]) JNull) = 5"
proof -
  define issues where "issues = concat (map (\<lambda>k. replicate 7 (demo_issue S_High k))
    [C_Indexing, C_Content, C_Technical, C_Performance, C_Links, C_Structured_Data, C_Eeat, C_Ai_Search])"
  have k: "is_category (demo_issue s k) = k" "is_severity (demo_issue s k) = s" for s k by (simp_all add: demo_issue_def)
  have p: "penalty_of (Suc 0) issues c = (if c \<in> {C_Images, C_International} then 0 else 105)" for c
    by (cases c) (simp_all add: issues_def penalty_of_def demo_penalty k sum_list_replicate)
  have q: "penalty_of (Suc 0) [demo_issue S_Low C_International] c = (if c = C_International then 3 else 0)" for c
    by (simp add: penalty_of_def demo_penalty k)
  have none: "\<not> list_ex (\<lambda>i. is_category i = C_International) issues" "\<not> list_ex (\<lambda>i. is_severity i = S_Critical) issues"
    by (simp_all add: issues_def k eval_nat_numeral)
  have r: "round_even (- 5 :: real) = - 5" "round_even (97 :: real) = 97" "round_even (485 / 92 :: real) = 5"
    by (simp_all add: round_even_def Let_def)
  have a: "active_categories plain_env empty_site issues = set CATEGORIES - {C_Images, C_International}"
    using none(1) by (auto simp: active_categories_def CATEGORIES_def)
  have b: "active_categories plain_env empty_site (issues @ [demo_issue S_Low C_International]) = set CATEGORIES - {C_Images}"
    by (auto simp: active_categories_def CATEGORIES_def k)
  have "rp_overall (build_report plain_env now empty_site issues JNull) = 0"
    using none(2) by (simp add: overall_score_def scores_by_category_def a CATEGORIES_def score_category_def p r weighted_mean_def round_even_def)
  moreover have "rp_overall (build_report plain_env now empty_site (issues @ [demo_issue S_Low C_International]) JNull) = 5"
    using none(2) by (simp add: overall_score_def scores_by_category_def b CATEGORIES_def score_category_def penalty_of_append p q r
      weighted_mean_def k)
  ultimately show ?thesis by blast
qed

subsection \<open>Titles\<close>

definition urls_of :: "string \<Rightarrow> findings \<Rightarrow> chars list" where
  "urls_of name r = concat (map is_urls (filter (\<lambda>i. is_id i = lit name) (fst r)))"

definition title_text :: "page_data \<Rightarrow> chars" where
  "title_text p = strip_white (given (pd_title p))"

lemma lit_inject [simp]: "lit a = lit b \<longleftrightarrow> a = b"
proof -
  have "inj (of_char :: char \<Rightarrow> int)" by (metis char_of_char injI)
  then show ?thesis by (simp add: lit_def inj_map_eq_map)
qed

lemma lit_eq_Nil [simp]: "lit s = [] \<longleftrightarrow> s = []"
  by (simp add: lit_def)

lemma title_issue_ids [simp]:
  "is_id (i_title_missing a) = lit ''title-missing''" "is_id (i_title_too_short a) = lit ''title-too-short''"
  "is_id (i_title_too_long a) = lit ''title-too-long''" "is_id (i_title_duplicate d a c e) = lit ''title-duplicate''"
  "is_urls (i_title_missing a) = a" "is_urls (i_title_too_short a) = a" "is_urls (i_title_too_long a) = a"
  "is_urls (i_title_duplicate d a c e) = a"
  by (simp_all add: i_title_missing_def i_title_too_short_def i_title_too_long_def i_title_duplicate_def)

lemma urls_of_unless_empty:
  "concat (map is_urls (filter (\<lambda>i. is_id i = lit name) (unless_empty xs j))) =
     (if xs \<noteq> [] \<and> is_id j = lit name then is_urls j else [])"
  by (simp add: unless_empty_def)

lemma having_title: "having pd_title P = map (\<lambda>p. (p, title_text p)) (filter (\<lambda>p. title_text p \<noteq> []) P)"
  by (simp add: having_def filter_map comp_def title_text_def)

lemma count_as_filter: "count_list (map f P) k = length (filter (\<lambda>q. f q = k) P)"
  by (induction P) auto

text \<open>The verdict on titles is exact. The pages reported without a title are those whose title is blank, the
  short and the long ones are as many as there are titles below 25 and above 60 characters, and the duplicates
  are the pages whose title some other page has too, up to case; the rule never raises.\<close>

lemma title_findings_exact:
  "let P = pages_to_index A ctx; r = check_titles A ctx in
   snd r = None \<and>
   urls_of ''title-missing'' r = map pd_url (filter (\<lambda>p. title_text p = []) P) \<and>
   length (urls_of ''title-too-short'' r) = length (filter (\<lambda>p. title_text p \<noteq> [] \<and> length (title_text p) < 25) P) \<and>
   length (urls_of ''title-too-long'' r) = length (filter (\<lambda>p. 60 < length (title_text p)) P) \<and>
   set (urls_of ''title-duplicate'' r) = {pd_url p |p. p \<in> set P \<and> title_text p \<noteq> [] \<and>
     1 < length (filter (\<lambda>q. title_text q \<noteq> [] \<and> low A (title_text q) = low A (title_text p)) P)}"
proof -
  let ?P = "pages_to_index A ctx" and ?r = "check_titles A ctx"
  let ?T = "filter (\<lambda>p. title_text p \<noteq> []) ?P"
  let ?dupes = "repeated (by_text A (having pd_title ?P))"
  have last: "concat (map is_urls (filter (\<lambda>i. is_id i = lit name) (case ds of [] \<Rightarrow> []
      | (first, us) # _ \<Rightarrow> [i_title_duplicate ds flat first (num (length us))]))) =
    (if ds \<noteq> [] \<and> name = ''title-duplicate'' then flat else [])" for name flat and ds :: "(chars \<times> chars list) list"
    by (auto split: list.split prod.split)
  have r: "urls_of name ?r =
      (if name = ''title-missing'' then map pd_url (lacking pd_title ?P) else []) @
      (if name = ''title-too-short'' then map with_length_and_text (shorter_than TITLE_MIN (having pd_title ?P)) else []) @
      (if name = ''title-too-long'' then map with_length (longer_than TITLE_MIN TITLE_MAX (having pd_title ?P)) else []) @
      (if ?dupes \<noteq> [] \<and> name = ''title-duplicate'' then concat (map snd ?dupes) else [])" for name
    by (auto simp: urls_of_def check_titles_def Let_def gives_def urls_of_unless_empty last)
  have "lacking pd_title ?P = filter (\<lambda>p. title_text p = []) ?P" by (simp add: lacking_def title_text_def)
  moreover have "length (shorter_than TITLE_MIN (having pd_title ?P)) =
      length (filter (\<lambda>p. title_text p \<noteq> [] \<and> length (title_text p) < 25) ?P)"
    by (simp add: having_title shorter_than_def filter_map comp_def TITLE_MIN_def conj_commute)
  moreover have "length (longer_than TITLE_MIN TITLE_MAX (having pd_title ?P)) = length (filter (\<lambda>p. 60 < length (title_text p)) ?P)"
    by (auto simp: having_title longer_than_def filter_map comp_def TITLE_MIN_def TITLE_MAX_def intro!: arg_cong [of _ _ length] filter_cong)
  moreover have "set (concat (map snd ?dupes)) = {pd_url p |p. p \<in> set ?P \<and> title_text p \<noteq> [] \<and>
     1 < length (filter (\<lambda>q. title_text q \<noteq> [] \<and> low A (title_text q) = low A (title_text p)) ?P)}"
  proof -
    have g: "by_text A (having pd_title ?P) = groups (map (\<lambda>p. (low A (title_text p), pd_url p)) ?T)"
      by (simp add: by_text_def having_title comp_def)
    have "u \<in> set (concat (map snd ?dupes)) \<longleftrightarrow>
        (\<exists>p\<in>set ?T. u = pd_url p \<and> 1 < count_list (map (\<lambda>p. low A (title_text p)) ?T) (low A (title_text p)))" for u
      unfolding g repeated_values by (auto simp: comp_def)
    then show ?thesis by (auto simp: count_as_filter conj_commute)
  qed
  moreover have "snd ?r = None" by (simp add: check_titles_def Let_def gives_def)
  ultimately show ?thesis unfolding Let_def by (auto simp: r)
qed

text \<open>The copy the optimizer accepts for a title passes the audit. Whatever the language model answers, a title
  written by it and put on a page is neither missing nor too short nor too long for the rule on titles.\<close>

lemma accepted_title_passes_audit:
  assumes "apply_fix R U answers url (mk_fix ''title'' problem current candidate keyword why) = f"
    and "fx_written_by f = Some ''ai''" and "pd_title p = fx_candidate f"
  shows "lacking pd_title [p] = [] \<and> shorter_than TITLE_MIN (having pd_title [p]) = [] \<and>
         longer_than TITLE_MIN TITLE_MAX (having pd_title [p]) = []"
proof -
  have strip: "strip_white (strip_white t) = strip_white t" for t
  proof -
    have idem: "dropWhile is_white (rev (dropWhile is_white xs)) = rev (dropWhile is_white xs)" if "xs \<noteq> [] \<longrightarrow> \<not> is_white (hd (rev xs))" for xs
    proof (cases "dropWhile is_white xs = []")
      case False
      then have "last (dropWhile is_white xs) = last xs" by (metis last_appendR takeWhile_dropWhile_id)
      with that False show ?thesis by (cases "rev (dropWhile is_white xs)") (auto simp: last_rev hd_rev)
    next
      case True
      show ?thesis unfolding True by simp
    qed
    let ?d = "dropWhile is_white t"
    have h: "rev ?d \<noteq> [] \<longrightarrow> \<not> is_white (hd (rev (rev ?d)))" by (simp add: hd_dropWhile)
    show ?thesis unfolding strip_white_def strip_where_def
      using idem [OF h] by (metis dropWhile_idem rev_rev_ident)
  qed
  from assms(1,2) obtain t where t: "fx_candidate f = Some (strip_white t)"
      "accepts U (mk_fix ''title'' problem current candidate keyword why) (strip_white t)"
    by (auto simp: apply_fix_def mk_fix_def Let_def split: option.splits if_splits)
  from t(2) have "strip_white t \<noteq> []" "25 \<le> length (strip_white t)" "length (strip_white t) \<le> 60"
    by (auto simp: accepts_def mk_fix_def limits_of_def TITLE_MIN_def TITLE_MAX_def)
  with t(1) assms(3) show ?thesis
    by (simp add: lacking_def having_def shorter_than_def longer_than_def given_def strip TITLE_MIN_def TITLE_MAX_def)
qed

definition demo_answer :: dict where
  "demo_answer = [(''text'', JStr (replicate 30 (CHR ''a'')))]"

definition demo_page :: page_data where
  "demo_page = \<lparr>pd_url = lit ''http://a.ir/x'', pd_final_url = [], pd_status = 200, pd_redirects = [], pd_elapsed_ms = 0,
     pd_content_type = lit ''text/html'', pd_headers = [], pd_error = None, pd_depth = 0, pd_html = [], pd_byte_size = 0,
     pd_title = None, pd_description = None, pd_robots = [], pd_canonical = None, pd_viewport = None, pd_lang = None,
     pd_charset = None, pd_hreflang = [], pd_og = [], pd_twitter = [], pd_favicon = None, pd_headings = [], pd_text = [], pd_words = 0, pd_images = [],
     pd_links = [], pd_jsonld = [], pd_microdata = [], pd_blocking_scripts = 0, pd_blocking_styles = 0,
     pd_inline_script_bytes = 0, pd_inline_style_bytes = 0, pd_external_scripts = 0, pd_iframes = 0, pd_inlinks = 0, pd_content_hash = []\<rparr>"

subsection \<open>robots.txt\<close>

text \<open>
  How RFC 9309 reads the file: consecutive lines of agents open a group, their rules follow, and the next line
  of an agent starts a new group; other lines are passed over.
\<close>

fun group_blocks :: "chars list \<Rightarrow> bool \<Rightarrow> chars list \<Rightarrow> bool" where
  "group_blocks agents ruled [] = False"
| "group_blocks agents ruled (raw # lines) =
     (let line = strip_white (until 35 raw) in
      if prefix (lit ''user-agent:'') line then
        group_blocks (if ruled then [value_of line] else agents @ [value_of line]) False lines
      else if prefix (lit ''disallow:'') line then
        value_of line = lit ''/'' \<and> (\<exists>a\<in>set agents. a = lit ''*'' \<or> a = lit ''googlebot'') \<or> group_blocks agents True lines
      else if prefix (lit ''allow:'') line then group_blocks agents True lines
      else group_blocks agents ruled lines)"

text \<open>Within the rules of one group the two readings agree.\<close>

lemma one_group_agrees:
  assumes "\<forall>raw\<in>set lines. (let line = strip_white (until 35 raw) in
     line = [] \<or> prefix (lit ''disallow:'') line \<and> \<not> prefix (lit ''user-agent:'') line \<or>
     prefix (lit ''allow:'') line \<and> \<not> prefix (lit ''user-agent:'') line)"
  shows "blocks_site agents lines = group_blocks agents ruled lines"
proof -
  have empty: "\<not> prefix (lit (c # cs)) []" for c cs by (simp add: lit_def)
  show ?thesis using assms
  proof (induction lines arbitrary: ruled)
    case (Cons raw lines)
    let ?line = "strip_white (until 35 raw)"
    have IH: "blocks_site agents lines = group_blocks agents ruled' lines" for ruled'
      by (rule Cons.IH) (use Cons.prems in simp)
    from Cons.prems consider "?line = []" | "prefix (lit ''disallow:'') ?line" "\<not> prefix (lit ''user-agent:'') ?line"
      | "prefix (lit ''allow:'') ?line" "\<not> prefix (lit ''user-agent:'') ?line" by (auto simp: Let_def)
    then show ?case
    proof cases
      case 1
      then show ?thesis using IH [of ruled] by (simp add: empty)
    next
      case 2
      then show ?thesis using IH [of True] by (cases "?line = []") (simp_all add: empty)
    next
      case 3
      then show ?thesis using IH [of True] by (cases "?line = []") (simp_all add: empty)
    qed
  qed simp
qed

definition one_bot_out :: chars where
  "one_bot_out = lit ''user-agent: *'' @ [10] @ lit ''disallow: /cart'' @ [10] @ [10] @
     lit ''user-agent: badbot'' @ [10] @ lit ''disallow: /'' @ [10]"

definition all_bots_out :: chars where
  "all_bots_out = lit ''user-agent: *'' @ [10] @ lit ''crawl-delay: 5'' @ [10] @ lit ''disallow: /'' @ [10]"

lemma robots_issue [simp]: "is_id (i_robots_blocks_site u) = lit ''robots-blocks-site''"
  "is_severity (i_robots_blocks_site u) = S_Critical"
  by (simp_all add: i_robots_blocks_site_def)

text \<open>Robots.txt is misread both ways. A file that shuts out a single bot is reported as blocking the whole
  site, because a new group of agents does not end the previous one, and the report of that site is capped at
  45 for it; a file that shuts everybody out passes, because an unknown line ends the group.\<close>

lemma robots_misread_both_ways:
  "\<not> group_blocks [] False (splitlines one_bot_out) \<and>
   (\<exists>i\<in>set (rp_issues (audit shown plain_env now (empty_site\<lparr>sc_robots_txt := Some one_bot_out\<rparr>))). is_id i = lit ''robots-blocks-site'') \<and>
   rp_overall (audit shown plain_env now (empty_site\<lparr>sc_robots_txt := Some one_bot_out\<rparr>)) \<le> 45 \<and>
   group_blocks [] False (splitlines all_bots_out) \<and>
   \<not> list_ex (\<lambda>i. is_id i = lit ''robots-blocks-site'') (fst (check_robots plain_env (empty_site\<lparr>sc_robots_txt := Some all_bots_out\<rparr>)))"
proof -
  let ?open = "empty_site\<lparr>sc_robots_txt := Some one_bot_out\<rparr>"
  let ?i = "i_robots_blocks_site (sc_start_url ?open)"
  have v: "\<not> group_blocks [] False (splitlines one_bot_out)" "blocks_site [] (splitlines (low plain_env one_bot_out))"
    "group_blocks [] False (splitlines all_bots_out)" "\<not> blocks_site [] (splitlines (low plain_env all_bots_out))"
    by code_simp+
  have "?i \<in> set (fst (check_robots plain_env ?open))"
    using v(2) by (simp add: check_robots_def Let_def gives_def)
  then have i: "?i \<in> set (rp_issues (audit shown plain_env now ?open))"
    by (rule found_by_rule [of "lit ''robots-txt''", rotated]) (simp add: all_rules_def)
  then have "list_ex (\<lambda>i. is_severity i = S_Critical) (rp_issues (audit shown plain_env now ?open))"
    by (auto simp: list_ex_iff intro!: bexI [of _ ?i])
  then have "rp_overall (audit shown plain_env now ?open) \<le> 45"
    by (auto simp: audit_def overall_score_def Let_def split: prod.split)
  moreover have "\<not> list_ex (\<lambda>i. is_id i = lit ''robots-blocks-site'') (fst (check_robots plain_env (empty_site\<lparr>sc_robots_txt := Some all_bots_out\<rparr>)))"
    using v(4) by (simp add: check_robots_def Let_def gives_def i_robots_no_sitemap_def i_robots_blocks_assets_def)
  ultimately show ?thesis using v i by (intro conjI bexI [of _ ?i]) simp_all
qed

subsection \<open>What the services read\<close>

lemma report_pages: "dget (report_to_dict A r) ''pages'' = JList (map (JObj \<circ> report_page A) (sc_pages (rp_site r)))"
  by (simp add: report_to_dict_def)

lemma mapE_all: "(\<And>x. x \<in> set xs \<Longrightarrow> f x = Inr (g x)) \<Longrightarrow> mapE f xs = Inr (map g xs)"
  by (induction xs) simp_all

lemma report_page_fields [simp]:
  "dget (report_page A p) ''url'' = JText (pd_url p)" "dget (report_page A p) ''words'' = JInt (pd_words p)"
  "dget (report_page A p) ''indexable'' = JBool (is_indexable A p)"
  "dget_default (report_page A p) ''indexable'' j = JBool (is_indexable A p)"
  "dget (report_page A p) ''title'' = opt_text (pd_title p)"
  "dget (report_page A p) ''description'' = opt_text (pd_description p)"
  "dget (report_page A p) ''headings'' = JList (map (\<lambda>(level, t). JObj [(''level'', JInt level), (''text'', JText t)])
     (take MAX_HEADINGS (pd_headings p)))"
  by (simp_all add: report_page_def dget_default_def)

lemma words_read: "py_int (py_or (JInt n) (JInt 0)) = Inr n"
  by (simp add: py_or_def)

lemma list_read: "as_list (py_or (JList xs) (JList [])) = Inr xs"
  by (simp add: py_or_def)

lemma text_read: "\<exists>t. stripped_text (opt_text o') = Inr t"
  by (cases o') (auto simp: stripped_text_def opt_text_def py_or_def JText_def)

lemma rows_read:
  assumes "\<And>p. p \<in> set ps \<Longrightarrow> \<exists>x. row (report_page A p) = Inr x \<and> good p x"
  shows "\<exists>xs. mapE (\<lambda>j. bindE (as_dict j) (\<lambda>d. if truthy (dget d ''url'') then bindE (row d) (\<lambda>x. Inr [x]) else Inr []))
           (map (JObj \<circ> report_page A) ps) = Inr xs \<and> list_all2 good (filter (\<lambda>p. pd_url p \<noteq> []) ps) (concat xs)"
  using assms
proof (induction ps)
  case (Cons p ps)
  obtain xs where xs: "mapE (\<lambda>j. bindE (as_dict j) (\<lambda>d. if truthy (dget d ''url'') then bindE (row d) (\<lambda>x. Inr [x]) else Inr []))
           (map (JObj \<circ> report_page A) ps) = Inr xs" "list_all2 good (filter (\<lambda>p. pd_url p \<noteq> []) ps) (concat xs)"
    using Cons.IH Cons.prems by (meson list.set_intros(2))
  obtain x where "row (report_page A p) = Inr x" "good p x" using Cons.prems [of p] by auto
  with xs show ?case by (cases "pd_url p = []") (auto simp: JText_def comp_def)
qed simp

text \<open>C28: the report the engine writes is one the services can read. The content service, the optimizer and the
  competitor service build a page from every page of the report that has an address, with its address, its
  number of words and its verdict on indexing, and never raise on it; only the name of a competitor's site
  depends on its start address.\<close>

theorem audit_report_readable:
  "\<exists>ps qs es.
     build_pages R (report_to_dict A r) = Inr ps \<and> opt_build_pages R (report_to_dict A r) = Inr qs \<and>
     build_site R (report_to_dict A r) =
       bindE (site_label R (report_to_dict A r)) (\<lambda>l. Inr \<lparr>st_label = l, st_pages = es\<rparr>) \<and>
     (let site = filter (\<lambda>p. pd_url p \<noteq> []) (sc_pages (rp_site r));
          view = map (\<lambda>p. (encode (pd_url p), pd_words p, is_indexable A p)) site
      in map (\<lambda>p. (pg_url p, pg_words p, pg_indexable p)) ps = view \<and>
         map (\<lambda>q. (op_url q, op_words q, op_indexable q)) qs = view \<and>
         map (\<lambda>e. (cp_url e, cp_words e, cp_indexable e)) es = view)"
proof -
  let ?ps = "sc_pages (rp_site r)"
  have all2: "map f xs = map g ys" if "list_all2 (\<lambda>y x. f x = g y) ys xs"
    for f :: "'x \<Rightarrow> 'z" and g :: "'y \<Rightarrow> 'z" and xs ys
    using that by (induction rule: list_all2_induct) simp_all
  obtain ps where ps: "build_pages R (report_to_dict A r) = Inr ps"
      "list_all2 (\<lambda>p x. (pg_url x, pg_words x, pg_indexable x) = (encode (pd_url p), pd_words p, is_indexable A p))
         (filter (\<lambda>p. pd_url p \<noteq> []) ?ps) ps"
    using rows_read [of ?ps "build_page R" A "\<lambda>p x. (pg_url x, pg_words x, pg_indexable x) = (encode (pd_url p), pd_words p, is_indexable A p)"]
    by (auto simp: build_pages_def report_pages list_read build_page_def words_read JText_def)
  obtain qs where qs: "opt_build_pages R (report_to_dict A r) = Inr qs"
      "list_all2 (\<lambda>p x. (op_url x, op_words x, op_indexable x) = (encode (pd_url p), pd_words p, is_indexable A p))
         (filter (\<lambda>p. pd_url p \<noteq> []) ?ps) qs"
  proof -
    have "\<exists>x. opt_build_page R (report_page A p) = Inr x \<and>
        (op_url x, op_words x, op_indexable x) = (encode (pd_url p), pd_words p, is_indexable A p)" for p
      using text_read [of "pd_title p"] text_read [of "pd_description p"]
      by (auto simp: opt_build_page_def list_read words_read JText_def)
    from rows_read [of ?ps "opt_build_page R" A, OF this] that show ?thesis
      by (auto simp: opt_build_pages_def report_pages list_read)
  qed
  obtain es where es: "build_site R (report_to_dict A r) =
       bindE (site_label R (report_to_dict A r)) (\<lambda>l. Inr \<lparr>st_label = l, st_pages = es\<rparr>)"
      "list_all2 (\<lambda>p x. (cp_url x, cp_words x, cp_indexable x) = (encode (pd_url p), pd_words p, is_indexable A p))
         (filter (\<lambda>p. pd_url p \<noteq> []) ?ps) es"
  proof -
    have "\<exists>x. site_row R (report_page A p) = Inr x \<and>
        (cp_url x, cp_words x, cp_indexable x) = (encode (pd_url p), pd_words p, is_indexable A p)" for p
      by (simp add: site_row_def list_read words_read JText_def)
    from rows_read [of ?ps "site_row R" A, OF this] that show ?thesis
      by (auto simp: build_site_def report_pages list_read)
  qed
  from ps qs es show ?thesis unfolding Let_def by (intro exI conjI) (assumption | erule all2)+
qed

end
