(* ===== verification/Crawl_Work.thy ===== *)
theory Crawl_Work
  imports Crawler_Properties Audit_Properties Services
begin

text \<open>
  The crawl service with its real work: the configuration it makes of a request, the crawl, the audit and the
  report (\<^verbatim>\<open>run_crawl\<close> in \<^verbatim>\<open>src/services/crawl/api.py\<close>), and the check of the address a crawl is asked for.
\<close>

text \<open>Numbers and texts of a request; a value of another type ends in a \<^verbatim>\<open>TypeError\<close> inside the crawl.\<close>

definition request_config :: "dict \<Rightarrow> crawl_config py" where
  "request_config request =
     bindE (bindE (ditem request ''start_url'') as_chars) (\<lambda>url.
     bindE (as_int (dget_default request ''max_pages'' (JInt 50))) (\<lambda>pages.
     bindE (as_int (dget_default request ''max_depth'' (JInt 3))) (\<lambda>depth.
     bindE (as_chars (dget_default request ''user_agent'' (JStr ''mobile''))) (\<lambda>agent.
     bindE (bindE (as_list (dget_default request ''target_keywords'' (JList []))) (mapE as_chars)) (\<lambda>keywords.
       Inr ((config_for url)\<lparr>cf_max_pages := pages, cf_max_depth := depth, cf_user_agent_key := encode agent,
         cf_respect_robots := truthy (dget_default request ''respect_robots'' (JBool True)),
         cf_check_external := truthy (dget_default request ''check_external_links'' (JBool True)),
         cf_follow_subdomains := truthy (dget_default request ''follow_subdomains'' (JBool False)),
         cf_keywords := keywords\<rparr>))))))"

text \<open>The crawl always ends (\<open>request_crawl_ends\<close>), so \<open>the\<close> takes a result that is there.\<close>

definition crawl_work ::
  "'w net_env \<Rightarrow> 't soup_env \<Rightarrow> (exn \<Rightarrow> chars) \<Rightarrow> chars \<Rightarrow> 'w \<Rightarrow> dict \<Rightarrow> dict py" where
  "crawl_work E S shown now w request =
     bindE (request_config request) (\<lambda>cf.
     bindE (fst (the (crawl E S cf w))) (\<lambda>ctx.
       Inr (report_to_dict (ne_audit E) (audit shown (ne_audit E) now ctx))))"

lemma request_crawl_ends: "request_config request = Inr cf \<Longrightarrow> \<exists>r w'. crawl E S cf w = Some (r, w')"
  by (rule crawl_terminates) (auto simp: request_config_def config_for_def)

definition check_start_url :: "'w net_env \<Rightarrow> string \<Rightarrow> string py" where
  "check_start_url E url =
     bindE (normalize_url (ne_audit E) (code_points url)) (\<lambda>clean. bindE (guard_url E clean) (\<lambda>_. Inr (encode clean)))"

subsection \<open>The events of a crawl\<close>

lemma mapE_scores:
  "mapE (\<lambda>row. bindE (as_dict row) (\<lambda>c. bindE (ditem c ''category'') (\<lambda>k. bindE (ditem c ''score'') (\<lambda>v.
      bindE (ditem c ''issue_count'') (\<lambda>n. Inr (JObj [(''category'', k), (''score'', v), (''issue_count'', n)]))))))
     (map (JObj \<circ> category_score_to_dict) cs) =
   Inr (map (\<lambda>c. JObj [(''category'', JStr (category_value (cg_category c))), (''score'', JInt (cg_score c)),
      (''issue_count'', JInt (cg_issue_count c))]) cs)"
  by (induction cs) (simp_all add: category_score_to_dict_def ditem_def)

lemma mapE_pages:
  assumes "\<forall>url. \<exists>i. uuid5 url = Inr i"
  shows "\<exists>pss. mapE (\<lambda>row. bindE (as_dict row) (\<lambda>page.
      if truthy (dget page ''indexable'') then bindE (page_payload uuid5 job page) (\<lambda>p. Inr [p]) else Inr []))
      (map (JObj \<circ> report_page A) ps) = Inr pss \<and>
    map (\<lambda>p. (dget p ''url'', dget p ''content_hash'', dget p ''word_count'')) (concat pss) =
      map (\<lambda>p. (JText (pd_url p), JText (pd_content_hash p), JInt (pd_words p))) (filter (is_indexable A) ps)"
proof (induction ps)
  case (Cons p ps)
  obtain i where i: "uuid5 (JText (pd_url p)) = Inr i" using assms by blast
  have "page_payload uuid5 job (report_page A p) = Inr
      [(''page_id'', JStr i), (''crawl_id'', JStr job), (''url'', JText (pd_url p)), (''title'', opt_text (pd_title p)),
       (''content_hash'', JText (pd_content_hash p)), (''previous_content_hash'', JNull), (''word_count'', JInt (pd_words p)),
       (''status_code'', JInt (pd_status p)), (''indexable'', JBool True)]"
    by (simp add: page_payload_def ditem_def dget_default_def report_page_def i)
  with Cons.IH show ?case by (cases "is_indexable A p") auto
qed simp



end
