(* ===== verification/Report_Render.thy ===== *)
theory Report_Render
  imports Upstream Audit_Text Planner Job_Store
begin

text \<open>
  \<^verbatim>\<open>src/services/reporting/render.py\<close>: a workflow with its report as one document, in Markdown and as a
  page of HTML. Whatever the workflow holds is dynamic data; a value of the wrong shape raises where the
  code would raise. A Markdown line is a JSON value until the end, where \<^verbatim>\<open>"\n".join\<close> asks for text.
\<close>

subsection \<open>Names\<close>

definition STATUS_FA :: "(string \<times> string) list" where
  "STATUS_FA =
    [(''completed'', encode (fa ''anjam Sd'')), (''failed'', encode (fa ''Skst xvrd'')), (''skipped'', encode (fa ''anjam nSd'')),
     (''running'', encode (fa ''dr Hal ajra'')), (''queued'', encode (fa ''dr ef'')), (''pending'', encode (fa ''dr antZar'')),
     (''dispatched'', encode (fa ''dr Hal ajra''))]"

definition STEP_FA :: "(string \<times> string) list" where
  "STEP_FA =
    [(''crawl'', encode (fa ''xzS sayt'')), (''keyword_research'', encode (fa ''tHqyq klmat klydy'')),
     (''serp_check'', encode (fa ''brrsy jaygah'')), (''link_analysis'', encode (fa ''tHlyl lynk daxly'')),
     (''content_analysis'', encode (fa ''pvSS mHtva'')), (''optimizer_plan'', encode (fa ''pySnhad baznvysy'')),
     (''competitor_crawl'', encode (fa ''xzS sayt rqyb'')), (''competitor_check'', encode (fa ''mqaysh ba rqba''))]"

definition HEADLINE_FA :: "(string \<times> string) list" where
  "HEADLINE_FA =
    [(''overall_score'', encode (fa ''amtyaz kly'')), (''total_issues'', encode (fa ''todad ayradha'')),
     (''keywords_found'', encode (fa ''klmat klydy'')), (''keywords_ranked'', encode (fa ''rtbh_grfth'')),
     (''average_position'', encode (fa ''myangyn jaygah'')), (''orphan_pages'', encode (fa ''efHh_y ytym'')),
     (''keyword_coverage'', encode (fa ''pvSS klmat (%)'')), (''pages_to_rewrite'', encode (fa ''efHh bray baznvysy'')),
     (''competitors_compared'', encode (fa ''rqyb mqaysh_Sdh'')), (''behind_on'', encode (fa ''snjh_ay kh oqb_ayd''))]"

definition VERDICT_FA :: "(string \<times> string) list" where
  "VERDICT_FA = [(''better'', encode (fa ''bhtr'')), (''worse'', encode (fa ''bdtr''))]"

definition dash :: string where
  "dash = encode (fa ''~'')"

text \<open>\<^verbatim>\<open>table.get(key, default)\<close>: a list or a dictionary is no key.\<close>

fun name_in :: "(string \<times> string) list \<Rightarrow> json \<Rightarrow> json \<Rightarrow> json py" where
  "name_in table (JStr k) absent = Inr (case map_of table k of None \<Rightarrow> absent | Some t \<Rightarrow> JStr t)"
| "name_in table (JList _) absent = Inl TypeError"
| "name_in table (JObj _) absent = Inl TypeError"
| "name_in table _ absent = Inr absent"

text \<open>\<^verbatim>\<open>d.get(k) or {}\<close>, used as a dictionary.\<close>

definition part_of :: "dict \<Rightarrow> string \<Rightarrow> dict py" where
  "part_of d k = as_dict (py_or (dget d k) (JObj []))"

text \<open>\<^verbatim>\<open>for row in rows:\<close> where the body reads the row as a dictionary.\<close>

definition each_row :: "(dict \<Rightarrow> 'a py) \<Rightarrow> json \<Rightarrow> 'a list py" where
  "each_row f rows = bindE (as_list rows) (mapE (\<lambda>row. bindE (as_dict row) f))"

fun between :: "string \<Rightarrow> string list \<Rightarrow> string" where
  "between sep [] = []"
| "between sep [x] = x"
| "between sep (x # y # xs) = x @ sep @ between sep (y # xs)"

definition title_of :: "runtime \<Rightarrow> dict \<Rightarrow> string py" where
  "title_of R workflow =
     bindE (part_of workflow ''inputs'') (\<lambda>inputs.
     bindE (if truthy (dget inputs ''start_url'') then Inr (dget inputs ''start_url'')
            else bindE (part_of workflow ''report'') (\<lambda>report.
                 bindE (as_dict (dget_default report ''crawl'' (JObj []))) (\<lambda>crawl.
                   Inr (py_or (dget crawl ''start_url'') (JStr []))))) (\<lambda>site.
       Inr (if truthy site then encode (fa ''gzarS sYv ~ '') @ py_str R site else encode (fa ''gzarS sYv''))))"

text \<open>
  \<^verbatim>\<open>sorted(steps, key=lambda s: s.get("position", 0))\<close>: numbers compare with numbers and texts with texts;
  anything else raises as soon as there are two of them.
\<close>

fun number_of :: "json \<Rightarrow> rat option" where
  "number_of (JInt i) = Some (of_int i)"
| "number_of (JFloat r) = Some r"
| "number_of (JBool b) = Some (if b then 1 else 0)"
| "number_of _ = None"

fun text_in :: "json \<Rightarrow> string option" where
  "text_in (JStr s) = Some s"
| "text_in _ = None"

definition sorted_steps :: "json \<Rightarrow> dict list py" where
  "sorted_steps steps =
     bindE (each_row Inr steps) (\<lambda>rows.
       let position = (\<lambda>r. dget_default r ''position'' (JInt 0)) in
       if length rows \<le> 1 then Inr rows
       else if list_all (\<lambda>r. number_of (position r) \<noteq> None) rows
       then Inr (sort_key (\<lambda>r. case number_of (position r) of None \<Rightarrow> 0 | Some n \<Rightarrow> n) rows)
       else if list_all (\<lambda>r. text_in (position r) \<noteq> None) rows
       then Inr (sort_key (\<lambda>r. case text_in (position r) of None \<Rightarrow> [] | Some t \<Rightarrow> t) rows)
       else Inl TypeError)"

text \<open>A metric that was never measured is left out.\<close>

definition headline_rows :: "dict \<Rightarrow> (string \<times> json) list py" where
  "headline_rows report =
     bindE (part_of report ''headline'') (\<lambda>headline.
       Inr (List.map_filter (\<lambda>(key, label).
              if dget headline key \<noteq> JNull then Some (label, dget headline key) else None) HEADLINE_FA))"

text \<open>The change with its sign, and which way is better.\<close>

definition arrow :: "runtime \<Rightarrow> dict \<Rightarrow> string py" where
  "arrow R change =
     (let delta = dget_default change ''change'' (JInt 0) in
      case number_of delta of
        None \<Rightarrow> Inl TypeError
      | Some n \<Rightarrow>
          bindE (name_in VERDICT_FA (dget change ''direction'') (JStr (encode (fa ''bdvn tGyyr monadar'')))) (\<lambda>verdict.
            Inr ((if 0 < n then ''+'' else []) @ py_str R delta @ '' ('' @ py_str R verdict @ '')'')))"

subsection \<open>Markdown\<close>

definition cells :: "string list \<Rightarrow> json" where
  "cells xs = JStr (''| '' @ between '' | '' xs @ '' |'')"

text \<open>The heading of a section and the two lines that open its table.\<close>

definition table_lines :: "string \<Rightarrow> string list \<Rightarrow> json list \<Rightarrow> json list" where
  "table_lines heading columns rows =
     [JStr (''## '' @ heading), JStr [], cells columns, cells (map (\<lambda>_. ''---'') columns)] @ rows @ [JStr []]"

definition field_text :: "runtime \<Rightarrow> dict \<Rightarrow> string \<Rightarrow> string" where
  "field_text R row k = py_str R (dget_default row k (JStr []))"

definition plain_rows :: "runtime \<Rightarrow> string list \<Rightarrow> json \<Rightarrow> json list py" where
  "plain_rows R keys rows = each_row (\<lambda>row. Inr (cells (map (field_text R row) keys))) rows"

definition when_given :: "dict \<Rightarrow> string \<Rightarrow> (json \<Rightarrow> 'a list py) \<Rightarrow> 'a list py" where
  "when_given d k f = (if truthy (dget d k) then f (dget d k) else Inr [])"

definition position_text :: "dict \<Rightarrow> json" where
  "position_text row = (if dget row ''position'' \<noteq> JNull then dget row ''position'' else JStr (encode (fa ''pyda nSd'')))"

definition written_fa :: "dict \<Rightarrow> string" where
  "written_fa advice =
     (if dget advice ''written_by'' = JStr ''ai'' then encode (fa ''mtn Amadh'') else encode (fa ''dstvraloml''))"

definition rankings_md :: "runtime \<Rightarrow> dict \<Rightarrow> json list py" where
  "rankings_md R rankings =
     bindE (when_given rankings ''opportunities'' (\<lambda>found.
       bindE (bindE (jtake 15 found) (each_row (\<lambda>row.
                Inr (cells [field_text R row ''keyword'', py_str R (position_text row), field_text R row ''opportunity'']))))
         (\<lambda>rows. Inr (table_lines (encode (fa ''fret_hay rtbh'')) [encode (fa ''klmh klydy''), encode (fa ''jaygah foly''), encode (fa ''fret'')] rows)))) (\<lambda>first.
     bindE (when_given rankings ''top_competitors'' (\<lambda>found.
       bindE (plain_rows R [''domain'', ''outranks_on''] found) (\<lambda>rows.
         Inr (table_lines (encode (fa ''rqba'')) [encode (fa ''damnh''), encode (fa ''rvy Cnd obart balatr ast'')] rows)))) (\<lambda>second.
       Inr (first @ second)))"

definition gaps_md :: "runtime \<Rightarrow> dict \<Rightarrow> json list py" where
  "gaps_md R content =
     when_given content ''top_gaps'' (\<lambda>found.
       bindE (plain_rows R [''keyword'', ''demand''] found) (\<lambda>rows.
         Inr (table_lines (encode (fa ''efHh_hayy kh hnvz nvSth nSdh_and'')) [encode (fa ''klmh klydy''), encode (fa ''tqaEa'')] rows)))"

definition change_label :: "dict \<Rightarrow> json" where
  "change_label row = dget_default row ''label_fa'' (dget_default row ''metric'' (JStr []))"

definition trend_md :: "runtime \<Rightarrow> dict \<Rightarrow> json list py" where
  "trend_md R trend =
     when_given trend ''changes'' (\<lambda>found.
       bindE (each_row (\<lambda>row. bindE (arrow R row) (\<lambda>a.
                Inr (cells [py_str R (change_label row), field_text R row ''before'', field_text R row ''after'', a]))) found) (\<lambda>rows.
         Inr (table_lines (encode (fa ''nsbt bh ajray qbly'')) [encode (fa ''snjh''), encode (fa ''qbl''), encode (fa ''Hala''), encode (fa ''tGyyr'')] rows
              @ (if truthy (dget trend ''note'') then [dget trend ''note'', JStr []] else []))))"

definition rivals_md :: "runtime \<Rightarrow> dict \<Rightarrow> json list py" where
  "rivals_md R rivals =
     when_given rivals ''top_missing_themes'' (\<lambda>found.
       bindE (as_list found) (\<lambda>terms.
         Inr (table_lines (encode (fa ''mvEvo_hayy kh rqba pvSS my_dhnd v Sma nh ('')
                           @ py_str R (dget_default rivals ''compared_against'' (JInt 0)) @ encode (fa '' rqyb mqaysh Sd)''))
                [encode (fa ''mvEvo'')] (map (\<lambda>term. cells [py_str R term]) terms))))"

definition links_md :: "runtime \<Rightarrow> dict \<Rightarrow> json list py" where
  "links_md R links =
     when_given links ''top_opportunities'' (\<lambda>found.
       bindE (plain_rows R [''url'', ''inlinks'', ''authority''] found) (\<lambda>rows.
         Inr (table_lines (encode (fa ''efHaty kh lynk daxly km darnd'')) [encode (fa ''efHh''), encode (fa ''lynk vrvdy''), encode (fa ''aotbar daxly'')] rows)))"

definition plan_md :: "runtime \<Rightarrow> dict \<Rightarrow> json list py" where
  "plan_md R advice =
     when_given advice ''pages'' (\<lambda>found.
       bindE (plain_rows R [''url'', ''fixes''] found) (\<lambda>rows.
         Inr (table_lines (encode (fa ''pySnhad baznvysy ('') @ written_fa advice @ '')'') [encode (fa ''efHh''), encode (fa ''todad aelaH'')] rows)))"

text \<open>The sections in the order of the report; each reads its own part.\<close>

definition sections_of ::
  "(string \<times> (dict \<Rightarrow> 'a list py)) list \<Rightarrow> dict \<Rightarrow> 'a list py" where
  "sections_of parts report =
     bindE (mapE (\<lambda>(k, f). bindE (part_of report k) f) parts) (\<lambda>out. Inr (concat out))"

definition sections_md :: "runtime \<Rightarrow> dict \<Rightarrow> json list py" where
  "sections_md R =
     sections_of [(''rankings'', rankings_md R), (''content'', gaps_md R), (''trend'', trend_md R),
       (''competitors'', rivals_md R), (''links'', links_md R), (''optimizer'', plan_md R)]"

definition FOOTER :: string where
  "FOOTER = encode (fa ''saxth_Sdh ba ayjnt sYv. aodad <fret> avlvyt nsby_and, nh pyS_byny trafyk.'')"

definition source_fa :: "dict \<Rightarrow> string" where
  "source_fa summary =
     (if dget summary ''source'' = JStr ''ai'' then encode (fa ''nvSth_y mdl'') else encode (fa ''qanvn_mHvr''))"

definition field_or :: "runtime \<Rightarrow> dict \<Rightarrow> string \<Rightarrow> string \<Rightarrow> string" where
  "field_or R d k absent = py_str R (dget_default d k (JStr absent))"

definition action_lines :: "runtime \<Rightarrow> nat \<Rightarrow> dict \<Rightarrow> json list" where
  "action_lines R index action =
     [JStr (show_nat index @ ''. **'' @ field_or R action ''action'' [] @ ''**  ''),
      JStr (''   '' @ field_or R action ''why'' [] @ encode (fa '' ~ tlaS: '') @ field_or R action ''effort'' dash @ encode (fa '', '')
            @ encode (fa ''acr: '') @ field_or R action ''impact'' dash)]"

definition actions_md :: "runtime \<Rightarrow> dict \<Rightarrow> json list py" where
  "actions_md R summary =
     when_given summary ''next_actions'' (\<lambda>found.
       bindE (as_list found) (\<lambda>actions.
       bindE (mapE (\<lambda>(i, a). bindE (as_dict a) (\<lambda>action. Inr (action_lines R i action))) (List.enumerate 1 actions)) (\<lambda>out.
         Inr ([JStr (encode (fa ''[### ]qdm_hay body'')), JStr []] @ concat out @ [JStr []]))))"

definition watch_md :: "runtime \<Rightarrow> dict \<Rightarrow> json list py" where
  "watch_md R summary =
     when_given summary ''watch_outs'' (\<lambda>found.
       bindE (as_list found) (\<lambda>items.
         Inr ([JStr (encode (fa ''[### ]Cyzhayy kh ayn gzarS nmy_dand'')), JStr []]
              @ map (\<lambda>item. JStr (''- '' @ py_str R item)) items @ [JStr []])))"

definition summary_md :: "runtime \<Rightarrow> dict \<Rightarrow> json list py" where
  "summary_md R summary =
     when_given summary ''text_fa'' (\<lambda>written.
       bindE (actions_md R summary) (\<lambda>actions.
       bindE (watch_md R summary) (\<lambda>watch.
         Inr ([JStr (encode (fa ''[## ]xlaeh ('') @ source_fa summary @ '')''), JStr [], written, JStr []] @ actions @ watch))))"

definition step_cells :: "runtime \<Rightarrow> dict \<Rightarrow> json py" where
  "step_cells R step =
     bindE (name_in STEP_FA (dget step ''kind'') (dget_default step ''kind'' (JStr []))) (\<lambda>kind.
     bindE (name_in STATUS_FA (dget step ''status'') (dget_default step ''status'' (JStr []))) (\<lambda>status.
       Inr (cells [field_text R step ''position'', py_str R kind, py_str R status,
                   py_str R (py_or (dget step ''error'') (JStr []))])))"

definition steps_md :: "runtime \<Rightarrow> dict \<Rightarrow> json list py" where
  "steps_md R workflow =
     when_given workflow ''steps'' (\<lambda>steps.
       bindE (sorted_steps steps) (\<lambda>rows.
       bindE (mapE (step_cells R) rows) (\<lambda>out.
         Inr (table_lines (encode (fa ''mraHl'')) [''#'', encode (fa ''mrHlh''), encode (fa ''vEoyt''), encode (fa ''tvEyH'')] out))))"

fun joined_lines :: "json list \<Rightarrow> string py" where
  "joined_lines lines =
     bindE (mapE (\<lambda>l. case l of JStr s \<Rightarrow> Inr s | _ \<Rightarrow> Inl TypeError) lines) (\<lambda>texts. Inr (between [CHR 0x0A] texts))"

definition status_of :: "dict \<Rightarrow> json py" where
  "status_of workflow = name_in STATUS_FA (dget workflow ''status'') (dget_default workflow ''status'' (JStr dash))"

definition markdown :: "runtime \<Rightarrow> dict \<Rightarrow> string py" where
  "markdown R workflow =
     bindE (part_of workflow ''report'') (\<lambda>report.
     bindE (title_of R workflow) (\<lambda>title.
     bindE (status_of workflow) (\<lambda>status.
     bindE (bindE (part_of report ''summary'') (summary_md R)) (\<lambda>told.
     bindE (headline_rows report) (\<lambda>numbers.
     bindE (steps_md R workflow) (\<lambda>steps.
     bindE (sections_md R report) (\<lambda>sections.
       joined_lines
         ([JStr (''# '' @ title), JStr [],
           JStr (encode (fa ''[**]vEoyt:[** ]'') @ py_str R status @ ''  ''),
           JStr (encode (fa ''[**]taryx:[** ]'') @ py_str R (py_or (dget workflow ''created_at'') (JStr dash)) @ ''  ''),
           JStr (encode (fa ''[**]Snash:[** ]'') @ ''`'' @ field_or R workflow ''workflow_id'' dash @ ''`''), JStr []]
          @ (if truthy (dget workflow ''error'')
             then [JStr (encode (fa ''[> ]ayn tHlyl kaml nSd: '') @ py_str R (dget workflow ''error'')), JStr []] else [])
          @ told
          @ (if numbers = [] then []
             else table_lines (encode (fa ''aodad aely'')) [encode (fa ''moyar''), encode (fa ''mqdar'')]
                    (map (\<lambda>(label, value). cells [label, py_str R value]) numbers))
          @ steps @ sections @ [JStr ''---'', JStr [], JStr FOOTER]))))))))"

subsection \<open>HTML\<close>

text \<open>\<^verbatim>\<open>html.escape(s, quote=True)\<close>.\<close>

definition escape_char :: "char \<Rightarrow> string" where
  "escape_char c =
     (if c = CHR ''&'' then ''&amp;'' else if c = CHR ''<'' then ''&lt;'' else if c = CHR ''>'' then ''&gt;''
      else if c = CHR 0x22 then ''&quot;'' else if c = CHR 0x27 then ''&#x27;'' else [c])"

definition html_escape :: "string \<Rightarrow> string" where
  "html_escape s = concat (map escape_char s)"

text \<open>\<^verbatim>\<open>_e\<close>: every value goes through here.\<close>

definition html_of :: "runtime \<Rightarrow> json \<Rightarrow> string" where
  "html_of R value = html_escape (if value = JNull then [] else py_str R value)"

definition table_html :: "runtime \<Rightarrow> string \<Rightarrow> string list \<Rightarrow> json list list \<Rightarrow> string \<Rightarrow> string" where
  "table_html R heading columns rows note =
     (let head = concat (map (\<lambda>c. ''<th>'' @ html_escape c @ ''</th>'') columns);
          body = concat (map (\<lambda>row. ''<tr>'' @ concat (map (\<lambda>cell. ''<td>'' @ html_of R cell @ ''</td>'') row) @ ''</tr>'') rows);
          lede = (if note = [] then [] else ''<p class='lede'>'' @ html_escape note @ ''</p>'')
      in ''<section><h2>'' @ html_escape heading @ ''</h2>'' @ lede
         @ ''<table><thead><tr>'' @ head @ ''</tr></thead><tbody>'' @ body @ ''</tbody></table></section>'')"

definition CSS :: string where
  \<open>CSS = between [CHR 0x0A]
    [[],
     '':root { --ink:#16191d; --muted:#5f6874; --line:#e3e6ea; --accent:#2f5fd0; --poor:#b02a37; }'',
     ''* { box-sizing: border-box; }'',
     ''body { margin:0 auto; padding:32px 24px 64px; max-width:900px; color:var(--ink);'',
     ''  font-family: Vazirmatn, "Segoe UI", Tahoma, sans-serif; line-height:1.75; }'',
     ''h1 { font-size:1.6rem; margin:0 0 4px; }'',
     ''h2 { font-size:1.15rem; margin:28px 0 10px; }'',
     ''h3 { font-size:1rem; margin:18px 0 8px; }'',
     ''p.meta, .muted { color:var(--muted); }'',
     ''p.meta { margin-top:0; font-size:.9rem; }'',
     ''p.lede { color:var(--muted); margin-top:0; }'',
     ''p.error { border:1px solid var(--poor); color:var(--poor); border-radius:8px; padding:10px 12px; }'',
     ''code { direction:ltr; unicode-bidi:isolate; }'',
     ''section { border-top:1px solid var(--line); padding-top:4px; }'',
     ''table { width:100%; border-collapse:collapse; margin-top:6px; }'',
     ''th, td { text-align:start; padding:7px 8px; border-bottom:1px solid var(--line);'',
     ''  vertical-align:top; word-break:break-word; }'',
     ''th { color:var(--muted); font-size:.85rem; font-weight:600; }'',
     ''.tiles { display:grid; grid-template-columns:repeat(auto-fit,minmax(140px,1fr)); gap:10px; }'',
     ''.tile { border:1px solid var(--line); border-radius:10px; padding:10px 12px; }'',
     ''.tile .value { font-size:1.5rem; font-weight:700; }'',
     ''.tile .name { color:var(--muted); font-size:.82rem; }'',
     ''.pill { display:inline-block; padding:1px 10px; border-radius:999px; font-size:.78rem;'',
     ''  border:1px solid var(--line); color:var(--muted); vertical-align:middle; }'',
     ''ol li { margin-bottom:10px; }'',
     ''footer { margin-top:36px; padding-top:12px; border-top:1px solid var(--line);'',
     ''  color:var(--muted); font-size:.85rem; }'',
     ''/* Printing is how this becomes a PDF, so it is a first-class layout, not an'',
     ''   afterthought: no page breaks inside a table row, and sections stay whole. */'',
     ''@page { size:A4; margin:16mm; }'',
     ''@media print {'',
     ''  body { padding:0; max-width:none; }'',
     ''  section { break-inside:avoid; }'',
     ''  tr, .tile { break-inside:avoid; }'',
     ''}'',
     []]\<close>

definition fields :: "string list \<Rightarrow> dict \<Rightarrow> json list" where
  "fields keys row = map (\<lambda>k. dget_default row k (JStr [])) keys"

definition rankings_html :: "runtime \<Rightarrow> dict \<Rightarrow> string list py" where
  "rankings_html R rankings =
     bindE (when_given rankings ''opportunities'' (\<lambda>found.
       bindE (bindE (jtake 15 found) (each_row (\<lambda>row.
                Inr [dget_default row ''keyword'' (JStr []), position_text row, dget_default row ''opportunity'' (JStr [])])))
         (\<lambda>rows. Inr [table_html R (encode (fa ''fret_hay rtbh'')) [encode (fa ''klmh klydy''), encode (fa ''jaygah foly''), encode (fa ''fret'')] rows
                        (encode (fa ''odd fret avlvyt nsby ast, nh pyS_byny trafyk.''))]))) (\<lambda>first.
     bindE (when_given rankings ''top_competitors'' (\<lambda>found.
       bindE (each_row (\<lambda>row. Inr (fields [''domain'', ''outranks_on''] row)) found) (\<lambda>rows.
         Inr [table_html R (encode (fa ''rqba'')) [encode (fa ''damnh''), encode (fa ''rvy Cnd obart balatr ast'')] rows []]))) (\<lambda>second.
       Inr (first @ second)))"

definition gaps_html :: "runtime \<Rightarrow> dict \<Rightarrow> string list py" where
  "gaps_html R content =
     when_given content ''top_gaps'' (\<lambda>found.
       bindE (each_row (\<lambda>row. Inr (fields [''keyword'', ''demand''] row)) found) (\<lambda>rows.
         Inr [table_html R (encode (fa ''efHh_hayy kh hnvz nvSth nSdh_and'')) [encode (fa ''klmh klydy''), encode (fa ''tqaEa'')] rows []]))"

text \<open>A note that is no text still passes through \<^verbatim>\<open>_e\<close>, which writes it as \<^verbatim>\<open>str\<close> does.\<close>

definition trend_html :: "runtime \<Rightarrow> dict \<Rightarrow> string list py" where
  "trend_html R trend =
     when_given trend ''changes'' (\<lambda>found.
       bindE (each_row (\<lambda>row. bindE (arrow R row) (\<lambda>a.
                Inr ([change_label row] @ fields [''before'', ''after''] row @ [JStr a]))) found) (\<lambda>rows.
         Inr [table_html R (encode (fa ''nsbt bh ajray qbly'')) [encode (fa ''snjh''), encode (fa ''qbl''), encode (fa ''Hala''), encode (fa ''tGyyr'')] rows
                (if truthy (dget trend ''note'') then py_str R (dget trend ''note'') else [])]))"

definition rivals_html :: "runtime \<Rightarrow> dict \<Rightarrow> string list py" where
  "rivals_html R rivals =
     when_given rivals ''top_missing_themes'' (\<lambda>found.
       bindE (as_list found) (\<lambda>terms.
         Inr [table_html R (encode (fa ''mvEvo_hayy kh rqba pvSS my_dhnd v Sma nh'')) [encode (fa ''mvEvo'')] (map (\<lambda>term. [term]) terms)
                (py_str R (dget_default rivals ''compared_against'' (JInt 0))
                 @ encode (fa '' rqyb mqaysh Sd. obarty aynja my_Ayd kh dst_km dv rqyb rvyS nvSth baSnd v dr '' @ fa ''sayt Sma nbaSd.''))]))"

definition links_html :: "runtime \<Rightarrow> dict \<Rightarrow> string list py" where
  "links_html R links =
     when_given links ''top_opportunities'' (\<lambda>found.
       bindE (each_row (\<lambda>row. Inr (fields [''url'', ''inlinks'', ''authority''] row)) found) (\<lambda>rows.
         Inr [table_html R (encode (fa ''efHaty kh lynk daxly km darnd'')) [encode (fa ''efHh''), encode (fa ''lynk vrvdy''), encode (fa ''aotbar daxly'')] rows []]))"

definition plan_html :: "runtime \<Rightarrow> dict \<Rightarrow> string list py" where
  "plan_html R advice =
     when_given advice ''pages'' (\<lambda>found.
       bindE (each_row (\<lambda>row. Inr (fields [''url'', ''fixes''] row)) found) (\<lambda>rows.
         Inr [table_html R (encode (fa ''pySnhad baznvysy ('') @ written_fa advice @ '')'') [encode (fa ''efHh''), encode (fa ''todad aelaH'')] rows []]))"

definition sections_html :: "runtime \<Rightarrow> dict \<Rightarrow> string list py" where
  "sections_html R =
     sections_of [(''rankings'', rankings_html R), (''content'', gaps_html R), (''trend'', trend_html R),
       (''competitors'', rivals_html R), (''links'', links_html R), (''optimizer'', plan_html R)]"

definition action_html :: "runtime \<Rightarrow> dict \<Rightarrow> string" where
  "action_html R action =
     ''<li><strong>'' @ html_of R (dget_default action ''action'' (JStr [])) @ ''</strong><br><span class='muted'>''
     @ html_of R (dget_default action ''why'' (JStr [])) @ encode (fa '' ~ tlaS: '') @ html_of R (dget_default action ''effort'' (JStr dash))
     @ encode (fa '', acr: '') @ html_of R (dget_default action ''impact'' (JStr dash)) @ ''</span></li>''"

definition actions_html :: "runtime \<Rightarrow> dict \<Rightarrow> string list py" where
  "actions_html R summary =
     when_given summary ''next_actions'' (\<lambda>found.
       bindE (each_row (\<lambda>action. Inr (action_html R action)) found) (\<lambda>out.
         Inr [''<h3>'' @ encode (fa ''qdm_hay body'') @ ''</h3><ol>'' @ concat out @ ''</ol>'']))"

definition watch_html :: "runtime \<Rightarrow> dict \<Rightarrow> string list py" where
  "watch_html R summary =
     when_given summary ''watch_outs'' (\<lambda>found.
       bindE (as_list found) (\<lambda>items.
         Inr [''<h3>'' @ encode (fa ''Cyzhayy kh ayn gzarS nmy_dand'') @ ''</h3><ul class='muted'>''
              @ concat (map (\<lambda>item. ''<li>'' @ html_of R item @ ''</li>'') items) @ ''</ul>'']))"

definition summary_html :: "runtime \<Rightarrow> dict \<Rightarrow> string list py" where
  "summary_html R summary =
     when_given summary ''text_fa'' (\<lambda>written.
       bindE (actions_html R summary) (\<lambda>actions.
       bindE (watch_html R summary) (\<lambda>watch.
         Inr ([''<section><h2>'' @ encode (fa ''xlaeh '') @ ''<span class='pill'>'' @ html_escape (source_fa summary)
               @ ''</span></h2><p class='lede'>'' @ html_of R written @ ''</p>''] @ actions @ watch @ [''</section>'']))))"

definition tile :: "runtime \<Rightarrow> string \<times> json \<Rightarrow> string" where
  "tile R lv =
     ''<div class='tile'><div class='value'>'' @ html_of R (snd lv) @ ''</div><div class='name'>'' @ html_escape (fst lv)
     @ ''</div></div>''"

definition numbers_html :: "runtime \<Rightarrow> (string \<times> json) list \<Rightarrow> string list" where
  "numbers_html R numbers =
     (if numbers = [] then []
      else [''<section><h2>'' @ encode (fa ''aodad aely'') @ ''</h2><div class='tiles'>'' @ concat (map (tile R) numbers)
            @ ''</div></section>''])"

definition step_html :: "runtime \<Rightarrow> dict \<Rightarrow> string py" where
  "step_html R step =
     bindE (name_in STEP_FA (dget step ''kind'') (dget_default step ''kind'' (JStr []))) (\<lambda>kind.
     bindE (name_in STATUS_FA (dget step ''status'') (dget_default step ''status'' (JStr []))) (\<lambda>status.
       Inr (''<tr><td>'' @ html_of R (dget_default step ''position'' (JStr [])) @ ''</td><td>'' @ html_of R kind @ ''</td><td>''
            @ html_of R status @ ''</td><td class='muted'>'' @ html_of R (py_or (dget step ''error'') (JStr [])) @ ''</td></tr>'')))"

definition steps_html :: "runtime \<Rightarrow> dict \<Rightarrow> string list py" where
  "steps_html R workflow =
     when_given workflow ''steps'' (\<lambda>steps.
       bindE (sorted_steps steps) (\<lambda>rows.
       bindE (mapE (step_html R) rows) (\<lambda>out.
         Inr (if rows = [] then []
              else [''<section><h2>'' @ encode (fa ''mraHl'') @ ''</h2><table><tbody>'' @ concat out
                    @ ''</tbody></table></section>'']))))"

definition head_html :: "runtime \<Rightarrow> string \<Rightarrow> json \<Rightarrow> dict \<Rightarrow> string list" where
  "head_html R title status workflow =
     [''<h1>'' @ html_escape title @ ''</h1>'',
      ''<p class='meta'>'' @ encode (fa ''vEoyt: '') @ html_of R status
        @ encode (lit '' '' @ [0xb7] @ fa '' taryx: '') @ html_of R (py_or (dget workflow ''created_at'') (JStr dash))
        @ encode (lit '' '' @ [0xb7] @ fa '' Snash: '') @ ''<code>'' @ html_of R (dget_default workflow ''workflow_id'' (JStr dash)) @ ''</code></p>'']
     @ (if truthy (dget workflow ''error'')
        then [''<p class='error'>'' @ encode (fa ''ayn tHlyl kaml nSd: '') @ html_of R (dget workflow ''error'') @ ''</p>''] else [])"

definition page_html :: "string \<Rightarrow> string \<Rightarrow> string" where
  "page_html title body =
     ''<!doctype html>'' @ [CHR 0x0A] @ ''<html lang='fa' dir='rtl'><head><meta charset='utf-8'><title>''
     @ html_escape title @ ''</title><meta name='viewport' content='width=device-width, initial-scale=1'><style>''
     @ CSS @ ''</style></head><body>'' @ body @ ''</body></html>'' @ [CHR 0x0A]"

definition document :: "runtime \<Rightarrow> dict \<Rightarrow> string py" where
  "document R workflow =
     bindE (part_of workflow ''report'') (\<lambda>report.
     bindE (title_of R workflow) (\<lambda>title.
     bindE (status_of workflow) (\<lambda>status.
     bindE (bindE (part_of report ''summary'') (summary_html R)) (\<lambda>told.
     bindE (headline_rows report) (\<lambda>numbers.
     bindE (steps_html R workflow) (\<lambda>steps.
     bindE (sections_html R report) (\<lambda>sections.
       Inr (page_html title (concat (head_html R title status workflow @ told @ numbers_html R numbers
              @ steps @ sections @ [''<footer>'' @ FOOTER @ ''</footer>'']))))))))))"

end
