(* ===== verification/Report_Safety.thy ===== *)
theory Report_Safety
  imports Report_Render
begin

text \<open>
  What the HTML document promises whoever opens it: its tags, attributes included, are those of the template
  and they nest, whatever the texts it shows say.
\<close>

subsection \<open>Tags and nesting\<close>

text \<open>What stands between each \<^verbatim>\<open><\<close> and the next \<^verbatim>\<open>>\<close>; \<open>None\<close> when the two do not alternate.\<close>

fun scan_tags :: "string option \<Rightarrow> string \<Rightarrow> string list option" where
  "scan_tags None [] = Some []"
| "scan_tags (Some tag) [] = None"
| "scan_tags None (c # cs) =
     (if c = CHR ''<'' then scan_tags (Some []) cs else if c = CHR ''>'' then None else scan_tags None cs)"
| "scan_tags (Some tag) (c # cs) =
     (if c = CHR ''>'' then map_option (\<lambda>ts. rev tag # ts) (scan_tags None cs)
      else if c = CHR ''<'' then None else scan_tags (Some (c # tag)) cs)"

definition tag_name :: "string \<Rightarrow> string" where
  "tag_name tag = takeWhile (\<lambda>c. c \<noteq> CHR '' '') tag"

definition void_tags :: "string list" where
  "void_tags = [''!doctype'', ''meta'', ''br'']"

text \<open>The elements that are open after the tags, or \<open>None\<close> when an end tag does not match.\<close>

fun nest :: "string list \<Rightarrow> string list \<Rightarrow> string list option" where
  "nest st [] = Some st"
| "nest st (t # ts) =
     (if take 1 t = ''/'' then (case st of [] \<Rightarrow> None | inner # rest \<Rightarrow> if drop 1 t = inner then nest rest ts else None)
      else if tag_name t \<in> set void_tags then nest st ts
      else nest (tag_name t # st) ts)"

definition attr :: "string \<Rightarrow> string \<Rightarrow> string \<Rightarrow> string" where
  "attr tag name v = tag @ '' '' @ name @ ''='' @ [CHR 0x27] @ v @ [CHR 0x27]"

definition TEMPLATE_TAGS :: "string list" where
  "TEMPLATE_TAGS =
    [''!doctype html'', attr (attr ''html'' ''lang'' ''fa'') ''dir'' ''rtl'', ''head'', attr ''meta'' ''charset'' ''utf-8'', ''title'', ''/title'',
     attr (attr ''meta'' ''name'' ''viewport'') ''content'' ''width=device-width, initial-scale=1'', ''style'', ''/style'', ''/head'', ''body'',
     ''/body'', ''/html'', ''h1'', ''/h1'', ''h2'', ''/h2'', ''h3'', ''/h3'', attr ''p'' ''class'' ''meta'', attr ''p'' ''class'' ''error'',
     attr ''p'' ''class'' ''lede'', ''/p'', ''code'', ''/code'', ''section'', ''/section'', attr ''span'' ''class'' ''pill'',
     attr ''span'' ''class'' ''muted'', ''/span'', ''ol'', ''/ol'', attr ''ul'' ''class'' ''muted'', ''/ul'', ''li'', ''/li'', ''strong'',
     ''/strong'', ''br'', attr ''div'' ''class'' ''tiles'', attr ''div'' ''class'' ''tile'', attr ''div'' ''class'' ''value'', attr ''div'' ''class'' ''name'', ''/div'',
     ''table'', ''/table'', ''thead'', ''/thead'', ''tbody'', ''/tbody'', ''tr'', ''/tr'', ''th'', ''/th'', ''td'',
     attr ''td'' ''class'' ''muted'', ''/td'', ''footer'', ''/footer'']"

subsection \<open>Pieces of a document\<close>

text \<open>A piece of the template takes the open elements \<open>st\<close> to \<open>st'\<close>; a document starts and ends with none.\<close>

definition moves :: "string list \<Rightarrow> string \<Rightarrow> string list \<Rightarrow> bool" where
  "moves st s st' \<longleftrightarrow>
     (case scan_tags None s of
        None \<Rightarrow> False
      | Some ts \<Rightarrow> list_all (\<lambda>t. t \<in> set TEMPLATE_TAGS) ts \<and> nest st ts = Some st')"

definition well_formed :: "string \<Rightarrow> bool" where
  "well_formed html \<longleftrightarrow> moves [] html []"

lemma scan_tags_append:
  "scan_tags m a = Some xs \<Longrightarrow> scan_tags m (a @ b) = map_option ((@) xs) (scan_tags None b)"
proof (induction m a arbitrary: xs rule: scan_tags.induct)
  case 1
  then show ?case by (cases "scan_tags None b") auto
next
  case (4 tag c cs)
  then show ?case by (cases "scan_tags None b") (auto split: if_splits)
qed (auto split: if_splits)

lemma nest_append: "nest st (xs @ ys) = Option.bind (nest st xs) (\<lambda>st'. nest st' ys)"
  by (induction st xs rule: nest.induct) (simp_all split: list.splits)

lemma moves_append: "moves st a st' \<Longrightarrow> moves st' b st'' \<Longrightarrow> moves st (a @ b) st''"
  unfolding moves_def by (auto simp: scan_tags_append nest_append split: option.splits)

lemma nest_frame: "nest a ts = Some b \<Longrightarrow> nest (a @ st) ts = Some (b @ st)"
  by (induction a ts rule: nest.induct) (auto split: list.splits if_splits)

lemma moves_frame: "moves a s b \<Longrightarrow> moves (a @ st) s (b @ st)"
  unfolding moves_def by (auto simp: nest_frame split: option.splits)

lemma moves_empty: "moves st [] st"
  by (simp add: moves_def)

lemma moves_unless: "(\<not> c \<Longrightarrow> moves st s st) \<Longrightarrow> moves st (if c then [] else s) st"
  by (simp add: moves_empty)

lemma moves_concat: "(\<And>x. x \<in> set xs \<Longrightarrow> moves st x st) \<Longrightarrow> moves st (concat xs) st"
  by (induction xs) (auto intro: moves_empty moves_append)

lemma moves_concat_map: "(\<And>x. x \<in> set xs \<Longrightarrow> moves st (f x) st) \<Longrightarrow> moves st (concat (map f xs)) st"
  by (rule moves_concat) auto

definition plain :: "string \<Rightarrow> bool" where
  "plain s \<longleftrightarrow> list_all (\<lambda>c. c \<noteq> CHR ''<'' \<and> c \<noteq> CHR ''>'') s"

lemma moves_plain: "plain s \<Longrightarrow> moves st s st"
proof -
  assume "plain s"
  then have "scan_tags None s = Some []"
    unfolding plain_def by (induction s) auto
  then show ?thesis by (simp add: moves_def)
qed

text \<open>An escaped text keeps none of the four characters that could end a text or an attribute.\<close>

lemma escape_clean: "c \<in> set (html_escape s) \<Longrightarrow> c \<notin> {CHR ''<'', CHR ''>'', CHR 0x22, CHR 0x27}"
  by (auto simp: html_escape_def escape_char_def split: if_splits)

lemma moves_escape: "moves st (html_escape s) st"
  using escape_clean [of _ s] by (intro moves_plain) (auto simp: plain_def list_all_iff)

lemma moves_value: "moves st (html_of R v) st"
  by (simp add: html_of_def moves_escape)

subsection \<open>The fragments of the template\<close>

lemma bare_fragments:
  "moves [] ''<!doctype html>'' []"
  "moves (''body'' # ''html'' # []) ''</body></html>'' []"
  "moves (''code'' # ''p'' # []) ''</code></p>'' []"
  "moves (''div'' # ''div'' # []) ''</div></div>'' []"
  "moves (''div'' # ''section'' # []) ''</div></section>'' []"
  "moves (''div'' # []) ''</div><div class='name'>'' (''div'' # [])"
  "moves (''footer'' # []) ''</footer>'' []"
  "moves (''h1'' # []) ''</h1>'' []"
  "moves (''h2'' # []) ''</h2>'' []"
  "moves (''h2'' # []) ''</h2><div class='tiles'>'' (''div'' # [])"
  "moves (''h2'' # []) ''</h2><table><tbody>'' (''tbody'' # ''table'' # [])"
  "moves (''h3'' # []) ''</h3><ol>'' (''ol'' # [])"
  "moves (''h3'' # []) ''</h3><ul class='muted'>'' (''ul'' # [])"
  "moves (''li'' # []) ''</li>'' []"
  "moves (''ol'' # []) ''</ol>'' []"
  "moves (''p'' # []) ''</p>'' []"
  "moves (''section'' # []) ''</section>'' []"
  "moves (''span'' # ''h2'' # []) ''</span></h2><p class='lede'>'' (''p'' # [])"
  "moves (''span'' # ''li'' # []) ''</span></li>'' []"
  "moves (''strong'' # []) ''</strong><br><span class='muted'>'' (''span'' # [])"
  "moves (''style'' # ''head'' # []) ''</style></head><body>'' (''body'' # [])"
  "moves (''tbody'' # ''table'' # ''section'' # []) ''</tbody></table></section>'' []"
  "moves (''td'' # []) ''</td>'' []"
  "moves (''td'' # ''tr'' # []) ''</td></tr>'' []"
  "moves (''td'' # []) ''</td><td class='muted'>'' (''td'' # [])"
  "moves (''td'' # []) ''</td><td>'' (''td'' # [])"
  "moves (''th'' # []) ''</th>'' []"
  "moves (''title'' # []) ''</title><meta name='viewport' content='width=device-width, initial-scale=1'><style>'' (''style'' # [])"
  "moves (''tr'' # []) ''</tr>'' []"
  "moves (''tr'' # ''thead'' # []) ''</tr></thead><tbody>'' (''tbody'' # [])"
  "moves (''ul'' # []) ''</ul>'' []"
  "moves [] ''<code>'' (''code'' # [])"
  "moves [] ''<div class='tile'><div class='value'>'' (''div'' # ''div'' # [])"
  "moves [] ''<footer>'' (''footer'' # [])"
  "moves [] ''<h1>'' (''h1'' # [])"
  "moves [] ''<h3>'' (''h3'' # [])"
  "moves [] ''<html lang='fa' dir='rtl'><head><meta charset='utf-8'><title>'' (''title'' # ''head'' # ''html'' # [])"
  "moves [] ''<li>'' (''li'' # [])"
  "moves [] ''<li><strong>'' (''strong'' # ''li'' # [])"
  "moves [] ''<p class='error'>'' (''p'' # [])"
  "moves [] ''<p class='lede'>'' (''p'' # [])"
  "moves [] ''<p class='meta'>'' (''p'' # [])"
  "moves [] ''<section><h2>'' (''h2'' # ''section'' # [])"
  "moves [] ''<span class='pill'>'' (''span'' # [])"
  "moves [] ''<table><thead><tr>'' (''tr'' # ''thead'' # ''table'' # [])"
  "moves [] ''<td>'' (''td'' # [])"
  "moves [] ''<th>'' (''th'' # [])"
  "moves [] ''<tr>'' (''tr'' # [])"
  "moves [] ''<tr><td>'' (''td'' # ''tr'' # [])"
  by (simp_all add: moves_def TEMPLATE_TAGS_def attr_def void_tags_def tag_name_def)

lemmas fragments = bare_fragments [THEN moves_frame, unfolded append_Cons append_Nil]

text \<open>A Persian text outside brackets has neither of the two characters: its table sends them to quotation marks.\<close>

lemma letter_plain: "letter letters c \<noteq> 60 \<and> letter letters c \<noteq> 62 \<and> 0 \<le> letter letters c \<and> letter letters c < 0x10000"
proof (cases "map_of letters c")
  case None
  then have "c \<noteq> CHR ''<''" "c \<noteq> CHR ''>''" by (auto simp: letters_def)
  then have "(of_char c :: int) \<noteq> of_char (CHR ''<'')" "(of_char c :: int) \<noteq> of_char (CHR ''>'')" by (metis char_of_char)+
  then have "(of_char c :: int) \<noteq> 60" "(of_char c :: int) \<noteq> 62" by simp_all
  moreover have "0 \<le> (of_char c :: int)" "(of_char c :: int) < 256"
    using of_char_mod_256 [of c, where 'a = int] pos_mod_bound [of "256 :: int" "of_char c"] by (simp_all add: of_char_nat_int)
  ultimately show ?thesis using None by (simp add: letter_def)
next
  case (Some n)
  then have "n \<in> snd ` set letters" by (force dest: map_of_SomeD)
  then have "n \<noteq> 60 \<and> n \<noteq> 62 \<and> 0 \<le> n \<and> n < 0x10000" by (auto simp: letters_def)
  with Some show ?thesis by (simp add: letter_def)
qed

lemma fa_codes: "CHR ''['' \<notin> set s \<Longrightarrow> c \<in> set (read_fa False s) \<Longrightarrow> \<exists>d\<in>set s. c = letter letters d"
  by (induction s) (auto split: if_splits)

lemma plain_append: "plain (a @ b) \<longleftrightarrow> plain a \<and> plain b"
  by (simp add: plain_def)

lemma encode_append: "encode (a @ b) = encode a @ encode b"
  by (simp add: encode_def)

lemma plain_encode:
  assumes "\<And>c. c \<in> set t \<Longrightarrow> c \<noteq> 60 \<and> c \<noteq> 62 \<and> 0 \<le> c \<and> c < 0x10000"
  shows "plain (encode t)"
proof -
  have "char_of b \<noteq> CHR ''<'' \<and> char_of b \<noteq> CHR ''>''" if c: "c \<in> set t" and b: "b \<in> set (encode_char c)" for c b
  proof -
    have "0 \<le> b \<and> b < 256 \<and> b \<noteq> 60 \<and> b \<noteq> 62"
      using assms [OF c] b by (auto simp: encode_char_def split: if_splits)
    then have "(of_char (char_of b :: char) :: int) \<noteq> of_char (CHR ''<'')" "(of_char (char_of b :: char) :: int) \<noteq> of_char (CHR ''>'')"
      by simp_all
    then show ?thesis by metis
  qed
  then show ?thesis by (auto simp: plain_def list_all_iff encode_def)
qed

lemma fa_plain:
  assumes "list_all (\<lambda>c. c \<noteq> CHR ''['') s"
  shows "plain (encode (fa s))"
proof (rule plain_encode)
  fix c assume "c \<in> set (fa s)"
  with assms obtain d where "c = letter letters d" unfolding fa_def list_all_iff by (blast dest: fa_codes)
  with letter_plain [of d] show "c \<noteq> 60 \<and> c \<noteq> 62 \<and> 0 \<le> c \<and> c < 0x10000" by simp
qed

lemma plain_encode_Cons:
  "c \<noteq> 60 \<Longrightarrow> c \<noteq> 62 \<Longrightarrow> 0 \<le> c \<Longrightarrow> c < 0x10000 \<Longrightarrow> plain (encode (c # t)) \<longleftrightarrow> plain (encode t)"
  using plain_encode [of "[c]"] encode_append [of "[c]" t] by (simp add: plain_append)

lemma plain_texts:
  "plain (encode (fa ''qdm_hay body''))"
  "plain (encode (fa ''Cyzhayy kh ayn gzarS nmy_dand''))"
  "plain (encode (fa ''xlaeh ''))"
  "plain (encode (fa '' ~ tlaS: ''))"
  "plain (encode (fa '', acr: ''))"
  "plain (encode (fa ''aodad aely''))"
  "plain (encode (fa ''mraHl''))"
  "plain (encode (fa ''vEoyt: ''))"
  "plain (encode (lit '' '' @ [0xb7] @ fa '' taryx: ''))"
  "plain (encode (lit '' '' @ [0xb7] @ fa '' Snash: ''))"
  "plain (encode (fa ''ayn tHlyl kaml nSd: ''))"
  "plain FOOTER"
  by (simp_all add: FOOTER_def fa_plain plain_append encode_append plain_encode_Cons lit_def)

lemma plain_CSS: "plain CSS"
  by (simp add: plain_def CSS_def)

lemmas piece_intros =
  moves_append moves_unless moves_value moves_escape moves_empty moves_concat_map fragments plain_texts [THEN moves_plain]
  plain_CSS [THEN moves_plain]

subsection \<open>The parts of the document\<close>

lemma table_moves: "moves st (table_html R heading columns rows note) st"
  unfolding table_html_def Let_def by (rule piece_intros)+

text \<open>Every piece a list holds leaves the open elements as it found them.\<close>

definition pieces :: "string list \<Rightarrow> bool" where
  "pieces xs \<longleftrightarrow> (\<forall>x\<in>set xs. \<forall>st. moves st x st)"

lemma pieces_simps [simp]:
  "pieces []"
  "pieces (x # xs) \<longleftrightarrow> (\<forall>st. moves st x st) \<and> pieces xs"
  "pieces (xs @ ys) \<longleftrightarrow> pieces xs \<and> pieces ys"
  by (auto simp: pieces_def)

lemma pieces_moves: "pieces xs \<Longrightarrow> moves st (concat xs) st"
  by (rule moves_concat) (simp add: pieces_def)

lemma when_given_pieces:
  "when_given d k f = Inr out \<Longrightarrow> (\<And>x out. f x = Inr out \<Longrightarrow> pieces out) \<Longrightarrow> pieces out"
  by (auto simp: when_given_def split: if_splits)

lemma sections_pieces:
  assumes "sections_of parts report = Inr out"
    and "\<And>k f d out. (k, f) \<in> set parts \<Longrightarrow> f d = Inr out \<Longrightarrow> pieces out"
  shows "pieces out"
  using assms
proof (induction parts arbitrary: out)
  case (Cons p parts)
  obtain k f where p: "p = (k, f)" by fastforce
  from Cons.prems(1) obtain d a b where "f d = Inr a" "sections_of parts report = Inr b" "out = a @ b"
    unfolding sections_of_def p by auto
  with Cons.IH [of b] Cons.prems(2) show ?case unfolding p by auto
qed (simp add: sections_of_def)

lemma each_section:
  "rankings_html R d = Inr out \<Longrightarrow> pieces out"
  "gaps_html R d = Inr out \<Longrightarrow> pieces out"
  "trend_html R d = Inr out \<Longrightarrow> pieces out"
  "rivals_html R d = Inr out \<Longrightarrow> pieces out"
  "links_html R d = Inr out \<Longrightarrow> pieces out"
  "plan_html R d = Inr out \<Longrightarrow> pieces out"
  unfolding rankings_html_def gaps_html_def trend_html_def rivals_html_def links_html_def plan_html_def
  by (auto simp: when_given_def table_moves split: if_splits)

lemma sections_html_pieces: "sections_html R report = Inr out \<Longrightarrow> pieces out"
  unfolding sections_html_def by (erule sections_pieces) (auto dest: each_section)

lemma action_moves: "moves st (action_html R action) st"
  unfolding action_html_def by (rule piece_intros)+

lemma mapE_in: "mapE f xs = Inr ys \<Longrightarrow> y \<in> set ys \<Longrightarrow> \<exists>x\<in>set xs. f x = Inr y"
  by (induction xs arbitrary: ys) auto

lemma each_row_in: "each_row f rows = Inr out \<Longrightarrow> y \<in> set out \<Longrightarrow> \<exists>row. f row = Inr y"
  by (auto simp: each_row_def dest!: mapE_in)

text \<open>A list of one piece; the simplifier must not take the literal apart.\<close>

lemma one_piece: "(\<And>st. moves st x st) \<Longrightarrow> pieces [x]"
  by simp

lemma actions_pieces: "actions_html R summary = Inr out \<Longrightarrow> pieces out"
  unfolding actions_html_def
proof (erule when_given_pieces)
  fix found xs
  assume "bindE (each_row (\<lambda>action. Inr (action_html R action)) found) (\<lambda>out.
            Inr [''<h3>'' @ encode (fa ''qdm_hay body'') @ ''</h3><ol>'' @ concat out @ ''</ol>'']) = Inr xs"
  then obtain rows where r: "each_row (\<lambda>action. Inr (action_html R action)) found = Inr rows"
    and xs: "xs = [''<h3>'' @ encode (fa ''qdm_hay body'') @ ''</h3><ol>'' @ concat rows @ ''</ol>'']" by auto
  have rows: "moves st x st" if "x \<in> set rows" for x st
    using each_row_in [OF r that] action_moves by auto
  show "pieces xs" unfolding xs by (rule one_piece piece_intros moves_concat rows | assumption)+
qed

lemma watch_pieces: "watch_html R summary = Inr out \<Longrightarrow> pieces out"
  unfolding watch_html_def
proof (erule when_given_pieces)
  fix found xs
  assume "bindE (as_list found) (\<lambda>items.
         Inr [''<h3>'' @ encode (fa ''Cyzhayy kh ayn gzarS nmy_dand'') @ ''</h3><ul class='muted'>''
              @ concat (map (\<lambda>item. ''<li>'' @ html_of R item @ ''</li>'') items) @ ''</ul>'']) = Inr xs"
  then obtain items where xs: "xs = [''<h3>'' @ encode (fa ''Cyzhayy kh ayn gzarS nmy_dand'') @ ''</h3><ul class='muted'>''
              @ concat (map (\<lambda>item. ''<li>'' @ html_of R item @ ''</li>'') items) @ ''</ul>'']" by auto
  show "pieces xs" unfolding xs by (rule one_piece piece_intros)+
qed

lemma summary_moves:
  assumes "summary_html R summary = Inr out"
  shows "moves st (concat out) st"
proof (cases "truthy (dget summary ''text_fa'')")
  case False
  with assms show ?thesis by (simp add: summary_html_def when_given_def moves_empty)
next
  case True
  with assms obtain actions watch where a: "actions_html R summary = Inr actions" and w: "watch_html R summary = Inr watch"
    and out: "concat out = ''<section><h2>'' @ encode (fa ''xlaeh '') @ ''<span class='pill'>'' @ html_escape (source_fa summary)
              @ ''</span></h2><p class='lede'>'' @ html_of R (dget summary ''text_fa'') @ ''</p>''
              @ concat actions @ concat watch @ ''</section>''"
    by (auto simp: summary_html_def when_given_def)
  show ?thesis
    unfolding out by (rule piece_intros pieces_moves actions_pieces [OF a] watch_pieces [OF w])+
qed

lemma tile_moves: "moves st (tile R lv) st"
  unfolding tile_def by (rule piece_intros)+

lemma numbers_moves: "moves st (concat (numbers_html R numbers)) st"
proof (cases "numbers = []")
  case False
  then have "concat (numbers_html R numbers) =
      ''<section><h2>'' @ encode (fa ''aodad aely'') @ ''</h2><div class='tiles'>'' @ concat (map (tile R) numbers) @ ''</div></section>''"
    by (simp add: numbers_html_def)
  then show ?thesis by (simp only:) (rule piece_intros tile_moves)+
qed (simp add: numbers_html_def moves_empty)

lemma step_moves: "step_html R step = Inr s \<Longrightarrow> moves st s st"
  unfolding step_html_def bindE_Inr_iff sum.inject
  by (elim exE conjE, hypsubst, (rule piece_intros)+)

lemma steps_moves:
  assumes "steps_html R workflow = Inr out"
  shows "moves st (concat out) st"
proof (cases "out = []")
  case False
  with assms obtain rows parts where parts: "mapE (step_html R) rows = Inr parts"
    and out: "concat out = ''<section><h2>'' @ encode (fa ''mraHl'') @ ''</h2><table><tbody>'' @ concat parts @ ''</tbody></table></section>''"
    by (auto simp: steps_html_def when_given_def split: if_splits)
  have each: "moves st x st" if "x \<in> set parts" for x st
    using mapE_in [OF parts that] step_moves by blast
  show ?thesis unfolding out by (rule piece_intros moves_concat each | assumption)+
qed (simp add: moves_empty)

lemma head_moves: "moves st (concat (head_html R title status workflow)) st"
proof -
  have "concat (head_html R title status workflow) =
      ''<h1>'' @ html_escape title @ ''</h1>'' @ ''<p class='meta'>'' @ encode (fa ''vEoyt: '') @ html_of R status
        @ (encode (lit '' '' @ [0xb7] @ fa '' taryx: '')) @ html_of R (py_or (dget workflow ''created_at'') (JStr dash))
        @ (encode (lit '' '' @ [0xb7] @ fa '' Snash: '')) @ ''<code>'' @ html_of R (dget_default workflow ''workflow_id'' (JStr dash)) @ ''</code></p>''
        @ (if \<not> truthy (dget workflow ''error'') then []
           else ''<p class='error'>'' @ encode (fa ''ayn tHlyl kaml nSd: '') @ html_of R (dget workflow ''error'') @ ''</p>'')"
    by (simp add: head_html_def)
  then show ?thesis by (simp only:) (rule piece_intros)+
qed

lemma footer_moves: "moves st (''<footer>'' @ FOOTER @ ''</footer>'') st"
  by (rule piece_intros)+

lemma page_moves:
  assumes "\<And>st. moves st body st"
  shows "moves [] (page_html title body) []"
proof -
  have "plain [CHR 0x0A]" by (simp add: plain_def)
  then show ?thesis
    unfolding page_html_def by - (rule piece_intros assms moves_plain | assumption)+
qed

text \<open>Reading the entities back, each at its first character.\<close>

definition entities :: "(string \<times> char) list" where
  "entities = [(''amp;'', CHR ''&''), (''lt;'', CHR ''<''), (''gt;'', CHR ''>''), (''quot;'', CHR 0x22), (''#x27;'', CHR 0x27)]"

function html_unescape :: "string \<Rightarrow> string" where
  "html_unescape [] = []"
| "html_unescape (c # cs) =
     (if c = CHR ''&''
      then (case first_where (\<lambda>en. starts_with (fst en) cs) entities of
              None \<Rightarrow> c # html_unescape cs
            | Some (name, d) \<Rightarrow> d # html_unescape (drop (length name) cs))
      else c # html_unescape cs)"
  by pat_completeness auto
termination by (relation "measure length") auto

lemma unescape_char: "html_unescape (escape_char c @ s) = c # html_unescape s"
  by (simp add: escape_char_def entities_def)

lemma unescape_escape: "html_unescape (html_escape s) = s"
  unfolding html_escape_def by (induction s) (simp_all add: unescape_char)

text \<open>C34: whatever a workflow says, its HTML document is the template's: every tag, attributes included, is one
  of the template's own and the tags nest. No text of a page, a keyword or a model can open a tag, close one
  or reach an attribute.\<close>

theorem document_well_formed:
  assumes "document R workflow = Inr html"
  shows "well_formed html"
proof -
  obtain title status told numbers steps sections report d where
    "summary_html R d = Inr told" "steps_html R workflow = Inr steps" "sections_html R report = Inr sections"
    and html: "html = page_html title (concat (head_html R title status workflow @ told @ numbers_html R numbers
              @ steps @ sections @ [''<footer>'' @ FOOTER @ ''</footer>'']))"
    using assms unfolding document_def by (auto simp del: concat.simps)
  then have parts: "moves st (concat told) st" "moves st (concat steps) st" "moves st (concat sections) st" for st
    using summary_moves steps_moves sections_html_pieces pieces_moves by blast+
  have "moves st (concat (head_html R title status workflow @ told @ numbers_html R numbers
              @ steps @ sections @ [''<footer>'' @ FOOTER @ ''</footer>''])) st" for st
    unfolding concat_append concat.simps append_Nil2
    by (rule moves_append head_moves parts numbers_moves footer_moves)+
  then show ?thesis unfolding html well_formed_def by (rule page_moves)
qed

definition hostile_workflow :: dict where
  "hostile_workflow =
    [(''workflow_id'', JStr ''w''), (''status'', JStr ''completed''), (''error'', JStr ''</p><script>''),
     (''report'', JObj [(''content'', JObj [(''top_gaps'',
        JList [JObj [(''keyword'', JStr ''<script>alert(1)</script>''), (''demand'', JInt 3)]])])])]"

lemma hostile_document: "\<exists>html. document R hostile_workflow = Inr html"
  by (simp add: document_def hostile_workflow_def part_of_def py_or_def title_of_def dget_default_def status_of_def
        STATUS_FA_def summary_html_def when_given_def headline_rows_def steps_html_def sections_html_def sections_of_def
        rankings_html_def gaps_html_def trend_html_def rivals_html_def links_html_def plan_html_def each_row_def)

theorem document_well_formed_witness: "\<exists>html. document plain_runtime hostile_workflow = Inr html \<and> well_formed html"
  using hostile_document document_well_formed by blast

text \<open>The Markdown text has no such protection: one cell that holds a bar reads as two.\<close>

lemma bar_splits_a_cell: "cells [''a | b''] = cells [''a'', ''b'']"
  by (simp add: cells_def)

text \<open>Escaping loses nothing: what a reader's browser shows is the text the report holds, and none of the
  characters that could end a text or an attribute value is left in it.\<close>

lemma escaping_is_faithful:
  "html_unescape (html_escape s) = s \<and>
   set (html_escape s) \<inter> {CHR ''<'', CHR ''>'', CHR 0x22, CHR 0x27} = {}"
  using unescape_escape escape_clean by blast

end
