(* ===== verification/Reporting.thy ===== *)
theory Reporting
  imports Report_Safety Service_Http
begin

text \<open>
  The reporting service, \<^verbatim>\<open>src/services/reporting\<close>: it fetches a finished workflow from the orchestrator,
  renders it and keeps both documents in its job store. Its worker takes two kinds of event, and one of its
  routes hands out the document itself.
\<close>

subsection \<open>Records (\<^verbatim>\<open>store.py\<close>)\<close>

text \<open>\<^verbatim>\<open>(self.result or {}).get("documents") or {}\<close>.\<close>

definition documents_of :: "dict \<Rightarrow> dict py" where
  "documents_of result = as_dict (py_or (dget result ''documents'') (JObj []))"

definition record_document :: "job_record \<Rightarrow> string \<Rightarrow> json py" where
  "record_document r fmt = bindE (documents_of (report_of r)) (\<lambda>docs. Inr (dget docs fmt))"

definition formats_of :: "dict \<Rightarrow> json" where
  "formats_of docs = JList (map JStr (sort (map fst docs)))"

definition document_record :: record_class where
  "document_record = \<lparr>rc_id_key = ''report_id'', rc_subject_key = ''workflow_id'',
     rc_headline = (\<lambda>result. bindE (documents_of result) (\<lambda>docs.
       Inr [(''title'', dget result ''title''), (''formats'', formats_of docs),
            (''summary_source'', dget result ''summary_source'')]))\<rparr>"

text \<open>\<^verbatim>\<open>len(text)\<close> counts characters, not bytes.\<close>

fun characters :: "json \<Rightarrow> int py" where
  "characters (JStr s) = Inr (int (length (code_points s)))"
| "characters j = jlen j"

definition document_to_dict :: "job_record \<Rightarrow> dict py" where
  "document_to_dict r =
     bindE (rec_summary document_record r) (\<lambda>summary.
     bindE (documents_of (report_of r)) (\<lambda>docs.
     bindE (mapE (\<lambda>(fmt, text). bindE (characters text) (\<lambda>n. Inr (fmt, JInt n))) docs) (\<lambda>sizes.
       Inr (dset summary ''bytes'' (JObj sizes)))))"

text \<open>This class reads \<^verbatim>\<open>result\<close> only; an old \<^verbatim>\<open>report\<close> entry is not looked at.\<close>

definition document_from_dict :: "dict \<Rightarrow> job_record py" where
  "document_from_dict raw = rec_from_dict document_record (filter (\<lambda>e. fst e \<noteq> ''report'') raw)"

subsection \<open>Fetching and rendering\<close>

definition fetch_workflow :: "http \<Rightarrow> string \<Rightarrow> string \<Rightarrow> string option \<Rightarrow> json py" where
  "fetch_workflow http orchestrator workflow_id tenant_id =
     fetch_body http (rstrip_slash orchestrator) (''/v1/workflows/'' @ workflow_id) tenant_id"

definition render_result :: "runtime \<Rightarrow> dict \<Rightarrow> dict py" where
  "render_result R workflow =
     bindE (title_of R workflow) (\<lambda>title.
     bindE (bindE (part_of workflow ''report'') (\<lambda>report. part_of report ''summary'')) (\<lambda>summary.
     bindE (document R workflow) (\<lambda>html.
     bindE (markdown R workflow) (\<lambda>md.
       Inr [(''title'', JStr title), (''workflow_status'', dget workflow ''status''),
            (''summary_source'', dget_default summary ''source'' (JStr ''rules'')),
            (''documents'', JObj [(''html'', JStr html), (''md'', JStr md)])]))))"

definition report_work :: "runtime \<Rightarrow> http \<Rightarrow> string \<Rightarrow> string option \<Rightarrow> dict \<Rightarrow> dict py" where
  "report_work R http orchestrator tenant_id request =
     bindE (bindE (ditem request ''workflow_id'') read_text) (\<lambda>workflow_id.
     bindE (bindE (fetch_workflow http orchestrator workflow_id tenant_id) as_dict) (render_result R))"

text \<open>Where the document is and what it covers, never the document.\<close>

definition rendered_payload :: "string \<Rightarrow> json \<Rightarrow> dict \<Rightarrow> string \<Rightarrow> string option \<Rightarrow> dict py" where
  "rendered_payload report_id workflow_id result status error =
     bindE (documents_of result) (\<lambda>docs.
       Inr [(''report_id'', JStr report_id), (''workflow_id'', workflow_id), (''status'', JStr status),
            (''error'', opt_json error), (''title'', dget result ''title''),
            (''summary_source'', dget_default result ''summary_source'' (JStr ''rules'')),
            (''formats'', formats_of docs), (''result_url'', JStr (''/v1/reports/'' @ report_id)),
            (''document_url'', JStr (''/v1/reports/'' @ report_id @ ''/document''))])"

definition reporting_service :: "runtime \<Rightarrow> http \<Rightarrow> string \<Rightarrow> service" where
  "reporting_service R http orchestrator =
     \<lparr>sv_name = ''reporting-service'', sv_request = ''report.requested'', sv_id_field = ''report_id'',
      sv_early = (\<lambda>_. Inr ()), sv_subject = (\<lambda>payload. ditem payload ''workflow_id''),
      sv_begin = (\<lambda>_. Inr ()),
      sv_work = report_work R http orchestrator,
      sv_outgoing = (\<lambda>job request result status error.
         bindE (rendered_payload job (dget request ''workflow_id'') result status error) (\<lambda>payload.
           Inr [(''report.rendered'', payload)]))\<rparr>"

definition report_request :: "string \<Rightarrow> dict" where
  "report_request workflow_id = [(''workflow_id'', JStr workflow_id)]"

text \<open>\<^verbatim>\<open>run_report\<close>: the workflow's id stands in for a missing correlation id.\<close>

definition run_report ::
  "contracts \<Rightarrow> runtime \<Rightarrow> http \<Rightarrow> string \<Rightarrow>
     (string \<Rightarrow> job_change list \<Rightarrow> pending_event list \<Rightarrow> 's \<Rightarrow> job_record py \<times> 's) \<Rightarrow> bool \<Rightarrow>
     string \<Rightarrow> string \<Rightarrow> string option \<Rightarrow> string option \<Rightarrow> string option \<Rightarrow> (nat \<Rightarrow> string) \<Rightarrow> 's \<Rightarrow>
     job_record py \<times> (string \<times> dict) list \<times> 's" where
  "run_report C R http orchestrator update stages report_id workflow_id tenant_id correlation causation =
     run_job C (reporting_service R http orchestrator) update stages report_id (report_request workflow_id) tenant_id
       (Some (or_else correlation workflow_id)) causation"

subsection \<open>The worker (\<^verbatim>\<open>worker.py\<close>)\<close>

text \<open>What the worker uses: its store, its machine and the orchestrator it asks.\<close>

record 's report_env =
  re_contracts :: contracts
  re_runtime :: runtime
  re_http :: http
  re_orchestrator :: string
  re_create :: "string \<Rightarrow> string \<Rightarrow> string option \<Rightarrow> string option \<Rightarrow> 's \<Rightarrow> job_record py \<times> 's"
  re_get :: "string \<Rightarrow> string option \<Rightarrow> 's \<Rightarrow> job_record option \<times> 's"
  re_update :: "string \<Rightarrow> job_change list \<Rightarrow> pending_event list \<Rightarrow> 's \<Rightarrow> job_record py \<times> 's"
  re_recent :: "nat \<Rightarrow> string option \<Rightarrow> 's \<Rightarrow> job_record list"
  re_stages :: bool

definition render_report ::
  "'s report_env \<Rightarrow> string \<Rightarrow> string \<Rightarrow> delivery \<Rightarrow> (nat \<Rightarrow> string) \<Rightarrow> 's worker \<Rightarrow> unit py \<times> 's worker" where
  "render_report E report_id workflow_id d event_ids w =
     (case re_get E report_id None (wk_store w) of
        (existing, s1) \<Rightarrow>
          (let run = (\<lambda>s. case run_report (re_contracts E) (re_runtime E) (re_http E) (re_orchestrator E) (re_update E)
                              (re_stages E) report_id workflow_id (dl_tenant_id d)
                              (Some (or_else (dl_correlation_id d) (dl_id d))) (Some (dl_id d)) event_ids s of
                        (Inl e, em, s') \<Rightarrow> (Inl e, w\<lparr>wk_store := s', wk_emitted := wk_emitted w @ em\<rparr>)
                      | (Inr _, em, s') \<Rightarrow> (Inr (), w\<lparr>wk_store := s', wk_emitted := wk_emitted w @ em\<rparr>))
           in if busy existing then (Inr (), w\<lparr>wk_store := s1\<rparr>)
              else (case existing of
                      Some _ \<Rightarrow> run s1
                    | None \<Rightarrow>
                        (case re_create E report_id workflow_id (dl_tenant_id d) (dl_project_id d) s1 of
                           (Inl e, s2) \<Rightarrow> (Inl e, w\<lparr>wk_store := s2\<rparr>)
                         | (Inr _, s2) \<Rightarrow> run s2))))"

definition on_report_request ::
  "'s report_env \<Rightarrow> delivery \<Rightarrow> string \<Rightarrow> (nat \<Rightarrow> string) \<Rightarrow> 's worker \<Rightarrow> unit py \<times> 's worker" where
  "on_report_request E d new_id event_ids w =
     (case validate_event (re_contracts E) ''report.requested'' (dl_payload d) of
        Inl (ContractError m) \<Rightarrow> (Inl (ValueError (''invalid report.requested: '' @ m)), w)
      | Inl e \<Rightarrow> (Inl e, w)
      | Inr _ \<Rightarrow>
          (case bindE (job_id_of (reporting_service (re_runtime E) (re_http E) (re_orchestrator E)) new_id (dl_payload d))
                  (\<lambda>job. bindE (bindE (ditem (dl_payload d) ''workflow_id'') read_text) (\<lambda>wid. Inr (job, wid))) of
             Inl e \<Rightarrow> (Inl e, w)
           | Inr (job, wid) \<Rightarrow> render_report E job wid d event_ids w))"

text \<open>One automatic document per workflow: none is made when one of the newest 200 reports, anybody's, is of it.\<close>

definition RECENT :: nat where "RECENT = 200"

definition has_report :: "'s report_env \<Rightarrow> json \<Rightarrow> 's \<Rightarrow> bool" where
  "has_report E workflow_id s \<longleftrightarrow> list_ex (\<lambda>r. JStr (j_subject r) = workflow_id) (re_recent E RECENT None s)"

definition on_workflow ::
  "'s report_env \<Rightarrow> delivery \<Rightarrow> string \<Rightarrow> (nat \<Rightarrow> string) \<Rightarrow> 's worker \<Rightarrow> unit py \<times> 's worker" where
  "on_workflow E d new_id event_ids w =
     (let workflow_id = dget (dl_payload d) ''workflow_id'' in
      if \<not> truthy workflow_id then (Inr (), w)
      else if has_report E workflow_id (wk_store w) then (Inr (), w)
      else (case read_text workflow_id of
              Inl e \<Rightarrow> (Inl e, w)
            | Inr wid \<Rightarrow> render_report E new_id wid d event_ids w))"

definition report_handle ::
  "'s report_env \<Rightarrow> string \<Rightarrow> delivery \<Rightarrow> string \<Rightarrow> (nat \<Rightarrow> string) \<Rightarrow> 's worker \<Rightarrow> unit py \<times> 's worker" where
  "report_handle E event_type d new_id event_ids w =
     (if dl_id d \<in> set (wk_seen w) then (Inr (), w)
      else (case (if event_type = ''workflow.completed'' then on_workflow E d new_id event_ids w
                  else on_report_request E d new_id event_ids w) of
              (Inl e, w') \<Rightarrow> (Inl e, w')
            | (Inr _, w') \<Rightarrow> (Inr (), remember_event (dl_id d) w')))"

subsection \<open>Routes (\<^verbatim>\<open>api.py\<close>)\<close>

definition CONTENT_TYPES :: "(string \<times> string) list" where
  "CONTENT_TYPES = [(''html'', ''text/html; charset=utf-8''), (''md'', ''text/markdown; charset=utf-8'')]"

text \<open>A file: what it holds, its type and the name it is saved under.\<close>

datatype file_reply =
    File string string string
  | No_File reply

definition create_report ::
  "(string \<Rightarrow> string \<Rightarrow> string option \<Rightarrow> string option \<Rightarrow> 's \<Rightarrow> job_record py \<times> 's) \<Rightarrow> string \<Rightarrow> string \<Rightarrow>
     string option \<Rightarrow> string option \<Rightarrow> 's \<Rightarrow> reply \<times> dict option \<times> 's" where
  "create_report create new_id workflow_id tenant_id project_id =
     accept_route ''report_id'' ''/v1/reports/'' create new_id workflow_id tenant_id project_id (report_request workflow_id)"

definition get_report ::
  "(string \<Rightarrow> string option \<Rightarrow> 's \<Rightarrow> job_record option \<times> 's) \<Rightarrow> string \<Rightarrow> string option \<Rightarrow> 's \<Rightarrow> reply \<times> 's" where
  "get_report get report_id tenant_id s =
     (case get report_id tenant_id s of
        (None, s') \<Rightarrow> (HTTPException 404 ''report not found'', s')
      | (Some r, s') \<Rightarrow> (reply_of 200 (bindE (document_to_dict r) (\<lambda>d. Inr (JObj d))), s'))"

definition disposition :: "string \<Rightarrow> string \<Rightarrow> string" where
  "disposition report_id fmt =
     ''inline; filename='' @ [CHR 0x22] @ ''seo-report-'' @ report_id @ ''.'' @ fmt @ [CHR 0x22]"

definition get_document ::
  "(string \<Rightarrow> string option \<Rightarrow> 's \<Rightarrow> job_record option \<times> 's) \<Rightarrow> string \<Rightarrow> string \<Rightarrow> string option \<Rightarrow> 's \<Rightarrow>
     file_reply \<times> 's" where
  "get_document get report_id fmt tenant_id s =
     (case get report_id tenant_id s of
        (None, s') \<Rightarrow> (No_File (HTTPException 404 ''report not found''), s')
      | (Some r, s') \<Rightarrow>
          (case record_document r fmt of
             Inl e \<Rightarrow> (No_File (Crash e), s')
           | Inr JNull \<Rightarrow> (No_File (HTTPException 404 (''no '' @ fmt @ '' document for this report'')), s')
           | Inr (JStr text) \<Rightarrow>
               (File text (case map_of CONTENT_TYPES fmt of None \<Rightarrow> ''text/plain; charset=utf-8'' | Some t \<Rightarrow> t)
                  (disposition report_id fmt), s')
           | Inr _ \<Rightarrow> (No_File (Crash AttributeError), s')))"

definition list_reports :: "(nat \<Rightarrow> string option \<Rightarrow> 's \<Rightarrow> job_record list) \<Rightarrow> nat \<Rightarrow> string option \<Rightarrow> 's \<Rightarrow> reply" where
  "list_reports = list_route document_record"

definition reporting_healthz :: "('s \<Rightarrow> nat) \<Rightarrow> 's \<Rightarrow> reply" where
  "reporting_healthz count s =
     Answer 200 (JObj [(''status'', JStr ''ok''), (''service'', JStr ''reporting-service''), (''reports'', JInt (int (count s)))])"

end
