(* ===== verification/Report_Properties.thy ===== *)
theory Report_Properties
  imports Reporting "HOL-Library.Multiset"
begin

text \<open>
  What the reporting service promises: a rendered document is the one it serves, to its tenant only, and which
  finished workflows get an automatic document.
\<close>

subsection \<open>From the workflow to the reader\<close>

lemma as_dict_JObj: "as_dict j = Inr d \<longleftrightarrow> j = JObj d"
  by (cases j) auto

lemma render_result_documents:
  "render_result R workflow = Inr result \<Longrightarrow>
     \<exists>html md. document R workflow = Inr html \<and> markdown R workflow = Inr md \<and>
       documents_of result = Inr [(''html'', JStr html), (''md'', JStr md)]"
  by (auto simp: render_result_def documents_of_def py_or_def)

lemma report_outgoing:
  "documents_of result = Inr docs \<Longrightarrow>
     \<exists>payload. sv_outgoing (reporting_service R http orchestrator) job request result status error =
       Inr [(''report.rendered'', payload)]"
  by (auto simp: reporting_service_def rendered_payload_def)

lemma get_document_pg:
  assumes "pg_inv s" and "pg_view isof s job = Some r" and "j_tenant_id r = tenant"
    and "j_result r = Some result" and "documents_of result = Inr [(''html'', JStr html), (''md'', JStr md)]"
  shows "fst (get_document (pg_get isof) job ''html'' tenant s) =
           File html ''text/html; charset=utf-8'' (disposition job ''html'')"
    and "fst (get_document (pg_get isof) job ''md'' tenant s) =
           File md ''text/markdown; charset=utf-8'' (disposition job ''md'')"
proof -
  have "fst (pg_get isof job tenant s) = Some r"
    using pg.get_view [OF assms(1), of isof job tenant] assms(2,3) by (simp add: owned_def split: option.split)
  then obtain s' where "pg_get isof job tenant s = (Some r, s')" by (metis prod.collapse)
  then show "fst (get_document (pg_get isof) job ''html'' tenant s) =
           File html ''text/html; charset=utf-8'' (disposition job ''html'')"
    and "fst (get_document (pg_get isof) job ''md'' tenant s) =
           File md ''text/markdown; charset=utf-8'' (disposition job ''md'')"
    using assms(4,5) by (simp_all add: get_document_def record_document_def report_of_def CONTENT_TYPES_def)
qed


definition demo_workflow_http :: http where
  "demo_workflow_http = (\<lambda>_ _. Inr (200, Some (JObj hostile_workflow)))"

definition demo_rt :: runtime where
  "demo_rt = \<lparr>casefold = lower, repr_other = (\<lambda>_. ''...''), isoformat = show_int\<rparr>"

definition demo_queued :: pg_store where
  "demo_queued = demo_pg\<lparr>pg_rows := [\<lparr>p_id = ''r'', p_tenant_id = Some ''a'', p_project_id = None, p_subject = ''w'',
     p_status = J_Queued, p_error = None, p_result = None, p_created_at = 5, p_updated_at = 5\<rparr>]\<rparr>"

lemmas workflow_simps =
  hostile_workflow_def part_of_def py_or_def title_of_def dget_default_def status_of_def STATUS_FA_def when_given_def
  headline_rows_def sections_of_def each_row_def List.map_filter_def

lemma hostile_renders: "\<exists>result. render_result R hostile_workflow = Inr result"
proof -
  obtain html where "document R hostile_workflow = Inr html" using hostile_document by blast
  moreover have "\<exists>md. markdown R hostile_workflow = Inr md"
    by (simp add: markdown_def workflow_simps summary_md_def steps_md_def sections_md_def rankings_md_def gaps_md_def
        trend_md_def rivals_md_def links_md_def plan_md_def plain_rows_def table_lines_def cells_def HEADLINE_FA_def)
  ultimately show ?thesis by (auto simp: render_result_def workflow_simps)
qed


subsection \<open>One automatic document per workflow\<close>

lemma length_filter_newest: "length (filter P (newest_first k xs)) = length (filter P xs)"
proof -
  have "mset (newest_first k xs) = mset xs" by (simp add: newest_first_def)
  then show ?thesis by (metis mset_filter size_mset)
qed

lemma newest_first_sorted: "sorted_wrt (\<lambda>a b. k b \<le> k a) (newest_first k xs)"
proof -
  have "sorted (map k (sort_key k (rev xs)))" by simp
  then show ?thesis by (simp add: newest_first_def sorted_wrt_rev sorted_map)
qed

lemma in_newest:
  assumes "x \<in> set xs" and "length (filter (\<lambda>y. k x \<le> k y) xs) \<le> n"
  shows "x \<in> set (take n (newest_first k xs))"
proof (rule ccontr)
  let ?ys = "newest_first k xs"
  assume not: "x \<notin> set (take n ?ys)"
  have "set ?ys = set xs" by (simp add: newest_first_def)
  with assms(1) not have "x \<in> set (drop n ?ys)" by (metis Un_iff append_take_drop_id set_append)
  have sorted: "sorted_wrt (\<lambda>a b. k b \<le> k a) (take n ?ys @ drop n ?ys)" using newest_first_sorted by simp
  then have "\<forall>y\<in>set (take n ?ys). k x \<le> k y" using \<open>x \<in> set (drop n ?ys)\<close> unfolding sorted_wrt_append by blast
  then have "filter (\<lambda>y. k x \<le> k y) (take n ?ys) = take n ?ys" by simp
  moreover have "0 < length (filter (\<lambda>y. k x \<le> k y) (drop n ?ys))"
    using \<open>x \<in> set (drop n ?ys)\<close> by (auto simp: length_greater_0_conv filter_empty_conv)
  moreover have "n \<le> length ?ys" using \<open>x \<in> set (drop n ?ys)\<close> by (cases "n \<le> length ?ys") auto
  moreover have "length (filter (\<lambda>y. k x \<le> k y) ?ys) =
      length (filter (\<lambda>y. k x \<le> k y) (take n ?ys)) + length (filter (\<lambda>y. k x \<le> k y) (drop n ?ys))"
    by (metis append_take_drop_id filter_append length_append)
  ultimately have "n < length (filter (\<lambda>y. k x \<le> k y) ?ys)" by simp
  with assms(2) show False by (simp add: length_filter_newest)
qed

lemma not_in_newest:
  assumes "n \<le> length (filter (\<lambda>y. k x < k y) xs)"
  shows "x \<notin> set (take n (newest_first k xs))"
proof
  let ?ys = "newest_first k xs"
  assume x: "x \<in> set (take n ?ys)"
  have "sorted_wrt (\<lambda>a b. k b \<le> k a) (take n ?ys @ drop n ?ys)" using newest_first_sorted by simp
  then have "\<forall>y\<in>set (drop n ?ys). \<not> k x < k y" using x unfolding sorted_wrt_append by (auto simp: not_less)
  then have "filter (\<lambda>y. k x < k y) (drop n ?ys) = []" by (simp add: filter_empty_conv)
  then have "length (filter (\<lambda>y. k x < k y) ?ys) = length (filter (\<lambda>y. k x < k y) (take n ?ys))"
    by (metis append_Nil2 append_take_drop_id filter_append)
  moreover have "length (filter (\<lambda>y. k x < k y) (take n ?ys)) < length (take n ?ys)"
    using x by (intro length_filter_less [of x]) simp_all
  ultimately show False using assms by (simp add: length_filter_newest)
qed

text \<open>The worker of \<^verbatim>\<open>services.reporting\<close> over Postgres.\<close>

definition pg_report_env :: "contracts \<Rightarrow> runtime \<Rightarrow> http \<Rightarrow> string \<Rightarrow> (int \<Rightarrow> string) \<Rightarrow> pg_store report_env" where
  "pg_report_env C R http orchestrator isof =
     \<lparr>re_contracts = C, re_runtime = R, re_http = http, re_orchestrator = orchestrator,
      re_create = pg_create isof, re_get = pg_get isof, re_update = pg_write isof, re_recent = pg_recent isof,
      re_stages = True\<rparr>"

text \<open>How many reports are at least as new, and how many are newer.\<close>

definition as_new :: "pg_row \<Rightarrow> pg_store \<Rightarrow> nat" where
  "as_new row s = length (filter (\<lambda>x. p_created_at row \<le> p_created_at x) (pg_rows s))"

definition newer :: "pg_row \<Rightarrow> pg_store \<Rightarrow> nat" where
  "newer row s = length (filter (\<lambda>x. p_created_at row < p_created_at x) (pg_rows s))"

lemma pg_has_report:
  "has_report (pg_report_env C R http orchestrator isof) (JStr wid) s \<longleftrightarrow>
     (\<exists>row\<in>set (take RECENT (newest_first p_created_at (pg_rows s))). p_subject row = wid)"
  by (auto simp: has_report_def pg_report_env_def pg_recent_def list_ex_iff row_to_record_def)

text \<open>C36: the automatic document is made once, within a window. A redelivered \<^verbatim>\<open>workflow.completed\<close>, under whatever
  event id, changes neither reports nor events while a report of the workflow, rendered, running or failed, is among the
  newest 200 of the table; once 200 newer reports, anybody's, have been made since every report of the workflow,
  the worker takes the workflow for a new one and renders it again.\<close>

theorem automatic_report_made_once:
  assumes "event_type = ''workflow.completed''" and "dget (dl_payload d) ''workflow_id'' = JStr wid" and "wid \<noteq> []"
    and "dl_id d \<notin> set (wk_seen w)"
  shows "((\<exists>row\<in>set (pg_rows (wk_store w)). p_subject row = wid \<and> as_new row (wk_store w) \<le> RECENT) \<longrightarrow>
           report_handle (pg_report_env C R http orchestrator isof) event_type d new_id ids w =
             (Inr (), remember_event (dl_id d) w)) \<and>
         ((\<forall>row\<in>set (pg_rows (wk_store w)). p_subject row = wid \<longrightarrow> RECENT \<le> newer row (wk_store w)) \<longrightarrow>
           fst (report_handle (pg_report_env C R http orchestrator isof) event_type d new_id ids w) =
             fst (render_report (pg_report_env C R http orchestrator isof) new_id wid d ids w) \<and>
           wk_store (snd (report_handle (pg_report_env C R http orchestrator isof) event_type d new_id ids w)) =
             wk_store (snd (render_report (pg_report_env C R http orchestrator isof) new_id wid d ids w)))"
proof (intro conjI impI)
  let ?E = "pg_report_env C R http orchestrator isof" and ?s = "wk_store w"
  have on: "report_handle ?E event_type d new_id ids w =
      (case on_workflow ?E d new_id ids w of (Inl e, w') \<Rightarrow> (Inl e, w') | (Inr _, w') \<Rightarrow> (Inr (), remember_event (dl_id d) w'))"
    using assms(1,4) by (simp add: report_handle_def)
  have step: "on_workflow ?E d new_id ids w =
      (if has_report ?E (JStr wid) ?s then (Inr (), w) else render_report ?E new_id wid d ids w)"
    using assms(2,3) by (simp add: on_workflow_def)
  {
    assume "\<exists>row\<in>set (pg_rows ?s). p_subject row = wid \<and> as_new row ?s \<le> RECENT"
    then obtain row where row: "row \<in> set (pg_rows ?s)" "p_subject row = wid" "as_new row ?s \<le> RECENT" by blast
    from in_newest [OF row(1) row(3) [unfolded as_new_def]] row(2) have "has_report ?E (JStr wid) ?s"
      unfolding pg_has_report by blast
    then show "report_handle ?E event_type d new_id ids w = (Inr (), remember_event (dl_id d) w)"
      by (simp add: on step)
  next
    assume old: "\<forall>row\<in>set (pg_rows ?s). p_subject row = wid \<longrightarrow> RECENT \<le> newer row ?s"
    have "\<not> has_report ?E (JStr wid) ?s"
      unfolding pg_has_report
    proof (intro notI, elim bexE)
      fix row assume row: "row \<in> set (take RECENT (newest_first p_created_at (pg_rows ?s)))" "p_subject row = wid"
      then have "row \<in> set (pg_rows ?s)" by (auto simp: newest_first_def dest: in_set_takeD)
      with old row(2) have "RECENT \<le> length (filter (\<lambda>x. p_created_at row < p_created_at x) (pg_rows ?s))"
        by (simp add: newer_def)
      from not_in_newest [OF this] row(1) show False by simp
    qed
    then have eq: "report_handle ?E event_type d new_id ids w =
      (case render_report ?E new_id wid d ids w of (Inl e, w') \<Rightarrow> (Inl e, w') | (Inr _, w') \<Rightarrow> (Inr (), remember_event (dl_id d) w'))"
      by (simp add: on step)
    then show "fst (report_handle ?E event_type d new_id ids w) = fst (render_report ?E new_id wid d ids w)"
      by (auto split: prod.split sum.split)
    from eq show "wk_store (snd (report_handle ?E event_type d new_id ids w)) = wk_store (snd (render_report ?E new_id wid d ids w))"
      by (auto simp: remember_event_def split: prod.split sum.split)
  }
qed

definition demo_completion :: delivery where
  "demo_completion = \<lparr>dl_id = ''e2'', dl_payload = [(''workflow_id'', JStr ''w'')], dl_tenant_id = Some ''a'',
     dl_project_id = None, dl_correlation_id = None\<rparr>"

text \<open>A store that holds one report, of a workflow that failed to render.\<close>

definition demo_reports :: pg_store where
  "demo_reports = demo_pg\<lparr>pg_rows := [\<lparr>p_id = ''r'', p_tenant_id = Some ''a'', p_project_id = None, p_subject = ''w'',
     p_status = J_Failed, p_error = Some ''x'', p_result = None, p_created_at = 5, p_updated_at = 5\<rparr>]\<rparr>"

definition demo_report_worker :: "pg_store worker" where
  "demo_report_worker = \<lparr>wk_store = demo_reports, wk_seen = [], wk_emitted = []\<rparr>"

theorem automatic_report_made_once_witness:
  "report_handle (pg_report_env open_contracts demo_rt (\<lambda>_ _. Inl ''down'') ''http://o'' show_int)
     ''workflow.completed'' demo_completion ''r2'' (\<lambda>_. ''e'') demo_report_worker =
   (Inr (), remember_event ''e2'' demo_report_worker)"
proof -
  note rule = automatic_report_made_once
    [of "''workflow.completed''" demo_completion "''w''" demo_report_worker open_contracts demo_rt
      "\<lambda>_ _. Inl ''down''" "''http://o''" show_int "''r2''" "\<lambda>_. ''e''"]
  show ?thesis
    using rule by (simp add: demo_completion_def demo_report_worker_def demo_reports_def as_new_def RECENT_def)
qed

end
