(* ===== verification/Keyword_Terms.thy ===== *)
theory Keyword_Terms
  imports Audit_Model "HOL-Library.Char_ord"
begin

text \<open>
  \<^verbatim>\<open>src/services/engine/seoagent/keywords/expand.py\<close> and \<^verbatim>\<open>analyze.py\<close>: from a seed to the queries asked, and from
  the suggestions found to scores, intents, clusters and a plan of pages. Sets of words are lists.
\<close>

subsection \<open>Query expansion\<close>

definition PERSIAN_ALPHABET :: "chars list" where
  "PERSIAN_ALPHABET = map (\<lambda>c. [c]) (fa ''abptcjCHxdDrzJsSeETZoGfqkglmnvhy'')"

definition LATIN_ALPHABET :: "chars list" where
  "LATIN_ALPHABET = map (\<lambda>c. [c]) (lit ''abcdefghijklmnopqrstuvwxyz'')"

definition QUESTIONS_FA :: "chars list" where
  "QUESTIONS_FA =
    [(fa ''Cyst''), (fa ''Cgvnh''), (fa ''CTvr''), (fa ''Cra''), (fa ''kdam''), (fa ''kja''), (fa ''Cnd''), (fa ''Aya''), (fa ''yony Ch''),
     (fa ''Ch zmany''), (fa ''Ch ksy''), (fa ''Cqdr'')]"

definition QUESTIONS_EN :: "chars list" where
  "QUESTIONS_EN =
    [(lit ''what is''), (lit ''how to''), (lit ''why''), (lit ''when''), (lit ''where''), (lit ''which''), (lit ''who''), (lit ''can''), (lit ''is''),
     (lit ''does''), (lit ''vs''), (lit ''how much''), (lit ''how many'')]"

definition COMMERCIAL_FA :: "chars list" where
  "COMMERCIAL_FA =
    [(fa ''qymt''), (fa ''xryd''), (fa ''bhtryn''), (fa ''arzan''), (fa ''txfyf''), (fa ''frvS''), (fa ''sfarS''), (fa ''hzynh''),
     (fa ''nmayndgy''), (fa ''aqsaTy''), (fa ''dst dvm''), (fa ''avrjynal''), (fa ''torfh'')]"

definition COMMERCIAL_EN :: "chars list" where
  "COMMERCIAL_EN =
    [(lit ''price''), (lit ''buy''), (lit ''best''), (lit ''cheap''), (lit ''discount''), (lit ''cost''), (lit ''review''), (lit ''top''),
     (lit ''for sale''), (lit ''deals''), (lit ''pricing''), (lit ''alternative'')]"

definition INFORMATIONAL_FA :: "chars list" where
  "INFORMATIONAL_FA =
    [(fa ''AmvzS''), (fa ''rahnma''), (fa ''morfy''), (fa ''mqaysh''), (fa ''tfavt''), (fa ''mzaya''), (fa ''moayb''), (fa ''karbrd''),
     (fa ''anvao''), (fa ''nmvnh''), (fa ''mcal''), (fa ''rvS''), (fa ''mraHl''), (fa ''aevl''), (fa ''nkat''), (fa ''trfnd''), (fa ''raygan''),
     (fa ''Anlayn''), (lit ''pdf''), (fa ''danlvd''), (fa ''SrayT''), (fa ''qvanyn'')]"

definition INFORMATIONAL_EN :: "chars list" where
  "INFORMATIONAL_EN =
    [(lit ''tutorial''), (lit ''guide''), (lit ''examples''), (lit ''template''), (lit ''checklist''), (lit ''tips''), (lit ''free''),
     (lit ''online''), (lit ''pdf''), (lit ''course''), (lit ''meaning''), (lit ''types''), (lit ''benefits'')]"

definition LOCAL_FA :: "chars list" where
  "LOCAL_FA =
    [(fa ''dr thran''), (fa ''nzdyk mn''), (fa ''dr ayran''), (fa ''dr mShd''), (fa ''dr aefhan''), (fa ''dr Syraz'')]"

definition LOCAL_EN :: "chars list" where
  "LOCAL_EN =
    [(lit ''near me''), (lit ''in tehran''), (lit ''online'')]"

definition COMPARISON_FA :: "chars list" where
  "COMPARISON_FA =
    [(fa ''ya''), (fa ''dr mqabl''), (fa ''bhtr ast ya''), (fa ''v'')]"

definition COMPARISON_EN :: "chars list" where
  "COMPARISON_EN =
    [(lit ''vs''), (lit ''or''), (lit ''alternative to''), (lit ''compared to'')]"

definition TIME_FA :: "chars list" where
  "TIME_FA =
    [(fa ''1405''), (lit ''2026''), (fa ''jdyd''), (fa ''amsal''), (fa ''bh rvz'')]"

definition TIME_EN :: "chars list" where
  "TIME_EN =
    [(lit ''2026''), (lit ''latest''), (lit ''new''), (lit ''updated'')]"

text \<open>The lists of one language.\<close>

record bucket =
  bk_alphabet :: "chars list"
  bk_questions :: "chars list"
  bk_commercial :: "chars list"
  bk_informational :: "chars list"
  bk_local :: "chars list"
  bk_comparison :: "chars list"
  bk_time :: "chars list"

definition begins_with :: "chars \<Rightarrow> chars \<Rightarrow> bool" where
  "begins_with p t \<longleftrightarrow> take (length p) t = p"

definition persian_bucket :: bucket where
  "persian_bucket =
     \<lparr>bk_alphabet = PERSIAN_ALPHABET, bk_questions = QUESTIONS_FA, bk_commercial = COMMERCIAL_FA,
      bk_informational = INFORMATIONAL_FA, bk_local = LOCAL_FA, bk_comparison = COMPARISON_FA, bk_time = TIME_FA\<rparr>"

definition latin_bucket :: bucket where
  "latin_bucket =
     \<lparr>bk_alphabet = LATIN_ALPHABET, bk_questions = QUESTIONS_EN, bk_commercial = COMMERCIAL_EN,
      bk_informational = INFORMATIONAL_EN, bk_local = LOCAL_EN, bk_comparison = COMPARISON_EN, bk_time = TIME_EN\<rparr>"

definition bucket_for :: "audit_env \<Rightarrow> chars \<Rightarrow> bucket" where
  "bucket_for A lang =
     (if begins_with (lit ''fa'') (low A lang) \<or> begins_with (lit ''ar'') (low A lang) then persian_bucket else latin_bucket)"

definition after_seed :: "chars \<Rightarrow> chars \<Rightarrow> chars" where
  "after_seed seed word = seed @ [32] @ word"

definition before_seed :: "chars \<Rightarrow> chars \<Rightarrow> chars" where
  "before_seed seed word = word @ [32] @ seed"

text \<open>All the queries in the order they are appended; Persian questions trail the noun.\<close>

definition shaped_queries :: "audit_env \<Rightarrow> chars \<Rightarrow> chars \<Rightarrow> bool \<Rightarrow> bool \<Rightarrow> bool \<Rightarrow> chars list" where
  "shaped_queries A seed lang questions alphabet comparisons =
     (let b = bucket_for A lang in
      [seed]
      @ (if questions
         then map (if begins_with (lit ''fa'') (low A lang) then after_seed seed else before_seed seed) (bk_questions b)
         else [])
      @ concat (map (\<lambda>word. [after_seed seed word, before_seed seed word]) (bk_commercial b @ bk_informational b))
      @ map (after_seed seed) (bk_local b @ bk_time b)
      @ (if comparisons then map (after_seed seed) (bk_comparison b) else [])
      @ (if alphabet then map (after_seed seed) (bk_alphabet b) else []))"

definition build_queries :: "audit_env \<Rightarrow> chars \<Rightarrow> chars \<Rightarrow> bool \<Rightarrow> bool \<Rightarrow> bool \<Rightarrow> chars list" where
  "build_queries A seed0 lang questions alphabet comparisons =
     (let seed = strip_white seed0 in
      if seed = [] then []
      else dedupe (filter (\<lambda>q. q \<noteq> []) (map strip_white (shaped_queries A seed lang questions alphabet comparisons))))"

subsection \<open>Intent\<close>

definition TRANSACTIONAL :: "chars list" where
  "TRANSACTIONAL =
    [(fa ''xryd''), (fa ''sfarS''), (fa ''cbt nam''), (fa ''cbt_nam''), (fa ''danlvd''), (fa ''rzrv''), (fa ''astolam''), (fa ''prdaxt''),
     (lit ''buy''), (lit ''order''), (lit ''download''), (lit ''signup''), (lit ''sign up''), (lit ''book''), (lit ''subscribe''), (lit ''hire'')]"

definition KW_STOPWORDS_FA :: "chars list" where
  "KW_STOPWORDS_FA =
    [(fa ''v''), (fa ''dr''), (fa ''bh''), (fa ''az''), (fa ''kh''), (fa ''ra''), (fa ''ba''), (fa ''bray''), (fa ''ayn''), (fa ''An''), (fa ''ast''), (fa ''my''),
     (fa ''yk''), (fa ''ta''), (fa ''br''), (fa ''hm''), (fa ''ya''), (fa ''Ch''), (fa ''hay''), (fa ''ha''), (fa ''Sdh''), (fa ''krd''), (fa ''krdn'')]"

definition KW_STOPWORDS_EN :: "chars list" where
  "KW_STOPWORDS_EN =
    [(lit ''the''), (lit ''a''), (lit ''an''), (lit ''of''), (lit ''for''), (lit ''to''), (lit ''in''), (lit ''on''), (lit ''and''), (lit ''or''), (lit ''is''), (lit ''are''),
     (lit ''with''), (lit ''how''), (lit ''what''), (lit ''why''), (lit ''best''), (lit ''vs'')]"

definition COMMERCIAL :: "chars list" where
  "COMMERCIAL = COMMERCIAL_FA @ COMMERCIAL_EN @ [(fa ''mqaysh''), (fa ''brrsy''), (fa ''nqd''), (lit ''review''), (lit ''vs''), (fa ''bhtryn'')]"

definition INFORMATIONAL :: "chars list" where
  "INFORMATIONAL = INFORMATIONAL_FA @ INFORMATIONAL_EN @ QUESTIONS_FA @ QUESTIONS_EN"

definition LOCAL :: "chars list" where
  "LOCAL = LOCAL_FA @ LOCAL_EN @ [(fa ''nzdyk mn''), (lit ''near me''), (fa ''thran''), (fa ''Syraz''), (fa ''mShd''), (fa ''aefhan''), (fa ''krj''), (fa ''tbryz'')]"

definition KW_STOPWORDS :: "chars list" where
  "KW_STOPWORDS = KW_STOPWORDS_FA @ KW_STOPWORDS_EN"

datatype intent = Transactional | Commercial | Informational | Local | Navigational

fun intent_name :: "intent \<Rightarrow> string" where
  "intent_name Transactional = ''transactional''"
| "intent_name Commercial = ''commercial''"
| "intent_name Informational = ''informational''"
| "intent_name Local = ''local''"
| "intent_name Navigational = ''navigational''"

fun INTENT_FA :: "intent \<Rightarrow> chars" where
  "INTENT_FA Transactional = (fa ''xryd / aqdam'')"
| "INTENT_FA Commercial = (fa ''brrsy qbl az xryd'')"
| "INTENT_FA Informational = (fa ''aTlaoaty'')"
| "INTENT_FA Local = (fa ''mHly'')"
| "INTENT_FA Navigational = (fa ''brnd / navbry'')"

text \<open>\<^verbatim>\<open>_TOKEN_RE.findall\<close>: the maximal runs of word characters and of the Arabic block.\<close>

definition token_char :: "audit_env \<Rightarrow> int \<Rightarrow> bool" where
  "token_char A c \<longleftrightarrow> cs_word (ae_chars A) c \<or> 0x600 \<le> c \<and> c \<le> 0x6FF"

definition find_tokens :: "audit_env \<Rightarrow> chars \<Rightarrow> chars list" where
  "find_tokens A t = split_where (\<lambda>c. \<not> token_char A c) [] t"

definition mentions :: "chars list \<Rightarrow> chars \<Rightarrow> bool" where
  "mentions terms t \<longleftrightarrow> list_ex (\<lambda>term. sublist term t) terms"

definition shares :: "chars list \<Rightarrow> chars list \<Rightarrow> bool" where
  "shares tokens terms \<longleftrightarrow> list_ex (\<lambda>t. t \<in> set terms) tokens"

definition classify_intent :: "audit_env \<Rightarrow> chars \<Rightarrow> chars list \<Rightarrow> intent" where
  "classify_intent A keyword brand_terms =
     (let lowered = low A keyword; tokens = find_tokens A lowered in
      if brand_terms \<noteq> [] \<and> shares tokens (map (low A) brand_terms) then Navigational
      else if mentions LOCAL lowered then Local
      else if shares tokens TRANSACTIONAL \<or> mentions TRANSACTIONAL lowered then Transactional
      else if shares tokens COMMERCIAL \<or> mentions COMMERCIAL lowered then Commercial
      else if shares tokens INFORMATIONAL \<or> mentions INFORMATIONAL lowered then Informational
      else Informational)"

definition tokens_of :: "audit_env \<Rightarrow> chars \<Rightarrow> chars list" where
  "tokens_of A keyword = filter (\<lambda>t. t \<notin> set KW_STOPWORDS \<and> 1 < length t) (find_tokens A (low A keyword))"

subsection \<open>Scores\<close>

record kw_entry =
  ke_keyword :: chars
  ke_sources :: "string list"  \<comment> \<open>a set: without repetition\<close>
  ke_hits :: int
  ke_best_position :: int
  ke_intent :: intent

definition new_entry :: "chars \<Rightarrow> kw_entry" where
  "new_entry t = \<lparr>ke_keyword = t, ke_sources = [], ke_hits = 0, ke_best_position = 99, ke_intent = Informational\<rparr>"

definition word_count :: "audit_env \<Rightarrow> kw_entry \<Rightarrow> int" where
  "word_count A k = int (length (find_tokens A (ke_keyword k)))"

definition is_long_tail :: "audit_env \<Rightarrow> kw_entry \<Rightarrow> bool" where
  "is_long_tail A k \<longleftrightarrow> 4 \<le> word_count A k"

definition demand_score :: "kw_entry \<Rightarrow> int" where
  "demand_score k =
     (let source_signal = (of_int (min (int (length (ke_sources k))) 4) / 4 * 40 :: rat);
          frequency_signal = of_int (min (ke_hits k) 10) / 10 * 35;
          position_signal = max 0 (of_int (10 - min (ke_best_position k) 10) / 10) * 25
      in round_even (source_signal + frequency_signal + position_signal))"

definition opportunity_score :: "audit_env \<Rightarrow> kw_entry \<Rightarrow> int" where
  "opportunity_score A k =
     (let length_bonus = (of_int (min (word_count A k) 6) / 6 * 30 :: rat);
          head_penalty = (if word_count A k \<le> 2 then 15 else 0)
      in max 0 (min 100 (round_even (of_int (demand_score k) * (7 / 10) + length_bonus - head_penalty))))"

definition entry_to_dict :: "audit_env \<Rightarrow> kw_entry \<Rightarrow> dict" where
  "entry_to_dict A k =
     [(''keyword'', JText (ke_keyword k)), (''sources'', JList (map JStr (sort (ke_sources k)))),
      (''hits'', JInt (ke_hits k)), (''position'', JInt (ke_best_position k)), (''words'', JInt (word_count A k)),
      (''long_tail'', JBool (is_long_tail A k)), (''intent'', JStr (intent_name (ke_intent k))),
      (''intent_fa'', JText (INTENT_FA (ke_intent k))), (''demand'', JInt (demand_score k)),
      (''opportunity'', JInt (opportunity_score A k))]"

subsection \<open>Clusters\<close>

record kw_cluster =
  kc_label :: chars
  kc_members :: "kw_entry list"
  kc_intent :: intent
  kc_avg_demand :: int

text \<open>In how many phrases a token occurs, the tokens of the seed apart.\<close>

definition token_frequency :: "audit_env \<Rightarrow> chars \<Rightarrow> kw_entry list \<Rightarrow> chars \<Rightarrow> int" where
  "token_frequency A seed keywords token =
     (if token \<in> set (tokens_of A seed) then 0
      else int (length (filter (\<lambda>k. token \<in> set (tokens_of A (ke_keyword k))) keywords)))"

text \<open>The label: a token shared by at least two phrases and by at most sixty per cent of them, if there is one.\<close>

definition cluster_label :: "audit_env \<Rightarrow> chars \<Rightarrow> kw_entry list \<Rightarrow> kw_entry \<Rightarrow> chars" where
  "cluster_label A seed keywords k =
     (let freq = token_frequency A seed keywords;
          candidates = sort_key (\<lambda>t. (- freq t, length t))
            (filter (\<lambda>t. t \<notin> set (tokens_of A seed)) (tokens_of A (ke_keyword k)))
      in case candidates of
           [] \<Rightarrow> seed
         | first # _ \<Rightarrow>
             (case first_where (\<lambda>t. 2 \<le> freq t \<and> (of_int (freq t) :: rat) \<le> of_nat (length keywords) * (6 / 10)) candidates of
                None \<Rightarrow> first | Some t \<Rightarrow> t))"

definition make_cluster :: "chars \<times> kw_entry list \<Rightarrow> kw_cluster" where
  "make_cluster bucket =
     (let members = sort_key (\<lambda>k. - demand_score k) (snd bucket) in
      \<lparr>kc_label = fst bucket, kc_members = members,
       kc_intent = fst (hd (most_common 1 (counter (map ke_intent members)))),
       kc_avg_demand = round_even (of_int (sum_list (map demand_score members)) / (of_nat (length members) :: rat))\<rparr>)"

definition all_clusters :: "audit_env \<Rightarrow> kw_entry list \<Rightarrow> chars \<Rightarrow> kw_cluster list" where
  "all_clusters A keywords seed =
     sort_key (\<lambda>c. (- int (length (kc_members c)), - kc_avg_demand c))
       (map make_cluster (groups (map (\<lambda>k. (cluster_label A seed keywords k, k)) keywords)))"

definition MAX_CLUSTERS :: nat where "MAX_CLUSTERS = 12"

definition cluster :: "audit_env \<Rightarrow> kw_entry list \<Rightarrow> chars \<Rightarrow> kw_cluster list" where
  "cluster A keywords seed = take MAX_CLUSTERS (all_clusters A keywords seed)"

definition primary :: "kw_cluster \<Rightarrow> chars" where
  "primary c = ke_keyword (hd (kc_members c))"

definition cluster_to_dict :: "audit_env \<Rightarrow> kw_cluster \<Rightarrow> dict" where
  "cluster_to_dict A c =
     [(''label'', JText (kc_label c)), (''size'', JInt (int (length (kc_members c)))),
      (''intent'', JStr (intent_name (kc_intent c))), (''intent_fa'', JText (INTENT_FA (kc_intent c))),
      (''avg_demand'', JInt (kc_avg_demand c)), (''primary'', JText (primary c)),
      (''keywords'', JList (map (\<lambda>m. JObj (entry_to_dict A m)) (take 25 (kc_members c))))]"

subsection \<open>The plan of pages\<close>

fun page_type :: "intent \<Rightarrow> chars \<times> chars" where
  "page_type Transactional =
     ((fa ''efHh_y mHevl ya xdmt''), (fa ''qymt, mSxeat, fraxvan xryd v nSanh_gDary [Product]''))"
| "page_type Commercial =
     ((fa ''mqalh_y mqaysh_ay ya brrsy''), (fa ''jdvl mqaysh, mzaya v moayb, tjrbh_y vaqoy astfadh''))"
| "page_type Informational =
     ((fa ''mqalh_y AmvzSy jamo''), (fa ''pasx kvtah dr abtda, sps mraHl, mcal v prsS_hay mtdavl''))"
| "page_type Local =
     ((fa ''efHh_y mHly''), (fa ''Adrs, nqSh, saot kary v nSanh_gDary [LocalBusiness]''))"
| "page_type Navigational =
     ((fa ''efHh_y brnd''), (fa ''morfy, tmas v lynk bh efHat aely''))"

fun suggest_title :: "chars \<Rightarrow> intent \<Rightarrow> chars" where
  "suggest_title keyword Informational = keyword @ (fa '': rahnmay kaml v karbrdy'')"
| "suggest_title keyword Commercial = (fa ''bhtryn '') @ keyword @ (fa '' ~ mqaysh v rahnmay antxab'')"
| "suggest_title keyword Transactional = keyword @ (fa '' ba bhtryn qymt v arsal sryo'')"
| "suggest_title keyword Local = keyword @ (fa '' ~ nzdyk Sma'')"
| "suggest_title keyword Navigational = keyword"

definition plan_entry :: "kw_cluster \<Rightarrow> dict" where
  "plan_entry c =
     [(''primary_keyword'', JText (primary c)), (''page_type'', JText (fst (page_type (kc_intent c)))),
      (''must_include'', JText (snd (page_type (kc_intent c)))),
      (''supporting_keywords'', JList (map (\<lambda>m. JText (ke_keyword m)) (take 7 (drop 1 (take 25 (kc_members c)))))),
      (''cluster_size'', JInt (int (length (kc_members c)))), (''intent_fa'', JText (INTENT_FA (kc_intent c))),
      (''suggested_title'', JText (suggest_title (primary c) (kc_intent c)))]"

definition content_plan :: "kw_cluster list \<Rightarrow> dict list" where
  "content_plan clusters = map plan_entry (take 10 clusters)"

end
