(* ===== verification/Keyword_Research.thy ===== *)
theory Keyword_Research
  imports Keyword_Terms Fetcher Job_Store
begin

text \<open>
  \<^verbatim>\<open>src/services/engine/seoagent/keywords/sources.py\<close> and \<^verbatim>\<open>research.py\<close>: the autocomplete services and the research
  that asks them. A request changes the world and gives the text of a good answer, or nothing when \<^verbatim>\<open>requests\<close>
  raises; the readers of JSON and of the feed are parameters. The pool of threads is a sequence of requests, since
  \<^verbatim>\<open>pool.map\<close> hands their results back in the order of the jobs; progress messages and pauses are left out.
\<close>

subsection \<open>The sources\<close>

record 'w keyword_net =
  kn_get :: "chars \<Rightarrow> (string \<times> chars) list \<Rightarrow> 'w \<Rightarrow> chars option \<times> 'w"
  kn_json :: "chars \<Rightarrow> json option"
  kn_titles :: "chars \<Rightarrow> chars list option"  \<comment> \<open>the titles of the items of a feed\<close>
  kn_upper :: "chars \<Rightarrow> chars"
  kn_env :: audit_env

record suggestion =
  sg_keyword :: json
  sg_source :: string
  sg_position :: int

text \<open>Why a source gave nothing: no answer, no JSON, no array in it, or an exception of another kind.\<close>

datatype source_failure = No_Answer | Not_Json | No_Array | Wrong_Shape exn

text \<open>\<^verbatim>\<open>re.search(r"\[.*\]", text, re.S)\<close>: from the first opening bracket to the last closing one.\<close>

definition bracketed :: "chars \<Rightarrow> chars option" where
  "bracketed text =
     (let opened = dropWhile (\<lambda>c. c \<noteq> 91) text; closed = rev (dropWhile (\<lambda>c. c \<noteq> 93) (rev opened))
      in if closed = [] then None else Some closed)"

definition decode_jsonp_array :: "'w keyword_net \<Rightarrow> chars \<Rightarrow> source_failure + json" where
  "decode_jsonp_array K raw =
     (let text = strip_white raw;
          loads = (\<lambda>t. case kn_json K t of None \<Rightarrow> Inl Not_Json | Some j \<Rightarrow> Inr j)
      in if begins_with (lit ''['') text then loads text
         else (case bracketed text of None \<Rightarrow> Inl No_Array | Some t \<Rightarrow> loads t))"

text \<open>\<^verbatim>\<open>data[1] if len(data) > 1 and isinstance(data[1], list) else []\<close>.\<close>

fun second_list :: "json \<Rightarrow> source_failure + json list" where
  "second_list (JList xs) = Inr (if 1 < length xs then (case xs ! 1 of JList ys \<Rightarrow> ys | _ \<Rightarrow> []) else [])"
| "second_list (JStr s) = Inr []"
| "second_list (JObj d) = (if 1 < length d then Inl (Wrong_Shape (KeyError ''1'')) else Inr [])"
| "second_list _ = Inl (Wrong_Shape TypeError)"

fun is_text :: "json \<Rightarrow> bool" where
  "is_text (JStr s) = True"
| "is_text _ = False"

text \<open>The position is the place in the list, whatever is left out of it.\<close>

definition suggestions_where :: "(json \<Rightarrow> bool) \<Rightarrow> string \<Rightarrow> json list \<Rightarrow> suggestion list" where
  "suggestions_where p name items =
     map (\<lambda>(i, s). \<lparr>sg_keyword = s, sg_source = name, sg_position = int i\<rparr>)
       (filter (\<lambda>(i, s). p s) (List.enumerate 0 items))"

definition ask ::
  "'w keyword_net \<Rightarrow> chars \<Rightarrow> (string \<times> chars) list \<Rightarrow> (json \<Rightarrow> source_failure + suggestion list) \<Rightarrow> 'w \<Rightarrow>
     (source_failure + suggestion list) \<times> 'w" where
  "ask K url params read w =
     (case kn_get K url params w of
        (None, w') \<Rightarrow> (Inl No_Answer, w')
      | (Some text, w') \<Rightarrow> (bindE (decode_jsonp_array K text) read, w'))"

definition list_suggestions :: "string \<Rightarrow> json \<Rightarrow> source_failure + suggestion list" where
  "list_suggestions name data = bindE (second_list data) (\<lambda>items. Inr (suggestions_where is_text name items))"

definition GOOGLE_URL :: chars where
  "GOOGLE_URL = lit ''https://suggestqueries.google.com/complete/search''"

definition google_suggest :: "'w keyword_net \<Rightarrow> chars \<Rightarrow> chars \<Rightarrow> chars \<Rightarrow> 'w \<Rightarrow> (source_failure + suggestion list) \<times> 'w" where
  "google_suggest K query lang country =
     ask K GOOGLE_URL [(''client'', lit ''firefox''), (''q'', query), (''hl'', lang), (''gl'', country)]
       (list_suggestions ''google'')"

definition youtube_suggest :: "'w keyword_net \<Rightarrow> chars \<Rightarrow> chars \<Rightarrow> chars \<Rightarrow> 'w \<Rightarrow> (source_failure + suggestion list) \<times> 'w" where
  "youtube_suggest K query lang country =
     ask K GOOGLE_URL [(''client'', lit ''firefox''), (''ds'', lit ''yt''), (''q'', query), (''hl'', lang), (''gl'', country)]
       (list_suggestions ''youtube'')"

definition bing_suggest :: "'w keyword_net \<Rightarrow> chars \<Rightarrow> chars \<Rightarrow> chars \<Rightarrow> 'w \<Rightarrow> (source_failure + suggestion list) \<times> 'w" where
  "bing_suggest K query lang country =
     ask K (lit ''https://api.bing.com/osjson.aspx'') [(''query'', query), (''language'', lang)] (list_suggestions ''bing'')"

text \<open>\<^verbatim>\<open>data[-1]\<close> when it is a list, else the phrases of the dictionaries in \<^verbatim>\<open>data\<close>.\<close>

definition phrases_of :: "json list \<Rightarrow> json list" where
  "phrases_of xs = List.map_filter (\<lambda>d. case d of JObj o' \<Rightarrow> Some (dget_default o' ''phrase'' (JStr [])) | _ \<Rightarrow> None) xs"

fun duck_items :: "json \<Rightarrow> source_failure + json list" where
  "duck_items (JList xs) =
     Inr (if xs = [] then [] else (case last xs of JList ys \<Rightarrow> filter is_text ys | _ \<Rightarrow> phrases_of xs))"
| "duck_items (JStr s) = Inr []"
| "duck_items (JObj d) = (if d = [] then Inr [] else Inl (Wrong_Shape (KeyError ''-1'')))"
| "duck_items j = (if truthy j then Inl (Wrong_Shape TypeError) else Inr [])"

definition duckduckgo_suggest :: "'w keyword_net \<Rightarrow> chars \<Rightarrow> chars \<Rightarrow> chars \<Rightarrow> 'w \<Rightarrow> (source_failure + suggestion list) \<times> 'w" where
  "duckduckgo_suggest K query lang country =
     ask K (lit ''https://duckduckgo.com/ac/'')
       [(''q'', query), (''type'', lit ''list''), (''kl'', low (kn_env K) country @ lit ''-'' @ low (kn_env K) lang)]
       (\<lambda>data. bindE (duck_items data) (\<lambda>items. Inr (suggestions_where truthy ''duckduckgo'' items)))"

definition SOURCES :: "(string \<times> ('w keyword_net \<Rightarrow> chars \<Rightarrow> chars \<Rightarrow> chars \<Rightarrow> 'w \<Rightarrow> (source_failure + suggestion list) \<times> 'w)) list" where
  "SOURCES = [(''google'', google_suggest), (''youtube'', youtube_suggest), (''bing'', bing_suggest),
     (''duckduckgo'', duckduckgo_suggest)]"

definition trending_now :: "'w keyword_net \<Rightarrow> chars \<Rightarrow> 'w \<Rightarrow> chars list \<times> 'w" where
  "trending_now K country w =
     (case kn_get K (lit ''https://trends.google.com/trending/rss'') [(''geo'', kn_upper K country)] w of
        (None, w') \<Rightarrow> ([], w')
      | (Some text, w') \<Rightarrow>
          (case kn_titles K text of
             None \<Rightarrow> ([], w')
           | Some titles \<Rightarrow> (take 25 (filter (\<lambda>t. t \<noteq> []) (map strip_white titles)), w')))"

text \<open>
  \<^verbatim>\<open>[s for s in (data[1] if len(data) > 1 else []) if isinstance(s, str)]\<close>; of the exceptions only an \<^verbatim>\<open>IndexError\<close>,
  which cannot happen, would be caught.
\<close>

definition entity_names :: "json \<Rightarrow> chars list py" where
  "entity_names data =
     bindE (jlen data) (\<lambda>n.
     bindE (if n \<le> 1 then Inr (JList [])
            else (case data of JList xs \<Rightarrow> Inr (xs ! 1) | JStr s \<Rightarrow> Inr (JStr [s ! 1]) | _ \<Rightarrow> Inl (KeyError ''1''))) (\<lambda>second.
     bindE (as_list second) (\<lambda>items.
       Inr (List.map_filter (\<lambda>j. case j of JStr s \<Rightarrow> Some (code_points s) | _ \<Rightarrow> None) items))))"

definition wikipedia_url :: "chars \<Rightarrow> chars" where
  "wikipedia_url lang = lit ''https://'' @ lang @ lit ''.wikipedia.org/w/api.php''"

definition related_from_wikipedia :: "'w keyword_net \<Rightarrow> chars \<Rightarrow> chars \<Rightarrow> ('w, chars list) action" where
  "related_from_wikipedia K query lang w =
     (case kn_get K (wikipedia_url lang)
             [(''action'', lit ''opensearch''), (''search'', query), (''limit'', lit ''15''), (''namespace'', lit ''0''),
              (''format'', lit ''json'')] w of
        (None, w') \<Rightarrow> (Inr [], w')
      | (Some text, w') \<Rightarrow> (case kn_json K text of None \<Rightarrow> (Inr [], w') | Some data \<Rightarrow> (entity_names data, w')))"

subsection \<open>The research\<close>

record kw_config =
  kf_seed :: chars
  kf_lang :: chars
  kf_country :: chars
  kf_max_keywords :: "int option"  \<comment> \<open>\<^verbatim>\<open>None\<close> in a slice is no bound\<close>
  kf_include_questions :: bool
  kf_include_alphabet :: bool
  kf_include_comparisons :: bool
  kf_sources :: "string list"

record kw_report =
  kr_seed :: chars
  kr_lang :: chars
  kr_country :: chars
  kr_keywords :: "kw_entry list"
  kr_clusters :: "kw_cluster list"
  kr_plan :: "dict list"
  kr_questions :: "chars list"
  kr_trending :: "chars list"
  kr_entities :: "chars list"
  kr_errors :: "chars list"
  kr_queries_sent :: int

definition new_report :: "kw_config \<Rightarrow> kw_report" where
  "new_report cf =
     \<lparr>kr_seed = strip_white (kf_seed cf), kr_lang = kf_lang cf, kr_country = kf_country cf, kr_keywords = [],
      kr_clusters = [], kr_plan = [], kr_questions = [], kr_trending = [], kr_entities = [], kr_errors = [],
      kr_queries_sent = 0\<rparr>"

definition intent_breakdown :: "kw_report \<Rightarrow> dict" where
  "intent_breakdown r = map (\<lambda>(i, n). (intent_name i, JInt (int n))) (counter (map ke_intent (kr_keywords r)))"

definition texts :: "chars list \<Rightarrow> json" where
  "texts ts = JList (map JText ts)"

definition kw_report_to_dict :: "audit_env \<Rightarrow> kw_report \<Rightarrow> dict" where
  "kw_report_to_dict A r =
     [(''seed'', JText (kr_seed r)), (''lang'', JText (kr_lang r)), (''country'', JText (kr_country r)),
      (''total'', JInt (int (length (kr_keywords r)))), (''queries_sent'', JInt (kr_queries_sent r)),
      (''keywords'', JList (map (\<lambda>k. JObj (entry_to_dict A k)) (kr_keywords r))),
      (''clusters'', JList (map (\<lambda>c. JObj (cluster_to_dict A c)) (kr_clusters r))),
      (''plan'', JList (map JObj (kr_plan r))), (''questions'', texts (kr_questions r)),
      (''trending'', texts (kr_trending r)), (''entities'', texts (kr_entities r)), (''errors'', texts (kr_errors r)),
      (''by_intent'', JObj (intent_breakdown r)), (''ai_suggestions'', JNull)]"

definition active_sources :: "kw_config \<Rightarrow> string list" where
  "active_sources cf =
     (let known = filter (\<lambda>s. s \<in> {''google'', ''youtube'', ''bing'', ''duckduckgo''}) (kf_sources cf)
      in if known = [] then [''google''] else known)"

definition research_jobs :: "chars list \<Rightarrow> string list \<Rightarrow> (chars \<times> string) list" where
  "research_jobs queries names = concat (map (\<lambda>q. map (\<lambda>n. (q, n)) names) queries)"

text \<open>\<^verbatim>\<open>run\<close>: whatever a source raises is its result.\<close>

definition run_source :: "'w keyword_net \<Rightarrow> kw_config \<Rightarrow> chars \<times> string \<Rightarrow> ('w, string \<times> (source_failure + suggestion list)) action" where
  "run_source K cf job w =
     (case job of (query, name) \<Rightarrow>
        (case map_of SOURCES name of
           None \<Rightarrow> (Inl (KeyError name), w)
         | Some fn \<Rightarrow> (case fn K query (kf_lang cf) (kf_country cf) w of (r, w') \<Rightarrow> (Inr (name, r), w'))))"

text \<open>What has been collected, by lower case text; a suggestion that is no text raises.\<close>

fun suggested_text :: "json \<Rightarrow> chars py" where
  "suggested_text (JStr s) = Inr (strip_white (code_points s))"
| "suggested_text _ = Inl AttributeError"

definition improve :: "suggestion \<Rightarrow> kw_entry \<Rightarrow> kw_entry" where
  "improve s k =
     k\<lparr>ke_sources := List.insert (sg_source s) (ke_sources k), ke_hits := ke_hits k + 1,
       ke_best_position := min (ke_best_position k) (sg_position s)\<rparr>"

definition add_suggestion :: "audit_env \<Rightarrow> suggestion \<Rightarrow> (chars \<times> kw_entry) list \<Rightarrow> (chars \<times> kw_entry) list py" where
  "add_suggestion A s collected =
     bindE (suggested_text (sg_keyword s)) (\<lambda>t.
       if t = [] \<or> length t < 2 then Inr collected
       else (let existing = (case map_of collected (low A t) of None \<Rightarrow> new_entry t | Some k \<Rightarrow> k)
             in Inr (assoc_set (low A t) (improve s existing) collected)))"

fun add_all :: "audit_env \<Rightarrow> suggestion list \<Rightarrow> (chars \<times> kw_entry) list \<Rightarrow> (chars \<times> kw_entry) list py" where
  "add_all A [] collected = Inr collected"
| "add_all A (s # ss) collected = bindE (add_suggestion A s collected) (add_all A ss)"

definition count_failure :: "string \<Rightarrow> (string \<times> int) list \<Rightarrow> (string \<times> int) list" where
  "count_failure name failures =
     assoc_set name ((case map_of failures name of None \<Rightarrow> 0 | Some n \<Rightarrow> n) + 1) failures"

fun collect ::
  "audit_env \<Rightarrow> (string \<times> (source_failure + suggestion list)) list \<Rightarrow> (chars \<times> kw_entry) list \<Rightarrow> (string \<times> int) list \<Rightarrow>
     ((chars \<times> kw_entry) list \<times> (string \<times> int) list) py" where
  "collect A [] collected failures = Inr (collected, failures)"
| "collect A ((name, Inl e) # rest) collected failures = collect A rest collected (count_failure name failures)"
| "collect A ((name, Inr found) # rest) collected failures =
     bindE (add_all A found collected) (\<lambda>collected'. collect A rest collected' failures)"

definition failure_text :: "nat \<Rightarrow> string \<times> int \<Rightarrow> chars" where
  "failure_text asked nc =
     (fa ''mnbo <'') @ code_points (fst nc) @ (fa ''> dr '') @ inum (snd nc) @ (fa '' az '') @ num asked
     @ (fa '' drxvast pasx ndad (aHtmalaN mHdvdyt nrx ya dstrsy Sbkh).'')"

definition brand_terms :: "chars \<Rightarrow> chars list" where
  "brand_terms seed = filter (\<lambda>t. 3 < length t) (split_where is_white [] seed)"

definition ranked :: "kw_entry list \<Rightarrow> kw_entry list" where
  "ranked = sort_key (\<lambda>k. (- demand_score k, - ke_hits k, ke_keyword k))"

definition QUESTION_MARKS :: "chars list" where
  "QUESTION_MARKS = QUESTIONS_FA @ QUESTIONS_EN @ [(fa ''?''), lit ''?'']"

definition questions_in :: "audit_env \<Rightarrow> kw_entry list \<Rightarrow> chars list" where
  "questions_in A keywords = take 40 (filter (\<lambda>t. mentions QUESTION_MARKS (low A t)) (map ke_keyword keywords))"

text \<open>The keywords of a report: everything collected with its intent, ranked, as many as asked for.\<close>

definition rank_collected :: "audit_env \<Rightarrow> kw_config \<Rightarrow> (chars \<times> kw_entry) list \<Rightarrow> kw_entry list" where
  "rank_collected A cf collected =
     (let brand = brand_terms (strip_white (kf_seed cf)) in
      (case kf_max_keywords cf of None \<Rightarrow> (\<lambda>ks. ks) | Some n \<Rightarrow> slice_to n)
        (ranked (map (\<lambda>(t, k). k\<lparr>ke_intent := classify_intent A (ke_keyword k) brand\<rparr>) collected)))"

definition research :: "'w keyword_net \<Rightarrow> kw_config \<Rightarrow> ('w, kw_report) action" where
  "research K cf =
     (let A = kn_env K; seed = strip_white (kf_seed cf); report = new_report cf in
      if seed = [] then give (report\<lparr>kr_errors := [(fa ''obart avlyh xaly ast.'')]\<rparr>)
      else
        (let queries = build_queries A seed (kf_lang cf) (kf_include_questions cf) (kf_include_alphabet cf)
                         (kf_include_comparisons cf);
             jobs = research_jobs queries (active_sources cf)
         in bindW (mapW (run_source K cf) jobs) (\<lambda>answers.
            bindW (purely (collect A answers [] [])) (\<lambda>(collected, failures).
            bindW (\<lambda>w. case trending_now K (kf_country cf) w of (t, w') \<Rightarrow> (Inr t, w')) (\<lambda>trending.
            bindW (related_from_wikipedia K seed (kf_lang cf)) (\<lambda>entities.
              let keywords = rank_collected A cf collected; clusters = cluster A keywords seed;
                  errors = map (failure_text (length queries)) failures
              in give (report\<lparr>kr_queries_sent := int (length jobs), kr_keywords := keywords,
                   kr_questions := questions_in A keywords, kr_trending := trending, kr_entities := entities,
                   kr_clusters := clusters, kr_plan := content_plan clusters,
                   kr_errors := (if keywords = [] \<and> errors = []
                     then [(fa ''hyC pySnhady brgrdandh nSd. obart avlyh ra omvmy_tr bnvys ya zban/kSvr ra '' @ fa ''brrsy kn.'')]
                     else errors)\<rparr>)))))))"

text \<open>\<^verbatim>\<open>KeywordConfig(...)\<close> from a request, and the report as the service stores it.\<close>

definition keyword_config :: "dict \<Rightarrow> kw_config py" where
  "keyword_config request =
     bindE (bindE (ditem request ''seed'') as_chars) (\<lambda>seed.
     bindE (as_chars (dget_default request ''lang'' (JStr ''fa''))) (\<lambda>lang.
     bindE (as_chars (dget_default request ''country'' (JStr ''IR''))) (\<lambda>country.
     bindE (case dget_default request ''max_keywords'' (JInt 200) of
              JNull \<Rightarrow> Inr None | j \<Rightarrow> bindE (as_int j) (\<lambda>n. Inr (Some n))) (\<lambda>limit.
     bindE (bindE (as_list (py_or (dget request ''sources'')
              (JList [JStr ''google'', JStr ''youtube'', JStr ''bing'', JStr ''duckduckgo'']))) (mapE read_text)) (\<lambda>names.
       Inr \<lparr>kf_seed = seed, kf_lang = lang, kf_country = country, kf_max_keywords = limit,
            kf_include_questions = truthy (dget_default request ''include_questions'' (JBool True)),
            kf_include_alphabet = truthy (dget_default request ''include_alphabet'' (JBool True)),
            kf_include_comparisons = truthy (dget_default request ''include_comparisons'' (JBool True)),
            kf_sources = names\<rparr>)))))"

definition research_work :: "'w keyword_net \<Rightarrow> 'w \<Rightarrow> dict \<Rightarrow> dict py" where
  "research_work K w request =
     bindE (keyword_config request) (\<lambda>cf.
     bindE (fst (research K cf w)) (\<lambda>r. Inr (kw_report_to_dict (kn_env K) r)))"

end
