(* ===== verification/Keyword_Properties.thy ===== *)
theory Keyword_Properties
  imports Keyword_Research "HOL-Library.Multiset"
begin

text \<open>
  What a keyword research promises: every suggestion is counted once under its text, every keyword is in exactly one
  cluster, scores are percentages; and which answer of an optional source ends it.
\<close>

subsection \<open>Counting suggestions\<close>

text \<open>The text of a suggestion that counts, and the suggestions counted under a lower case text.\<close>

definition usable_text :: "suggestion \<Rightarrow> chars option" where
  "usable_text s = (case suggested_text (sg_keyword s) of Inl _ \<Rightarrow> None | Inr t \<Rightarrow> if 2 \<le> length t then Some t else None)"

definition under :: "audit_env \<Rightarrow> chars \<Rightarrow> suggestion list \<Rightarrow> suggestion list" where
  "under A key ss = filter (\<lambda>s. map_option (low A) (usable_text s) = Some key) ss"

text \<open>What is collected under a text that was new, or had an entry.\<close>

definition tallied :: "kw_entry option \<Rightarrow> suggestion list \<Rightarrow> kw_entry option" where
  "tallied known ss =
     (case ss of
        [] \<Rightarrow> known
      | s # _ \<Rightarrow> Some (foldl (\<lambda>k s. improve s k)
                     (case known of None \<Rightarrow> new_entry (the (usable_text s)) | Some k \<Rightarrow> k) ss))"

lemma tallied_step: "tallied known (s # ss) = tallied (tallied known [s]) ss"
  by (cases ss) (simp_all add: tallied_def)

lemma tallied_append: "tallied known (xs @ ys) = tallied (tallied known xs) ys"
proof (induction xs arbitrary: known)
  case Nil
  then show ?case by (simp add: tallied_def)
next
  case (Cons x xs)
  then show ?case by (metis append_Cons tallied_step)
qed

lemma add_suggestion_tallied:
  assumes "add_suggestion A s c = Inr c'"
  shows "map_of c' key = tallied (map_of c key) (under A key [s])"
proof -
  obtain t where t: "suggested_text (sg_keyword s) = Inr t"
    using assms by (auto simp: add_suggestion_def)
  show ?thesis
  proof (cases "2 \<le> length t")
    case True
    then have "t \<noteq> []" by auto
    with True have "c' = assoc_set (low A t) (improve s (case map_of c (low A t) of None \<Rightarrow> new_entry t | Some k \<Rightarrow> k)) c"
      using assms t by (simp add: add_suggestion_def Let_def)
    moreover have "usable_text s = Some t" using True t by (simp add: usable_text_def)
    ultimately show ?thesis by (simp add: under_def tallied_def map_of_assoc_set split: option.split)
  next
    case False
    with assms t show ?thesis
      by (simp add: add_suggestion_def under_def usable_text_def tallied_def)
  qed
qed

lemma add_all_tallied: "add_all A ss c = Inr c' \<Longrightarrow> map_of c' key = tallied (map_of c key) (under A key ss)"
proof (induction ss arbitrary: c)
  case Nil
  then show ?case by (simp add: under_def tallied_def)
next
  case (Cons s ss)
  then obtain c1 where c1: "add_suggestion A s c = Inr c1" "add_all A ss c1 = Inr c'" by auto
  have "under A key (s # ss) = under A key [s] @ under A key ss" by (simp add: under_def)
  with Cons.IH [OF c1(2)] add_suggestion_tallied [OF c1(1)] show ?case by (simp add: tallied_append)
qed

lemma add_all_distinct: "add_all A ss c = Inr c' \<Longrightarrow> distinct (map fst c) \<Longrightarrow> distinct (map fst c')"
proof (induction ss arbitrary: c)
  case (Cons s ss)
  then obtain c1 where c1: "add_suggestion A s c = Inr c1" "add_all A ss c1 = Inr c'" by auto
  have "distinct (map fst c1)"
    using c1(1) Cons.prems(2) by (auto simp: add_suggestion_def Let_def assoc_set_keys image_iff split: if_splits)
  with Cons.IH c1(2) show ?case by blast
qed simp

lemma foldl_improve:
  "ke_keyword (foldl (\<lambda>k s. improve s k) k ss) = ke_keyword k \<and>
   ke_intent (foldl (\<lambda>k s. improve s k) k ss) = ke_intent k \<and>
   ke_hits (foldl (\<lambda>k s. improve s k) k ss) = ke_hits k + int (length ss) \<and>
   set (ke_sources (foldl (\<lambda>k s. improve s k) k ss)) = set (ke_sources k) \<union> set (map sg_source ss) \<and>
   (distinct (ke_sources k) \<longrightarrow> distinct (ke_sources (foldl (\<lambda>k s. improve s k) k ss))) \<and>
   ke_best_position (foldl (\<lambda>k s. improve s k) k ss) = Min (insert (ke_best_position k) (set (map sg_position ss)))"
proof (induction ss arbitrary: k)
  case (Cons s ss)
  have "Min (insert (min a b) S) = Min (insert a (insert b S))" if "finite S" for a b :: int and S
    using that by (cases "S = {}") (simp_all add: min.assoc)
  with Cons [of "improve s k"] show ?case by (auto simp: improve_def)
qed simp

text \<open>All the suggestions of the sources that answered, and how often a source failed.\<close>

definition suggestions_of :: "(string \<times> (source_failure + suggestion list)) list \<Rightarrow> suggestion list" where
  "suggestions_of answers = concat (map (\<lambda>(n, r). case r of Inl _ \<Rightarrow> [] | Inr ss \<Rightarrow> ss) answers)"

definition failed_times :: "string \<Rightarrow> (string \<times> (source_failure + suggestion list)) list \<Rightarrow> int" where
  "failed_times name answers = int (length (filter (\<lambda>(n, r). n = name \<and> (case r of Inl _ \<Rightarrow> True | Inr _ \<Rightarrow> False)) answers))"

lemma collect_tallied:
  "collect A answers c f = Inr (c', f') \<Longrightarrow>
     map_of c' key = tallied (map_of c key) (under A key (suggestions_of answers)) \<and>
     (distinct (map fst c) \<longrightarrow> distinct (map fst c')) \<and>
     map_of f' name = (if failed_times name answers = 0 then map_of f name
       else Some ((case map_of f name of None \<Rightarrow> 0 | Some n \<Rightarrow> n) + failed_times name answers))"
proof (induction A answers c f rule: collect.induct)
  case (1 A c f)
  then show ?case by (simp add: suggestions_of_def under_def tallied_def failed_times_def)
next
  case (2 A n e rest c f)
  have "suggestions_of ((n, Inl e) # rest) = suggestions_of rest" by (simp add: suggestions_of_def)
  moreover have "failed_times name ((n, Inl e) # rest) = (if n = name then 1 else 0) + failed_times name rest"
    by (simp add: failed_times_def)
  moreover have "0 \<le> failed_times name rest" by (simp add: failed_times_def)
  ultimately show ?case
    using 2 by (auto simp: count_failure_def map_of_assoc_set split: option.splits)
next
  case (3 A n found rest c f)
  then obtain c1 where c1: "add_all A found c = Inr c1" "collect A rest c1 f = Inr (c', f')" by auto
  have "under A key (suggestions_of ((n, Inr found) # rest)) = under A key found @ under A key (suggestions_of rest)"
    by (simp add: suggestions_of_def under_def)
  moreover have "failed_times name ((n, Inr found) # rest) = failed_times name rest" by (simp add: failed_times_def)
  ultimately show ?case
    using 3(1) [OF c1(2)] add_all_tallied [OF c1(1), of key] add_all_distinct [OF c1(1)] by (simp add: tallied_append)
qed

text \<open>C37: every suggestion counts once. After the answers have been collected there is exactly one entry for each lower
  case text some usable suggestion had: it shows the first such text, its hits are the number of those suggestions,
  its sources those that made them, its position the best of theirs (99 at worst); and every source is
  charged with exactly the requests it failed to answer.\<close>

theorem suggestions_counted_once:
  assumes "collect A answers [] [] = Inr (collected, failures)"
  shows "distinct (map fst collected) \<and>
    (map_of collected key = None \<longleftrightarrow> under A key (suggestions_of answers) = []) \<and>
    (\<forall>k s rest. map_of collected key = Some k \<longrightarrow> under A key (suggestions_of answers) = s # rest \<longrightarrow>
       usable_text s = Some (ke_keyword k) \<and> ke_hits k = int (length (s # rest)) \<and>
       distinct (ke_sources k) \<and> set (ke_sources k) = sg_source ` set (s # rest) \<and>
       ke_best_position k = Min (insert 99 (sg_position ` set (s # rest)))) \<and>
    map_of failures name = (if failed_times name answers = 0 then None else Some (failed_times name answers))"
proof -
  let ?u = "under A key (suggestions_of answers)"
  note c = collect_tallied [OF assms, of key name]
  then have key: "map_of collected key = tallied None ?u" by simp
  have "usable_text s = Some (ke_keyword k) \<and> ke_hits k = int (length (s # rest)) \<and>
       distinct (ke_sources k) \<and> set (ke_sources k) = sg_source ` set (s # rest) \<and>
       ke_best_position k = Min (insert 99 (sg_position ` set (s # rest)))"
    if k: "map_of collected key = Some k" and u: "?u = s # rest" for k s rest
  proof -
    have "s \<in> set ?u" using u by simp
    then have "usable_text s \<noteq> None" by (auto simp: under_def)
    then obtain t where t: "usable_text s = Some t" by blast
    have "k = foldl (\<lambda>k s. improve s k) (new_entry t) (s # rest)"
      using k key u t by (simp add: tallied_def)
    with foldl_improve [of "new_entry t" "s # rest"] t show ?thesis by (simp add: new_entry_def del: foldl_Cons)
  qed
  moreover have "map_of collected key = None \<longleftrightarrow> ?u = []" using key by (auto simp: tallied_def split: list.splits)
  moreover have "distinct (map fst collected)"
    "map_of failures name = (if failed_times name answers = 0 then None else Some (failed_times name answers))"
    using c by simp_all
  ultimately show ?thesis by blast
qed

text \<open>Two sources suggest one text in two spellings, a third does not answer.\<close>

definition demo_answers :: "(string \<times> (source_failure + suggestion list)) list" where
  "demo_answers =
    [(''google'', Inr [\<lparr>sg_keyword = JStr ''a'', sg_source = ''google'', sg_position = 0\<rparr>,
                       \<lparr>sg_keyword = JStr ''seo'', sg_source = ''google'', sg_position = 4\<rparr>]),
     (''bing'', Inl No_Answer), (''youtube'', Inr [\<lparr>sg_keyword = JStr '' SEO'', sg_source = ''youtube'', sg_position = 2\<rparr>])]"

definition demo_collected :: "(chars \<times> kw_entry) list" where
  "demo_collected =
    [(lit ''seo'', \<lparr>ke_keyword = lit ''seo'', ke_sources = [''youtube'', ''google''], ke_hits = 2, ke_best_position = 2,
                    ke_intent = Informational\<rparr>)]"

lemma demo_collects: "collect ascii_env demo_answers [] [] = Inr (demo_collected, [(''bing'', 1)])"
  by code_simp

theorem suggestions_counted_once_witness:
  "distinct (map fst demo_collected) \<and> failed_times ''bing'' demo_answers = 1 \<and>
   under ascii_env (lit ''a'') (suggestions_of demo_answers) = []"
proof -
  have "map_of demo_collected (lit ''a'') = None" by (simp add: demo_collected_def lit_def)
  then show ?thesis
    using suggestions_counted_once [OF demo_collects, of "lit ''a''" "''bing''"] by (simp split: if_splits)
qed

subsection \<open>Clusters\<close>

lemma groups_partition: "mset (concat (map snd (groups kvs))) = mset (map snd kvs)"
proof -
  have "mset (concat (map (\<lambda>k. map snd (filter (\<lambda>kv. fst kv = k) kvs)) ks)) =
      mset (map snd (filter (\<lambda>kv. fst kv \<in> set ks) kvs))" if "distinct ks" for ks
    using that
  proof (induction ks)
    case (Cons k ks)
    have "mset (filter (\<lambda>kv. fst kv = k) kvs) + mset (filter (\<lambda>kv. fst kv \<in> set ks) kvs) =
        mset (filter (\<lambda>kv. fst kv \<in> set (k # ks)) kvs)"
      using Cons.prems by (induction kvs) auto
    then show ?case using Cons by (simp flip: image_mset_union)
  qed simp
  from this [of "dedupe (map fst kvs)"] have "mset (concat (map snd (groups kvs))) =
      mset (map snd (filter (\<lambda>kv. fst kv \<in> fst ` set kvs) kvs))"
    by (simp add: groups_def comp_def)
  moreover have "filter (\<lambda>kv. fst kv \<in> fst ` set kvs) kvs = kvs" by (simp add: filter_id_conv)
  ultimately show ?thesis by simp
qed

lemma mset_concat_members: "mset (concat (map f (sort_key k xs))) = mset (concat (map f xs))"
  by (simp add: mset_concat) (metis mset_map mset_sort sum_mset_sum_list)

lemma distinct_map_sorted: "distinct (map f (sort_key k xs)) \<longleftrightarrow> distinct (map f xs)"
  by (rule mset_eq_imp_distinct_iff) simp

lemma make_cluster_members: "kc_members (make_cluster b) = sort_key (\<lambda>k. - demand_score k) (snd b)"
  by (simp add: make_cluster_def Let_def)


subsection \<open>An optional source that ends the research\<close>

lemma entity_names_object: "2 \<le> length d \<Longrightarrow> entity_names (JObj d) = Inl (KeyError ''1'')"
  by (simp add: entity_names_def)

text \<open>C39: one odd answer of an optional source loses the whole research. The names of related entities are an extra, and
  a Wikipedia that cannot be reached costs nothing; but when it answers with an object of two entries or
  more, as its errors are, the exception is not caught and the research of every seed fails, whatever
  suggestions it had collected.\<close>

theorem wikipedia_error_fails_research:
  assumes "strip_white (kf_seed cf) \<noteq> []" and "2 \<le> length d"
    and "\<forall>params w. \<exists>t w'. kn_get K (wikipedia_url (kf_lang cf)) params w = (Some t, w') \<and> kn_json K t = Some (JObj d)"
  shows "\<exists>e. fst (research K cf w) = Inl e"
proof (rule ccontr)
  assume "\<nexists>e. fst (research K cf w) = Inl e"
  then obtain r w' where r: "research K cf w = (Inr r, w')" by (metis prod.collapse sum.exhaust_sel sum.collapse(1) sum.collapse(2))
  then obtain entities w1 w2 where "related_from_wikipedia K (strip_white (kf_seed cf)) (kf_lang cf) w1 = (Inr entities, w2)"
    using assms(1) unfolding research_def Let_def by (auto simp: bindW_Inr)
  moreover obtain t w3 where "kn_get K (wikipedia_url (kf_lang cf))
      [(''action'', lit ''opensearch''), (''search'', strip_white (kf_seed cf)), (''limit'', lit ''15''), (''namespace'', lit ''0''),
       (''format'', lit ''json'')] w1 = (Some t, w3)" "kn_json K t = Some (JObj d)"
    using assms(3) by blast
  ultimately show False by (simp add: related_from_wikipedia_def entity_names_object [OF assms(2)])
qed

definition confused_net :: "unit keyword_net" where
  "confused_net =
     \<lparr>kn_get = (\<lambda>url params w. (Some (lit ''x''), w)),
      kn_json = (\<lambda>_. Some (JObj [(''error'', JStr ''too long''), (''servedby'', JStr ''mw1'')])),
      kn_titles = (\<lambda>_. Some []), kn_upper = (\<lambda>t. t), kn_env = ascii_env\<rparr>"

definition demo_kw_config :: kw_config where
  "demo_kw_config = \<lparr>kf_seed = lit ''seo'', kf_lang = lit ''en'', kf_country = lit ''IR'', kf_max_keywords = Some 10,
     kf_include_questions = False, kf_include_alphabet = False, kf_include_comparisons = False, kf_sources = []\<rparr>"

theorem wikipedia_error_fails_research_witness: "\<exists>e. fst (research confused_net demo_kw_config ()) = Inl e"
proof -
  have "strip_white (kf_seed demo_kw_config) \<noteq> []" by code_simp
  moreover have "2 \<le> length [(''error'', JStr ''too long''), (''servedby'', JStr ''mw1'')]" by simp
  ultimately show ?thesis
    by (rule wikipedia_error_fails_research) (simp add: confused_net_def)
qed

text \<open>The language of a request goes into the address as it is: it can name any host.\<close>

lemma language_names_the_host:
  "bindE (urlsplit (encode (wikipedia_url (lit ''10.0.0.1/'')))) (\<lambda>u. Inr (hostname u)) = Inr ''10.0.0.1''"
  by code_simp

end
