(* ===== verification/Keyword_Work.thy ===== *)
theory Keyword_Work
  imports Keyword_Properties Services
begin

text \<open>
  The keyword service with its real work: the event made of a report, and what the content and optimizer services read
  of it.
\<close>

definition keyword_handle_work ::
  "contracts \<Rightarrow> 'w keyword_net \<Rightarrow> 'w \<Rightarrow> 's creator \<Rightarrow> 's getter \<Rightarrow> 's updater \<Rightarrow> bool \<Rightarrow>
     delivery \<Rightarrow> string \<Rightarrow> (nat \<Rightarrow> string) \<Rightarrow> 's worker \<Rightarrow> unit py \<times> 's worker" where
  "keyword_handle_work C K w = keyword_handle C (research_work K w)"

text \<open>The entry of the event for a keyword, and the keyword as the content service reads it.\<close>

definition top_entry :: "audit_env \<Rightarrow> kw_entry \<Rightarrow> json" where
  "top_entry A k =
     JObj [(''keyword'', JText (ke_keyword k)), (''demand'', JInt (demand_score k)),
           (''opportunity'', JInt (opportunity_score A k)), (''intent'', JStr (intent_name (ke_intent k)))]"

definition read_back :: "kw_entry \<Rightarrow> keyword" where
  "read_back k = \<lparr>kw_keyword = encode (ke_keyword k), kw_demand = demand_score k, kw_intent = intent_name (ke_intent k)\<rparr>"

lemma entry_fields:
  "dget (entry_to_dict A k) ''keyword'' = JText (ke_keyword k)"
  "dget (entry_to_dict A k) ''demand'' = JInt (demand_score k)"
  "dget (entry_to_dict A k) ''intent'' = JStr (intent_name (ke_intent k))"
  "ditem (entry_to_dict A k) ''keyword'' = Inr (JText (ke_keyword k))"
  "ditem (entry_to_dict A k) ''demand'' = Inr (JInt (demand_score k))"
  "ditem (entry_to_dict A k) ''opportunity'' = Inr (JInt (opportunity_score A k))"
  "ditem (entry_to_dict A k) ''intent'' = Inr (JStr (intent_name (ke_intent k)))"
  by (simp_all add: entry_to_dict_def ditem_def)

lemma mapE_top:
  "mapE (\<lambda>row. bindE (as_dict row) (\<lambda>k. bindE (ditem k ''keyword'') (\<lambda>w. bindE (ditem k ''demand'') (\<lambda>d.
     bindE (ditem k ''opportunity'') (\<lambda>opp. bindE (ditem k ''intent'') (\<lambda>i.
       Inr (JObj [(''keyword'', w), (''demand'', d), (''opportunity'', opp), (''intent'', i)])))))))
     (map (\<lambda>k. JObj (entry_to_dict A k)) ks) = Inr (map (top_entry A) ks)"
  by (induction ks) (simp_all add: entry_fields top_entry_def)

lemma intent_name_given: "intent_name i \<noteq> []"
  by (cases i) simp_all

lemma build_keyword_entry:
  "build_keyword R (JObj (entry_to_dict A k)) = Inr (if ke_keyword k = [] then [] else [read_back k])"
  by (simp add: entry_fields JText_def read_back_def py_or_def intent_name_given)

lemma mapE_build:
  "mapE (build_keyword R) (map (\<lambda>k. JObj (entry_to_dict A k)) ks) =
     Inr (map (\<lambda>k. if ke_keyword k = [] then [] else [read_back k]) ks)"
  by (induction ks) (simp_all only: list.map mapE.simps build_keyword_entry bindE_simps)

lemma concat_given: "concat (map (\<lambda>k. if p k then [] else [f k]) ks) = map f (filter (\<lambda>k. \<not> p k) ks)"
  by (induction ks) simp_all

text \<open>C40: a report of the keyword engine reaches everyone it is for. Whatever a research found, its event can be built: it
  counts all keywords and clusters and carries the first 25 keywords with their figures; and the content service
  (and with it the optimizer) reads every keyword of the report with its text, demand and intent, and never
  raises on one.\<close>

theorem keyword_report_readable:
  "(\<exists>told. researched_payload job seed (kw_report_to_dict A r) ''completed'' None = Inr told \<and>
     dget told ''total'' = JInt (int (length (kr_keywords r))) \<and>
     dget told ''cluster_count'' = JInt (int (length (kr_clusters r))) \<and>
     dget told ''top_keywords'' = JList (map (top_entry A) (take 25 (kr_keywords r)))) \<and>
   build_keywords R (kw_report_to_dict A r) =
     Inr (map read_back (filter (\<lambda>k. ke_keyword k \<noteq> []) (kr_keywords r)))"
proof
  let ?d = "kw_report_to_dict A r"
  have rows: "dget_default ?d ''keywords'' j = JList (map (\<lambda>k. JObj (entry_to_dict A k)) (kr_keywords r))"
    "dget ?d ''keywords'' = JList (map (\<lambda>k. JObj (entry_to_dict A k)) (kr_keywords r))"
    "dget_default ?d ''clusters'' j = JList (map (\<lambda>c. JObj (cluster_to_dict A c)) (kr_clusters r))"
    "dget_default ?d ''total'' j = JInt (int (length (kr_keywords r)))" for j
    by (simp_all add: kw_report_to_dict_def dget_default_def)
  have top: "bindE (jtake 25 (JList (map (\<lambda>k. JObj (entry_to_dict A k)) (kr_keywords r)))) as_list =
      Inr (map (\<lambda>k. JObj (entry_to_dict A k)) (take 25 (kr_keywords r)))" by (simp add: take_map)
  show "\<exists>told. researched_payload job seed ?d ''completed'' None = Inr told \<and>
     dget told ''total'' = JInt (int (length (kr_keywords r))) \<and>
     dget told ''cluster_count'' = JInt (int (length (kr_clusters r))) \<and>
     dget told ''top_keywords'' = JList (map (top_entry A) (take 25 (kr_keywords r)))"
    unfolding researched_payload_def rows top mapE_top bindE_simps by simp
  show "build_keywords R ?d = Inr (map read_back (filter (\<lambda>k. ke_keyword k \<noteq> []) (kr_keywords r)))"
  proof (cases "kr_keywords r = []")
    case True
    then have "truthy (dget ?d ''top_keywords'') = False" "dget ?d ''keywords'' = JList []"
      by (simp_all add: kw_report_to_dict_def)
    with True show ?thesis by (simp add: build_keywords_def py_or_def)
  next
    case False
    then show ?thesis
      by (simp add: build_keywords_def rows py_or_def mapE_build concat_given)
  qed
qed

end
