(* ===== verification/Spec2Isabelle.thy ===== *)
theory Spec2Isabelle
  imports Relay Orch_Worker Schedules Serp_Properties Content_Properties Link_Properties
    Competitor_Properties Optimizer_Properties Service_Properties Notify_System
    Crawl_Work Report_Properties Keyword_Work
begin

text \<open>
  A model of the SEO platform under \<^verbatim>\<open>src/\<close> and what it can be relied on for.

  \<^bold>\<open>The program.\<close> A site audit is a workflow of steps. The orchestrator (\<^verbatim>\<open>src/agents/orchestrator\<close>)
  plans it, sends one request at a time, and moves on when the completion event of the step arrives. Each step
  is the job of one service (\<^verbatim>\<open>src/services\<close>): crawl, keyword, serp, content, internal_links, competitor,
  optimizer, reporting. Services take requests off a queue, keep a record of the job and
  announce the result; the notifications service tells subscribers. Everything that is announced goes through
  an outbox table in the transaction that stores the result, and a relay hands the outbox to the broker
  (\<^verbatim>\<open>src/shared\<close>). Handlers may run in any number of processes and may die anywhere.

  \<^bold>\<open>Conventions\<close> (\<open>Py_Prelude\<close>). A value read from JSON is a \<open>json\<close>; a dictionary is an association list
  in insertion order (\<open>dget\<close> is \<^verbatim>\<open>get\<close>, \<open>ditem\<close> is subscription and may raise). A function that can raise has
  a result in \<open>'a py = exn + 'a\<close>, with the class of the exception and, where the program writes it, its
  message; the wording of messages the interpreter itself writes is a parameter or left out. State is passed
  in and returned, a raise included: a transaction that raises returns the state unchanged. Texts are byte
  strings in UTF-8; where code counts or folds characters \<open>Persian_Text\<close> decodes them to code points.
  Functions of the standard library that work on ASCII (\<^verbatim>\<open>lower\<close>, \<^verbatim>\<open>strip\<close>, \<^verbatim>\<open>urlsplit\<close>) are written out for
  ASCII, \<^verbatim>\<open>Counter\<close> in \<open>Py_Text\<close>, \<^verbatim>\<open>datetime\<close> in \<open>Civil_Time\<close>. Floats are exact rationals: what the
  program compares and rounds is modelled without the error of binary fractions. Set iteration order, clocks and
  random identifiers are parameters.

  \<^bold>\<open>The theories.\<close>

  \<^item> Orchestrator. \<open>Planner\<close> is \<^verbatim>\<open>planner.py\<close>; \<open>Workflow_Store\<close> is \<^verbatim>\<open>store.py\<close>, one definition for each
    transaction over the tables \<^verbatim>\<open>workflows\<close>, \<^verbatim>\<open>workflow_steps\<close> and \<^verbatim>\<open>outbox\<close> with their unique keys;
    \<open>Engine\<close> is \<^verbatim>\<open>engine.py\<close> (\<open>start\<close>, \<open>advance\<close>, \<open>on_completion\<close>, \<open>finish\<close>); \<open>Orch_Worker\<close> is
    \<^verbatim>\<open>worker.py\<close> and the narrative part of \<^verbatim>\<open>summary.py\<close>; \<open>Next_Run\<close> and \<open>Schedules\<close> are \<^verbatim>\<open>schedules.py\<close> and
    \<^verbatim>\<open>scheduler.py\<close>; \<open>Trends\<close> is \<^verbatim>\<open>trends.py\<close> with the Persian texts of \<open>Trend_Texts\<close>.
  \<^item> The orchestrator as a machine. \<open>Engine_Facts\<close> shows what each table update leaves alone and splits
    \<open>advance\<close> into elementary moves; \<open>Orchestration\<close> states the invariant \<open>db_inv\<close> of the tables and proves
    every move keeps it; \<open>Orch_Moves\<close> lifts this to transactions; \<open>Orch_System\<close> is the step relation
    \<open>orch_step\<close> of any number of processes, with lost tasks; \<open>Orch_Stability\<close> collects what never changes
    again; \<open>Orch_Properties\<close> holds a concrete run and the properties.
    \<open>Orch_Worker\<close> proves that the real handler is a run of this machine, so that they hold of the code.
  \<^item> Messaging. \<open>Bus\<close> is \<^verbatim>\<open>shared/events/bus.py\<close> (envelope, publish with one retry, acknowledge or reject);
    \<open>Contracts\<close> is \<^verbatim>\<open>shared/contracts\<close>; \<open>Outbox\<close> and \<open>Relay\<close> are the outbox of \<^verbatim>\<open>shared/db.py\<close> and
    \<^verbatim>\<open>shared/relay.py\<close>, with the machine of producers, relay and broker.
  \<^item> Services. \<open>Job_Store\<close> is both stores of \<^verbatim>\<open>shared/store.py\<close> and \<^verbatim>\<open>shared/db.py\<close>, \<open>Job_Service\<close> the worker
    every service has, \<open>Service_Http\<close> its routes and record views, \<open>Services\<close> the seven services themselves.
    \<open>Serp\<close>, \<open>Content\<close>, \<open>Link_Graph\<close>, \<open>Competitor\<close> and \<open>Optimizer\<close> are their analyses, with \<open>Upstream\<close>
    (\<^verbatim>\<open>shared/upstream.py\<close>), \<open>Llm\<close> (\<^verbatim>\<open>shared/llm/client.py\<close>), \<open>Persian_Text\<close> (\<^verbatim>\<open>shared/text.py\<close>), \<open>Url\<close>
    (\<^verbatim>\<open>urllib.parse\<close>) and \<open>Netguard\<close> (\<^verbatim>\<open>shared/netguard.py\<close>). The properties are in the theories
    \<open>*_Properties\<close>.
  \<^item> Notifications. \<open>Notifications\<close> is \<^verbatim>\<open>services/notifications\<close>; \<open>Notify_System\<close> is the machine of its workers.
  \<^item> The audit engine (\<^verbatim>\<open>src/services/engine/seoagent\<close>). \<open>Audit_Model\<close> is \<^verbatim>\<open>models.py\<close>, \<^verbatim>\<open>rules/base.py\<close> and the
    addresses of \<^verbatim>\<open>fetcher.py\<close>; the eleven theories \<open>Rules_*\<close> are the files of \<^verbatim>\<open>rules/\<close>, one definition
    \<open>check_*\<close> for each rule and one \<open>i_*\<close> for each issue it writes; \<open>Site_Audit\<close> lists the rules in the order they
    are registered and composes them, and \<open>Audit_Report\<close> is \<^verbatim>\<open>report.py\<close>. A rule is a generator: its model
    returns the issues it yields and the exception that ends it, if any (\<open>findings\<close>). Texts here are lists of
    code points, since the rules count characters; \<open>Audit_Text\<close> spells the Persian texts in ASCII (\<open>fa\<close>),
    \<open>Py_Text\<close> is \<^verbatim>\<open>str\<close> and \<open>Py_Regex\<close> the part of \<^verbatim>\<open>re\<close> the rules use, a backtracking matcher whose
    repetition is bounded by the length of the text. \<open>Seo_Limits\<close> is \<^verbatim>\<open>shared/seo.py\<close>. Penalties take a square
    root and are real numbers.
  \<^item> The crawler (same directory). \<open>Url\<close> and \<open>Robots\<close> are the parts of \<^verbatim>\<open>urllib\<close> it uses, \<open>Fetcher\<close> is
    \<^verbatim>\<open>fetcher.py\<close>, \<open>Page_Parser\<close> is \<^verbatim>\<open>parser.py\<close> over the questions it asks BeautifulSoup, \<open>Crawler\<close> is
    \<^verbatim>\<open>crawler.py\<close>. The network is a world of any type that each request changes and that answers from its whole
    history (\<open>action\<close>). \<open>Crawler_Facts\<close> holds the invariant of the crawl and \<open>Crawler_Properties\<close> what follows
    from it; \<open>Crawl_Work\<close> composes crawl, audit and report as \<^verbatim>\<open>run_crawl\<close> does.
  \<^item> Reporting (\<^verbatim>\<open>src/services/reporting\<close>). \<open>Report_Render\<close> is \<^verbatim>\<open>render.py\<close>, the Markdown text and the HTML page of a
    workflow; \<open>Reporting\<close> the record class, the run, the worker and the routes; \<open>Report_Safety\<close> reads the tags of a
    page and how they nest, \<open>Report_Properties\<close> holds the properties of the service.
  \<^item> Keywords (\<^verbatim>\<open>src/services/engine/seoagent/keywords\<close>). \<open>Keyword_Terms\<close> is \<^verbatim>\<open>expand.py\<close> and \<^verbatim>\<open>analyze.py\<close>,
    \<open>Keyword_Research\<close> is \<^verbatim>\<open>sources.py\<close> and \<^verbatim>\<open>research.py\<close> over a network as the crawler has it; \<open>Keyword_Properties\<close>
    holds the properties and \<open>Keyword_Work\<close> what other services read of a report.

  \<^bold>\<open>Interfaces\<close> (\<open>Systems\<close>, \<open>Job_Store\<close>). \<open>invariant_system\<close> is interpreted for the orchestrator (with and
  without losses), the relay and the notification workers; \<open>draining_loop\<close>, a pass that shrinks a
  backlog, for the relay and the scheduler; \<open>job_store\<close>, the contract the services rely on, for the file store
  and the Postgres store.

  \<^bold>\<open>What is shown.\<close> Of the orchestrator: one step at a time, in plan order; exactly one request for each step
  that was sent; finished workflows and settled steps stay as they are; at most one announcement; no workflow is
  forgotten as long as no process dies between two transactions, and a workflow whose process does die there is
  stuck. Of messaging: no staged event is lost, a relay pass is all or nothing, the backlog drains in order. Of
  schedules: each due schedule fires once per pass, the next run is the next wall clock time the
  schedule names, and the scheduler catches up. Of the services: a request is answered once, a
  failure reaches the orchestrator, a foreign job looks missing, both stores agree. Of the analyses: what
  each report says is exactly what its definition says, and their numbers stay in range. Of the guard and the
  notifications: internal addresses are not fetched, nobody is notified twice.
  Of the audit: a failing rule loses nothing but what it had still to find, scores stay in range, more
  findings never raise a category, the verdicts on titles are exact and agree with the optimizer, every
  page of the report can be read by the services that use it, and robots.txt is misread in two ways.
  Of the crawler: it stays on its site and within its limits whatever the servers answer, its depths are
  click distances, it misses nothing when it is not cut off, it ends, and its report can be announced; one
  malformed link ends it, and rules for it by its own name are ignored.
  Of the reports: no text of a page, a keyword or a model can put a tag into the HTML document or break its nesting;
  what was rendered is what is served, to its tenant only; a finished workflow is rendered once as long as its report
  is among the newest 200.
  Of the keywords: every suggestion is counted once, every keyword is in one cluster, each report can be announced and
  read; an optional source can end a research.

  \<^bold>\<open>Bounds and termination.\<close> The loops of the code are structural recursions over the list they traverse, and
  so total. The loop of the crawl is
  \<open>while_option\<close>, with no value when it does not end, and is proved to end; the queue of sitemaps ends because at
  most 25 are read. Two have a bound: \<open>monthly_loop\<close> tries this month and the next, as the code does (enough by
  \<open>monthly_first\<close>), and \<open>rank_loop\<close> makes at most \<open>ITERATIONS\<close> rounds, as the code does. Passes
  that repeat for ever in the code (relay, scheduler) are modelled as one pass, and draining is proved for a
  sufficient number of them.

  \<^bold>\<open>Parameters.\<close> Code that is not in the repository is an argument: the schema validator and the schemas, the tables
  of Unicode, the time zone database, name resolution, HTTP, SMTP and HMAC, the SDK of the language model, the
  readers and writers of JSON and floats. Assumptions about them are hypotheses of the theorems that need
  them, each with a witness that shows it can hold.

  \<^bold>\<open>Not modelled.\<close> Opening connections, polling loops, logging and process start-up are I/O; the search result
  scraper of \<^verbatim>\<open>services/serp/providers.py\<close>, the exports, the PageSpeed client and the prompts of
  \<^verbatim>\<open>services/engine\<close> and its web interface, and the texts of the rule-based summary are left out: they are network
  access, HTML parsing and wording. The route functions of \<^verbatim>\<open>agents/orchestrator/api.py\<close> only hand requests to the
  stores and the engine. Columns of the Postgres tables that are computed from the payload for reporting queries are
  not kept.
\<close>

end
